(* ===== verification/Prelude.thy ===== *)
theory Prelude
  imports Complex_Main "HOL-Library.AList"
begin

text \<open>
  Shared vocabulary of the development.

  \<^item> Fallible code: a call that may throw is a value of \<open>'e + 'a\<close>, with
    \<open>Inl\<close> for the thrown error. \<open>bind_result\<close> sequences such calls and
    \<open>mapM\<close> is \<open>Array.prototype.map\<close> with a callback that may throw.
  \<^item> JavaScript \<open>Map\<close> and \<open>Set\<close> objects iterate in insertion order, and both
    the order and the size matter to the program (oldest-first eviction, limits). A \<open>Map\<close>
    is an association list with distinct keys, written by \<open>AList.update\<close> (which overwrites
    in place or appends, as \<open>Map.set\<close> does) and \<open>AList.delete\<close>; a \<open>Set\<close> is
    a list without repetitions, written by \<open>set_add\<close> and \<open>set_delete\<close>.
  \<^item> Interleavings: a server is a step function over atomic events (the code between two
    \<open>await\<close>s), and \<open>run\<close> folds it over a list of events, one list per schedule.
  \<^item> Interfaces: \<open>step_invariant\<close> is the contract between a step function and a
    predicate it keeps; \<open>refinement_map\<close> the contract between a server and an abstract
    specification; \<open>id_ledger\<close> the contract that the servers with an identity ledger
    (active and retired correlation ids) promise to their clients; \<open>exact_evaluation\<close> the
    contract between an evaluator and the semantics it computes.
\<close>

named_theorems result_simps \<open>equations of the result combinators\<close>
named_theorems collection_simps \<open>equations of the insertion-ordered collections\<close>

section \<open>Results of code that may throw\<close>

fun bind_result :: "'e + 'a \<Rightarrow> ('a \<Rightarrow> 'e + 'b) \<Rightarrow> 'e + 'b" where
  "bind_result (Inl e) f = Inl e"
| "bind_result (Inr a) f = f a"

definition throw_if :: "bool \<Rightarrow> 'e \<Rightarrow> 'e + unit" where
  "throw_if b e = (if b then Inl e else Inr ())"

fun mapM :: "('a \<Rightarrow> 'e + 'b) \<Rightarrow> 'a list \<Rightarrow> 'e + 'b list" where
  "mapM f [] = Inr []"
| "mapM f (x # xs) = bind_result (f x) (\<lambda>y. bind_result (mapM f xs) (\<lambda>ys. Inr (y # ys)))"

lemma bind_result_Inr_iff [result_simps]:
  "bind_result r f = Inr b \<longleftrightarrow> (\<exists>a. r = Inr a \<and> f a = Inr b)"
  by (cases r) auto

lemma bind_result_Inl_iff [result_simps]:
  "bind_result r f = Inl e \<longleftrightarrow> r = Inl e \<or> (\<exists>a. r = Inr a \<and> f a = Inl e)"
  by (cases r) auto

lemma if_Inl_Inr_iff [result_simps]: "(if b then Inl e else r) = Inr y \<longleftrightarrow> \<not> b \<and> r = Inr y"
  by simp

lemma case_option_Inl_Inr_iff [result_simps]:
  "(case v of None \<Rightarrow> r | Some x \<Rightarrow> Inl (f x)) = Inr y \<longleftrightarrow> v = None \<and> r = Inr y"
  by (simp split: option.split)

lemma throw_if_Inr_iff [result_simps]: "throw_if b e = Inr u \<longleftrightarrow> \<not> b"
  by (simp add: throw_if_def)

lemma throw_if_Inl_iff [result_simps]: "throw_if b e = Inl e' \<longleftrightarrow> b \<and> e' = e"
  by (auto simp: throw_if_def)

lemma throw_if_False [simp]: "throw_if False e = Inr ()"
  by (simp add: throw_if_def)

lemma throw_if_True [simp]: "throw_if True e = Inl e"
  by (simp add: throw_if_def)

lemma mapM_Inr_iff: "mapM f xs = Inr ys \<longleftrightarrow> list_all2 (\<lambda>x y. f x = Inr y) xs ys"
proof (induction xs arbitrary: ys)
  case Nil
  then show ?case by auto
next
  case (Cons x xs)
  then show ?case
    by (cases ys) (auto simp: result_simps list_all2_Cons1)
qed

lemma mapM_length: "mapM f xs = Inr ys \<Longrightarrow> length ys = length xs"
  by (auto simp: mapM_Inr_iff dest: list_all2_lengthD)

lemma mapM_set: "mapM f xs = Inr ys \<Longrightarrow> y \<in> set ys \<Longrightarrow> \<exists>x \<in> set xs. f x = Inr y"
  by (auto simp: mapM_Inr_iff list_all2_conv_all_nth in_set_conv_nth) (metis nth_mem)

lemma mapM_cong [fundef_cong]:
  "xs = ys \<Longrightarrow> (\<And>x. x \<in> set ys \<Longrightarrow> f x = g x) \<Longrightarrow> mapM f xs = mapM g ys"
  by (induction xs arbitrary: ys) auto

section \<open>Insertion-ordered collections\<close>

definition set_add :: "'a \<Rightarrow> 'a list \<Rightarrow> 'a list" where
  "set_add x xs = (if x \<in> set xs then xs else xs @ [x])"

definition set_delete :: "'a \<Rightarrow> 'a list \<Rightarrow> 'a list" where
  "set_delete x xs = filter (\<lambda>y. y \<noteq> x) xs"

definition map_has :: "('k \<times> 'v) list \<Rightarrow> 'k \<Rightarrow> bool" where
  "map_has m k \<longleftrightarrow> map_of m k \<noteq> None"

lemma set_set_add [simp]: "set (set_add x xs) = insert x (set xs)"
  by (auto simp: set_add_def)

lemma distinct_set_add [simp]: "distinct (set_add x xs) \<longleftrightarrow> distinct xs"
  by (auto simp: set_add_def)

lemma length_set_add [collection_simps]:
  "length (set_add x xs) = (if x \<in> set xs then length xs else Suc (length xs))"
  by (simp add: set_add_def)

lemma set_set_delete [simp]: "set (set_delete x xs) = set xs - {x}"
  by (auto simp: set_delete_def)

lemma distinct_set_delete [simp]: "distinct xs \<Longrightarrow> distinct (set_delete x xs)"
  by (simp add: set_delete_def)

lemma length_set_delete_le: "length (set_delete x xs) \<le> length xs"
  by (simp add: set_delete_def)

lemma map_has_iff [collection_simps]: "map_has m k \<longleftrightarrow> k \<in> fst ` set m"
  by (auto simp: map_has_def map_of_eq_None_iff)

lemma keys_update [collection_simps]: "fst ` set (AList.update k v m) = insert k (fst ` set m)"
proof -
  have "dom (map_of (AList.update k v m)) = insert k (dom (map_of m))"
    by (simp add: update_conv')
  then show ?thesis by (simp add: dom_map_of_conv_image_fst)
qed

lemma keys_delete [collection_simps]: "fst ` set (AList.delete k m) = fst ` set m - {k}"
  by (auto simp: AList.delete_eq)

lemma length_update_fresh [collection_simps]:
  "k \<notin> fst ` set m \<Longrightarrow> length (AList.update k v m) = Suc (length m)"
  by (induction m) auto

lemma length_update_present [collection_simps]:
  "k \<in> fst ` set m \<Longrightarrow> length (AList.update k v m) = length m"
  by (induction m) auto

lemma delete_absent [collection_simps]: "k \<notin> fst ` set m \<Longrightarrow> AList.delete k m = m"
  by (force simp: AList.delete_eq filter_id_conv)

lemma length_delete_present [collection_simps]:
  "distinct (map fst m) \<Longrightarrow> k \<in> fst ` set m \<Longrightarrow> Suc (length (AList.delete k m)) = length m"
proof (induction m)
  case Nil
  then show ?case by simp
next
  case (Cons p m)
  show ?case
  proof (cases "fst p = k")
    case True
    then have "k \<notin> fst ` set m" using Cons.prems by auto
    then have "AList.delete k m = m" by (rule delete_absent)
    with True show ?thesis by (cases p) (simp add: AList.delete_eq)
  next
    case False
    with Cons show ?thesis by (auto simp: AList.delete_eq)
  qed
qed

lemma update_fresh: "k \<notin> fst ` set m \<Longrightarrow> AList.update k v m = m @ [(k, v)]"
  by (induction m) auto

lemma delete_append_fresh: "k \<notin> fst ` set m \<Longrightarrow> AList.delete k (m @ [(k, v)]) = m"
  by (simp add: AList.delete_eq filter_id_conv) force

lemma map_fst_delete: "map fst (AList.delete k m) = set_delete k (map fst m)"
  by (induction m) (auto simp: set_delete_def)

lemma find_None_all: "find P xs = None \<longleftrightarrow> (\<forall>x \<in> set xs. \<not> P x)"
  by (induction xs) auto

section \<open>Runs of a step function\<close>

fun run :: "('s \<Rightarrow> 'e \<Rightarrow> 's) \<Rightarrow> 's \<Rightarrow> 'e list \<Rightarrow> 's" where
  "run step s [] = s"
| "run step s (e # es) = run step (step s e) es"

lemma run_append: "run step s (es @ fs) = run step (run step s es) fs"
  by (induction es arbitrary: s) auto

text \<open>The identities admitted along a run, in order.\<close>

fun admissions :: "('s \<Rightarrow> 'e \<Rightarrow> 's) \<Rightarrow> ('s \<Rightarrow> 'e \<Rightarrow> 'k option) \<Rightarrow> 's \<Rightarrow> 'e list \<Rightarrow> 'k list" where
  "admissions step adm s [] = []"
| "admissions step adm s (e # es) =
     (case adm s e of None \<Rightarrow> [] | Some k \<Rightarrow> [k]) @ admissions step adm (step s e) es"

locale step_invariant =
  fixes step :: "'s \<Rightarrow> 'e \<Rightarrow> 's"
    and inv :: "'s \<Rightarrow> bool"
  assumes inv_step: "inv s \<Longrightarrow> inv (step s e)"
begin

lemma inv_run: "inv s \<Longrightarrow> inv (run step s es)"
  by (induction es arbitrary: s) (auto intro: inv_step)

end

text \<open>
  The contract between a server and an abstract specification: the abstraction of every step from
  a state with the invariant is a move of the specification, so what the moves keep holds of the
  abstraction of every reachable state.
\<close>

locale refinement_map = step_invariant step inv
  for step :: "'s \<Rightarrow> 'e \<Rightarrow> 's" and inv :: "'s \<Rightarrow> bool" +
  fixes abst :: "'s \<Rightarrow> 'a"
    and move :: "'a \<Rightarrow> 'a \<Rightarrow> bool"
  assumes simulation: "inv s \<Longrightarrow> move (abst s) (abst (step s e))"
begin

lemma run_moves: "inv s \<Longrightarrow> move\<^sup>*\<^sup>* (abst s) (abst (run step s es))"
proof (induction es arbitrary: s)
  case Nil
  then show ?case by simp
next
  case (Cons e es)
  then have "move\<^sup>*\<^sup>* (abst (step s e)) (abst (run step s (e # es)))"
    using inv_step by simp
  then show ?case
    using simulation [OF Cons.prems] by (rule converse_rtranclp_into_rtranclp [rotated])
qed

lemma run_keeps:
  assumes "inv s" and "P (abst s)" and keeps: "\<And>a b. P a \<Longrightarrow> move a b \<Longrightarrow> P b"
  shows "P (abst (run step s es))"
  using run_moves [OF assms(1), of es] assms(2)
  by (induction rule: rtranclp_induct) (auto intro: keeps)

end

text \<open>
  The contract of an identity ledger: an identity is admitted only when it is unknown, an
  admitted identity becomes known, and a known identity stays known. Clients rely on the
  consequence that no identity is ever admitted twice, in any schedule.
\<close>

locale id_ledger = step_invariant step inv
  for step :: "'s \<Rightarrow> 'e \<Rightarrow> 's" and inv :: "'s \<Rightarrow> bool" +
  fixes adm :: "'s \<Rightarrow> 'e \<Rightarrow> 'k option"
    and known :: "'s \<Rightarrow> 'k set"
  assumes adm_fresh: "inv s \<Longrightarrow> adm s e = Some k \<Longrightarrow> k \<notin> known s"
    and adm_known: "inv s \<Longrightarrow> adm s e = Some k \<Longrightarrow> k \<in> known (step s e)"
    and known_mono: "inv s \<Longrightarrow> known s \<subseteq> known (step s e)"
begin

lemma known_run: "inv s \<Longrightarrow> known s \<subseteq> known (run step s es)"
proof (induction es arbitrary: s)
  case Nil
  then show ?case by simp
next
  case (Cons e es)
  then show ?case using known_mono [of s e] inv_step [of s e] by auto
qed

lemma admissions_fresh: "inv s \<Longrightarrow> k \<in> set (admissions step adm s es) \<Longrightarrow> k \<notin> known s"
proof (induction es arbitrary: s)
  case Nil
  then show ?case by simp
next
  case (Cons e es)
  then show ?case
    using adm_fresh [of s e] known_mono [of s e] inv_step [of s e] by (auto split: option.splits)
qed

lemma admissions_distinct: "inv s \<Longrightarrow> distinct (admissions step adm s es)"
proof (induction es arbitrary: s)
  case Nil
  then show ?case by simp
next
  case (Cons e es)
  then show ?case
    using adm_known [of s e] inv_step [of s e] by (auto split: option.splits dest: admissions_fresh)
qed

lemma admissions_known: "inv s \<Longrightarrow> set (admissions step adm s es) \<subseteq> known (run step s es)"
proof (induction es arbitrary: s)
  case Nil
  then show ?case by simp
next
  case (Cons e es)
  then show ?case
    using adm_known [of s e] inv_step [of s e] known_run [of "step s e" es] by (auto split: option.splits)
qed

end

text \<open>
  The contract between an evaluator that may throw and the semantics it computes: it returns
  exactly what the relation relates. Clients get that the relation is functional and that the
  evaluator throws exactly where the relation is undefined.
\<close>

locale exact_evaluation =
  fixes eval :: "'p \<Rightarrow> 'x + 'a"
    and den :: "'p \<Rightarrow> 'a \<Rightarrow> bool"
  assumes exact: "eval p = Inr a \<longleftrightarrow> den p a"
begin

lemma determined: "den p a \<Longrightarrow> den p b \<Longrightarrow> a = b"
  by (metis exact sum.inject(2))

lemma throws_iff: "(\<exists>x. eval p = Inl x) \<longleftrightarrow> (\<nexists>a. den p a)"
  by (cases "eval p") (auto simp: exact [symmetric])

end

end
