(* ===== verification/Text_Encoding.thy ===== *)
theory Text_Encoding
  imports Prelude "HOL-Library.List_Lexorder"
begin

text \<open>
  Text as the program sees it. A JavaScript string is represented by its UTF-8 encoding, a list
  of bytes (\<open>string\<close>, one \<open>char\<close> per byte), so that
  \<open>new TextEncoder().encode(s).byteLength\<close> is \<open>length s\<close> and equality and prefix tests
  agree with the source. Strings with unpaired surrogates have no such encoding and are not
  represented.

  The decoder is the one of the Encoding Standard that \<open>TextDecoder\<close> implements: a byte at a
  time, with the number of continuation bytes still needed and the admissible range of the next
  byte; a malformed sequence yields one replacement character (or an exception in fatal mode),
  and a leading byte order mark is dropped.

  On top of it stand the two functions of the program that bound an error text before it goes on
  the wire: \<open>boundedErrorV1\<close> (process-v1.ts, cuts between characters) and
  \<open>boundedErrorV2\<close> (v2.ts, cuts the bytes and decodes what is left).
\<close>

section \<open>The UTF-8 decoder\<close>

datatype emission = Text string | Malformed

record decoder =
  dec_pending :: string
  dec_needed :: nat
  dec_lower :: nat
  dec_upper :: nat

definition decoder_start :: decoder where
  "decoder_start = \<lparr>dec_pending = [], dec_needed = 0, dec_lower = 128, dec_upper = 191\<rparr>"

definition dec_lead :: "char \<Rightarrow> emission list \<times> decoder" where
  "dec_lead c =
     (let b = of_char c :: nat in
      if b \<le> 127 then ([Text [c]], decoder_start)
      else if 194 \<le> b \<and> b \<le> 223 then
        ([], \<lparr>dec_pending = [c], dec_needed = 1, dec_lower = 128, dec_upper = 191\<rparr>)
      else if 224 \<le> b \<and> b \<le> 239 then
        ([], \<lparr>dec_pending = [c], dec_needed = 2,
              dec_lower = (if b = 224 then 160 else 128), dec_upper = (if b = 237 then 159 else 191)\<rparr>)
      else if 240 \<le> b \<and> b \<le> 244 then
        ([], \<lparr>dec_pending = [c], dec_needed = 3,
              dec_lower = (if b = 240 then 144 else 128), dec_upper = (if b = 244 then 143 else 191)\<rparr>)
      else ([Malformed], decoder_start))"

definition dec_byte :: "decoder \<Rightarrow> char \<Rightarrow> emission list \<times> decoder" where
  "dec_byte d c =
     (let b = of_char c :: nat in
      if dec_needed d = 0 then dec_lead c
      else if b < dec_lower d \<or> dec_upper d < b then
        (case dec_lead c of (es, d') \<Rightarrow> (Malformed # es, d'))
      else if dec_needed d = 1 then ([Text (dec_pending d @ [c])], decoder_start)
      else ([], \<lparr>dec_pending = dec_pending d @ [c], dec_needed = dec_needed d - 1, dec_lower = 128, dec_upper = 191\<rparr>))"

fun dec_bytes :: "decoder \<Rightarrow> string \<Rightarrow> emission list \<times> decoder" where
  "dec_bytes d [] = ([], d)"
| "dec_bytes d (c # cs) =
     (case dec_byte d c of (es, d') \<Rightarrow> case dec_bytes d' cs of (fs, d'') \<Rightarrow> (es @ fs, d''))"

definition dec_flush :: "decoder \<Rightarrow> emission list" where
  "dec_flush d = (if dec_needed d = 0 then [] else [Malformed])"

definition replacement_character :: string where
  "replacement_character = [CHR 0xEF, CHR 0xBF, CHR 0xBD]"

fun emission_text :: "emission \<Rightarrow> string" where
  "emission_text (Text s) = s"
| "emission_text Malformed = replacement_character"

definition emissions :: "string \<Rightarrow> emission list" where
  "emissions s = (case dec_bytes decoder_start s of (es, d) \<Rightarrow> es @ dec_flush d)"

definition utf8_chars :: "string \<Rightarrow> string list" where
  "utf8_chars s = map emission_text (emissions s)"

definition utf8_valid :: "string \<Rightarrow> bool" where
  "utf8_valid s \<longleftrightarrow> Malformed \<notin> set (emissions s)"

definition strip_bom :: "string \<Rightarrow> string" where
  "strip_bom s = (if take 3 s = [CHR 0xEF, CHR 0xBB, CHR 0xBF] then drop 3 s else s)"

definition text_decode :: "string \<Rightarrow> string" where
  "text_decode s = strip_bom (concat (utf8_chars s))"

definition text_decode_fatal :: "string \<Rightarrow> string option" where
  "text_decode_fatal s = (if utf8_valid s then Some (text_decode s) else None)"

subsection \<open>UTF-16 view\<close>

fun code_point :: "string \<Rightarrow> nat" where
  "code_point [a] = of_char a"
| "code_point [a, b] = (of_char a - 192) * 64 + (of_char b - 128)"
| "code_point [a, b, c] = ((of_char a - 224) * 64 + (of_char b - 128)) * 64 + (of_char c - 128)"
| "code_point [a, b, c, d] =
     (((of_char a - 240) * 64 + (of_char b - 128)) * 64 + (of_char c - 128)) * 64 + (of_char d - 128)"
| "code_point _ = 0"

definition utf16_of_char :: "string \<Rightarrow> nat list" where
  "utf16_of_char s =
     (let p = code_point s in
      if p < 65536 then [p] else [55296 + (p - 65536) div 1024, 56320 + (p - 65536) mod 1024])"

text \<open>The code units of a string: its \<open>length\<close> and the order of \<open>Array.prototype.sort\<close>.\<close>

definition utf16_units :: "string \<Rightarrow> nat list" where
  "utf16_units s = concat (map utf16_of_char (utf8_chars s))"

definition js_length :: "string \<Rightarrow> nat" where
  "js_length s = length (utf16_units s)"

definition js_sort :: "string list \<Rightarrow> string list" where
  "js_sort = sort_key utf16_units"

section \<open>Bounded error texts\<close>

text \<open>A thrown value: an \<open>Error\<close>, an object of another kind, or a primitive.\<close>

datatype thrown = ErrorObject string | PlainObject | PrimitiveValue string

fun errorMessage :: "thrown \<Rightarrow> string" where
  "errorMessage (ErrorObject m) = m"
| "errorMessage PlainObject = ''[object Object]''"
| "errorMessage (PrimitiveValue s) = s"

fun bounded_loop :: "nat \<Rightarrow> string list \<Rightarrow> string" where
  "bounded_loop n [] = []"
| "bounded_loop n (c # cs) =
     (if n + length c > 1024 then [] else c @ bounded_loop (n + length c) cs)"

definition boundedErrorV1 :: "thrown \<Rightarrow> string" where
  "boundedErrorV1 e =
     (let message = errorMessage e;
          text = (if message = [] then ''Plugin failed'' else message);
          bounded = bounded_loop 0 (utf8_chars text)
      in if bounded = [] then ''Plugin failed'' else bounded)"

definition boundedErrorV2 :: "thrown \<Rightarrow> string" where
  "boundedErrorV2 e =
     (let v = errorMessage e;
          nonempty = (if v = [] then ''Plugin returned an empty failure detail'' else v)
      in text_decode (take 1024 nonempty))"

section \<open>Laws of the decoder\<close>

definition decoder_ok :: "decoder \<Rightarrow> bool" where
  "decoder_ok d \<longleftrightarrow> (dec_needed d = 0 \<longleftrightarrow> dec_pending d = []) \<and> length (dec_pending d) + dec_needed d \<le> 4"

definition texts :: "emission list \<Rightarrow> string" where
  "texts es = concat (map emission_text es)"

lemma texts_simps [simp]:
  "texts [] = []" "texts (e # es) = emission_text e @ texts es" "texts (es @ fs) = texts es @ texts fs"
  by (simp_all add: texts_def)

lemma decoder_ok_start [simp]: "decoder_ok decoder_start"
  by (simp add: decoder_ok_def decoder_start_def)

lemma decoder_start_fields [simp]:
  "dec_needed decoder_start = 0" "dec_pending decoder_start = []"
  by (simp_all add: decoder_start_def)

lemma dec_lead_ok: "dec_lead c = (es, d) \<Longrightarrow> decoder_ok d"
  by (auto simp: dec_lead_def Let_def decoder_ok_def split: if_splits)

lemma dec_lead_text:
  "dec_lead c = (es, d) \<Longrightarrow> Malformed \<notin> set es \<Longrightarrow> texts es @ dec_pending d = [c]"
  by (auto simp: dec_lead_def Let_def split: if_splits)

lemma dec_byte_ok: "decoder_ok d \<Longrightarrow> dec_byte d c = (es, d') \<Longrightarrow> decoder_ok d'"
  by (auto simp: dec_byte_def Let_def decoder_ok_def split: if_splits prod.splits
      dest!: dec_lead_ok [unfolded decoder_ok_def])

lemma dec_byte_text:
  assumes "decoder_ok d" and "dec_byte d c = (es, d')" and "Malformed \<notin> set es"
  shows "texts es @ dec_pending d' = dec_pending d @ [c]"
  using assms by (auto simp: dec_byte_def Let_def decoder_ok_def split: if_splits prod.splits
      dest!: dec_lead_text)

lemma dec_bytes_ok: "decoder_ok d \<Longrightarrow> dec_bytes d s = (es, d') \<Longrightarrow> decoder_ok d'"
  by (induction s arbitrary: d es) (auto split: prod.splits dest: dec_byte_ok)

lemma dec_bytes_text:
  "decoder_ok d \<Longrightarrow> dec_bytes d s = (es, d') \<Longrightarrow> Malformed \<notin> set es \<Longrightarrow>
   texts es @ dec_pending d' = dec_pending d @ s"
proof (induction s arbitrary: d es)
  case Nil
  then show ?case by simp
next
  case (Cons c cs)
  obtain es1 d1 where b: "dec_byte d c = (es1, d1)" by fastforce
  obtain es2 d2 where r: "dec_bytes d1 cs = (es2, d2)" by fastforce
  have es: "es = es1 @ es2" "d' = d2" using Cons.prems(2) b r by auto
  have "texts es2 @ dec_pending d2 = dec_pending d1 @ cs"
    using Cons.IH [OF dec_byte_ok [OF Cons.prems(1) b] , of es2] r es Cons.prems(3) by auto
  moreover have "texts es1 @ dec_pending d1 = dec_pending d @ [c]"
    using dec_byte_text [OF Cons.prems(1) b] Cons.prems(3) es by auto
  ultimately show ?case using es by (metis append.assoc append_Cons append_Nil texts_simps(3))
qed

lemma dec_bytes_append:
  "dec_bytes d (s @ t) =
     (case dec_bytes d s of (es, d') \<Rightarrow> case dec_bytes d' t of (fs, d'') \<Rightarrow> (es @ fs, d''))"
  by (induction s arbitrary: d) (auto split: prod.splits)

lemma utf8_valid_prefix:
  assumes "utf8_valid (p @ s)" and "dec_bytes decoder_start p = (es, d)"
  shows "Malformed \<notin> set es"
  using assms by (auto simp: utf8_valid_def emissions_def dec_bytes_append split: prod.splits)

lemma concat_utf8_chars: "utf8_valid s \<Longrightarrow> concat (utf8_chars s) = s"
proof -
  assume v: "utf8_valid s"
  obtain es d where d: "dec_bytes decoder_start s = (es, d)" by fastforce
  have "dec_needed d = 0" and "Malformed \<notin> set es"
    using v d by (auto simp: utf8_valid_def emissions_def dec_flush_def split: if_splits)
  moreover have "decoder_ok d" using d by (auto intro: dec_bytes_ok [OF decoder_ok_start])
  ultimately show ?thesis
    using dec_bytes_text [OF decoder_ok_start d] d
    by (auto simp: utf8_chars_def emissions_def dec_flush_def decoder_ok_def texts_def)
qed

text \<open>Cutting valid text after any byte costs at most one replacement character.\<close>

lemma length_text_decode_prefix:
  assumes "utf8_valid (p @ s)"
  shows "length (text_decode p) \<le> length p + 2"
proof -
  obtain es d where d: "dec_bytes decoder_start p = (es, d)" by fastforce
  have t: "texts es @ dec_pending d = p"
    using dec_bytes_text [OF decoder_ok_start d utf8_valid_prefix [OF assms d]] by simp
  have ok: "decoder_ok d" using d by (auto intro: dec_bytes_ok [OF decoder_ok_start])
  have "length (concat (utf8_chars p)) = length (texts es) + (if dec_needed d = 0 then 0 else 3)"
    using d by (simp add: utf8_chars_def emissions_def dec_flush_def texts_def replacement_character_def)
  also have "\<dots> \<le> length p + 2"
    using t ok by (cases "dec_pending d") (auto simp: decoder_ok_def simp flip: t)
  finally show ?thesis by (auto simp: text_decode_def strip_bom_def)
qed

lemma emissions_ascii: "\<forall>c \<in> set s. (of_char c :: nat) \<le> 127 \<Longrightarrow>
  dec_bytes decoder_start s = (map (\<lambda>c. Text [c]) s, decoder_start)"
  by (induction s) (auto simp: dec_byte_def dec_lead_def Let_def)

lemma utf8_valid_ascii: "\<forall>c \<in> set s. (of_char c :: nat) \<le> 127 \<Longrightarrow> utf8_valid s"
  by (auto simp: utf8_valid_def emissions_def emissions_ascii dec_flush_def)

section \<open>Laws of the bounded texts\<close>

lemma bounded_loop_length: "n + length (bounded_loop n cs) \<le> max n 1024"
  by (induction n cs rule: bounded_loop.induct) auto

lemma bounded_loop_take: "\<exists>k. bounded_loop n cs = concat (take k cs)"
proof (induction n cs rule: bounded_loop.induct)
  case (1 n)
  then show ?case by simp
next
  case (2 n c cs)
  show ?case
  proof (cases "n + length c > 1024")
    case True
    then show ?thesis by (intro exI [of _ 0]) simp
  next
    case False
    with 2 obtain k where "bounded_loop (n + length c) cs = concat (take k cs)" by auto
    with False show ?thesis by (intro exI [of _ "Suc k"]) simp
  qed
qed

lemma bounded_loop_complete: "n + length (concat cs) \<le> 1024 \<Longrightarrow> bounded_loop n cs = concat cs"
  by (induction n cs rule: bounded_loop.induct) auto

lemma dec_lead_sizes:
  "dec_lead c = (es, d) \<Longrightarrow> Text t \<in> set es \<Longrightarrow> t \<noteq> [] \<and> length t \<le> 4"
  by (auto simp: dec_lead_def Let_def split: if_splits)

lemma dec_byte_sizes:
  "decoder_ok d \<Longrightarrow> dec_byte d c = (es, d') \<Longrightarrow> Text t \<in> set es \<Longrightarrow> t \<noteq> [] \<and> length t \<le> 4"
  by (auto simp: dec_byte_def Let_def decoder_ok_def split: if_splits prod.splits dest: dec_lead_sizes)

lemma dec_bytes_sizes:
  "decoder_ok d \<Longrightarrow> dec_bytes d s = (es, d') \<Longrightarrow> Text t \<in> set es \<Longrightarrow> t \<noteq> [] \<and> length t \<le> 4"
proof (induction s arbitrary: d es)
  case Nil
  then show ?case by simp
next
  case (Cons c cs)
  obtain es1 d1 where b: "dec_byte d c = (es1, d1)" by fastforce
  obtain es2 d2 where r: "dec_bytes d1 cs = (es2, d2)" by fastforce
  have "Text t \<in> set es1 \<or> Text t \<in> set es2" and "d2 = d'" using Cons.prems b r by auto
  then show ?case
    using Cons.IH [OF dec_byte_ok [OF Cons.prems(1) b]] r dec_byte_sizes [OF Cons.prems(1) b] by blast
qed

lemma utf8_chars_sizes: "c \<in> set (utf8_chars s) \<Longrightarrow> c \<noteq> [] \<and> length c \<le> 4"
proof -
  assume c: "c \<in> set (utf8_chars s)"
  obtain es d where d: "dec_bytes decoder_start s = (es, d)" by fastforce
  obtain x where "x \<in> set (emissions s)" and "c = emission_text x"
    using c by (auto simp: utf8_chars_def)
  then have "c = replacement_character \<or> Text c \<in> set es"
    using d by (cases x rule: emission.exhaust) (auto simp: emissions_def dec_flush_def split: if_splits)
  then show ?thesis
    using dec_bytes_sizes [OF decoder_ok_start d] by (auto simp: replacement_character_def)
qed

lemma bounded_loop_nonempty:
  assumes "utf8_valid s" and "s \<noteq> []"
  shows "bounded_loop 0 (utf8_chars s) \<noteq> []"
proof (cases "utf8_chars s")
  case Nil
  with concat_utf8_chars [OF assms(1)] assms(2) show ?thesis by simp
next
  case (Cons c cs)
  with utf8_chars_sizes [of c s] show ?thesis by simp
qed

lemma utf8_valid_default: "utf8_valid ''Plugin failed''"
  by (rule utf8_valid_ascii) simp

text \<open>The text that process-v1.ts puts into a failure detail is never empty and never longer
  than 1024 bytes; it is cut between characters of the error's message, and it is the message
  itself whenever that fits.\<close>

theorem boundedErrorV1_correct:
  assumes "utf8_valid (errorMessage e)" and "errorMessage e \<noteq> []"
  shows "boundedErrorV1 e \<noteq> [] \<and> length (boundedErrorV1 e) \<le> 1024 \<and>
    (\<exists>k. boundedErrorV1 e = concat (take k (utf8_chars (errorMessage e)))) \<and>
    (length (errorMessage e) \<le> 1024 \<longrightarrow> boundedErrorV1 e = errorMessage e)"
proof -
  let ?cs = "utf8_chars (errorMessage e)"
  have eq: "boundedErrorV1 e = bounded_loop 0 ?cs"
    using assms bounded_loop_nonempty [OF assms] by (simp add: boundedErrorV1_def Let_def)
  have "length (bounded_loop 0 ?cs) \<le> 1024" using bounded_loop_length [of 0 ?cs] by simp
  moreover have "bounded_loop 0 ?cs = errorMessage e" if "length (errorMessage e) \<le> 1024"
    using that bounded_loop_complete [of 0 ?cs] concat_utf8_chars [OF assms(1)] by simp
  ultimately show ?thesis
    unfolding eq using bounded_loop_nonempty [OF assms] bounded_loop_take by blast
qed

theorem boundedErrorV1_correct_witness:
  "boundedErrorV1 (ErrorObject ''boom'') = ''boom''"
proof -
  have v: "utf8_valid (errorMessage (ErrorObject ''boom''))"
    by (simp, rule utf8_valid_ascii) simp
  show ?thesis using boundedErrorV1_correct [OF v] by simp
qed

text \<open>The text that v2.ts puts into a failure detail can exceed its 1024 byte limit: cutting the
  bytes inside a character and decoding the rest adds a replacement character. For valid messages
  it is at most 1026 bytes, and 1026 bytes are reached.\<close>

theorem boundedErrorV2_bound:
  "(\<forall>e. utf8_valid (errorMessage e) \<longrightarrow> length (boundedErrorV2 e) \<le> 1026) \<and>
   (\<exists>e. utf8_valid (errorMessage e) \<and> length (boundedErrorV2 e) = 1026)"
proof (intro conjI allI impI)
  fix e
  assume v: "utf8_valid (errorMessage e)"
  let ?m = "if errorMessage e = [] then ''Plugin returned an empty failure detail'' else errorMessage e"
  have "utf8_valid ''Plugin returned an empty failure detail''" by (rule utf8_valid_ascii) simp
  then have "utf8_valid ?m" using v by simp
  then have "length (text_decode (take 1024 ?m)) \<le> length (take 1024 ?m) + 2"
    by (intro length_text_decode_prefix [of _ "drop 1024 ?m"]) (simp only: append_take_drop_id)
  then show "length (boundedErrorV2 e) \<le> 1026"
    unfolding boundedErrorV2_def Let_def by simp
next
  let ?p = "replicate 1023 CHR ''a''" and ?e = "[CHR 0xC3, CHR 0xA9]"
  have p: "dec_bytes decoder_start ?p = (map (\<lambda>c. Text [c]) ?p, decoder_start)"
    by (rule emissions_ascii) auto
  have "utf8_valid (?p @ ?e)"
    unfolding utf8_valid_def emissions_def dec_bytes_append p
    by (auto simp: dec_byte_def dec_lead_def Let_def dec_flush_def)
  moreover have "take 1024 (?p @ ?e) = ?p @ [CHR 0xC3]" by simp
  moreover have "length (text_decode (?p @ [CHR 0xC3])) = 1026"
    unfolding text_decode_def utf8_chars_def emissions_def dec_bytes_append p
    by (simp add: dec_byte_def dec_lead_def Let_def dec_flush_def replacement_character_def
        length_concat strip_bom_def o_def sum_list_triv numeral_eq_Suc)
  ultimately have "utf8_valid (errorMessage (ErrorObject (?p @ ?e))) \<and>
      length (boundedErrorV2 (ErrorObject (?p @ ?e))) = 1026"
    by (simp add: boundedErrorV2_def Let_def)
  then show "\<exists>e. utf8_valid (errorMessage e) \<and> length (boundedErrorV2 e) = 1026" by blast
qed

theorem boundedErrorV2_bound_witness:
  "length (boundedErrorV2 (ErrorObject ''boom'')) \<le> 1026"
proof -
  have v: "utf8_valid (errorMessage (ErrorObject ''boom''))"
    by (simp, rule utf8_valid_ascii) simp
  show ?thesis using boundedErrorV2_bound v by blast
qed

end
