(* ===== verification/Json.thy ===== *)
theory Json
  imports Text_Encoding
begin

text \<open>
  The values that cross the wire and the JavaScript operations the program applies to them.

  A \<open>Number\<close> is one of the non-finite values or a finite value; a finite value is
  represented by the decimal that \<open>Number::toString\<close> prints for it, which determines it (on
  the safe integers, the only numbers the program computes with, it is the value itself). An
  object is the list of its own properties in enumeration order. Reading a property
  (\<open>field\<close>) gives \<open>None\<close> for \<open>undefined\<close>; reading a property of \<open>null\<close> or
  \<open>undefined\<close> raises a \<open>TypeError\<close>, which callers model explicitly.

  \<open>stringify\<close> is \<open>JSON.stringify\<close>: its length is what the frame limits of the servers
  measure, and its injectivity on lists of strings is what the program relies on when it compares
  operation tables by comparing their texts.
\<close>

section \<open>Values\<close>

datatype js_number = Fin rat | NaN | PosInfinity | NegInfinity

datatype json =
    JNull
  | JBool bool
  | JNum js_number
  | JStr string
  | JArr "json list"
  | JObj "(string \<times> json) list"

abbreviation jint :: "int \<Rightarrow> json" where
  "jint n \<equiv> JNum (Fin (of_int n))"

abbreviation max_safe_integer :: int where
  "max_safe_integer \<equiv> 9007199254740991"

text \<open>\<open>Number.isSafeInteger\<close>, returning the integer.\<close>

fun safe_int :: "js_number \<Rightarrow> int option" where
  "safe_int (Fin q) =
     (if of_int \<lfloor>q\<rfloor> = q \<and> \<bar>\<lfloor>q\<rfloor>\<bar> \<le> max_safe_integer then Some \<lfloor>q\<rfloor> else None)"
| "safe_int _ = None"

fun isSafeInteger :: "json \<Rightarrow> bool" where
  "isSafeInteger (JNum x) = (safe_int x \<noteq> None)"
| "isSafeInteger _ = False"

fun is_object :: "json \<Rightarrow> bool" where
  "is_object (JObj _) = True"
| "is_object _ = False"

fun is_array :: "json \<Rightarrow> bool" where
  "is_array (JArr _) = True"
| "is_array _ = False"

fun is_string :: "json \<Rightarrow> bool" where
  "is_string (JStr _) = True"
| "is_string _ = False"

fun is_number :: "json \<Rightarrow> bool" where
  "is_number (JNum _) = True"
| "is_number _ = False"

fun props :: "json \<Rightarrow> (string \<times> json) list" where
  "props (JObj kvs) = kvs"
| "props _ = []"

definition field :: "json \<Rightarrow> string \<Rightarrow> json option" where
  "field v k = map_of (props v) k"

fun elems :: "json \<Rightarrow> json list" where
  "elems (JArr xs) = xs"
| "elems _ = []"

section \<open>JSON.stringify\<close>

fun digits :: "nat \<Rightarrow> string" where
  "digits n = (if n < 10 then [char_of (48 + n)] else digits (n div 10) @ [char_of (48 + n mod 10)])"

declare digits.simps [simp del]

definition show_int :: "int \<Rightarrow> string" where
  "show_int n = (if n < 0 then ''-'' @ digits (nat (- n)) else digits (nat n))"

text \<open>
  The significant digits of a non-zero decimal: the least scaling by a power of ten that makes it
  an integer, without trailing zeros. A finite Number prints with at most 17 digits and an
  exponent of at least -324, so 400 scalings are enough.
\<close>

fun scale :: "nat \<Rightarrow> rat \<Rightarrow> int \<Rightarrow> int \<times> int" where
  "scale 0 q e = (\<lfloor>q\<rfloor>, e)"
| "scale (Suc n) q e = (if of_int \<lfloor>q\<rfloor> = q then (\<lfloor>q\<rfloor>, e) else scale n (q * 10) (e - 1))"

fun strip_zeros :: "nat \<Rightarrow> int \<Rightarrow> int \<Rightarrow> int \<times> int" where
  "strip_zeros 0 m e = (m, e)"
| "strip_zeros (Suc n) m e = (if m \<noteq> 0 \<and> m mod 10 = 0 then strip_zeros n (m div 10) (e + 1) else (m, e))"

definition zeros :: "nat \<Rightarrow> string" where
  "zeros n = replicate n CHR ''0''"

text \<open>\<open>Number::toString\<close> of a positive number with digits \<open>s\<close> and decimal point position
  \<open>n\<close>, in its four layouts.\<close>

definition layout :: "string \<Rightarrow> int \<Rightarrow> string" where
  "layout s n =
     (let k = int (length s) in
      if k \<le> n \<and> n \<le> 21 then s @ zeros (nat (n - k))
      else if 0 < n \<and> n \<le> 21 then take (nat n) s @ ''.'' @ drop (nat n) s
      else if -6 < n \<and> n \<le> 0 then ''0.'' @ zeros (nat (- n)) @ s
      else (case s of [] \<Rightarrow> [] | c # cs \<Rightarrow> (if cs = [] then [c] else c # ''.'' @ cs)) @ ''e'' @
           (if n - 1 < 0 then show_int (n - 1) else ''+'' @ show_int (n - 1)))"

definition show_rat :: "rat \<Rightarrow> string" where
  "show_rat q =
     (if of_int \<lfloor>q\<rfloor> = q \<and> \<bar>\<lfloor>q\<rfloor>\<bar> < 10 ^ 21 then show_int \<lfloor>q\<rfloor>
      else case scale 400 \<bar>q\<bar> 0 of (m, e) \<Rightarrow>
           case strip_zeros 400 m e of (m', e') \<Rightarrow>
             let s = digits (nat m') in
             (if q < 0 then ''-'' else []) @ layout s (int (length s) + e'))"

fun show_number :: "js_number \<Rightarrow> string" where
  "show_number (Fin q) = show_rat q"
| "show_number _ = ''null''"

definition hex_digit :: "nat \<Rightarrow> char" where
  "hex_digit n = (if n < 10 then char_of (48 + n) else char_of (87 + n))"

definition escape_char :: "char \<Rightarrow> string" where
  "escape_char c =
     (let b = of_char c :: nat in
      if b = 34 then [CHR 0x5C, CHR 0x22]
      else if b = 92 then [CHR 0x5C, CHR 0x5C]
      else if b = 8 then [CHR 0x5C, CHR ''b'']
      else if b = 9 then [CHR 0x5C, CHR ''t'']
      else if b = 10 then [CHR 0x5C, CHR ''n'']
      else if b = 12 then [CHR 0x5C, CHR ''f'']
      else if b = 13 then [CHR 0x5C, CHR ''r'']
      else if b < 32 then [CHR 0x5C] @ ''u00'' @ [hex_digit (b div 16), hex_digit (b mod 16)]
      else [c])"

definition quote :: "string \<Rightarrow> string" where
  "quote s = [CHR 0x22] @ concat (map escape_char s) @ [CHR 0x22]"

fun comma_separated :: "string list \<Rightarrow> string" where
  "comma_separated [] = []"
| "comma_separated [x] = x"
| "comma_separated (x # xs) = x @ '','' @ comma_separated xs"

fun stringify :: "json \<Rightarrow> string" where
  "stringify JNull = ''null''"
| "stringify (JBool b) = (if b then ''true'' else ''false'')"
| "stringify (JNum x) = show_number x"
| "stringify (JStr s) = quote s"
| "stringify (JArr xs) = ''['' @ comma_separated (map stringify xs) @ '']''"
| "stringify (JObj kvs) =
     ''{'' @ comma_separated (map (\<lambda>(k, v). quote k @ '':'' @ stringify v) kvs) @ ''}''"

definition byte_length :: "json \<Rightarrow> nat" where
  "byte_length v = length (stringify v)"

definition stringify_strings :: "string list \<Rightarrow> string" where
  "stringify_strings xs = stringify (JArr (map JStr xs))"

section \<open>Decimal texts and property order\<close>

definition ascii_digit :: "char \<Rightarrow> bool" where
  "ascii_digit c \<longleftrightarrow> (let b = of_char c :: nat in 48 \<le> b \<and> b \<le> 57)"

definition digits_value :: "string \<Rightarrow> nat" where
  "digits_value = foldl (\<lambda>n c. 10 * n + (of_char c - 48)) 0"

definition decimal_text :: "string \<Rightarrow> bool" where
  "decimal_text s \<longleftrightarrow> s \<noteq> [] \<and> list_all ascii_digit s"

text \<open>
  \<open>Object.fromEntries\<close> of a \<open>Map\<close>, as the properties enumerate afterwards: array indices in
  ascending order, then the other keys in insertion order.
\<close>

definition array_index :: "string \<Rightarrow> bool" where
  "array_index k \<longleftrightarrow> decimal_text k \<and> (k = ''0'' \<or> take 1 k \<noteq> ''0'') \<and> digits_value k < 4294967295"

definition fromEntries :: "(string \<times> 'a) list \<Rightarrow> (string \<times> 'a) list" where
  "fromEntries kvs =
     sort_key (\<lambda>kv. digits_value (fst kv)) (filter (\<lambda>kv. array_index (fst kv)) kvs) @
     filter (\<lambda>kv. \<not> array_index (fst kv)) kvs"

section \<open>Digests\<close>

definition lower_hex :: "char \<Rightarrow> bool" where
  "lower_hex c \<longleftrightarrow> c \<in> set ''0123456789abcdef''"

text \<open>The pattern \<open>/^sha256:[0-9a-f]{64}$/u\<close>.\<close>

definition canonical_sha256 :: "string \<Rightarrow> bool" where
  "canonical_sha256 s \<longleftrightarrow> take 7 s = ''sha256:'' \<and> length s = 71 \<and> list_all lower_hex (drop 7 s)"

section \<open>Laws\<close>

lemma safe_int_of_int [simp]:
  "safe_int (Fin (of_int n)) = (if \<bar>n\<bar> \<le> max_safe_integer then Some n else None)"
  by simp

lemma safe_int_eq_SomeD: "safe_int x = Some n \<Longrightarrow> x = Fin (of_int n) \<and> \<bar>n\<bar> \<le> max_safe_integer"
  by (cases x) (auto split: if_splits)

lemma safe_int_inj: "safe_int x = Some n \<Longrightarrow> safe_int y = Some n \<Longrightarrow> x = y"
  by (auto dest!: safe_int_eq_SomeD)

text \<open>
  Reading an escaped character back, and with it the injectivity of the texts of string lists: two
  operation tables are equal exactly when their texts are.
\<close>

definition unhex :: "char \<Rightarrow> nat" where
  "unhex c = (let b = of_char c in if b < 58 then b - 48 else b - 87)"

fun unescape1 :: "string \<Rightarrow> (char \<times> string) option" where
  "unescape1 [] = None"
| "unescape1 (c # cs) =
     (if c \<noteq> CHR 0x5C then Some (c, cs)
      else case cs of
        [] \<Rightarrow> None
      | d # ds \<Rightarrow>
          if d = CHR ''b'' then Some (CHR 0x08, ds)
          else if d = CHR ''t'' then Some (CHR 0x09, ds)
          else if d = CHR ''n'' then Some (CHR 0x0A, ds)
          else if d = CHR ''f'' then Some (CHR 0x0C, ds)
          else if d = CHR ''r'' then Some (CHR 0x0D, ds)
          else if d = CHR ''u'' then Some (char_of (unhex (ds ! 2) * 16 + unhex (ds ! 3)), drop 4 ds)
          else Some (d, ds))"

lemma unhex_hex_digit: "n < 16 \<Longrightarrow> unhex (hex_digit n) = n"
  by (auto simp: unhex_def hex_digit_def Let_def of_char_of)

lemma char_by_code:
  "of_char c = (34 :: nat) \<longleftrightarrow> c = CHR 0x22" "of_char c = (92 :: nat) \<longleftrightarrow> c = CHR 0x5C"
  "of_char c = (8 :: nat) \<longleftrightarrow> c = CHR 0x08" "of_char c = (9 :: nat) \<longleftrightarrow> c = CHR 0x09"
  "of_char c = (10 :: nat) \<longleftrightarrow> c = CHR 0x0A" "of_char c = (12 :: nat) \<longleftrightarrow> c = CHR 0x0C"
  "of_char c = (13 :: nat) \<longleftrightarrow> c = CHR 0x0D"
  using inj_eq [OF inj_of_char [where ?'a = nat], of c "CHR 0x22"]
    inj_eq [OF inj_of_char [where ?'a = nat], of c "CHR 0x5C"]
    inj_eq [OF inj_of_char [where ?'a = nat], of c "CHR 0x08"]
    inj_eq [OF inj_of_char [where ?'a = nat], of c "CHR 0x09"]
    inj_eq [OF inj_of_char [where ?'a = nat], of c "CHR 0x0A"]
    inj_eq [OF inj_of_char [where ?'a = nat], of c "CHR 0x0C"]
    inj_eq [OF inj_of_char [where ?'a = nat], of c "CHR 0x0D"]
  by simp_all

lemma unescape1_escape: "unescape1 (escape_char c @ xs) = Some (c, xs)"
proof -
  let ?b = "of_char c :: nat"
  have hex: "char_of (unhex (hex_digit (?b div 16)) * 16 + unhex (hex_digit (?b mod 16))) = c"
    if "?b < 32"
  proof -
    have "?b div 16 < 16" and "?b mod 16 < 16" using that by auto
    then have "unhex (hex_digit (?b div 16)) * 16 + unhex (hex_digit (?b mod 16)) = ?b"
      using div_mult_mod_eq [of ?b 16] by (simp add: unhex_hex_digit)
    then show ?thesis by (simp only: char_of_char)
  qed
  have ne: "c \<noteq> CHR 0x5C" if "?b \<noteq> 92" using that by auto
  consider "?b = 34" | "?b = 92" | "?b = 8" | "?b = 9" | "?b = 10" | "?b = 12" | "?b = 13"
    | "?b < 32" "?b \<notin> {8, 9, 10, 12, 13}" | "?b \<ge> 32" "?b \<noteq> 34" "?b \<noteq> 92"
    by force
  then show ?thesis
    by cases (auto simp: escape_char_def Let_def hex ne char_by_code)
qed

lemma escape_char_head: "\<exists>d ds. escape_char c = d # ds \<and> d \<noteq> CHR 0x22"
  by (auto simp: escape_char_def Let_def)

lemma escaped_inject:
  "concat (map escape_char s) @ CHR 0x22 # xs = concat (map escape_char t) @ CHR 0x22 # ys \<Longrightarrow>
   s = t \<and> xs = ys"
proof (induction s arbitrary: t)
  case Nil
  show ?case
  proof (cases t)
    case (Cons d t')
    then show ?thesis using Nil escape_char_head [of d] by auto
  qed (use Nil in simp)
next
  case (Cons c s)
  show ?case
  proof (cases t)
    case Nil
    then show ?thesis using Cons.prems escape_char_head [of c] by auto
  next
    case t: (Cons d t')
    let ?x = "concat (map escape_char s) @ CHR 0x22 # xs"
    let ?y = "concat (map escape_char t') @ CHR 0x22 # ys"
    have "unescape1 (escape_char c @ ?x) = unescape1 (escape_char d @ ?y)"
      using Cons.prems t by simp
    then have "c = d" and "?x = ?y" by (simp_all add: unescape1_escape)
    then show ?thesis using Cons.IH t by simp
  qed
qed

lemma quote_inject: "quote s @ xs = quote t @ ys \<longleftrightarrow> s = t \<and> xs = ys"
  using escaped_inject [of s xs t ys] by (auto simp: quote_def)

lemma quote_eq_iff: "quote s = quote t \<longleftrightarrow> s = t"
  using quote_inject [of s "[]" t "[]"] by simp

lemma comma_separated_quotes_inject:
  "comma_separated (map quote xs) @ '']'' = comma_separated (map quote ys) @ '']'' \<Longrightarrow> xs = ys"
proof (induction xs arbitrary: ys)
  case Nil
  then show ?case by (cases ys rule: remdups_adj.cases) (auto simp: quote_def)
next
  case (Cons x xs)
  show ?case
  proof (cases ys)
    case Nil
    then show ?thesis using Cons.prems by (cases xs) (auto simp: quote_def)
  next
    case ys: (Cons y ys')
    show ?thesis
    proof (cases "xs = [] \<or> ys' = []")
      case True
      then show ?thesis using Cons.prems ys
        by (cases xs; cases ys') (auto simp: quote_inject quote_eq_iff)
    next
      case False
      then obtain x' xs'' y' ys'' where e: "xs = x' # xs''" "ys' = y' # ys''"
        by (meson neq_Nil_conv)
      then have "quote x @ '','' @ comma_separated (map quote xs) @ '']'' =
          quote y @ '','' @ comma_separated (map quote ys') @ '']''"
        using Cons.prems ys by simp
      then show ?thesis using Cons.IH ys by (auto simp: quote_inject)
    qed
  qed
qed

lemma stringify_strings_inject [simp]: "stringify_strings xs = stringify_strings ys \<longleftrightarrow> xs = ys"
proof
  assume "stringify_strings xs = stringify_strings ys"
  then show "xs = ys"
    by (intro comma_separated_quotes_inject) (simp add: stringify_strings_def o_def)
qed simp

section \<open>Laws of decimal texts and property order\<close>

lemma digits_value_snoc: "digits_value (s @ [c]) = 10 * digits_value s + (of_char c - 48)"
  by (simp add: digits_value_def)

lemma digits_roundtrip: "digits_value (digits n) = n"
proof (induction n rule: digits.induct)
  case (1 n)
  show ?case
  proof (cases "n < 10")
    case True
    then show ?thesis by (subst digits.simps) (simp add: digits_value_def)
  next
    case False
    then have "digits n = digits (n div 10) @ [char_of (48 + n mod 10)]"
      by (subst digits.simps) simp
    then show ?thesis using 1 False by (simp add: digits_value_snoc)
  qed
qed

lemma digits_ascii: "c \<in> set (digits n) \<Longrightarrow> ascii_digit c"
proof (induction n rule: digits.induct)
  case (1 n)
  have "ascii_digit (char_of (48 + k))" if "k < 10" for k :: nat
    using that by (simp add: ascii_digit_def)
  then show ?case using 1 by (subst (asm) (2) digits.simps) (auto split: if_splits)
qed

lemma digits_inject [simp]: "digits m = digits n \<longleftrightarrow> m = n"
  by (metis digits_roundtrip)

lemma digits_not_minus: "digits n \<noteq> CHR ''-'' # s"
  using digits_ascii [of "CHR ''-''" n] by (auto simp: ascii_digit_def)

lemma show_int_inject: "show_int m = show_int n \<longleftrightarrow> m = n"
  by (auto simp: show_int_def digits_not_minus digits_not_minus [symmetric])

lemma set_fromEntries [simp]: "set (fromEntries kvs) = set kvs"
  by (auto simp: fromEntries_def)

lemma fromEntries_idem [simp]: "fromEntries (fromEntries kvs) = fromEntries kvs"
  by (simp add: fromEntries_def filter_sort sort_key_id_if_sorted filter_empty_conv)

lemma distinct_fromEntries: "distinct (map fst kvs) \<Longrightarrow> distinct (map fst (fromEntries kvs))"
proof -
  assume "distinct (map fst kvs)"
  then have "distinct (fromEntries kvs)" "inj_on fst (set (fromEntries kvs))"
    by (auto simp: distinct_map) (auto simp: fromEntries_def)
  then show ?thesis by (simp add: distinct_map)
qed

lemma fromEntries_no_index: "\<forall>kv \<in> set kvs. \<not> array_index (fst kv) \<Longrightarrow> fromEntries kvs = kvs"
  by (simp add: fromEntries_def filter_empty_conv filter_id_conv)

end
