(* ===== verification/Build_Lowering.thy ===== *)
theory Build_Lowering
  imports Json "HOL-Library.Multiset"
begin

text \<open>
  The build boundary of \<open>packages/lenso-bun-plugin/src/build.ts\<close>: the validation of the
  \<open>lenso.build\<close> package metadata, of the complete untrusted result of a lowering, of generated
  paths and files, and the fingerprint over the build inputs.

  Every \<open>throw new BuildOutputError(message, span)\<close> is one constructor of
  \<open>build_problem\<close> (with the values the message interpolates) paired with the span. A value
  returned by a lowering or read from package.json is a JSON value; a missing property reads as
  \<open>None\<close>. The SHA-256 of \<open>node:crypto\<close> and the collation behind
  \<open>localeCompare\<close> are parameters.
\<close>

section \<open>Data\<close>

record source_span =
  span_file :: string
  span_start :: int
  span_end :: int

record package_identity =
  package_name :: string
  package_version :: string
  package_integrity :: string

record contract_identity =
  capability_id :: string
  descriptor_version :: string
  descriptor_digest :: string

record build_provider_contract = contract_identity +
  request_operations :: "string list"

record build_metadata =
  build_export :: string
  declarations :: "(string \<times> string list) list"
  handler_parameters :: "(string \<times> (string \<times> int list) list) list option"
  provider_contracts :: "build_provider_contract list"

text \<open>
  \<open>BuildValue\<close> and \<open>BuildArgument\<close>. A child of an array or object is tagged as one or
  the other; the source tells them apart by the presence of the properties \<open>kind\<close> and
  \<open>span\<close>, which agrees with the tag unless a raw object has both properties.
\<close>

datatype build_argument =
    ValueArgument build_value source_span
  | ContractArgument contract_identity string string source_span
  | HandlerArgument string source_span
  | DeclarationArgument package_identity string "build_argument list" source_span
and build_value =
    BNull
  | BBool bool
  | BNum js_number
  | BStr string
  | BArr "build_child list"
  | BObj "(string \<times> build_child) list"
and build_child =
    Raw build_value
  | Arg build_argument

record lowering_input =
  input_api_version :: json
  input_package :: package_identity
  input_export_name :: string
  input_arguments :: "build_argument list"
  input_span :: source_span

record lowered_provider = contract_identity +
  binder_module :: string
  binder_export_name :: string
  handler_references :: "string list"

record generated_file =
  file_path :: string
  file_contents :: string

datatype severity = SevError | SevWarning

record build_diagnostic =
  diag_severity :: severity
  diag_message :: string
  diag_span :: source_span

record lowering_output =
  out_providers :: "lowered_provider list"
  out_files :: "generated_file list"
  out_diagnostics :: "build_diagnostic list"

datatype build_problem =
    UnknownField string string
  | MissingField string string
  | UnsupportedApi string "json option"
  | NotObject string
  | NotArray string
  | NotString string
  | EmptyString string
  | NotDigest string
  | NotNonnegative string
  | NotRelativePath string
  | NotPackageExport string
  | DuplicateExport string
  | NoDeclaredSubpath string
  | NotDeclaredExport string string
  | DuplicateIndex string string
  | BadOperations string
  | DuplicateProvider string string
  | UnknownHandler string
  | ReusedHandler string
  | UnusedHandler string
  | NotAllowedProvider string
  | FingerprintDrift string string
  | DuplicatePath string string
  | NotCanonicalSha256 string
  | TooManyFiles nat
  | DuplicateGeneratedPath string
  | TooManyBytes
  | BadSeverity string
  | EndBeforeStart string
  | TypeErrorRaised string

type_synonym 'a checked = "build_problem \<times> source_span + 'a"

definition BUILD_API_VERSION :: json where
  "BUILD_API_VERSION = jint 1"

definition MAX_GENERATED_FILES :: nat where
  "MAX_GENERATED_FILES = 256"

definition MAX_GENERATED_BYTES :: nat where
  "MAX_GENERATED_BYTES = 16 * 1024 * 1024"

definition EMPTY_SPAN :: source_span where
  "EMPTY_SPAN = \<lparr>span_file = ''<build>'', span_start = 0, span_end = 0\<rparr>"

section \<open>Checks on single values\<close>

definition record_of :: "json option \<Rightarrow> string \<Rightarrow> source_span \<Rightarrow> (string \<times> json) list checked" where
  "record_of v subject sp =
     (case v of Some (JObj kvs) \<Rightarrow> Inr kvs | _ \<Rightarrow> Inl (NotObject subject, sp))"

definition array_of :: "json option \<Rightarrow> string \<Rightarrow> source_span \<Rightarrow> json list checked" where
  "array_of v subject sp =
     (case v of Some (JArr xs) \<Rightarrow> Inr xs | _ \<Rightarrow> Inl (NotArray subject, sp))"

definition string_of :: "json option \<Rightarrow> string \<Rightarrow> source_span \<Rightarrow> string checked" where
  "string_of v subject sp =
     (case v of Some (JStr s) \<Rightarrow> Inr s | _ \<Rightarrow> Inl (NotString subject, sp))"

definition nonemptyString :: "json option \<Rightarrow> string \<Rightarrow> source_span \<Rightarrow> string checked" where
  "nonemptyString v subject sp =
     bind_result (string_of v subject sp) (\<lambda>s.
       if s = [] then Inl (EmptyString subject, sp) else Inr s)"

definition canonicalDigest :: "json option \<Rightarrow> string \<Rightarrow> source_span \<Rightarrow> string checked" where
  "canonicalDigest v subject sp =
     bind_result (nonemptyString v subject sp) (\<lambda>s.
       if canonical_sha256 s then Inr s else Inl (NotDigest subject, sp))"

definition nonnegativeInteger :: "json option \<Rightarrow> string \<Rightarrow> source_span \<Rightarrow> int checked" where
  "nonnegativeInteger v subject sp =
     (case v of
        Some (JNum x) \<Rightarrow>
          (case safe_int x of
             Some n \<Rightarrow> if n < 0 then Inl (NotNonnegative subject, sp) else Inr n
           | None \<Rightarrow> Inl (NotNonnegative subject, sp))
      | _ \<Rightarrow> Inl (NotNonnegative subject, sp))"

definition exactKeys ::
  "(string \<times> json) list \<Rightarrow> string list \<Rightarrow> string \<Rightarrow> source_span \<Rightarrow> unit checked" where
  "exactKeys kvs expected subject sp =
     (case find (\<lambda>k. k \<notin> set expected) (map fst kvs) of
        Some k \<Rightarrow> Inl (UnknownField subject k, sp)
      | None \<Rightarrow>
          (case find (\<lambda>k. k \<notin> fst ` set kvs) expected of
             Some k \<Rightarrow> Inl (MissingField subject k, sp)
           | None \<Rightarrow> Inr ()))"

fun split_on :: "(char \<Rightarrow> bool) \<Rightarrow> string \<Rightarrow> string list" where
  "split_on p [] = [[]]"
| "split_on p (c # cs) =
     (if p c then [] # split_on p cs
      else case split_on p cs of [] \<Rightarrow> [[c]] | x # xs \<Rightarrow> (c # x) # xs)"

definition is_slash :: "char \<Rightarrow> bool" where
  "is_slash c \<longleftrightarrow> c = CHR ''/'' \<or> c = CHR 0x5C"

definition ascii_letter :: "char \<Rightarrow> bool" where
  "ascii_letter c \<longleftrightarrow>
     (let b = of_char c :: nat in 65 \<le> b \<and> b \<le> 90 \<or> 97 \<le> b \<and> b \<le> 122)"

text \<open>The pattern \<open>/^[A-Za-z]:[\\/]/u\<close>.\<close>

fun drive_rooted :: "string \<Rightarrow> bool" where
  "drive_rooted (c # d # e # _) = (ascii_letter c \<and> d = CHR '':'' \<and> is_slash e)"
| "drive_rooted _ = False"

definition forward_slashes :: "string \<Rightarrow> string" where
  "forward_slashes = map (\<lambda>c. if c = CHR 0x5C then CHR ''/'' else c)"

definition bad_part :: "string \<Rightarrow> bool" where
  "bad_part part \<longleftrightarrow> part = ''..'' \<or> part = []"

definition safeRelativePath :: "json option \<Rightarrow> string \<Rightarrow> source_span \<Rightarrow> string checked" where
  "safeRelativePath v subject sp =
     bind_result (nonemptyString v subject sp) (\<lambda>path.
       if take 1 path = ''/'' \<or> take 1 path = [CHR 0x5C] \<or> drive_rooted path \<or>
          list_ex bad_part (split_on is_slash path)
       then Inl (NotRelativePath subject, sp)
       else Inr (forward_slashes path))"

text \<open>The pattern \<open>/^\.\/[A-Za-z0-9][A-Za-z0-9._/-]*$/u\<close>.\<close>

fun subpath_pattern :: "string \<Rightarrow> bool" where
  "subpath_pattern (a # b # c # cs) =
     (a = CHR ''.'' \<and> b = CHR ''/'' \<and> (ascii_letter c \<or> ascii_digit c) \<and>
      list_all (\<lambda>x. ascii_letter x \<or> ascii_digit x \<or> x \<in> set ''._/-'') cs)"
| "subpath_pattern _ = False"

definition packageExport :: "json option \<Rightarrow> string \<Rightarrow> source_span \<Rightarrow> bool \<Rightarrow> string checked" where
  "packageExport v subject sp allowRoot =
     bind_result (nonemptyString v subject sp) (\<lambda>s.
       if (allowRoot \<and> s = ''.'' \<or> subpath_pattern s) \<and>
          \<not> list_ex bad_part (split_on (\<lambda>c. c = CHR ''/'') s)
       then Inr s
       else Inl (NotPackageExport subject, sp))"

text \<open>\<open>\<dots>.map((value, index) => \<dots>)\<close> with a callback that may throw.\<close>

fun map_indexed :: "(nat \<Rightarrow> 'a \<Rightarrow> 'e + 'b) \<Rightarrow> nat \<Rightarrow> 'a list \<Rightarrow> 'e + 'b list" where
  "map_indexed f n [] = Inr []"
| "map_indexed f n (x # xs) =
     bind_result (f n x) (\<lambda>y. bind_result (map_indexed f (Suc n) xs) (\<lambda>ys. Inr (y # ys)))"

definition indexed :: "string \<Rightarrow> nat \<Rightarrow> string" where
  "indexed subject n = subject @ ''['' @ digits n @ '']''"

section \<open>Package metadata\<close>

text \<open>Names that an object literal inherits: indexing \<open>declarations\<close> with one of them yields
  an inherited value that has no \<open>includes\<close> method.\<close>

definition inherited_names :: "string list" where
  "inherited_names =
     [''constructor'', ''__defineGetter__'', ''__defineSetter__'', ''hasOwnProperty'',
      ''__lookupGetter__'', ''__lookupSetter__'', ''isPrototypeOf'', ''propertyIsEnumerable'',
      ''toString'', ''valueOf'', ''__proto__'', ''toLocaleString'']"

definition validate_declaration :: "source_span \<Rightarrow> string \<times> json \<Rightarrow> (string \<times> string list) checked" where
  "validate_declaration sp kv =
     (case kv of (subpath, rawNames) \<Rightarrow>
       bind_result (packageExport (Some (JStr subpath)) ''declaration subpath'' sp True) (\<lambda>_.
       let subject = ''declarations.'' @ subpath in
       bind_result (array_of (Some rawNames) subject sp) (\<lambda>xs.
       bind_result (map_indexed (\<lambda>i x. nonemptyString (Some x) (indexed subject i) sp) 0 xs) (\<lambda>names.
       if distinct names then Inr (subpath, names) else Inl (DuplicateExport subject, sp)))))"

definition validate_indexes ::
  "source_span \<Rightarrow> (string \<times> string list) list \<Rightarrow> string \<Rightarrow> string \<times> json \<Rightarrow> (string \<times> int list) checked" where
  "validate_indexes sp decls subpath kv =
     (case kv of (exportName, rawIndexes) \<Rightarrow>
       let subject = ''handler_parameters.'' @ subpath @ ''.'' @ exportName in
       (case map_of decls subpath of
          None \<Rightarrow> Inl (TypeErrorRaised subpath, sp)
        | Some declared \<Rightarrow>
            if exportName \<notin> set declared then Inl (NotDeclaredExport subpath exportName, sp)
            else
              bind_result (array_of (Some rawIndexes) subject sp) (\<lambda>xs.
              bind_result (map_indexed (\<lambda>i x. nonnegativeInteger (Some x) (indexed subject i) sp) 0 xs) (\<lambda>indexes.
              if distinct indexes then Inr (exportName, indexes)
              else Inl (DuplicateIndex subpath exportName, sp)))))"

text \<open>
  The entries an object ends up with when it is filled by assignments \<open>object[key] = value\<close> to
  different keys: an assignment to \<open>__proto__\<close> sets the prototype of the object and adds no entry.
\<close>

definition assigned :: "(string \<times> 'a) list \<Rightarrow> (string \<times> 'a) list" where
  "assigned kvs = filter (\<lambda>(k, _). k \<noteq> ''__proto__'') kvs"

definition validate_handler_parameters ::
  "source_span \<Rightarrow> (string \<times> string list) list \<Rightarrow> string \<times> json \<Rightarrow> (string \<times> (string \<times> int list) list) checked" where
  "validate_handler_parameters sp decls kv =
     (case kv of (subpath, rawExports) \<Rightarrow>
       if subpath \<notin> fst ` set decls \<and> subpath \<notin> set inherited_names
       then Inl (NoDeclaredSubpath subpath, sp)
       else
         bind_result (record_of (Some rawExports) (''handler_parameters.'' @ subpath) sp) (\<lambda>exports.
         bind_result (mapM (validate_indexes sp decls subpath) exports) (\<lambda>normalized.
         Inr (subpath, assigned normalized))))"

definition validate_provider_contract :: "source_span \<Rightarrow> nat \<Rightarrow> json \<Rightarrow> build_provider_contract checked" where
  "validate_provider_contract sp index raw =
     (let subject = indexed ''provider_contracts'' index in
      bind_result (record_of (Some raw) subject sp) (\<lambda>contract.
      bind_result (exactKeys contract
        [''capability_id'', ''descriptor_version'', ''descriptor_digest'', ''request_operations''] subject sp) (\<lambda>_.
      bind_result (array_of (map_of contract ''request_operations'') (subject @ ''.request_operations'') sp) (\<lambda>xs.
      bind_result (map_indexed (\<lambda>i x. nonemptyString (Some x)
        (indexed (subject @ ''.request_operations'') i) sp) 0 xs) (\<lambda>operations.
      if operations = [] \<or> \<not> distinct operations then Inl (BadOperations subject, sp)
      else
        bind_result (nonemptyString (map_of contract ''capability_id'') (subject @ ''.capability_id'') sp) (\<lambda>cap.
        bind_result (nonemptyString (map_of contract ''descriptor_version'') (subject @ ''.descriptor_version'') sp) (\<lambda>ver.
        bind_result (canonicalDigest (map_of contract ''descriptor_digest'') (subject @ ''.descriptor_digest'') sp) (\<lambda>dig.
        Inr \<lparr>capability_id = cap, descriptor_version = ver, descriptor_digest = dig,
             request_operations = operations\<rparr>))))))))"

definition validateBuildPackageMetadata :: "json \<Rightarrow> build_metadata checked" where
  "validateBuildPackageMetadata raw =
     (let sp = EMPTY_SPAN in
      bind_result (record_of (Some raw) ''lenso.build'' sp) (\<lambda>metadata.
      case find (\<lambda>k. k \<notin> set [''api_version'', ''export'', ''declarations'', ''handler_parameters'',
                               ''provider_contracts'']) (map fst metadata) of
        Some k \<Rightarrow> Inl (UnknownField ''lenso.build'' k, sp)
      | None \<Rightarrow>
      (case find (\<lambda>k. k \<notin> fst ` set metadata)
              [''api_version'', ''export'', ''declarations'', ''provider_contracts''] of
        Some k \<Rightarrow> Inl (MissingField ''lenso.build'' k, sp)
      | None \<Rightarrow>
      if map_of metadata ''api_version'' \<noteq> Some BUILD_API_VERSION
      then Inl (UnsupportedApi ''build metadata'' (map_of metadata ''api_version''), sp)
      else
      bind_result (packageExport (map_of metadata ''export'') ''lenso.build.export'' sp False) (\<lambda>buildExport.
      bind_result (record_of (map_of metadata ''declarations'') ''lenso.build.declarations'' sp) (\<lambda>declarationsRecord.
      bind_result (mapM (validate_declaration sp) declarationsRecord) (\<lambda>decls.
      bind_result
        (case map_of metadata ''handler_parameters'' of
           None \<Rightarrow> Inr None
         | Some h \<Rightarrow>
             bind_result (record_of (Some h) ''lenso.build.handler_parameters'' sp) (\<lambda>subpaths.
             bind_result (mapM (validate_handler_parameters sp decls) subpaths) (\<lambda>hp. Inr (Some (assigned hp))))) (\<lambda>hp.
      bind_result (array_of (map_of metadata ''provider_contracts'') ''lenso.build.provider_contracts'' sp) (\<lambda>contracts.
      bind_result (map_indexed (validate_provider_contract sp) 0 contracts) (\<lambda>providerContracts.
      Inr \<lparr>build_export = buildExport, declarations = decls, handler_parameters = hp,
           provider_contracts = providerContracts\<rparr>)))))))))"

section \<open>The result of a lowering\<close>

definition validateProvider :: "source_span \<Rightarrow> nat \<Rightarrow> json \<Rightarrow> lowered_provider checked" where
  "validateProvider sp index raw =
     (let subject = indexed ''providers'' index in
      bind_result (record_of (Some raw) subject sp) (\<lambda>provider.
      bind_result (exactKeys provider
        [''capability_id'', ''descriptor_version'', ''descriptor_digest'', ''binder'', ''handler_references'']
        subject sp) (\<lambda>_.
      bind_result (record_of (map_of provider ''binder'') (subject @ ''.binder'') sp) (\<lambda>binder.
      bind_result (exactKeys binder [''module'', ''export_name''] (subject @ ''.binder'') sp) (\<lambda>_.
      bind_result (nonemptyString (map_of provider ''capability_id'') (subject @ ''.capability_id'') sp) (\<lambda>cap.
      bind_result (nonemptyString (map_of provider ''descriptor_version'') (subject @ ''.descriptor_version'') sp) (\<lambda>ver.
      bind_result (canonicalDigest (map_of provider ''descriptor_digest'') (subject @ ''.descriptor_digest'') sp) (\<lambda>dig.
      bind_result (safeRelativePath (map_of binder ''module'') (subject @ ''.binder.module'') sp) (\<lambda>module.
      bind_result (nonemptyString (map_of binder ''export_name'') (subject @ ''.binder.export_name'') sp) (\<lambda>export.
      bind_result (array_of (map_of provider ''handler_references'') (subject @ ''.handler_references'') sp) (\<lambda>xs.
      bind_result (map_indexed (\<lambda>i x. nonemptyString (Some x)
        (indexed (subject @ ''.handler_references'') i) sp) 0 xs) (\<lambda>references.
      Inr \<lparr>capability_id = cap, descriptor_version = ver, descriptor_digest = dig,
           binder_module = module, binder_export_name = export,
           handler_references = references\<rparr>))))))))))))"

fun validate_files_loop ::
  "source_span \<Rightarrow> nat \<Rightarrow> string list \<Rightarrow> nat \<Rightarrow> json list \<Rightarrow> generated_file list checked" where
  "validate_files_loop sp index paths totalBytes [] = Inr []"
| "validate_files_loop sp index paths totalBytes (v # vs) =
     (let subject = indexed ''files'' index in
      bind_result (record_of (Some v) subject sp) (\<lambda>file.
      bind_result (exactKeys file [''path'', ''contents''] subject sp) (\<lambda>_.
      bind_result (safeRelativePath (map_of file ''path'') (subject @ ''.path'') sp) (\<lambda>path.
      if path \<in> set paths then Inl (DuplicateGeneratedPath path, sp)
      else
        bind_result (string_of (map_of file ''contents'') (subject @ ''.contents'') sp) (\<lambda>contents.
        if totalBytes + length contents > MAX_GENERATED_BYTES then Inl (TooManyBytes, sp)
        else
          bind_result (validate_files_loop sp (Suc index) (set_add path paths)
            (totalBytes + length contents) vs) (\<lambda>rest.
          Inr (\<lparr>file_path = path, file_contents = contents\<rparr> # rest)))))))"

definition validateFiles :: "json option \<Rightarrow> source_span \<Rightarrow> generated_file list checked" where
  "validateFiles raw sp =
     bind_result (array_of raw ''files'' sp) (\<lambda>values.
       if length values > MAX_GENERATED_FILES then Inl (TooManyFiles (length values), sp)
       else validate_files_loop sp 0 [] 0 values)"

definition validateSpan :: "json option \<Rightarrow> string \<Rightarrow> source_span \<Rightarrow> source_span checked" where
  "validateSpan raw subject sp =
     bind_result (record_of raw subject sp) (\<lambda>span.
     bind_result (exactKeys span [''file'', ''start'', ''end''] subject sp) (\<lambda>_.
     bind_result (nonemptyString (map_of span ''file'') (subject @ ''.file'') sp) (\<lambda>file.
     bind_result (nonnegativeInteger (map_of span ''start'') (subject @ ''.start'') sp) (\<lambda>start.
     bind_result (nonnegativeInteger (map_of span ''end'') (subject @ ''.end'') sp) (\<lambda>end'.
     if end' < start then Inl (EndBeforeStart subject, sp)
     else Inr \<lparr>span_file = file, span_start = start, span_end = end'\<rparr>)))))"

definition validateDiagnostic :: "source_span \<Rightarrow> nat \<Rightarrow> json \<Rightarrow> build_diagnostic checked" where
  "validateDiagnostic sp index raw =
     (let subject = indexed ''diagnostics'' index in
      bind_result (record_of (Some raw) subject sp) (\<lambda>diagnostic.
      bind_result (exactKeys diagnostic [''severity'', ''message'', ''span''] subject sp) (\<lambda>_.
      bind_result
        (case map_of diagnostic ''severity'' of
           Some (JStr s) \<Rightarrow>
             (if s = ''error'' then Inr SevError
              else if s = ''warning'' then Inr SevWarning
              else Inl (BadSeverity subject, sp))
         | _ \<Rightarrow> Inl (BadSeverity subject, sp)) (\<lambda>sev.
      bind_result (nonemptyString (map_of diagnostic ''message'') (subject @ ''.message'') sp) (\<lambda>message.
      bind_result (validateSpan (map_of diagnostic ''span'') (subject @ ''.span'') sp) (\<lambda>span.
      Inr \<lparr>diag_severity = sev, diag_message = message, diag_span = span\<rparr>))))))"

text \<open>The references are collected into one \<open>Set\<close> that is threaded through the traversal.\<close>

fun collectHandlerReference :: "build_argument \<Rightarrow> string list \<Rightarrow> string list"
and collectHandlerValue :: "build_value \<Rightarrow> string list \<Rightarrow> string list"
and collectHandlerArgument :: "build_child \<Rightarrow> string list \<Rightarrow> string list" where
  "collectHandlerReference (HandlerArgument reference sp) refs = set_add reference refs"
| "collectHandlerReference (DeclarationArgument pkg name args sp) refs =
     fold collectHandlerReference args refs"
| "collectHandlerReference (ValueArgument value sp) refs = collectHandlerValue value refs"
| "collectHandlerReference (ContractArgument c m e sp) refs = refs"
| "collectHandlerValue (BArr cs) refs = fold collectHandlerArgument cs refs"
| "collectHandlerValue (BObj kvs) refs = fold (\<lambda>(k, c). collectHandlerArgument c) kvs refs"
| "collectHandlerValue _ refs = refs"
| "collectHandlerArgument (Arg a) refs = collectHandlerReference a refs"
| "collectHandlerArgument (Raw v) refs = collectHandlerValue v refs"

definition collectHandlerReferences :: "build_argument list \<Rightarrow> string list" where
  "collectHandlerReferences args = fold collectHandlerReference args []"

definition nul :: string where
  "nul = [CHR 0x00]"

definition provider_identity :: "lowered_provider \<Rightarrow> string" where
  "provider_identity p = capability_id p @ nul @ descriptor_version p"

fun check_provider_ids :: "source_span \<Rightarrow> string list \<Rightarrow> lowered_provider list \<Rightarrow> unit checked" where
  "check_provider_ids sp seen [] = Inr ()"
| "check_provider_ids sp seen (p # ps) =
     (if provider_identity p \<in> set seen
      then Inl (DuplicateProvider (capability_id p) (descriptor_version p), sp)
      else check_provider_ids sp (set_add (provider_identity p) seen) ps)"

text \<open>The nested loops over the providers and their references, with the set of used ones.\<close>

fun check_handler_uses :: "source_span \<Rightarrow> string list \<Rightarrow> string list \<Rightarrow> string list \<Rightarrow> string list checked" where
  "check_handler_uses sp expected used [] = Inr used"
| "check_handler_uses sp expected used (r # rs) =
     (if r \<notin> set expected then Inl (UnknownHandler r, sp)
      else if r \<in> set used then Inl (ReusedHandler r, sp)
      else check_handler_uses sp expected (set_add r used) rs)"

definition validateLoweringOutput :: "json \<Rightarrow> lowering_input \<Rightarrow> lowering_output checked" where
  "validateLoweringOutput raw input =
     (let sp = input_span input in
      bind_result (record_of (Some raw) ''lowering output'' sp) (\<lambda>output.
      bind_result (exactKeys output [''api_version'', ''providers'', ''files'', ''diagnostics'']
        ''lowering output'' sp) (\<lambda>_.
      if map_of output ''api_version'' \<noteq> Some BUILD_API_VERSION
      then Inl (UnsupportedApi ''build output'' (map_of output ''api_version''), sp)
      else
      bind_result (array_of (map_of output ''providers'') ''providers'' sp) (\<lambda>ps.
      bind_result (map_indexed (validateProvider sp) 0 ps) (\<lambda>providers.
      bind_result (validateFiles (map_of output ''files'') sp) (\<lambda>files.
      bind_result (array_of (map_of output ''diagnostics'') ''diagnostics'' sp) (\<lambda>ds.
      bind_result (map_indexed (validateDiagnostic sp) 0 ds) (\<lambda>diagnostics.
      bind_result (check_provider_ids sp [] providers) (\<lambda>_.
      let expected = collectHandlerReferences (input_arguments input) in
      bind_result (check_handler_uses sp expected [] (concat (map handler_references providers))) (\<lambda>used.
      case find (\<lambda>r. r \<notin> set used) expected of
        Some r \<Rightarrow> Inl (UnusedHandler r, sp)
      | None \<Rightarrow> Inr \<lparr>out_providers = providers, out_files = files, out_diagnostics = diagnostics\<rparr>))))))))))"

definition contract_text :: "'a contract_identity_scheme \<Rightarrow> string" where
  "contract_text p = capability_id p @ nul @ descriptor_version p @ nul @ descriptor_digest p"

definition allowed_text :: "source_span \<Rightarrow> contract_identity \<Rightarrow> string checked" where
  "allowed_text sp a =
     bind_result (nonemptyString (Some (JStr (capability_id a))) ''allowed provider capability_id'' sp) (\<lambda>_.
     bind_result (nonemptyString (Some (JStr (descriptor_version a))) ''allowed provider descriptor_version'' sp) (\<lambda>_.
     bind_result (canonicalDigest (Some (JStr (descriptor_digest a))) ''allowed provider descriptor_digest'' sp) (\<lambda>_.
     Inr (contract_text a))))"

definition validateAllowedProviders ::
  "lowered_provider list \<Rightarrow> contract_identity list \<Rightarrow> source_span \<Rightarrow> unit checked" where
  "validateAllowedProviders providers allowed sp =
     bind_result (mapM (allowed_text sp) allowed) (\<lambda>identities.
       case find (\<lambda>p. contract_text p \<notin> set identities) providers of
         Some p \<Rightarrow> Inl (NotAllowedProvider (capability_id p), sp)
       | None \<Rightarrow> Inr ())"

text \<open>\<open>lower\<close> is the SDK's lowering; the caller's constraints are the allowed contracts.\<close>

definition runLowering ::
  "(lowering_input \<Rightarrow> json) \<Rightarrow> lowering_input \<Rightarrow> contract_identity list \<Rightarrow> lowering_output checked" where
  "runLowering lower input allowed =
     (if input_api_version input \<noteq> BUILD_API_VERSION
      then Inl (UnsupportedApi ''build input'' (Some (input_api_version input)), input_span input)
      else
        bind_result (validateLoweringOutput (lower input) input) (\<lambda>output.
        bind_result (validateAllowedProviders (out_providers output) allowed (input_span input)) (\<lambda>_.
        Inr output)))"

section \<open>The build fingerprint\<close>

record build_file =
  bf_path :: string
  bf_sha256 :: string

record fingerprint_input =
  sourceClosure :: "build_file list"
  contractArtifacts :: "build_file list"
  lockedPackages :: "package_identity list"
  build_target :: string

text \<open>\<open>Array.prototype.sort\<close> with a comparison function: a stable sort.\<close>

fun insert_by :: "('a \<Rightarrow> 'a \<Rightarrow> int) \<Rightarrow> 'a \<Rightarrow> 'a list \<Rightarrow> 'a list" where
  "insert_by cmp x [] = [x]"
| "insert_by cmp x (y # ys) = (if cmp x y \<le> 0 then x # y # ys else y # insert_by cmp x ys)"

definition sort_by :: "('a \<Rightarrow> 'a \<Rightarrow> int) \<Rightarrow> 'a list \<Rightarrow> 'a list" where
  "sort_by cmp xs = foldr (insert_by cmp) xs []"

fun canonical_files_loop :: "string \<Rightarrow> string list \<Rightarrow> build_file list \<Rightarrow> build_file list checked" where
  "canonical_files_loop subject seen [] = Inr []"
| "canonical_files_loop subject seen (f # fs) =
     bind_result (safeRelativePath (Some (JStr (bf_path f))) (subject @ '' path'') EMPTY_SPAN) (\<lambda>path.
     if path \<in> set seen then Inl (DuplicatePath subject path, EMPTY_SPAN)
     else if \<not> canonical_sha256 (bf_sha256 f) then Inl (NotCanonicalSha256 subject, EMPTY_SPAN)
     else
       bind_result (canonical_files_loop subject (set_add path seen) fs) (\<lambda>rest.
       Inr (\<lparr>bf_path = path, bf_sha256 = bf_sha256 f\<rparr> # rest)))"

definition canonicalFiles :: "(string \<Rightarrow> string \<Rightarrow> int) \<Rightarrow> build_file list \<Rightarrow> string \<Rightarrow> build_file list checked" where
  "canonicalFiles localeCompare files subject =
     bind_result (canonical_files_loop subject [] files) (\<lambda>fs.
       Inr (sort_by (\<lambda>l r. localeCompare (bf_path l) (bf_path r)) fs))"

definition locked_package :: "package_identity \<Rightarrow> package_identity checked" where
  "locked_package v =
     bind_result (nonemptyString (Some (JStr (package_name v))) ''locked package name'' EMPTY_SPAN) (\<lambda>n.
     bind_result (nonemptyString (Some (JStr (package_version v))) ''locked package version'' EMPTY_SPAN) (\<lambda>ver.
     bind_result (nonemptyString (Some (JStr (package_integrity v))) ''locked package integrity'' EMPTY_SPAN) (\<lambda>i.
     Inr \<lparr>package_name = n, package_version = ver, package_integrity = i\<rparr>)))"

definition package_text :: "package_identity \<Rightarrow> string" where
  "package_text p = package_name p @ nul @ package_version p @ nul @ package_integrity p"

definition file_json :: "build_file \<Rightarrow> json" where
  "file_json f = JObj [(''path'', JStr (bf_path f)), (''sha256'', JStr (bf_sha256 f))]"

definition package_json :: "package_identity \<Rightarrow> json" where
  "package_json p =
     JObj [(''name'', JStr (package_name p)), (''version'', JStr (package_version p)),
           (''integrity'', JStr (package_integrity p))]"

definition canonical_input :: "(string \<Rightarrow> string \<Rightarrow> int) \<Rightarrow> fingerprint_input \<Rightarrow> json checked" where
  "canonical_input localeCompare input =
     bind_result (canonicalFiles localeCompare (sourceClosure input) ''sourceClosure'') (\<lambda>sources.
     bind_result (canonicalFiles localeCompare (contractArtifacts input) ''contractArtifacts'') (\<lambda>artifacts.
     bind_result (mapM locked_package (lockedPackages input)) (\<lambda>packages.
     bind_result (nonemptyString (Some (JStr (build_target input))) ''build target'' EMPTY_SPAN) (\<lambda>target.
     Inr (JObj
       [(''source_closure'', JArr (map file_json sources)),
        (''contract_artifacts'', JArr (map file_json artifacts)),
        (''locked_packages'', JArr (map package_json
           (sort_by (\<lambda>l r. localeCompare (package_text l) (package_text r)) packages))),
        (''target'', JStr target)])))))"

definition fingerprintBuildInputs ::
  "(string \<Rightarrow> string) \<Rightarrow> (string \<Rightarrow> string \<Rightarrow> int) \<Rightarrow> fingerprint_input \<Rightarrow> string checked" where
  "fingerprintBuildInputs sha256_hex localeCompare input =
     bind_result (canonical_input localeCompare input) (\<lambda>canonical.
       Inr (''sha256:'' @ sha256_hex (stringify canonical)))"

definition verifyBuildFingerprint ::
  "(string \<Rightarrow> string) \<Rightarrow> (string \<Rightarrow> string \<Rightarrow> int) \<Rightarrow> string \<Rightarrow> fingerprint_input \<Rightarrow> unit checked" where
  "verifyBuildFingerprint sha256_hex localeCompare expected input =
     bind_result (fingerprintBuildInputs sha256_hex localeCompare input) (\<lambda>actual.
       if actual \<noteq> expected then Inl (FingerprintDrift expected actual, EMPTY_SPAN) else Inr ())"

section \<open>Laws of the single checks\<close>

named_theorems check_simps \<open>when a single check succeeds\<close>

lemma record_of_Inr [check_simps]: "record_of v subject sp = Inr kvs \<longleftrightarrow> v = Some (JObj kvs)"
  by (auto simp: record_of_def split: option.splits json.splits)

lemma array_of_Inr [check_simps]: "array_of v subject sp = Inr xs \<longleftrightarrow> v = Some (JArr xs)"
  by (auto simp: array_of_def split: option.splits json.splits)

lemma string_of_Inr [check_simps]: "string_of v subject sp = Inr s \<longleftrightarrow> v = Some (JStr s)"
  by (auto simp: string_of_def split: option.splits json.splits)

lemma nonemptyString_Inr [check_simps]:
  "nonemptyString v subject sp = Inr s \<longleftrightarrow> v = Some (JStr s) \<and> s \<noteq> []"
  by (auto simp: nonemptyString_def result_simps check_simps split: if_splits)

lemma canonicalDigest_Inr [check_simps]:
  "canonicalDigest v subject sp = Inr s \<longleftrightarrow> v = Some (JStr s) \<and> s \<noteq> [] \<and> canonical_sha256 s"
  by (auto simp: canonicalDigest_def result_simps check_simps split: if_splits)

lemma nonnegativeInteger_Inr [check_simps]:
  "nonnegativeInteger v subject sp = Inr n \<longleftrightarrow> v = Some (jint n) \<and> 0 \<le> n \<and> n \<le> max_safe_integer"
proof
  assume "nonnegativeInteger v subject sp = Inr n"
  then obtain x where "v = Some (JNum x)" and "safe_int x = Some n" and "0 \<le> n"
    by (auto simp: nonnegativeInteger_def split: option.splits json.splits if_splits)
  then show "v = Some (jint n) \<and> 0 \<le> n \<and> n \<le> max_safe_integer"
    by (auto dest: safe_int_eq_SomeD)
qed (auto simp: nonnegativeInteger_def)

lemma exactKeys_Inr [check_simps]:
  "exactKeys kvs expected subject sp = Inr u \<longleftrightarrow> fst ` set kvs = set expected"
proof (cases "find (\<lambda>k. k \<notin> set expected) (map fst kvs)")
  case None
  then have "fst ` set kvs \<subseteq> set expected" by (auto simp: find_None_iff)
  with None show ?thesis
    by (auto simp: exactKeys_def find_None_iff find_Some_iff split: option.splits)
next
  case (Some k)
  then have "k \<in> fst ` set kvs" and "k \<notin> set expected"
    by (auto simp: find_Some_iff)
  with Some show ?thesis by (auto simp: exactKeys_def)
qed

definition safe_path :: "string \<Rightarrow> bool" where
  "safe_path p \<longleftrightarrow>
     p \<noteq> [] \<and> CHR 0x5C \<notin> set p \<and> take 1 p \<noteq> ''/'' \<and> \<not> drive_rooted p \<and>
     (\<forall>part \<in> set (split_on (\<lambda>c. c = CHR ''/'') p). part \<noteq> ''..'' \<and> part \<noteq> [])"

lemma split_on_forward: "split_on (\<lambda>c. c = CHR ''/'') (forward_slashes s) = split_on is_slash s"
  by (induction s) (auto simp: forward_slashes_def is_slash_def split: list.splits)

lemma drive_rooted_forward: "drive_rooted (forward_slashes s) = drive_rooted s"
  by (cases s rule: drive_rooted.cases) (auto simp: forward_slashes_def is_slash_def ascii_letter_def)

lemma forward_slashes_safe: "CHR 0x5C \<notin> set p \<Longrightarrow> forward_slashes p = p"
  by (induction p) (auto simp: forward_slashes_def)

lemma split_on_is_slash_safe:
  "CHR 0x5C \<notin> set p \<Longrightarrow> split_on is_slash p = split_on (\<lambda>c. c = CHR ''/'') p"
  using split_on_forward [of p] by (simp add: forward_slashes_safe)

lemma safeRelativePath_Inr:
  "safeRelativePath v subject sp = Inr p \<longleftrightarrow>
   (\<exists>path. v = Some (JStr path) \<and> path \<noteq> [] \<and> take 1 path \<noteq> ''/'' \<and> take 1 path \<noteq> [CHR 0x5C] \<and>
      \<not> drive_rooted path \<and> \<not> list_ex bad_part (split_on is_slash path) \<and> p = forward_slashes path)"
  unfolding safeRelativePath_def by (auto simp: result_simps check_simps split: if_splits)

lemma take1_forward: "take 1 (forward_slashes s) = ''/'' \<longleftrightarrow> take 1 s = ''/'' \<or> take 1 s = [CHR 0x5C]"
  by (cases s) (auto simp: forward_slashes_def)

lemma forward_slashes_no_backslash: "CHR 0x5C \<notin> set (forward_slashes s)"
  by (auto simp: forward_slashes_def)

lemma forward_slashes_Nil [simp]: "forward_slashes s = [] \<longleftrightarrow> s = []"
  by (simp add: forward_slashes_def)

lemma safeRelativePath_safe:
  assumes "safeRelativePath v subject sp = Inr p"
  shows "safe_path p"
proof -
  from assms obtain path where path: "path \<noteq> []" "take 1 path \<noteq> ''/''" "take 1 path \<noteq> [CHR 0x5C]"
      "\<not> drive_rooted path" "\<not> list_ex bad_part (split_on is_slash path)" "p = forward_slashes path"
    unfolding safeRelativePath_Inr by blast
  have parts: "split_on (\<lambda>c. c = CHR ''/'') p = split_on is_slash path"
    using path(6) by (simp only: split_on_forward)
  show ?thesis
    unfolding safe_path_def parts
    using path(1-5) by (simp only: path(6) forward_slashes_Nil forward_slashes_no_backslash take1_forward
        drive_rooted_forward list_ex_iff) (auto simp: bad_part_def)
qed

lemma safeRelativePath_id:
  assumes "safe_path p"
  shows "safeRelativePath (Some (JStr p)) subject sp = Inr p"
proof -
  have "split_on is_slash p = split_on (\<lambda>c. c = CHR ''/'') p"
    using assms unfolding safe_path_def by (intro split_on_is_slash_safe) blast
  moreover have "take 1 p \<noteq> [CHR 0x5C]" using assms by (cases p) (auto simp: safe_path_def)
  moreover have "\<not> list_ex bad_part (split_on (\<lambda>c. c = CHR ''/'') p)"
    using assms unfolding list_ex_iff bad_part_def safe_path_def by blast
  moreover have "forward_slashes p = p"
    using assms unfolding safe_path_def by (intro forward_slashes_safe) blast
  ultimately show ?thesis
    using assms unfolding safeRelativePath_Inr safe_path_def by (intro exI [of _ p]) simp
qed

lemma packageExport_Inr [check_simps]:
  "packageExport v subject sp rt = Inr s \<longleftrightarrow>
   v = Some (JStr s) \<and> s \<noteq> [] \<and> (rt \<and> s = ''.'' \<or> subpath_pattern s) \<and>
   \<not> list_ex bad_part (split_on (\<lambda>c. c = CHR ''/'') s)"
  by (auto simp: packageExport_def result_simps check_simps split: if_splits)

lemma map_indexed_set:
  "map_indexed f n xs = Inr ys \<Longrightarrow> y \<in> set ys \<Longrightarrow> \<exists>i x. x \<in> set xs \<and> f i x = Inr y"
  by (induction f n xs arbitrary: ys rule: map_indexed.induct) (auto simp: result_simps; blast)+

lemma map_indexed_id:
  "(\<And>i x y. f i x = Inr y \<Longrightarrow> f i (g y) = Inr y) \<Longrightarrow> map_indexed f n xs = Inr ys \<Longrightarrow>
   map_indexed f n (map g ys) = Inr ys"
  by (induction f n xs arbitrary: ys rule: map_indexed.induct) (auto simp: result_simps)

lemma mapM_id:
  assumes "mapM f xs = Inr ys" and "\<And>x y. x \<in> set xs \<Longrightarrow> f x = Inr y \<Longrightarrow> f (g y) = Inr y"
  shows "mapM f (map g ys) = Inr ys"
  using assms unfolding mapM_Inr_iff list_all2_conv_all_nth by (metis length_map nth_map nth_mem)

lemma map_indexed_strings:
  "map_indexed (\<lambda>i x. nonemptyString (Some x) (subject i) sp) n xs = Inr ys \<Longrightarrow>
   xs = map JStr ys \<and> [] \<notin> set ys"
  by (induction xs arbitrary: n ys) (auto simp: result_simps check_simps)

lemma map_indexed_strings_id:
  "[] \<notin> set ys \<Longrightarrow>
   map_indexed (\<lambda>i x. nonemptyString (Some x) (subject i) sp) n (map JStr ys) = Inr ys"
  by (induction ys arbitrary: n) (auto simp: nonemptyString_def string_of_def)

lemma map_indexed_integers_id:
  "map_indexed (\<lambda>i x. nonnegativeInteger (Some x) (subject i) sp) n xs = Inr ys \<Longrightarrow>
   map_indexed (\<lambda>i x. nonnegativeInteger (Some x) (subject i) sp) n (map jint ys) = Inr ys"
  by (rule map_indexed_id) (auto simp: check_simps)

section \<open>Laws of the lowering checks\<close>

lemma validate_files_loop_Cons:
  "validate_files_loop sp i paths n (v # vs) = Inr fs \<longleftrightarrow>
   (\<exists>kvs path contents rest.
      v = JObj kvs \<and> fst ` set kvs = {''path'', ''contents''} \<and>
      safeRelativePath (map_of kvs ''path'') (indexed ''files'' i @ ''.path'') sp = Inr path \<and>
      path \<notin> set paths \<and> map_of kvs ''contents'' = Some (JStr contents) \<and>
      n + length contents \<le> MAX_GENERATED_BYTES \<and>
      validate_files_loop sp (Suc i) (set_add path paths) (n + length contents) vs = Inr rest \<and>
      fs = \<lparr>file_path = path, file_contents = contents\<rparr> # rest)"
  by (simp add: Let_def result_simps check_simps not_less eq_commute [of fs])

lemma validate_files_loop_sound:
  "validate_files_loop sp i paths n vs = Inr fs \<Longrightarrow>
   length fs = length vs \<and> distinct (map file_path fs) \<and> set (map file_path fs) \<inter> set paths = {} \<and>
   (\<forall>f \<in> set fs. safe_path (file_path f)) \<and>
   n + sum_list (map (length \<circ> file_contents) fs) \<le> max n MAX_GENERATED_BYTES"
proof (induction vs arbitrary: i paths n fs)
  case Nil
  then show ?case by simp
next
  case (Cons v vs)
  from Cons.prems obtain kvs path contents rest where
      path: "safeRelativePath (map_of kvs ''path'') (indexed ''files'' i @ ''.path'') sp = Inr path"
    and fresh: "path \<notin> set paths"
    and small: "n + length contents \<le> MAX_GENERATED_BYTES"
    and rest: "validate_files_loop sp (Suc i) (set_add path paths) (n + length contents) vs = Inr rest"
    and fs: "fs = \<lparr>file_path = path, file_contents = contents\<rparr> # rest"
    unfolding validate_files_loop_Cons by blast
  from path have "safe_path path" by (rule safeRelativePath_safe)
  with Cons.IH [OF rest] fresh small fs show ?case by auto
qed

lemma validateFiles_sound:
  assumes "validateFiles raw sp = Inr fs"
  shows "length fs \<le> MAX_GENERATED_FILES" and "distinct (map file_path fs)"
    and "\<forall>f \<in> set fs. safe_path (file_path f)"
    and "sum_list (map (length \<circ> file_contents) fs) \<le> MAX_GENERATED_BYTES"
  using assms by (auto simp: validateFiles_def result_simps check_simps split: if_splits
      dest!: validate_files_loop_sound)

text \<open>The file that an entry of the lowering's output asks for: the path with forward slashes, and the
  contents as they are.\<close>

definition requested_file :: "json \<Rightarrow> generated_file \<Rightarrow> bool" where
  "requested_file v f \<longleftrightarrow>
     (\<exists>kvs path. v = JObj kvs \<and> fst ` set kvs = {''path'', ''contents''} \<and>
        map_of kvs ''path'' = Some (JStr path) \<and> file_path f = forward_slashes path \<and>
        map_of kvs ''contents'' = Some (JStr (file_contents f)))"

lemma validate_files_loop_requested:
  "validate_files_loop sp i paths n vs = Inr fs \<Longrightarrow> list_all2 requested_file vs fs"
proof (induction vs arbitrary: i paths n fs)
  case (Cons v vs)
  then show ?case
    unfolding validate_files_loop_Cons safeRelativePath_Inr by (auto simp: requested_file_def)
qed simp

lemma validateFiles_requested:
  "validateFiles raw sp = Inr fs \<Longrightarrow> \<exists>vs. raw = Some (JArr vs) \<and> list_all2 requested_file vs fs"
  by (auto simp: validateFiles_def result_simps check_simps split: if_splits dest: validate_files_loop_requested)

text \<open>The handlers of an argument, as a set, independently of the traversal.\<close>

fun handlers_of :: "build_argument \<Rightarrow> string set"
and handlers_of_value :: "build_value \<Rightarrow> string set"
and handlers_of_child :: "build_child \<Rightarrow> string set" where
  "handlers_of (HandlerArgument reference sp) = {reference}"
| "handlers_of (DeclarationArgument pkg name args sp) = (\<Union>a \<in> set args. handlers_of a)"
| "handlers_of (ValueArgument value sp) = handlers_of_value value"
| "handlers_of (ContractArgument c m e sp) = {}"
| "handlers_of_value (BArr cs) = (\<Union>c \<in> set cs. handlers_of_child c)"
| "handlers_of_value (BObj kvs) = (\<Union>kc \<in> set kvs. handlers_of_child (snd kc))"
| "handlers_of_value _ = {}"
| "handlers_of_child (Arg a) = handlers_of a"
| "handlers_of_child (Raw v) = handlers_of_value v"

lemma set_fold_add:
  "(\<And>x acc. x \<in> set xs \<Longrightarrow> set (f x acc) = set acc \<union> g x) \<Longrightarrow>
   set (fold f xs refs) = set refs \<union> (\<Union>x \<in> set xs. g x)"
  by (induction xs arbitrary: refs) auto

lemma set_collect:
  "set (collectHandlerReference a refs) = set refs \<union> handlers_of a"
  "set (collectHandlerValue v refs) = set refs \<union> handlers_of_value v"
  "set (collectHandlerArgument c refs) = set refs \<union> handlers_of_child c"
proof (induction a refs and v refs and c refs
    rule: collectHandlerReference_collectHandlerValue_collectHandlerArgument.induct)
  case (2 pkg name args sp refs)
  then show ?case by (simp add: set_fold_add [where g = handlers_of])
next
  case (5 cs refs)
  then show ?case by (simp add: set_fold_add [where g = handlers_of_child])
next
  case (6 kvs refs)
  have "set (fold (\<lambda>(k, c). collectHandlerArgument c) kvs refs) =
      set refs \<union> (\<Union>kc \<in> set kvs. handlers_of_child (snd kc))"
    by (rule set_fold_add) (use 6 in \<open>auto split: prod.splits\<close>)
  then show ?case by simp
qed auto

lemma set_collectHandlerReferences:
  "set (collectHandlerReferences args) = (\<Union>a \<in> set args. handlers_of a)"
  unfolding collectHandlerReferences_def
  by (subst set_fold_add [where g = handlers_of]) (auto simp: set_collect)

lemma check_handler_uses_sound:
  "check_handler_uses sp expected used rs = Inr used' \<Longrightarrow>
   distinct rs \<and> set rs \<subseteq> set expected \<and> set rs \<inter> set used = {} \<and> set used' = set used \<union> set rs"
proof (induction rs arbitrary: used)
  case Nil
  then show ?case by simp
next
  case (Cons r rs)
  then have r: "r \<in> set expected" "r \<notin> set used"
      "check_handler_uses sp expected (set_add r used) rs = Inr used'"
    by (auto split: if_splits)
  from Cons.IH [OF r(3)] r(1,2) show ?case by auto
qed

lemma check_handler_uses_complete:
  "distinct rs \<Longrightarrow> set rs \<subseteq> set expected \<Longrightarrow> set rs \<inter> set used = {} \<Longrightarrow>
   \<exists>used'. check_handler_uses sp expected used rs = Inr used'"
  by (induction rs arbitrary: used) auto

lemma check_provider_ids_Inr:
  "check_provider_ids sp seen ps = Inr u \<longleftrightarrow>
   distinct (map provider_identity ps) \<and> (\<forall>p \<in> set ps. provider_identity p \<notin> set seen)"
proof (induction ps arbitrary: seen)
  case Nil
  then show ?case by simp
next
  case (Cons p ps)
  then show ?case by auto (metis image_eqI)
qed

lemma validateLoweringOutput_parts:
  assumes "validateLoweringOutput raw input = Inr out"
  obtains outp ps ds where
    "raw = JObj outp"
    "fst ` set outp = {''api_version'', ''providers'', ''files'', ''diagnostics''}"
    "map_of outp ''api_version'' = Some BUILD_API_VERSION"
    "map_of outp ''providers'' = Some (JArr ps)"
    "map_indexed (validateProvider (input_span input)) 0 ps = Inr (out_providers out)"
    "validateFiles (map_of outp ''files'') (input_span input) = Inr (out_files out)"
    "map_of outp ''diagnostics'' = Some (JArr ds)"
    "map_indexed (validateDiagnostic (input_span input)) 0 ds = Inr (out_diagnostics out)"
    "check_provider_ids (input_span input) [] (out_providers out) = Inr ()"
    "distinct (concat (map handler_references (out_providers out)))"
    "set (concat (map handler_references (out_providers out))) =
       set (collectHandlerReferences (input_arguments input))"
proof -
  let ?sp = "input_span input" and ?ex = "collectHandlerReferences (input_arguments input)"
  from assms obtain outp ps files ds providers diagnostics used where
      p: "raw = JObj outp" "fst ` set outp = {''api_version'', ''providers'', ''files'', ''diagnostics''}"
      "map_of outp ''api_version'' = Some BUILD_API_VERSION" "map_of outp ''providers'' = Some (JArr ps)"
      "map_indexed (validateProvider ?sp) 0 ps = Inr providers"
      "validateFiles (map_of outp ''files'') ?sp = Inr files"
      "map_of outp ''diagnostics'' = Some (JArr ds)"
      "map_indexed (validateDiagnostic ?sp) 0 ds = Inr diagnostics"
      "check_provider_ids ?sp [] providers = Inr ()"
      "check_handler_uses ?sp ?ex [] (concat (map handler_references providers)) = Inr used"
      "find (\<lambda>r. r \<notin> set used) ?ex = None"
    and out: "out = \<lparr>out_providers = providers, out_files = files, out_diagnostics = diagnostics\<rparr>"
    unfolding validateLoweringOutput_def Let_def by (simp add: result_simps check_simps) blast
  have "set ?ex \<subseteq> set used" using p(11) by (auto simp: find_None_iff)
  then show ?thesis
    using check_handler_uses_sound [OF p(10)] p out by (intro that [of outp ps ds]) auto
qed

lemma validateLoweringOutput_build:
  assumes "fst ` set outp = {''api_version'', ''providers'', ''files'', ''diagnostics''}"
    "map_of outp ''api_version'' = Some BUILD_API_VERSION"
    "map_of outp ''providers'' = Some (JArr ps)"
    "map_indexed (validateProvider (input_span input)) 0 ps = Inr (out_providers out)"
    "validateFiles (map_of outp ''files'') (input_span input) = Inr (out_files out)"
    "map_of outp ''diagnostics'' = Some (JArr ds)"
    "map_indexed (validateDiagnostic (input_span input)) 0 ds = Inr (out_diagnostics out)"
    "check_provider_ids (input_span input) [] (out_providers out) = Inr ()"
    "distinct (concat (map handler_references (out_providers out)))"
    "set (concat (map handler_references (out_providers out))) =
       set (collectHandlerReferences (input_arguments input))"
  shows "validateLoweringOutput (JObj outp) input = Inr out"
proof -
  let ?rs = "concat (map handler_references (out_providers out))"
  let ?ex = "collectHandlerReferences (input_arguments input)"
  obtain used where used: "check_handler_uses (input_span input) ?ex [] ?rs = Inr used"
    using check_handler_uses_complete [of ?rs ?ex "[]" "input_span input"] assms(9,10) by auto
  then have "set used = set ?ex" using check_handler_uses_sound [OF used] assms(10) by simp
  then have "find (\<lambda>r. r \<notin> set used) ?ex = None" by (simp add: find_None_all)
  moreover have "exactKeys outp [''api_version'', ''providers'', ''files'', ''diagnostics'']
      ''lowering output'' (input_span input) = Inr ()"
    using assms(1) by (simp add: exactKeys_Inr)
  ultimately show ?thesis
    unfolding validateLoweringOutput_def Let_def
    using assms used by (simp add: record_of_def array_of_def)
qed

section \<open>Rendering validated results back to JSON\<close>

definition provider_json :: "lowered_provider \<Rightarrow> json" where
  "provider_json p =
     JObj [(''capability_id'', JStr (capability_id p)),
           (''descriptor_version'', JStr (descriptor_version p)),
           (''descriptor_digest'', JStr (descriptor_digest p)),
           (''binder'', JObj [(''module'', JStr (binder_module p)), (''export_name'', JStr (binder_export_name p))]),
           (''handler_references'', JArr (map JStr (handler_references p)))]"

definition generated_file_json :: "generated_file \<Rightarrow> json" where
  "generated_file_json f = JObj [(''path'', JStr (file_path f)), (''contents'', JStr (file_contents f))]"

definition span_json :: "source_span \<Rightarrow> json" where
  "span_json sp = JObj [(''file'', JStr (span_file sp)), (''start'', jint (span_start sp)), (''end'', jint (span_end sp))]"

definition diagnostic_json :: "build_diagnostic \<Rightarrow> json" where
  "diagnostic_json d =
     JObj [(''severity'', JStr (case diag_severity d of SevError \<Rightarrow> ''error'' | SevWarning \<Rightarrow> ''warning'')),
           (''message'', JStr (diag_message d)), (''span'', span_json (diag_span d))]"

definition output_json :: "lowering_output \<Rightarrow> json" where
  "output_json out =
     JObj [(''api_version'', BUILD_API_VERSION),
           (''providers'', JArr (map provider_json (out_providers out))),
           (''files'', JArr (map generated_file_json (out_files out))),
           (''diagnostics'', JArr (map diagnostic_json (out_diagnostics out)))]"

lemma validateProvider_Inr:
  "validateProvider sp i raw = Inr p \<longleftrightarrow>
   (\<exists>kvs b. raw = JObj kvs \<and>
      fst ` set kvs = {''capability_id'', ''descriptor_version'', ''descriptor_digest'', ''binder'', ''handler_references''} \<and>
      map_of kvs ''binder'' = Some (JObj b) \<and> fst ` set b = {''module'', ''export_name''} \<and>
      map_of kvs ''capability_id'' = Some (JStr (capability_id p)) \<and> capability_id p \<noteq> [] \<and>
      map_of kvs ''descriptor_version'' = Some (JStr (descriptor_version p)) \<and> descriptor_version p \<noteq> [] \<and>
      map_of kvs ''descriptor_digest'' = Some (JStr (descriptor_digest p)) \<and> descriptor_digest p \<noteq> [] \<and>
      canonical_sha256 (descriptor_digest p) \<and>
      safeRelativePath (map_of b ''module'') (indexed ''providers'' i @ ''.binder.module'') sp = Inr (binder_module p) \<and>
      map_of b ''export_name'' = Some (JStr (binder_export_name p)) \<and> binder_export_name p \<noteq> [] \<and>
      map_of kvs ''handler_references'' = Some (JArr (map JStr (handler_references p))) \<and>
      [] \<notin> set (handler_references p))"
proof -
  have strings: "(map_indexed (\<lambda>i x. nonemptyString (Some x) (f i) sp) 0 xs = Inr ys) \<longleftrightarrow>
      xs = map JStr ys \<and> [] \<notin> set ys" for f xs ys
    using map_indexed_strings map_indexed_strings_id by blast
  show ?thesis
    by (cases p) (simp add: validateProvider_def Let_def result_simps check_simps strings)
qed

lemma validateProvider_id:
  assumes "validateProvider sp i raw = Inr p"
  shows "validateProvider sp i (provider_json p) = Inr p"
proof -
  have "safe_path (binder_module p)"
    using assms unfolding validateProvider_Inr by (elim exE conjE) (rule safeRelativePath_safe)
  then show ?thesis
    using assms unfolding validateProvider_Inr provider_json_def
    by (elim exE conjE) (simp add: safeRelativePath_id)
qed

lemma validateSpan_id:
  "validateSpan raw subject sp = Inr x \<Longrightarrow> validateSpan (Some (span_json x)) subject sp = Inr x"
  unfolding validateSpan_def span_json_def
  by (simp add: result_simps check_simps) (elim exE conjE, hypsubst, simp)

lemma validateDiagnostic_id:
  assumes "validateDiagnostic sp i raw = Inr d"
  shows "validateDiagnostic sp i (diagnostic_json d) = Inr d"
proof -
  from assms obtain r where "validateSpan r (indexed ''diagnostics'' i @ ''.span'') sp = Inr (diag_span d)"
    and "diag_message d \<noteq> []"
    unfolding validateDiagnostic_def Let_def by (simp add: result_simps check_simps) (elim exE conjE, hypsubst, simp)
  then show ?thesis
    unfolding validateDiagnostic_def Let_def diagnostic_json_def
    by (cases "diag_severity d") (simp_all add: result_simps check_simps validateSpan_id)
qed

lemma validate_files_loop_id:
  "validate_files_loop sp i paths n vs = Inr fs \<Longrightarrow>
   validate_files_loop sp i paths n (map generated_file_json fs) = Inr fs"
proof (induction vs arbitrary: i paths n fs)
  case Nil
  then show ?case by simp
next
  case (Cons v vs)
  from Cons.prems obtain kvs path contents rest where
      path: "safeRelativePath (map_of kvs ''path'') (indexed ''files'' i @ ''.path'') sp = Inr path"
    and o: "path \<notin> set paths" "n + length contents \<le> MAX_GENERATED_BYTES"
      "fs = \<lparr>file_path = path, file_contents = contents\<rparr> # rest"
    and rest: "validate_files_loop sp (Suc i) (set_add path paths) (n + length contents) vs = Inr rest"
    unfolding validate_files_loop_Cons by blast
  have "safe_path path" using path by (rule safeRelativePath_safe)
  then show ?case
    using o Cons.IH [OF rest]
    by (simp only: list.map validate_files_loop_Cons generated_file_json_def)
      (simp add: safeRelativePath_id)
qed

lemma validateFiles_id:
  "validateFiles raw sp = Inr fs \<Longrightarrow> validateFiles (Some (JArr (map generated_file_json fs))) sp = Inr fs"
  unfolding validateFiles_def
  by (auto simp: result_simps check_simps dest: validate_files_loop_id validate_files_loop_sound)

section \<open>A sample lowering\<close>

text \<open>One declaration with one handler, lowered to one provider and one file.\<close>

definition sample_digest :: string where
  "sample_digest = ''sha256:'' @ replicate 64 CHR ''0''"

definition sample_handler :: build_argument where
  "sample_handler = HandlerArgument ''p.ts:226:232'' EMPTY_SPAN"

definition sample_input :: lowering_input where
  "sample_input =
     \<lparr>input_api_version = jint 1,
      input_package = \<lparr>package_name = ''sdk'', package_version = ''1.0.0'', package_integrity = ''x''\<rparr>,
      input_export_name = ''endpoint'',
      input_arguments =
        [ValueArgument (BObj [(''path'', Raw (BStr ''/hello'')), (''run'', Arg sample_handler)]) EMPTY_SPAN],
      input_span = EMPTY_SPAN\<rparr>"

definition sample_result :: lowering_output where
  "sample_result =
     \<lparr>out_providers =
        [\<lparr>capability_id = ''c@1'', descriptor_version = ''1.0.0'', descriptor_digest = sample_digest,
          binder_module = ''gen/bind.ts'', binder_export_name = ''bind'',
          handler_references = [''p.ts:226:232'']\<rparr>],
      out_files = [\<lparr>file_path = ''gen/bind.ts'', file_contents = ''export {}''\<rparr>],
      out_diagnostics = []\<rparr>"

definition sample_allowed :: "contract_identity list" where
  "sample_allowed = [\<lparr>capability_id = ''c@1'', descriptor_version = ''1.0.0'', descriptor_digest = sample_digest\<rparr>]"

lemma sample_digest_canonical: "canonical_sha256 sample_digest" "sample_digest \<noteq> []"
  by (simp_all add: canonical_sha256_def sample_digest_def lower_hex_def list_all_iff)

lemma sample_validated_for:
  assumes "collectHandlerReferences (input_arguments input) = [''p.ts:226:232'']"
  shows "validateLoweringOutput (output_json sample_result) input = Inr sample_result"
proof -
  have safe: "safe_path ''gen/bind.ts''" by (simp add: safe_path_def)
  have "validateProvider sp i (provider_json p) = Inr p"
    if "p \<in> set (out_providers sample_result)" for sp i p
    using that safe by (simp add: sample_result_def validateProvider_Inr provider_json_def
        sample_digest_canonical safeRelativePath_id)
  then have "map_indexed (validateProvider sp) 0 (map provider_json (out_providers sample_result)) =
      Inr (out_providers sample_result)" for sp
    by (simp add: sample_result_def)
  moreover have "validateFiles (Some (JArr (map generated_file_json (out_files sample_result)))) sp =
      Inr (out_files sample_result)" for sp
    by (simp add: sample_result_def validateFiles_def array_of_def MAX_GENERATED_FILES_def
        validate_files_loop_Cons generated_file_json_def MAX_GENERATED_BYTES_def safeRelativePath_id safe
        del: validate_files_loop.simps(2))
  ultimately show ?thesis
    unfolding output_json_def
    by (intro validateLoweringOutput_build
        [where ps = "map provider_json (out_providers sample_result)" and ds = "[]"])
      (simp_all add: sample_result_def check_provider_ids_Inr assms)
qed

lemma sample_references: "collectHandlerReferences (input_arguments sample_input) = [''p.ts:226:232'']"
  by (simp add: sample_input_def sample_handler_def collectHandlerReferences_def set_add_def)

lemmas sample_validated = sample_validated_for [OF sample_references]

lemma sample_lowering_for:
  assumes "input_api_version input = BUILD_API_VERSION"
    "collectHandlerReferences (input_arguments input) = [''p.ts:226:232'']"
  shows "runLowering (\<lambda>_. output_json sample_result) input sample_allowed = Inr sample_result"
proof -
  show ?thesis
    by (simp add: runLowering_def assms(1) sample_validated_for [OF assms(2)])
      (simp add: validateAllowedProviders_def sample_allowed_def allowed_text_def nonemptyString_def string_of_def
      canonicalDigest_def sample_digest_canonical sample_result_def contract_text_def)
qed

lemma sample_lowering: "runLowering (\<lambda>_. output_json sample_result) sample_input sample_allowed = Inr sample_result"
  by (rule sample_lowering_for) (simp_all add: sample_references, simp add: sample_input_def BUILD_API_VERSION_def)

section \<open>Properties of the lowering boundary\<close>

text \<open>A lowering whose result is accepted uses every handler reference of its input exactly once:
  the references of the generated providers are pairwise distinct and are exactly the handlers that
  occur anywhere in the declaration's arguments.\<close>

theorem lowering_uses_handlers_once:
  assumes "runLowering lower input allowed = Inr out"
  shows "distinct (concat (map handler_references (out_providers out))) \<and>
    set (concat (map handler_references (out_providers out))) =
      (\<Union>a \<in> set (input_arguments input). handlers_of a)"
proof -
  have "validateLoweringOutput (lower input) input = Inr out"
    using assms by (auto simp: runLowering_def result_simps)
  then show ?thesis
    by (rule validateLoweringOutput_parts) (simp add: set_collectHandlerReferences)
qed

theorem lowering_uses_handlers_once_witness:
  "set (concat (map handler_references (out_providers sample_result))) =
     (\<Union>a \<in> set (input_arguments sample_input). handlers_of a)"
  using lowering_uses_handlers_once [OF sample_lowering] by (rule conjunct2)

text \<open>C35. Files of an accepted lowering: they are the files of the lowering's output, one for each
  entry and in this order, with the entry's contents unchanged and its path with backslashes turned
  into slashes; there are at most 256 of them with at most 16 MiB in total, their paths are pairwise
  different, and every path is relative, with forward slashes only and no parent or empty segment.\<close>

theorem lowering_files_safe:
  assumes "validateLoweringOutput raw input = Inr out"
  shows "(\<exists>outp vs. raw = JObj outp \<and> map_of outp ''files'' = Some (JArr vs) \<and>
      list_all2 requested_file vs (out_files out)) \<and>
    length (out_files out) \<le> MAX_GENERATED_FILES \<and>
    sum_list (map (length \<circ> file_contents) (out_files out)) \<le> MAX_GENERATED_BYTES \<and>
    distinct (map file_path (out_files out)) \<and>
    (\<forall>f \<in> set (out_files out). safe_path (file_path f))"
proof -
  obtain outp where f: "raw = JObj outp" "validateFiles (map_of outp ''files'') (input_span input) = Inr (out_files out)"
    using validateLoweringOutput_parts [OF assms] by metis
  show ?thesis
    using validateFiles_sound [OF f(2)] validateFiles_requested [OF f(2)] f(1) by (intro conjI) auto
qed

theorem lowering_files_safe_witness:
  "validateLoweringOutput (output_json sample_result) sample_input = Inr sample_result \<and>
   length (out_files sample_result) = 1 \<and> safe_path (file_path (hd (out_files sample_result)))"
  using sample_validated lowering_files_safe [OF sample_validated] by (simp add: sample_result_def)

text \<open>Validation is idempotent: what \<open>validateLoweringOutput\<close> returns, rendered as JSON,
  is accepted again and unchanged (normalised paths stay normalised, every bound still holds).\<close>

theorem lowering_output_roundtrip:
  assumes "validateLoweringOutput raw input = Inr out"
  shows "validateLoweringOutput (output_json out) input = Inr out"
proof -
  from assms obtain outp ps ds where p: "raw = JObj outp"
      "map_indexed (validateProvider (input_span input)) 0 ps = Inr (out_providers out)"
      "validateFiles (map_of outp ''files'') (input_span input) = Inr (out_files out)"
      "map_indexed (validateDiagnostic (input_span input)) 0 ds = Inr (out_diagnostics out)"
      "check_provider_ids (input_span input) [] (out_providers out) = Inr ()"
      "distinct (concat (map handler_references (out_providers out)))"
      "set (concat (map handler_references (out_providers out))) =
         set (collectHandlerReferences (input_arguments input))"
    by (rule validateLoweringOutput_parts)
  show ?thesis
    unfolding output_json_def
    by (rule validateLoweringOutput_build [OF _ _ _ map_indexed_id [OF validateProvider_id p(2)] _ _
          map_indexed_id [OF validateDiagnostic_id p(4)] p(5-7)])
      (use validateFiles_id [OF p(3)] in \<open>auto simp: image_iff\<close>)
qed

theorem lowering_output_roundtrip_witness:
  "validateLoweringOutput (output_json sample_result) sample_input = Inr sample_result"
  by (rule lowering_output_roundtrip [OF sample_validated])

lemma nul_split:
  "CHR 0x00 \<notin> set a \<Longrightarrow> CHR 0x00 \<notin> set b \<Longrightarrow> a @ nul @ xs = b @ nul @ ys \<longleftrightarrow> a = b \<and> xs = ys"
proof (induction a arbitrary: b)
  case Nil
  then show ?case by (cases b) (auto simp: nul_def)
next
  case (Cons c a)
  then show ?case by (cases b) (auto simp: nul_def)
qed

lemma mapM_allowed_text: "mapM (allowed_text sp) allowed = Inr ids \<Longrightarrow> ids = map contract_text allowed"
  by (induction allowed arbitrary: ids) (auto simp: allowed_text_def result_simps)

text \<open>Every provider of an accepted lowering is one of the contracts the caller allowed: the same
  capability, version and digest. The three parts are compared as one text joined by NUL
  characters, so this holds where identifiers contain none.\<close>

theorem runLowering_allowed:
  assumes "runLowering lower input allowed = Inr out" and "p \<in> set (out_providers out)"
    and "CHR 0x00 \<notin> set (capability_id p) \<union> set (descriptor_version p)"
    and "\<forall>a \<in> set allowed. CHR 0x00 \<notin> set (capability_id a) \<union> set (descriptor_version a)"
  shows "\<exists>a \<in> set allowed. capability_id a = capability_id p \<and>
    descriptor_version a = descriptor_version p \<and> descriptor_digest a = descriptor_digest p"
proof -
  from assms(1) obtain ids where "mapM (allowed_text (input_span input)) allowed = Inr ids"
    and none: "find (\<lambda>p. contract_text p \<notin> set ids) (out_providers out) = None"
    by (auto simp: runLowering_def validateAllowedProviders_def result_simps)
  then have "contract_text p \<in> contract_text ` set allowed"
    using assms(2) by (auto simp: find_None_iff dest!: mapM_allowed_text)
  then obtain a where a: "a \<in> set allowed" "contract_text p = contract_text a" by blast
  then have "capability_id a = capability_id p \<and> descriptor_version a = descriptor_version p \<and>
      descriptor_digest a = descriptor_digest p"
    using assms(3,4) by (auto simp: contract_text_def nul_split)
  with a show ?thesis by blast
qed

theorem runLowering_allowed_witness:
  "\<exists>a \<in> set sample_allowed. capability_id a = ''c@1''"
  using runLowering_allowed [OF sample_lowering, of "hd (out_providers sample_result)"]
  by (simp add: sample_result_def sample_allowed_def)

text \<open>Generated paths are compared as texts and a path may contain current-directory segments, so
  two files that name the same location are both accepted: \<open>a.ts\<close> and \<open>./a.ts\<close> pass
  the duplicate check although the message speaks of normalised paths.\<close>

theorem dot_segments_not_normalised:
  "validateFiles (Some (JArr (map generated_file_json
      [\<lparr>file_path = ''a.ts'', file_contents = x\<rparr>, \<lparr>file_path = ''./a.ts'', file_contents = y\<rparr>]))) sp =
   (if length x > MAX_GENERATED_BYTES \<or> length x + length y > MAX_GENERATED_BYTES
    then Inl (TooManyBytes, sp)
    else Inr [\<lparr>file_path = ''a.ts'', file_contents = x\<rparr>, \<lparr>file_path = ''./a.ts'', file_contents = y\<rparr>])"
proof -
  have "safe_path ''a.ts''" and "safe_path ''./a.ts''" by (simp_all add: safe_path_def)
  then show ?thesis
    by (simp add: validateFiles_def array_of_def MAX_GENERATED_FILES_def generated_file_json_def
        record_of_def exactKeys_def string_of_def safeRelativePath_id set_add_def Let_def)
qed

end
