(* ===== verification/Static_Extraction.thy ===== *)
theory Static_Extraction
  imports Build_Lowering
begin

text \<open>
  The static reading of a Plugin definition of \<open>packages/lenso-bun-plugin/src/extract.ts\<close>: the
  default export of a module is evaluated on its syntax tree, without running the module.

  The TypeScript service is not part of the repository. Its syntax trees are the datatype
  \<open>expr\<close> (one constructor per form the evaluator distinguishes, each node with its span,
  every other form is \<open>OtherExpression\<close>), and its answers are the first fields of the record
  \<open>evaluator\<close>: the symbol of a node, and a finite table of symbols with their flags and
  declarations. An identity with no row in the table stands for \<open>undefined\<close>.

  \<open>StaticEvaluator\<close> evaluates the arguments of a call together (\<open>Promise.all\<close>), and these
  evaluations share the set \<open>#active\<close> of the constants being evaluated. One evaluation here
  carries its own part of that set, the trail of constants it is inside of, and the field
  \<open>overlap\<close> says which further symbols the evaluations that run beside it hold at the moment of
  a check. An evaluation never misses a symbol of its own trail: it could only miss it after an
  overlapping evaluation of the same constant has ended, and while the constant refers to itself
  that evaluation ends only by an error, which has then already decided the whole extraction. The
  field \<open>settles_first\<close> says which of several rejected arguments rejects first.

  The files an evaluation visits are collected beside its result, in the order in which they are
  added to the set \<open>#sourceFiles\<close>; after an error they are not observable. The evaluations that
  \<open>Promise.all\<close> overlaps add their files in turns: the field \<open>turns\<close> says which argument adds its next
  file, so the order of the set depends on the schedule.
\<close>

section \<open>Syntax trees\<close>

datatype property_name =
    PropertyName string source_span
  | ComputedName source_span

datatype expr =
    StringLiteral string source_span
  | NumericLiteral string source_span
  | TrueKeyword source_span
  | FalseKeyword source_span
  | NullKeyword source_span
  | PrefixUnary bool expr source_span
  | ArrayLiteral "expr list" source_span
  | SpreadElement expr source_span
  | ObjectLiteral "object_member list" source_span
  | CallExpression expr "expr list" source_span
  | Identifier string bool source_span
  | PropertyAccess expr string source_span source_span
  | ArrowFunction source_span
  | FunctionExpression source_span
  | Wrapped expr source_span
  | OtherExpression source_span
and object_member =
    SpreadAssignment expr source_span
  | AccessorDeclaration source_span
  | MethodDeclaration property_name source_span
  | PropertyAssignment property_name expr source_span
  | ShorthandAssignment string source_span source_span
  | OtherMember source_span

text \<open>
  The operator flag of \<open>PrefixUnary\<close> says that it is a minus; the flag of an
  \<open>Identifier\<close> says that its parent is a shorthand property assignment; \<open>PropertyAccess\<close>
  has the text and the span of the name and then its own span; \<open>Wrapped\<close> is a parenthesised,
  \<open>as\<close>, assertion, \<open>satisfies\<close> or non-null expression.
\<close>

fun expr_span :: "expr \<Rightarrow> source_span" where
  "expr_span (StringLiteral _ s) = s"
| "expr_span (NumericLiteral _ s) = s"
| "expr_span (TrueKeyword s) = s"
| "expr_span (FalseKeyword s) = s"
| "expr_span (NullKeyword s) = s"
| "expr_span (PrefixUnary _ _ s) = s"
| "expr_span (ArrayLiteral _ s) = s"
| "expr_span (SpreadElement _ s) = s"
| "expr_span (ObjectLiteral _ s) = s"
| "expr_span (CallExpression _ _ s) = s"
| "expr_span (Identifier _ _ s) = s"
| "expr_span (PropertyAccess _ _ _ s) = s"
| "expr_span (ArrowFunction s) = s"
| "expr_span (FunctionExpression s) = s"
| "expr_span (Wrapped _ s) = s"
| "expr_span (OtherExpression s) = s"

abbreviation expr_file :: "expr \<Rightarrow> string" where
  "expr_file e \<equiv> span_file (expr_span e)"

fun unwrap :: "expr \<Rightarrow> expr" where
  "unwrap (Wrapped e _) = unwrap e"
| "unwrap e = e"

text \<open>
  Declarations as the evaluator distinguishes them. The flag of a \<open>VariableDeclaration\<close> says
  that its parent is a declaration list with the \<open>const\<close> flag; \<open>NameOf d s\<close> is an identifier
  whose parent is the declaration \<open>d\<close>.
\<close>

datatype declaration_node =
    VariableDeclaration bool "expr option" source_span
  | FunctionDeclaration source_span
  | NameOf declaration_node source_span
  | OtherDeclaration source_span

fun node_span :: "declaration_node \<Rightarrow> source_span" where
  "node_span (VariableDeclaration _ _ s) = s"
| "node_span (FunctionDeclaration s) = s"
| "node_span (NameOf _ s) = s"
| "node_span (OtherDeclaration s) = s"

text \<open>
  What a reference to a declaration resolves to: the node, and the nodes from it up to its source
  file, each import or export declaration with its module specifier when that is a string literal.
\<close>

datatype ancestor = ModuleReference "string option" | PlainNode

type_synonym declaration_reference = "(declaration_node \<times> ancestor list) option"

record symbol_info =
  symbol_name :: string
  alias_flag :: bool
  aliased_symbol :: nat
  unknown_symbol :: bool
  valueDeclaration :: "declaration_reference option"
  symbol_declarations :: "declaration_reference list"

record symbol_origin =
  origin_file :: string
  origin_name :: string
  origin_module :: "string option"

datatype symbol_meaning =
    PluginDefinitionMeaning
  | DeclarationMeaning package_identity string "int list option"
  | ContractMeaning contract_identity string string

type_synonym trail = "(nat \<times> source_span) list"

record evaluator =
  getSymbolAtLocation :: "expr \<Rightarrow> nat option"
  getShorthandAssignmentValueSymbol :: "string \<Rightarrow> source_span \<Rightarrow> nat option"
  symbol_table :: "(nat \<times> symbol_info) list"
  source_node_span :: "string \<Rightarrow> source_span"
  classifySymbol :: "symbol_origin \<Rightarrow> symbol_meaning option"
  overlap :: "trail \<Rightarrow> source_span \<Rightarrow> nat list"
  settles_first :: "trail \<Rightarrow> source_span \<Rightarrow> nat"
  turns :: "trail \<Rightarrow> source_span \<Rightarrow> nat list"

section \<open>Results\<close>

datatype extraction_problem =
    NoProject string
  | NoEntry string
  | SyntaxProblem string
  | NoDefaultExport
  | NotDefinePluginCall
  | NotDefinePlugin
  | NotOneArgument
  | UnknownPluginField string
  | ProvidesOrProviders
  | RequiresField string
  | MustBeArray string
  | MustBeObject string
  | MustBeLiteral string
  | MustBeFunction string
  | SpreadNotArray
  | ExportNotCalled
  | PropertyAccessUnsupported
  | NotStatic
  | AccessorUnsupported
  | MethodUnsupported
  | MemberUnsupported
  | ComputedKey
  | DuplicateKey string
  | CardinalityArity
  | IdNotLiteral
  | UnsupportedCall
  | UnresolvedReference
  | CyclicConstant
  | NoStaticValue
  | MutableConstant
  | NoInitializer
  | NotConst
  | HandlerUnresolved
  | HandlerNotConst
  | HandlerNotFunction
  | HandlerNotNamed
  | HandlerPosition

type_synonym 'a extraction = "extraction_problem \<times> source_span + 'a"

text \<open>A result with the files visited on the way to it.\<close>

type_synonym 'a visited = "('a \<times> string list) extraction"

fun visit :: "string list \<Rightarrow> 'a visited \<Rightarrow> 'a visited" where
  "visit fs (Inl e) = Inl e"
| "visit fs (Inr (a, gs)) = Inr (a, fs @ gs)"

fun bind_visited :: "'a visited \<Rightarrow> ('a \<Rightarrow> 'b visited) \<Rightarrow> 'b visited" where
  "bind_visited (Inl e) f = Inl e"
| "bind_visited (Inr (a, fs)) f = visit fs (f a)"

definition no_visit :: "'a extraction \<Rightarrow> 'a visited" where
  "no_visit r = bind_result r (\<lambda>a. Inr (a, []))"

abbreviation done_with :: "'a \<Rightarrow> 'a visited" where
  "done_with a \<equiv> Inr (a, [])"

lemma bind_visited_cong [fundef_cong]:
  "r = r' \<Longrightarrow> (\<And>a fs. r' = Inr (a, fs) \<Longrightarrow> f a = g a) \<Longrightarrow> bind_visited r f = bind_visited r' g"
  by (cases r') auto

lemma visit_Inr_iff [result_simps]:
  "visit fs r = Inr (a, hs) \<longleftrightarrow> (\<exists>gs. r = Inr (a, gs) \<and> hs = fs @ gs)"
  by (cases r) auto

lemma bind_visited_Inr_iff [result_simps]:
  "bind_visited r f = Inr (b, hs) \<longleftrightarrow>
     (\<exists>a fs gs. r = Inr (a, fs) \<and> f a = Inr (b, gs) \<and> hs = fs @ gs)"
  by (cases r) (auto simp: visit_Inr_iff)

lemma no_visit_Inr_iff [result_simps]: "no_visit r = Inr (a, fs) \<longleftrightarrow> r = Inr a \<and> fs = []"
  by (cases r) (auto simp: no_visit_def)

section \<open>Numbers, keys and spans\<close>

text \<open>
  \<open>Number(text)\<close> on the text of a numeric literal, which the scanner has normalised to what
  \<open>Number::toString\<close> prints. Minus zero is not told apart from zero.
\<close>

definition Number :: "string \<Rightarrow> js_number" where
  "Number text =
     (if text = ''Infinity'' then PosInfinity
      else
        let mantissa = takeWhile (\<lambda>c. c \<noteq> CHR ''e'') text;
            exponent = drop 1 (dropWhile (\<lambda>c. c \<noteq> CHR ''e'') text);
            whole = takeWhile (\<lambda>c. c \<noteq> CHR ''.'') mantissa;
            fraction = drop 1 (dropWhile (\<lambda>c. c \<noteq> CHR ''.'') mantissa);
            magnitude = (if take 1 exponent = ''+'' \<or> take 1 exponent = ''-'' then drop 1 exponent else exponent);
            scaled = of_nat (digits_value (whole @ fraction)) / 10 ^ length fraction
        in if \<not> decimal_text whole \<or> \<not> list_all ascii_digit fraction \<or>
              (exponent \<noteq> [] \<and> \<not> decimal_text magnitude) then NaN
           else if take 1 exponent = ''-'' then Fin (scaled / 10 ^ digits_value magnitude)
           else Fin (scaled * 10 ^ digits_value magnitude))"

fun negate :: "js_number \<Rightarrow> js_number" where
  "negate (Fin q) = Fin (- q)"
| "negate NaN = NaN"
| "negate PosInfinity = NegInfinity"
| "negate NegInfinity = PosInfinity"

text \<open>The template \<open>file:start:end\<close> of a handler reference.\<close>

definition handler_reference :: "source_span \<Rightarrow> string" where
  "handler_reference s =
     span_file s @ '':'' @ show_int (span_start s) @ '':'' @ show_int (span_end s)"

definition handlerArgument :: "source_span \<Rightarrow> build_argument" where
  "handlerArgument s = HandlerArgument (handler_reference s) s"

definition literal :: "build_value \<Rightarrow> source_span \<Rightarrow> build_argument" where
  "literal v s = ValueArgument v s"

definition contractArgument :: "contract_identity \<Rightarrow> string \<Rightarrow> string \<Rightarrow> source_span \<Rightarrow> build_argument" where
  "contractArgument c generated exported s = ContractArgument c generated exported s"

text \<open>
  A child is an argument or a raw value by its tag. The source decides by the presence of the
  properties \<open>kind\<close> and \<open>span\<close>, which is the same for every value the evaluator builds: its
  only raw children are strings (see \<open>extracted_values_typed\<close>).
\<close>

definition asArgument :: "source_span \<Rightarrow> build_child \<Rightarrow> build_argument" where
  "asArgument s child = (case child of Arg a \<Rightarrow> a | Raw v \<Rightarrow> ValueArgument v s)"

definition valuePayload :: "evaluator \<Rightarrow> string \<Rightarrow> build_argument \<Rightarrow> string \<Rightarrow> build_value extraction" where
  "valuePayload ev file argument subject =
     (case argument of
        ValueArgument v _ \<Rightarrow> Inr v
      | _ \<Rightarrow> Inl (MustBeLiteral subject, source_node_span ev file))"

definition requiredObject ::
  "evaluator \<Rightarrow> string \<Rightarrow> build_argument \<Rightarrow> string \<Rightarrow> (string \<times> build_argument) list extraction" where
  "requiredObject ev file argument subject =
     bind_result (valuePayload ev file argument subject) (\<lambda>v.
       case v of
         BObj kvs \<Rightarrow> Inr (map (\<lambda>(k, c). (k, asArgument (source_node_span ev file) c)) kvs)
       | _ \<Rightarrow> Inl (MustBeObject subject, source_node_span ev file))"

definition requiredArray ::
  "evaluator \<Rightarrow> string \<Rightarrow> build_argument option \<Rightarrow> string \<Rightarrow> build_argument list extraction" where
  "requiredArray ev file argument subject =
     (case argument of
        None \<Rightarrow> Inl (RequiresField subject, source_node_span ev file)
      | Some a \<Rightarrow>
          bind_result (valuePayload ev file a subject) (\<lambda>v.
            case v of
              BArr cs \<Rightarrow> Inr (map (asArgument (source_node_span ev file)) cs)
            | _ \<Rightarrow> Inl (MustBeArray subject, source_node_span ev file)))"

definition optionalHandler ::
  "evaluator \<Rightarrow> string \<Rightarrow> build_argument option \<Rightarrow> string \<Rightarrow> build_argument option extraction" where
  "optionalHandler ev file argument subject =
     (case argument of
        None \<Rightarrow> Inr None
      | Some a \<Rightarrow>
          (case a of
             HandlerArgument _ _ \<Rightarrow> Inr (Some a)
           | _ \<Rightarrow> Inl (MustBeFunction subject, source_node_span ev file)))"

fun propertyName :: "property_name \<Rightarrow> string extraction" where
  "propertyName (PropertyName text _) = Inr text"
| "propertyName (ComputedName s) = Inl (ComputedKey, s)"

definition add_entry ::
  "(string \<times> build_argument) list \<Rightarrow> string \<Rightarrow> build_argument \<Rightarrow> source_span \<Rightarrow>
     (string \<times> build_argument) list extraction" where
  "add_entry entries key a s =
     (if map_has entries key then Inl (DuplicateKey key, s) else Inr (entries @ [(key, a)]))"

fun add_entries ::
  "(string \<times> build_argument) list \<Rightarrow> (string \<times> build_argument) list \<Rightarrow> source_span \<Rightarrow>
     (string \<times> build_argument) list extraction" where
  "add_entries entries [] s = Inr entries"
| "add_entries entries ((k, a) # kvs) s =
     bind_result (add_entry entries k a s) (\<lambda>entries'. add_entries entries' kvs s)"

section \<open>Symbols\<close>

definition symbol_of :: "evaluator \<Rightarrow> nat option \<Rightarrow> symbol_info option" where
  "symbol_of ev s = Option.bind s (map_of (symbol_table ev))"

definition symbolFor :: "evaluator \<Rightarrow> expr \<Rightarrow> nat option" where
  "symbolFor ev e =
     (case e of
        Identifier text True s \<Rightarrow> getShorthandAssignmentValueSymbol ev text s
      | _ \<Rightarrow> getSymbolAtLocation ev e)"

definition name_target :: "expr \<Rightarrow> expr" where
  "name_target e =
     (case e of PropertyAccess _ text s _ \<Rightarrow> Identifier text False s | _ \<Rightarrow> e)"

fun module_of :: "ancestor list \<Rightarrow> string option" where
  "module_of [] = None"
| "module_of (ModuleReference (Some m) # _) = Some m"
| "module_of (_ # ns) = module_of ns"

fun first_module :: "declaration_reference list \<Rightarrow> string option" where
  "first_module [] = None"
| "first_module (r # rs) =
     (case Option.bind r (\<lambda>(_, nodes). module_of nodes) of
        Some m \<Rightarrow> Some m
      | None \<Rightarrow> first_module rs)"

definition moduleForSymbol :: "evaluator \<Rightarrow> nat option \<Rightarrow> string option" where
  "moduleForSymbol ev s =
     (case symbol_of ev s of
        None \<Rightarrow> None
      | Some info \<Rightarrow>
          first_module ((case valueDeclaration info of None \<Rightarrow> [] | Some r \<Rightarrow> [r]) @
                        symbol_declarations info))"

definition unseen :: "evaluator \<Rightarrow> nat list \<Rightarrow> nat" where
  "unseen ev seen = card (fst ` set (symbol_table ev) - set seen)"

lemma unseen_less: "map_of (symbol_table ev) s = Some info \<Longrightarrow> s \<notin> set seen \<Longrightarrow>
  unseen ev (s # seen) < unseen ev seen"
proof -
  assume s: "map_of (symbol_table ev) s = Some info" "s \<notin> set seen"
  have "fst ` set (symbol_table ev) - set (s # seen) \<subset> fst ` set (symbol_table ev) - set seen"
    using s by (force dest: map_of_SomeD)
  then show ?thesis by (simp add: unseen_def psubset_card_mono)
qed

text \<open>The loop of \<open>resolveSymbol\<close>, with the set \<open>seen\<close> as a list.\<close>

function resolve_alias :: "evaluator \<Rightarrow> nat list \<Rightarrow> nat \<Rightarrow> nat option" where
  "resolve_alias ev seen s =
     (case map_of (symbol_table ev) s of
        None \<Rightarrow> None
      | Some info \<Rightarrow>
          if \<not> alias_flag info then Some s
          else if s \<in> set seen then None
          else
            let next = aliased_symbol info in
            (case map_of (symbol_table ev) next of
               None \<Rightarrow> None
             | Some target \<Rightarrow>
                 if unknown_symbol target then None else resolve_alias ev (s # seen) next))"
  by pat_completeness auto
termination
  by (relation "measure (\<lambda>(ev, seen, _). unseen ev seen)") (auto intro: unseen_less)

definition resolveSymbol :: "evaluator \<Rightarrow> nat option \<Rightarrow> nat option" where
  "resolveSymbol ev s = Option.bind s (resolve_alias ev [])"

text \<open>The loop of \<open>meaning\<close>: as \<open>resolve_alias\<close>, keeping the module of the last alias that has one.\<close>

function resolve_import ::
  "evaluator \<Rightarrow> nat list \<Rightarrow> string option \<Rightarrow> nat \<Rightarrow> (nat \<times> string option) option" where
  "resolve_import ev seen from s =
     (case map_of (symbol_table ev) s of
        None \<Rightarrow> None
      | Some info \<Rightarrow>
          if \<not> alias_flag info then Some (s, from)
          else if s \<in> set seen then None
          else
            let from' = (case moduleForSymbol ev (Some s) of Some m \<Rightarrow> Some m | None \<Rightarrow> from);
                next = aliased_symbol info in
            (case map_of (symbol_table ev) next of
               None \<Rightarrow> None
             | Some target \<Rightarrow>
                 if unknown_symbol target then None
                 else resolve_import ev (s # seen) from' next))"
  by pat_completeness auto
termination
  by (relation "measure (\<lambda>(ev, seen, _, _). unseen ev seen)") (auto intro: unseen_less)

declare resolve_alias.simps [simp del] resolve_import.simps [simp del]

definition declaration_of :: "symbol_info \<Rightarrow> declaration_node option" where
  "declaration_of info =
     (case valueDeclaration info of
        Some r \<Rightarrow> map_option fst r
      | None \<Rightarrow> (case symbol_declarations info of [] \<Rightarrow> None | r # _ \<Rightarrow> map_option fst r))"

definition qualifier_module :: "evaluator \<Rightarrow> expr \<Rightarrow> string option \<Rightarrow> string option" where
  "qualifier_module ev e from =
     (case e of
        PropertyAccess object _ _ _ \<Rightarrow>
          (case moduleForSymbol ev (symbolFor ev object) of Some m \<Rightarrow> Some m | None \<Rightarrow> from)
      | _ \<Rightarrow> from)"

definition meaning :: "evaluator \<Rightarrow> expr \<Rightarrow> symbol_meaning option \<times> string list" where
  "meaning ev e =
     (case Option.bind (symbolFor ev (name_target e)) (resolve_import ev [] None) of
        None \<Rightarrow> (None, [])
      | Some (s, from) \<Rightarrow>
          (case map_of (symbol_table ev) s of
             None \<Rightarrow> (None, [])
           | Some info \<Rightarrow>
               (case declaration_of info of
                  None \<Rightarrow> (None, [])
                | Some d \<Rightarrow>
                    (classifySymbol ev
                       \<lparr>origin_file = span_file (node_span d), origin_name = symbol_name info,
                        origin_module = qualifier_module ev e from\<rparr>,
                     [span_file (node_span d)]))))"

definition value_node :: "evaluator \<Rightarrow> nat \<Rightarrow> declaration_node option" where
  "value_node ev s =
     Option.bind (map_of (symbol_table ev) s) (\<lambda>info. Option.bind (valueDeclaration info) (map_option fst))"

section \<open>Handlers\<close>

fun handler_declaration :: "declaration_node \<Rightarrow> declaration_node" where
  "handler_declaration (NameOf (VariableDeclaration c i s) _) = VariableDeclaration c i s"
| "handler_declaration (NameOf (FunctionDeclaration s) _) = FunctionDeclaration s"
| "handler_declaration d = d"

fun handler_target :: "declaration_node \<Rightarrow> source_span extraction" where
  "handler_target (VariableDeclaration const_list init s) =
     (if \<not> const_list then Inl (HandlerNotConst, s)
      else case init of
             Some (ArrowFunction f) \<Rightarrow> Inr f
           | Some (FunctionExpression f) \<Rightarrow> Inr f
           | _ \<Rightarrow> Inl (HandlerNotFunction, s))"
| "handler_target (FunctionDeclaration s) = Inr s"
| "handler_target d = Inl (HandlerNotNamed, node_span d)"

definition handler :: "evaluator \<Rightarrow> expr \<Rightarrow> build_argument extraction" where
  "handler ev e =
     (let v = unwrap e in
      bind_result
        (case v of
           Identifier _ _ s \<Rightarrow>
             (case Option.bind (resolveSymbol ev (symbolFor ev v)) (value_node ev) of
                None \<Rightarrow> Inl (HandlerUnresolved, s)
              | Some d \<Rightarrow> handler_target (handler_declaration d))
         | ArrowFunction s \<Rightarrow> Inr s
         | FunctionExpression s \<Rightarrow> Inr s
         | _ \<Rightarrow> Inl (HandlerPosition, expr_span v))
        (\<lambda>s. Inr (handlerArgument s)))"

section \<open>Values\<close>

definition held :: "evaluator \<Rightarrow> trail \<Rightarrow> source_span \<Rightarrow> nat \<Rightarrow> bool" where
  "held ev trail s target \<longleftrightarrow> target \<in> set (map fst trail) \<or> target \<in> set (overlap ev trail s)"

text \<open>The guards of \<open>constant\<close>: the symbol entered and its initializer.\<close>

definition constant_initializer :: "evaluator \<Rightarrow> trail \<Rightarrow> expr \<Rightarrow> (nat \<times> expr) extraction" where
  "constant_initializer ev trail e =
     (case resolveSymbol ev (symbolFor ev (name_target e)) of
        None \<Rightarrow> Inl (UnresolvedReference, expr_span e)
      | Some target \<Rightarrow>
          if held ev trail (expr_span e) target then Inl (CyclicConstant, expr_span e)
          else
            (case value_node ev target of
               None \<Rightarrow> Inl (NoStaticValue, expr_span e)
             | Some (VariableDeclaration const_list init s) \<Rightarrow>
                 if \<not> const_list then Inl (MutableConstant, s)
                 else (case init of None \<Rightarrow> Inl (NoInitializer, s) | Some i \<Rightarrow> Inr (target, i))
             | Some d \<Rightarrow> Inl (NotConst, node_span d)))"

text \<open>
  \<open>Promise.all\<close> over the outcomes of the arguments: the values when all are fulfilled,
  otherwise the reason of the argument that rejects first. The files the arguments visit are
  merged in the order of their turns.
\<close>

definition rejections :: "'a visited list \<Rightarrow> (extraction_problem \<times> source_span) list" where
  "rejections rs = concat (map (\<lambda>r. case r of Inl e \<Rightarrow> [e] | Inr _ \<Rightarrow> []) rs)"

fun merge_by :: "nat list \<Rightarrow> 'a list list \<Rightarrow> 'a list" where
  "merge_by [] xss = concat xss"
| "merge_by (k # ks) xss =
     (if k < length xss \<and> xss ! k \<noteq> [] then hd (xss ! k) # merge_by ks (xss[k := tl (xss ! k)]) else merge_by ks xss)"

definition promise_all :: "nat \<Rightarrow> nat list \<Rightarrow> 'a visited list \<Rightarrow> 'a list visited" where
  "promise_all k order rs =
     (case rejections rs of
        [] \<Rightarrow> Inr (map (fst \<circ> projr) rs, merge_by order (map (snd \<circ> projr) rs))
      | e # es \<Rightarrow> Inl ((e # es) ! (k mod length (e # es))))"

definition dependency_cardinality :: "string \<Rightarrow> string" where
  "dependency_cardinality name = (if name = ''required'' then ''one'' else name)"

text \<open>
  \<open>Contract.required(id)\<close>, \<open>optional\<close> and \<open>many\<close>: \<open>None\<close> when the call is not of this
  form, with the files its \<open>meaning\<close> visited.
\<close>

definition dependency_call ::
  "evaluator \<Rightarrow> expr \<Rightarrow> expr list \<Rightarrow> source_span \<Rightarrow> build_argument option visited" where
  "dependency_call ev callee arguments s =
     (case callee of
        PropertyAccess object name _ _ \<Rightarrow>
          if name \<in> {''required'', ''optional'', ''many''} then
            (case meaning ev object of
               (Some (ContractMeaning c generated exported), files) \<Rightarrow>
                 visit files (no_visit
                   (if 1 < length arguments then Inl (CardinalityArity, s)
                    else bind_result
                      (case arguments of
                         [] \<Rightarrow> Inr []
                       | i # _ \<Rightarrow>
                           (case unwrap i of
                              StringLiteral text _ \<Rightarrow> Inr [(''id'', Raw (BStr text))]
                            | other \<Rightarrow> Inl (IdNotLiteral, expr_span other)))
                      (\<lambda>ident. Inr (Some (literal
                         (BObj ([(''kind'', Raw (BStr ''lenso.dependency'')),
                                 (''cardinality'', Raw (BStr (dependency_cardinality name)))] @ ident @
                                [(''contract'', Arg (contractArgument c generated exported (expr_span object)))]))
                         s)))))
             | (_, files) \<Rightarrow> Inr (None, files))
          else done_with None
      | _ \<Rightarrow> done_with None)"

definition entry_mode :: "(string \<times> bool) list \<Rightarrow> string \<Rightarrow> bool" where
  "entry_mode modes key \<longleftrightarrow> map_of modes key = Some True"

text \<open>
  A value mode is a flag: true in a handler position. \<open>ev_elements\<close> is the loop over an array
  literal, \<open>ev_members\<close> the loop of \<open>object\<close> over an object literal with the entries so far,
  \<open>ev_arguments\<close> the evaluations that \<open>Promise.all\<close> starts, one outcome each.
\<close>

lemma size_unwrap: "size (unwrap e) \<le> size e"
  by (induction e rule: unwrap.induct) auto

fun spread_element :: "expr \<Rightarrow> (expr \<times> source_span) option" where
  "spread_element (SpreadElement e s) = Some (e, s)"
| "spread_element _ = None"

lemma size_spread_element: "spread_element e = Some (i, s) \<Longrightarrow> size i < size e"
  by (cases e) auto

lemma size_unwrapped:
  "ArrayLiteral es s = unwrap e \<Longrightarrow> size_list size es < size e"
  "ObjectLiteral ms s = unwrap e \<Longrightarrow> size_list size ms < size e"
  "CallExpression f es s = unwrap e \<Longrightarrow> size_list size es < size e"
  using size_unwrap [of e] by (auto dest!: arg_cong [of _ "unwrap e" size])

lemma constant_initializer_Inr:
  assumes "constant_initializer ev trail e = Inr (target, i)"
  shows "resolveSymbol ev (symbolFor ev (name_target e)) = Some target"
    and "\<not> held ev trail (expr_span e) target"
    and "\<exists>s. value_node ev target = Some (VariableDeclaration True (Some i) s)"
  using assms
  by (auto simp: constant_initializer_def split: option.splits if_splits declaration_node.splits)

lemma unseen_initializer:
  assumes "constant_initializer ev trail e = Inr (target, i)"
  shows "unseen ev (target # map fst trail) < unseen ev (map fst trail)"
proof -
  obtain info where "map_of (symbol_table ev) target = Some info"
    using constant_initializer_Inr(3) [OF assms] by (auto simp: value_node_def bind_eq_Some_conv)
  moreover have "target \<notin> set (map fst trail)"
    using constant_initializer_Inr(2) [OF assms] by (simp add: held_def)
  ultimately show ?thesis by (rule unseen_less)
qed

function (sequential)
  ev_value :: "evaluator \<Rightarrow> trail \<Rightarrow> bool \<Rightarrow> expr \<Rightarrow> build_argument visited" and
  ev_elements :: "evaluator \<Rightarrow> trail \<Rightarrow> string \<Rightarrow> expr list \<Rightarrow> build_argument list visited" and
  ev_members :: "evaluator \<Rightarrow> trail \<Rightarrow> string \<Rightarrow> (string \<times> bool) list \<Rightarrow>
    (string \<times> build_argument) list \<Rightarrow> object_member list \<Rightarrow> (string \<times> build_argument) list visited" and
  ev_arguments :: "evaluator \<Rightarrow> trail \<Rightarrow> int list \<Rightarrow> nat \<Rightarrow> expr list \<Rightarrow> build_argument visited list" and
  ev_call :: "evaluator \<Rightarrow> trail \<Rightarrow> expr \<Rightarrow> expr list \<Rightarrow> source_span \<Rightarrow> build_argument visited" and
  ev_constant :: "evaluator \<Rightarrow> trail \<Rightarrow> expr \<Rightarrow> build_argument visited"
where
  "ev_value ev trail handler_mode e =
     (let v = unwrap e in
      visit [expr_file v]
        (if handler_mode then no_visit (handler ev v)
         else case v of
           StringLiteral text s \<Rightarrow> done_with (literal (BStr text) s)
         | NumericLiteral text s \<Rightarrow> done_with (literal (BNum (Number text)) s)
         | TrueKeyword s \<Rightarrow> done_with (literal (BBool True) s)
         | FalseKeyword s \<Rightarrow> done_with (literal (BBool False) s)
         | NullKeyword s \<Rightarrow> done_with (literal BNull s)
         | PrefixUnary is_minus operand s \<Rightarrow>
             (case (is_minus, operand) of
                (True, NumericLiteral text _) \<Rightarrow> done_with (literal (BNum (negate (Number text))) s)
              | _ \<Rightarrow> Inl (NotStatic, s))
         | ArrayLiteral elements s \<Rightarrow>
             bind_visited (ev_elements ev trail (span_file s) elements) (\<lambda>items.
               done_with (literal (BArr (map Arg items)) s))
         | ObjectLiteral members s \<Rightarrow>
             bind_visited (ev_members ev trail (span_file s) [] [] members) (\<lambda>entries.
               done_with (literal (BObj (fromEntries (map (\<lambda>(k, a). (k, Arg a)) entries))) s))
         | CallExpression callee arguments s \<Rightarrow> ev_call ev trail callee arguments s
         | Identifier _ _ s \<Rightarrow>
             (case meaning ev v of
                (Some (ContractMeaning c generated exported), files) \<Rightarrow>
                  Inr (contractArgument c generated exported s, files)
              | (Some _, files) \<Rightarrow> Inl (ExportNotCalled, s)
              | (None, files) \<Rightarrow> visit files (ev_constant ev trail v))
         | PropertyAccess _ _ _ s \<Rightarrow>
             (case meaning ev v of
                (Some (ContractMeaning c generated exported), files) \<Rightarrow>
                  Inr (contractArgument c generated exported s, files)
              | (Some _, files) \<Rightarrow> Inl (ExportNotCalled, s)
              | (None, files) \<Rightarrow> Inl (PropertyAccessUnsupported, s))
         | _ \<Rightarrow> Inl (NotStatic, expr_span v)))"
| "ev_elements ev trail file [] = done_with []"
| "ev_elements ev trail file (e # rest) =
     (case spread_element e of
        Some (inner, s) \<Rightarrow>
          bind_visited (ev_value ev trail False inner) (\<lambda>spread.
          bind_visited (no_visit (valuePayload ev file spread ''array spread'')) (\<lambda>payload.
            case payload of
              BArr items \<Rightarrow>
                bind_visited (ev_elements ev trail file rest) (\<lambda>others.
                  done_with (map (asArgument s) items @ others))
            | _ \<Rightarrow> Inl (SpreadNotArray, s)))
      | None \<Rightarrow>
          bind_visited (ev_value ev trail False e) (\<lambda>item.
          bind_visited (ev_elements ev trail file rest) (\<lambda>others. done_with (item # others))))"
| "ev_members ev trail file modes entries [] = done_with entries"
| "ev_members ev trail file modes entries (SpreadAssignment e s # rest) =
     bind_visited (ev_value ev trail False e) (\<lambda>spread.
     bind_visited (no_visit (requiredObject ev file spread ''object spread'')) (\<lambda>kvs.
     bind_visited (no_visit (add_entries entries kvs s)) (\<lambda>entries'.
       ev_members ev trail file modes entries' rest)))"
| "ev_members ev trail file modes entries (AccessorDeclaration s # rest) = Inl (AccessorUnsupported, s)"
| "ev_members ev trail file modes entries (MethodDeclaration name s # rest) =
     bind_visited (no_visit (propertyName name)) (\<lambda>key.
       if \<not> entry_mode modes key then Inl (MethodUnsupported, s)
       else bind_visited (no_visit (add_entry entries key (handlerArgument s) s)) (\<lambda>entries'.
              ev_members ev trail file modes entries' rest))"
| "ev_members ev trail file modes entries (PropertyAssignment name e s # rest) =
     bind_visited (no_visit (propertyName name)) (\<lambda>key.
     bind_visited (ev_value ev trail (entry_mode modes key) e) (\<lambda>item.
     bind_visited (no_visit (add_entry entries key item s)) (\<lambda>entries'.
       ev_members ev trail file modes entries' rest)))"
| "ev_members ev trail file modes entries (ShorthandAssignment key name_span s # rest) =
     bind_visited (ev_value ev trail (entry_mode modes key) (Identifier key True name_span)) (\<lambda>item.
     bind_visited (no_visit (add_entry entries key item s)) (\<lambda>entries'.
       ev_members ev trail file modes entries' rest))"
| "ev_members ev trail file modes entries (OtherMember s # rest) = Inl (MemberUnsupported, s)"
| "ev_arguments ev trail handlers i [] = []"
| "ev_arguments ev trail handlers i (e # rest) =
     ev_value ev trail (int i \<in> set handlers) e # ev_arguments ev trail handlers (Suc i) rest"
| "ev_call ev trail callee arguments s =
     bind_visited (dependency_call ev callee arguments s) (\<lambda>dependency_value.
       case dependency_value of
         Some a \<Rightarrow> done_with a
       | None \<Rightarrow>
           (case meaning ev callee of
              (Some (DeclarationMeaning package exported handlers), files) \<Rightarrow>
                visit files (bind_visited
                  (promise_all (settles_first ev trail s) (turns ev trail s)
                     (ev_arguments ev trail (case handlers of None \<Rightarrow> [] | Some hs \<Rightarrow> hs) 0 arguments))
                  (\<lambda>items. done_with (DeclarationArgument package exported items s)))
            | _ \<Rightarrow> Inl (UnsupportedCall, expr_span callee)))"
| "ev_constant ev trail e =
     bind_visited (no_visit (constant_initializer ev trail e)) (\<lambda>(target, i).
       ev_value ev ((target, expr_span e) # trail) False i)"
  by pat_completeness auto


termination
  by (relation "measures [\<lambda>x. case x of
      Inl (Inl (ev, trail, _)) \<Rightarrow> unseen ev (map fst trail)
    | Inl (Inr (Inl (ev, trail, _))) \<Rightarrow> unseen ev (map fst trail)
    | Inl (Inr (Inr (ev, trail, _))) \<Rightarrow> unseen ev (map fst trail)
    | Inr (Inl (ev, trail, _)) \<Rightarrow> unseen ev (map fst trail)
    | Inr (Inr (Inl (ev, trail, _))) \<Rightarrow> unseen ev (map fst trail)
    | Inr (Inr (Inr (ev, trail, _))) \<Rightarrow> unseen ev (map fst trail),
    \<lambda>x. case x of
      Inl (Inl (_, _, _, e)) \<Rightarrow> 2 * size e + 1
    | Inl (Inr (Inl (_, _, _, es))) \<Rightarrow> 2 * size_list size es
    | Inl (Inr (Inr (_, _, _, _, _, ms))) \<Rightarrow> 2 * size_list size ms
    | Inr (Inl (_, _, _, _, es)) \<Rightarrow> 2 * size_list size es
    | Inr (Inr (Inl (_, _, _, es, _))) \<Rightarrow> 2 * size_list size es + 1
    | Inr (Inr (Inr (_, _, e))) \<Rightarrow> 2 * size e]")
    (auto simp: no_visit_Inr_iff le_imp_less_Suc size_unwrap 
      dest: size_unwrapped unseen_initializer size_spread_element)

declare ev_value.simps [simp del] ev_elements.simps(2) [simp del] ev_constant.simps [simp del]
  ev_call.simps [simp del]

lemmas ev_induct = ev_value_ev_elements_ev_members_ev_arguments_ev_call_ev_constant.induct

text \<open>
  The method \<open>object\<close>. The recursive calls above are on object literals, where it is
  \<open>ev_members\<close>; the other branch is taken for the argument of \<open>definePlugin\<close> only.
\<close>

definition ev_object ::
  "evaluator \<Rightarrow> (string \<times> bool) list \<Rightarrow> expr \<Rightarrow> (string \<times> build_argument) list visited" where
  "ev_object ev modes e =
     (let v = unwrap e in
      case v of
        ObjectLiteral members s \<Rightarrow> ev_members ev [] (span_file s) modes [] members
      | _ \<Rightarrow>
          bind_visited (ev_value ev [] False v) (\<lambda>a.
            no_visit (requiredObject ev (expr_file v) a ''object'')))"

section \<open>The Plugin definition\<close>

datatype statement = ExportAssignment bool expr | OtherStatement

record source_file =
  source_name :: string
  statements :: "statement list"

record ts_diagnostic =
  diagnostic_file :: "string option"
  diagnostic_text :: string
  diagnostic_pos :: int
  diagnostic_end :: int

text \<open>
  What the project of the entry file answers. The evaluator's fields for the checker, the
  classification and the schedule are given as an \<open>evaluator\<close>.
\<close>

record ts_project =
  project_source :: "source_file option"
  project_diagnostics :: "ts_diagnostic list"
  project_evaluator :: evaluator

record extracted_definition =
  ex_span :: source_span
  ex_config :: "build_argument option"
  ex_dependencies :: "(string \<times> build_argument) list option"
  ex_providers :: "build_argument list"
  ex_create :: "build_argument option"
  ex_stop :: "build_argument option"
  ex_sourceFiles :: "string list"

definition diagnosticError :: "ts_diagnostic \<Rightarrow> source_file \<Rightarrow> extraction_problem \<times> source_span" where
  "diagnosticError d fallback =
     (SyntaxProblem (diagnostic_text d),
      \<lparr>span_file = (case diagnostic_file d of None \<Rightarrow> source_name fallback | Some f \<Rightarrow> f),
       span_start = diagnostic_pos d, span_end = diagnostic_end d\<rparr>)"

fun default_export :: "statement list \<Rightarrow> expr option" where
  "default_export [] = None"
| "default_export (ExportAssignment False e # _) = Some e"
| "default_export (_ # rest) = default_export rest"

definition allowed_fields :: "string list" where
  "allowed_fields =
     [''config'', ''dependencies'', ''provides'', ''providers'', ''create'', ''stop'',
      ''maxConcurrentRequests'']"

definition evaluated_files :: "string list \<Rightarrow> string \<Rightarrow> string list" where
  "evaluated_files files entry = js_sort (remdups (files @ [entry]))"

text \<open>The part after the declaration object has been evaluated, on its entries.\<close>

definition declared_definition ::
  "evaluator \<Rightarrow> string \<Rightarrow> source_span \<Rightarrow> source_span \<Rightarrow> (string \<times> build_argument) list \<Rightarrow>
     string list \<Rightarrow> extracted_definition extraction" where
  "declared_definition ev entry call_span object_span entries files =
     (case find (\<lambda>k. k \<notin> set allowed_fields) (map fst entries) of
        Some k \<Rightarrow> Inl (UnknownPluginField k, object_span)
      | None \<Rightarrow>
          let provides_value = map_of entries ''provides'';
              providers_value = map_of entries ''providers'' in
          if (provides_value = None) = (providers_value = None)
          then Inl (ProvidesOrProviders, object_span)
          else
            bind_result
              (requiredArray ev entry
                 (case provides_value of None \<Rightarrow> providers_value | Some a \<Rightarrow> Some a)
                 (if provides_value = None then ''providers'' else ''provides'')) (\<lambda>providers.
            bind_result
              (case map_of entries ''dependencies'' of
                 None \<Rightarrow> Inr None
               | Some a \<Rightarrow>
                   bind_result (requiredObject ev entry a ''dependencies'') (\<lambda>kvs. Inr (Some kvs)))
              (\<lambda>dependencies.
            bind_result (optionalHandler ev entry (map_of entries ''create'') ''create'') (\<lambda>create.
            bind_result (optionalHandler ev entry (map_of entries ''stop'') ''stop'') (\<lambda>stop.
              Inr \<lparr>ex_span = call_span,
                   ex_config = map_of entries ''config'',
                   ex_dependencies = map_option fromEntries dependencies,
                   ex_providers = providers,
                   ex_create = create,
                   ex_stop = stop,
                   ex_sourceFiles = evaluated_files files entry\<rparr>)))))"

definition extract_call ::
  "evaluator \<Rightarrow> string \<Rightarrow> expr \<Rightarrow> extracted_definition extraction" where
  "extract_call ev entry expression =
     (case unwrap expression of
        CallExpression callee arguments s \<Rightarrow>
          (case meaning ev callee of
             (Some PluginDefinitionMeaning, files) \<Rightarrow>
               (case arguments of
                  [object] \<Rightarrow>
                    bind_result (ev_object ev [(''create'', True), (''stop'', True)] object)
                      (\<lambda>(entries, visited).
                         declared_definition ev entry s (expr_span object) entries (files @ visited))
                | _ \<Rightarrow> Inl (NotOneArgument, s))
           | _ \<Rightarrow> Inl (NotDefinePlugin, expr_span callee))
      | other \<Rightarrow> Inl (NotDefinePluginCall, expr_span other))"

definition extractPluginDefinition ::
  "(string \<Rightarrow> ts_project option) \<Rightarrow> string \<Rightarrow> extracted_definition extraction" where
  "extractPluginDefinition defaultProject entryFile =
     (let nowhere = \<lparr>span_file = entryFile, span_start = 0, span_end = 0\<rparr> in
      case defaultProject entryFile of
        None \<Rightarrow> Inl (NoProject entryFile, nowhere)
      | Some project \<Rightarrow>
          (case project_source project of
             None \<Rightarrow> Inl (NoEntry entryFile, nowhere)
           | Some source \<Rightarrow>
               (case project_diagnostics project of
                  d # _ \<Rightarrow> Inl (diagnosticError d source)
                | [] \<Rightarrow>
                    (case default_export (statements source) of
                       None \<Rightarrow>
                         Inl (NoDefaultExport, source_node_span (project_evaluator project) (source_name source))
                     | Some expression \<Rightarrow>
                         extract_call (project_evaluator project) (source_name source) expression))))"

end
