(* ===== verification/Extraction_Semantics.thy ===== *)
theory Extraction_Semantics
  imports Static_Extraction
begin

text \<open>
  The static declaration subset as a big-step semantics: which expressions denote which build
  arguments, as an inductive relation with one rule per form, and the proof that the evaluator
  succeeds exactly with the denoted argument. The rules state each check in terms of the syntax and
  the symbols, without the functions of the evaluator that make it: a name stands for the end of its
  chain of aliases, a handler is a function or names one, a dependency has at most a literal
  identity, and keys are new. The properties of the evaluator's results are proved
  by induction over the rules.
\<close>

fun leaf_value :: "expr \<Rightarrow> build_value option" where
  "leaf_value (StringLiteral text _) = Some (BStr text)"
| "leaf_value (NumericLiteral text _) = Some (BNum (Number text))"
| "leaf_value (TrueKeyword _) = Some (BBool True)"
| "leaf_value (FalseKeyword _) = Some (BBool False)"
| "leaf_value (NullKeyword _) = Some BNull"
| "leaf_value (PrefixUnary True (NumericLiteral text _) _) = Some (BNum (negate (Number text)))"
| "leaf_value _ = None"

fun is_reference :: "expr \<Rightarrow> bool" where
  "is_reference (Identifier _ _ _) = True"
| "is_reference (PropertyAccess _ _ _ _) = True"
| "is_reference _ = False"

section \<open>Aliases\<close>

definition alias_step :: "evaluator \<Rightarrow> nat \<Rightarrow> nat \<Rightarrow> bool" where
  "alias_step ev s t \<longleftrightarrow>
     (\<exists>info target. map_of (symbol_table ev) s = Some info \<and> alias_flag info \<and>
        t = aliased_symbol info \<and> map_of (symbol_table ev) t = Some target \<and> \<not> unknown_symbol target)"

definition is_definite :: "evaluator \<Rightarrow> nat \<Rightarrow> bool" where
  "is_definite ev s \<longleftrightarrow> (\<exists>info. map_of (symbol_table ev) s = Some info \<and> \<not> alias_flag info)"

lemma alias_step_determined: "alias_step ev s t \<Longrightarrow> alias_step ev s u \<Longrightarrow> t = u"
  by (auto simp: alias_step_def)

lemma definite_final: "is_definite ev s \<Longrightarrow> \<not> alias_step ev s t"
  by (auto simp: alias_step_def is_definite_def)

lemma resolve_alias_sound:
  "resolve_alias ev seen s = Some t \<Longrightarrow> (alias_step ev)\<^sup>*\<^sup>* s t \<and> is_definite ev t"
proof (induction ev seen s rule: resolve_alias.induct)
  case (1 ev seen s)
  then show ?case
    by (subst (asm) (2) resolve_alias.simps)
      (auto simp: Let_def is_definite_def alias_step_def split: option.splits if_splits
        intro: converse_rtranclp_into_rtranclp)
qed

lemma on_alias_cycle:
  assumes "(alias_step ev)\<^sup>+\<^sup>+ s s" "(alias_step ev)\<^sup>*\<^sup>* s t"
  shows "(alias_step ev)\<^sup>+\<^sup>+ t s"
  using assms(2)
proof (induction rule: rtranclp_induct)
  case (step y z)
  obtain w where "alias_step ev y w" "(alias_step ev)\<^sup>*\<^sup>* w s"
    using step.IH by (meson tranclpD)
  then have "(alias_step ev)\<^sup>*\<^sup>* z s" using step.hyps(2) alias_step_determined by metis
  then show ?case using assms(1) by (rule rtranclp_tranclp_tranclp)
qed (rule assms(1))

lemma resolve_alias_complete:
  assumes "(alias_step ev)\<^sup>*\<^sup>* s t" "is_definite ev t" "\<forall>x \<in> set seen. \<not> (alias_step ev)\<^sup>*\<^sup>* s x"
  shows "resolve_alias ev seen s = Some t"
  using assms(1,3)
proof (induction arbitrary: seen rule: converse_rtranclp_induct)
  case base
  then show ?case using assms(2) by (auto simp: is_definite_def resolve_alias.simps)
next
  case (step s u)
  have "\<not> (alias_step ev)\<^sup>*\<^sup>* u s"
  proof
    assume "(alias_step ev)\<^sup>*\<^sup>* u s"
    then have "(alias_step ev)\<^sup>+\<^sup>+ s s" using step.hyps(1) by (rule rtranclp_into_tranclp2 [rotated])
    then have "(alias_step ev)\<^sup>+\<^sup>+ t s"
      using on_alias_cycle step.hyps by (meson converse_rtranclp_into_rtranclp)
    then show False using definite_final [OF assms(2)] by (meson tranclpD)
  qed
  moreover have "\<not> (alias_step ev)\<^sup>*\<^sup>* u x" if "x \<in> set seen" for x
    using step.prems that step.hyps(1) by (meson converse_rtranclp_into_rtranclp)
  ultimately have "resolve_alias ev (s # seen) u = Some t" by (intro step.IH) auto
  moreover have "s \<notin> set seen" using step.prems by blast
  ultimately show ?case
    using step.hyps(1) by (auto simp: alias_step_def resolve_alias.simps [of ev seen s])
qed

lemma resolve_import_symbol: "map_option fst (resolve_import ev seen m s) = resolve_alias ev seen s"
proof (induction ev seen m s rule: resolve_import.induct)
  case (1 ev seen m s)
  then show ?case
    by (subst resolve_import.simps, subst resolve_alias.simps)
      (auto simp: Let_def split: option.split)
qed

text \<open>
  Following aliases ends for every symbol table, alias cycles included, and finds a symbol exactly
  when the chain of aliases reaches one that is not an alias, through known symbols only; reading
  the meaning of a name and reading its constant follow the chain to the same symbol.
\<close>

theorem resolveSymbol_exact:
  "(resolveSymbol ev (Some s) = Some t \<longleftrightarrow> (alias_step ev)\<^sup>*\<^sup>* s t \<and> is_definite ev t) \<and>
   map_option fst (resolve_import ev [] None s) = resolveSymbol ev (Some s)"
  using resolve_alias_sound resolve_alias_complete [of ev s t "[]"]
  by (auto simp: resolveSymbol_def resolve_import_symbol)

section \<open>The static subset\<close>

text \<open>
  The symbol a name stands for: the end of its chain of aliases. A function in a handler position is
  written there, or named by a function declaration or by a \<open>const\<close> whose initializer is a function.
\<close>

definition stands_for :: "evaluator \<Rightarrow> expr \<Rightarrow> nat \<Rightarrow> bool" where
  "stands_for ev e t \<longleftrightarrow> (\<exists>s. symbolFor ev e = Some s \<and> (alias_step ev)\<^sup>*\<^sup>* s t \<and> is_definite ev t)"

inductive declares_function :: "declaration_node \<Rightarrow> source_span \<Rightarrow> bool" where
  "declares_function (FunctionDeclaration s) s"
| "declares_function (VariableDeclaration True (Some (ArrowFunction s)) v) s"
| "declares_function (VariableDeclaration True (Some (FunctionExpression s)) v) s"

inductive function_of :: "evaluator \<Rightarrow> expr \<Rightarrow> source_span \<Rightarrow> bool" where
  written_arrow: "function_of ev (ArrowFunction s) s"
| written_function: "function_of ev (FunctionExpression s) s"
| named_function:
    "stands_for ev (Identifier t b u) target \<Longrightarrow> value_node ev target = Some d \<Longrightarrow>
     declares_function d s \<or> (\<exists>d' n. d = NameOf d' n \<and> declares_function d' s) \<Longrightarrow>
     function_of ev (Identifier t b u) s"

text \<open>
  \<open>Contract.required(id)\<close> and its variants, with no argument or a string literal; and the files
  looked at for a call that is not of this form.
\<close>

fun cardinality_call :: "expr \<Rightarrow> (expr \<times> string) option" where
  "cardinality_call (PropertyAccess object name _ _) =
     (if name = ''required'' then Some (object, ''one'')
      else if name = ''optional'' \<or> name = ''many'' then Some (object, name) else None)"
| "cardinality_call _ = None"

inductive dependency_id_literal :: "expr list \<Rightarrow> (string \<times> build_child) list \<Rightarrow> bool" where
  "dependency_id_literal [] []"
| "unwrap e = StringLiteral text s \<Longrightarrow> dependency_id_literal [e] [(''id'', Raw (BStr text))]"

definition not_dependency :: "evaluator \<Rightarrow> expr \<Rightarrow> string list \<Rightarrow> bool" where
  "not_dependency ev f fs \<longleftrightarrow>
     (case cardinality_call f of
        None \<Rightarrow> fs = []
      | Some (object, _) \<Rightarrow> \<exists>m. meaning ev object = (m, fs) \<and> (\<forall>c g x. m \<noteq> Some (ContractMeaning c g x)))"

definition dependency_value ::
  "string \<Rightarrow> (string \<times> build_child) list \<Rightarrow> build_argument \<Rightarrow> source_span \<Rightarrow> build_argument" where
  "dependency_value cardinality ident contract s =
     ValueArgument (BObj ([(''kind'', Raw (BStr ''lenso.dependency'')), (''cardinality'', Raw (BStr cardinality))] @ ident @
       [(''contract'', Arg contract)])) s"

text \<open>The entries of an object literal grow by entries with new and distinct keys.\<close>

definition grown :: "(string \<times> 'a) list \<Rightarrow> (string \<times> 'a) list \<Rightarrow> (string \<times> 'a) list \<Rightarrow> bool" where
  "grown entries kvs entries' \<longleftrightarrow>
     distinct (map fst kvs) \<and> fst ` set kvs \<inter> fst ` set entries = {} \<and> entries' = entries @ kvs"

inductive
  denotes :: "evaluator \<Rightarrow> trail \<Rightarrow> bool \<Rightarrow> expr \<Rightarrow> build_argument \<Rightarrow> string list \<Rightarrow> bool" and
  gathers :: "evaluator \<Rightarrow> trail \<Rightarrow> string \<Rightarrow> expr list \<Rightarrow> build_argument list \<Rightarrow> string list \<Rightarrow> bool" and
  collects :: "evaluator \<Rightarrow> trail \<Rightarrow> string \<Rightarrow> (string \<times> bool) list \<Rightarrow>
    (string \<times> build_argument) list \<Rightarrow> object_member list \<Rightarrow> (string \<times> build_argument) list \<Rightarrow>
    string list \<Rightarrow> bool" and
  passes :: "evaluator \<Rightarrow> trail \<Rightarrow> int list \<Rightarrow> nat \<Rightarrow> expr list \<Rightarrow>
    (build_argument \<times> string list) list \<Rightarrow> bool"
where
  denotes_handler:
    "function_of ev (unwrap e) s \<Longrightarrow>
     denotes ev tr True e (HandlerArgument (handler_reference s) s) [expr_file (unwrap e)]"
| denotes_leaf:
    "leaf_value (unwrap e) = Some v \<Longrightarrow>
     denotes ev tr False e (ValueArgument v (expr_span (unwrap e))) [expr_file (unwrap e)]"
| denotes_array:
    "unwrap e = ArrayLiteral es s \<Longrightarrow> gathers ev tr (span_file s) es items fs \<Longrightarrow>
     denotes ev tr False e (ValueArgument (BArr (map Arg items)) s) (span_file s # fs)"
| denotes_object:
    "unwrap e = ObjectLiteral ms s \<Longrightarrow> collects ev tr (span_file s) [] [] ms entries fs \<Longrightarrow>
     denotes ev tr False e (ValueArgument (BObj (fromEntries (map (\<lambda>(k, a). (k, Arg a)) entries))) s)
       (span_file s # fs)"
| denotes_dependency:
    "unwrap e = CallExpression f es s \<Longrightarrow> cardinality_call f = Some (object, cardinality) \<Longrightarrow>
     meaning ev object = (Some (ContractMeaning c generated exported), fs) \<Longrightarrow> dependency_id_literal es ident \<Longrightarrow>
     denotes ev tr False e
       (dependency_value cardinality ident (ContractArgument c generated exported (expr_span object)) s) (span_file s # fs)"
| denotes_declaration:
    "unwrap e = CallExpression f es s \<Longrightarrow> not_dependency ev f fs \<Longrightarrow>
     meaning ev f = (Some (DeclarationMeaning pkg exported handlers), gs) \<Longrightarrow>
     passes ev tr (case handlers of None \<Rightarrow> [] | Some hs \<Rightarrow> hs) 0 es ps \<Longrightarrow>
     denotes ev tr False e (DeclarationArgument pkg exported (map fst ps) s)
       (span_file s # fs @ gs @ merge_by (turns ev tr s) (map snd ps))"
| denotes_contract:
    "is_reference (unwrap e) \<Longrightarrow>
     meaning ev (unwrap e) = (Some (ContractMeaning c generated exported), fs) \<Longrightarrow>
     denotes ev tr False e (ContractArgument c generated exported (expr_span (unwrap e)))
       (expr_file (unwrap e) # fs)"
| denotes_constant:
    "unwrap e = Identifier t b s \<Longrightarrow> meaning ev (unwrap e) = (None, fs) \<Longrightarrow>
     stands_for ev (unwrap e) target \<Longrightarrow> target \<notin> fst ` set tr \<Longrightarrow> target \<notin> set (overlap ev tr s) \<Longrightarrow>
     value_node ev target = Some (VariableDeclaration True (Some i) d) \<Longrightarrow>
     denotes ev ((target, s) # tr) False i a gs \<Longrightarrow>
     denotes ev tr False e a (span_file s # fs @ gs)"
| gathers_nil: "gathers ev tr fl [] [] []"
| gathers_spread:
    "spread_element e = Some (inner, s) \<Longrightarrow> denotes ev tr False inner (ValueArgument (BArr xs) sp) fs \<Longrightarrow>
     gathers ev tr fl es items gs \<Longrightarrow>
     gathers ev tr fl (e # es) (map (asArgument s) xs @ items) (fs @ gs)"
| gathers_item:
    "spread_element e = None \<Longrightarrow> denotes ev tr False e a fs \<Longrightarrow> gathers ev tr fl es items gs \<Longrightarrow>
     gathers ev tr fl (e # es) (a # items) (fs @ gs)"
| collects_nil: "collects ev tr fl modes entries [] entries []"
| collects_spread:
    "denotes ev tr False e (ValueArgument (BObj kvs) sp) fs \<Longrightarrow>
     grown entries (map (\<lambda>(k, c). (k, asArgument (source_node_span ev fl) c)) kvs) entries' \<Longrightarrow>
     collects ev tr fl modes entries' ms result gs \<Longrightarrow>
     collects ev tr fl modes entries (SpreadAssignment e s # ms) result (fs @ gs)"
| collects_method:
    "map_of modes key = Some True \<Longrightarrow> grown entries [(key, HandlerArgument (handler_reference s) s)] entries' \<Longrightarrow>
     collects ev tr fl modes entries' ms result gs \<Longrightarrow>
     collects ev tr fl modes entries (MethodDeclaration (PropertyName key ns) s # ms) result gs"
| collects_property:
    "denotes ev tr (map_of modes key = Some True) e a fs \<Longrightarrow> grown entries [(key, a)] entries' \<Longrightarrow>
     collects ev tr fl modes entries' ms result gs \<Longrightarrow>
     collects ev tr fl modes entries (PropertyAssignment (PropertyName key ns) e s # ms) result (fs @ gs)"
| collects_shorthand:
    "denotes ev tr (map_of modes key = Some True) (Identifier key True ns) a fs \<Longrightarrow> grown entries [(key, a)] entries' \<Longrightarrow>
     collects ev tr fl modes entries' ms result gs \<Longrightarrow>
     collects ev tr fl modes entries (ShorthandAssignment key ns s # ms) result (fs @ gs)"
| passes_nil: "passes ev tr hs i [] []"
| passes_cons:
    "denotes ev tr (int i \<in> set hs) e a fs \<Longrightarrow> passes ev tr hs (Suc i) es ps \<Longrightarrow>
     passes ev tr hs i (e # es) ((a, fs) # ps)"

inductive_cases gathers_consE: "gathers ev tr fl (e # es) items fs"
inductive_cases collects_consE: "collects ev tr fl modes entries (x # ms) result fs"
inductive_cases passes_consE: "passes ev tr hs i (e # es) ps"

lemmas denotes_induct = denotes_gathers_collects_passes.inducts

section \<open>The checks of the evaluator\<close>

text \<open>Each check of the evaluator, solved for what it accepts.\<close>

lemma stands_for_iff: "resolveSymbol ev (symbolFor ev e) = Some t \<longleftrightarrow> stands_for ev e t"
  using resolve_alias_sound resolve_alias_complete [of ev _ t "[]"]
  by (cases "symbolFor ev e") (auto simp: resolveSymbol_def stands_for_def)

inductive_simps declares_function_simps [simp]:
  "declares_function (FunctionDeclaration v) s" "declares_function (VariableDeclaration c i v) s"
  "declares_function (NameOf d n) s" "declares_function (OtherDeclaration v) s"

inductive_simps function_of_simps:
  "function_of ev (Identifier t b u) s" "function_of ev (ArrowFunction u) s" "function_of ev (FunctionExpression u) s"

lemma handler_target_iff: "handler_target d = Inr s \<longleftrightarrow> declares_function d s"
  by (cases d rule: handler_target.cases) (auto split: option.split expr.split)

lemma handler_declaration_iff:
  "declares_function (handler_declaration d) s \<longleftrightarrow> declares_function d s \<or> (\<exists>d' n. d = NameOf d' n \<and> declares_function d' s)"
  by (cases d rule: handler_declaration.cases) (auto elim: declares_function.cases)

lemma unwrap_unwrap [simp]: "unwrap (unwrap e) = unwrap e"
  by (induction e rule: unwrap.induct) auto

lemma stands_for_determined: "stands_for ev e t \<Longrightarrow> stands_for ev e u \<Longrightarrow> t = u"
  by (simp add: stands_for_iff [symmetric])

lemma handler_named:
  "(case Option.bind (resolveSymbol ev (symbolFor ev (Identifier t b u))) (value_node ev) of
      None \<Rightarrow> Inl x | Some d \<Rightarrow> handler_target (handler_declaration d)) = Inr s \<longleftrightarrow>
   function_of ev (Identifier t b u) s"
proof (cases "resolveSymbol ev (symbolFor ev (Identifier t b u))")
  case None
  then show ?thesis by (simp add: function_of_simps stands_for_iff [symmetric])
next
  case (Some target)
  then show ?thesis
    by (simp add: function_of_simps stands_for_iff [symmetric] handler_target_iff handler_declaration_iff
        split: option.split)
qed

lemma handler_Inr_iff [result_simps]:
  "handler ev (unwrap e) = Inr a \<longleftrightarrow> (\<exists>s. function_of ev (unwrap e) s \<and> a = HandlerArgument (handler_reference s) s)"
  unfolding handler_def Let_def unwrap_unwrap
  by (cases "unwrap e")
    (auto simp: result_simps function_of_simps(2,3) handler_named handlerArgument_def elim: function_of.cases)

lemma dependency_id_iff:
  "dependency_id_literal es ident \<longleftrightarrow>
   length es \<le> 1 \<and> (case es of [] \<Rightarrow> ident = [] | i # _ \<Rightarrow> \<exists>text s. unwrap i = StringLiteral text s \<and> ident = [(''id'', Raw (BStr text))])"
  by (cases es) (auto simp: dependency_id_literal.simps)

lemma dependency_call_None_iff [result_simps]:
  "dependency_call ev f es s = Inr (None, fs) \<longleftrightarrow> not_dependency ev f fs"
  by (cases f) (auto simp: dependency_call_def not_dependency_def result_simps
      split: prod.splits option.splits symbol_meaning.splits list.splits)

lemma dependency_call_Some_iff [result_simps]:
  "dependency_call ev f es s = Inr (Some a, fs) \<longleftrightarrow>
   (\<exists>object cardinality c generated exported ident. cardinality_call f = Some (object, cardinality) \<and>
      meaning ev object = (Some (ContractMeaning c generated exported), fs) \<and> dependency_id_literal es ident \<and>
      a = dependency_value cardinality ident (ContractArgument c generated exported (expr_span object)) s)"
proof (cases "cardinality_call f")
  case None
  then show ?thesis by (cases f) (auto simp: dependency_call_def split: if_splits)
next
  case (Some oc)
  then obtain object name u v where f: "f = PropertyAccess object name u v"
    and name: "name \<in> {''required'', ''optional'', ''many''}" "oc = (object, dependency_cardinality name)"
    by (cases f) (auto simp: dependency_cardinality_def split: if_splits)
  obtain m gs where m: "meaning ev object = (m, gs)" by (cases "meaning ev object")
  show ?thesis
  proof (cases "\<exists>c g x. m = Some (ContractMeaning c g x)")
    case True
    then obtain c g x where "m = Some (ContractMeaning c g x)" by blast
    then show ?thesis
      using Some f name m
      by (simp add: dependency_call_def dependency_id_iff result_simps contractArgument_def literal_def
          dependency_value_def no_visit_Inr_iff)
        (auto simp: dependency_id_iff dependency_value_def result_simps split: list.splits expr.splits)
  next
    case False
    then show ?thesis
      using Some f name m by (auto simp: dependency_call_def split: option.splits symbol_meaning.splits)
  qed
qed

lemma constant_initializer_Inr_iff [result_simps]:
  "constant_initializer ev tr e = Inr (target, i) \<longleftrightarrow>
   stands_for ev (name_target e) target \<and> target \<notin> fst ` set tr \<and> target \<notin> set (overlap ev tr (expr_span e)) \<and>
   (\<exists>d. value_node ev target = Some (VariableDeclaration True (Some i) d))"
  by (auto simp: constant_initializer_def held_def stands_for_iff [symmetric] split: option.splits if_splits declaration_node.splits)

lemma add_entry_Inr_iff [result_simps]: "add_entry entries key a s = Inr entries' \<longleftrightarrow> grown entries [(key, a)] entries'"
  by (auto simp: add_entry_def grown_def map_has_iff)

lemma add_entries_Inr_iff [result_simps]: "add_entries entries kvs s = Inr entries' \<longleftrightarrow> grown entries kvs entries'"
  by (induction entries kvs s rule: add_entries.induct) (auto simp: result_simps grown_def)

section \<open>The evaluator computes the semantics\<close>

lemma promise_all_Inr_iff:
  "promise_all k order rs = Inr (items, fs) \<longleftrightarrow>
     (\<exists>ps. rs = map Inr ps \<and> items = map fst ps \<and> fs = merge_by order (map snd ps))"
proof -
  have "rejections rs = [] \<longleftrightarrow> (\<exists>ps. rs = map Inr ps)"
  proof (induction rs)
    case (Cons r rs)
    then show ?case by (cases r) (auto simp: rejections_def Cons_eq_map_conv)
  qed (simp add: rejections_def)
  then show ?thesis
    by (auto simp: promise_all_def comp_def split: list.split)
qed

lemma evaluator_complete:
  "denotes ev tr m e a fs \<Longrightarrow> ev_value ev tr m e = Inr (a, fs)"
  "gathers ev tr fl es items fs \<Longrightarrow> ev_elements ev tr fl es = Inr (items, fs)"
  "collects ev tr fl modes entries ms result fs \<Longrightarrow>
     ev_members ev tr fl modes entries ms = Inr (result, fs)"
  "passes ev tr hs i es ps \<Longrightarrow> ev_arguments ev tr hs i es = map Inr ps"
proof (induction rule: denotes_induct)
  case (denotes_leaf e v ev tr)
  then show ?case
    by (cases "unwrap e" rule: leaf_value.cases) (simp_all add: ev_value.simps literal_def)
next
  case (denotes_declaration e f es s ev fs pkg exported handlers gs tr ps)
  have "promise_all (settles_first ev tr s) (turns ev tr s)
      (ev_arguments ev tr (case handlers of None \<Rightarrow> [] | Some hs \<Rightarrow> hs) 0 es) =
      Inr (map fst ps, merge_by (turns ev tr s) (map snd ps))"
    using denotes_declaration.IH by (auto simp: promise_all_Inr_iff)
  moreover have "dependency_call ev f es s = Inr (None, fs)"
    using denotes_declaration.hyps(2) by (simp add: dependency_call_None_iff)
  ultimately show ?case using denotes_declaration.hyps by (simp add: ev_value.simps ev_call.simps)
next
  case (denotes_contract e ev c generated exported fs tr)
  then show ?case
    by (cases "unwrap e") (simp_all add: ev_value.simps contractArgument_def Let_def)
next
  case (denotes_constant e t b s ev fs target tr i d a gs)
  then have "constant_initializer ev tr (Identifier t b s) = Inr (target, i)"
    by (auto simp: constant_initializer_Inr_iff name_target_def)
  then show ?case using denotes_constant by (simp add: ev_value.simps ev_constant.simps no_visit_def Let_def)
next
  case (denotes_handler ev e s tr)
  then have "handler ev (unwrap e) = Inr (HandlerArgument (handler_reference s) s)"
    by (auto simp: handler_Inr_iff)
  then show ?case by (simp add: ev_value.simps no_visit_def Let_def)
next
  case (denotes_dependency e f es s object cardinality ev c generated exported fs ident tr)
  have "dependency_call ev f es s =
      Inr (Some (dependency_value cardinality ident (ContractArgument c generated exported (expr_span object)) s), fs)"
    using denotes_dependency by (auto simp: dependency_call_Some_iff)
  then show ?case using denotes_dependency.hyps(1) by (simp add: ev_value.simps ev_call.simps)
next
  case (collects_spread ev tr e kvs sp fs entries fl entries' modes ms result gs s)
  then have "add_entries entries (map (\<lambda>(k, c). (k, asArgument (source_node_span ev fl) c)) kvs) s = Inr entries'"
    by (simp add: add_entries_Inr_iff)
  then show ?case using collects_spread.IH by (simp add: requiredObject_def valuePayload_def no_visit_def)
next
  case (collects_method modes key entries s entries' ev tr fl ms result gs ns)
  then have "add_entry entries key (handlerArgument s) s = Inr entries'"
    by (simp add: add_entry_Inr_iff handlerArgument_def)
  then show ?case using collects_method by (simp add: entry_mode_def no_visit_def)
next
  case (collects_property ev tr modes key e a fs entries entries' fl ms result gs ns s)
  then show ?case
    by (simp add: add_entry_Inr_iff [THEN iffD2] entry_mode_def no_visit_def)
next
  case (collects_shorthand ev tr modes key ns a fs entries entries' fl ms result gs s)
  then show ?case
    by (simp add: add_entry_Inr_iff [THEN iffD2] entry_mode_def no_visit_def)
qed (simp_all add: ev_value.simps ev_elements.simps(2) ev_call.simps valuePayload_def no_visit_def literal_def)

text \<open>Success of the evaluator on each form, solved for the intermediate results.\<close>

lemma valuePayload_Inr_iff [result_simps]:
  "valuePayload ev fl a t = Inr v \<longleftrightarrow> (\<exists>s. a = ValueArgument v s)"
  by (cases a) (auto simp: valuePayload_def)

lemma case_array_Inr_iff [result_simps]:
  "(case v of BArr xs \<Rightarrow> f xs | _ \<Rightarrow> Inl e) = Inr r \<longleftrightarrow> (\<exists>xs. v = BArr xs \<and> f xs = Inr r)"
  by (cases v) auto

lemma case_object_Inr_iff [result_simps]:
  "(case v of BObj xs \<Rightarrow> f xs | _ \<Rightarrow> Inl e) = Inr r \<longleftrightarrow> (\<exists>xs. v = BObj xs \<and> f xs = Inr r)"
  by (cases v) auto

lemma requiredObject_Inr_iff [result_simps]:
  "requiredObject ev fl a t = Inr kvs \<longleftrightarrow>
   (\<exists>xs s. a = ValueArgument (BObj xs) s \<and> kvs = map (\<lambda>(k, c). (k, asArgument (source_node_span ev fl) c)) xs)"
  by (auto simp: requiredObject_def result_simps)

lemma case_declared_Inr_iff [result_simps]:
  "(case m of (Some (DeclarationMeaning p x h), fs) \<Rightarrow> f p x h fs | _ \<Rightarrow> Inl e) = Inr r \<longleftrightarrow>
     (\<exists>p x h fs. m = (Some (DeclarationMeaning p x h), fs) \<and> f p x h fs = Inr r)"
  by (auto split: prod.splits option.splits symbol_meaning.splits)

lemma ev_call_Inr:
  assumes "ev_call ev tr f es s = Inr (a, hs)"
  obtains (dependency) "dependency_call ev f es s = Inr (Some a, hs)"
  | (declared) fs pkg exported handlers gs ps where
      "dependency_call ev f es s = Inr (None, fs)"
      "meaning ev f = (Some (DeclarationMeaning pkg exported handlers), gs)"
      "ev_arguments ev tr (case handlers of None \<Rightarrow> [] | Some hs \<Rightarrow> hs) 0 es = map Inr ps"
      "a = DeclarationArgument pkg exported (map fst ps) s" "hs = fs @ gs @ merge_by (turns ev tr s) (map snd ps)"
proof (cases "dependency_call ev f es s")
  case (Inl x)
  then show ?thesis using assms by (simp add: ev_call.simps)
next
  case (Inr r)
  obtain d fs where r: "r = (d, fs)" by (cases r)
  show ?thesis
  proof (cases d)
    case None
    then show ?thesis
      using assms Inr r that(2) by (simp add: ev_call.simps result_simps promise_all_Inr_iff) blast
  next
    case (Some x)
    then show ?thesis using assms Inr r that(1) by (simp add: ev_call.simps)
  qed
qed

lemma ev_elements_Inr:
  assumes "ev_elements ev tr fl (e # es) = Inr (items, hs)"
  obtains (spread) inner s xs sp fs rest gs where
      "spread_element e = Some (inner, s)"
      "ev_value ev tr False inner = Inr (ValueArgument (BArr xs) sp, fs)"
      "ev_elements ev tr fl es = Inr (rest, gs)" "items = map (asArgument s) xs @ rest" "hs = fs @ gs"
  | (item) a fs rest gs where
      "spread_element e = None" "ev_value ev tr False e = Inr (a, fs)"
      "ev_elements ev tr fl es = Inr (rest, gs)" "items = a # rest" "hs = fs @ gs"
  using assms
  by (auto simp: ev_elements.simps(2) result_simps split: option.splits)

lemma evaluator_sound:
  "ev_value ev tr m e = Inr (a, fs) \<Longrightarrow> denotes ev tr m e a fs"
  "ev_elements ev tr fl es = Inr (items, fs) \<Longrightarrow> gathers ev tr fl es items fs"
  "ev_members ev tr fl modes entries ms = Inr (result, fs) \<Longrightarrow>
     collects ev tr fl modes entries ms result fs"
  "ev_arguments ev tr hs i es = map Inr ps \<Longrightarrow> passes ev tr hs i es ps"
  "ev_call ev tr f es s = Inr (a, fs) \<Longrightarrow> unwrap e' = CallExpression f es s \<Longrightarrow>
     denotes ev tr False e' a (span_file s # fs)"
  "ev_constant ev tr e = Inr (a, fs) \<Longrightarrow> unwrap e' = e \<Longrightarrow> e = Identifier t b s \<Longrightarrow>
     meaning ev e = (None, gs) \<Longrightarrow> denotes ev tr False e' a (span_file s # gs @ fs)"
proof (induction ev tr m e and ev tr fl es and ev tr fl modes entries ms and
    ev tr hs i es and ev tr f es s and ev tr e
    arbitrary: a fs and items fs and result fs and ps and e' a fs and e' a fs t b s gs
    rule: ev_induct)
  case (1 ev tr m e)
  show ?case
  proof (cases m)
    case True
    then show ?thesis using "1.prems"
      by (auto simp: ev_value.simps literal_def contractArgument_def Let_def result_simps intro: denotes_handler)
  next
    case False
    note prems = "1.prems" False
    show ?thesis
    proof (cases "unwrap e")
      case (ArrayLiteral es s)
      then show ?thesis
        using prems "1.IH"(1) [OF refl False]
        by (auto simp: ev_value.simps literal_def result_simps intro: denotes_array)
    next
      case (ObjectLiteral ms s)
      then show ?thesis
        using prems "1.IH"(2) [OF refl False]
        by (auto simp: ev_value.simps literal_def result_simps intro: denotes_object)
    next
      case (CallExpression f es s)
      then show ?thesis
        using prems "1.IH"(3) [OF refl False] by (auto simp: ev_value.simps literal_def result_simps)
    next
      case (Identifier t b s)
      then show ?thesis
        using prems "1.IH"(4) [OF refl False Identifier] denotes_contract [of e]
        by (auto simp: ev_value.simps literal_def contractArgument_def Let_def result_simps
            split: prod.splits option.splits symbol_meaning.splits)
    next
      case (PropertyAccess x t ns s)
      then show ?thesis
        using prems denotes_contract [of e]
        by (auto simp: ev_value.simps literal_def contractArgument_def Let_def result_simps
            split: prod.splits option.splits symbol_meaning.splits)
    qed (use prems denotes_leaf [of e] in \<open>auto simp: ev_value.simps literal_def result_simps
            split: bool.splits expr.splits\<close>)
  qed
next
  case (3 ev tr fl e rest)
  from "3.prems" show ?case
  proof (cases rule: ev_elements_Inr)
    case (spread inner s xs sp fs others gs)
    then show ?thesis
      using "3.IH"(3,4) [OF spread(1) refl]
      by (auto simp: result_simps intro!: gathers_spread)
  next
    case (item a fs others gs)
    then show ?thesis
      using "3.IH"(1,2) [OF item(1)] by (auto intro: gathers_item)
  qed
next
  case (5 ev tr fl modes entries e s rest)
  then show ?case by (fastforce simp: result_simps intro: collects_spread)
next
  case (7 ev tr fl modes entries nm s rest)
  then show ?case
    by (cases nm) (auto simp: result_simps no_visit_def entry_mode_def handlerArgument_def split: if_splits
        intro: collects_method)
next
  case (8 ev tr fl modes entries nm e s rest)
  then show ?case
    by (cases nm) (fastforce simp: result_simps no_visit_def entry_mode_def intro: collects_property)+
next
  case (9 ev tr fl modes entries key ns s rest)
  then show ?case by (fastforce simp: result_simps entry_mode_def intro: collects_shorthand)
next
  case (12 ev tr hs i e rest)
  then show ?case by (auto simp: Cons_eq_map_conv intro: passes_cons)
next
  case (13 ev tr f es s)
  from "13.prems"(1) show ?case
  proof (cases rule: ev_call_Inr)
    case dependency
    then show ?thesis
      using "13.prems"(2) by (auto simp: dependency_call_Some_iff intro: denotes_dependency)
  next
    case (declared fs pkg exported handlers gs ps)
    then show ?thesis
      using "13.prems"(2) "13.IH" by (auto simp: dependency_call_None_iff intro!: denotes_declaration)
  qed
next
  case (14 ev tr e)
  then show ?case by (auto simp: ev_constant.simps result_simps name_target_def intro!: denotes_constant)
qed (auto intro: gathers_nil collects_nil passes_nil)

interpretation static_value: exact_evaluation
  "\<lambda>(ev, tr, m, e). ev_value ev tr m e" "\<lambda>(ev, tr, m, e) (a, fs). denotes ev tr m e a fs"
  by unfold_locales (auto dest: evaluator_sound(1) evaluator_complete(1))

interpretation static_object: exact_evaluation
  "\<lambda>(ev, tr, fl, modes, entries, ms). ev_members ev tr fl modes entries ms"
  "\<lambda>(ev, tr, fl, modes, entries, ms) (result, fs). collects ev tr fl modes entries ms result fs"
  by unfold_locales (auto dest: evaluator_sound(3) evaluator_complete(3))

text \<open>C29. 
  The evaluator computes the big-step semantics of the static subset: on every expression, in
  either mode and inside any constants, it returns exactly the argument the expression denotes
  with the files visited for it, it throws exactly when the expression denotes nothing, and an
  expression denotes at most one argument. The same holds for the members of an object.
\<close>

theorem evaluator_exact:
  "(ev_value ev tr m e = Inr (a, fs) \<longleftrightarrow> denotes ev tr m e a fs) \<and>
   ((\<exists>x. ev_value ev tr m e = Inl x) \<longleftrightarrow> (\<nexists>p. denotes ev tr m e (fst p) (snd p))) \<and>
   (ev_members ev tr fl modes entries ms = Inr (kvs, gs) \<longleftrightarrow>
      collects ev tr fl modes entries ms kvs gs) \<and>
   ((\<exists>x. ev_members ev tr fl modes entries ms = Inl x) \<longleftrightarrow>
      (\<nexists>p. collects ev tr fl modes entries ms (fst p) (snd p)))"
  using static_value.exact [of "(ev, tr, m, e)" "(a, fs)"] static_value.throws_iff [of "(ev, tr, m, e)"]
    static_object.exact [of "(ev, tr, fl, modes, entries, ms)" "(kvs, gs)"]
    static_object.throws_iff [of "(ev, tr, fl, modes, entries, ms)"]
  by (simp add: case_prod_beta)

end
