(* ===== verification/Extraction_Sample.thy ===== *)
theory Extraction_Sample
  imports Extraction_Semantics
begin

text \<open>
  A module in the style of the extraction tests: the default export calls \<open>definePlugin\<close> with
  a Provider declaration that uses one constant twice, a dependency on a contract and a handler
  imported from another file. The arguments of the Provider's declaration take turns, and another
  symbol is held while one of them is evaluated.

  \<open>import { definePlugin, tools as grouped } from "./sdk.ts"; import { start } from "./start.ts";
  const shared = { name: "sync" }; export default definePlugin({ dependencies: { store:
  Store.required() }, providers: [grouped(shared, [shared], () => 1)], create: start });\<close>
\<close>

definition span_at :: "string \<Rightarrow> int \<Rightarrow> int \<Rightarrow> source_span" where
  "span_at f s e = \<lparr>span_file = f, span_start = s, span_end = e\<rparr>"

definition function_symbol :: "string \<Rightarrow> string \<Rightarrow> int \<Rightarrow> symbol_info" where
  "function_symbol name f p =
     \<lparr>symbol_name = name, alias_flag = False, aliased_symbol = 0, unknown_symbol = False,
      valueDeclaration = Some (Some (FunctionDeclaration (span_at f p (p + 9)), [PlainNode])),
      symbol_declarations = []\<rparr>"

definition import_symbol :: "string \<Rightarrow> nat \<Rightarrow> string \<Rightarrow> int \<Rightarrow> symbol_info" where
  "import_symbol name target from p =
     \<lparr>symbol_name = name, alias_flag = True, aliased_symbol = target, unknown_symbol = False,
      valueDeclaration = None,
      symbol_declarations =
        [Some (OtherDeclaration (span_at ''p.ts'' p (p + 5)), [PlainNode, ModuleReference (Some from)])]\<rparr>"

definition const_symbol :: "string \<Rightarrow> expr \<Rightarrow> symbol_info" where
  "const_symbol name e =
     \<lparr>symbol_name = name, alias_flag = False, aliased_symbol = 0, unknown_symbol = False,
      valueDeclaration = Some (Some (VariableDeclaration True (Some e) (span_at ''p.ts'' 90 120), [PlainNode])),
      symbol_declarations = []\<rparr>"

definition sample_shared :: expr where
  "sample_shared =
     ObjectLiteral
       [PropertyAssignment (PropertyName ''name'' (span_at ''p.ts'' 100 104))
          (StringLiteral ''sync'' (span_at ''p.ts'' 106 112)) (span_at ''p.ts'' 100 112)]
       (span_at ''p.ts'' 98 114)"

definition sample_symbols :: "(nat \<times> symbol_info) list" where
  "sample_symbols =
     [(0, function_symbol ''definePlugin'' ''sdk.ts'' 0),
      (1, function_symbol ''tools'' ''sdk.ts'' 10),
      (2, import_symbol ''grouped'' 1 ''./sdk.ts'' 20),
      (3, function_symbol ''start'' ''start.ts'' 0),
      (4, import_symbol ''start'' 3 ''./start.ts'' 60),
      (5, const_symbol ''shared'' sample_shared),
      (6, function_symbol ''Store'' ''sdk.ts'' 30),
      (7, import_symbol ''definePlugin'' 0 ''./sdk.ts'' 5),
      (8, import_symbol ''loop'' 9 ''./a.ts'' 30),
      (9, import_symbol ''loop'' 8 ''./b.ts'' 35)]"

definition sample_names :: "(string \<times> nat) list" where
  "sample_names =
     [(''definePlugin'', 7), (''grouped'', 2), (''start'', 4), (''shared'', 5), (''Store'', 6)]"

fun sample_symbol :: "expr \<Rightarrow> nat option" where
  "sample_symbol (Identifier text _ _) = map_of sample_names text"
| "sample_symbol _ = None"

definition sample_contract :: contract_identity where
  "sample_contract =
     \<lparr>capability_id = ''lenso.store@1'', descriptor_version = ''1.0.0'', descriptor_digest = ''sha256:a''\<rparr>"

definition sample_package :: package_identity where
  "sample_package =
     \<lparr>package_name = ''@example/sdk'', package_version = ''1.0.0'', package_integrity = ''sha512-x''\<rparr>"

definition sample_classify :: "symbol_origin \<Rightarrow> symbol_meaning option" where
  "sample_classify o' =
     map_of [(''definePlugin'', PluginDefinitionMeaning),
             (''tools'', DeclarationMeaning sample_package ''tools'' (Some [2])),
             (''Store'', ContractMeaning sample_contract ''generated/store.ts'' ''Store'')] (origin_name o')"

definition sample_evaluator :: evaluator where
  "sample_evaluator =
     \<lparr>getSymbolAtLocation = sample_symbol,
      getShorthandAssignmentValueSymbol = (\<lambda>text _. map_of sample_names text),
      symbol_table = sample_symbols,
      source_node_span = (\<lambda>f. span_at f 0 400),
      classifySymbol = sample_classify,
      overlap = (\<lambda>_ s. if s = span_at ''p.ts'' 217 223 then [3] else []),
      settles_first = (\<lambda>_ _. 0),
      turns = (\<lambda>_ _. [2, 1, 0, 1])\<rparr>"

definition sample_provider :: expr where
  "sample_provider =
     CallExpression (Identifier ''grouped'' False (span_at ''p.ts'' 200 207))
       [Identifier ''shared'' False (span_at ''p.ts'' 208 214),
        Wrapped (ArrayLiteral [Identifier ''shared'' False (span_at ''p.ts'' 217 223)] (span_at ''p.ts'' 216 224))
          (span_at ''p.ts'' 216 225),
        ArrowFunction (span_at ''p.ts'' 226 232)]
       (span_at ''p.ts'' 200 234)"

definition sample_object :: expr where
  "sample_object =
     ObjectLiteral
       [PropertyAssignment (PropertyName ''dependencies'' (span_at ''p.ts'' 130 142))
          (ObjectLiteral
             [PropertyAssignment (PropertyName ''store'' (span_at ''p.ts'' 146 151))
                (CallExpression
                   (PropertyAccess (Identifier ''Store'' False (span_at ''p.ts'' 153 158)) ''required''
                      (span_at ''p.ts'' 159 167) (span_at ''p.ts'' 153 167)) [] (span_at ''p.ts'' 153 169))
                (span_at ''p.ts'' 146 169)]
             (span_at ''p.ts'' 144 171))
          (span_at ''p.ts'' 130 171),
        PropertyAssignment (PropertyName ''providers'' (span_at ''p.ts'' 188 197))
          (ArrayLiteral [sample_provider] (span_at ''p.ts'' 199 235)) (span_at ''p.ts'' 188 235),
        PropertyAssignment (PropertyName ''create'' (span_at ''p.ts'' 237 243))
          (Identifier ''start'' False (span_at ''p.ts'' 245 250)) (span_at ''p.ts'' 237 250)]
       (span_at ''p.ts'' 128 252)"

definition sample_source :: source_file where
  "sample_source =
     \<lparr>source_name = ''p.ts'',
      statements =
        [OtherStatement, OtherStatement, OtherStatement,
         ExportAssignment False
           (CallExpression (Identifier ''definePlugin'' False (span_at ''p.ts'' 115 127)) [sample_object]
              (span_at ''p.ts'' 115 253))]\<rparr>"

definition sample_project :: "string \<Rightarrow> ts_project option" where
  "sample_project f =
     (if f = ''p.ts'' then
        Some \<lparr>project_source = Some sample_source, project_diagnostics = [],
              project_evaluator = sample_evaluator\<rparr>
      else None)"

definition shared_argument :: build_argument where
  "shared_argument =
     ValueArgument
       (BObj [(''name'', Arg (ValueArgument (BStr ''sync'') (span_at ''p.ts'' 106 112)))]) (span_at ''p.ts'' 98 114)"

definition sample_definition :: extracted_definition where
  "sample_definition =
     \<lparr>ex_span = span_at ''p.ts'' 115 253, ex_config = None,
      ex_dependencies = Some
        [(''store'',
          ValueArgument
            (BObj [(''kind'', Raw (BStr ''lenso.dependency'')), (''cardinality'', Raw (BStr ''one'')),
                   (''contract'',
                    Arg (ContractArgument sample_contract ''generated/store.ts'' ''Store'' (span_at ''p.ts'' 153 158)))])
            (span_at ''p.ts'' 153 169))],
      ex_providers =
        [DeclarationArgument sample_package ''tools''
           [shared_argument, ValueArgument (BArr [Arg shared_argument]) (span_at ''p.ts'' 216 224),
           HandlerArgument ''p.ts:226:232'' (span_at ''p.ts'' 226 232)]
           (span_at ''p.ts'' 200 234)],
      ex_create = Some (HandlerArgument ''start.ts:0:9'' (span_at ''start.ts'' 0 9)),
      ex_stop = None,
      ex_sourceFiles = [''p.ts'', ''sdk.ts'']\<rparr>"

section \<open>Evaluation\<close>

text \<open>Evaluation by rewriting, from the outside in: the continuation of a call waits for its result.\<close>

lemma bind_visited_weak: "r = r' \<Longrightarrow> bind_visited r f = bind_visited r' f"
  by simp

lemmas sample_defs =
  sample_evaluator_def sample_symbols_def sample_names_def function_symbol_def import_symbol_def
  const_symbol_def sample_classify_def span_at_def

lemmas symbol_defs =
  meaning_def name_target_def symbolFor_def resolve_import.simps resolveSymbol_def resolve_alias.simps
  moduleForSymbol_def symbol_of_def declaration_of_def qualifier_module_def value_node_def

lemma sample_meanings [simp]:
  "meaning sample_evaluator (Identifier ''definePlugin'' b s) = (Some PluginDefinitionMeaning, [''sdk.ts''])"
  "meaning sample_evaluator (Identifier ''grouped'' b s) =
     (Some (DeclarationMeaning sample_package ''tools'' (Some [2])), [''sdk.ts''])"
  "meaning sample_evaluator (Identifier ''Store'' b s) =
     (Some (ContractMeaning sample_contract ''generated/store.ts'' ''Store''), [''sdk.ts''])"
  "meaning sample_evaluator (Identifier ''shared'' b s) = (None, [''p.ts''])"
  by (cases b; simp add: symbol_defs sample_defs)+

lemma sample_shared_initializer [simp]:
  "constant_initializer sample_evaluator [] (Identifier ''shared'' b s) = Inr (5, sample_shared)"
  by (cases b; simp add: constant_initializer_def held_def symbol_defs sample_defs)

lemma sample_reference: "handler_reference \<lparr>span_file = ''start.ts'', span_start = 0, span_end = 9\<rparr> = ''start.ts:0:9''"
  by code_simp

lemma sample_start [simp]:
  "handler sample_evaluator (Identifier ''start'' b s) =
     Inr (HandlerArgument ''start.ts:0:9'' (span_at ''start.ts'' 0 9))"
  by (cases b; simp add: handler_def handlerArgument_def sample_reference symbol_defs
      sample_defs)

lemma sample_arrow [simp]:
  "ev_value ev tr True (ArrowFunction (span_at ''p.ts'' 226 232)) =
     Inr (HandlerArgument ''p.ts:226:232'' (span_at ''p.ts'' 226 232), [''p.ts''])"
proof -
  have "handler_reference (span_at ''p.ts'' 226 232) = ''p.ts:226:232''" by code_simp
  then show ?thesis
    by (simp add: ev_value.simps handler_def handlerArgument_def no_visit_def)
      (simp add: span_at_def)
qed

lemma sample_shared_value [simp]:
  "ev_value sample_evaluator tr False sample_shared = Inr (shared_argument, [''p.ts'', ''p.ts''])"
  by (simp add: ev_value.simps sample_shared_def shared_argument_def span_at_def literal_def
      no_visit_def add_entry_def map_has_def entry_mode_def fromEntries_def array_index_def
      decimal_text_def ascii_digit_def cong: bind_visited_weak)

lemma sample_shared_reference [simp]:
  "ev_value sample_evaluator [] False (Identifier ''shared'' b (span_at ''p.ts'' p q)) =
     Inr (shared_argument, [''p.ts'', ''p.ts'', ''p.ts'', ''p.ts''])"
  by (simp add: ev_value.simps [of _ "[]"] ev_constant.simps no_visit_def span_at_def cong: bind_visited_weak)

lemma sample_array_value [simp]:
  "ev_value sample_evaluator [] False
     (ArrayLiteral [Identifier ''shared'' b (span_at ''p.ts'' p q)] (span_at ''p.ts'' p' q')) =
     Inr (ValueArgument (BArr [Arg shared_argument]) (span_at ''p.ts'' p' q'), replicate 5 ''p.ts'')"
  by (subst ev_value.simps)
    (simp add: ev_elements.simps span_at_def [of "''p.ts''" p' q'] literal_def numeral_eq_Suc cong: bind_visited_weak)

lemma wrapped_value: "ev_value ev tr m (Wrapped e s) = ev_value ev tr m e"
  by (simp add: ev_value.simps)

lemma sample_turns: "turns sample_evaluator tr s = [2, 1, 0, 1]"
  by (simp add: sample_evaluator_def)

lemma sample_provider_value [simp]:
  "ev_value sample_evaluator [] False sample_provider =
     Inr (DeclarationArgument sample_package ''tools''
       [shared_argument, ValueArgument (BArr [Arg shared_argument]) (span_at ''p.ts'' 216 224),
           HandlerArgument ''p.ts:226:232'' (span_at ''p.ts'' 226 232)]
       (span_at ''p.ts'' 200 234),
      [''p.ts'', ''sdk.ts''] @ replicate 10 ''p.ts'')"
  unfolding sample_provider_def
  by (subst ev_value.simps)
    (simp add: ev_call.simps dependency_call_def wrapped_value promise_all_def rejections_def
      sample_turns numeral_eq_Suc span_at_def [of "''p.ts''" 200 234] cong: bind_visited_weak)

lemma sample_dependency_value [simp]:
  "dependency_call sample_evaluator
     (PropertyAccess (Identifier ''Store'' False (span_at ''p.ts'' 153 158)) ''required''
        (span_at ''p.ts'' 159 167) (span_at ''p.ts'' 153 167)) [] (span_at ''p.ts'' 153 169) =
     Inr (Some (ValueArgument
            (BObj [(''kind'', Raw (BStr ''lenso.dependency'')), (''cardinality'', Raw (BStr ''one'')),
                   (''contract'',
                    Arg (ContractArgument sample_contract ''generated/store.ts'' ''Store'' (span_at ''p.ts'' 153 158)))])
            (span_at ''p.ts'' 153 169)), [''sdk.ts''])"
  by (simp add: dependency_call_def literal_def contractArgument_def dependency_cardinality_def no_visit_def)

lemma utf16_units_ascii:
  assumes "\<forall>c \<in> set s. (of_char c :: nat) \<le> 127"
  shows "utf16_units s = map of_char s"
proof -
  have "utf8_chars s = map (\<lambda>c. [c]) s"
    using emissions_ascii [OF assms] by (simp add: utf8_chars_def emissions_def dec_flush_def comp_def)
  moreover have "concat (map utf16_of_char (map (\<lambda>c. [c]) s)) = map of_char s"
    using assms by (induction s) (auto simp: utf16_of_char_def Let_def)
  ultimately show ?thesis by (simp add: utf16_units_def)
qed

lemma sample_units:
  "utf16_units ''p.ts'' = [112, 46, 116, 115]" "utf16_units ''sdk.ts'' = [115, 100, 107, 46, 116, 115]"
  by (simp_all add: utf16_units_ascii)

lemma sample_files:
  assumes "set files = {''p.ts'', ''sdk.ts''}"
  shows "js_sort (remdups files) = [''p.ts'', ''sdk.ts'']"
proof -
  have "remdups files \<in> {[''p.ts'', ''sdk.ts''], [''sdk.ts'', ''p.ts'']}"
  proof -
    have "length (remdups files) = 2" using assms by (simp add: length_remdups_card_conv)
    then obtain x y where xy: "remdups files = [x, y]" by (auto simp: numeral_2_eq_2 length_Suc_conv)
    moreover have "{x, y} = {''p.ts'', ''sdk.ts''}" using assms xy by (metis set_remdups list.simps(15) empty_set)
    ultimately show ?thesis by (auto simp: doubleton_eq_iff)
  qed
  then show ?thesis by (auto simp: js_sort_def sample_units)
qed

definition sample_entries :: "(string \<times> build_argument) list" where
  "sample_entries =
     [(''dependencies'', ValueArgument (BObj (map (\<lambda>(k, a). (k, Arg a)) (the (ex_dependencies sample_definition))))
        (span_at ''p.ts'' 144 171)),
      (''providers'', ValueArgument (BArr (map Arg (ex_providers sample_definition))) (span_at ''p.ts'' 199 235)),
      (''create'', the (ex_create sample_definition))]"

lemma sample_dependencies_value [simp]:
  "ev_value sample_evaluator [] False
     (ObjectLiteral
             [PropertyAssignment (PropertyName ''store'' (span_at ''p.ts'' 146 151))
                (CallExpression
                   (PropertyAccess (Identifier ''Store'' False (span_at ''p.ts'' 153 158)) ''required''
                      (span_at ''p.ts'' 159 167) (span_at ''p.ts'' 153 167)) [] (span_at ''p.ts'' 153 169))
                (span_at ''p.ts'' 146 169)]
             (span_at ''p.ts'' 144 171)) =
   Inr (snd (sample_entries ! 0), [''p.ts'', ''p.ts'', ''sdk.ts''])"
  by (subst ev_value.simps,
      simp add: ev_value.simps ev_call.simps no_visit_def add_entry_def map_has_def entry_mode_def
        fromEntries_def array_index_def decimal_text_def ascii_digit_def literal_def
        cong: bind_visited_weak)
    (simp add: sample_entries_def sample_definition_def span_at_def)

lemma sample_providers_value [simp]:
  "ev_value sample_evaluator [] False (ArrayLiteral [sample_provider] (span_at ''p.ts'' 199 235)) =
   Inr (snd (sample_entries ! 1), ''p.ts'' # [''p.ts'', ''sdk.ts''] @ replicate 10 ''p.ts'')"
proof -
  have "spread_element sample_provider = None" by (simp add: sample_provider_def)
  then show ?thesis
    by (subst ev_value.simps)
      (simp add: ev_elements.simps literal_def sample_entries_def sample_definition_def
        span_at_def [of "''p.ts''" 199 235] cong: bind_visited_weak)
qed

lemma sample_object_value:
  "\<exists>fs. set fs = {''p.ts'', ''sdk.ts''} \<and>
     ev_object sample_evaluator [(''create'', True), (''stop'', True)] sample_object = Inr (sample_entries, fs)"
  by (simp add: ev_object_def sample_object_def entry_mode_def no_visit_def add_entry_def map_has_def
        ev_value.simps [of _ _ True] cong: bind_visited_weak,
      simp add: sample_entries_def sample_definition_def)
    (auto simp: span_at_def)

lemma sample_extracted: "extractPluginDefinition sample_project ''p.ts'' = Inr sample_definition"
proof -
  obtain fs where fs: "set fs = {''p.ts'', ''sdk.ts''}"
    "ev_object sample_evaluator [(''create'', True), (''stop'', True)] sample_object = Inr (sample_entries, fs)"
    using sample_object_value by blast
  then have "js_sort (remdups ((''sdk.ts'' # fs) @ [''p.ts''])) = [''p.ts'', ''sdk.ts'']"
    by (intro sample_files) auto
  then show ?thesis using fs
    by (simp add: extractPluginDefinition_def sample_project_def sample_source_def extract_call_def
          declared_definition_def,
        simp add: sample_entries_def sample_definition_def allowed_fields_def requiredArray_def
          requiredObject_def valuePayload_def optionalHandler_def asArgument_def evaluated_files_def
          fromEntries_def array_index_def decimal_text_def ascii_digit_def)
qed

end
