(* ===== verification/Extraction_Properties.thy ===== *)
theory Extraction_Properties
  imports Extraction_Sample
begin

text \<open>
  What the static evaluator guarantees: the result does not depend on how the concurrent evaluations
  interleave, constants that refer to themselves are refused, and a constant that an overlapping
  evaluation holds is reported as cyclic.
\<close>

section \<open>Schedules\<close>

definition scheduled ::
  "evaluator \<Rightarrow> (trail \<Rightarrow> source_span \<Rightarrow> nat list) \<Rightarrow> (trail \<Rightarrow> source_span \<Rightarrow> nat) \<Rightarrow>
    (trail \<Rightarrow> source_span \<Rightarrow> nat list) \<Rightarrow> evaluator" where
  "scheduled ev others first order = ev\<lparr>overlap := others, settles_first := first, turns := order\<rparr>"

named_theorems schedule_simps \<open>operations that do not depend on the schedule\<close>

lemma scheduled_fields [schedule_simps]:
  "getSymbolAtLocation (scheduled ev ov k o') = getSymbolAtLocation ev"
  "getShorthandAssignmentValueSymbol (scheduled ev ov k o') = getShorthandAssignmentValueSymbol ev"
  "symbol_table (scheduled ev ov k o') = symbol_table ev"
  "source_node_span (scheduled ev ov k o') = source_node_span ev"
  "classifySymbol (scheduled ev ov k o') = classifySymbol ev"
  "overlap (scheduled ev ov k o') = ov"
  "settles_first (scheduled ev ov k o') = k"
  "turns (scheduled ev ov k o') = o'"
  by (simp_all add: scheduled_def)

lemma scheduled_symbols [schedule_simps]:
  "symbolFor (scheduled ev ov k o') e = symbolFor ev e"
  "moduleForSymbol (scheduled ev ov k o') s = moduleForSymbol ev s"
  "value_node (scheduled ev ov k o') = value_node ev"
  by (simp_all add: symbolFor_def moduleForSymbol_def symbol_of_def value_node_def fun_eq_iff schedule_simps
      split: expr.split bool.split)

lemma scheduled_qualifier [schedule_simps]:
  "qualifier_module (scheduled ev ov k o') e m = qualifier_module ev e m"
  by (simp add: qualifier_module_def schedule_simps split: expr.split)

lemma scheduled_resolve_alias [schedule_simps]:
  "resolve_alias (scheduled ev ov k o') seen s = resolve_alias ev seen s"
proof (induction ev seen s rule: resolve_alias.induct)
  case (1 ev seen s)
  then show ?case
    by (subst (1 2) resolve_alias.simps) (auto simp: schedule_simps Let_def split: option.split)
qed

lemma scheduled_resolve_import [schedule_simps]:
  "resolve_import (scheduled ev ov k o') seen m s = resolve_import ev seen m s"
proof (induction ev seen m s rule: resolve_import.induct)
  case (1 ev seen m s)
  then show ?case
    by (subst (1 2) resolve_import.simps) (auto simp: schedule_simps Let_def split: option.split)
qed

lemma scheduled_resolveSymbol [schedule_simps]:
  "resolveSymbol (scheduled ev ov k o') s = resolveSymbol ev s"
  by (cases s) (simp_all add: resolveSymbol_def schedule_simps)

lemma scheduled_meaning [schedule_simps]: "meaning (scheduled ev ov k o') e = meaning ev e"
  by (cases "symbolFor ev (name_target e)")
     (simp_all add: meaning_def schedule_simps split: option.split)

lemma scheduled_stands_for [schedule_simps]: "stands_for (scheduled ev ov k o') e t = stands_for ev e t"
  by (simp add: stands_for_iff [symmetric] schedule_simps)

lemma scheduled_function_of [schedule_simps]: "function_of (scheduled ev ov k o') e s = function_of ev e s"
  by (auto simp: schedule_simps elim!: function_of.cases intro: function_of.intros)

lemma scheduled_not_dependency [schedule_simps]: "not_dependency (scheduled ev ov k o') f fs = not_dependency ev f fs"
  by (simp add: not_dependency_def schedule_simps split: option.split)

lemma scheduled_required [schedule_simps]:
  "valuePayload (scheduled ev ov k o') f a t = valuePayload ev f a t"
  "requiredObject (scheduled ev ov k o') f a t = requiredObject ev f a t"
  "requiredArray (scheduled ev ov k o') f x t = requiredArray ev f x t"
  "optionalHandler (scheduled ev ov k o') f x t = optionalHandler ev f x t"
  by (simp_all add: valuePayload_def requiredObject_def requiredArray_def optionalHandler_def
      schedule_simps split: build_argument.split build_value.split option.split)

abbreviation isolated ::
  "evaluator \<Rightarrow> (trail \<Rightarrow> source_span \<Rightarrow> nat) \<Rightarrow> (trail \<Rightarrow> source_span \<Rightarrow> nat list) \<Rightarrow> evaluator" where
  "isolated ev first order \<equiv> scheduled ev (\<lambda>_ _. []) first order"

lemma scheduled_scheduled [simp]: "scheduled (scheduled ev ov k o') ov' k' o'' = scheduled ev ov' k' o''"
  by (simp add: scheduled_def)

text \<open>Turns change the order in which files are visited, and nothing else.\<close>

lemma set_concat_update:
  "i < length xss \<Longrightarrow> xss ! i \<noteq> [] \<Longrightarrow>
   insert (hd (xss ! i)) (set (concat (xss[i := tl (xss ! i)]))) = set (concat xss)"
proof (induction xss arbitrary: i)
  case (Cons xs xss)
  then show ?case by (cases i; cases xs) (auto simp del: set_concat)
qed simp

lemma set_merge_by: "set (merge_by ks xss) = set (concat xss)"
proof (induction ks arbitrary: xss)
  case (Cons k ks)
  show ?case
  proof (cases "k < length xss \<and> xss ! k \<noteq> []")
    case True
    then have "merge_by (k # ks) xss = hd (xss ! k) # merge_by ks (xss[k := tl (xss ! k)])" by simp
    then show ?thesis using Cons.IH set_concat_update True by (metis list.simps(15))
  next
    case False
    then have "merge_by (k # ks) xss = merge_by ks xss" by auto
    then show ?thesis by (simp only: Cons.IH)
  qed
qed simp

definition same_files :: "('a \<times> string list) list \<Rightarrow> ('a \<times> string list) list \<Rightarrow> bool" where
  "same_files ps qs \<longleftrightarrow> list_all2 (\<lambda>(a, fs) (b, gs). a = b \<and> set fs = set gs) ps qs"

lemma same_files_values: "same_files ps qs \<Longrightarrow> map fst ps = map fst qs"
  unfolding same_files_def by (induction rule: list_all2_induct) auto

lemma same_files_set: "same_files ps qs \<Longrightarrow> set (concat (map snd ps)) = set (concat (map snd qs))"
  unfolding same_files_def by (induction rule: list_all2_induct) auto

lemma isolated_denotes:
  "denotes ev tr m e a fs \<Longrightarrow> \<exists>gs. set fs = set gs \<and> denotes (isolated ev k o') tr m e a gs"
  "gathers ev tr fl es items fs \<Longrightarrow> \<exists>gs. set fs = set gs \<and> gathers (isolated ev k o') tr fl es items gs"
  "collects ev tr fl modes entries ms result fs \<Longrightarrow>
     \<exists>gs. set fs = set gs \<and> collects (isolated ev k o') tr fl modes entries ms result gs"
  "passes ev tr hs i es ps \<Longrightarrow> \<exists>qs. same_files ps qs \<and> passes (isolated ev k o') tr hs i es qs"
proof (induction rule: denotes_induct)
  case (denotes_declaration e f es s ev fs pkg exported handlers gs tr ps)
  then obtain qs where qs: "same_files ps qs"
    "passes (isolated ev k o') tr (case handlers of None \<Rightarrow> [] | Some hs \<Rightarrow> hs) 0 es qs" by blast
  have "denotes (isolated ev k o') tr False e (DeclarationArgument pkg exported (map fst qs) s)
      (span_file s # fs @ gs @ merge_by (turns (isolated ev k o') tr s) (map snd qs))"
    using denotes_declaration.hyps qs(2)
    by (intro denotes_gathers_collects_passes.denotes_declaration) (simp_all add: schedule_simps)
  then show ?case
    using same_files_values [OF qs(1)] same_files_set [OF qs(1)]
    by (intro exI conjI) (auto simp: set_merge_by simp del: set_concat)
next
  case (denotes_array e es s ev tr items fs)
  then obtain gs where "set fs = set gs" "gathers (isolated ev k o') tr (span_file s) es items gs" by blast
  then show ?case
    using denotes_gathers_collects_passes.denotes_array [OF denotes_array.hyps(1)]
    by (intro exI [of _ "span_file s # gs"]) simp
next
  case (denotes_object e ms s ev tr entries fs)
  then obtain gs where "set fs = set gs" "collects (isolated ev k o') tr (span_file s) [] [] ms entries gs" by blast
  then show ?case
    using denotes_gathers_collects_passes.denotes_object [OF denotes_object.hyps(1)]
    by (intro exI [of _ "span_file s # gs"]) simp
next
  case (denotes_constant e t b s ev fs target tr i d a gs)
  then obtain hs where "set gs = set hs" "denotes (isolated ev k o') ((target, s) # tr) False i a hs" by blast
  then show ?case
    using denotes_constant.hyps denotes_gathers_collects_passes.denotes_constant
      [of e t b s "isolated ev k o'" fs target tr i d a hs]
    by (auto simp: schedule_simps)
next
  case (gathers_spread e inner s ev tr xs sp fs fl es items gs)
  then show ?case by (metis denotes_gathers_collects_passes.gathers_spread set_append)
next
  case (gathers_item e ev tr a fs fl es items gs)
  then show ?case by (metis denotes_gathers_collects_passes.gathers_item set_append)
next
  case (collects_spread ev tr e kvs sp fs entries fl entries' modes ms result gs s)
  then obtain hs ks where "set fs = set hs" "denotes (isolated ev k o') tr False e (ValueArgument (BObj kvs) sp) hs"
    "set gs = set ks" "collects (isolated ev k o') tr fl modes entries' ms result ks" by blast
  then show ?case
    using denotes_gathers_collects_passes.collects_spread [of "isolated ev k o'" tr e kvs sp hs] collects_spread.hyps(2)
    by (intro exI [of _ "hs @ ks"]) (simp add: schedule_simps)
next
  case (collects_method modes key entries s entries' ev tr fl ms result gs ns)
  then show ?case by (metis denotes_gathers_collects_passes.collects_method)
next
  case (collects_property ev tr modes key e a fs entries entries' fl ms result gs ns s)
  then show ?case by (metis denotes_gathers_collects_passes.collects_property set_append)
next
  case (collects_shorthand ev tr modes key ns a fs entries entries' fl ms result gs s)
  then show ?case by (metis denotes_gathers_collects_passes.collects_shorthand set_append)
next
  case (passes_cons ev tr i hs e a fs es ps)
  then obtain gs qs where "set fs = set gs" "denotes (isolated ev k o') tr (int i \<in> set hs) e a gs"
    "same_files ps qs" "passes (isolated ev k o') tr hs (Suc i) es qs" by blast
  then show ?case
    by (intro exI [of _ "(a, gs) # qs"]) (simp add: same_files_def denotes_gathers_collects_passes.passes_cons)
next
  case (passes_nil ev tr hs i)
  then show ?case by (auto simp: same_files_def intro: denotes_gathers_collects_passes.passes_nil)
qed (rule exI, rule conjI [OF refl], rule denotes_gathers_collects_passes.intros; simp add: schedule_simps)+

lemma isolated_object:
  assumes "ev_object ev modes e = Inr (entries, fs)"
  shows "\<exists>gs. set fs = set gs \<and> ev_object (isolated ev k o') modes e = Inr (entries, gs)"
proof -
  have value_case: "\<exists>hs. set gs = set hs \<and> ev_value (isolated ev k o') [] False v = Inr (a, hs)"
    if "ev_value ev [] False v = Inr (a, gs)" for v a gs
    using isolated_denotes(1) [OF evaluator_sound(1) [OF that]] evaluator_complete(1) by metis
  have members_case: "\<exists>hs. set gs = set hs \<and> ev_members (isolated ev k o') [] fl modes [] ms = Inr (kvs, hs)"
    if "ev_members ev [] fl modes [] ms = Inr (kvs, gs)" for fl ms kvs gs
    using isolated_denotes(3) [OF evaluator_sound(3) [OF that]] evaluator_complete(3) by metis
  show ?thesis
  proof (cases "\<exists>ms s. unwrap e = ObjectLiteral ms s")
    case True
    then show ?thesis using assms members_case by (auto simp: ev_object_def)
  next
    case False
    then have object: "ev_object x modes e = bind_visited (ev_value x [] False (unwrap e)) (\<lambda>a.
        no_visit (requiredObject x (expr_file (unwrap e)) a ''object''))" for x
      by (cases "unwrap e") (auto simp: ev_object_def)
    then show ?thesis using assms value_case by (fastforce simp: result_simps schedule_simps)
  qed
qed

text \<open>The files are listed sorted and without repetition, so only the set of visited files matters.\<close>

lemma evaluated_files_set:
  assumes "set fs = set gs" "inj_on utf16_units (set (fs @ [f]))"
  shows "evaluated_files fs f = evaluated_files gs f"
proof -
  have "sort_key utf16_units xs = sort_key utf16_units ys"
    if "set xs = set ys" "distinct xs" "distinct ys" "inj_on utf16_units (set xs)" for xs ys
    using that by (intro map_sorted_distinct_set_unique) (auto simp: distinct_map)
  from this [of "remdups (fs @ [f])" "remdups (gs @ [f])"] show ?thesis
    using assms by (simp add: evaluated_files_def js_sort_def)
qed

lemma scheduled_declared:
  "declared_definition (scheduled ev ov k o') f s t kvs fs = declared_definition ev f s t kvs fs"
  unfolding declared_definition_def Let_def scheduled_required by (rule refl)

lemma declared_definition_files:
  assumes "declared_definition ev f s t kvs fs = Inr d"
  shows "declared_definition ev f s t kvs gs = Inr (d\<lparr>ex_sourceFiles := evaluated_files gs f\<rparr>)"
    and "ex_sourceFiles d = evaluated_files fs f"
  using assms by (auto simp: declared_definition_def Let_def result_simps split: option.splits if_splits)

lemma extract_call_Inr:
  assumes "extract_call ev entry e = Inr d"
  obtains callee object s files entries visited where
    "unwrap e = CallExpression callee [object] s"
    "meaning ev callee = (Some PluginDefinitionMeaning, files)"
    "ev_object ev [(''create'', True), (''stop'', True)] object = Inr (entries, visited)"
    "declared_definition ev entry s (expr_span object) entries (files @ visited) = Inr d"
proof (cases "unwrap e")
  case (CallExpression callee arguments s)
  then show ?thesis
    using assms that
    by (auto simp: extract_call_def result_simps
        split: prod.splits option.splits symbol_meaning.splits list.splits)
qed (use assms in \<open>simp_all add: extract_call_def\<close>)

lemma isolated_extract_call:
  assumes "extract_call ev entry e = Inr d"
  shows "\<exists>d'. extract_call (isolated ev k o') entry e = Inr d' \<and> set (ex_sourceFiles d') = set (ex_sourceFiles d) \<and>
    (inj_on utf16_units (set (ex_sourceFiles d)) \<longrightarrow> d' = d)"
  using assms
proof (cases rule: extract_call_Inr)
  case (1 callee object s files entries visited)
  obtain gs where gs: "set visited = set gs"
      "ev_object (isolated ev k o') [(''create'', True), (''stop'', True)] object = Inr (entries, gs)"
    using isolated_object [OF 1(3)] by blast
  let ?d = "d\<lparr>ex_sourceFiles := evaluated_files (files @ gs) entry\<rparr>"
  have d: "ex_sourceFiles d = evaluated_files (files @ visited) entry"
    by (rule declared_definition_files(2) [OF 1(4)])
  have "extract_call (isolated ev k o') entry e = Inr ?d"
    using 1(1,2) gs(2) declared_definition_files(1) [OF 1(4)]
    by (simp add: extract_call_def schedule_simps scheduled_declared)
  moreover have "set (ex_sourceFiles ?d) = set (ex_sourceFiles d)"
    using gs(1) by (simp add: d evaluated_files_def js_sort_def)
  moreover have "?d = d" if "inj_on utf16_units (set (ex_sourceFiles d))"
  proof -
    have "evaluated_files (files @ visited) entry = evaluated_files (files @ gs) entry"
      using gs(1) that by (intro evaluated_files_set) (auto simp: d evaluated_files_def js_sort_def)
    then show ?thesis by (simp add: d [symmetric])
  qed
  ultimately show ?thesis by blast
qed

definition project_scheduled ::
  "(string \<Rightarrow> ts_project option) \<Rightarrow> (trail \<Rightarrow> source_span \<Rightarrow> nat list) \<Rightarrow> (trail \<Rightarrow> source_span \<Rightarrow> nat) \<Rightarrow>
    (trail \<Rightarrow> source_span \<Rightarrow> nat list) \<Rightarrow> string \<Rightarrow> ts_project option" where
  "project_scheduled project others first order =
     map_option (\<lambda>p. p\<lparr>project_evaluator := scheduled (project_evaluator p) others first order\<rparr>) \<circ> project"

lemma isolated_extraction:
  assumes "extractPluginDefinition project entry = Inr d"
  shows "\<exists>d'. extractPluginDefinition (project_scheduled project (\<lambda>_ _. []) k o') entry = Inr d' \<and>
    set (ex_sourceFiles d') = set (ex_sourceFiles d) \<and> (inj_on utf16_units (set (ex_sourceFiles d)) \<longrightarrow> d' = d)"
  using assms isolated_extract_call
  by (auto simp: extractPluginDefinition_def project_scheduled_def Let_def schedule_simps
      split: option.splits list.splits)

lemma project_scheduled_twice [simp]:
  "project_scheduled (project_scheduled project ov k o') ov' k' o'' = project_scheduled project ov' k' o''"
  by (simp add: project_scheduled_def comp_def option.map_comp fun_eq_iff)

text \<open>C32. 
  The definition an extraction returns does not depend on how the evaluations that
  \<open>Promise.all\<close> overlaps interleave. Let an extraction succeed under some schedule: some symbols
  held by overlapping evaluations, some order in which the arguments of each call take turns at
  visiting files. Then the extraction succeeds, with the same definition and the same list of
  source files, whatever the turns are when the evaluations do not hold constants against each
  other; and under every other schedule it returns the same definition if it succeeds. The order
  in which files are visited differs between schedules: the list is the same because it is sorted,
  for file names that differ in their UTF-16 code units.
\<close>

theorem extraction_schedule_independent:
  assumes "extractPluginDefinition project entry = Inr d"
    and "inj_on utf16_units (set (ex_sourceFiles d))"
  shows "extractPluginDefinition (project_scheduled project (\<lambda>_ _. []) first order) entry = Inr d \<and>
    extractPluginDefinition (project_scheduled project others first order) entry \<in> {Inr d} \<union> range Inl"
proof
  show "extractPluginDefinition (project_scheduled project (\<lambda>_ _. []) first order) entry = Inr d"
    using isolated_extraction [OF assms(1)] assms(2) by blast
  show "extractPluginDefinition (project_scheduled project others first order) entry \<in> {Inr d} \<union> range Inl"
  proof (cases "extractPluginDefinition (project_scheduled project others first order) entry")
    case (Inr d')
    then show ?thesis
      using isolated_extraction [OF Inr, of first order] isolated_extraction [OF assms(1), of first order] assms(2)
      by auto
  qed simp
qed

theorem extraction_schedule_independent_witness:
  "extractPluginDefinition sample_project ''p.ts'' = Inr sample_definition \<and>
   extractPluginDefinition (project_scheduled sample_project (\<lambda>_ _. []) (\<lambda>_ _. 1) (\<lambda>_ _. [0, 2, 1])) ''p.ts'' =
     Inr sample_definition \<and>
   extractPluginDefinition (project_scheduled sample_project (\<lambda>_ _. [5]) (\<lambda>_ _. 1) (\<lambda>_ _. [0, 2, 1])) ''p.ts''
     \<in> {Inr sample_definition} \<union> range Inl"
proof -
  have units: "inj_on utf16_units (set (ex_sourceFiles sample_definition))"
    by (simp add: sample_definition_def sample_units)
  show ?thesis
    using sample_extracted extraction_schedule_independent [OF sample_extracted units] by blast
qed

section \<open>Constants\<close>

text \<open>
  The expressions whose values the evaluator needs for the value of an expression, one level
  down; the constant an expression names; and the constants needed for a value, at any depth of
  the expression but not through other constants.
\<close>

fun member_parts :: "object_member \<Rightarrow> expr list" where
  "member_parts (SpreadAssignment e _) = [e]"
| "member_parts (PropertyAssignment _ e _) = [e]"
| "member_parts (ShorthandAssignment key s _) = [Identifier key True s]"
| "member_parts _ = []"

definition handler_indices :: "evaluator \<Rightarrow> expr \<Rightarrow> int list" where
  "handler_indices ev callee =
     (case meaning ev callee of
        (Some (DeclarationMeaning _ _ (Some hs)), _) \<Rightarrow> hs
      | _ \<Rightarrow> [])"

fun plain_arguments :: "int list \<Rightarrow> nat \<Rightarrow> expr list \<Rightarrow> expr list" where
  "plain_arguments hs i [] = []"
| "plain_arguments hs i (e # es) =
     (if int i \<in> set hs then [] else [e]) @ plain_arguments hs (Suc i) es"

definition needed_parts :: "evaluator \<Rightarrow> expr \<Rightarrow> expr list" where
  "needed_parts ev e =
     (case unwrap e of
        ArrayLiteral es _ \<Rightarrow> map (\<lambda>x. case spread_element x of Some (i, _) \<Rightarrow> i | None \<Rightarrow> x) es
      | ObjectLiteral ms _ \<Rightarrow> concat (map member_parts ms)
      | CallExpression f es s \<Rightarrow>
          (case dependency_call ev f es s of
             Inr (None, _) \<Rightarrow> plain_arguments (handler_indices ev f) 0 es
           | _ \<Rightarrow> [])
      | _ \<Rightarrow> [])"

definition named_constant :: "evaluator \<Rightarrow> expr \<Rightarrow> nat option" where
  "named_constant ev e =
     (case unwrap e of
        Identifier t b s \<Rightarrow>
          (if fst (meaning ev (unwrap e)) = None then resolveSymbol ev (symbolFor ev (unwrap e)) else None)
      | _ \<Rightarrow> None)"

inductive needs :: "evaluator \<Rightarrow> expr \<Rightarrow> nat \<Rightarrow> bool" where
  needs_here: "named_constant ev e = Some t \<Longrightarrow> needs ev e t"
| needs_part: "p \<in> set (needed_parts ev e) \<Longrightarrow> needs ev p t \<Longrightarrow> needs ev e t"

definition refers :: "evaluator \<Rightarrow> nat \<Rightarrow> nat \<Rightarrow> bool" where
  "refers ev t u \<longleftrightarrow>
     (\<exists>i s. value_node ev t = Some (VariableDeclaration True (Some i) s) \<and> needs ev i u)"

definition has_value :: "evaluator \<Rightarrow> trail \<Rightarrow> expr \<Rightarrow> bool" where
  "has_value ev tr e \<longleftrightarrow> (\<exists>a fs. denotes ev tr False e a fs)"

lemma has_valueI [intro]: "denotes ev tr False e a fs \<Longrightarrow> has_value ev tr e"
  by (auto simp: has_value_def)

lemma gathers_parts:
  "gathers ev tr fl es items fs \<Longrightarrow> x \<in> set es \<Longrightarrow>
   has_value ev tr (case spread_element x of Some (i, _) \<Rightarrow> i | None \<Rightarrow> x)"
  by (induction es arbitrary: items fs) (auto elim!: gathers_consE)

lemma collects_parts:
  "collects ev tr fl [] entries ms result fs \<Longrightarrow> x \<in> set ms \<Longrightarrow> p \<in> set (member_parts x) \<Longrightarrow>
   has_value ev tr p"
  by (induction ms arbitrary: entries fs) (auto elim!: collects_consE simp: entry_mode_def)

lemma passes_parts:
  "passes ev tr hs i es ps \<Longrightarrow> p \<in> set (plain_arguments hs i es) \<Longrightarrow>
   has_value ev tr p"
  by (induction es arbitrary: i ps) (auto elim!: passes_consE split: if_splits)

lemma parts_have_values:
  assumes "has_value ev tr e" "p \<in> set (needed_parts ev e)"
  shows "has_value ev tr p"
proof -
  obtain a fs where "denotes ev tr False e a fs" using assms(1) by (auto simp: has_value_def)
  then show ?thesis
  proof (cases rule: denotes.cases)
    case denotes_leaf
    then show ?thesis
      using assms(2) by (cases "unwrap e" rule: leaf_value.cases) (auto simp: needed_parts_def)
  next
    case (denotes_array es s items fs)
    then show ?thesis using assms(2) by (auto simp: needed_parts_def intro: gathers_parts)
  next
    case (denotes_object ms s entries fs)
    then show ?thesis using assms(2) by (auto simp: needed_parts_def intro: collects_parts)
  next
    case (denotes_declaration f es s fs pkg exported handlers gs ps)
    then show ?thesis
      using assms(2)
      by (auto simp: needed_parts_def handler_indices_def dependency_call_None_iff [THEN iffD2]
          split: option.splits intro: passes_parts)
  next
    case (denotes_dependency f es s object cardinality c generated exported fs ident)
    then have "dependency_call ev f es s = Inr (Some a, fs)" by (auto simp: dependency_call_Some_iff)
    then show ?thesis using assms(2) denotes_dependency by (simp add: needed_parts_def)
  next
    case (denotes_contract c generated exported fs)
    then show ?thesis using assms(2) by (cases "unwrap e") (auto simp: needed_parts_def)
  qed (use assms(2) in \<open>auto simp: needed_parts_def\<close>)
qed

lemma named_constant_entered:
  assumes "has_value ev tr e" "named_constant ev e = Some t"
  obtains i s sp where "t \<notin> set (map fst tr)"
    "value_node ev t = Some (VariableDeclaration True (Some i) s)" "has_value ev ((t, sp) # tr) i"
proof -
  obtain a fs where "denotes ev tr False e a fs" using assms(1) by (auto simp: has_value_def)
  then show ?thesis
  proof (cases rule: denotes.cases)
    case (denotes_constant nm b s fs target i d gs)
    then have "target = t"
      using assms(2) by (simp add: named_constant_def stands_for_iff [symmetric])
    then show ?thesis using that denotes_constant by auto
  next
    case denotes_leaf
    then show ?thesis
      using assms(2) by (cases "unwrap e" rule: leaf_value.cases) (auto simp: named_constant_def)
  next
    case (denotes_contract c generated exported fs)
    then show ?thesis using assms(2) by (cases "unwrap e") (auto simp: named_constant_def)
  qed (use assms(2) in \<open>auto simp: named_constant_def\<close>)
qed

lemma needed_constant_entered:
  assumes "needs ev e t" "has_value ev tr e"
  obtains i s sp where "t \<notin> set (map fst tr)"
    "value_node ev t = Some (VariableDeclaration True (Some i) s)" "has_value ev ((t, sp) # tr) i"
  using assms
proof (induction arbitrary: thesis rule: needs.induct)
  case (needs_here ev e t)
  then show ?case using named_constant_entered by metis
next
  case (needs_part p ev e t)
  then show ?case using parts_have_values by metis
qed

lemma refers_chain:
  assumes "(refers ev)\<^sup>+\<^sup>+ t u" "value_node ev t = Some (VariableDeclaration True (Some i) s)"
    "has_value ev ((t, sp) # tr) i"
  shows "\<exists>j s' sp' tr'. value_node ev u = Some (VariableDeclaration True (Some j) s') \<and>
    u \<notin> set (map fst tr') \<and> t \<in> set (map fst tr') \<and> has_value ev ((u, sp') # tr') j"
  using assms(1)
proof (induction rule: tranclp_induct)
  case (base u)
  then have "needs ev i u" using assms(2) by (auto simp: refers_def)
  from needed_constant_entered [OF this assms(3)] show ?case by (metis list.set_intros(1) list.simps(9) fst_conv)
next
  case (step u v)
  obtain j s' sp' tr' where u: "value_node ev u = Some (VariableDeclaration True (Some j) s')"
      "t \<in> set (map fst tr')" "has_value ev ((u, sp') # tr') j"
    using step.IH by blast
  then have "needs ev j v" using step.hyps(2) by (auto simp: refers_def)
  from needed_constant_entered [OF this u(3)] u(2) show ?case
    by (metis list.set_intros(2) list.simps(9))
qed

text \<open>C31. 
  Every value the evaluator produces is free of cyclic constants: no constant needed for it
  refers, through the initializers of constants, to itself. So a definition that needs a cyclic
  constant is refused, and since the evaluator is a total function it is refused with an error
  and never by running on.
\<close>

theorem values_acyclic:
  assumes "ev_value ev [] False e = Inr r" "needs ev e t"
  shows "\<not> (refers ev)\<^sup>+\<^sup>+ t t"
proof
  assume cycle: "(refers ev)\<^sup>+\<^sup>+ t t"
  have "has_value ev [] e" using assms(1) by (cases r) (auto dest: evaluator_sound(1))
  from needed_constant_entered [OF assms(2) this] obtain i s sp where
    "value_node ev t = Some (VariableDeclaration True (Some i) s)" "has_value ev [(t, sp)] i"
    by metis
  from refers_chain [OF cycle this] show False by blast
qed

lemma sample_needs: "needs sample_evaluator sample_provider 5"
proof (rule needs_part)
  let ?e = "Identifier ''shared'' False (span_at ''p.ts'' 208 214)"
  show "?e \<in> set (needed_parts sample_evaluator sample_provider)"
    by (simp add: needed_parts_def sample_provider_def dependency_call_def handler_indices_def)
  show "needs sample_evaluator ?e 5"
    by (rule needs_here) (simp add: named_constant_def symbol_defs sample_defs)
qed

theorem values_acyclic_witness:
  "needs sample_evaluator sample_provider 5 \<and>
   ev_value sample_evaluator [] False sample_provider =
     Inr (DeclarationArgument sample_package ''tools''
       [shared_argument, ValueArgument (BArr [Arg shared_argument]) (span_at ''p.ts'' 216 224),
        HandlerArgument ''p.ts:226:232'' (span_at ''p.ts'' 226 232)]
       (span_at ''p.ts'' 200 234),
      [''p.ts'', ''sdk.ts''] @ replicate 10 ''p.ts'') \<and>
   \<not> (refers sample_evaluator)\<^sup>+\<^sup>+ 5 5"
  using sample_needs sample_provider_value values_acyclic [OF sample_provider_value sample_needs] by blast

section \<open>Overlapping evaluations\<close>

text \<open>
  A constant that an overlapping evaluation is inside of is reported as cyclic, whatever it is:
  a reference to a constant, evaluated while another argument of the same call holds that
  constant in the shared set, is refused with the error for cyclic constants.
\<close>

theorem overlap_reported_as_cycle:
  assumes "named_constant ev e = Some t" "t \<in> set (overlap ev tr (expr_span (unwrap e)))"
  shows "ev_value ev tr False e = Inl (CyclicConstant, expr_span (unwrap e))"
proof (cases "unwrap e")
  case (Identifier nm b s)
  then obtain fs where "meaning ev (unwrap e) = (None, fs)"
    using assms(1) by (cases "meaning ev (unwrap e)") (auto simp: named_constant_def split: if_splits)
  then show ?thesis
    using assms Identifier
    by (simp add: ev_value.simps ev_constant.simps constant_initializer_def held_def named_constant_def
        name_target_def no_visit_def Let_def)
qed (use assms in \<open>simp_all add: named_constant_def\<close>)

definition sample_overlapped :: evaluator where
  "sample_overlapped =
     scheduled sample_evaluator (\<lambda>_ s. if s = span_at ''p.ts'' 217 223 then [5] else []) (\<lambda>_ _. 0) (\<lambda>_ _. [])"

theorem overlap_reported_as_cycle_witness:
  "ev_value sample_overlapped [] False (Identifier ''shared'' False (span_at ''p.ts'' 217 223)) =
     Inl (CyclicConstant, span_at ''p.ts'' 217 223) \<and>
   ev_value sample_evaluator [] False (Identifier ''shared'' False (span_at ''p.ts'' 217 223)) =
     Inr (shared_argument, [''p.ts'', ''p.ts'', ''p.ts'', ''p.ts''])"
proof -
  have "named_constant sample_overlapped (Identifier ''shared'' False (span_at ''p.ts'' 217 223)) = Some 5"
    by (simp add: sample_overlapped_def named_constant_def schedule_simps)
      (simp add: symbol_defs sample_defs)
  then show ?thesis
    using overlap_reported_as_cycle
      [of sample_overlapped "Identifier ''shared'' False (span_at ''p.ts'' 217 223)" 5 "[]"]
    by (simp add: sample_overlapped_def schedule_simps)
qed

end
