(* ===== verification/Extraction_Results.thy ===== *)
theory Extraction_Results
  imports Extraction_Properties
begin

text \<open>
  The shape of what the extraction returns, and witnesses on a module in the style of the
  extraction tests.
\<close>

section \<open>Well-formed arguments\<close>

text \<open>
  Arguments as the evaluator builds them: a handler reference is the template over its span, an
  array holds arguments, an object has distinct keys in enumeration order and its raw children are
  strings, so no raw child can be taken for an argument.
\<close>

fun typed_argument :: "build_argument \<Rightarrow> bool" and typed_value :: "build_value \<Rightarrow> bool" and
  typed_child :: "build_child \<Rightarrow> bool"
where
  "typed_argument (ValueArgument v _) = typed_value v"
| "typed_argument (ContractArgument _ _ _ _) = True"
| "typed_argument (HandlerArgument r s) = (r = handler_reference s)"
| "typed_argument (DeclarationArgument _ _ as _) = list_all typed_argument as"
| "typed_value (BArr cs) = list_all (\<lambda>c. typed_child c \<and> (\<exists>a. c = Arg a)) cs"
| "typed_value (BObj kvs) =
     (distinct (map fst kvs) \<and> fromEntries kvs = kvs \<and> list_all (\<lambda>kc. typed_child (snd kc)) kvs)"
| "typed_value _ = True"
| "typed_child (Raw v) = (\<exists>s. v = BStr s)"
| "typed_child (Arg a) = typed_argument a"

definition typed_entries :: "(string \<times> build_argument) list \<Rightarrow> bool" where
  "typed_entries kvs \<longleftrightarrow> distinct (map fst kvs) \<and> list_all (\<lambda>ka. typed_argument (snd ka)) kvs"

lemma typed_literal_object:
  assumes "typed_entries entries"
  shows "typed_value (BObj (fromEntries (map (\<lambda>(k, a). (k, Arg a)) entries)))"
proof -
  have "distinct (map fst (map (\<lambda>(k, a). (k, Arg a)) entries))"
    using assms by (simp add: typed_entries_def comp_def case_prod_unfold)
  then show ?thesis
    using assms distinct_fromEntries
    by (fastforce simp: typed_entries_def list_all_iff)
qed

lemma typed_asArgument: "typed_child c \<Longrightarrow> typed_argument (asArgument s c)"
  by (cases c) (auto simp: asArgument_def)

lemma typed_requiredObject:
  "requiredObject ev fl a t = Inr kvs \<Longrightarrow> typed_argument a \<Longrightarrow> typed_entries kvs"
  by (auto simp: requiredObject_def result_simps typed_entries_def list_all_iff
      comp_def case_prod_unfold intro!: typed_asArgument)

lemma typed_grown:
  "grown entries kvs entries' \<Longrightarrow> typed_entries entries \<Longrightarrow> list_all (\<lambda>ka. typed_argument (snd ka)) kvs \<Longrightarrow>
   typed_entries entries'"
  by (auto simp: grown_def typed_entries_def)

lemma dependency_keys_not_indices [simp]:
  "\<not> array_index ''kind''" "\<not> array_index ''cardinality''" "\<not> array_index ''id''"
  "\<not> array_index ''contract''"
  by (simp_all add: array_index_def decimal_text_def ascii_digit_def)

lemma typed_dependency:
  "dependency_id_literal es ident \<Longrightarrow>
   typed_argument (dependency_value cardinality ident (ContractArgument c generated exported s') s)"
  by (induction rule: dependency_id_literal.induct) (simp_all add: dependency_value_def fromEntries_no_index)

lemma denotes_typed:
  "denotes ev tr m e a fs \<Longrightarrow> typed_argument a"
  "gathers ev tr fl es items fs \<Longrightarrow> list_all typed_argument items"
  "collects ev tr fl modes entries ms result fs \<Longrightarrow> typed_entries entries \<Longrightarrow> typed_entries result"
  "passes ev tr hs i es ps \<Longrightarrow> list_all (\<lambda>p. typed_argument (fst p)) ps"
proof (induction rule: denotes_induct)
  case (denotes_leaf e v ev tr)
  then show ?case by (cases "unwrap e" rule: leaf_value.cases) (auto simp: literal_def)
next
  case (denotes_object e ms s ev tr entries fs)
  then show ?case using typed_literal_object by (simp add: literal_def typed_entries_def)
next
  case (collects_spread ev tr e kvs sp fs entries fl entries' modes ms result gs s)
  then show ?case
    using typed_grown [OF collects_spread.hyps(2)] by (auto simp: list_all_iff typed_asArgument case_prod_unfold)
qed (auto simp: list_all_iff typed_asArgument intro: typed_dependency dest: typed_grown [of _ "[(_, _)]"])

section \<open>The extracted definition\<close>

lemma requiredArray_Inr_iff [result_simps]:
  "requiredArray ev fl x t = Inr items \<longleftrightarrow>
     (\<exists>cs s. x = Some (ValueArgument (BArr cs) s) \<and>
        items = map (asArgument (source_node_span ev fl)) cs)"
  by (auto simp: requiredArray_def result_simps split: option.split)

lemma optionalHandler_Inr_iff [result_simps]:
  "optionalHandler ev fl x t = Inr y \<longleftrightarrow> y = x \<and> (\<forall>a. x = Some a \<longrightarrow> (\<exists>r s. a = HandlerArgument r s))"
  by (auto simp: optionalHandler_def split: option.split build_argument.split)

text \<open>The entries of a declaration object that make a definition, and the definition they make.\<close>

definition provider_entry :: "(string \<times> build_argument) list \<Rightarrow> build_argument option" where
  "provider_entry entries =
     (if map_has entries ''provides'' then map_of entries ''provides'' else map_of entries ''providers'')"

definition children :: "build_argument option \<Rightarrow> build_child list" where
  "children x = (case x of Some (ValueArgument (BArr cs) _) \<Rightarrow> cs | _ \<Rightarrow> [])"

definition admissible :: "(string \<times> build_argument) list \<Rightarrow> bool" where
  "admissible entries \<longleftrightarrow>
     fst ` set entries \<subseteq> set allowed_fields \<and>
     (map_has entries ''provides'' \<longleftrightarrow> \<not> map_has entries ''providers'') \<and>
     (\<exists>cs s. provider_entry entries = Some (ValueArgument (BArr cs) s)) \<and>
     (\<forall>a. map_of entries ''dependencies'' = Some a \<longrightarrow> (\<exists>kvs s. a = ValueArgument (BObj kvs) s)) \<and>
     (\<forall>k \<in> {''create'', ''stop''}. \<forall>a. map_of entries k = Some a \<longrightarrow> (\<exists>r s. a = HandlerArgument r s))"

definition definition_of ::
  "source_span \<Rightarrow> (string \<times> build_argument) list \<Rightarrow> source_span \<Rightarrow> string list \<Rightarrow> extracted_definition" where
  "definition_of whole entries s files =
     \<lparr>ex_span = s, ex_config = map_of entries ''config'',
      ex_dependencies = map_option
        (\<lambda>a. case a of
           ValueArgument (BObj kvs) _ \<Rightarrow> fromEntries (map (\<lambda>(k, c). (k, asArgument whole c)) kvs)
         | _ \<Rightarrow> []) (map_of entries ''dependencies''),
      ex_providers = map (asArgument whole) (children (provider_entry entries)),
      ex_create = map_of entries ''create'', ex_stop = map_of entries ''stop'',
      ex_sourceFiles = files\<rparr>"

lemma declared_definition_Inr_iff:
  "declared_definition ev entry s t entries files = Inr d \<longleftrightarrow>
     admissible entries \<and>
     d = definition_of (source_node_span ev entry) entries s (evaluated_files files entry)"
proof -
  have keys: "find (\<lambda>k. k \<notin> set allowed_fields) (map fst entries) = None \<longleftrightarrow>
      fst ` set entries \<subseteq> set allowed_fields"
    by (auto simp: find_None_iff)
  show ?thesis
    by (auto simp: declared_definition_def keys [symmetric] admissible_def provider_entry_def
        definition_of_def Let_def result_simps map_has_def children_def requiredObject_def
        split: option.splits if_splits)
qed

text \<open>The entries a declaration object denotes.\<close>

definition declares ::
  "evaluator \<Rightarrow> expr \<Rightarrow> (string \<times> build_argument) list \<Rightarrow> string list \<Rightarrow> bool" where
  "declares ev e entries fs \<longleftrightarrow>
     (case unwrap e of
        ObjectLiteral ms s \<Rightarrow>
          collects ev [] (span_file s) [(''create'', True), (''stop'', True)] [] ms entries fs
      | v \<Rightarrow> \<exists>a. denotes ev [] False v a fs \<and> requiredObject ev (expr_file v) a ''object'' = Inr entries)"

lemma ev_object_declares:
  "ev_object ev [(''create'', True), (''stop'', True)] e = Inr (entries, fs) \<longleftrightarrow> declares ev e entries fs"
  by (cases "unwrap e")
    (auto simp: ev_object_def declares_def result_simps dest: evaluator_sound evaluator_complete)

lemma extraction_Inr:
  assumes "extractPluginDefinition project entry = Inr d"
  obtains p src e callee object s files entries visited where
    "project entry = Some p" "project_source p = Some src" "project_diagnostics p = []"
    "default_export (statements src) = Some e" "unwrap e = CallExpression callee [object] s"
    "meaning (project_evaluator p) callee = (Some PluginDefinitionMeaning, files)"
    "declares (project_evaluator p) object entries visited" "admissible entries"
    "d = definition_of (source_node_span (project_evaluator p) (source_name src)) entries s
           (js_sort (remdups (files @ visited @ [source_name src])))"
proof -
  obtain p src e where p: "project entry = Some p" "project_source p = Some src"
      "project_diagnostics p = []" "default_export (statements src) = Some e"
      "extract_call (project_evaluator p) (source_name src) e = Inr d"
    using assms by (auto simp: extractPluginDefinition_def Let_def split: option.splits list.splits)
  from p(5) show ?thesis
  proof (cases rule: extract_call_Inr)
    case 1
    then show ?thesis
      using p that by (auto simp: ev_object_declares declared_definition_Inr_iff evaluated_files_def)
  qed
qed

text \<open>C30. 
  A definition is extracted exactly when the entry file parses without diagnostics, its first
  default export is a call of definePlugin on one object, that object denotes entries of the
  static subset, and the entries are admissible: no unknown field, exactly one of provides and
  providers and that one an array, dependencies an object, create and stop functions. The
  definition is the one those entries make, with the sorted set of the visited files.
\<close>

theorem extractPluginDefinition_exact:
  "extractPluginDefinition project entry = Inr d \<longleftrightarrow>
     (\<exists>p src e callee object s files entries visited.
        project entry = Some p \<and> project_source p = Some src \<and> project_diagnostics p = [] \<and>
        default_export (statements src) = Some e \<and> unwrap e = CallExpression callee [object] s \<and>
        meaning (project_evaluator p) callee = (Some PluginDefinitionMeaning, files) \<and>
        declares (project_evaluator p) object entries visited \<and> admissible entries \<and>
        d = definition_of (source_node_span (project_evaluator p) (source_name src)) entries s
              (js_sort (remdups (files @ visited @ [source_name src]))))"
  (is "?l \<longleftrightarrow> ?r")
proof
  assume ?l
  then show ?r by (rule extraction_Inr) blast
next
  assume ?r
  then show ?l
    by (auto simp: extractPluginDefinition_def extract_call_def evaluated_files_def
        ev_object_declares [symmetric] declared_definition_Inr_iff)
qed

lemma declares_typed: "declares ev e entries fs \<Longrightarrow> typed_entries entries"
  using denotes_typed(1,3)
  by (cases "unwrap e")
    (fastforce simp: declares_def typed_entries_def dest: typed_requiredObject)+

lemma extraction_typed:
  assumes "extractPluginDefinition project entry = Inr d"
  shows "list_all typed_argument (ex_providers d) \<and>
    (\<forall>kvs. ex_dependencies d = Some kvs \<longrightarrow> typed_entries kvs) \<and>
    (\<forall>a. ex_config d = Some a \<longrightarrow> typed_argument a) \<and>
    (\<forall>a. ex_create d = Some a \<or> ex_stop d = Some a \<longrightarrow> (\<exists>s. a = handlerArgument s)) \<and>
    distinct (ex_sourceFiles d) \<and> sorted (map utf16_units (ex_sourceFiles d))"
  using assms
proof (cases rule: extraction_Inr)
  case (1 p src e callee object s files entries visited)
  have entries: "typed_argument a" if "map_of entries k = Some a" for k a
    using declares_typed [OF 1(7)] that
    by (force simp: typed_entries_def list_all_iff dest: map_of_SomeD)
  obtain cs sp where cs: "provider_entry entries = Some (ValueArgument (BArr cs) sp)"
    using 1(8) by (auto simp: admissible_def)
  then have typed_cs: "\<forall>c \<in> set cs. typed_child c"
    using entries by (fastforce simp: provider_entry_def list_all_iff split: if_splits)
  have deps: "typed_entries (fromEntries (map (\<lambda>(k, c). (k, asArgument w c)) kcs))"
    if "map_of entries ''dependencies'' = Some (ValueArgument (BObj kcs) sp')" for kcs sp' w
    using entries [OF that]
    by (auto simp: typed_entries_def list_all_iff comp_def case_prod_unfold
        intro!: distinct_fromEntries typed_asArgument)
  show ?thesis
    unfolding 1(9)
  proof (intro conjI allI impI)
    show "list_all typed_argument (ex_providers (definition_of w entries s fs))" for w fs
      using cs typed_cs by (auto simp: definition_of_def children_def list_all_iff intro: typed_asArgument)
    show "typed_entries kvs" if "ex_dependencies (definition_of w entries s fs) = Some kvs" for kvs w fs
      using 1(8) deps that by (fastforce simp: definition_of_def admissible_def)
    show "typed_argument a" if "ex_config (definition_of w entries s fs) = Some a" for a w fs
      using entries that by (auto simp: definition_of_def)
    show "\<exists>sp. a = handlerArgument sp"
      if "ex_create (definition_of w entries s fs) = Some a \<or> ex_stop (definition_of w entries s fs) = Some a"
      for a w fs
      using 1(8) entries that by (fastforce simp: definition_of_def admissible_def handlerArgument_def)
  qed (simp_all add: definition_of_def js_sort_def)
qed

text \<open>C33. 
  Every argument of an extracted definition is well formed: the providers, the configuration and
  the dependencies hold only what the evaluator builds, with distinct dependency names, create and
  stop are handlers that carry the reference of their span, and the source files are sorted
  without repetition.
\<close>

theorem extracted_definition_typed:
  assumes "extractPluginDefinition project entry = Inr d"
  shows "list_all typed_argument (ex_providers d) \<and>
    (\<forall>kvs. ex_dependencies d = Some kvs \<longrightarrow> typed_entries kvs) \<and>
    (\<forall>a. ex_config d = Some a \<longrightarrow> typed_argument a) \<and>
    (\<forall>a. ex_create d = Some a \<or> ex_stop d = Some a \<longrightarrow> (\<exists>s. a = handlerArgument s)) \<and>
    distinct (ex_sourceFiles d) \<and> sorted (map utf16_units (ex_sourceFiles d))"
  using assms by (rule extraction_typed)

theorem extracted_definition_typed_witness:
  "list_all typed_argument (ex_providers sample_definition) \<and>
   ex_dependencies sample_definition \<noteq> None \<and>
   typed_entries (the (ex_dependencies sample_definition)) \<and>
   (\<exists>s. the (ex_create sample_definition) = handlerArgument s) \<and>
   sorted (map utf16_units (ex_sourceFiles sample_definition))"
  using extracted_definition_typed [OF sample_extracted] by (simp add: sample_definition_def)

end
