(* ===== verification/Extraction_Files.thy ===== *)
theory Extraction_Files
  imports Extraction_Results
begin

text \<open>
  The source files an extraction lists. A build keeps the digests of these files, so a file that
  the definition was read from and that is not listed can change without the build noticing.
  Every file that contributed a value, a contract or a declaration is listed; the file of a
  handler is not, when the handler is imported from another file.
\<close>

section \<open>Files of trees and arguments\<close>

text \<open>All nodes of a tree are in one file.\<close>

fun located :: "string \<Rightarrow> expr \<Rightarrow> bool" and located_member :: "string \<Rightarrow> object_member \<Rightarrow> bool" where
  "located f (PrefixUnary _ e s) = (span_file s = f \<and> located f e)"
| "located f (ArrayLiteral es s) = (span_file s = f \<and> list_all (located f) es)"
| "located f (SpreadElement e s) = (span_file s = f \<and> located f e)"
| "located f (ObjectLiteral ms s) = (span_file s = f \<and> list_all (located_member f) ms)"
| "located f (CallExpression e es s) = (span_file s = f \<and> located f e \<and> list_all (located f) es)"
| "located f (PropertyAccess e _ ns s) = (span_file s = f \<and> span_file ns = f \<and> located f e)"
| "located f (Wrapped e s) = (span_file s = f \<and> located f e)"
| "located f e = (expr_file e = f)"
| "located_member f (SpreadAssignment e s) = (span_file s = f \<and> located f e)"
| "located_member f (PropertyAssignment _ e s) = (span_file s = f \<and> located f e)"
| "located_member f (ShorthandAssignment _ ns s) = (span_file s = f \<and> span_file ns = f)"
| "located_member f _ = True"

text \<open>The span of a source file node is in that file, and the initializer of a constant is in the
  file of its declaration.\<close>

definition well_located :: "evaluator \<Rightarrow> bool" where
  "well_located ev \<longleftrightarrow>
     (\<forall>f. span_file (source_node_span ev f) = f) \<and>
     (\<forall>t i s. value_node ev t = Some (VariableDeclaration True (Some i) s) \<longrightarrow> located (span_file s) i)"

text \<open>The files an argument points to, apart from its handlers.\<close>

fun argument_files :: "build_argument \<Rightarrow> string set" and value_files :: "build_value \<Rightarrow> string set" and
  child_files :: "build_child \<Rightarrow> string set"
where
  "argument_files (ValueArgument v s) = insert (span_file s) (value_files v)"
| "argument_files (ContractArgument _ _ _ s) = {span_file s}"
| "argument_files (HandlerArgument _ _) = {}"
| "argument_files (DeclarationArgument _ _ as s) = insert (span_file s) (\<Union>a \<in> set as. argument_files a)"
| "value_files (BArr cs) = (\<Union>c \<in> set cs. child_files c)"
| "value_files (BObj kvs) = (\<Union>kc \<in> set kvs. child_files (snd kc))"
| "value_files _ = {}"
| "child_files (Raw v) = value_files v"
| "child_files (Arg a) = argument_files a"

definition entries_files :: "(string \<times> build_argument) list \<Rightarrow> string set" where
  "entries_files kvs = (\<Union>ka \<in> set kvs. argument_files (snd ka))"

lemma entries_files_simps [simp]:
  "entries_files [] = {}"
  "entries_files (ka # kvs) = argument_files (snd ka) \<union> entries_files kvs"
  "entries_files (xs @ ys) = entries_files xs \<union> entries_files ys"
  "entries_files (fromEntries kvs) = entries_files kvs"
  by (auto simp: entries_files_def)

lemma located_unwrap: "located f e \<Longrightarrow> located f (unwrap e)"
  by (induction e rule: unwrap.induct) auto

lemma located_file: "located f e \<Longrightarrow> expr_file e = f"
  by (cases e) auto

lemma located_unwrapped: "located f e \<Longrightarrow> unwrap e = v \<Longrightarrow> located f v \<and> expr_file v = f"
  using located_unwrap located_file by blast

lemma asArgument_files: "argument_files (asArgument s c) \<subseteq> insert (span_file s) (child_files c)"
  by (cases c) (auto simp: asArgument_def)

lemma requiredObject_files:
  "requiredObject ev fl a t = Inr kvs \<Longrightarrow> well_located ev \<Longrightarrow>
   entries_files kvs \<subseteq> insert fl (argument_files a)"
  using asArgument_files
  by (fastforce simp: requiredObject_def result_simps entries_files_def well_located_def)

lemma grown_files:
  "grown entries kvs entries' \<Longrightarrow> entries_files entries' = entries_files entries \<union> entries_files kvs"
  by (simp add: grown_def)

lemma fromEntries_files: "value_files (BObj (fromEntries (map (\<lambda>(k, a). (k, Arg a)) entries))) = entries_files entries"
  by (auto simp: entries_files_def)

lemma dependency_files:
  "dependency_id_literal es ident \<Longrightarrow> span_file s = f \<Longrightarrow> span_file s' = f \<Longrightarrow>
   argument_files (dependency_value cardinality ident (ContractArgument c generated exported s') s) = {f}"
  by (induction rule: dependency_id_literal.induct) (simp_all add: dependency_value_def)

lemma cardinality_call_located: "cardinality_call g = Some (object, cardinality) \<Longrightarrow> located f g \<Longrightarrow> located f object"
  by (cases g) (auto split: if_splits)

lemma denotes_files:
  "denotes ev tr m e a fs \<Longrightarrow> well_located ev \<Longrightarrow> located f e \<Longrightarrow> f \<in> set fs \<and> argument_files a \<subseteq> set fs"
  "gathers ev tr fl es items fs \<Longrightarrow> well_located ev \<Longrightarrow> list_all (located fl) es \<Longrightarrow>
     (\<Union>a \<in> set items. argument_files a) \<subseteq> insert fl (set fs)"
  "collects ev tr fl modes entries ms result fs \<Longrightarrow> well_located ev \<Longrightarrow> list_all (located_member fl) ms \<Longrightarrow>
     entries_files result \<subseteq> insert fl (set fs) \<union> entries_files entries"
  "passes ev tr hs i es ps \<Longrightarrow> well_located ev \<Longrightarrow> list_all (located g) es \<Longrightarrow>
     \<forall>(a, fs) \<in> set ps. argument_files a \<subseteq> set fs"
proof (induction arbitrary: f and f and f and g rule: denotes_induct)
  case (denotes_handler ev e s tr)
  then show ?case using located_unwrapped by auto
next
  case (denotes_leaf e v ev tr)
  then show ?case
    using located_unwrapped [of f e] by (cases "unwrap e" rule: leaf_value.cases) (auto simp: literal_def)
next
  case (denotes_array e es s ev tr items fs)
  then show ?case using located_unwrapped [of f e] by (auto simp: literal_def)
next
  case (denotes_object e ms s ev tr entries fs)
  then show ?case
    using located_unwrapped [of f e] fromEntries_files by (auto simp: literal_def)
next
  case (denotes_dependency e g es s object cardinality ev c generated exported fs ident tr)
  then have "located f object" "span_file s = f"
    using located_unwrapped [of f e] cardinality_call_located by auto
  then show ?case
    using dependency_files [OF denotes_dependency.hyps(4)] located_file by simp
next
  case (denotes_declaration e g es s ev fs pkg exported handlers gs tr ps)
  then show ?case using located_unwrapped [of f e] by (fastforce simp: set_merge_by)
next
  case (denotes_contract e ev c generated exported fs tr)
  then show ?case using located_unwrapped [of f e] by (auto simp: contractArgument_def)
next
  case (denotes_constant e t b s ev fs target tr i s' a gs)
  then have "located (span_file s') i"
    using denotes_constant.prems(1) by (simp add: well_located_def)
  then show ?case
    using denotes_constant located_unwrapped [of f e] by auto
next
  case (gathers_spread e inner s ev tr xs sp fs fl es items gs)
  have "located fl inner" "span_file s = fl"
    using gathers_spread.hyps(1) gathers_spread.prems(2) by (cases e; simp)+
  then show ?case
    using gathers_spread asArgument_files [of s] by fastforce
next
  case (gathers_item e ev tr a fs fl es items gs)
  then show ?case by auto
next
  case (collects_spread ev tr e kvs sp fs entries fl entries' modes ms result gs s)
  have "entries_files (map (\<lambda>(k, c). (k, asArgument (source_node_span ev fl) c)) kvs) \<subseteq>
      insert fl (argument_files (ValueArgument (BObj kvs) sp))"
    using requiredObject_files [of ev fl "ValueArgument (BObj kvs) sp" _] collects_spread.prems(1)
    by (simp add: result_simps)
  then show ?case using grown_files [OF collects_spread.hyps(2)] collects_spread by fastforce
next
  case (collects_method modes key entries s entries' ev tr fl ms result gs ns)
  then show ?case using grown_files [OF collects_method.hyps(2)] by simp
next
  case (collects_property ev tr modes key e a fs entries entries' fl ms result gs ns s)
  then show ?case using grown_files [OF collects_property.hyps(2)] by fastforce
next
  case (collects_shorthand ev tr modes key ns a fs entries entries' fl ms result gs s)
  then show ?case using grown_files [OF collects_shorthand.hyps(2)] by fastforce
next
  case (passes_cons ev tr i hs e a fs es ps)
  then show ?case by fastforce
qed auto

section \<open>The listed files\<close>

definition definition_files :: "extracted_definition \<Rightarrow> string set" where
  "definition_files d =
     insert (span_file (ex_span d))
       ((case ex_config d of None \<Rightarrow> {} | Some a \<Rightarrow> argument_files a) \<union>
        (case ex_dependencies d of None \<Rightarrow> {} | Some kvs \<Rightarrow> entries_files kvs) \<union>
        (\<Union>a \<in> set (ex_providers d). argument_files a))"

lemma declares_files:
  assumes "declares ev object entries fs" "well_located ev" "located f object"
  shows "entries_files entries \<subseteq> insert f (set fs)"
proof (cases "\<exists>ms s. unwrap object = ObjectLiteral ms s")
  case True
  then show ?thesis
    using assms located_unwrapped [of f object] denotes_files(3) [of ev "[]" f]
    by (fastforce simp: declares_def)
next
  case False
  then obtain a where "denotes ev [] False (unwrap object) a fs"
      "requiredObject ev (expr_file (unwrap object)) a ''object'' = Inr entries"
    using assms(1) by (cases "unwrap object") (auto simp: declares_def)
  then show ?thesis
    using assms located_unwrapped [of f object] denotes_files(1) requiredObject_files by fastforce
qed

lemma map_of_files: "map_of entries k = Some a \<Longrightarrow> argument_files a \<subseteq> entries_files entries"
  by (force simp: entries_files_def dest: map_of_SomeD)

lemma provider_entry_files:
  "provider_entry entries = Some (ValueArgument (BArr cs) s) \<Longrightarrow> c \<in> set cs \<Longrightarrow>
   child_files c \<subseteq> entries_files entries"
  using map_of_files [of entries] by (fastforce simp: provider_entry_def split: if_splits)

lemma definition_of_files:
  assumes "admissible entries" "span_file whole = f" "span_file s = f"
  shows "definition_files (definition_of whole entries s fs) \<subseteq> insert f (entries_files entries)"
proof -
  have providers: "argument_files (asArgument whole c) \<subseteq> insert f (entries_files entries)"
    if "c \<in> set (children (provider_entry entries))" for c
    using that assms asArgument_files [of whole c] provider_entry_files
    by (fastforce simp: admissible_def children_def)
  have dependencies: "entries_files (map (\<lambda>(k, c). (k, asArgument whole c)) kvs) \<subseteq> insert f (entries_files entries)"
    if "map_of entries ''dependencies'' = Some (ValueArgument (BObj kvs) sp)" for kvs sp
    using map_of_files [OF that] asArgument_files [of whole] assms(2) 
    by (fastforce simp: entries_files_def [of "map _ _"])
  let ?d = "definition_of whole entries s fs"
  have "(case ex_config ?d of None \<Rightarrow> {} | Some a \<Rightarrow> argument_files a) \<subseteq> insert f (entries_files entries)"
    using map_of_files [of entries "''config''"] by (auto simp: definition_of_def split: option.split)
  moreover have "(case ex_dependencies ?d of None \<Rightarrow> {} | Some kvs \<Rightarrow> entries_files kvs)
      \<subseteq> insert f (entries_files entries)"
  proof (cases "map_of entries ''dependencies''")
    case (Some a)
    then obtain kvs sp where "a = ValueArgument (BObj kvs) sp"
      using assms(1) by (auto simp: admissible_def)
    then show ?thesis using Some dependencies by (simp add: definition_of_def)
  qed (simp add: definition_of_def)
  moreover have "(\<Union>a \<in> set (ex_providers ?d). argument_files a) \<subseteq> insert f (entries_files entries)"
    using providers by (auto simp: definition_of_def)
  ultimately show ?thesis
    using assms(3) unfolding definition_files_def by (simp add: definition_of_def)
qed

lemma default_export_member: "default_export sts = Some e \<Longrightarrow> ExportAssignment False e \<in> set sts"
  by (induction sts rule: default_export.induct) auto

text \<open>C34. 
  The listed source files are complete apart from handlers: every file that a provider, a
  dependency, the configuration or the call itself points to, at any depth, is listed, as is the
  entry file.
\<close>

theorem extraction_files_complete:
  assumes "extractPluginDefinition project entry = Inr d"
    and "project entry = Some p" "project_source p = Some src"
    and "well_located (project_evaluator p)"
    and "list_all (\<lambda>st. case st of ExportAssignment _ e \<Rightarrow> located (source_name src) e | _ \<Rightarrow> True)
      (statements src)"
  shows "insert (source_name src) (definition_files d) \<subseteq> set (ex_sourceFiles d)"
  using assms(1)
proof (cases rule: extraction_Inr)
  case (1 q src' e callee object s files entries visited)
  then have q: "q = p" "src' = src" using assms(2,3) by auto
  have "located (source_name src) e"
    using default_export_member [OF 1(4)] assms(5) q by (force simp: list_all_iff)
  then have located: "located (source_name src) object" "span_file s = source_name src"
    using located_unwrapped [OF _ 1(5)] by auto
  have "entries_files entries \<subseteq> insert (source_name src) (set visited)"
    using declares_files 1(7) assms(4) located(1) q by blast
  moreover have "definition_files d \<subseteq> insert (source_name src) (entries_files entries)"
    using 1(8,9) definition_of_files located(2) assms(4) q by (auto simp: well_located_def)
  moreover have "set (ex_sourceFiles d) = set files \<union> set visited \<union> {source_name src}"
    using 1(9) q by (simp add: definition_of_def js_sort_def)
  ultimately show ?thesis by blast
qed

lemma sample_located:
  "well_located sample_evaluator"
  "list_all (\<lambda>st. case st of ExportAssignment _ e \<Rightarrow> located (source_name sample_source) e | _ \<Rightarrow> True)
     (statements sample_source)"
proof -
  show "well_located sample_evaluator"
    by (auto simp: well_located_def value_node_def sample_defs sample_shared_def bind_eq_Some_conv
        split: if_splits)
  show "list_all (\<lambda>st. case st of ExportAssignment _ e \<Rightarrow> located (source_name sample_source) e | _ \<Rightarrow> True)
     (statements sample_source)"
    by (simp add: sample_source_def sample_object_def sample_provider_def span_at_def)
qed

text \<open>In the sample the listed files cover everything but the handler, which is in another file.\<close>

theorem extraction_files_complete_witness:
  "insert ''p.ts'' (definition_files sample_definition) \<subseteq> set (ex_sourceFiles sample_definition) \<and>
   (\<exists>r s. ex_create sample_definition = Some (HandlerArgument r s) \<and>
      span_file s \<notin> set (ex_sourceFiles sample_definition))"
proof -
  have "insert (source_name sample_source) (definition_files sample_definition)
      \<subseteq> set (ex_sourceFiles sample_definition)"
    using extraction_files_complete [OF sample_extracted] sample_located by (simp add: sample_project_def)
  moreover have "source_name sample_source = ''p.ts''" by (simp add: sample_source_def)
  ultimately show ?thesis by (simp add: sample_definition_def span_at_def)
qed

end
