(* ===== verification/Build_Properties.thy ===== *)
theory Build_Properties
  imports Build_Lowering
begin

text \<open>
  Properties of the build boundary that go beyond a single lowering: accepted package metadata is
  well formed and in normal form (rendering and validating it again changes nothing), and the build fingerprint is
  independent of the order in which its inputs are listed. The second rests on the uniqueness of
  sorted lists under a collation that is linear on the compared texts.
\<close>

section \<open>Properties of the package metadata\<close>

definition contract_json :: "build_provider_contract \<Rightarrow> json" where
  "contract_json c =
     JObj [(''capability_id'', JStr (capability_id c)),
           (''descriptor_version'', JStr (descriptor_version c)),
           (''descriptor_digest'', JStr (descriptor_digest c)),
           (''request_operations'', JArr (map JStr (request_operations c)))]"

definition handler_parameters_json :: "(string \<times> (string \<times> int list) list) list \<Rightarrow> json" where
  "handler_parameters_json hp =
     JObj (map (\<lambda>(k, es). (k, JObj (map (\<lambda>(e, is). (e, JArr (map jint is))) es))) hp)"

definition metadata_json :: "build_metadata \<Rightarrow> json" where
  "metadata_json m =
     JObj ([(''api_version'', BUILD_API_VERSION), (''export'', JStr (build_export m)),
            (''declarations'', JObj (map (\<lambda>(k, ns). (k, JArr (map JStr ns))) (declarations m)))] @
           (case handler_parameters m of None \<Rightarrow> [] | Some hp \<Rightarrow> [(''handler_parameters'', handler_parameters_json hp)]) @
           [(''provider_contracts'', JArr (map contract_json (provider_contracts m)))])"

lemma strings_Inr:
  "map_indexed (\<lambda>i x. nonemptyString (Some x) (f i) sp) n xs = Inr ys \<longleftrightarrow> xs = map JStr ys \<and> [] \<notin> set ys"
  using map_indexed_strings map_indexed_strings_id by blast

lemma validate_declaration_Inr:
  "validate_declaration sp (k, v) = Inr (k', ns) \<longleftrightarrow>
   k' = k \<and> packageExport (Some (JStr k)) ''declaration subpath'' sp True = Inr k \<and>
   v = JArr (map JStr ns) \<and> [] \<notin> set ns \<and> distinct ns"
  unfolding validate_declaration_def Let_def
  by (simp add: result_simps array_of_Inr strings_Inr) (auto simp: packageExport_Inr)

lemma integers_Inr:
  "map_indexed (\<lambda>i x. nonnegativeInteger (Some x) (f i) sp) n xs = Inr ys \<longleftrightarrow>
   xs = map jint ys \<and> (\<forall>y \<in> set ys. 0 \<le> y \<and> y \<le> max_safe_integer)"
  by (induction xs arbitrary: n ys) (auto simp: result_simps check_simps)

lemma validate_indexes_Inr:
  "validate_indexes sp decls subpath (e, v) = Inr (e', is) \<longleftrightarrow>
   e' = e \<and> v = JArr (map jint is) \<and> (\<exists>names. map_of decls subpath = Some names \<and> e \<in> set names) \<and>
   distinct is \<and> (\<forall>i \<in> set is. 0 \<le> i \<and> i \<le> max_safe_integer)"
  unfolding validate_indexes_def Let_def
  by (auto simp: result_simps array_of_Inr integers_Inr split: option.splits)

text \<open>
  Well-formed metadata: the exports are paths of the package, the names declared for a path are
  non-empty and distinct, handler indexes are given for declared names only and are distinct
  non-negative integers, contracts have identifiers, a canonical digest and distinct operations. A
  path of \<open>handler_parameters\<close> may be undeclared when it is a name that every object inherits, and
  has no exports then.
\<close>

definition package_path :: "bool \<Rightarrow> string \<Rightarrow> bool" where
  "package_path allow_root s \<longleftrightarrow>
     (allow_root \<and> s = ''.'' \<or> subpath_pattern s) \<and> (\<forall>part \<in> set (split_on (\<lambda>c. c = CHR ''/'') s). part \<noteq> ''..'' \<and> part \<noteq> [])"

definition well_formed_indexes :: "string list \<Rightarrow> string \<times> int list \<Rightarrow> bool" where
  "well_formed_indexes names = (\<lambda>(name, indexes).
     name \<in> set names \<and> name \<noteq> ''__proto__'' \<and> distinct indexes \<and> (\<forall>i \<in> set indexes. 0 \<le> i \<and> i \<le> max_safe_integer))"

definition well_formed_parameters :: "(string \<times> string list) list \<Rightarrow> string \<times> (string \<times> int list) list \<Rightarrow> bool" where
  "well_formed_parameters decls = (\<lambda>(path, exports). path \<noteq> ''__proto__'' \<and>
     (case map_of decls path of
        Some names \<Rightarrow> (\<forall>x \<in> set exports. well_formed_indexes names x)
      | None \<Rightarrow> path \<in> set inherited_names \<and> exports = []))"

definition well_formed_contract :: "build_provider_contract \<Rightarrow> bool" where
  "well_formed_contract c \<longleftrightarrow>
     capability_id c \<noteq> [] \<and> descriptor_version c \<noteq> [] \<and> canonical_sha256 (descriptor_digest c) \<and>
     request_operations c \<noteq> [] \<and> distinct (request_operations c) \<and> [] \<notin> set (request_operations c)"

definition well_formed_metadata :: "build_metadata \<Rightarrow> bool" where
  "well_formed_metadata m \<longleftrightarrow>
     package_path False (build_export m) \<and>
     (\<forall>(path, names) \<in> set (declarations m). package_path True path \<and> distinct names \<and> [] \<notin> set names) \<and>
     (\<forall>hp. handler_parameters m = Some hp \<longrightarrow> (\<forall>x \<in> set hp. well_formed_parameters (declarations m) x)) \<and>
     (\<forall>c \<in> set (provider_contracts m). well_formed_contract c)"

lemma packageExport_path: "packageExport v subject sp allow_root = Inr s \<longleftrightarrow> v = Some (JStr s) \<and> package_path allow_root s"
  by (auto simp: packageExport_Inr package_path_def bad_part_def list_ex_iff)

lemma mapM_entries:
  "mapM f xs = Inr ys \<Longrightarrow> (\<And>k v y. f (k, v) = Inr y \<Longrightarrow> P y) \<Longrightarrow> \<forall>y \<in> set ys. P y"
  by (induction xs arbitrary: ys) (auto simp: result_simps)

lemma mapM_map_id: "(\<And>y. y \<in> set ys \<Longrightarrow> f (g y) = Inr y) \<Longrightarrow> mapM f (map g ys) = Inr ys"
  by (induction ys) (auto simp: result_simps)

lemma map_indexed_map_id: "(\<And>i y. y \<in> set ys \<Longrightarrow> f i (g y) = Inr y) \<Longrightarrow> map_indexed f n (map g ys) = Inr ys"
  by (induction ys arbitrary: n) (auto simp: result_simps)

lemma assigned_id: "\<forall>x \<in> set kvs. fst x \<noteq> ''__proto__'' \<Longrightarrow> assigned kvs = kvs"
  by (auto simp: assigned_def filter_id_conv)

lemma validate_handler_parameters_sound:
  assumes "validate_handler_parameters sp decls (k, v) = Inr y" "fst y \<noteq> ''__proto__''"
  shows "well_formed_parameters decls y"
proof -
  from assms obtain kvs es where y: "y = (k, assigned es)" "k \<in> fst ` set decls \<or> k \<in> set inherited_names"
    and m: "mapM (validate_indexes sp decls k) kvs = Inr es"
    by (auto simp: validate_handler_parameters_def result_simps record_of_Inr)
  have es: "\<forall>x \<in> set es. \<exists>names. map_of decls k = Some names \<and> fst x \<in> set names \<and> distinct (snd x) \<and>
      (\<forall>i \<in> set (snd x). 0 \<le> i \<and> i \<le> max_safe_integer)"
    using m by (rule mapM_entries) (auto simp: validate_indexes_Inr)
  show ?thesis
  proof (cases "map_of decls k")
    case None
    then have "es = []" using es by (cases es) auto
    moreover have "k \<in> set inherited_names" using y(2) None by (auto simp: map_of_eq_None_iff)
    ultimately show ?thesis using None y(1) assms(2) by (simp add: well_formed_parameters_def assigned_def)
  next
    case (Some names)
    then show ?thesis
      using es y(1) assms(2) by (auto simp: well_formed_parameters_def well_formed_indexes_def assigned_def)
  qed
qed

lemma validate_handler_parameters_complete:
  assumes "well_formed_parameters decls (k, es)"
  shows "validate_handler_parameters sp decls (k, JObj (map (\<lambda>(e, is). (e, JArr (map jint is))) es)) = Inr (k, es)"
proof -
  have "mapM (validate_indexes sp decls k) (map (\<lambda>(e, is). (e, JArr (map jint is))) es) = Inr es"
    using assms
    by (intro mapM_map_id)
      (auto simp: well_formed_parameters_def well_formed_indexes_def validate_indexes_Inr split: option.splits)
  moreover have "assigned es = es"
    using assms by (intro assigned_id)
      (auto simp: well_formed_parameters_def well_formed_indexes_def split: option.splits)
  moreover have "k \<in> fst ` set decls \<or> k \<in> set inherited_names"
    using assms by (auto simp: well_formed_parameters_def split: option.splits dest: map_of_SomeD intro: image_eqI [rotated])
  ultimately show ?thesis by (auto simp: validate_handler_parameters_def record_of_def)
qed

lemma validate_provider_contract_sound:
  "validate_provider_contract sp i raw = Inr c \<Longrightarrow> well_formed_contract c"
  unfolding validate_provider_contract_def Let_def well_formed_contract_def
  by (simp add: result_simps check_simps strings_Inr) (elim exE conjE, hypsubst, simp)

lemma validate_provider_contract_complete:
  assumes "well_formed_contract c"
  shows "validate_provider_contract sp i (contract_json c) = Inr c"
proof -
  have "descriptor_digest c \<noteq> []" using assms by (auto simp: well_formed_contract_def canonical_sha256_def)
  then show ?thesis
    using assms unfolding validate_provider_contract_def Let_def contract_json_def well_formed_contract_def
    by (simp add: result_simps check_simps strings_Inr) (rule exI [of _ "request_operations c"], simp)
qed

lemma metadata_sound:
  assumes "validateBuildPackageMetadata raw = Inr m"
  shows "well_formed_metadata m"
proof -
  from assms obtain md ex dr ds hp cs pcs where
      e: "packageExport (map_of md ''export'') ''lenso.build.export'' EMPTY_SPAN False = Inr ex"
    and d: "mapM (validate_declaration EMPTY_SPAN) dr = Inr ds"
    and h: "(case map_of md ''handler_parameters'' of None \<Rightarrow> Inr None
        | Some h \<Rightarrow> bind_result (record_of (Some h) ''lenso.build.handler_parameters'' EMPTY_SPAN) (\<lambda>subpaths.
             bind_result (mapM (validate_handler_parameters EMPTY_SPAN ds) subpaths)
               (\<lambda>hp. Inr (Some (assigned hp))))) = Inr hp"
    and c: "map_indexed (validate_provider_contract EMPTY_SPAN) 0 cs = Inr pcs"
    and m: "m = \<lparr>build_export = ex, declarations = ds, handler_parameters = hp, provider_contracts = pcs\<rparr>"
    unfolding validateBuildPackageMetadata_def Let_def
    by (simp add: result_simps record_of_Inr array_of_Inr) blast
  have "\<forall>(path, names) \<in> set ds. package_path True path \<and> distinct names \<and> [] \<notin> set names"
    using d by (rule mapM_entries) (auto simp: validate_declaration_Inr packageExport_path)
  moreover have "\<forall>x \<in> set hps. well_formed_parameters ds x" if hps: "hp = Some hps" for hps
  proof -
    obtain xs ys where xs: "mapM (validate_handler_parameters EMPTY_SPAN ds) xs = Inr ys" "hps = assigned ys"
      using h hps by (auto simp: result_simps split: option.splits)
    have "\<forall>y \<in> set ys. fst y \<noteq> ''__proto__'' \<longrightarrow> well_formed_parameters ds y"
      using xs(1) by (rule mapM_entries) (blast intro: validate_handler_parameters_sound)
    then show ?thesis using xs(2) by (auto simp: assigned_def)
  qed
  moreover have "\<forall>c \<in> set pcs. well_formed_contract c"
    using map_indexed_set [OF c] validate_provider_contract_sound by blast
  ultimately show ?thesis using e m by (auto simp: well_formed_metadata_def packageExport_path)
qed

lemma metadata_complete:
  assumes "well_formed_metadata m"
  shows "validateBuildPackageMetadata (metadata_json m) = Inr m"
proof -
  have e: "packageExport (Some (JStr (build_export m))) ''lenso.build.export'' EMPTY_SPAN False = Inr (build_export m)"
    using assms by (simp add: packageExport_path well_formed_metadata_def)
  have d: "mapM (validate_declaration EMPTY_SPAN) (map (\<lambda>(k, ns). (k, JArr (map JStr ns))) (declarations m)) =
      Inr (declarations m)"
    using assms by (intro mapM_map_id) (auto simp: validate_declaration_Inr packageExport_path well_formed_metadata_def)
  have c: "map_indexed (validate_provider_contract EMPTY_SPAN) 0 (map contract_json (provider_contracts m)) =
      Inr (provider_contracts m)"
    using assms by (intro map_indexed_map_id validate_provider_contract_complete) (simp add: well_formed_metadata_def)
  have h: "mapM (validate_handler_parameters EMPTY_SPAN (declarations m))
      (map (\<lambda>(k, es). (k, JObj (map (\<lambda>(e, is). (e, JArr (map jint is))) es))) hp) = Inr hp" "assigned hp = hp"
    if "handler_parameters m = Some hp" for hp
    using assms that
    by (auto intro!: mapM_map_id validate_handler_parameters_complete assigned_id simp: well_formed_metadata_def)
      (auto simp: well_formed_parameters_def)
  show ?thesis
    unfolding validateBuildPackageMetadata_def metadata_json_def Let_def
    using e d c h by (cases "handler_parameters m")
      (simp_all add: record_of_def array_of_def handler_parameters_json_def)
qed

text \<open>C36. Package metadata that is accepted is well formed and normalised. Its exports are paths inside the
  package; the names declared for a path are non-empty and distinct; handler indexes are given only
  for names declared for their path and are distinct non-negative integers; every contract has
  identifiers, a canonical digest and a non-empty list of distinct operations. Rendered as JSON and
  validated again it is accepted unchanged, and the same holds of all well-formed metadata, so
  nothing else is refused. The key \<open>__proto__\<close> never appears among the handler parameters: entries
  given for it are dropped.\<close>

theorem metadata_roundtrip:
  "(validateBuildPackageMetadata raw = Inr m \<longrightarrow> well_formed_metadata m) \<and>
   (validateBuildPackageMetadata (metadata_json m) = Inr m \<longleftrightarrow> well_formed_metadata m)"
  using metadata_sound metadata_complete by blast

definition sample_metadata :: build_metadata where
  "sample_metadata =
     \<lparr>build_export = ''./build'', declarations = [(''.'', [''endpoint'']), (''./jobs'', [''job''])],
      handler_parameters = Some [(''./jobs'', [(''job'', [1])])],
      provider_contracts =
        [\<lparr>capability_id = ''c@1'', descriptor_version = ''1.0.0'', descriptor_digest = sample_digest,
          request_operations = [''run'']\<rparr>]\<rparr>"

lemma sample_metadata_accepted: "validateBuildPackageMetadata (metadata_json sample_metadata) = Inr sample_metadata"
  by (simp add: validateBuildPackageMetadata_def metadata_json_def sample_metadata_def Let_def
      handler_parameters_json_def contract_json_def record_of_def array_of_def exactKeys_def
      validate_declaration_def validate_handler_parameters_def validate_indexes_def assigned_def
      validate_provider_contract_def packageExport_def nonemptyString_def string_of_def canonicalDigest_def
      nonnegativeInteger_def sample_digest_canonical ascii_letter_def ascii_digit_def bad_part_def)

theorem metadata_roundtrip_witness:
  "well_formed_metadata sample_metadata \<and>
   validateBuildPackageMetadata (metadata_json sample_metadata) = Inr sample_metadata"
  using metadata_roundtrip [of "metadata_json sample_metadata" sample_metadata] sample_metadata_accepted by blast

text \<open>Handler parameters for an export named \<open>__proto__\<close> are accepted and lost.\<close>

theorem proto_parameters_lost:
  "validate_handler_parameters sp [(''./jobs'', [''__proto__''])]
     (''./jobs'', JObj [(''__proto__'', JArr [jint 1])]) = Inr (''./jobs'', [])"
  by (simp add: validate_handler_parameters_def validate_indexes_def record_of_def array_of_def
      nonnegativeInteger_def assigned_def)

section \<open>Properties of the fingerprint\<close>

text \<open>A comparison that behaves as a linear order on the texts it is applied to.\<close>

definition linear_comparison :: "(string \<Rightarrow> string \<Rightarrow> int) \<Rightarrow> string set \<Rightarrow> bool" where
  "linear_comparison cmp A \<longleftrightarrow>
     (\<forall>a \<in> A. \<forall>b \<in> A. cmp a b \<le> 0 \<or> cmp b a \<le> 0) \<and>
     (\<forall>a \<in> A. \<forall>b \<in> A. cmp a b \<le> 0 \<longrightarrow> cmp b a \<le> 0 \<longrightarrow> a = b) \<and>
     (\<forall>a \<in> A. \<forall>b \<in> A. \<forall>c \<in> A. cmp a b \<le> 0 \<longrightarrow> cmp b c \<le> 0 \<longrightarrow> cmp a c \<le> 0)"

lemma linear_comparison_mono: "linear_comparison cmp A \<Longrightarrow> B \<subseteq> A \<Longrightarrow> linear_comparison cmp B"
  unfolding linear_comparison_def subset_eq by meson

lemma linear_comparison_trans:
  assumes "linear_comparison cmp A" and "a \<in> A" and "b \<in> A" and "c \<in> A" and "cmp a b \<le> 0" and "cmp b c \<le> 0"
  shows "cmp a c \<le> 0"
  using assms unfolding linear_comparison_def by meson

lemma linear_comparison_total:
  "linear_comparison cmp A \<Longrightarrow> a \<in> A \<Longrightarrow> b \<in> A \<Longrightarrow> \<not> cmp a b \<le> 0 \<Longrightarrow> cmp b a \<le> 0"
  unfolding linear_comparison_def by meson

lemma mset_insert_by [simp]: "mset (insert_by cmp x xs) = add_mset x (mset xs)"
  by (induction xs) auto

lemma mset_sort_by [simp]: "mset (sort_by cmp xs) = mset xs"
  by (induction xs) (auto simp: sort_by_def)

lemma set_sort_by [simp]: "set (sort_by cmp xs) = set xs"
  using mset_sort_by [of cmp xs] by (metis set_mset_mset)

lemma set_insert_by [simp]: "set (insert_by cmp x xs) = insert x (set xs)"
  by (induction xs) auto

definition le_by :: "(string \<Rightarrow> string \<Rightarrow> int) \<Rightarrow> ('a \<Rightarrow> string) \<Rightarrow> 'a \<Rightarrow> 'a \<Rightarrow> bool" where
  "le_by cmp key a b \<longleftrightarrow> cmp (key a) (key b) \<le> 0"

lemma sorted_insert_by:
  assumes "linear_comparison cmp (key ` insert x (set xs))" and "sorted_wrt (le_by cmp key) xs"
  shows "sorted_wrt (le_by cmp key) (insert_by (\<lambda>l r. cmp (key l) (key r)) x xs)"
  using assms
proof (induction xs)
  case Nil
  then show ?case by simp
next
  case (Cons y ys)
  have sub: "linear_comparison cmp (key ` insert x (set ys))"
    by (rule linear_comparison_mono [OF Cons.prems(1)]) auto
  show ?case
  proof (cases "cmp (key x) (key y) \<le> 0")
    case True
    have "le_by cmp key x z" if "z \<in> set ys" for z
    proof -
      have "cmp (key y) (key z) \<le> 0" using Cons.prems(2) that by (simp add: le_by_def)
      with True show ?thesis
        unfolding le_by_def using that
        by (intro linear_comparison_trans [OF Cons.prems(1), of "key x" "key y" "key z"]) auto
    qed
    with True Cons.prems(2) show ?thesis by (simp add: le_by_def)
  next
    case False
    then have "cmp (key y) (key x) \<le> 0"
      by (intro linear_comparison_total [OF Cons.prems(1)]) auto
    with False Cons.IH [OF sub] Cons.prems(2) show ?thesis by (auto simp: le_by_def)
  qed
qed

lemma sorted_sort_by:
  "linear_comparison cmp (key ` set xs) \<Longrightarrow>
   sorted_wrt (le_by cmp key) (sort_by (\<lambda>l r. cmp (key l) (key r)) xs)"
proof (induction xs)
  case Nil
  then show ?case by (simp add: sort_by_def)
next
  case (Cons x xs)
  have "linear_comparison cmp (key ` set xs)" by (rule linear_comparison_mono [OF Cons.prems]) auto
  then have "sorted_wrt (le_by cmp key) (sort_by (\<lambda>l r. cmp (key l) (key r)) xs)" by (rule Cons.IH)
  then show ?case
    using sorted_insert_by [of cmp key x "sort_by (\<lambda>l r. cmp (key l) (key r)) xs"] Cons.prems
    by (simp add: sort_by_def del: set_insert_by) (simp add: sort_by_def [symmetric])
qed

lemma sorted_by_unique:
  assumes "linear_comparison cmp (key ` set xs)" and "inj_on key (set xs)"
    and "sorted_wrt (le_by cmp key) xs" and "sorted_wrt (le_by cmp key) ys" and "mset xs = mset ys"
  shows "xs = ys"
  using assms
proof (induction xs arbitrary: ys)
  case Nil
  then show ?case by simp
next
  case (Cons x xs)
  obtain y ys' where ys: "ys = y # ys'" using Cons.prems(5) by (cases ys) auto
  have sets: "set (x # xs) = set (y # ys')" using Cons.prems(5) ys by (metis set_mset_mset)
  have "x = y"
  proof (rule ccontr)
    assume ne: "x \<noteq> y"
    then have "y \<in> set xs" "x \<in> set ys'" using sets by auto
    then have "cmp (key x) (key y) \<le> 0" "cmp (key y) (key x) \<le> 0"
      using Cons.prems(3,4) ys by (auto simp: le_by_def)
    then have "key x = key y"
      using Cons.prems(1) sets unfolding linear_comparison_def by (metis image_eqI list.set_intros(1))
    then show False using Cons.prems(2) ne sets by (metis inj_onD list.set_intros(1))
  qed
  moreover have "linear_comparison cmp (key ` set xs)"
    by (rule linear_comparison_mono [OF Cons.prems(1)]) auto
  moreover have "inj_on key (set xs)" using Cons.prems(2) by simp
  ultimately show ?case using Cons ys by auto
qed

lemma sort_by_permutation:
  assumes "linear_comparison cmp (key ` set xs)" and "inj_on key (set xs)" and "mset xs = mset ys"
  shows "sort_by (\<lambda>l r. cmp (key l) (key r)) xs = sort_by (\<lambda>l r. cmp (key l) (key r)) ys"
proof (rule sorted_by_unique)
  have "set xs = set ys" using assms(3) by (metis set_mset_mset)
  then show "sorted_wrt (le_by cmp key) (sort_by (\<lambda>l r. cmp (key l) (key r)) ys)"
    using assms(1) by (auto intro: sorted_sort_by)
qed (use assms in \<open>auto intro: sorted_sort_by\<close>)

lemma canonical_files_loop_Inr:
  "canonical_files_loop subject seen fs = Inr gs \<longleftrightarrow>
   list_all2 (\<lambda>f g. safeRelativePath (Some (JStr (bf_path f))) (subject @ '' path'') EMPTY_SPAN = Inr (bf_path g) \<and>
      bf_sha256 g = bf_sha256 f \<and> canonical_sha256 (bf_sha256 f)) fs gs \<and>
   distinct (map bf_path gs) \<and> bf_path ` set gs \<inter> set seen = {}"
proof (induction fs arbitrary: seen gs)
  case Nil
  then show ?case by auto
next
  case (Cons f fs)
  show ?case
    by (cases gs; cases "hd gs") (auto simp: result_simps Cons.IH)
qed

lemma list_all2_permutation:
  assumes "list_all2 P xs ys" and "mset xs = mset xs'"
  shows "\<exists>ys'. list_all2 P xs' ys' \<and> mset ys' = mset ys"
  using assms
proof (induction xs ys arbitrary: xs' rule: list_all2_induct)
  case Nil
  then show ?case by simp
next
  case (Cons x xs y ys)
  from Cons.prems have "x \<in> set xs'" by (metis list.set_intros(1) set_mset_mset)
  then obtain us vs where xs': "xs' = us @ x # vs" by (meson split_list)
  with Cons.prems have "mset xs = mset (us @ vs)" by simp
  from Cons.IH [OF this] obtain zs where z: "list_all2 P (us @ vs) zs" "mset zs = mset ys" by blast
  then obtain as bs where "zs = as @ bs" "list_all2 P us as" "list_all2 P vs bs"
    by (auto simp: list_all2_append1)
  with z Cons.hyps xs' show ?case
    by (intro exI [of _ "as @ y # bs"]) (auto intro: list_all2_appendI)
qed

lemma canonicalFiles_permutation:
  assumes "canonicalFiles cmp fs subject = Inr gs" and "mset fs = mset fs'"
    and "linear_comparison cmp (bf_path ` set gs)"
  shows "canonicalFiles cmp fs' subject = Inr gs"
proof -
  from assms(1) obtain hs where hs: "canonical_files_loop subject [] fs = Inr hs"
    and gs: "gs = sort_by (\<lambda>l r. cmp (bf_path l) (bf_path r)) hs"
    by (auto simp: canonicalFiles_def result_simps)
  then obtain hs' where hs': "canonical_files_loop subject [] fs' = Inr hs'" "mset hs' = mset hs"
    using list_all2_permutation [OF _ assms(2)] unfolding canonical_files_loop_Inr
    by (metis (no_types, lifting) inf_bot_right list.set(1) mset_eq_imp_distinct_iff mset_map)
  moreover have "inj_on bf_path (set hs)"
    using hs by (simp add: canonical_files_loop_Inr distinct_map)
  ultimately have "sort_by (\<lambda>l r. cmp (bf_path l) (bf_path r)) hs = sort_by (\<lambda>l r. cmp (bf_path l) (bf_path r)) hs'"
    using assms(3) gs by (intro sort_by_permutation) auto
  then show ?thesis using gs hs' by (simp add: canonicalFiles_def)
qed

lemma locked_package_Inr:
  "locked_package v = Inr w \<longleftrightarrow>
   w = v \<and> package_name v \<noteq> [] \<and> package_version v \<noteq> [] \<and> package_integrity v \<noteq> []"
  by (cases v) (auto simp: locked_package_def result_simps check_simps)

lemma mapM_locked_package:
  "mapM locked_package ps = Inr qs \<longleftrightarrow> qs = ps \<and> (\<forall>p \<in> set ps. locked_package p = Inr p)"
  by (induction ps arbitrary: qs) (auto simp: result_simps locked_package_Inr)

text \<open>The texts that the two sorts compare.\<close>

definition compared_texts :: "fingerprint_input \<Rightarrow> string set" where
  "compared_texts i =
     (\<lambda>f. forward_slashes (bf_path f)) ` (set (sourceClosure i) \<union> set (contractArtifacts i)) \<union>
     package_text ` set (lockedPackages i)"

lemma canonicalFiles_paths:
  assumes "canonicalFiles cmp fs subject = Inr gs"
  shows "bf_path ` set gs \<subseteq> (\<lambda>f. forward_slashes (bf_path f)) ` set fs"
proof -
  from assms obtain hs where "canonical_files_loop subject [] fs = Inr hs" and "set gs = set hs"
    by (auto simp: canonicalFiles_def result_simps)
  then have "list_all2 (\<lambda>f g. bf_path g = forward_slashes (bf_path f)) fs hs"
    unfolding canonical_files_loop_Inr safeRelativePath_Inr by (auto elim: list_all2_mono)
  then have "bf_path ` set hs = (\<lambda>f. forward_slashes (bf_path f)) ` set fs"
    by (induction rule: list_all2_induct) auto
  with \<open>set gs = set hs\<close> show ?thesis by simp
qed

text \<open>The fingerprint does not depend on the order in which files and packages are listed, as long
  as the collation orders the compared texts linearly and no two locked packages have the same
  joined text.\<close>

theorem fingerprint_permutation:
  assumes "fingerprintBuildInputs sha256_hex localeCompare i = Inr fp"
    and "mset (sourceClosure j) = mset (sourceClosure i)"
    and "mset (contractArtifacts j) = mset (contractArtifacts i)"
    and "mset (lockedPackages j) = mset (lockedPackages i)"
    and "build_target j = build_target i"
    and "linear_comparison localeCompare (compared_texts i)"
    and "inj_on package_text (set (lockedPackages i))"
  shows "fingerprintBuildInputs sha256_hex localeCompare j = Inr fp"
proof -
  from assms(1) obtain ss as ps where
      s: "canonicalFiles localeCompare (sourceClosure i) ''sourceClosure'' = Inr ss"
    and a: "canonicalFiles localeCompare (contractArtifacts i) ''contractArtifacts'' = Inr as"
    and ps: "mapM locked_package (lockedPackages i) = Inr ps"
    by (auto simp: fingerprintBuildInputs_def canonical_input_def result_simps)
  have s': "canonicalFiles localeCompare (sourceClosure j) ''sourceClosure'' = Inr ss"
    by (rule canonicalFiles_permutation [OF s assms(2) [symmetric]])
      (rule linear_comparison_mono [OF assms(6)],
        use canonicalFiles_paths [OF s] in \<open>auto simp: compared_texts_def\<close>)
  have a': "canonicalFiles localeCompare (contractArtifacts j) ''contractArtifacts'' = Inr as"
    by (rule canonicalFiles_permutation [OF a assms(3) [symmetric]])
      (rule linear_comparison_mono [OF assms(6)],
        use canonicalFiles_paths [OF a] in \<open>auto simp: compared_texts_def\<close>)
  have set_eq: "set (lockedPackages j) = set (lockedPackages i)" using assms(4) by (metis set_mset_mset)
  have ps': "ps = lockedPackages i" "mapM locked_package (lockedPackages j) = Inr (lockedPackages j)"
    using ps set_eq by (simp_all add: mapM_locked_package)
  have "linear_comparison localeCompare (package_text ` set (lockedPackages i))"
    by (rule linear_comparison_mono [OF assms(6)]) (auto simp: compared_texts_def)
  then have "sort_by (\<lambda>l r. localeCompare (package_text l) (package_text r)) (lockedPackages i) =
      sort_by (\<lambda>l r. localeCompare (package_text l) (package_text r)) (lockedPackages j)"
    using assms(4,7) by (intro sort_by_permutation) simp_all
  then have "canonical_input localeCompare j = canonical_input localeCompare i"
    by (simp add: canonical_input_def s a s' a' ps ps' assms(5))
  then show ?thesis using assms(1) by (simp add: fingerprintBuildInputs_def)
qed

definition sample_compare :: "string \<Rightarrow> string \<Rightarrow> int" where
  "sample_compare a b = int (length a) - int (length b)"

definition sample_build :: "build_file list \<Rightarrow> fingerprint_input" where
  "sample_build fs = \<lparr>sourceClosure = fs, contractArtifacts = [], lockedPackages = [], build_target = ''bun''\<rparr>"

definition sample_files :: "build_file list" where
  "sample_files = [\<lparr>bf_path = ''a.ts'', bf_sha256 = sample_digest\<rparr>, \<lparr>bf_path = ''bb.ts'', bf_sha256 = sample_digest\<rparr>]"

theorem fingerprint_permutation_witness:
  "fingerprintBuildInputs (\<lambda>s. s) sample_compare (sample_build (rev sample_files)) =
   fingerprintBuildInputs (\<lambda>s. s) sample_compare (sample_build sample_files)"
proof -
  have "safe_path ''a.ts''" and "safe_path ''bb.ts''" by (simp_all add: safe_path_def)
  then have ok: "fingerprintBuildInputs (\<lambda>s. s) sample_compare (sample_build sample_files) =
      Inr (''sha256:'' @ stringify (the (Some (projr (canonical_input sample_compare (sample_build sample_files))))))"
    by (simp add: fingerprintBuildInputs_def canonical_input_def canonicalFiles_def sample_build_def
        sample_files_def safeRelativePath_id sample_digest_canonical set_add_def nonemptyString_def
        string_of_def sort_by_def sample_compare_def)
  have lin: "linear_comparison sample_compare (compared_texts (sample_build sample_files))"
    by (simp add: linear_comparison_def compared_texts_def sample_build_def sample_files_def
        sample_compare_def forward_slashes_def)
  show ?thesis
    using fingerprint_permutation [OF ok, of "sample_build (rev sample_files)"] lin ok
    by (simp add: sample_build_def)
qed

end
