(* ===== verification/Extraction_Build.thy ===== *)
theory Extraction_Build
  imports Extraction_Files Build_Properties
begin

text \<open>
  From the extraction to the build: the handler references of an extracted declaration name its
  functions without ambiguity, so what the build checks about references holds of functions.
\<close>

section \<open>References determine spans\<close>

lemma show_int_no_colon: "CHR '':'' \<notin> set (show_int n)"
  by (auto simp: show_int_def ascii_digit_def dest: digits_ascii)

lemma last_separator:
  assumes "c \<notin> set x" "c \<notin> set y" "a @ c # x = b @ c # y"
  shows "a = b \<and> x = y"
proof -
  have tail: "takeWhile (\<lambda>d. d \<noteq> c) (rev (u @ c # z)) = rev z" if "c \<notin> set z" for u z
    using that by (auto simp: takeWhile_append)
  have "rev x = rev y" using tail [OF assms(1), of a] tail [OF assms(2), of b] assms(3) by simp
  then show ?thesis using assms(3) by simp
qed

text \<open>A handler reference determines the span it was made from.\<close>

lemma handler_reference_inject: "handler_reference s = handler_reference t \<longleftrightarrow> s = t"
proof
  assume "handler_reference s = handler_reference t"
  then have eq: "(span_file s @ '':'' @ show_int (span_start s)) @ CHR '':'' # show_int (span_end s) =
      (span_file t @ '':'' @ show_int (span_start t)) @ CHR '':'' # show_int (span_end t)"
    by (simp add: handler_reference_def)
  have "span_file s @ CHR '':'' # show_int (span_start s) = span_file t @ CHR '':'' # show_int (span_start t)"
    and last: "span_end s = span_end t"
    using last_separator [OF show_int_no_colon show_int_no_colon eq] by (auto simp: show_int_inject)
  from last_separator [OF show_int_no_colon show_int_no_colon this(1)] last show "s = t"
    by (simp add: show_int_inject)
qed simp

section \<open>Handlers of extracted declarations\<close>

fun handler_spans :: "build_argument \<Rightarrow> source_span set" and
  handler_spans_value :: "build_value \<Rightarrow> source_span set" and
  handler_spans_child :: "build_child \<Rightarrow> source_span set"
where
  "handler_spans (HandlerArgument _ s) = {s}"
| "handler_spans (DeclarationArgument _ _ as _) = (\<Union>a \<in> set as. handler_spans a)"
| "handler_spans (ValueArgument v _) = handler_spans_value v"
| "handler_spans (ContractArgument _ _ _ _) = {}"
| "handler_spans_value (BArr cs) = (\<Union>c \<in> set cs. handler_spans_child c)"
| "handler_spans_value (BObj kvs) = (\<Union>kc \<in> set kvs. handler_spans_child (snd kc))"
| "handler_spans_value _ = {}"
| "handler_spans_child (Arg a) = handler_spans a"
| "handler_spans_child (Raw v) = handler_spans_value v"

lemma typed_handlers:
  "typed_argument a \<Longrightarrow> handlers_of a = handler_reference ` handler_spans a"
  "typed_value v \<Longrightarrow> handlers_of_value v = handler_reference ` handler_spans_value v"
  "typed_child c \<Longrightarrow> handlers_of_child c = handler_reference ` handler_spans_child c"
  by (induction a and v and c rule: handler_spans_handler_spans_value_handler_spans_child.induct)
    (auto simp: list_all_iff image_UN)

lemma extracted_handlers:
  assumes "extractPluginDefinition project entry = Inr d"
    "DeclarationArgument pkg exported args sp \<in> set (ex_providers d)"
  shows "(\<Union>a \<in> set args. handlers_of a) = handler_reference ` (\<Union>a \<in> set args. handler_spans a)"
proof -
  have "list_all typed_argument args"
    using extraction_typed [OF assms(1)] assms(2) by (fastforce simp: list_all_iff)
  then show ?thesis by (auto simp: list_all_iff typed_handlers)
qed

lemma lowered_references:
  assumes "runLowering lower input allowed = Inr out"
  shows "distinct (concat (map handler_references (out_providers out)))"
    "set (concat (map handler_references (out_providers out))) =
       (\<Union>a \<in> set (input_arguments input). handlers_of a)"
proof -
  have "validateLoweringOutput (lower input) input = Inr out"
    using assms by (auto simp: runLowering_def result_simps)
  then show "distinct (concat (map handler_references (out_providers out)))"
    "set (concat (map handler_references (out_providers out))) =
       (\<Union>a \<in> set (input_arguments input). handlers_of a)"
    by (rule validateLoweringOutput_parts, simp add: set_collectHandlerReferences)+
qed

end
