(* ===== verification/Plugin_Definition.thy ===== *)
theory Plugin_Definition
  imports Json
begin

text \<open>
  Authoring a Plugin: \<open>packages/lenso-bun-plugin/src/authoring.ts\<close> and the definition half of
  \<open>index.ts\<close> (\<open>definePlugin\<close>, \<open>validateDescriptor\<close>, the portable description and
  dispatch, and the command line of \<open>serve\<close>).

  A value whose shape the code checks dynamically is represented as far as it is checked: a
  contract carries its \<open>kind\<close> and whether \<open>bindProvider\<close> is a function, a dependency is
  a non-object, a legacy binding (no \<open>kind\<close>) or a declaration. User code that is only stored
  (\<open>create\<close>, \<open>stop\<close>, binders) is represented by its presence. Each thrown error is a
  constructor of \<open>define_error\<close>.
\<close>

section \<open>Data\<close>

record provider_descriptor =
  capability_id :: string
  descriptor_version :: string
  descriptor_digest :: "string option"
  operations :: "string list"
  stream_operations :: "string list"
  event_operations :: "string list"

text \<open>Outcomes of a Provider; a runtime failure is the list of the properties of its object.\<close>

datatype dispatch_outcome =
    Success json
  | Domain json
  | Runtime "(string \<times> json) list"

record provider_binding =
  binding_descriptor :: provider_descriptor
  invokeRequest :: "string \<Rightarrow> json \<Rightarrow> thrown + dispatch_outcome"

datatype plugin_provider =
    ProviderDeclaration provider_descriptor
  | ProviderBinding provider_binding

fun provider_descriptor_of :: "plugin_provider \<Rightarrow> provider_descriptor" where
  "provider_descriptor_of (ProviderDeclaration d) = d"
| "provider_descriptor_of (ProviderBinding b) = binding_descriptor b"

record capability_contract =
  contract_kind :: string
  contract_descriptor :: provider_descriptor
  has_bindProvider :: bool

datatype raw_dependency =
    NotAnObject
  | LegacyBinding provider_descriptor
  | DependencyDeclaration string "string option" provider_descriptor string

record config_declaration =
  config_kind :: string
  config_schema :: json
  config_parse_is_function :: bool

record plugin_options =
  provides :: "capability_contract list option"
  providers :: "plugin_provider list option"
  dependencies :: "(string \<times> raw_dependency) list option"
  config :: "config_declaration option"
  configurationSchema :: "json option"
  has_create :: bool
  has_stop :: bool
  maxConcurrentRequests :: "js_number option"

record plugin_definition =
  def_providers :: "plugin_provider list"
  def_dependencies :: "(string \<times> raw_dependency) list option"
  def_config :: "config_declaration option"
  def_configurationSchema :: "json option"
  def_create :: bool
  def_stop :: bool
  def_maxConcurrentRequests :: int

datatype define_error =
    NeitherOrBothProviders
  | NotGeneratedContract
  | IncompleteDescriptor
  | DuplicateOperations string
  | InvalidDigest string
  | UnknownClassifiedOperation string string
  | DuplicateCapability string
  | EmptyDependencyName
  | InvalidDependency string
  | NotDependencyDeclaration string
  | EmptyDependencyId
  | DuplicateDependencyId string
  | InvalidCardinality string string
  | NotConfigDeclaration
  | InvalidMaxConcurrentRequests
  | InvalidConfigurationSchema
  | InstanceBoundProviders

section \<open>Authoring helpers\<close>

definition is_schema :: "json \<Rightarrow> bool" where
  "is_schema v \<longleftrightarrow> (case v of JBool _ \<Rightarrow> True | JObj _ \<Rightarrow> True | _ \<Rightarrow> False)"

definition dependency :: "string \<Rightarrow> provider_descriptor \<Rightarrow> string option \<Rightarrow> define_error + raw_dependency" where
  "dependency ident contract cardinality =
     (if ident = [] then Inl EmptyDependencyId
      else Inr (DependencyDeclaration ''lenso.dependency'' (Some ident) contract
        (case cardinality of None \<Rightarrow> ''one'' | Some c \<Rightarrow> c)))"

definition configuration :: "json \<Rightarrow> define_error + config_declaration" where
  "configuration schema =
     (if \<not> is_schema schema then Inl InvalidConfigurationSchema
      else Inr \<lparr>config_kind = ''lenso.config'', config_schema = schema, config_parse_is_function = True\<rparr>)"

definition provider :: "provider_descriptor \<Rightarrow> plugin_provider" where
  "provider d = ProviderDeclaration d"

section \<open>definePlugin\<close>

definition validateDescriptor :: "provider_descriptor \<Rightarrow> define_error + unit" where
  "validateDescriptor d =
     (if capability_id d = [] \<or> descriptor_version d = [] \<or> operations d = [] then Inl IncompleteDescriptor
      else if \<not> distinct (operations d) then Inl (DuplicateOperations (capability_id d))
      else if (case descriptor_digest d of None \<Rightarrow> False | Some g \<Rightarrow> \<not> canonical_sha256 g)
      then Inl (InvalidDigest (capability_id d))
      else case find (\<lambda>oper. oper \<notin> set (operations d)) (stream_operations d @ event_operations d) of
             Some oper \<Rightarrow> Inl (UnknownClassifiedOperation (capability_id d) oper)
           | None \<Rightarrow> Inr ())"

definition bind_contract :: "capability_contract \<Rightarrow> define_error + plugin_provider" where
  "bind_contract c =
     (if contract_kind c \<noteq> ''lenso.capability'' \<or> \<not> has_bindProvider c then Inl NotGeneratedContract
      else Inr (ProviderDeclaration (contract_descriptor c)))"

fun check_providers :: "string list \<Rightarrow> plugin_provider list \<Rightarrow> define_error + unit" where
  "check_providers seen [] = Inr ()"
| "check_providers seen (p # ps) =
     (let d = provider_descriptor_of p in
      bind_result (validateDescriptor d) (\<lambda>_.
      if capability_id d \<in> set seen then Inl (DuplicateCapability (capability_id d))
      else check_providers (set_add (capability_id d) seen) ps))"

definition dependency_id :: "string \<Rightarrow> string option \<Rightarrow> string" where
  "dependency_id name ident = (case ident of None \<Rightarrow> name | Some i \<Rightarrow> i)"

fun check_dependencies :: "string list \<Rightarrow> (string \<times> raw_dependency) list \<Rightarrow> define_error + unit" where
  "check_dependencies ids [] = Inr ()"
| "check_dependencies ids ((name, raw) # rest) =
     (if name = [] then Inl EmptyDependencyName
      else case raw of
        NotAnObject \<Rightarrow> Inl (InvalidDependency name)
      | LegacyBinding d \<Rightarrow> bind_result (validateDescriptor d) (\<lambda>_. check_dependencies ids rest)
      | DependencyDeclaration kind ident d cardinality \<Rightarrow>
          if kind \<noteq> ''lenso.dependency'' then Inl (NotDependencyDeclaration name)
          else
            (let dependencyId = dependency_id name ident in
             if dependencyId = [] then Inl EmptyDependencyId
             else if dependencyId \<in> set ids then Inl (DuplicateDependencyId dependencyId)
             else
               bind_result (validateDescriptor d) (\<lambda>_.
               if cardinality \<notin> {''one'', ''optional'', ''many''}
               then Inl (InvalidCardinality dependencyId cardinality)
               else check_dependencies (set_add dependencyId ids) rest)))"

definition check_config :: "config_declaration option \<Rightarrow> define_error + unit" where
  "check_config c =
     (case c of
        None \<Rightarrow> Inr ()
      | Some d \<Rightarrow>
          if config_kind d \<noteq> ''lenso.config'' \<or> \<not> config_parse_is_function d \<or> \<not> is_schema (config_schema d)
          then Inl NotConfigDeclaration else Inr ())"

definition DEFAULT_MAX_CONCURRENT_REQUESTS :: int where
  "DEFAULT_MAX_CONCURRENT_REQUESTS = 32"

definition max_concurrent :: "js_number option \<Rightarrow> define_error + int" where
  "max_concurrent m =
     (case safe_int (case m of None \<Rightarrow> Fin (of_int DEFAULT_MAX_CONCURRENT_REQUESTS) | Some x \<Rightarrow> x) of
        Some n \<Rightarrow> if n \<le> 0 then Inl InvalidMaxConcurrentRequests else Inr n
      | None \<Rightarrow> Inl InvalidMaxConcurrentRequests)"

definition definePlugin :: "plugin_options \<Rightarrow> define_error + plugin_definition" where
  "definePlugin candidate =
     (if (provides candidate = None) = (providers candidate = None) then Inl NeitherOrBothProviders
      else
      bind_result
        (case provides candidate of
           None \<Rightarrow> Inr (the (providers candidate))
         | Some contracts \<Rightarrow> mapM bind_contract contracts) (\<lambda>ps.
      bind_result (check_providers [] ps) (\<lambda>_.
      bind_result (case dependencies candidate of None \<Rightarrow> Inr () | Some ds \<Rightarrow> check_dependencies [] ds) (\<lambda>_.
      bind_result (check_config (config candidate)) (\<lambda>_.
      bind_result (max_concurrent (maxConcurrentRequests candidate)) (\<lambda>m.
      if (case configurationSchema candidate of None \<Rightarrow> False | Some v \<Rightarrow> \<not> is_schema v)
      then Inl InvalidConfigurationSchema
      else Inr
        \<lparr>def_providers = ps, def_dependencies = dependencies candidate, def_config = config candidate,
         def_configurationSchema = configurationSchema candidate, def_create = has_create candidate,
         def_stop = has_stop candidate, def_maxConcurrentRequests = m\<rparr>))))))"

section \<open>Portable description and dispatch\<close>

definition concreteProviders :: "plugin_provider list \<Rightarrow> define_error + provider_binding list" where
  "concreteProviders ps =
     mapM (\<lambda>p. case p of ProviderBinding b \<Rightarrow> Inr b | ProviderDeclaration _ \<Rightarrow> Inl InstanceBoundProviders) ps"

text \<open>A dependency that is not an object has no descriptor to read: a \<open>TypeError\<close>.\<close>

definition dependencyDefinition :: "string \<Rightarrow> raw_dependency \<Rightarrow> define_error + string \<times> provider_descriptor \<times> string" where
  "dependencyDefinition name raw =
     (case raw of
        DependencyDeclaration _ ident d cardinality \<Rightarrow> Inr (dependency_id name ident, d, cardinality)
      | LegacyBinding d \<Rightarrow> Inr (name, d, ''one'')
      | NotAnObject \<Rightarrow> Inl (InvalidDependency name))"

record portable_capability =
  portable_capability_id :: string
  portable_descriptor_version :: string
  portable_request_operations :: "string list"

record portable_requirement =
  requirement_id :: string
  requirement_capability_id :: string
  requirement_descriptor_version :: string
  requirement_cardinality :: string

record portable_descriptor =
  abi :: string
  configuration_schema :: "json option"
  capabilities :: "portable_capability list"
  required_capabilities :: "portable_requirement list"

definition describe_requirement :: "string \<times> raw_dependency \<Rightarrow> define_error + portable_requirement" where
  "describe_requirement nr =
     (case dependencyDefinition (fst nr) (snd nr) of
        Inl e \<Rightarrow> Inl e
      | Inr (rid, d, cardinality) \<Rightarrow>
          Inr \<lparr>requirement_id = rid, requirement_capability_id = capability_id d,
                requirement_descriptor_version = descriptor_version d, requirement_cardinality = cardinality\<rparr>)"

definition def_dependency_list :: "plugin_definition \<Rightarrow> (string \<times> raw_dependency) list" where
  "def_dependency_list d = (case def_dependencies d of None \<Rightarrow> [] | Some ds \<Rightarrow> ds)"

definition describePortablePlugin :: "plugin_definition \<Rightarrow> define_error + portable_descriptor" where
  "describePortablePlugin runtime =
     bind_result (concreteProviders (def_providers runtime)) (\<lambda>bs.
     bind_result (mapM describe_requirement (def_dependency_list runtime)) (\<lambda>requirements.
       Inr \<lparr>abi = ''lenso.json-request@1'', configuration_schema = def_configurationSchema runtime,
            capabilities = map (\<lambda>b. \<lparr>portable_capability_id = capability_id (binding_descriptor b),
               portable_descriptor_version = descriptor_version (binding_descriptor b),
               portable_request_operations = operations (binding_descriptor b)\<rparr>) bs,
            required_capabilities = requirements\<rparr>))"

datatype portable_error =
    DefinitionError define_error
  | UnknownCapability string
  | RequestSyntaxError
  | ProviderThrew thrown
  | PluginRuntimeFailure "json option"

text \<open>\<open>parse\<close> is \<open>JSON.parse\<close>: \<open>None\<close> is a \<open>SyntaxError\<close>.\<close>

definition invokePortablePlugin ::
  "(string \<Rightarrow> json option) \<Rightarrow> plugin_definition \<Rightarrow> string \<Rightarrow> string \<Rightarrow> string \<Rightarrow> portable_error + string" where
  "invokePortablePlugin parse runtime capability oper requestJson =
     (case concreteProviders (def_providers runtime) of
        Inl e \<Rightarrow> Inl (DefinitionError e)
      | Inr bs \<Rightarrow>
          (case find (\<lambda>b. capability_id (binding_descriptor b) = capability) bs of
             None \<Rightarrow> Inl (UnknownCapability capability)
           | Some b \<Rightarrow>
               (case parse requestJson of
                  None \<Rightarrow> Inl RequestSyntaxError
                | Some payload \<Rightarrow>
                    (case invokeRequest b oper payload of
                       Inl t \<Rightarrow> Inl (ProviderThrew t)
                     | Inr (Success v) \<Rightarrow> Inr (stringify (JObj [(''ok'', v)]))
                     | Inr (Domain v) \<Rightarrow> Inr (stringify (JObj [(''error'', v)]))
                     | Inr (Runtime f) \<Rightarrow> Inl (PluginRuntimeFailure (map_of f ''kind''))))))"

section \<open>The command line of serve\<close>

fun index_of :: "string \<Rightarrow> string list \<Rightarrow> nat option" where
  "index_of x [] = None"
| "index_of x (y # ys) = (if x = y then Some 0 else map_option Suc (index_of x ys))"

definition argument :: "string list \<Rightarrow> string \<Rightarrow> string \<Rightarrow> string" where
  "argument args name fallback =
     (case index_of name args of
        None \<Rightarrow> fallback
      | Some i \<Rightarrow> if Suc i < length args then args ! Suc i else fallback)"

datatype serve_error =
    UnsupportedTransport string
  | NotNonNegativeInteger string
  | InvalidJsonArgument string
  | ServeDefinitionError define_error

text \<open>\<open>to_number\<close> is the conversion \<open>Number(text)\<close>.\<close>

definition numericArgument :: "(string \<Rightarrow> js_number) \<Rightarrow> string list \<Rightarrow> string \<Rightarrow> int \<Rightarrow> serve_error + int" where
  "numericArgument to_number args name fallback =
     (case safe_int (to_number (argument args name (show_int fallback))) of
        Some n \<Rightarrow> if n < 0 then Inl (NotNonNegativeInteger name) else Inr n
      | None \<Rightarrow> Inl (NotNonNegativeInteger name))"

definition jsonArgument :: "(string \<Rightarrow> json option) \<Rightarrow> string list \<Rightarrow> string \<Rightarrow> json \<Rightarrow> serve_error + json" where
  "jsonArgument parse args name fallback =
     (case parse (argument args name (stringify fallback)) of
        Some v \<Rightarrow> Inr v
      | None \<Rightarrow> Inl (InvalidJsonArgument name))"

definition DEFAULT_MAX_FRAME_BYTES :: int where
  "DEFAULT_MAX_FRAME_BYTES = 64 * 1024"

definition descriptor_json :: "provider_descriptor \<Rightarrow> json" where
  "descriptor_json d =
     JObj ([(''capability_id'', JStr (capability_id d)), (''descriptor_version'', JStr (descriptor_version d))] @
       (case descriptor_digest d of None \<Rightarrow> [] | Some g \<Rightarrow> [(''descriptor_digest'', JStr g)]) @
       [(''operations'', JArr (map JStr (operations d))),
        (''stream_operations'', JArr (map JStr (stream_operations d))),
        (''event_operations'', JArr (map JStr (event_operations d)))])"

record serve_options =
  serve_maxFrameBytes :: int
  serve_port :: int
  serve_expectedEndpoints :: json

definition serve_arguments ::
  "(string \<Rightarrow> js_number) \<Rightarrow> (string \<Rightarrow> json option) \<Rightarrow> plugin_definition \<Rightarrow> string list \<Rightarrow> serve_error + serve_options" where
  "serve_arguments to_number parse runtime args =
     (let transport = argument args ''--lenso-transport'' ''json-rpc-http'' in
      if transport \<noteq> ''json-rpc-http'' then Inl (UnsupportedTransport transport)
      else
      bind_result (numericArgument to_number args ''--lenso-max-frame-bytes'' DEFAULT_MAX_FRAME_BYTES) (\<lambda>maxFrameBytes.
      bind_result (numericArgument to_number args ''--lenso-port'' 0) (\<lambda>port.
      case concreteProviders (def_providers runtime) of
        Inl e \<Rightarrow> Inl (ServeDefinitionError e)
      | Inr bs \<Rightarrow>
          bind_result (jsonArgument parse args ''--lenso-endpoints-json''
            (JArr (map (\<lambda>b. descriptor_json (binding_descriptor b)) bs))) (\<lambda>endpoints.
          Inr \<lparr>serve_maxFrameBytes = maxFrameBytes, serve_port = port, serve_expectedEndpoints = endpoints\<rparr>))))"

section \<open>Laws and properties\<close>

definition valid_descriptor :: "provider_descriptor \<Rightarrow> bool" where
  "valid_descriptor d \<longleftrightarrow>
     capability_id d \<noteq> [] \<and> descriptor_version d \<noteq> [] \<and> operations d \<noteq> [] \<and> distinct (operations d) \<and>
     (\<forall>g. descriptor_digest d = Some g \<longrightarrow> canonical_sha256 g) \<and>
     set (stream_operations d) \<union> set (event_operations d) \<subseteq> set (operations d)"

lemma validateDescriptor_Inr: "validateDescriptor d = Inr u \<longleftrightarrow> valid_descriptor d"
  unfolding validateDescriptor_def valid_descriptor_def
  by (auto simp: result_simps find_None_iff split: option.splits)

lemma check_providers_Inr:
  "check_providers seen ps = Inr u \<longleftrightarrow>
   (\<forall>p \<in> set ps. valid_descriptor (provider_descriptor_of p)) \<and>
   distinct (map (\<lambda>p. capability_id (provider_descriptor_of p)) ps) \<and>
   (\<forall>p \<in> set ps. capability_id (provider_descriptor_of p) \<notin> set seen)"
proof (induction ps arbitrary: seen)
  case Nil
  then show ?case by simp
next
  case (Cons p ps)
  then show ?case
    by (auto simp: Let_def result_simps validateDescriptor_Inr) (metis image_eqI)
qed

text \<open>What a dependency must be, and the identity under which a declaration is admitted.\<close>

fun valid_dependency :: "string \<times> raw_dependency \<Rightarrow> bool" where
  "valid_dependency (name, NotAnObject) = False"
| "valid_dependency (name, LegacyBinding d) = (name \<noteq> [] \<and> valid_descriptor d)"
| "valid_dependency (name, DependencyDeclaration kind ident d cardinality) =
     (name \<noteq> [] \<and> kind = ''lenso.dependency'' \<and> dependency_id name ident \<noteq> [] \<and> valid_descriptor d \<and>
      cardinality \<in> {''one'', ''optional'', ''many''})"

fun declared_ids :: "(string \<times> raw_dependency) list \<Rightarrow> string list" where
  "declared_ids [] = []"
| "declared_ids ((name, DependencyDeclaration kind ident d cardinality) # rest) = dependency_id name ident # declared_ids rest"
| "declared_ids (_ # rest) = declared_ids rest"

lemma check_dependencies_Inr:
  "check_dependencies ids ds = Inr u \<longleftrightarrow>
   (\<forall>d \<in> set ds. valid_dependency d) \<and> distinct (declared_ids ds) \<and> set (declared_ids ds) \<inter> set ids = {}"
proof (induction ds arbitrary: ids)
  case Nil
  then show ?case by simp
next
  case (Cons d ds)
  obtain name raw where "d = (name, raw)" by fastforce
  then show ?case
    using Cons.IH by (cases raw) (auto simp: Let_def result_simps validateDescriptor_Inr)
qed

lemma check_config_Inr:
  "check_config c = Inr u \<longleftrightarrow>
   (\<forall>d. c = Some d \<longrightarrow> config_kind d = ''lenso.config'' \<and> config_parse_is_function d \<and> is_schema (config_schema d))"
  by (auto simp: check_config_def result_simps split: option.splits)

lemma max_concurrent_Inr:
  "max_concurrent m = Inr n \<longleftrightarrow>
   1 \<le> n \<and> n \<le> max_safe_integer \<and> m = (if m = None then None else Some (Fin (of_int n))) \<and> (m = None \<longrightarrow> n = 32)"
  by (cases m) (auto simp: max_concurrent_def DEFAULT_MAX_CONCURRENT_REQUESTS_def split: option.splits
      dest!: safe_int_eq_SomeD)

definition declared_providers :: "plugin_options \<Rightarrow> plugin_provider list" where
  "declared_providers opts =
     (case provides opts of
        Some cs \<Rightarrow> map (\<lambda>c. ProviderDeclaration (contract_descriptor c)) cs
      | None \<Rightarrow> the (providers opts))"

definition valid_options :: "plugin_options \<Rightarrow> bool" where
  "valid_options opts \<longleftrightarrow>
     (provides opts = None) \<noteq> (providers opts = None) \<and>
     (\<forall>cs. provides opts = Some cs \<longrightarrow>
        (\<forall>c \<in> set cs. contract_kind c = ''lenso.capability'' \<and> has_bindProvider c)) \<and>
     (\<forall>p \<in> set (declared_providers opts). valid_descriptor (provider_descriptor_of p)) \<and>
     distinct (map (\<lambda>p. capability_id (provider_descriptor_of p)) (declared_providers opts)) \<and>
     (\<forall>ds. dependencies opts = Some ds \<longrightarrow> (\<forall>d \<in> set ds. valid_dependency d) \<and> distinct (declared_ids ds)) \<and>
     (\<forall>c. config opts = Some c \<longrightarrow>
        config_kind c = ''lenso.config'' \<and> config_parse_is_function c \<and> is_schema (config_schema c)) \<and>
     (\<forall>x. maxConcurrentRequests opts = Some x \<longrightarrow> (\<exists>n. x = Fin (of_int n) \<and> 1 \<le> n \<and> n \<le> max_safe_integer)) \<and>
     (\<forall>v. configurationSchema opts = Some v \<longrightarrow> is_schema v)"

lemma bind_contracts_Inr:
  "mapM bind_contract cs = Inr ps \<longleftrightarrow>
   (\<forall>c \<in> set cs. contract_kind c = ''lenso.capability'' \<and> has_bindProvider c) \<and>
   ps = map (\<lambda>c. ProviderDeclaration (contract_descriptor c)) cs"
  by (induction cs arbitrary: ps) (auto simp: bind_contract_def result_simps)

text \<open>C25. \<open>definePlugin\<close> accepts exactly the well-formed options: one of the two provider
  lists, generated contracts only, complete descriptors with distinct operations, canonical digests
  and classified operations that exist, distinct capabilities, valid dependencies with distinct
  identities, a proper configuration declaration and schema, and a positive safe concurrency
  limit. The definition it returns carries the declared providers and dependencies, and a limit
  that is 32 unless given.\<close>

theorem definePlugin_correct:
  "((\<exists>d. definePlugin opts = Inr d) \<longleftrightarrow> valid_options opts) \<and>
   (\<forall>d. definePlugin opts = Inr d \<longrightarrow>
      def_providers d = declared_providers opts \<and> def_dependencies d = dependencies opts \<and>
      1 \<le> def_maxConcurrentRequests d \<and> def_maxConcurrentRequests d \<le> max_safe_integer \<and>
      (maxConcurrentRequests opts = None \<longrightarrow> def_maxConcurrentRequests d = 32))"
proof -
  have "(\<exists>d. definePlugin opts = Inr d) \<longleftrightarrow> valid_options opts"
    unfolding definePlugin_def valid_options_def declared_providers_def
    by (cases "provides opts"; cases "providers opts"; cases "dependencies opts"; cases "maxConcurrentRequests opts")
      (auto simp: result_simps check_providers_Inr check_dependencies_Inr check_config_Inr max_concurrent_Inr
        bind_contracts_Inr split: option.splits)
  moreover have "def_providers d = declared_providers opts \<and> def_dependencies d = dependencies opts \<and>
      1 \<le> def_maxConcurrentRequests d \<and> def_maxConcurrentRequests d \<le> max_safe_integer \<and>
      (maxConcurrentRequests opts = None \<longrightarrow> def_maxConcurrentRequests d = 32)"
    if "definePlugin opts = Inr d" for d
    using that unfolding definePlugin_def declared_providers_def
    by (auto simp: result_simps max_concurrent_Inr bind_contracts_Inr split: option.splits if_splits)
  ultimately show ?thesis by blast
qed

definition sample_descriptor :: provider_descriptor where
  "sample_descriptor = \<lparr>capability_id = ''cap'', descriptor_version = ''1'', descriptor_digest = None,
     operations = [''get''], stream_operations = [], event_operations = []\<rparr>"

definition sample_binding :: provider_binding where
  "sample_binding = \<lparr>binding_descriptor = sample_descriptor, invokeRequest = (\<lambda>oper payload. Inr (Success payload))\<rparr>"

definition sample_options :: plugin_options where
  "sample_options = \<lparr>provides = None, providers = Some [ProviderBinding sample_binding],
     dependencies = Some [(''db'', LegacyBinding sample_descriptor)], config = None, configurationSchema = None,
     has_create = False, has_stop = False, maxConcurrentRequests = None\<rparr>"

lemmas sample_simps = sample_options_def sample_binding_def sample_descriptor_def valid_options_def
  declared_providers_def valid_descriptor_def

theorem definePlugin_correct_witness:
  "\<exists>d. definePlugin sample_options = Inr d \<and> def_maxConcurrentRequests d = 32 \<and>
     def_providers d = [ProviderBinding sample_binding]"
proof -
  have "valid_options sample_options" by (simp add: sample_simps)
  then obtain d where d: "definePlugin sample_options = Inr d"
    using definePlugin_correct [of sample_options] by blast
  moreover have "def_maxConcurrentRequests d = 32 \<and> def_providers d = declared_providers sample_options"
    using definePlugin_correct [of sample_options] d by (simp add: sample_options_def)
  ultimately show ?thesis by (simp add: sample_options_def declared_providers_def)
qed

lemma concreteProviders_Inr:
  "concreteProviders ps = Inr bs \<longleftrightarrow> ps = map ProviderBinding bs"
  by (induction ps arbitrary: bs) (auto simp: concreteProviders_def result_simps split: plugin_provider.splits)

lemma valid_dependency_described:
  "valid_dependency nr \<Longrightarrow> \<exists>r. describe_requirement nr = Inr r \<and>
     requirement_id r = (case snd nr of DependencyDeclaration _ ident _ _ \<Rightarrow> dependency_id (fst nr) ident | _ \<Rightarrow> fst nr)"
  by (cases nr rule: valid_dependency.cases) (auto simp: describe_requirement_def dependencyDefinition_def)

lemma describe_requirements_total:
  "\<forall>d \<in> set ds. valid_dependency d \<Longrightarrow> \<exists>rs. mapM describe_requirement ds = Inr rs"
  by (induction ds) (auto dest!: valid_dependency_described)

lemma definePlugin_InrD:
  assumes "definePlugin opts = Inr d"
  shows "distinct (map (\<lambda>p. capability_id (provider_descriptor_of p)) (def_providers d))"
    and "\<forall>x \<in> set (def_dependency_list d). valid_dependency x"
  using assms unfolding definePlugin_def def_dependency_list_def
  by (auto simp: result_simps check_providers_Inr check_dependencies_Inr split: option.splits if_splits)

text \<open>The portable description of an accepted definition exists exactly when no provider is
  instance-bound. It then lists the capabilities of the providers in order, without repetition,
  with their operations, and one requirement per dependency.\<close>

theorem describePortablePlugin_correct:
  assumes "definePlugin opts = Inr d"
  shows "((\<exists>p. describePortablePlugin d = Inr p) \<longleftrightarrow> (\<exists>bs. def_providers d = map ProviderBinding bs)) \<and>
    (\<forall>p. describePortablePlugin d = Inr p \<longrightarrow>
       map portable_capability_id (capabilities p) =
         map (\<lambda>q. capability_id (provider_descriptor_of q)) (def_providers d) \<and>
       distinct (map portable_capability_id (capabilities p)) \<and>
       map portable_request_operations (capabilities p) =
         map (\<lambda>q. operations (provider_descriptor_of q)) (def_providers d) \<and>
       length (required_capabilities p) = length (def_dependency_list d))"
proof -
  obtain rs where rs: "mapM describe_requirement (def_dependency_list d) = Inr rs"
    using describe_requirements_total definePlugin_InrD(2) [OF assms] by blast
  have "(\<exists>p. describePortablePlugin d = Inr p) \<longleftrightarrow> (\<exists>bs. def_providers d = map ProviderBinding bs)"
    using rs by (simp add: describePortablePlugin_def result_simps concreteProviders_Inr)
  moreover have "map portable_capability_id (capabilities p) =
         map (\<lambda>q. capability_id (provider_descriptor_of q)) (def_providers d) \<and>
       map portable_request_operations (capabilities p) =
         map (\<lambda>q. operations (provider_descriptor_of q)) (def_providers d) \<and>
       length (required_capabilities p) = length (def_dependency_list d)"
    if "describePortablePlugin d = Inr p" for p
    using that mapM_length [OF rs] rs
    by (auto simp: describePortablePlugin_def result_simps concreteProviders_Inr)
  ultimately show ?thesis using definePlugin_InrD(1) [OF assms] by metis
qed

lemma definePlugin_sample:
  "definePlugin sample_options =
     Inr \<lparr>def_providers = [ProviderBinding sample_binding],
       def_dependencies = Some [(''db'', LegacyBinding sample_descriptor)], def_config = None,
       def_configurationSchema = None, def_create = False, def_stop = False, def_maxConcurrentRequests = 32\<rparr>"
  by (simp add: definePlugin_def sample_simps validateDescriptor_def check_config_def max_concurrent_def
      DEFAULT_MAX_CONCURRENT_REQUESTS_def floor_numeral)

theorem describePortablePlugin_correct_witness:
  "\<exists>p. (\<exists>d. definePlugin sample_options = Inr d \<and> describePortablePlugin d = Inr p) \<and>
     map portable_capability_id (capabilities p) = [''cap''] \<and> length (required_capabilities p) = 1"
proof -
  obtain d where d: "definePlugin sample_options = Inr d" and ps: "def_providers d = map ProviderBinding [sample_binding]"
    and ds: "def_dependency_list d = [(''db'', LegacyBinding sample_descriptor)]"
    using definePlugin_sample by (simp add: def_dependency_list_def)
  obtain p where "describePortablePlugin d = Inr p"
    using describePortablePlugin_correct [OF d] ps by blast
  then show ?thesis
    using describePortablePlugin_correct [OF d] d ps ds
    by (intro exI [of _ p]) (auto simp: sample_binding_def sample_descriptor_def)
qed

definition colliding_options :: plugin_options where
  "colliding_options = sample_options \<lparr>dependencies := Some [(''db'', LegacyBinding sample_descriptor),
     (''other'', DependencyDeclaration ''lenso.dependency'' (Some ''db'') sample_descriptor ''one'')]\<rparr>"

text \<open>A legacy dependency does not reserve its name among the dependency identities: the
  colliding options are accepted although both requirements of the description have the same
  identity.\<close>

theorem requirement_ids_can_collide:
  "\<exists>d p. definePlugin colliding_options = Inr d \<and> describePortablePlugin d = Inr p \<and>
     map requirement_id (required_capabilities p) = [''db'', ''db'']"
  by (simp add: definePlugin_def colliding_options_def sample_simps validateDescriptor_def check_config_def
      max_concurrent_def DEFAULT_MAX_CONCURRENT_REQUESTS_def floor_numeral describePortablePlugin_def
      concreteProviders_def def_dependency_list_def describe_requirement_def dependencyDefinition_def
      dependency_id_def set_add_def)

end
