(* ===== verification/Bounded_Body.thy ===== *)
theory Bounded_Body
  imports Json
begin

text \<open>
  Reading an HTTP body under a byte limit: \<open>readBoundedBody\<close> of \<open>index.ts\<close> (a streaming
  \<open>TextDecoder\<close>, with the declared length checked first) and \<open>readBounded\<close> of
  \<open>process-v1.ts\<close> (the chunks joined, then decoded in fatal mode).

  A body is the list of the results of \<open>reader.read()\<close> up to \<open>done\<close>: a chunk of bytes or
  a rejection. The theorems show that the chunking chosen by the peer cannot be observed, that a
  text is returned exactly for the bodies within the limit, and that no text is longer than the
  decoder can make it.
\<close>

section \<open>The streaming decoder\<close>

record text_decoder =
  td_decoder :: decoder
  td_bom_seen :: bool

definition new_text_decoder :: text_decoder where
  "new_text_decoder = \<lparr>td_decoder = decoder_start, td_bom_seen = False\<rparr>"

definition byte_order_mark :: string where
  "byte_order_mark = [CHR 0xEF, CHR 0xBB, CHR 0xBF]"

text \<open>The first character is dropped when it is a byte order mark.\<close>

fun serialize :: "bool \<Rightarrow> emission list \<Rightarrow> string \<times> bool" where
  "serialize seen [] = ([], seen)"
| "serialize seen (e # es) =
     (if \<not> seen \<and> e = Text byte_order_mark then (texts es, True) else (texts (e # es), True))"

definition decode_stream :: "text_decoder \<Rightarrow> string \<Rightarrow> string \<times> text_decoder" where
  "decode_stream td chunk =
     (case dec_bytes (td_decoder td) chunk of (es, d) \<Rightarrow>
      case serialize (td_bom_seen td) es of (out, seen) \<Rightarrow>
        (out, \<lparr>td_decoder = d, td_bom_seen = seen\<rparr>))"

definition decode_end :: "text_decoder \<Rightarrow> string" where
  "decode_end td = fst (serialize (td_bom_seen td) (dec_flush (td_decoder td)))"

section \<open>Reading\<close>

datatype body_read = Chunk string | ReadRejected

datatype body_error = BodyTooLargeError | BodyReadError | InvalidEncoding

fun read_streaming :: "int \<Rightarrow> int \<Rightarrow> text_decoder \<Rightarrow> body_read list \<Rightarrow> body_error + string" where
  "read_streaming maxFrameBytes count td [] = Inr (decode_end td)"
| "read_streaming maxFrameBytes count td (ReadRejected # rs) = Inl BodyReadError"
| "read_streaming maxFrameBytes count td (Chunk bs # rs) =
     (let count' = count + int (length bs) in
      if count' > maxFrameBytes then Inl BodyTooLargeError
      else case decode_stream td bs of (out, td') \<Rightarrow>
        bind_result (read_streaming maxFrameBytes count' td' rs) (\<lambda>rest. Inr (out @ rest)))"

text \<open>\<open>to_number\<close> is the conversion \<open>Number(text)\<close>; a missing header is \<open>Number(null)\<close>, 0.\<close>

definition declared_too_large :: "(string \<Rightarrow> js_number) \<Rightarrow> string option \<Rightarrow> int \<Rightarrow> bool" where
  "declared_too_large to_number contentLength maxFrameBytes \<longleftrightarrow>
     (case (case contentLength of None \<Rightarrow> Fin 0 | Some t \<Rightarrow> to_number t) of
        Fin q \<Rightarrow> q > of_int maxFrameBytes
      | _ \<Rightarrow> False)"

definition readBoundedBody ::
  "(string \<Rightarrow> js_number) \<Rightarrow> string option \<Rightarrow> body_read list option \<Rightarrow> int \<Rightarrow> body_error + string" where
  "readBoundedBody to_number contentLength body maxFrameBytes =
     (if declared_too_large to_number contentLength maxFrameBytes then Inl BodyTooLargeError
      else case body of
        None \<Rightarrow> Inr []
      | Some rs \<Rightarrow> read_streaming maxFrameBytes 0 new_text_decoder rs)"

fun read_chunks :: "int \<Rightarrow> int \<Rightarrow> body_read list \<Rightarrow> body_error + string list" where
  "read_chunks maximumBytes len [] = Inr []"
| "read_chunks maximumBytes len (ReadRejected # rs) = Inl BodyReadError"
| "read_chunks maximumBytes len (Chunk bs # rs) =
     (let len' = len + int (length bs) in
      if len' > maximumBytes then Inl BodyTooLargeError
      else bind_result (read_chunks maximumBytes len' rs) (\<lambda>cs. Inr (bs # cs)))"

definition readBounded :: "body_read list option \<Rightarrow> int \<Rightarrow> body_error + string" where
  "readBounded body maximumBytes =
     (case body of
        None \<Rightarrow> Inr []
      | Some rs \<Rightarrow>
          bind_result (read_chunks maximumBytes 0 rs) (\<lambda>chunks.
            case text_decode_fatal (concat chunks) of None \<Rightarrow> Inl InvalidEncoding | Some t \<Rightarrow> Inr t))"

section \<open>Laws\<close>

fun chunk_bytes :: "body_read list \<Rightarrow> string option" where
  "chunk_bytes [] = Some []"
| "chunk_bytes (ReadRejected # rs) = None"
| "chunk_bytes (Chunk bs # rs) = map_option ((@) bs) (chunk_bytes rs)"

text \<open>A character whose first byte is that of the byte order mark has three bytes.\<close>

definition lead_ok :: "decoder \<Rightarrow> bool" where
  "lead_ok d \<longleftrightarrow> (dec_needed d = 0 \<longleftrightarrow> dec_pending d = []) \<and>
     (dec_pending d \<noteq> [] \<longrightarrow> hd (dec_pending d) = CHR 0xEF \<longrightarrow> length (dec_pending d) + dec_needed d = 3)"

definition lead_text_ok :: "emission \<Rightarrow> bool" where
  "lead_text_ok e \<longleftrightarrow> emission_text e \<noteq> [] \<and>
     (hd (emission_text e) = CHR 0xEF \<longrightarrow> length (emission_text e) = 3)"

lemma of_char_EF: "of_char c = (239 :: nat) \<longleftrightarrow> c = CHR 0xEF"
  using inj_eq [OF inj_of_char [where ?'a = nat], of c "CHR 0xEF"] by simp

lemma lead_text_ok_Malformed [simp]: "lead_text_ok Malformed"
  by (simp add: lead_text_ok_def replacement_character_def)

lemma lead_ok_start [simp]: "lead_ok decoder_start"
  by (simp add: lead_ok_def)

lemma dec_lead_lead_ok: "dec_lead c = (es, d) \<Longrightarrow> lead_ok d \<and> (\<forall>e \<in> set es. lead_text_ok e)"
  by (auto simp: dec_lead_def Let_def lead_ok_def lead_text_ok_def replacement_character_def split: if_splits)

lemma dec_byte_lead_ok:
  assumes "lead_ok d" and "dec_byte d c = (es, d')"
  shows "lead_ok d' \<and> (\<forall>e \<in> set es. lead_text_ok e)"
proof (cases "dec_needed d = 0")
  case True
  then show ?thesis using assms dec_lead_lead_ok by (auto simp: dec_byte_def)
next
  case False
  note dl = dec_lead_lead_ok [of c]
  show ?thesis
  proof (cases "of_char c < dec_lower d \<or> dec_upper d < of_char c")
    case True
    then show ?thesis
      using assms False dl by (auto simp: dec_byte_def Let_def split: prod.splits)
  next
    case ok: False
    then show ?thesis
    proof (cases "dec_pending d")
      case Nil
      then show ?thesis
        using assms False ok
        by (auto simp: dec_byte_def Let_def lead_ok_def lead_text_ok_def split: if_splits)
    next
      case (Cons p ps)
      then show ?thesis using assms False ok
        by (auto simp: dec_byte_def Let_def lead_ok_def lead_text_ok_def split: if_splits)
    qed
  qed
qed

lemma dec_bytes_lead_ok:
  "lead_ok d \<Longrightarrow> dec_bytes d s = (es, d') \<Longrightarrow> lead_ok d' \<and> (\<forall>e \<in> set es. lead_text_ok e)"
proof (induction s arbitrary: d es)
  case Nil
  then show ?case by simp
next
  case (Cons c cs)
  then show ?case using dec_byte_lead_ok [of d c] by (fastforce split: prod.splits)
qed

lemma emissions_lead_ok: "e \<in> set (emissions s) \<Longrightarrow> lead_text_ok e"
proof -
  assume e: "e \<in> set (emissions s)"
  obtain es d where d: "dec_bytes decoder_start s = (es, d)" by fastforce
  with e have "e \<in> set es \<or> e = Malformed" by (auto simp: emissions_def dec_flush_def split: if_splits)
  then show ?thesis using dec_bytes_lead_ok [OF lead_ok_start d] by auto
qed

lemma serialize_append:
  "fst (serialize seen (es @ fs)) =
   fst (serialize seen es) @ fst (serialize (snd (serialize seen es)) fs)"
proof (cases es)
  case Nil
  then show ?thesis by simp
next
  case (Cons e es')
  moreover have "fst (serialize True fs) = texts fs" by (cases fs) auto
  ultimately show ?thesis by simp
qed

lemma length_3: "length s = 3 \<longleftrightarrow> (\<exists>a b c. s = [a, b, c])"
  by (auto simp: numeral_3_eq_3 length_Suc_conv)

lemma serialize_strip_bom:
  assumes "\<forall>e \<in> set es. lead_text_ok e"
  shows "fst (serialize False es) = strip_bom (texts es)"
proof (cases es)
  case Nil
  then show ?thesis by (simp add: strip_bom_def)
next
  case (Cons e es')
  have e: "lead_text_ok e" using assms Cons by simp
  show ?thesis
  proof (cases "hd (emission_text e) = CHR 0xEF")
    case True
    then obtain a b c where abc: "emission_text e = [a, b, c]"
      using e by (auto simp: lead_text_ok_def length_3)
    show ?thesis
      using abc Cons
      by (cases e) (auto simp: strip_bom_def byte_order_mark_def replacement_character_def numeral_3_eq_3)
  next
    case False
    then obtain a r where ar: "emission_text e = a # r" "a \<noteq> CHR 0xEF"
      using e by (cases "emission_text e") (auto simp: lead_text_ok_def)
    then show ?thesis
      using Cons by (cases e) (auto simp: strip_bom_def byte_order_mark_def replacement_character_def numeral_3_eq_3)
  qed
qed

lemma text_decode_serialize: "text_decode s = fst (serialize False (emissions s))"
  by (simp add: serialize_strip_bom emissions_lead_ok text_decode_def utf8_chars_def texts_def)

text \<open>What the decoder still has to produce from a state, given the remaining bytes.\<close>

definition remaining_text :: "text_decoder \<Rightarrow> string \<Rightarrow> string" where
  "remaining_text td s =
     (case dec_bytes (td_decoder td) s of (es, d) \<Rightarrow> fst (serialize (td_bom_seen td) (es @ dec_flush d)))"

lemma remaining_text_Nil: "remaining_text td [] = decode_end td"
  by (simp add: remaining_text_def decode_end_def)

lemma remaining_text_append:
  assumes "decode_stream td bs = (out, td')"
  shows "remaining_text td (bs @ s) = out @ remaining_text td' s"
proof -
  obtain es d where d: "dec_bytes (td_decoder td) bs = (es, d)" by fastforce
  obtain fs d' where d': "dec_bytes d s = (fs, d')" by fastforce
  have out: "out = fst (serialize (td_bom_seen td) es)"
    and td': "td' = \<lparr>td_decoder = d, td_bom_seen = snd (serialize (td_bom_seen td) es)\<rparr>"
    using assms d by (auto simp: decode_stream_def split: prod.splits)
  show ?thesis
    using serialize_append [of "td_bom_seen td" es "fs @ dec_flush d'"]
    by (simp add: remaining_text_def dec_bytes_append d d' out td')
qed

lemma remaining_text_new: "remaining_text new_text_decoder s = text_decode s"
  by (simp add: remaining_text_def new_text_decoder_def text_decode_serialize emissions_def
      split: prod.splits)

lemma read_streaming_Inr:
  "read_streaming m n td rs = Inr t \<longleftrightarrow>
   (\<exists>s. chunk_bytes rs = Some s \<and> (rs \<noteq> [] \<longrightarrow> n + int (length s) \<le> m) \<and> t = remaining_text td s)"
proof (induction m n td rs arbitrary: t rule: read_streaming.induct)
  case (1 m n td)
  then show ?case by (auto simp: remaining_text_Nil)
next
  case (2 m n td rs)
  then show ?case by simp
next
  case (3 m n td bs rs)
  obtain out td' where d: "decode_stream td bs = (out, td')" by fastforce
  show ?case
  proof (cases "n + int (length bs) > m")
    case True
    then show ?thesis by (auto simp: Let_def)
  next
    case False
    then show ?thesis
      using 3 [OF refl False] d remaining_text_append [OF d, of "[]"]
      by (cases rs) (auto simp: Let_def result_simps remaining_text_append remaining_text_Nil add.assoc)
  qed
qed

lemma read_chunks_Inr:
  "read_chunks m n rs = Inr cs \<longleftrightarrow>
   rs = map Chunk cs \<and> (rs \<noteq> [] \<longrightarrow> n + int (length (concat cs)) \<le> m)"
proof (induction m n rs arbitrary: cs rule: read_chunks.induct)
  case (3 m n bs rs)
  show ?case
  proof (cases "n + int (length bs) > m")
    case True
    then show ?thesis by (cases cs) (auto simp: Let_def)
  next
    case False
    note IH = 3 [OF refl False]
    show ?thesis
    proof (cases cs)
      case Nil
      then show ?thesis using False by (auto simp: Let_def result_simps)
    next
      case (Cons c cs')
      have "read_chunks m n (Chunk bs # rs) = Inr cs \<longleftrightarrow>
          c = bs \<and> read_chunks m (n + int (length bs)) rs = Inr cs'"
        using False Cons by (auto simp: Let_def result_simps)
      also have "\<dots> \<longleftrightarrow> c = bs \<and> rs = map Chunk cs' \<and> n + int (length bs) + int (length (concat cs')) \<le> m"
        using IH False by (cases cs') auto
      finally show ?thesis using Cons by auto
    qed
  qed
qed auto

lemma chunk_bytes_map_Chunk [simp]: "chunk_bytes (map Chunk cs) = Some (concat cs)"
  by (induction cs) auto

lemma chunk_bytes_SomeD: "chunk_bytes rs = Some s \<Longrightarrow> \<exists>cs. rs = map Chunk cs \<and> s = concat cs"
proof (induction rs arbitrary: s rule: chunk_bytes.induct)
  case (3 bs rs)
  then obtain s' where "chunk_bytes rs = Some s'" and s: "s = bs @ s'" by auto
  then obtain cs where "rs = map Chunk cs" "s' = concat cs" using 3 by blast
  then have "Chunk bs # rs = map Chunk (bs # cs)" "s = concat (bs # cs)" using s by auto
  then show ?case by metis
qed auto

definition body_bytes :: "body_read list option \<Rightarrow> string option" where
  "body_bytes body = (case body of None \<Rightarrow> Some [] | Some rs \<Rightarrow> chunk_bytes rs)"

lemma text_decode_Nil [simp]: "text_decode [] = []"
  by (simp add: text_decode_def utf8_chars_def emissions_def dec_flush_def strip_bom_def)

lemma text_decode_fatal_Nil [simp]: "text_decode_fatal [] = Some []"
  by (simp add: text_decode_fatal_def utf8_valid_def emissions_def dec_flush_def)

lemma readBoundedBody_Inr_iff:
  assumes "0 \<le> maxFrameBytes"
  shows "readBoundedBody to_number contentLength body maxFrameBytes = Inr t \<longleftrightarrow>
    \<not> declared_too_large to_number contentLength maxFrameBytes \<and>
    (\<exists>s. body_bytes body = Some s \<and> int (length s) \<le> maxFrameBytes \<and> t = text_decode s)"
  using assms
  by (cases body) (auto simp: readBoundedBody_def body_bytes_def read_streaming_Inr remaining_text_new)

section \<open>Properties\<close>

text \<open>Streaming body reader. \<open>readBoundedBody\<close> returns a text exactly when the declared
  length is not above the limit, no read was rejected and the bytes received are within the limit;
  the text is then the decoding of all bytes, however the peer cut them into chunks. Every other
  body is an error, so at most the limit is ever decoded.\<close>

theorem readBoundedBody_correct:
  assumes "0 \<le> maxFrameBytes"
  shows "readBoundedBody to_number contentLength body maxFrameBytes = Inr t \<longleftrightarrow>
    \<not> declared_too_large to_number contentLength maxFrameBytes \<and>
    (\<exists>s. body_bytes body = Some s \<and> int (length s) \<le> maxFrameBytes \<and> t = text_decode s)"
  using assms by (rule readBoundedBody_Inr_iff)

theorem readBoundedBody_correct_witness:
  "readBoundedBody (\<lambda>_. Fin 4) (Some ''4'')
     (Some [Chunk [CHR 0xEF, CHR 0xBB], Chunk [CHR 0xBF, CHR ''a'']]) 4 = Inr ''a''"
  using readBoundedBody_correct [of 4 "\<lambda>_. Fin 4" "Some ''4''"
      "Some [Chunk [CHR 0xEF, CHR 0xBB], Chunk [CHR 0xBF, CHR ''a'']]" "''a''"]
  by (simp add: declared_too_large_def body_bytes_def text_decode_def utf8_chars_def emissions_def
      dec_byte_def dec_lead_def decoder_start_def dec_flush_def strip_bom_def)

text \<open>Joining body reader. \<open>readBounded\<close> returns a text exactly when no read was
  rejected, the bytes are within the limit and they are well-formed UTF-8; on such a body the
  streaming reader returns the same text.\<close>

theorem readBounded_correct:
  assumes "0 \<le> maximumBytes"
  shows "(readBounded body maximumBytes = Inr t \<longleftrightarrow>
      (\<exists>s. body_bytes body = Some s \<and> int (length s) \<le> maximumBytes \<and> utf8_valid s \<and> t = text_decode s)) \<and>
    (readBounded body maximumBytes = Inr t \<longrightarrow>
      readBoundedBody to_number None body maximumBytes = Inr t)"
proof -
  have eq: "readBounded body maximumBytes = Inr t \<longleftrightarrow>
      (\<exists>s. body_bytes body = Some s \<and> int (length s) \<le> maximumBytes \<and> utf8_valid s \<and> t = text_decode s)"
  proof (cases body)
    case None
    then show ?thesis
      using assms text_decode_fatal_Nil by (auto simp: readBounded_def body_bytes_def text_decode_fatal_def split: if_splits)
  next
    case (Some rs)
    have "bind_result (read_chunks maximumBytes 0 rs) (\<lambda>chunks.
            case text_decode_fatal (concat chunks) of None \<Rightarrow> Inl InvalidEncoding | Some t \<Rightarrow> Inr t) = Inr t \<longleftrightarrow>
        (\<exists>s. chunk_bytes rs = Some s \<and> int (length s) \<le> maximumBytes \<and> text_decode_fatal s = Some t)"
      using assms chunk_bytes_SomeD [of rs]
      by (fastforce simp: result_simps read_chunks_Inr split: option.splits)
    then show ?thesis using Some by (auto simp: readBounded_def body_bytes_def text_decode_fatal_def split: if_splits)
  qed
  have "\<not> declared_too_large to_number None maximumBytes"
    using assms by (simp add: declared_too_large_def)
  moreover have "readBoundedBody to_number None body maximumBytes = Inr (text_decode s)"
    if "body_bytes body = Some s" "int (length s) \<le> maximumBytes" for s
    using that assms calculation
    by (cases body) (auto simp: readBoundedBody_def body_bytes_def read_streaming_Inr remaining_text_new)
  ultimately show ?thesis using eq by blast
qed

theorem readBounded_correct_witness:
  "readBounded (Some [Chunk ''a'', Chunk ''b'']) 2 = Inr ''ab'' \<and>
   readBoundedBody (\<lambda>_. NaN) None (Some [Chunk ''a'', Chunk ''b'']) 2 = Inr ''ab''"
  using readBounded_correct [of 2 "Some [Chunk ''a'', Chunk ''b'']" "''ab''" "\<lambda>_. NaN"]
  by (simp add: body_bytes_def text_decode_def utf8_chars_def emissions_def utf8_valid_def
      dec_byte_def dec_lead_def decoder_start_def dec_flush_def strip_bom_def)

end
