(* ===== verification/Plugin_Server.thy ===== *)
theory Plugin_Server
  imports Plugin_Definition Bounded_Body
begin

text \<open>
  The JSON-RPC server of \<open>startPlugin\<close> (\<open>packages/lenso-bun-plugin/src/index.ts\<close>).

  The server is a state and one step function over atomic events. An event is what runs between
  two \<open>await\<close>s: a request whose body has been read (\<open>Fetch\<close>), the settlement of a call into
  user code (\<open>InvokeSettled\<close>, \<open>CreateSettled\<close>, \<open>StopSettled\<close>), a deadline timer,
  the deferred listener stop, and the handle's \<open>stop\<close>. A list of events is one schedule. The
  local variables that a handler keeps across an \<open>await\<close> are a \<open>continuation\<close> stored under
  a fresh token. User code that throws before it returns a promise is the schedule in which its
  settlement is the next event.

  Values on the wire are \<open>json\<close>; the types TypeScript only claims are read with \<open>field\<close>,
  and a read that JavaScript rejects is a \<open>TypeError\<close>: caught where the source has a
  \<open>try\<close>, otherwise an uncaught error of the handler. \<open>parse\<close> stands for
  \<open>JSON.parse\<close> (\<open>None\<close> is a \<open>SyntaxError\<close>) and \<open>to_number\<close> for
  \<open>Number(text)\<close>. The endpoints expected at launch are given in their declared type.
\<close>

section \<open>Values and responses\<close>

datatype http_response = Response nat string | Uncaught thrown

definition js_type_error :: thrown where
  "js_type_error = ErrorObject ''TypeError''"

definition json_object_response :: "json \<Rightarrow> http_response" where
  "json_object_response v = Response 200 (stringify v)"

definition jsonRpcResult :: "json \<Rightarrow> json option \<Rightarrow> int option \<Rightarrow> http_response" where
  "jsonRpcResult rpc result maxFrameBytes =
     (let body = JObj ([(''jsonrpc'', JStr ''2.0''), (''id'', rpc)] @
            (case result of None \<Rightarrow> [] | Some r \<Rightarrow> [(''result'', r)]))
      in case maxFrameBytes of
           Some m \<Rightarrow> if int (byte_length body) > m then Response 413 ''response too large'' else json_object_response body
         | None \<Rightarrow> json_object_response body)"

definition jsonRpcError :: "json \<Rightarrow> int \<Rightarrow> string \<Rightarrow> http_response" where
  "jsonRpcError rpc code message =
     json_object_response (JObj [(''jsonrpc'', JStr ''2.0''), (''id'', rpc),
       (''error'', JObj [(''code'', jint code), (''message'', JStr message)])])"

definition runtime_outcome :: "(string \<times> json) list \<Rightarrow> json" where
  "runtime_outcome failure = JObj [(''kind'', JStr ''runtime''), (''failure'', JObj failure)]"

definition protocolViolation :: "string \<Rightarrow> json" where
  "protocolViolation detail = runtime_outcome [(''kind'', JStr ''protocol_violation''), (''detail'', JStr detail)]"

definition deadlineExceeded_outcome :: "int \<Rightarrow> json" where
  "deadlineExceeded_outcome requestId =
     runtime_outcome [(''kind'', JStr ''deadline_exceeded''), (''request_id'', jint requestId)]"

definition cancelled_outcome :: "int \<Rightarrow> json" where
  "cancelled_outcome requestId = runtime_outcome [(''kind'', JStr ''cancelled''), (''request_id'', jint requestId)]"

definition plugin_failure :: "thrown \<Rightarrow> json" where
  "plugin_failure e = runtime_outcome [(''kind'', JStr ''plugin_failure''), (''detail'', JStr (errorMessage e))]"

text \<open>\<open>String(value)\<close>, as template literals convert a value.\<close>

fun js_string :: "json \<Rightarrow> string" where
  "js_string JNull = ''null''"
| "js_string (JBool b) = (if b then ''true'' else ''false'')"
| "js_string (JNum x) = show_number x"
| "js_string (JStr s) = s"
| "js_string (JArr xs) = comma_separated (map (\<lambda>x. if x = JNull then [] else js_string x) xs)"
| "js_string (JObj _) = ''[object Object]''"

definition objectParam :: "json option \<Rightarrow> json option" where
  "objectParam v = (case v of Some (JObj kvs) \<Rightarrow> Some (JObj kvs) | _ \<Rightarrow> None)"

text \<open>Optional chaining \<open>value?.name\<close>.\<close>

definition ofield :: "json option \<Rightarrow> string \<Rightarrow> json option" where
  "ofield v name = (case v of None \<Rightarrow> None | Some o' \<Rightarrow> field o' name)"

section \<open>Handshake comparison\<close>

definition sameStrings :: "json option \<Rightarrow> string list \<Rightarrow> thrown + bool" where
  "sameStrings left right =
     (case left of
        None \<Rightarrow> Inl js_type_error
      | Some JNull \<Rightarrow> Inl js_type_error
      | Some (JArr xs) \<Rightarrow> Inr (xs = map JStr right)
      | Some (JStr s) \<Rightarrow> if js_length s = length right then Inl js_type_error else Inr False
      | Some (JObj kvs) \<Rightarrow>
          if map_of kvs ''length'' = Some (jint (int (length right))) then Inl js_type_error else Inr False
      | Some _ \<Rightarrow> Inr False)"

definition and_then :: "thrown + bool \<Rightarrow> thrown + bool \<Rightarrow> thrown + bool" where
  "and_then a b = bind_result a (\<lambda>x. if x then b else Inr False)"

definition same_endpoint :: "json \<Rightarrow> provider_descriptor \<Rightarrow> thrown + bool" where
  "same_endpoint endpoint expected =
     (if endpoint = JNull then Inl js_type_error
      else if field endpoint ''capability_id'' \<noteq> Some (JStr (capability_id expected)) \<or>
              field endpoint ''descriptor_version'' \<noteq> Some (JStr (descriptor_version expected))
      then Inr False
      else
        and_then (sameStrings (field endpoint ''operations'') (operations expected))
        (and_then (sameStrings (field endpoint ''stream_operations'') (stream_operations expected))
          (sameStrings (field endpoint ''event_operations'') (event_operations expected))))"

fun every_endpoint :: "json list \<Rightarrow> provider_descriptor list \<Rightarrow> thrown + bool" where
  "every_endpoint (e # es) (d # ds) = and_then (same_endpoint e d) (every_endpoint es ds)"
| "every_endpoint _ _ = Inr True"

definition sameEndpoints :: "json list \<Rightarrow> provider_descriptor list \<Rightarrow> thrown + bool" where
  "sameEndpoints left right = (if length left \<noteq> length right then Inr False else every_endpoint left right)"

definition PROTOCOL_VERSION :: int where
  "PROTOCOL_VERSION = 1"

definition VALUE_PROFILE :: string where
  "VALUE_PROFILE = ''lenso-json-value-v1''"

definition validHandshake :: "json option \<Rightarrow> int \<Rightarrow> bool" where
  "validHandshake handshake maxFrameBytes \<longleftrightarrow>
     handshake \<noteq> None \<and>
     ofield handshake ''protocol_version'' = Some (jint PROTOCOL_VERSION) \<and>
     ofield handshake ''value_profile'' = Some (JStr VALUE_PROFILE) \<and>
     ofield handshake ''max_frame_bytes'' = Some (jint maxFrameBytes) \<and>
     (case ofield handshake ''endpoints'' of Some (JArr _) \<Rightarrow> True | _ \<Rightarrow> False)"

definition endpoint_list :: "json option \<Rightarrow> json list" where
  "endpoint_list handshake = (case ofield handshake ''endpoints'' of Some v \<Rightarrow> elems v | None \<Rightarrow> [])"

definition hasSession :: "json option \<Rightarrow> string option \<Rightarrow> json option \<Rightarrow> bool" where
  "hasSession candidate session handshake \<longleftrightarrow>
     handshake \<noteq> None \<and> (case session of None \<Rightarrow> False | Some t \<Rightarrow> candidate = Some (JStr t))"

section \<open>Request envelopes\<close>

definition request_id_of :: "json option \<Rightarrow> int option" where
  "request_id_of v =
     (case v of
        Some (JNum x) \<Rightarrow> (case safe_int x of Some n \<Rightarrow> if n \<ge> 0 then Some n else None | None \<Rightarrow> None)
      | _ \<Rightarrow> None)"

definition isRequestId :: "json option \<Rightarrow> bool" where
  "isRequestId v \<longleftrightarrow> request_id_of v \<noteq> None"

definition is_nullish :: "json option \<Rightarrow> bool" where
  "is_nullish v \<longleftrightarrow> v = None \<or> v = Some JNull"

definition is_text :: "json option \<Rightarrow> bool" where
  "is_text v \<longleftrightarrow> (case v of Some (JStr _) \<Rightarrow> True | _ \<Rightarrow> False)"

definition validWireRequest :: "json option \<Rightarrow> string option \<Rightarrow> bool" where
  "validWireRequest request session \<longleftrightarrow>
     request \<noteq> None \<and>
     isRequestId (ofield request ''request_id'') \<and>
     is_text (ofield request ''capability_id'') \<and>
     is_text (ofield request ''operation'') \<and>
     ofield request ''session'' = map_option JStr session \<and>
     (is_nullish (ofield request ''deadline_nanos'') \<or> isRequestId (ofield request ''deadline_nanos'')) \<and>
     (is_nullish (ofield request ''caller_instance'') \<or> is_text (ofield request ''caller_instance'')) \<and>
     (case ofield request ''extensions'' of None \<Rightarrow> True | Some v \<Rightarrow> is_array v)"

definition text_of :: "json option \<Rightarrow> string" where
  "text_of v = (case v of Some (JStr s) \<Rightarrow> s | _ \<Rightarrow> [])"

text \<open>
  The record of the extensions by key. Assigning to \<open>__proto__\<close> sets the prototype of the record
  and adds no property.
\<close>

definition invalid_extension_key :: thrown where
  "invalid_extension_key = ErrorObject ''Invocation Context contains an invalid extension key''"

fun extension_entries :: "(string \<times> json) list \<Rightarrow> json list \<Rightarrow> thrown + (string \<times> json) list" where
  "extension_entries rec [] = Inr rec"
| "extension_entries rec (ext # exts) =
     (if ext = JNull then Inl js_type_error
      else case field ext ''key'' of
        Some (JStr k) \<Rightarrow>
          if k = [] \<or> map_has rec k then Inl invalid_extension_key
          else extension_entries (if k = ''__proto__'' then rec else AList.update k ext rec) exts
      | _ \<Rightarrow> Inl invalid_extension_key)"

definition extensionRecord :: "json list \<Rightarrow> thrown + (string \<times> json) list option" where
  "extensionRecord extensions =
     (if extensions = [] then Inr None else bind_result (extension_entries [] extensions) (\<lambda>r. Inr (Some r)))"

record wire_context =
  ctx_requestId :: string
  ctx_deadlineNanos :: "int option"
  ctx_wireRequestId :: int
  ctx_wireExtensions :: "json option"
  ctx_callerInstance :: "string option"
  ctx_extensions :: "(string \<times> json) list option"

definition invocationContext :: "json option \<Rightarrow> thrown + wire_context" where
  "invocationContext request =
     bind_result (extensionRecord (case ofield request ''extensions'' of Some v \<Rightarrow> elems v | None \<Rightarrow> [])) (\<lambda>exts.
       let rid = the (request_id_of (ofield request ''request_id'')) in
       Inr \<lparr>ctx_requestId = show_int rid,
            ctx_deadlineNanos = request_id_of (ofield request ''deadline_nanos''),
            ctx_wireRequestId = rid,
            ctx_wireExtensions = ofield request ''extensions'',
            ctx_callerInstance =
              (if is_nullish (ofield request ''caller_instance'') then None
               else Some (text_of (ofield request ''caller_instance''))),
            ctx_extensions = exts\<rparr>)"

text \<open>
  The delay of the deadline timer. The quotient of a safe integer by a million has an error far
  below a millionth, so its ceiling is that of the exact quotient.
\<close>

definition startDeadline :: "int option \<Rightarrow> int option" where
  "startDeadline deadlineNanos =
     (case deadlineNanos of
        None \<Rightarrow> None
      | Some n \<Rightarrow> if n = 0 then None else Some (max 1 (min ((n + 999999) div 1000000) 2147483647)))"

section \<open>Configuration and state\<close>

record server_config =
  sc_providers :: "provider_binding list"
  sc_dependencies :: "(string \<times> raw_dependency) list"
  sc_decodeConfig :: "(json option \<Rightarrow> thrown + json option) option"
  sc_parseConfig :: "(json option \<Rightarrow> thrown + json option) option"
  sc_createClient :: "string \<Rightarrow> thrown option"
  sc_has_create :: bool
  sc_has_stop :: bool
  sc_maxConcurrentRequests :: int
  sc_maxFrameBytes :: int
  sc_maxRetiredRequestIds :: int
  sc_expectedEndpoints :: "provider_descriptor list"
  sc_managedLifecycle :: bool

record start_options =
  opt_maxFrameBytes :: "js_number option"
  opt_maxRetiredRequestIds :: "js_number option"
  opt_expectedEndpoints :: "provider_descriptor list option"
  opt_managedLifecycle :: "bool option"

datatype start_error =
    InvalidMaxFrameBytes
  | InvalidMaxRetiredRequestIds
  | StartDefinitionError define_error

definition DEFAULT_MAX_RETIRED_REQUEST_IDS :: int where
  "DEFAULT_MAX_RETIRED_REQUEST_IDS = 1024"

definition positive_option :: "'e \<Rightarrow> int \<Rightarrow> js_number option \<Rightarrow> 'e + int" where
  "positive_option err fallback v =
     (case v of
        None \<Rightarrow> Inr fallback
      | Some x \<Rightarrow> (case safe_int x of Some n \<Rightarrow> if n \<le> 0 then Inl err else Inr n | None \<Rightarrow> Inl err))"

text \<open>The user functions of the definition, which the definition record only notes as present.\<close>

record user_functions =
  user_decodeConfig :: "(json option \<Rightarrow> thrown + json option) option"
  user_parseConfig :: "(json option \<Rightarrow> thrown + json option) option"
  user_createClient :: "string \<Rightarrow> thrown option"

definition start_config :: "plugin_definition \<Rightarrow> user_functions \<Rightarrow> start_options \<Rightarrow> start_error + server_config" where
  "start_config definition user opts =
     bind_result (positive_option InvalidMaxFrameBytes DEFAULT_MAX_FRAME_BYTES (opt_maxFrameBytes opts)) (\<lambda>frame.
     bind_result (positive_option InvalidMaxRetiredRequestIds DEFAULT_MAX_RETIRED_REQUEST_IDS
       (opt_maxRetiredRequestIds opts)) (\<lambda>retired.
     case concreteProviders (def_providers definition) of
       Inl e \<Rightarrow> Inl (StartDefinitionError e)
     | Inr bs \<Rightarrow> Inr
        \<lparr>sc_providers = bs, sc_dependencies = def_dependency_list definition,
         sc_decodeConfig = user_decodeConfig user, sc_parseConfig = user_parseConfig user,
         sc_createClient = user_createClient user, sc_has_create = def_create definition,
         sc_has_stop = def_stop definition, sc_maxConcurrentRequests = def_maxConcurrentRequests definition,
         sc_maxFrameBytes = frame, sc_maxRetiredRequestIds = retired,
         sc_expectedEndpoints =
           (case opt_expectedEndpoints opts of Some ds \<Rightarrow> ds | None \<Rightarrow> map binding_descriptor bs),
         sc_managedLifecycle = (case opt_managedLifecycle opts of Some b \<Rightarrow> b | None \<Rightarrow> False)\<rparr>))"

definition pluginEndpoints :: "server_config \<Rightarrow> provider_descriptor list" where
  "pluginEndpoints cfg = map binding_descriptor (sc_providers cfg)"

text \<open>\<open>new Map(providers.map(...))\<close>: a later binding of a capability replaces an earlier one.\<close>

definition providerByCapability :: "server_config \<Rightarrow> string \<Rightarrow> provider_binding option" where
  "providerByCapability cfg cap =
     map_of (rev (map (\<lambda>b. (capability_id (binding_descriptor b), b)) (sc_providers cfg))) cap"

record request_state =
  rs_cancelled :: bool
  rs_deadlineExceeded :: bool

datatype plugin_instance =
    DefaultInstance
  | InputsInstance "json option" "(string \<times> json) list"
  | CreatedInstance nat

datatype continuation =
    AwaitInvoke json int
  | AwaitCreate json
  | AwaitStop json

record plugin_server =
  activeRequests :: "(int \<times> request_state) list"
  retiredRequestIds :: "int list"
  session :: "string option"
  admittedHandshake :: "json option"
  accepting :: bool
  current_instance :: "plugin_instance option"
  timers :: "int list"
  pending :: "(nat \<times> continuation) list"
  next_token :: nat
  stop_scheduled :: bool
  listening :: bool

definition initial_server :: "server_config \<Rightarrow> plugin_server" where
  "initial_server cfg =
     \<lparr>activeRequests = [], retiredRequestIds = [], session = None, admittedHandshake = None, accepting = True,
      current_instance =
        (if \<not> sc_managedLifecycle cfg \<and> sc_dependencies cfg = [] \<and> \<not> sc_has_create cfg
         then Some DefaultInstance else None),
      timers = [], pending = [], next_token = 0, stop_scheduled = False, listening = True\<rparr>"

section \<open>Handlers\<close>

fun evict :: "int \<Rightarrow> int list \<Rightarrow> int list" where
  "evict limit [] = []"
| "evict limit (oldest # ids) =
     (if int (length (oldest # ids)) \<ge> limit then evict limit ids else oldest # ids)"

definition retire :: "int \<Rightarrow> int \<Rightarrow> int list \<Rightarrow> int list" where
  "retire limit requestId ids = set_add requestId (evict limit ids)"

definition await :: "continuation \<Rightarrow> plugin_server \<Rightarrow> plugin_server" where
  "await k s = s\<lparr>pending := pending s @ [(next_token s, k)], next_token := Suc (next_token s)\<rparr>"

definition cancel_state :: "request_state \<Rightarrow> request_state" where
  "cancel_state r = r\<lparr>rs_cancelled := True\<rparr>"

definition cancel_all :: "plugin_server \<Rightarrow> plugin_server" where
  "cancel_all s = s\<lparr>activeRequests := map (\<lambda>(i, r). (i, cancel_state r)) (activeRequests s)\<rparr>"

definition cancel_one :: "int \<Rightarrow> plugin_server \<Rightarrow> plugin_server" where
  "cancel_one requestId s =
     s\<lparr>activeRequests := map (\<lambda>(i, r). if i = requestId then (i, cancel_state r) else (i, r)) (activeRequests s)\<rparr>"

definition handshake_accepted :: "server_config \<Rightarrow> plugin_server \<Rightarrow> json option \<Rightarrow> thrown + bool" where
  "handshake_accepted cfg s handshake =
     (if \<not> accepting s \<or> activeRequests s \<noteq> [] \<or> \<not> validHandshake handshake (sc_maxFrameBytes cfg)
      then Inr False
      else and_then (sameEndpoints (endpoint_list handshake) (sc_expectedEndpoints cfg))
                    (sameEndpoints (endpoint_list handshake) (pluginEndpoints cfg)))"

definition handle_handshake ::
  "server_config \<Rightarrow> plugin_server \<Rightarrow> json \<Rightarrow> json option \<Rightarrow> string \<Rightarrow> http_response \<times> plugin_server" where
  "handle_handshake cfg s rpc params uuid =
     (let handshake = objectParam params in
      case handshake_accepted cfg s handshake of
        Inl e \<Rightarrow> (Uncaught e, s)
      | Inr accepted \<Rightarrow>
          let s' = (if accepted then s\<lparr>admittedHandshake := handshake, session := Some uuid\<rparr> else s) in
          (jsonRpcResult rpc (Some (JObj (
             [(''accepted'', JBool accepted), (''protocol_version'', jint PROTOCOL_VERSION),
              (''value_profile'', JStr VALUE_PROFILE), (''max_frame_bytes'', jint (sc_maxFrameBytes cfg)),
              (''endpoints'', JArr (endpoint_list handshake)),
              (''managed_lifecycle'', JBool (sc_managedLifecycle cfg))] @
             (case session s' of None \<Rightarrow> [] | Some t \<Rightarrow> [(''session'', JStr t)])))) None, s'))"

definition handle_cancel :: "plugin_server \<Rightarrow> json \<Rightarrow> json option \<Rightarrow> http_response \<times> plugin_server" where
  "handle_cancel s rpc params =
     (let cancellation = objectParam params in
      if \<not> hasSession (ofield cancellation ''session'') (session s) (admittedHandshake s)
      then (jsonRpcResult rpc (Some (protocolViolation ''request session mismatch'')) None, s)
      else
        (jsonRpcResult rpc (Some (JBool True)) None,
         case request_id_of (ofield cancellation ''request_id'') of
           Some n \<Rightarrow> cancel_one n s
         | None \<Rightarrow> s))"

definition handle_shutdown ::
  "server_config \<Rightarrow> plugin_server \<Rightarrow> json \<Rightarrow> json option \<Rightarrow> http_response option \<times> plugin_server" where
  "handle_shutdown cfg s rpc params =
     (if \<not> hasSession (ofield (objectParam params) ''session'') (session s) (admittedHandshake s)
      then (Some (jsonRpcResult rpc (Some (protocolViolation ''shutdown session mismatch'')) None), s)
      else
        let s' = cancel_all (s\<lparr>accepting := False\<rparr>) in
        if current_instance s' \<noteq> None \<and> sc_has_stop cfg then (None, await (AwaitStop rpc) s')
        else (Some (jsonRpcResult rpc (Some (JBool True)) None), s'\<lparr>stop_scheduled := True\<rparr>))"

definition finish_request :: "server_config \<Rightarrow> int \<Rightarrow> plugin_server \<Rightarrow> plugin_server" where
  "finish_request cfg requestId s =
     s\<lparr>timers := set_delete requestId (timers s),
       activeRequests := AList.delete requestId (activeRequests s),
       retiredRequestIds := retire (sc_maxRetiredRequestIds cfg) requestId (retiredRequestIds s)\<rparr>"

definition admit_request :: "int \<Rightarrow> int option \<Rightarrow> plugin_server \<Rightarrow> plugin_server" where
  "admit_request requestId deadline s =
     s\<lparr>activeRequests := AList.update requestId
         \<lparr>rs_cancelled = False, rs_deadlineExceeded = (deadline = Some 0)\<rparr> (activeRequests s),
       timers := (if startDeadline deadline = None then timers s else set_add requestId (timers s))\<rparr>"

definition request_result :: "server_config \<Rightarrow> json \<Rightarrow> json option \<Rightarrow> http_response" where
  "request_result cfg rpc outcome = jsonRpcResult rpc outcome (Some (sc_maxFrameBytes cfg))"

definition handle_request ::
  "server_config \<Rightarrow> plugin_server \<Rightarrow> json \<Rightarrow> json option \<Rightarrow> http_response option \<times> plugin_server" where
  "handle_request cfg s rpc params =
     (let wireRequest = objectParam params;
          requestId = the (request_id_of (ofield wireRequest ''request_id''));
          deadline = request_id_of (ofield wireRequest ''deadline_nanos'');
          reject = (\<lambda>outcome. (Some (jsonRpcResult rpc (Some outcome) None), s))
      in
      if \<not> accepting s \<or> admittedHandshake s = None \<or> current_instance s = None
      then reject (protocolViolation ''request before handshake'')
      else if \<not> validWireRequest wireRequest (session s)
      then reject (protocolViolation ''invalid request envelope'')
      else if map_has (activeRequests s) requestId \<or> requestId \<in> set (retiredRequestIds s)
      then reject (protocolViolation ''duplicate or retired request id'')
      else if int (length (activeRequests s)) \<ge> sc_maxConcurrentRequests cfg
      then reject (runtime_outcome [(''kind'', JStr ''resource_exhausted''),
             (''operation'', JStr (text_of (ofield wireRequest ''operation'')))])
      else case providerByCapability cfg (text_of (ofield wireRequest ''capability_id'')) of
        None \<Rightarrow> reject (runtime_outcome [(''kind'', JStr ''unknown_operation''),
             (''operation'', JStr (text_of (ofield wireRequest ''operation'')))])
      | Some binding \<Rightarrow>
          let s' = admit_request requestId deadline s in
          (case invocationContext wireRequest of
             Inl e \<Rightarrow> (Some (request_result cfg rpc (Some (plugin_failure e))), finish_request cfg requestId s')
           | Inr context \<Rightarrow>
               if deadline = Some 0
               then (Some (request_result cfg rpc (Some (deadlineExceeded_outcome requestId))), finish_request cfg requestId s')
               else (None, await (AwaitInvoke rpc requestId) s')))"

text \<open>The outcome sent after the Provider has settled: the request's state is read after the call.\<close>

definition invoke_outcome :: "request_state option \<Rightarrow> int \<Rightarrow> thrown + json option \<Rightarrow> json option" where
  "invoke_outcome state requestId settled =
     (case settled of
        Inl e \<Rightarrow> Some (plugin_failure e)
      | Inr outcome \<Rightarrow>
          (case state of
             None \<Rightarrow> outcome
           | Some r \<Rightarrow>
               if rs_deadlineExceeded r then Some (deadlineExceeded_outcome requestId)
               else if rs_cancelled r then Some (cancelled_outcome requestId)
               else outcome))"

section \<open>Activation\<close>

definition starts_with :: "string \<Rightarrow> string \<Rightarrow> bool" where
  "starts_with prefix s \<longleftrightarrow> take (length prefix) s = prefix"

definition imports_invalid :: "json \<Rightarrow> bool" where
  "imports_invalid activation \<longleftrightarrow>
     \<not> is_text (field activation ''imports_url'') \<or>
     \<not> starts_with ''http://127.0.0.1:'' (text_of (field activation ''imports_url'')) \<or>
     \<not> is_text (field activation ''imports_token'') \<or>
     js_length (text_of (field activation ''imports_token'')) < 16 \<or>
     (case field activation ''imports'' of Some v \<Rightarrow> \<not> is_array v | None \<Rightarrow> True)"

text \<open>The imports with their positions, which stand for the identity of the import objects.\<close>

definition imports_of :: "json \<Rightarrow> (nat \<times> json) list" where
  "imports_of activation =
     (case field activation ''imports'' of Some v \<Rightarrow> enumerate 0 (elems v) | None \<Rightarrow> [])"

definition exact_import :: "(nat \<times> json) list \<Rightarrow> string \<Rightarrow> (nat \<times> json) option" where
  "exact_import imports requirement =
     find (\<lambda>(i, d). field d ''requirement_id'' = Some (JStr requirement)) (rev imports)"

definition legacy_import :: "(nat \<times> json) list \<Rightarrow> string \<Rightarrow> (nat \<times> json) option" where
  "legacy_import imports capability =
     (case filter (\<lambda>(i, d). field d ''capability_id'' = Some (JStr capability)) imports of
        [d] \<Rightarrow> Some d
      | _ \<Rightarrow> None)"

text \<open>The key of a claim in the \<open>Set\<close> of claimed imports: objects and arrays compare by identity.\<close>

definition claim_key :: "nat \<times> json \<Rightarrow> nat option \<times> json option" where
  "claim_key d =
     (let r = field (snd d) ''requirement_id'' in
      case r of
        Some (JObj _) \<Rightarrow> (Some (fst d), r)
      | Some (JArr _) \<Rightarrow> (Some (fst d), r)
      | _ \<Rightarrow> (None, r))"

definition option_string :: "json option \<Rightarrow> string" where
  "option_string v = (case v of None \<Rightarrow> ''undefined'' | Some j \<Rightarrow> js_string j)"

text \<open>
  The assignments \<open>clients[name] = ...\<close> in their order, each with the import its client is bound to.
  For a dependency named \<open>__proto__\<close> the assignment sets the prototype of \<open>clients\<close>, where the name
  still finds the client, although it is not an entry of its own.
\<close>

fun bind_clients ::
  "(string \<Rightarrow> thrown option) \<Rightarrow> (nat \<times> json) list \<Rightarrow> (nat option \<times> json option) list \<Rightarrow>
   (string \<times> raw_dependency) list \<Rightarrow> thrown + (string \<times> json) list" where
  "bind_clients createClient imports claimed [] = Inr []"
| "bind_clients createClient imports claimed ((name, raw) # rest) =
     (case dependencyDefinition name raw of
        Inl e \<Rightarrow> Inl js_type_error
      | Inr (requirementId, binding, cardinality) \<Rightarrow>
          if cardinality \<noteq> ''one''
          then Inl (ErrorObject (''legacy Bun activation does not support '' @ cardinality @ '' dependency '' @ requirementId))
          else
            (let candidate = (case exact_import imports requirementId of
                   Some d \<Rightarrow> Some d
                 | None \<Rightarrow> legacy_import imports (capability_id binding))
             in case candidate of
                  None \<Rightarrow> Inl (ErrorObject (''Host did not admit dependency '' @ name))
                | Some d \<Rightarrow>
                    bind_result (sameEndpoints [snd d] [binding]) (\<lambda>same.
                    if \<not> same then Inl (ErrorObject (''Host did not admit dependency '' @ name))
                    else if claim_key d \<in> set claimed
                    then Inl (ErrorObject (''Host import '' @ option_string (field (snd d) ''requirement_id'') @ '' was claimed more than once''))
                    else case createClient name of
                      Some t \<Rightarrow> Inl t
                    | None \<Rightarrow>
                        bind_result (bind_clients createClient imports (set_add (claim_key d) claimed) rest) (\<lambda>clients.
                        Inr ((name, snd d) # clients)))))"

definition createDependencyClients ::
  "server_config \<Rightarrow> json \<Rightarrow> thrown + (string \<times> json) list" where
  "createDependencyClients cfg activation =
     (if imports_invalid activation then Inl (ErrorObject ''Host imports activation data is invalid'')
      else if JNull \<in> snd ` set (imports_of activation) then Inl js_type_error
      else bind_clients (sc_createClient cfg) (imports_of activation) [] (sc_dependencies cfg))"

text \<open>
  A call of a bound client: the shared counter moves on, an operation the import does not list is
  answered locally, and otherwise the body below is posted. \<open>ImportReply\<close> carries the HTTP
  status and the parsed body; \<open>ImportRejected\<close> is a rejected \<open>fetch\<close> or \<open>json()\<close>.
\<close>

definition next_import_id :: "int \<Rightarrow> int" where
  "next_import_id requestId = (if requestId \<ge> max_safe_integer then 1 else requestId + 1)"

definition import_operations :: "json \<Rightarrow> json list" where
  "import_operations descriptor = (case field descriptor ''operations'' of Some v \<Rightarrow> elems v | None \<Rightarrow> [])"

definition optional_field :: "string \<Rightarrow> json option \<Rightarrow> (string \<times> json) list" where
  "optional_field name v = (case v of None \<Rightarrow> [] | Some x \<Rightarrow> [(name, x)])"

definition import_request_body :: "json \<Rightarrow> int \<Rightarrow> string \<Rightarrow> wire_context \<Rightarrow> json \<Rightarrow> json" where
  "import_request_body descriptor requestId oper ctx payload =
     JObj [(''jsonrpc'', JStr ''2.0''), (''id'', jint requestId), (''method'', JStr ''lenso.import''),
       (''params'', JArr [JObj ([(''request_id'', jint requestId)] @
          optional_field ''requirement_id'' (field descriptor ''requirement_id'') @
          optional_field ''capability_id'' (field descriptor ''capability_id'') @
          [(''operation'', JStr oper)] @
          optional_field ''deadline_nanos'' (map_option jint (ctx_deadlineNanos ctx)) @
          optional_field ''caller_instance'' (map_option JStr (ctx_callerInstance ctx)) @
          optional_field ''extensions'' (ctx_wireExtensions ctx) @
          [(''payload'', payload)])])]"

definition import_call ::
  "int \<Rightarrow> json \<Rightarrow> string \<Rightarrow> wire_context \<Rightarrow> json \<Rightarrow> int \<times> (json + json)" where
  "import_call nextId descriptor oper ctx payload =
     (next_import_id nextId,
      if JStr oper \<notin> set (import_operations descriptor)
      then Inl (runtime_outcome [(''kind'', JStr ''unknown_operation''), (''operation'', JStr oper)])
      else Inr (import_request_body descriptor nextId oper ctx payload))"

datatype import_reply = ImportReply nat json | ImportRejected thrown

definition import_outcome :: "import_reply \<Rightarrow> thrown + json" where
  "import_outcome reply =
     (case reply of
        ImportRejected e \<Rightarrow> Inl e
      | ImportReply status body \<Rightarrow>
          if \<not> (200 \<le> status \<and> status \<le> 299)
          then Inr (runtime_outcome [(''kind'', JStr ''plugin_failure''),
                 (''detail'', JStr (''Host import returned HTTP '' @ show_int (int status)))])
          else if body = JNull then Inl js_type_error
          else if is_nullish (field body ''result'') then Inr (runtime_outcome [(''kind'', JStr ''protocol_violation'')])
          else Inr (the (field body ''result'')))"

text \<open>The \<open>??\<close> chain: \<open>decodeConfig\<close>, else \<open>config.parse\<close>, else the raw value.\<close>

definition resolve_config :: "server_config \<Rightarrow> json option \<Rightarrow> thrown + json option" where
  "resolve_config cfg raw =
     bind_result (case sc_decodeConfig cfg of None \<Rightarrow> Inr None | Some f \<Rightarrow> f raw) (\<lambda>decoded.
     if \<not> is_nullish decoded then Inr decoded
     else bind_result (case sc_parseConfig cfg of None \<Rightarrow> Inr None | Some f \<Rightarrow> f raw) (\<lambda>parsed.
     if \<not> is_nullish parsed then Inr parsed else Inr raw))"

definition handle_activate ::
  "server_config \<Rightarrow> plugin_server \<Rightarrow> json \<Rightarrow> json option \<Rightarrow> http_response option \<times> plugin_server" where
  "handle_activate cfg s rpc params =
     (case objectParam params of
        None \<Rightarrow> (Some (jsonRpcResult rpc (Some (protocolViolation ''invalid activation'')) None), s)
      | Some activation \<Rightarrow>
          if \<not> sc_managedLifecycle cfg \<or>
             \<not> hasSession (field activation ''session'') (session s) (admittedHandshake s) \<or>
             current_instance s \<noteq> None \<or> activeRequests s \<noteq> []
          then (Some (jsonRpcResult rpc (Some (protocolViolation ''invalid activation'')) None), s)
          else
            (case bind_result (createDependencyClients cfg activation) (\<lambda>clients.
                  bind_result (resolve_config cfg (field activation ''configuration'')) (\<lambda>conf.
                  Inr (conf, clients))) of
               Inl e \<Rightarrow> (Some (jsonRpcResult rpc (Some (plugin_failure e)) None), s)
             | Inr (conf, clients) \<Rightarrow>
                 if sc_has_create cfg then (None, await (AwaitCreate rpc) s)
                 else (Some (jsonRpcResult rpc (Some (JBool True)) None),
                       s\<lparr>current_instance := Some (InputsInstance conf clients)\<rparr>)))"

section \<open>The step function\<close>

definition handle_envelope ::
  "server_config \<Rightarrow> plugin_server \<Rightarrow> json \<Rightarrow> string \<Rightarrow> http_response option \<times> plugin_server" where
  "handle_envelope cfg s envelope uuid =
     (if envelope = JNull then (Some (Uncaught js_type_error), s)
      else
        let rpc = (case field envelope ''id'' of Some v \<Rightarrow> v | None \<Rightarrow> JNull);
            meth = field envelope ''method'';
            params = (case field envelope ''params'' of Some (JArr [p]) \<Rightarrow> Some p | p \<Rightarrow> p)
        in
        if field envelope ''jsonrpc'' \<noteq> Some (JStr ''2.0'') \<or> \<not> is_text meth
        then (Some (jsonRpcError rpc (-32600) ''Invalid Request''), s)
        else if meth = Some (JStr ''lenso.handshake'')
        then (case handle_handshake cfg s rpc params uuid of (r, s') \<Rightarrow> (Some r, s'))
        else if meth = Some (JStr ''lenso.cancel'')
        then (case handle_cancel s rpc params of (r, s') \<Rightarrow> (Some r, s'))
        else if meth = Some (JStr ''lenso.activate'') then handle_activate cfg s rpc params
        else if meth = Some (JStr ''lenso.shutdown'') then handle_shutdown cfg s rpc params
        else if meth \<noteq> Some (JStr ''lenso.request'')
        then (Some (jsonRpcResult rpc (Some (protocolViolation ''request before handshake'')) None), s)
        else handle_request cfg s rpc params)"

record http_request =
  http_method :: string
  http_content_length :: "string option"
  http_body :: "body_read list option"

datatype server_event =
    Fetch http_request string
  | InvokeSettled nat "thrown + json option"
  | CreateSettled nat "thrown + nat option"
  | StopSettled nat "thrown option"
  | DeadlineFired int
  | StopTimerFired
  | HandleStop

definition handle_fetch ::
  "(string \<Rightarrow> js_number) \<Rightarrow> (string \<Rightarrow> json option) \<Rightarrow> server_config \<Rightarrow> plugin_server \<Rightarrow> http_request \<Rightarrow>
   string \<Rightarrow> http_response option \<times> plugin_server" where
  "handle_fetch to_number parse cfg s request uuid =
     (if http_method request \<noteq> ''POST'' then (Some (Response 405 ''method not allowed''), s)
      else case readBoundedBody to_number (http_content_length request) (http_body request) (sc_maxFrameBytes cfg) of
        Inl BodyTooLargeError \<Rightarrow> (Some (Response 413 ''request too large''), s)
      | Inl _ \<Rightarrow> (Some (jsonRpcError JNull (-32700) ''Parse error''), s)
      | Inr body \<Rightarrow>
          (case parse body of
             None \<Rightarrow> (Some (jsonRpcError JNull (-32700) ''Parse error''), s)
           | Some envelope \<Rightarrow> handle_envelope cfg s envelope uuid))"

definition drop_token :: "nat \<Rightarrow> plugin_server \<Rightarrow> plugin_server" where
  "drop_token tok s = s\<lparr>pending := AList.delete tok (pending s)\<rparr>"

definition invoke_settled ::
  "server_config \<Rightarrow> plugin_server \<Rightarrow> nat \<Rightarrow> json \<Rightarrow> int \<Rightarrow> thrown + json option \<Rightarrow> http_response option \<times> plugin_server" where
  "invoke_settled cfg s tok rpc requestId settled =
     (Some (request_result cfg rpc (invoke_outcome (map_of (activeRequests s) requestId) requestId settled)),
      finish_request cfg requestId (drop_token tok s))"

definition create_settled ::
  "plugin_server \<Rightarrow> nat \<Rightarrow> json \<Rightarrow> thrown + nat option \<Rightarrow> http_response option \<times> plugin_server" where
  "create_settled s tok rpc settled =
     (case settled of
        Inl e \<Rightarrow> (Some (jsonRpcResult rpc (Some (plugin_failure e)) None), drop_token tok s)
      | Inr None \<Rightarrow>
          (Some (jsonRpcResult rpc (Some (plugin_failure (ErrorObject ''Plugin create must return a complete instance''))) None),
           (drop_token tok s)\<lparr>current_instance := None\<rparr>)
      | Inr (Some i) \<Rightarrow>
          (Some (jsonRpcResult rpc (Some (JBool True)) None), (drop_token tok s)\<lparr>current_instance := Some (CreatedInstance i)\<rparr>))"

definition stop_settled ::
  "plugin_server \<Rightarrow> nat \<Rightarrow> json \<Rightarrow> thrown option \<Rightarrow> http_response option \<times> plugin_server" where
  "stop_settled s tok rpc settled =
     (case settled of
        Some e \<Rightarrow> (Some (jsonRpcResult rpc (Some (plugin_failure e)) None), drop_token tok s)
      | None \<Rightarrow> (Some (jsonRpcResult rpc (Some (JBool True)) None), (drop_token tok s)\<lparr>stop_scheduled := True\<rparr>))"

definition fire_deadline :: "int \<Rightarrow> plugin_server \<Rightarrow> plugin_server" where
  "fire_deadline requestId s =
     (if requestId \<in> set (timers s)
      then s\<lparr>timers := set_delete requestId (timers s),
             activeRequests := map (\<lambda>(i, r). if i = requestId then (i, r\<lparr>rs_deadlineExceeded := True\<rparr>) else (i, r))
               (activeRequests s)\<rparr>
      else s)"

text \<open>An event that is not enabled (no such continuation, no such timer) changes nothing.\<close>

fun server_step ::
  "(string \<Rightarrow> js_number) \<Rightarrow> (string \<Rightarrow> json option) \<Rightarrow> server_config \<Rightarrow> plugin_server \<Rightarrow> server_event \<Rightarrow>
   http_response option \<times> plugin_server" where
  "server_step to_number parse cfg s (Fetch request uuid) = handle_fetch to_number parse cfg s request uuid"
| "server_step to_number parse cfg s (InvokeSettled tok settled) =
     (case map_of (pending s) tok of
        Some (AwaitInvoke rpc requestId) \<Rightarrow> invoke_settled cfg s tok rpc requestId settled
      | _ \<Rightarrow> (None, s))"
| "server_step to_number parse cfg s (CreateSettled tok settled) =
     (case map_of (pending s) tok of
        Some (AwaitCreate rpc) \<Rightarrow> create_settled s tok rpc settled
      | _ \<Rightarrow> (None, s))"
| "server_step to_number parse cfg s (StopSettled tok settled) =
     (case map_of (pending s) tok of
        Some (AwaitStop rpc) \<Rightarrow> stop_settled s tok rpc settled
      | _ \<Rightarrow> (None, s))"
| "server_step to_number parse cfg s (DeadlineFired requestId) = (None, fire_deadline requestId s)"
| "server_step to_number parse cfg s StopTimerFired =
     (None, if stop_scheduled s then s\<lparr>listening := False, stop_scheduled := False\<rparr> else s)"
| "server_step to_number parse cfg s HandleStop = (None, (cancel_all (s\<lparr>accepting := False\<rparr>))\<lparr>listening := False\<rparr>)"

definition next_server ::
  "(string \<Rightarrow> js_number) \<Rightarrow> (string \<Rightarrow> json option) \<Rightarrow> server_config \<Rightarrow> plugin_server \<Rightarrow> server_event \<Rightarrow> plugin_server" where
  "next_server to_number parse cfg s e = snd (server_step to_number parse cfg s e)"

text \<open>A response within a byte limit, or the refusal that replaces one above it.\<close>

definition bounded_response :: "int \<Rightarrow> http_response \<Rightarrow> bool" where
  "bounded_response m resp \<longleftrightarrow>
     (case resp of Response status body \<Rightarrow> status = 413 \<or> status = 200 \<and> int (length body) \<le> m | Uncaught e \<Rightarrow> False)"

end
