(* ===== verification/Server_Properties.thy ===== *)
theory Server_Properties
  imports Plugin_Server
begin

text \<open>
  What the JSON-RPC server of \<open>startPlugin\<close> guarantees in every schedule: its limits, its
  request ledger, its shutdown, and the outcomes it sends.
\<close>

section \<open>The request ledger\<close>

fun awaited :: "(nat \<times> continuation) list \<Rightarrow> int list" where
  "awaited [] = []"
| "awaited ((tok, AwaitInvoke rpc i) # ks) = i # awaited ks"
| "awaited (_ # ks) = awaited ks"

definition ledger_inv ::
  "server_config \<Rightarrow> int list \<Rightarrow> int list \<Rightarrow> (nat \<times> continuation) list \<Rightarrow> nat \<Rightarrow> int list \<Rightarrow> bool" where
  "ledger_inv cfg active retired waiting next armed \<longleftrightarrow>
     distinct active \<and> int (length active) \<le> sc_maxConcurrentRequests cfg \<and>
     distinct retired \<and> int (length retired) \<le> sc_maxRetiredRequestIds cfg \<and>
     set active \<inter> set retired = {} \<and>
     distinct (map fst waiting) \<and> (\<forall>t \<in> fst ` set waiting. t < next) \<and>
     distinct (awaited waiting) \<and> set (awaited waiting) = set active \<and>
     set armed \<subseteq> set active"

definition server_inv :: "server_config \<Rightarrow> plugin_server \<Rightarrow> bool" where
  "server_inv cfg s \<longleftrightarrow>
     ledger_inv cfg (map fst (activeRequests s)) (retiredRequestIds s) (pending s) (next_token s) (timers s)"

definition valid_config :: "server_config \<Rightarrow> bool" where
  "valid_config cfg \<longleftrightarrow>
     1 \<le> sc_maxConcurrentRequests cfg \<and> 1 \<le> sc_maxRetiredRequestIds cfg \<and> 1 \<le> sc_maxFrameBytes cfg"

lemma awaited_append [simp]: "awaited (xs @ ys) = awaited xs @ awaited ys"
  by (induction xs rule: awaited.induct) auto

lemma awaited_mem: "map_of ks tok = Some (AwaitInvoke rpc i) \<Longrightarrow> i \<in> set (awaited ks)"
  by (induction ks rule: awaited.induct) (auto split: if_splits)

lemma awaited_delete_invoke:
  "distinct (map fst ks) \<Longrightarrow> map_of ks tok = Some (AwaitInvoke rpc i) \<Longrightarrow> distinct (awaited ks) \<Longrightarrow>
   distinct (awaited (AList.delete tok ks)) \<and> set (awaited (AList.delete tok ks)) = set (awaited ks) - {i}"
proof (induction ks rule: awaited.induct)
  case (2 t r j ks)
  show ?case
  proof (cases "t = tok")
    case True
    then show ?thesis using 2 by (auto simp: collection_simps)
  next
    case False
    then have "i \<in> set (awaited ks)" using 2 awaited_mem [of ks tok rpc i] by simp
    then show ?thesis using 2 False by auto
  qed
qed (auto split: if_splits simp: collection_simps)

lemma awaited_delete_other:
  "distinct (map fst ks) \<Longrightarrow> map_of ks tok = Some k \<Longrightarrow> (\<And>rpc i. k \<noteq> AwaitInvoke rpc i) \<Longrightarrow>
   awaited (AList.delete tok ks) = awaited ks"
  by (induction ks rule: awaited.induct) (auto split: if_splits simp: collection_simps)

lemma evict_drop: "1 \<le> m \<Longrightarrow> evict m ids = drop (Suc (length ids) - nat m) ids"
  by (induction m ids rule: evict.induct) (auto simp: Suc_diff_le split: if_splits)

lemma length_evict: "1 \<le> m \<Longrightarrow> int (length (evict m ids)) < m"
  by (induction m ids rule: evict.induct) auto

lemma set_evict: "set (evict m ids) \<subseteq> set ids"
  by (induction m ids rule: evict.induct) auto

lemma distinct_evict: "distinct ids \<Longrightarrow> distinct (evict m ids)"
  by (induction m ids rule: evict.induct) auto

lemma retire_bound: "1 \<le> m \<Longrightarrow> int (length (retire m i ids)) \<le> m"
  using length_evict [of m ids] by (auto simp: retire_def set_add_def)

lemma retire_set: "set (retire m i ids) \<subseteq> insert i (set ids)"
  using set_evict [of m ids] by (auto simp: retire_def)

lemma retire_distinct: "distinct ids \<Longrightarrow> distinct (retire m i ids)"
  by (simp add: retire_def distinct_evict)

lemma retire_mem [simp]: "i \<in> set (retire m i ids)"
  by (simp add: retire_def)

text \<open>Each change of the ledger that the handlers compose keeps the invariant.\<close>

lemma ledger_await_other:
  "ledger_inv cfg as rs ks n ts \<Longrightarrow> (\<And>rpc i. k \<noteq> AwaitInvoke rpc i) \<Longrightarrow>
   ledger_inv cfg as rs (ks @ [(n, k)]) (Suc n) ts"
  by (cases k) (auto simp: ledger_inv_def less_Suc_eq)

lemma ledger_drop_other:
  "ledger_inv cfg as rs ks n ts \<Longrightarrow> map_of ks tok = Some k \<Longrightarrow> (\<And>rpc i. k \<noteq> AwaitInvoke rpc i) \<Longrightarrow>
   ledger_inv cfg as rs (AList.delete tok ks) n ts"
  by (auto simp: ledger_inv_def awaited_delete_other distinct_delete collection_simps)

lemma ledger_admit:
  assumes "ledger_inv cfg as rs ks n ts" and "i \<notin> set as" and "i \<notin> set rs"
    and "int (length as) < sc_maxConcurrentRequests cfg" and "set ts' \<subseteq> insert i (set ts)"
  shows "ledger_inv cfg (as @ [i]) rs (ks @ [(n, AwaitInvoke rpc i)]) (Suc n) ts'"
  using assms by (auto simp: ledger_inv_def less_Suc_eq)

lemma ledger_retire:
  assumes "ledger_inv cfg as rs ks n ts" and "1 \<le> sc_maxRetiredRequestIds cfg" and "i \<notin> set as"
    and "set ts' \<subseteq> set ts"
  shows "ledger_inv cfg as (retire (sc_maxRetiredRequestIds cfg) i rs) ks n ts'"
  using assms retire_bound [of "sc_maxRetiredRequestIds cfg" i rs] retire_set [of "sc_maxRetiredRequestIds cfg" i rs]
  by (auto simp: ledger_inv_def retire_distinct)

lemma ledger_disarm: "ledger_inv cfg as rs ks n ts \<Longrightarrow> ledger_inv cfg as rs ks n (set_delete i ts)"
  by (auto simp: ledger_inv_def)

lemma ledger_finish:
  assumes "ledger_inv cfg as rs ks n ts" and "1 \<le> sc_maxRetiredRequestIds cfg"
    and "map_of ks tok = Some (AwaitInvoke rpc i)"
  shows "ledger_inv cfg (set_delete i as) (retire (sc_maxRetiredRequestIds cfg) i rs) (AList.delete tok ks) n
    (set_delete i ts)"
proof -
  have "distinct (awaited (AList.delete tok ks)) \<and> set (awaited (AList.delete tok ks)) = set as - {i}"
    using assms awaited_delete_invoke [of ks tok rpc i] by (auto simp: ledger_inv_def)
  moreover have "length (set_delete i as) \<le> length as" by (rule length_set_delete_le)
  ultimately have "ledger_inv cfg (set_delete i as) rs (AList.delete tok ks) n (set_delete i ts)"
    using assms by (auto simp: ledger_inv_def distinct_delete collection_simps)
  then show ?thesis using assms(2) by (rule ledger_retire) auto
qed

lemma active_keys_map: "map fst (map (\<lambda>(i, r). (i, f i r)) m) = map fst m"
  by (induction m) auto

lemma active_keys_map_if: "map fst (map (\<lambda>(i, r). if i = j then (i, f r) else (i, r)) m) = map fst m"
  by (induction m) auto

lemma server_inv_cancel [simp]:
  "server_inv cfg (cancel_all s) = server_inv cfg s" "server_inv cfg (cancel_one i s) = server_inv cfg s"
  by (simp_all add: server_inv_def cancel_all_def cancel_one_def active_keys_map active_keys_map_if
      del: map_map)

lemma server_inv_fields [simp]:
  "server_inv cfg (s\<lparr>accepting := b\<rparr>) = server_inv cfg s"
  "server_inv cfg (s\<lparr>listening := b\<rparr>) = server_inv cfg s"
  "server_inv cfg (s\<lparr>stop_scheduled := b\<rparr>) = server_inv cfg s"
  "server_inv cfg (s\<lparr>current_instance := i\<rparr>) = server_inv cfg s"
  "server_inv cfg (s\<lparr>session := t\<rparr>) = server_inv cfg s"
  "server_inv cfg (s\<lparr>admittedHandshake := h\<rparr>) = server_inv cfg s"
  by (simp_all add: server_inv_def)

lemma server_inv_await_other:
  "server_inv cfg s \<Longrightarrow> (\<And>rpc i. k \<noteq> AwaitInvoke rpc i) \<Longrightarrow> server_inv cfg (await k s)"
  by (simp add: server_inv_def await_def ledger_await_other)

lemma server_inv_drop_other:
  "server_inv cfg s \<Longrightarrow> map_of (pending s) tok = Some k \<Longrightarrow> (\<And>rpc i. k \<noteq> AwaitInvoke rpc i) \<Longrightarrow>
   server_inv cfg (drop_token tok s)"
  by (auto simp: server_inv_def drop_token_def intro: ledger_drop_other)

lemma server_inv_admit_await:
  assumes "server_inv cfg s" and "\<not> map_has (activeRequests s) i" and "i \<notin> set (retiredRequestIds s)"
    and "int (length (activeRequests s)) < sc_maxConcurrentRequests cfg"
  shows "server_inv cfg (await (AwaitInvoke rpc i) (admit_request i deadline s))"
  using assms
  by (auto simp: server_inv_def await_def admit_request_def update_fresh map_has_iff intro!: ledger_admit)

lemma server_inv_admit_finish:
  assumes "server_inv cfg s" and "\<not> map_has (activeRequests s) i" and "valid_config cfg"
  shows "server_inv cfg (finish_request cfg i (admit_request i deadline s))"
  using assms
  by (auto simp: server_inv_def admit_request_def finish_request_def update_fresh delete_append_fresh map_has_iff
      valid_config_def intro!: ledger_retire)

lemma server_inv_finish:
  assumes "server_inv cfg s" and "map_of (pending s) tok = Some (AwaitInvoke rpc i)" and "valid_config cfg"
  shows "server_inv cfg (finish_request cfg i (drop_token tok s))"
  using assms ledger_finish
  by (auto simp: server_inv_def finish_request_def drop_token_def map_fst_delete valid_config_def)

subsection \<open>Every event keeps the ledger\<close>

lemma server_inv_initial: "valid_config cfg \<Longrightarrow> server_inv cfg (initial_server cfg)"
  by (simp add: server_inv_def ledger_inv_def initial_server_def valid_config_def)

lemma server_inv_handshake: "server_inv cfg s \<Longrightarrow> server_inv cfg (snd (handle_handshake cfg s rpc params uuid))"
  by (simp add: handle_handshake_def Let_def split: sum.split)

lemma server_inv_handle_cancel: "server_inv cfg s \<Longrightarrow> server_inv cfg (snd (handle_cancel s rpc params))"
  by (simp add: handle_cancel_def Let_def split: option.split)

lemma server_inv_activate: "server_inv cfg s \<Longrightarrow> server_inv cfg (snd (handle_activate cfg s rpc params))"
  by (simp add: handle_activate_def server_inv_await_other split: option.split sum.split prod.split)

lemma server_inv_shutdown: "server_inv cfg s \<Longrightarrow> server_inv cfg (snd (handle_shutdown cfg s rpc params))"
  by (simp add: handle_shutdown_def Let_def server_inv_await_other)

lemma server_inv_request:
  "valid_config cfg \<Longrightarrow> server_inv cfg s \<Longrightarrow> server_inv cfg (snd (handle_request cfg s rpc params))"
  by (simp add: handle_request_def Let_def server_inv_admit_await server_inv_admit_finish
      split: option.split sum.split)

lemma snd_reply [simp]: "snd (case p of (r, s') \<Rightarrow> (Some r, s')) = snd p"
  by (simp split: prod.split)

text \<open>What every handler establishes, the dispatcher establishes.\<close>

lemma fetch_rule:
  assumes "P s" and "\<And>rpc params uuid. P (snd (handle_handshake cfg s rpc params uuid))"
    and "\<And>rpc params. P (snd (handle_cancel s rpc params))"
    and "\<And>rpc params. P (snd (handle_activate cfg s rpc params))"
    and "\<And>rpc params. P (snd (handle_shutdown cfg s rpc params))"
    and "\<And>rpc params. P (snd (handle_request cfg s rpc params))"
  shows "P (snd (handle_fetch to_number parse cfg s request uuid))"
  using assms
  by (simp add: handle_fetch_def handle_envelope_def Let_def split: sum.split option.split body_error.split)

lemma server_inv_fetch:
  "valid_config cfg \<Longrightarrow> server_inv cfg s \<Longrightarrow> server_inv cfg (snd (handle_fetch to_number parse cfg s request uuid))"
  by (rule fetch_rule) (simp_all add: server_inv_activate server_inv_shutdown server_inv_request
      server_inv_handshake server_inv_handle_cancel)

lemma server_inv_fire: "server_inv cfg s \<Longrightarrow> server_inv cfg (fire_deadline i s)"
  by (simp add: fire_deadline_def server_inv_def active_keys_map_if ledger_disarm del: map_map)

lemma server_inv_step:
  assumes "valid_config cfg" and "server_inv cfg s"
  shows "server_inv cfg (next_server to_number parse cfg s e)"
proof (cases e)
  case (Fetch request uuid)
  then show ?thesis using assms by (simp add: next_server_def server_inv_fetch)
next
  case (InvokeSettled tok settled)
  then show ?thesis using assms
    by (simp add: next_server_def invoke_settled_def server_inv_finish split: option.split continuation.split)
next
  case (CreateSettled tok settled)
  then show ?thesis using assms
    by (simp add: next_server_def create_settled_def server_inv_drop_other
        split: option.split continuation.split sum.split)
next
  case (StopSettled tok settled)
  then show ?thesis using assms
    by (simp add: next_server_def stop_settled_def server_inv_drop_other split: option.split continuation.split)
qed (use assms in \<open>simp_all add: next_server_def server_inv_fire\<close>)

text \<open>The server under a valid configuration, as an instance of the step contract.\<close>

definition checked_step ::
  "(string \<Rightarrow> js_number) \<Rightarrow> (string \<Rightarrow> json option) \<Rightarrow> server_config \<times> plugin_server \<Rightarrow> server_event \<Rightarrow>
   server_config \<times> plugin_server" where
  "checked_step to_number parse cs e = (fst cs, next_server to_number parse (fst cs) (snd cs) e)"

interpretation server: step_invariant "checked_step to_number parse" "\<lambda>cs. valid_config (fst cs) \<and> server_inv (fst cs) (snd cs)"
  for to_number parse
  by unfold_locales (auto simp: checked_step_def server_inv_step)

lemma run_checked_step:
  "run (checked_step to_number parse) (cfg, s) es = (cfg, run (next_server to_number parse cfg) s es)"
  by (induction es arbitrary: s) (auto simp: checked_step_def)

lemma server_inv_run:
  "valid_config cfg \<Longrightarrow> server_inv cfg s \<Longrightarrow> server_inv cfg (run (next_server to_number parse cfg) s es)"
  using server.inv_run [of "(cfg, s)" to_number parse es] by (simp add: run_checked_step)

lemma positive_option_Inr: "positive_option err fallback v = Inr n \<Longrightarrow> 1 \<le> fallback \<Longrightarrow> 1 \<le> n"
  by (auto simp: positive_option_def split: option.splits if_splits)

lemma start_config_valid:
  assumes "definePlugin opts = Inr d" and "start_config d user o' = Inr cfg"
  shows "valid_config cfg"
proof -
  have "1 \<le> def_maxConcurrentRequests d"
    using assms(1) unfolding definePlugin_def
    by (auto simp: result_simps max_concurrent_Inr split: option.splits if_splits)
  moreover obtain bs where "concreteProviders (def_providers d) = Inr bs"
    using assms(2) unfolding start_config_def
    by (cases "concreteProviders (def_providers d)") (auto simp: result_simps)
  ultimately show ?thesis
    using assms(2) unfolding start_config_def
    by (auto simp: result_simps valid_config_def DEFAULT_MAX_FRAME_BYTES_def DEFAULT_MAX_RETIRED_REQUEST_IDS_def
        dest!: positive_option_Inr)
qed

text \<open>C2. Limits and ledger of the JSON-RPC server, in every schedule of requests, settlements,
  timers and stops: at most \<open>maxConcurrentRequests\<close> requests are active and at most
  \<open>maxRetiredRequestIds\<close> identities are retained, no identity is both active and retired, the
  active requests are exactly those whose Provider call has not settled (none is leaked, none is
  forgotten), and only active requests have a timer.\<close>

theorem server_limits:
  assumes "definePlugin opts = Inr d" and "start_config d user o' = Inr cfg"
    and "s = run (next_server to_number parse cfg) (initial_server cfg) es"
  shows "int (length (activeRequests s)) \<le> sc_maxConcurrentRequests cfg \<and>
    int (length (retiredRequestIds s)) \<le> sc_maxRetiredRequestIds cfg \<and>
    distinct (map fst (activeRequests s)) \<and> distinct (retiredRequestIds s) \<and>
    fst ` set (activeRequests s) \<inter> set (retiredRequestIds s) = {} \<and>
    fst ` set (activeRequests s) = set (awaited (pending s)) \<and> distinct (awaited (pending s)) \<and>
    set (timers s) \<subseteq> fst ` set (activeRequests s)"
  using server_inv_run [OF start_config_valid [OF assms(1,2)] server_inv_initial
      [OF start_config_valid [OF assms(1,2)]], of to_number parse es] assms(3)
  by (simp add: server_inv_def ledger_inv_def)

section \<open>Replay protection\<close>

text \<open>
  The identities of the requests that complete, read off the events and the calls under way: a
  Provider call that settles completes its request, and a request that is admitted completes at once
  when its invocation context cannot be built or its deadline is already over. The retired
  identities of the server play no part in it, other than in what is admitted.
\<close>

definition envelope_params :: "json \<Rightarrow> json option" where
  "envelope_params envelope = (case field envelope ''params'' of Some (JArr [p]) \<Rightarrow> Some p | p \<Rightarrow> p)"

definition posted_request ::
  "(string \<Rightarrow> js_number) \<Rightarrow> (string \<Rightarrow> json option) \<Rightarrow> server_config \<Rightarrow> http_request \<Rightarrow> json option option" where
  "posted_request to_number parse cfg request =
     (if http_method request \<noteq> ''POST'' then None
      else case readBoundedBody to_number (http_content_length request) (http_body request) (sc_maxFrameBytes cfg) of
        Inl _ \<Rightarrow> None
      | Inr body \<Rightarrow>
          (case parse body of
             None \<Rightarrow> None
           | Some envelope \<Rightarrow>
               if envelope \<noteq> JNull \<and> field envelope ''jsonrpc'' = Some (JStr ''2.0'') \<and>
                  field envelope ''method'' = Some (JStr ''lenso.request'')
               then Some (objectParam (envelope_params envelope))
               else None))"

definition request_admitted :: "server_config \<Rightarrow> plugin_server \<Rightarrow> json option \<Rightarrow> int \<Rightarrow> bool" where
  "request_admitted cfg s wire i \<longleftrightarrow>
     accepting s \<and> admittedHandshake s \<noteq> None \<and> current_instance s \<noteq> None \<and> validWireRequest wire (session s) \<and>
     i = the (request_id_of (ofield wire ''request_id'')) \<and>
     i \<notin> fst ` set (activeRequests s) \<and> i \<notin> set (retiredRequestIds s) \<and>
     int (length (activeRequests s)) < sc_maxConcurrentRequests cfg \<and>
     providerByCapability cfg (text_of (ofield wire ''capability_id'')) \<noteq> None"

definition answered_at_once :: "json option \<Rightarrow> bool" where
  "answered_at_once wire \<longleftrightarrow>
     (\<exists>e. invocationContext wire = Inl e) \<or> request_id_of (ofield wire ''deadline_nanos'') = Some 0"

fun completion ::
  "(string \<Rightarrow> js_number) \<Rightarrow> (string \<Rightarrow> json option) \<Rightarrow> server_config \<Rightarrow> plugin_server \<Rightarrow> server_event \<Rightarrow> int list" where
  "completion to_number parse cfg s (InvokeSettled tok settled) =
     (case map_of (pending s) tok of Some (AwaitInvoke rpc i) \<Rightarrow> [i] | _ \<Rightarrow> [])"
| "completion to_number parse cfg s (Fetch request uuid) =
     (case posted_request to_number parse cfg request of
        None \<Rightarrow> []
      | Some wire \<Rightarrow>
          (let i = the (request_id_of (ofield wire ''request_id'')) in
           if request_admitted cfg s wire i \<and> answered_at_once wire then [i] else []))"
| "completion to_number parse cfg s _ = []"

fun completions ::
  "(string \<Rightarrow> js_number) \<Rightarrow> (string \<Rightarrow> json option) \<Rightarrow> server_config \<Rightarrow> plugin_server \<Rightarrow> server_event list \<Rightarrow> int list" where
  "completions to_number parse cfg s [] = []"
| "completions to_number parse cfg s (e # es) =
     completion to_number parse cfg s e @ completions to_number parse cfg (next_server to_number parse cfg s e) es"

definition last_n :: "int \<Rightarrow> 'a list \<Rightarrow> 'a list" where
  "last_n m xs = drop (length xs - nat m) xs"

lemma retire_fresh: "1 \<le> m \<Longrightarrow> i \<notin> set ids \<Longrightarrow> retire m i ids = evict m ids @ [i]"
  using set_evict [of m ids] by (auto simp: retire_def set_add_def)

lemma retire_last_n:
  assumes "1 \<le> m" and "i \<notin> set (last_n m c)"
  shows "retire m i (last_n m c) = last_n m (c @ [i])"
proof -
  have "evict m (last_n m c) = drop (Suc (length c) - nat m) c"
    using assms(1) by (auto simp: evict_drop last_n_def intro!: arg_cong [where f = "\<lambda>k. drop k c"])
  then show ?thesis using assms by (simp add: retire_fresh) (auto simp: last_n_def)
qed

lemma retired_unchanged [simp]:
  "retiredRequestIds (cancel_all s) = retiredRequestIds s" "retiredRequestIds (cancel_one i s) = retiredRequestIds s"
  "retiredRequestIds (await k s) = retiredRequestIds s" "retiredRequestIds (admit_request i d s) = retiredRequestIds s"
  "retiredRequestIds (drop_token tok s) = retiredRequestIds s" "retiredRequestIds (fire_deadline i s) = retiredRequestIds s"
  "retiredRequestIds (snd (handle_handshake cfg s rpc params uuid)) = retiredRequestIds s"
  "retiredRequestIds (snd (handle_cancel s rpc params)) = retiredRequestIds s"
  "retiredRequestIds (snd (create_settled s tok rpc settled)) = retiredRequestIds s"
  "retiredRequestIds (snd (stop_settled s tok rpc stopped)) = retiredRequestIds s"
  by (simp_all add: cancel_all_def cancel_one_def await_def admit_request_def drop_token_def fire_deadline_def
      handle_handshake_def handle_cancel_def create_settled_def stop_settled_def Let_def
      split: sum.split option.split)

lemma retired_unchanged_activate [simp]:
  "retiredRequestIds (snd (handle_activate cfg s rpc params)) = retiredRequestIds s"
  by (simp add: handle_activate_def split: option.split sum.split prod.split)

lemma retired_unchanged_shutdown [simp]:
  "retiredRequestIds (snd (handle_shutdown cfg s rpc params)) = retiredRequestIds s"
  by (simp add: handle_shutdown_def Let_def)

text \<open>A step that completes the identities \<open>is\<close> retires them, and they were not retired before.\<close>

definition retires :: "server_config \<Rightarrow> plugin_server \<Rightarrow> int list \<Rightarrow> plugin_server \<Rightarrow> bool" where
  "retires cfg s is s' \<longleftrightarrow>
     (is = [] \<and> retiredRequestIds s' = retiredRequestIds s) \<or>
     (\<exists>i. is = [i] \<and> i \<notin> set (retiredRequestIds s) \<and>
        retiredRequestIds s' = retire (sc_maxRetiredRequestIds cfg) i (retiredRequestIds s))"

lemma retires_none [simp]: "retires cfg s [] s' \<longleftrightarrow> retiredRequestIds s' = retiredRequestIds s"
  by (simp add: retires_def)

lemma retires_finish [simp]:
  "i \<notin> set (retiredRequestIds s) \<Longrightarrow> retiredRequestIds t = retiredRequestIds s \<Longrightarrow> retires cfg s [i] (finish_request cfg i t)"
  by (simp add: retires_def finish_request_def)

lemma retires_request:
  "retires cfg s
     (let wire = objectParam params; i = the (request_id_of (ofield wire ''request_id'')) in
      if request_admitted cfg s wire i \<and> answered_at_once wire then [i] else [])
     (snd (handle_request cfg s rpc params))"
  by (cases "invocationContext (objectParam params)")
    (auto simp: handle_request_def request_admitted_def answered_at_once_def Let_def map_has_iff split: option.split)

lemma retires_fetch:
  "retires cfg s (completion to_number parse cfg s (Fetch request uuid)) (snd (handle_fetch to_number parse cfg s request uuid))"
proof (cases "posted_request to_number parse cfg request")
  case None
  then show ?thesis
    by (auto simp: posted_request_def handle_fetch_def handle_envelope_def Let_def
        split: if_splits sum.splits option.splits body_error.splits prod.splits)
next
  case (Some wire)
  then obtain body envelope where "http_method request = ''POST''"
    and "readBoundedBody to_number (http_content_length request) (http_body request) (sc_maxFrameBytes cfg) = Inr body"
    and "parse body = Some envelope" "envelope \<noteq> JNull" "field envelope ''jsonrpc'' = Some (JStr ''2.0'')"
    and "field envelope ''method'' = Some (JStr ''lenso.request'')" "wire = objectParam (envelope_params envelope)"
    by (auto simp: posted_request_def split: if_splits sum.splits option.splits)
  moreover from this have "\<exists>rpc. handle_fetch to_number parse cfg s request uuid = handle_request cfg s rpc (envelope_params envelope)"
    by (simp add: handle_fetch_def handle_envelope_def envelope_params_def Let_def is_text_def) blast
  ultimately show ?thesis using Some retires_request [of cfg s "envelope_params envelope"] by (auto simp: Let_def)
qed

lemma retires_step:
  assumes "server_inv cfg s"
  shows "retires cfg s (completion to_number parse cfg s e) (next_server to_number parse cfg s e)"
proof (cases e)
  case (Fetch request uuid)
  then show ?thesis using retires_fetch by (simp add: next_server_def del: completion.simps)
next
  case (InvokeSettled tok settled)
  have "i \<notin> set (retiredRequestIds s)" if "map_of (pending s) tok = Some (AwaitInvoke rpc i)" for rpc i
    using awaited_mem [OF that] assms by (auto simp: server_inv_def ledger_inv_def)
  then show ?thesis using InvokeSettled
    by (simp add: next_server_def invoke_settled_def split: option.split continuation.split)
qed (simp_all add: next_server_def split: option.split continuation.split)

lemma last_n_completion:
  assumes "valid_config cfg" and "retires cfg s is s'"
    and "retiredRequestIds s = last_n (sc_maxRetiredRequestIds cfg) c"
  shows "retiredRequestIds s' = last_n (sc_maxRetiredRequestIds cfg) (c @ is)"
  using assms by (auto simp: retires_def retire_last_n valid_config_def)

lemma run_last_n:
  assumes "valid_config cfg" and "server_inv cfg s"
    and "retiredRequestIds s = last_n (sc_maxRetiredRequestIds cfg) c"
  shows "retiredRequestIds (run (next_server to_number parse cfg) s es) =
    last_n (sc_maxRetiredRequestIds cfg) (c @ completions to_number parse cfg s es)"
  using assms(2,3)
proof (induction es arbitrary: s c)
  case Nil
  then show ?case by simp
next
  case (Cons e es)
  have "retiredRequestIds (next_server to_number parse cfg s e) =
      last_n (sc_maxRetiredRequestIds cfg) (c @ completion to_number parse cfg s e)"
    using last_n_completion [OF assms(1) retires_step] Cons.prems by blast
  then show ?case
    using Cons.IH [OF server_inv_step [OF assms(1)]] Cons.prems by simp
qed

text \<open>C5. Replay window. In every schedule the retained identities are exactly the last
  \<open>maxRetiredRequestIds\<close> identities of completed requests, in order of completion, where a request
  completes when its Provider call settles, or when it is admitted and its context is invalid or its
  deadline is over; a well-formed request that reuses one of them, or the identity of an active
  request, is answered with a protocol violation and leaves the server as it was.\<close>

theorem server_replay_window:
  assumes "definePlugin opts = Inr d" and "start_config d user o' = Inr cfg"
    and "s = run (next_server to_number parse cfg) (initial_server cfg) es"
  shows "retiredRequestIds s = last_n (sc_maxRetiredRequestIds cfg) (completions to_number parse cfg (initial_server cfg) es) \<and>
    (\<forall>rpc params i. request_id_of (ofield (objectParam params) ''request_id'') = Some i \<and>
       i \<in> set (last_n (sc_maxRetiredRequestIds cfg) (completions to_number parse cfg (initial_server cfg) es)) \<union>
         fst ` set (activeRequests s) \<and>
       validWireRequest (objectParam params) (session s) \<and> accepting s \<and> admittedHandshake s \<noteq> None \<and>
       current_instance s \<noteq> None \<longrightarrow>
       handle_request cfg s rpc params =
         (Some (jsonRpcResult rpc (Some (protocolViolation ''duplicate or retired request id'')) None), s))"
proof -
  have v: "valid_config cfg" using start_config_valid assms(1,2) by blast
  have window: "retiredRequestIds s =
      last_n (sc_maxRetiredRequestIds cfg) (completions to_number parse cfg (initial_server cfg) es)"
    using run_last_n [OF v server_inv_initial [OF v], of "[]"] assms(3)
    by (simp add: initial_server_def last_n_def)
  have "handle_request cfg s rpc params =
      (Some (jsonRpcResult rpc (Some (protocolViolation ''duplicate or retired request id'')) None), s)"
    if "request_id_of (ofield (objectParam params) ''request_id'') = Some i"
      "i \<in> set (retiredRequestIds s) \<union> fst ` set (activeRequests s)"
      "validWireRequest (objectParam params) (session s)" "accepting s" "admittedHandshake s \<noteq> None" "current_instance s \<noteq> None"
    for rpc params i
  proof -
    have "map_has (activeRequests s) i \<or> i \<in> set (retiredRequestIds s)" using that(2) by (auto simp: map_has_iff)
    then show ?thesis using that by (auto simp: handle_request_def Let_def)
  qed
  then show ?thesis using window by (metis (no_types, lifting))
qed

section \<open>Shutdown\<close>

definition stopped_like :: "plugin_server \<Rightarrow> plugin_server \<Rightarrow> bool" where
  "stopped_like s s' \<longleftrightarrow> \<not> accepting s' \<and> session s' = session s \<and> admittedHandshake s' = admittedHandshake s \<and>
     set (awaited (pending s')) \<subseteq> set (awaited (pending s))"

lemma awaited_delete_subset: "set (awaited (AList.delete tok ks)) \<subseteq> set (awaited ks)"
  by (induction ks rule: awaited.induct) auto

lemma stopped_like_refl: "\<not> accepting s \<Longrightarrow> stopped_like s s"
  by (simp add: stopped_like_def)

lemma stopped_like_drop: "\<not> accepting s \<Longrightarrow> stopped_like s (drop_token tok s)"
  by (simp add: stopped_like_def drop_token_def awaited_delete_subset)

lemma stopped_like_await:
  "stopped_like s (await (AwaitCreate rpc) t) = stopped_like s t"
  "stopped_like s (await (AwaitStop rpc) t) = stopped_like s t"
  by (simp_all add: stopped_like_def await_def)

lemma stopped_like_fields:
  "stopped_like s (cancel_all t) = stopped_like s t"
  "stopped_like s (cancel_one i t) = stopped_like s t"
  "stopped_like s (fire_deadline i t) = stopped_like s t"
  "stopped_like s (finish_request cfg i t) = stopped_like s t"
  "stopped_like s (t\<lparr>stop_scheduled := b\<rparr>) = stopped_like s t"
  "stopped_like s (t\<lparr>listening := b\<rparr>) = stopped_like s t"
  "stopped_like s (t\<lparr>current_instance := j\<rparr>) = stopped_like s t"
  by (simp_all add: stopped_like_def cancel_all_def cancel_one_def fire_deadline_def finish_request_def)

lemma stopped_like_closed: "\<not> accepting s \<Longrightarrow> stopped_like s (s\<lparr>accepting := False\<rparr>)"
  by (simp add: stopped_like_def)

lemmas stopped_like_basic = stopped_like_refl stopped_like_drop stopped_like_await stopped_like_fields
  stopped_like_closed

lemma stopped_like_handlers:
  assumes "\<not> accepting s"
  shows "stopped_like s (snd (handle_handshake cfg s rpc params uuid))"
    and "stopped_like s (snd (handle_cancel s rpc params))"
    and "stopped_like s (snd (handle_activate cfg s rpc params))"
    and "stopped_like s (snd (handle_shutdown cfg s rpc params))"
    and "stopped_like s (snd (handle_request cfg s rpc params))"
proof -
  show "stopped_like s (snd (handle_handshake cfg s rpc params uuid))"
    using assms by (simp add: handle_handshake_def handshake_accepted_def Let_def stopped_like_refl)
  show "stopped_like s (snd (handle_cancel s rpc params))"
    using assms by (simp add: handle_cancel_def Let_def stopped_like_basic split: option.split)
  show "stopped_like s (snd (handle_activate cfg s rpc params))"
    using assms by (simp add: handle_activate_def stopped_like_basic split: option.split sum.split prod.split)
  show "stopped_like s (snd (handle_shutdown cfg s rpc params))"
    using assms by (simp add: handle_shutdown_def Let_def stopped_like_basic)
  show "stopped_like s (snd (handle_request cfg s rpc params))"
    using assms by (simp add: handle_request_def Let_def stopped_like_refl)
qed

lemma stopped_like_fetch:
  "\<not> accepting s \<Longrightarrow> stopped_like s (snd (handle_fetch to_number parse cfg s request uuid))"
  by (rule fetch_rule) (simp_all add: stopped_like_handlers stopped_like_refl)

lemma stopped_like_step:
  "\<not> accepting s \<Longrightarrow> stopped_like s (next_server to_number parse cfg s e)"
  by (cases e) (simp_all add: next_server_def stopped_like_fetch stopped_like_basic
      invoke_settled_def create_settled_def stop_settled_def split: sum.split option.split continuation.split)

lemma stopped_like_trans: "stopped_like s t \<Longrightarrow> stopped_like t u \<Longrightarrow> stopped_like s u"
  by (auto simp: stopped_like_def)

text \<open>C18. Shutdown is final. Once the server has stopped accepting (a shutdown request or the
  handle's \<open>stop\<close>), in every continuation it stays so: no handshake replaces the session, and
  no further request reaches a Provider; the calls in flight can only drain.\<close>

theorem server_shutdown_final:
  assumes "\<not> accepting s"
  shows "stopped_like s (run (next_server to_number parse cfg) s es)"
  using assms
proof (induction es arbitrary: s)
  case Nil
  then show ?case by (simp add: stopped_like_basic)
next
  case (Cons e es)
  have "stopped_like s (next_server to_number parse cfg s e)"
    using Cons.prems by (rule stopped_like_step)
  then show ?case using Cons.IH by (auto simp: stopped_like_def)
qed

section \<open>Outcomes\<close>

lemma request_result_bounded: "bounded_response (sc_maxFrameBytes cfg) (request_result cfg rpc outcome)"
  by (simp add: bounded_response_def request_result_def jsonRpcResult_def json_object_response_def byte_length_def Let_def)

lemma awaited_active:
  assumes "server_inv cfg s" and "map_of (pending s) tok = Some (AwaitInvoke rpc i)"
  shows "\<exists>r. map_of (activeRequests s) i = Some r"
proof -
  have "i \<in> fst ` set (activeRequests s)"
    using assms awaited_mem [OF assms(2)] by (auto simp: server_inv_def ledger_inv_def)
  then show ?thesis by (metis map_of_eq_None_iff not_None_eq)
qed

text \<open>C14. Settlement of a Provider call, in every reachable state. The request is still active; an
  exception is a plugin failure, and otherwise an elapsed deadline takes precedence over a
  cancellation and both over the Provider's own outcome. The response is within the frame limit
  (or is the 413 refusal), and afterwards the identity is retired and no longer active.\<close>

theorem server_settlement:
  assumes "definePlugin opts = Inr d" and "start_config d user o' = Inr cfg"
    and "s = run (next_server to_number parse cfg) (initial_server cfg) es"
    and "map_of (pending s) tok = Some (AwaitInvoke rpc i)"
  shows "\<exists>r response s'. map_of (activeRequests s) i = Some r \<and>
    server_step to_number parse cfg s (InvokeSettled tok settled) = (Some response, s') \<and>
    response = request_result cfg rpc
      (case settled of
         Inl e \<Rightarrow> Some (plugin_failure e)
       | Inr outcome \<Rightarrow>
           if rs_deadlineExceeded r then Some (deadlineExceeded_outcome i)
           else if rs_cancelled r then Some (cancelled_outcome i)
           else outcome) \<and>
    bounded_response (sc_maxFrameBytes cfg) response \<and>
    i \<in> set (retiredRequestIds s') \<and> i \<notin> fst ` set (activeRequests s') \<and> map_of (pending s') tok = None"
proof -
  have v: "valid_config cfg" using start_config_valid assms(1,2) by blast
  then have inv: "server_inv cfg s" using server_inv_run server_inv_initial assms(3) by blast
  obtain r where "map_of (activeRequests s) i = Some r" using awaited_active [OF inv assms(4)] by blast
  then show ?thesis
    using assms(4)
    by (auto simp: invoke_settled_def invoke_outcome_def request_result_bounded finish_request_def drop_token_def
        collection_simps delete_conv' split: sum.split)
qed

subsection \<open>Cancellation is sticky\<close>

definition flags_le :: "request_state \<Rightarrow> request_state \<Rightarrow> bool" where
  "flags_le r r' \<longleftrightarrow> (rs_cancelled r \<longrightarrow> rs_cancelled r') \<and> (rs_deadlineExceeded r \<longrightarrow> rs_deadlineExceeded r')"

definition tracked :: "nat \<Rightarrow> json \<Rightarrow> int \<Rightarrow> request_state \<Rightarrow> plugin_server \<Rightarrow> bool" where
  "tracked tok rpc i r s \<longleftrightarrow> map_of (pending s) tok = Some (AwaitInvoke rpc i) \<and>
     (\<exists>r'. map_of (activeRequests s) i = Some r' \<and> flags_le r r')"

definition gone :: "nat \<Rightarrow> plugin_server \<Rightarrow> bool" where
  "gone tok s \<longleftrightarrow> map_of (pending s) tok = None \<and> tok < next_token s"

lemma map_of_map_if:
  "map_of (map (\<lambda>(i, r). if i = j then (i, f r) else (i, r)) m) i =
   map_option (\<lambda>r. if i = j then f r else r) (map_of m i)"
  by (induction m) auto

lemma tracked_cancel_all: "tracked tok rpc i r s \<Longrightarrow> tracked tok rpc i r (cancel_all s)"
  by (auto simp: tracked_def cancel_all_def map_of_map flags_le_def cancel_state_def)

lemma tracked_cancel_one: "tracked tok rpc i r s \<Longrightarrow> tracked tok rpc i r (cancel_one j s)"
  by (cases "i = j") (auto simp: tracked_def cancel_one_def map_of_map_if flags_le_def cancel_state_def)

lemma tracked_fire: "tracked tok rpc i r s \<Longrightarrow> tracked tok rpc i r (fire_deadline j s)"
  by (cases "i = j") (auto simp: tracked_def fire_deadline_def map_of_map_if flags_le_def)

lemmas tracked_cancel = tracked_cancel_all tracked_cancel_one tracked_fire

lemma tracked_fields [simp]:
  "tracked tok rpc i r (s\<lparr>accepting := b\<rparr>) = tracked tok rpc i r s"
  "tracked tok rpc i r (s\<lparr>listening := b\<rparr>) = tracked tok rpc i r s"
  "tracked tok rpc i r (s\<lparr>stop_scheduled := b\<rparr>) = tracked tok rpc i r s"
  "tracked tok rpc i r (s\<lparr>current_instance := j\<rparr>) = tracked tok rpc i r s"
  "tracked tok rpc i r (s\<lparr>session := t\<rparr>) = tracked tok rpc i r s"
  "tracked tok rpc i r (s\<lparr>admittedHandshake := h\<rparr>) = tracked tok rpc i r s"
  by (simp_all add: tracked_def)

lemma tracked_await: "tracked tok rpc i r s \<Longrightarrow> tracked tok rpc i r (await k s)"
  by (auto simp: tracked_def await_def)

lemma tracked_admit:
  "tracked tok rpc i r s \<Longrightarrow> \<not> map_has (activeRequests s) j \<Longrightarrow> tracked tok rpc i r (admit_request j d s)"
  by (auto simp: tracked_def admit_request_def map_has_def update_conv')

lemma tracked_finish:
  "tracked tok rpc i r s \<Longrightarrow> i \<noteq> j \<Longrightarrow> tracked tok rpc i r (finish_request cfg j s)"
  by (auto simp: tracked_def finish_request_def delete_conv')

lemma tracked_drop: "tracked tok rpc i r s \<Longrightarrow> t \<noteq> tok \<Longrightarrow> tracked tok rpc i r (drop_token t s)"
  by (auto simp: tracked_def drop_token_def delete_conv')

lemma tracked_not_fresh: "tracked tok rpc i r s \<Longrightarrow> \<not> map_has (activeRequests s) j \<Longrightarrow> i \<noteq> j"
  by (auto simp: tracked_def map_has_def)

lemma tracked_request:
  "tracked tok rpc i r s \<Longrightarrow> tracked tok rpc i r (snd (handle_request cfg s rpc' params))"
  using tracked_not_fresh [of tok rpc i r s]
  by (simp add: handle_request_def Let_def tracked_await tracked_finish tracked_admit split: option.split sum.split)

lemma tracked_handlers:
  assumes "tracked tok rpc i r s"
  shows "tracked tok rpc i r (snd (handle_handshake cfg s rpc' params uuid))"
    and "tracked tok rpc i r (snd (handle_cancel s rpc' params))"
    and "tracked tok rpc i r (snd (handle_activate cfg s rpc' params))"
    and "tracked tok rpc i r (snd (handle_shutdown cfg s rpc' params))"
proof -
  show "tracked tok rpc i r (snd (handle_handshake cfg s rpc' params uuid))"
    using assms by (simp add: handle_handshake_def Let_def split: sum.split)
  show "tracked tok rpc i r (snd (handle_cancel s rpc' params))"
    using assms by (simp add: handle_cancel_def Let_def tracked_cancel split: option.split)
  show "tracked tok rpc i r (snd (handle_activate cfg s rpc' params))"
    using assms by (simp add: handle_activate_def tracked_await split: option.split sum.split prod.split)
  show "tracked tok rpc i r (snd (handle_shutdown cfg s rpc' params))"
    using assms by (simp add: handle_shutdown_def Let_def tracked_await tracked_cancel)
qed

lemma tracked_fetch:
  "tracked tok rpc i r s \<Longrightarrow> tracked tok rpc i r (snd (handle_fetch to_number parse cfg s request uuid))"
  by (rule fetch_rule) (simp_all add: tracked_handlers tracked_request)

lemma tracked_settled:
  assumes "server_inv cfg s" and "tracked tok rpc i r s" and "map_of (pending s) t = Some (AwaitInvoke rpc' j)"
    and "t \<noteq> tok"
  shows "i \<noteq> j"
proof -
  have "i \<in> set (awaited (AList.delete t (pending s)))"
    using assms(2,4) by (intro awaited_mem [of _ tok rpc]) (auto simp: tracked_def delete_conv')
  then show ?thesis
    using assms awaited_delete_invoke [of "pending s" t rpc' j] by (auto simp: server_inv_def ledger_inv_def)
qed

lemma gone_drop: "tok < next_token s \<Longrightarrow> gone tok (drop_token tok s)"
  by (auto simp: gone_def drop_token_def delete_conv')

lemma gone_fields [simp]:
  "gone tok (s\<lparr>current_instance := j\<rparr>) = gone tok s" "gone tok (s\<lparr>stop_scheduled := b\<rparr>) = gone tok s"
  "gone tok (finish_request cfg i s) = gone tok s"
  by (simp_all add: gone_def finish_request_def)

lemma pending_token: "server_inv cfg s \<Longrightarrow> map_of (pending s) tok = Some k \<Longrightarrow> tok < next_token s"
  by (auto simp: server_inv_def ledger_inv_def dest!: map_of_SomeD)

lemma tracked_step:
  assumes "server_inv cfg s" and "tracked tok rpc i r s"
  shows "tracked tok rpc i r (next_server to_number parse cfg s e) \<or> gone tok (next_server to_number parse cfg s e)"
proof (cases e)
  case (Fetch request uuid)
  then show ?thesis using assms by (simp add: next_server_def tracked_fetch)
next
  case (InvokeSettled t settled)
  show ?thesis
  proof (cases "t = tok")
    case True
    then show ?thesis using InvokeSettled assms pending_token [OF assms(1)]
      by (auto simp: next_server_def invoke_settled_def gone_drop split: option.split continuation.split)
  next
    case False
    then show ?thesis using InvokeSettled assms tracked_settled [OF assms]
      by (auto simp: next_server_def invoke_settled_def tracked_drop tracked_finish split: option.split continuation.split)
  qed
next
  case (CreateSettled t settled)
  then have "t \<noteq> tok" if "map_of (pending s) t = Some (AwaitCreate rpc')" for rpc'
    using that assms(2) by (auto simp: tracked_def)
  then show ?thesis using CreateSettled assms
    by (auto simp: next_server_def create_settled_def tracked_drop split: option.split continuation.split sum.split)
next
  case (StopSettled t settled)
  then have "t \<noteq> tok" if "map_of (pending s) t = Some (AwaitStop rpc')" for rpc'
    using that assms(2) by (auto simp: tracked_def)
  then show ?thesis using StopSettled assms
    by (auto simp: next_server_def stop_settled_def tracked_drop split: option.split continuation.split)
qed (use assms in \<open>auto simp: next_server_def tracked_cancel\<close>)

text \<open>A token that has been used never comes back: tokens only grow.\<close>

definition tokens_grow :: "plugin_server \<Rightarrow> plugin_server \<Rightarrow> bool" where
  "tokens_grow s s' \<longleftrightarrow> next_token s \<le> next_token s' \<and>
     (\<forall>t < next_token s. map_of (pending s) t = None \<longrightarrow> map_of (pending s') t = None)"

lemma tokens_grow_basic [simp]:
  "tokens_grow s s" "tokens_grow s (cancel_all s)" "tokens_grow s (cancel_one i s)" "tokens_grow s (fire_deadline i s)"
  "tokens_grow s (drop_token t s)" "tokens_grow s (await k s)" "tokens_grow s (admit_request i d s)"
  by (auto simp: tokens_grow_def cancel_all_def cancel_one_def fire_deadline_def drop_token_def await_def
      admit_request_def delete_conv' map_add_def split: option.split)

lemma tokens_grow_fields [simp]:
  "tokens_grow s (t\<lparr>accepting := b\<rparr>) = tokens_grow s t"
  "tokens_grow s (t\<lparr>listening := b\<rparr>) = tokens_grow s t"
  "tokens_grow s (t\<lparr>stop_scheduled := b\<rparr>) = tokens_grow s t"
  "tokens_grow s (t\<lparr>current_instance := j\<rparr>) = tokens_grow s t"
  "tokens_grow s (t\<lparr>session := u\<rparr>) = tokens_grow s t"
  "tokens_grow s (t\<lparr>admittedHandshake := h\<rparr>) = tokens_grow s t"
  "tokens_grow s (finish_request cfg i t) = tokens_grow s t"
  by (simp_all add: tokens_grow_def finish_request_def)

lemma tokens_grow_trans: "tokens_grow s t \<Longrightarrow> tokens_grow t u \<Longrightarrow> tokens_grow s u"
  by (auto simp: tokens_grow_def)

lemma tokens_grow_handlers [simp]:
  "tokens_grow s (await k (cancel_all (s\<lparr>accepting := b\<rparr>)))"
  "tokens_grow s (cancel_all (s\<lparr>accepting := b\<rparr>))"
  "tokens_grow s (await k (admit_request i d s))"
  by (auto simp: tokens_grow_def cancel_all_def await_def admit_request_def map_add_def split: option.split)

lemma tokens_grow_fetch: "tokens_grow s (snd (handle_fetch to_number parse cfg s request uuid))"
proof (rule fetch_rule)
  show "tokens_grow s (snd (handle_handshake cfg s rpc params uuid))" for rpc params uuid
    by (simp add: handle_handshake_def Let_def split: sum.split)
  show "tokens_grow s (snd (handle_cancel s rpc params))" for rpc params
    by (simp add: handle_cancel_def Let_def split: option.split)
  show "tokens_grow s (snd (handle_activate cfg s rpc params))" for rpc params
    by (simp add: handle_activate_def split: option.split sum.split prod.split)
  show "tokens_grow s (snd (handle_shutdown cfg s rpc params))" for rpc params
    by (simp add: handle_shutdown_def Let_def)
  show "tokens_grow s (snd (handle_request cfg s rpc params))" for rpc params
    by (simp add: handle_request_def Let_def split: option.split sum.split)
qed simp

lemma tokens_grow_step: "tokens_grow s (next_server to_number parse cfg s e)"
  by (cases e) (simp_all add: next_server_def tokens_grow_fetch invoke_settled_def
      create_settled_def stop_settled_def split: sum.split option.split continuation.split)

lemma gone_run: "gone tok s \<Longrightarrow> gone tok (run (next_server to_number parse cfg) s es)"
proof (induction es arbitrary: s)
  case Nil
  then show ?case by simp
next
  case (Cons e es)
  then show ?case
    using tokens_grow_step [of s to_number parse cfg e] by (auto simp: gone_def tokens_grow_def)
qed

lemma tracked_run:
  assumes "valid_config cfg"
  shows "server_inv cfg s \<Longrightarrow> tracked tok rpc i r s \<Longrightarrow>
    map_of (pending (run (next_server to_number parse cfg) s es)) tok \<noteq> None \<Longrightarrow>
    tracked tok rpc i r (run (next_server to_number parse cfg) s es)"
proof (induction es arbitrary: s)
  case Nil
  then show ?case by simp
next
  case (Cons e es)
  let ?s' = "next_server to_number parse cfg s e"
  consider "tracked tok rpc i r ?s'" | "gone tok ?s'" using tracked_step Cons.prems by blast
  then show ?case
  proof cases
    case 1
    then show ?thesis using Cons server_inv_step [OF assms] by simp
  next
    case 2
    then show ?thesis using gone_run [OF 2, of to_number parse cfg es] Cons.prems by (simp add: gone_def)
  qed
qed

text \<open>C13. Cancellation and deadline are sticky. Once an active request has been cancelled or its
  deadline has passed, whatever happens before its Provider call settles, a value that the
  Provider then returns is not sent: the client gets the deadline or the cancellation failure.\<close>

theorem server_cancellation_sticky:
  assumes "definePlugin opts = Inr d" and "start_config d user o' = Inr cfg"
    and "s = run (next_server to_number parse cfg) (initial_server cfg) es"
    and "map_of (pending s) tok = Some (AwaitInvoke rpc i)" and "map_of (activeRequests s) i = Some r"
    and "rs_cancelled r \<or> rs_deadlineExceeded r"
    and "t = run (next_server to_number parse cfg) s fs" and "map_of (pending t) tok \<noteq> None"
  shows "fst (server_step to_number parse cfg t (InvokeSettled tok (Inr outcome))) \<in>
    {Some (request_result cfg rpc (Some (deadlineExceeded_outcome i))),
     Some (request_result cfg rpc (Some (cancelled_outcome i)))}"
proof -
  have v: "valid_config cfg" using start_config_valid assms(1,2) by blast
  then have inv: "server_inv cfg s" using server_inv_run server_inv_initial assms(3) by blast
  have "tracked tok rpc i r s" using assms(4,5) by (simp add: tracked_def flags_le_def)
  then have "tracked tok rpc i r t" using tracked_run [OF v inv] assms(7,8) by blast
  then show ?thesis
    using assms(6) by (auto simp: tracked_def flags_le_def invoke_settled_def invoke_outcome_def)
qed

section \<open>A sample session\<close>

text \<open>A handshake, a request that is admitted, a cancellation; used to instantiate the theorems.\<close>

definition session_options :: plugin_options where
  "session_options = sample_options \<lparr>dependencies := None\<rparr>"

definition session_definition :: plugin_definition where
  "session_definition = \<lparr>def_providers = [ProviderBinding sample_binding], def_dependencies = None, def_config = None,
     def_configurationSchema = None, def_create = False, def_stop = False, def_maxConcurrentRequests = 32\<rparr>"

definition session_user :: user_functions where
  "session_user = \<lparr>user_decodeConfig = None, user_parseConfig = None, user_createClient = (\<lambda>_. None)\<rparr>"

definition session_start :: start_options where
  "session_start = \<lparr>opt_maxFrameBytes = None, opt_maxRetiredRequestIds = None, opt_expectedEndpoints = None,
     opt_managedLifecycle = None\<rparr>"

definition session_config :: server_config where
  "session_config = \<lparr>sc_providers = [sample_binding], sc_dependencies = [], sc_decodeConfig = None, sc_parseConfig = None,
     sc_createClient = (\<lambda>_. None), sc_has_create = False, sc_has_stop = False, sc_maxConcurrentRequests = 32,
     sc_maxFrameBytes = 65536, sc_maxRetiredRequestIds = 1024, sc_expectedEndpoints = [sample_descriptor],
     sc_managedLifecycle = False\<rparr>"

definition envelope_of :: "string \<Rightarrow> (string \<times> json) list \<Rightarrow> json" where
  "envelope_of meth params = JObj [(''jsonrpc'', JStr ''2.0''), (''id'', JStr ''1''), (''method'', JStr meth),
     (''params'', JArr [JObj params])]"

definition session_request :: "(string \<times> json) list" where
  "session_request = [(''request_id'', jint 7), (''capability_id'', JStr ''cap''), (''operation'', JStr ''get''),
     (''session'', JStr ''u''), (''payload'', JNull)]"

definition session_handshake :: "(string \<times> json) list" where
  "session_handshake = [(''protocol_version'', jint 1), (''value_profile'', JStr ''lenso-json-value-v1''),
     (''max_frame_bytes'', jint 65536), (''endpoints'', JArr [descriptor_json sample_descriptor])]"

definition session_parse :: "string \<Rightarrow> json option" where
  "session_parse body =
     (if body = ''h'' then Some (envelope_of ''lenso.handshake'' session_handshake)
      else if body = ''r'' then Some (envelope_of ''lenso.request'' session_request)
      else if body = ''c'' then Some (envelope_of ''lenso.cancel'' [(''session'', JStr ''u''), (''request_id'', jint 7)])
      else None)"

definition post :: "string \<Rightarrow> server_event" where
  "post body = Fetch \<lparr>http_method = ''POST'', http_content_length = None, http_body = Some [Chunk body]\<rparr> ''u''"

definition session_number :: "string \<Rightarrow> js_number" where
  "session_number t = NaN"

abbreviation session_next :: "plugin_server \<Rightarrow> server_event \<Rightarrow> plugin_server" where
  "session_next \<equiv> next_server session_number session_parse session_config"

definition session_idle :: plugin_server where
  "session_idle = (initial_server session_config)\<lparr>admittedHandshake := Some (JObj session_handshake), session := Some ''u''\<rparr>"

definition session_active :: "bool \<Rightarrow> plugin_server" where
  "session_active c = session_idle\<lparr>activeRequests := [(7, \<lparr>rs_cancelled = c, rs_deadlineExceeded = False\<rparr>)],
     pending := [(0, AwaitInvoke (JStr ''1'') 7)], next_token := 1\<rparr>"

definition session_done :: plugin_server where
  "session_done = session_idle\<lparr>retiredRequestIds := [7], next_token := 1\<rparr>"

lemmas session_defs = session_config_def session_parse_def session_idle_def session_active_def session_done_def
  envelope_of_def session_request_def session_handshake_def initial_server_def

lemma definePlugin_session: "definePlugin session_options = Inr session_definition"
  by (simp add: definePlugin_def session_options_def session_definition_def sample_simps validateDescriptor_def
      check_config_def max_concurrent_def DEFAULT_MAX_CONCURRENT_REQUESTS_def floor_numeral)

lemma start_config_session: "start_config session_definition session_user session_start = Inr session_config"
  by (simp add: start_config_def session_definition_def session_user_def session_start_def session_config_def
      positive_option_def DEFAULT_MAX_FRAME_BYTES_def DEFAULT_MAX_RETIRED_REQUEST_IDS_def concreteProviders_def
      def_dependency_list_def sample_binding_def)

lemma read_one_byte:
  "(of_char c :: nat) \<le> 127 \<Longrightarrow> readBoundedBody to_number None (Some [Chunk [c]]) 65536 = Inr [c]"
  by (simp add: readBoundedBody_def declared_too_large_def new_text_decoder_def decode_stream_def dec_byte_def
      dec_lead_def decoder_start_def decode_end_def dec_flush_def byte_order_mark_def)

lemma next_session:
  "(of_char c :: nat) \<le> 127 \<Longrightarrow> session_parse [c] = Some envelope \<Longrightarrow>
   session_next s (post [c]) = snd (handle_envelope session_config s envelope ''u'')"
  by (simp add: next_server_def post_def handle_fetch_def session_config_def read_one_byte)

lemma handshake_session: "handshake_accepted session_config (initial_server session_config) (Some (JObj session_handshake)) = Inr True"
  by (simp add: handshake_accepted_def session_config_def initial_server_def session_handshake_def validHandshake_def
      ofield_def field_def PROTOCOL_VERSION_def VALUE_PROFILE_def endpoint_list_def sameEndpoints_def pluginEndpoints_def
      same_endpoint_def descriptor_json_def sample_descriptor_def sample_binding_def sameStrings_def and_then_def)

lemma session_step_handshake: "session_next (initial_server session_config) (post ''h'') = session_idle"
  by (simp add: next_session session_parse_def handle_envelope_def envelope_of_def field_def is_text_def
      handle_handshake_def objectParam_def handshake_session session_idle_def Let_def)

lemma session_wire_request:
  "validWireRequest (Some (JObj session_request)) (Some ''u'')"
  "request_id_of (ofield (Some (JObj session_request)) ''request_id'') = Some 7"
  "request_id_of (ofield (Some (JObj session_request)) ''deadline_nanos'') = None"
  "ofield (Some (JObj session_request)) ''extensions'' = None"
  "text_of (ofield (Some (JObj session_request)) ''capability_id'') = ''cap''"
  by (simp_all add: session_request_def validWireRequest_def ofield_def field_def is_text_def is_nullish_def
      isRequestId_def request_id_of_def floor_numeral text_of_def)

lemma session_step_request: "session_next session_idle (post ''r'') = session_active False"
proof -
  have e: "handle_envelope session_config session_idle (envelope_of ''lenso.request'' session_request) ''u'' =
      handle_request session_config session_idle (JStr ''1'') (Some (JObj session_request))"
    by (simp add: handle_envelope_def envelope_of_def field_def is_text_def)
  obtain ctx where "invocationContext (Some (JObj session_request)) = Inr ctx"
    by (simp add: invocationContext_def session_wire_request extensionRecord_def Let_def)
  then have "snd (handle_request session_config session_idle (JStr ''1'') (Some (JObj session_request))) = session_active False"
    by (simp add: handle_request_def objectParam_def session_wire_request Let_def session_idle_def session_active_def
        initial_server_def session_config_def map_has_def providerByCapability_def sample_binding_def
        sample_descriptor_def admit_request_def startDeadline_def await_def)
  then show ?thesis by (simp add: next_session session_parse_def e)
qed

lemma session_step_cancel: "session_next (session_active False) (post ''c'') = session_active True"
proof -
  have "session_next (session_active False) (post ''c'') =
      snd (handle_cancel (session_active False) (JStr ''1'') (Some (JObj [(''session'', JStr ''u''), (''request_id'', jint 7)])))"
    by (simp add: next_session session_parse_def handle_envelope_def envelope_of_def field_def is_text_def)
  also have "\<dots> = session_active True"
    by (simp add: handle_cancel_def objectParam_def ofield_def field_def hasSession_def session_active_def session_idle_def
        initial_server_def session_config_def request_id_of_def floor_numeral cancel_one_def cancel_state_def Let_def)
  finally show ?thesis .
qed

lemma session_step_settled: "session_next (session_active c) (InvokeSettled 0 settled) = session_done"
  by (simp add: next_server_def session_active_def session_idle_def session_done_def initial_server_def
      session_config_def invoke_settled_def finish_request_def drop_token_def retire_def set_add_def set_delete_def)

lemma session_runs:
  "run session_next (initial_server session_config) [post ''h'', post ''r''] = session_active False"
  "run session_next (initial_server session_config) [post ''h'', post ''r'', post ''c''] = session_active True"
  "run session_next (initial_server session_config) [post ''h'', post ''r'', InvokeSettled 0 (Inr None)] = session_done"
  by (simp_all add: session_step_handshake session_step_request session_step_cancel session_step_settled)

theorem server_limits_witness:
  "int (length (activeRequests (session_active False))) \<le> sc_maxConcurrentRequests session_config \<and>
   fst ` set (activeRequests (session_active False)) = {7}"
  using server_limits [OF definePlugin_session start_config_session, of "session_active False" session_number session_parse
      "[post ''h'', post ''r'']"] session_runs(1)
  by (simp add: session_active_def)

theorem server_replay_window_witness:
  "last_n 1024 (completions session_number session_parse session_config (initial_server session_config)
     [post ''h'', post ''r'', InvokeSettled 0 (Inr None)]) = [7] \<and>
   handle_request session_config session_done (JStr ''2'') (Some (JObj session_request)) =
     (Some (jsonRpcResult (JStr ''2'') (Some (protocolViolation ''duplicate or retired request id'')) None), session_done)"
proof -
  note window = server_replay_window [OF definePlugin_session start_config_session session_runs(3) [symmetric]]
  have state: "retiredRequestIds session_done = [7]" "session session_done = Some ''u''" "accepting session_done"
    "admittedHandshake session_done \<noteq> None" "current_instance session_done \<noteq> None" "sc_maxRetiredRequestIds session_config = 1024"
    by (simp_all add: session_defs)
  then have "last_n 1024 (completions session_number session_parse session_config (initial_server session_config)
      [post ''h'', post ''r'', InvokeSettled 0 (Inr None)]) = [7]"
    using window [THEN conjunct1] by simp
  moreover from this have "handle_request session_config session_done (JStr ''2'') (Some (JObj session_request)) =
      (Some (jsonRpcResult (JStr ''2'') (Some (protocolViolation ''duplicate or retired request id'')) None), session_done)"
    using window [THEN conjunct2, rule_format, of "Some (JObj session_request)" 7 "JStr ''2''"] state session_wire_request
    by (simp add: objectParam_def)
  ultimately show ?thesis ..
qed

theorem server_shutdown_final_witness:
  "\<not> accepting (run session_next (next_server session_number session_parse session_config session_idle HandleStop) [post ''h''])"
  using server_shutdown_final [of "session_next session_idle HandleStop" session_number session_parse session_config
      "[post ''h'']"]
  by (simp add: stopped_like_def next_server_def cancel_all_def)

theorem server_settlement_witness:
  "\<exists>response s'. server_step session_number session_parse session_config (session_active False)
      (InvokeSettled 0 (Inr (Some JNull))) = (Some response, s') \<and> bounded_response 65536 response \<and>
    7 \<in> set (retiredRequestIds s')"
  using server_settlement [OF definePlugin_session start_config_session, of "session_active False" session_number session_parse
      "[post ''h'', post ''r'']" 0 "JStr ''1''" 7 "Inr (Some JNull)"] session_runs(1)
  by (auto simp: session_active_def session_config_def)

theorem server_cancellation_sticky_witness:
  "fst (server_step session_number session_parse session_config (session_active True) (InvokeSettled 0 (Inr (Some JNull)))) \<in>
    {Some (request_result session_config (JStr ''1'') (Some (deadlineExceeded_outcome 7))),
     Some (request_result session_config (JStr ''1'') (Some (cancelled_outcome 7)))}"
  by (rule server_cancellation_sticky [OF definePlugin_session start_config_session session_runs(2) [symmetric],
        where fs = "[]" and r = "\<lparr>rs_cancelled = True, rs_deadlineExceeded = False\<rparr>"])
    (simp_all add: session_active_def)

end
