(* ===== verification/Server_Activation.thy ===== *)
theory Server_Activation
  imports Plugin_Server
begin

text \<open>
  The pure parts of the JSON-RPC server and its activation: the deadline timer, the extension
  record of an invocation context, the binding of dependencies to Host imports, and what the
  guard of \<open>lenso.activate\<close> does and does not exclude.
\<close>

section \<open>Deadline timer\<close>

text \<open>The deadline timer. A positive deadline arms a timer of at least one millisecond that fits
  the 32-bit range of \<open>setTimeout\<close>; below that range the timer is the deadline rounded up to
  whole milliseconds, so it never fires early. Without a deadline, or with a zero one, there is no
  timer.\<close>

theorem startDeadline_bounds:
  assumes "0 < n"
  shows "startDeadline None = None \<and> startDeadline (Some 0) = None \<and>
    (\<exists>ms. startDeadline (Some n) = Some ms \<and> 1 \<le> ms \<and> ms < 2 ^ 31 \<and>
       (n \<le> 2147483646 * 1000000 \<longrightarrow> n \<le> ms * 1000000 \<and> ms * 1000000 < n + 1000000))"
proof -
  define q where "q = (n + 999999) div 1000000"
  have lo: "q * 1000000 \<le> n + 999999" and hi: "n + 999999 < q * 1000000 + 1000000"
    unfolding q_def using div_mult_mod_eq [of "n + 999999" 1000000] pos_mod_bound [of 1000000 "n + 999999"]
      pos_mod_sign [of 1000000 "n + 999999"] by linarith+
  have "1 \<le> q" using assms hi by linarith
  moreover have "q \<le> 2147483646" if "n \<le> 2147483646 * 1000000" using lo that by linarith
  moreover have "startDeadline (Some n) = Some (max 1 (min q 2147483647))"
    using assms by (simp add: startDeadline_def q_def)
  ultimately show ?thesis using lo hi by (auto simp: startDeadline_def)
qed

theorem startDeadline_bounds_witness:
  "\<exists>ms. startDeadline (Some 1500001) = Some ms \<and> 1500001 \<le> ms * 1000000 \<and> ms * 1000000 < 2500001"
  using startDeadline_bounds [of 1500001] by auto

section \<open>Extension record\<close>

definition extension_key :: "json \<Rightarrow> string" where
  "extension_key e = text_of (field e ''key'')"

definition recorded :: "json list \<Rightarrow> (string \<times> json) list" where
  "recorded exts = map (\<lambda>e. (extension_key e, e)) (filter (\<lambda>e. extension_key e \<noteq> ''__proto__'') exts)"

definition keyed :: "json \<Rightarrow> bool" where
  "keyed e \<longleftrightarrow> is_text (field e ''key'') \<and> extension_key e \<noteq> []"

lemma keyed_iff: "keyed e \<longleftrightarrow> (\<exists>k. field e ''key'' = Some (JStr k) \<and> k \<noteq> [])"
  by (auto simp: keyed_def is_text_def extension_key_def text_of_def split: option.splits json.splits)

lemma recorded_simps [simp]:
  "recorded [] = []"
  "recorded (e # es) = (if extension_key e = ''__proto__'' then recorded es else (extension_key e, e) # recorded es)"
  by (auto simp: recorded_def)

lemma field_JNull [simp]: "field JNull k = None"
  by (simp add: field_def)

lemma extension_entries_Inr:
  "''__proto__'' \<notin> fst ` set rec \<Longrightarrow>
   extension_entries rec exts = Inr r \<longleftrightarrow>
   (\<forall>e \<in> set exts. keyed e) \<and> distinct (map fst (recorded exts)) \<and>
   fst ` set (recorded exts) \<inter> fst ` set rec = {} \<and> r = rec @ recorded exts"
proof (induction exts arbitrary: rec)
  case Nil
  then show ?case by auto
next
  case (Cons e es)
  show ?case
  proof (cases "keyed e")
    case False
    then have "extension_entries rec (e # es) \<noteq> Inr r"
      by (auto simp: keyed_iff split: option.splits json.splits)
    then show ?thesis using False by simp
  next
    case True
    then obtain k where k: "field e ''key'' = Some (JStr k)" "k \<noteq> []" by (auto simp: keyed_iff)
    then have e: "e \<noteq> JNull" "extension_key e = k" by (auto simp: extension_key_def text_of_def)
    show ?thesis
    proof (cases "k = ''__proto__''")
      case True
      then show ?thesis using Cons \<open>keyed e\<close> k e by (simp add: map_has_iff)
    next
      case nproto: False
      show ?thesis
      proof (cases "k \<in> fst ` set rec")
        case True
        then show ?thesis using nproto k e by (auto simp: map_has_iff)
      next
        case False
        then have "''__proto__'' \<notin> fst ` set (rec @ [(k, e)])" using Cons.prems nproto by auto
        from Cons.IH [OF this] show ?thesis
          using False nproto k e \<open>keyed e\<close> by (auto simp: map_has_iff update_fresh)
      qed
    qed
  qed
qed

text \<open>The extension record. An extension list is accepted exactly when every extension has a
  non-empty string key and no key but \<open>__proto__\<close> repeats. The record then holds each extension
  under its key, in order, except those keyed \<open>__proto__\<close>, which the assignment swallows.\<close>

theorem extensionRecord_correct:
  "extensionRecord exts = Inr r \<longleftrightarrow>
     (\<forall>e \<in> set exts. keyed e) \<and> distinct (map fst (recorded exts)) \<and>
     r = (if exts = [] then None else Some (recorded exts))"
  using extension_entries_Inr [of "[]" exts] by (auto simp: extensionRecord_def result_simps)

definition sample_extension :: "string \<Rightarrow> json" where
  "sample_extension k = JObj [(''key'', JStr k), (''value'', JArr [])]"

theorem extensionRecord_correct_witness:
  "extensionRecord [sample_extension ''a'', sample_extension ''__proto__''] = Inr (Some [(''a'', sample_extension ''a'')])"
  using extensionRecord_correct [of "[sample_extension ''a'', sample_extension ''__proto__'']"
      "Some [(''a'', sample_extension ''a'')]"]
  by (simp add: keyed_def is_text_def extension_key_def text_of_def sample_extension_def field_def)

section \<open>Dependency clients\<close>

definition import_matches :: "(nat \<times> json) list \<Rightarrow> string \<times> raw_dependency \<Rightarrow> string \<times> json \<Rightarrow> bool" where
  "import_matches imports dep client \<longleftrightarrow>
     fst client = fst dep \<and> snd client \<in> snd ` set imports \<and>
     (\<exists>rid binding. dependencyDefinition (fst dep) (snd dep) = Inr (rid, binding, ''one'') \<and>
        sameEndpoints [snd client] [binding] = Inr True)"

lemma exact_import_mem: "exact_import imports rid = Some d \<Longrightarrow> d \<in> set imports"
  unfolding exact_import_def by (auto simp: find_Some_iff) (metis nth_mem set_rev length_rev)

lemma legacy_import_mem: "legacy_import imports cap = Some d \<Longrightarrow> d \<in> set imports"
proof -
  assume "legacy_import imports cap = Some d"
  then have "filter (\<lambda>(i, d). field d ''capability_id'' = Some (JStr cap)) imports = [d]"
    by (auto simp: legacy_import_def split: list.splits)
  then have "d \<in> set (filter (\<lambda>(i, d). field d ''capability_id'' = Some (JStr cap)) imports)" by simp
  then show ?thesis by (simp only: set_filter) blast
qed

definition requirement_text :: "nat \<times> json \<Rightarrow> json option" where
  "requirement_text d = field (snd d) ''requirement_id''"

lemma claim_key_text: "is_text (requirement_text d) \<Longrightarrow> claim_key d = (None, requirement_text d)"
  by (auto simp: claim_key_def requirement_text_def is_text_def Let_def split: option.splits json.splits)

lemma claim_keys_distinct:
  "distinct (map claim_key ds) \<Longrightarrow> distinct (filter is_text (map requirement_text ds))"
proof (induction ds)
  case Nil
  then show ?case by simp
next
  case (Cons d ds)
  have "requirement_text d \<noteq> requirement_text e" if "is_text (requirement_text d)" "e \<in> set ds" for e
    using that Cons.prems by (metis claim_key_text distinct.simps(2) image_eqI list.map(2) list.set_map)
  then show ?case using Cons by auto
qed

lemma bind_clients_Cons:
  assumes "bind_clients cc imports claimed ((name, raw) # rest) = Inr clients"
  shows "\<exists>rid binding d cs. dependencyDefinition name raw = Inr (rid, binding, ''one'') \<and> d \<in> set imports \<and>
    sameEndpoints [snd d] [binding] = Inr True \<and> claim_key d \<notin> set claimed \<and>
    bind_clients cc imports (set_add (claim_key d) claimed) rest = Inr cs \<and> clients = (name, snd d) # cs"
proof -
  obtain rid binding where def: "dependencyDefinition name raw = Inr (rid, binding, ''one'')"
    using assms by (auto split: sum.splits if_splits)
  let ?candidate = "case exact_import imports rid of Some d \<Rightarrow> Some d | None \<Rightarrow> legacy_import imports (capability_id binding)"
  obtain d where d: "?candidate = Some d"
    using assms def by (auto simp: Let_def split: option.splits)
  then have "d \<in> set imports"
    by (auto split: option.splits dest: exact_import_mem legacy_import_mem)
  moreover have "sameEndpoints [snd d] [binding] = Inr True \<and> claim_key d \<notin> set claimed \<and>
      (\<exists>cs. bind_clients cc imports (set_add (claim_key d) claimed) rest = Inr cs \<and> clients = (name, snd d) # cs)"
    using assms def d by (auto simp: Let_def result_simps split: option.splits if_splits)
  ultimately show ?thesis using def by blast
qed

lemma bind_clients_Inr:
  "bind_clients cc imports claimed deps = Inr clients \<Longrightarrow>
   list_all2 (import_matches imports) deps clients \<and>
   (\<exists>ds. map snd ds = map snd clients \<and> distinct (map claim_key ds) \<and> set (map claim_key ds) \<inter> set claimed = {})"
proof (induction deps arbitrary: claimed clients)
  case Nil
  then show ?case by auto
next
  case (Cons dep rest)
  obtain name raw where dep: "dep = (name, raw)" by fastforce
  obtain rid binding d cs where c: "dependencyDefinition name raw = Inr (rid, binding, ''one'')" "d \<in> set imports"
    "sameEndpoints [snd d] [binding] = Inr True" "claim_key d \<notin> set claimed"
    "bind_clients cc imports (set_add (claim_key d) claimed) rest = Inr cs" "clients = (name, snd d) # cs"
    using bind_clients_Cons Cons.prems dep by blast
  obtain ds where ds: "map snd ds = map snd cs" "distinct (map claim_key ds)"
    "set (map claim_key ds) \<inter> set (set_add (claim_key d) claimed) = {}"
    and all: "list_all2 (import_matches imports) rest cs"
    using Cons.IH [OF c(5)] by blast
  have "map snd (d # ds) = map snd clients \<and> distinct (map claim_key (d # ds)) \<and>
      set (map claim_key (d # ds)) \<inter> set claimed = {}"
    using ds c by auto
  moreover have "import_matches imports dep (name, snd d)"
    using c dep by (auto simp: import_matches_def)
  ultimately show ?case using all c(6) by (metis list_all2_Cons)
qed

text \<open>C24. Dependency clients. When activation binds the dependencies, there is one client per
  declared dependency, in order; each is bound to an import that the Host sent, whose capability,
  version and operation tables are those of the dependency, and whose cardinality is \<open>one\<close>; no
  requirement identity serves two dependencies.\<close>

theorem createDependencyClients_sound:
  assumes "createDependencyClients cfg activation = Inr clients"
  shows "list_all2 (import_matches (imports_of activation)) (sc_dependencies cfg) clients \<and>
    distinct (filter is_text (map (\<lambda>c. field (snd c) ''requirement_id'') clients)) \<and>
    \<not> imports_invalid activation"
proof -
  have b: "bind_clients (sc_createClient cfg) (imports_of activation) [] (sc_dependencies cfg) = Inr clients"
    and v: "\<not> imports_invalid activation"
    using assms by (auto simp: createDependencyClients_def split: if_splits)
  obtain ds where ds: "map snd ds = map snd clients" "distinct (map claim_key ds)"
    using bind_clients_Inr [OF b] by blast
  have "map requirement_text ds = map (\<lambda>v. field v ''requirement_id'') (map snd ds)"
    by (simp add: requirement_text_def)
  also have "\<dots> = map (\<lambda>c. field (snd c) ''requirement_id'') clients"
    by (simp add: ds(1))
  finally show ?thesis using claim_keys_distinct [OF ds(2)] bind_clients_Inr [OF b] v by simp
qed

definition activation_config :: server_config where
  "activation_config = \<lparr>sc_providers = [], sc_dependencies = [(''db'', LegacyBinding sample_descriptor)],
     sc_decodeConfig = None, sc_parseConfig = None, sc_createClient = (\<lambda>_. None), sc_has_create = True,
     sc_has_stop = False, sc_maxConcurrentRequests = 1, sc_maxFrameBytes = 65536, sc_maxRetiredRequestIds = 1,
     sc_expectedEndpoints = [], sc_managedLifecycle = True\<rparr>"

definition sample_import :: json where
  "sample_import = JObj ((''requirement_id'', JStr ''db'') # props (descriptor_json sample_descriptor))"

definition sample_activation :: "(string \<times> json) list" where
  "sample_activation = [(''session'', JStr ''u''), (''configuration'', JNull),
     (''imports_url'', JStr ''http://127.0.0.1:9''), (''imports_token'', JStr ''0123456789abcdef''),
     (''imports'', JArr [sample_import])]"

lemma js_length_token: "js_length ''0123456789abcdef'' = 16"
  by (simp add: js_length_def utf16_units_def utf8_chars_def emissions_def dec_byte_def dec_lead_def decoder_start_def
      dec_flush_def utf16_of_char_def Let_def)

lemma sample_clients:
  "createDependencyClients activation_config (JObj sample_activation) = Inr [(''db'', sample_import)]"
  by (simp add: createDependencyClients_def imports_invalid_def sample_activation_def field_def is_text_def text_of_def
      starts_with_def js_length_token imports_of_def activation_config_def dependencyDefinition_def exact_import_def
      sample_import_def sameEndpoints_def same_endpoint_def descriptor_json_def sample_descriptor_def sameStrings_def
      and_then_def)

theorem createDependencyClients_sound_witness:
  "\<not> imports_invalid (JObj sample_activation) \<and>
   list_all2 (import_matches (imports_of (JObj sample_activation))) [(''db'', LegacyBinding sample_descriptor)]
     [(''db'', sample_import)]"
  using createDependencyClients_sound [OF sample_clients] by (simp add: activation_config_def)

section \<open>Completeness of the binding\<close>

text \<open>An activation that answers the published requirements: for each of them the Host sends an
  import with its identity, and every import with the identity of a dependency agrees with it.\<close>

definition import_for :: "json list \<Rightarrow> string \<Rightarrow> provider_descriptor \<Rightarrow> bool" where
  "import_for imports rid d \<longleftrightarrow>
     (\<exists>i \<in> set imports. field i ''requirement_id'' = Some (JStr rid)) \<and>
     (\<forall>i \<in> set imports. field i ''requirement_id'' = Some (JStr rid) \<longrightarrow> sameEndpoints [i] [d] = Inr True)"

lemma exact_import_found:
  assumes "import_for (map snd imports) rid d"
  obtains i where "exact_import imports rid = Some i" "field (snd i) ''requirement_id'' = Some (JStr rid)"
    "sameEndpoints [snd i] [d] = Inr True"
proof -
  let ?P = "\<lambda>(n, j). field j ''requirement_id'' = Some (JStr rid)"
  have "find ?P (rev imports) \<noteq> None"
  proof
    assume "find ?P (rev imports) = None"
    then have "\<forall>x \<in> set imports. \<not> ?P x" by (auto simp: find_None_iff)
    then show False using assms by (auto simp: import_for_def)
  qed
  then obtain i where i: "find ?P (rev imports) = Some i" by auto
  then have "i \<in> set imports" "?P i" by (auto simp: find_Some_iff) (metis nth_mem set_rev length_rev)
  then show ?thesis
    using that [of i] i assms by (auto simp: exact_import_def import_for_def)
qed

definition dependency_answered :: "json list \<Rightarrow> string \<times> raw_dependency \<Rightarrow> bool" where
  "dependency_answered imports dep \<longleftrightarrow>
     (\<exists>rid d. dependencyDefinition (fst dep) (snd dep) = Inr (rid, d, ''one'') \<and> import_for imports rid d)"

definition requirement_of :: "string \<times> raw_dependency \<Rightarrow> string" where
  "requirement_of dep =
     (case dependencyDefinition (fst dep) (snd dep) of Inr (rid, _, _) \<Rightarrow> rid | Inl _ \<Rightarrow> fst dep)"

lemma bind_clients_complete:
  assumes "list_all (dependency_answered (map snd imports)) deps"
    "distinct (map requirement_of deps)"
    "\<forall>dep \<in> set deps. (None, Some (JStr (requirement_of dep))) \<notin> set claimed"
  shows "\<exists>clients. bind_clients (\<lambda>_. None) imports claimed deps = Inr clients \<and> map fst clients = map fst deps \<and>
    map (\<lambda>c. field (snd c) ''requirement_id'') clients = map (\<lambda>dep. Some (JStr (requirement_of dep))) deps"
  using assms
proof (induction deps arbitrary: claimed)
  case Nil
  then show ?case by simp
next
  case (Cons dep deps)
  obtain name raw where dep: "dep = (name, raw)" by (cases dep)
  obtain rid d where d: "dependencyDefinition name raw = Inr (rid, d, ''one'')" "import_for (map snd imports) rid d"
    using Cons.prems(1) by (auto simp: dependency_answered_def dep)
  obtain i where i: "exact_import imports rid = Some i" "field (snd i) ''requirement_id'' = Some (JStr rid)"
      "sameEndpoints [snd i] [d] = Inr True"
    using exact_import_found [OF d(2)] by blast
  have key: "claim_key i = (None, Some (JStr rid))" by (simp add: claim_key_def i(2))
  have rid: "requirement_of dep = rid" by (simp add: requirement_of_def dep d(1))
  have "\<forall>dep' \<in> set deps. (None, Some (JStr (requirement_of dep'))) \<notin> set (set_add (claim_key i) claimed)"
    using Cons.prems(2,3) rid by (auto simp: key) (metis image_eqI)
  then have "\<exists>clients. bind_clients (\<lambda>_. None) imports (set_add (claim_key i) claimed) deps = Inr clients \<and>
      map fst clients = map fst deps \<and>
      map (\<lambda>c. field (snd c) ''requirement_id'') clients = map (\<lambda>dep. Some (JStr (requirement_of dep))) deps"
    using Cons.prems(1,2) by (intro Cons.IH) simp_all
  then show ?case
    using Cons.prems(3) d i rid by (auto simp: dep key)
qed
section \<open>Activation\<close>

text \<open>The guard of \<open>lenso.activate\<close> looks at the instance, which is set only when
  \<open>create\<close> settles: while one activation is waiting for \<open>create\<close>, the same request is
  admitted again and runs \<open>create\<close> a second time, and the instance of the activation that
  settles last replaces the other.\<close>

theorem activation_not_exclusive:
  assumes "handle_activate cfg s rpc params = (None, s')"
  shows "handle_activate cfg s' rpc' params = (None, await (AwaitCreate rpc') s') \<and>
    current_instance (snd (create_settled (snd (create_settled s' tok rpc (Inr (Some i)))) tok' rpc' (Inr (Some j)))) =
      Some (CreatedInstance j)"
proof -
  have "s' = await (AwaitCreate rpc) s"
    using assms by (auto simp: handle_activate_def split: option.splits sum.splits if_splits)
  then have same: "session s' = session s" "admittedHandshake s' = admittedHandshake s"
    "current_instance s' = current_instance s" "activeRequests s' = activeRequests s"
    by (simp_all add: await_def)
  have "handle_activate cfg s' rpc' params = (None, await (AwaitCreate rpc') s')"
    using assms unfolding handle_activate_def same by (auto split: option.splits sum.splits if_splits)
  then show ?thesis by (simp add: create_settled_def)
qed

theorem activation_not_exclusive_witness:
  "let s = (initial_server activation_config)\<lparr>session := Some ''u'', admittedHandshake := Some (JObj [])\<rparr>;
       s1 = snd (handle_activate activation_config s (JStr ''1'') (Some (JObj sample_activation)));
       s2 = snd (handle_activate activation_config s1 (JStr ''2'') (Some (JObj sample_activation)))
   in map snd (pending s2) = [AwaitCreate (JStr ''1''), AwaitCreate (JStr ''2'')]"
proof -
  let ?s = "(initial_server activation_config)\<lparr>session := Some ''u'', admittedHandshake := Some (JObj [])\<rparr>"
  have first: "handle_activate activation_config ?s (JStr ''1'') (Some (JObj sample_activation)) =
      (None, await (AwaitCreate (JStr ''1'')) ?s)"
    by (simp add: handle_activate_def objectParam_def sample_clients)
      (simp add: hasSession_def sample_activation_def field_def resolve_config_def is_nullish_def initial_server_def
        activation_config_def)
  show ?thesis
    using activation_not_exclusive [OF first, of "JStr ''2''" 0 0 1 2] first
    by (simp add: Let_def await_def initial_server_def)
qed

end
