(* ===== verification/Json_Parse.thy ===== *)
theory Json_Parse
  imports Json
begin

text \<open>
  \<open>JSON.parse\<close>, which the servers apply to request bodies and the Host to the frames they send.
  The only parameter is \<open>round_number\<close>, the conversion of a decimal to the nearest Number, which
  is exact on the safe integers. A repeated member replaces the earlier one in place, and the
  members of an object enumerate with the array indices first.

  Strings are UTF-8, so an escaped code unit (or surrogate pair) is decoded to the bytes of its
  code point.
\<close>

section \<open>Lexical grammar\<close>

definition is_blank :: "char \<Rightarrow> bool" where
  "is_blank c \<longleftrightarrow> c \<in> {CHR '' '', CHR 0x09, CHR 0x0A, CHR 0x0D}"

abbreviation skip_blanks :: "string \<Rightarrow> string" where
  "skip_blanks \<equiv> dropWhile is_blank"

definition hex_value :: "char \<Rightarrow> nat option" where
  "hex_value c =
     (let b = of_char c :: nat in
      if 48 \<le> b \<and> b \<le> 57 then Some (b - 48)
      else if 97 \<le> b \<and> b \<le> 102 then Some (b - 87)
      else if 65 \<le> b \<and> b \<le> 70 then Some (b - 55)
      else None)"

fun code_unit :: "string \<Rightarrow> (nat \<times> string) option" where
  "code_unit (a # b # c # d # cs) =
     (case (hex_value a, hex_value b, hex_value c, hex_value d) of
        (Some p, Some q, Some r, Some s) \<Rightarrow> Some (((p * 16 + q) * 16 + r) * 16 + s, cs)
      | _ \<Rightarrow> None)"
| "code_unit _ = None"

definition utf8_encode :: "nat \<Rightarrow> string" where
  "utf8_encode n =
     (if n < 128 then [char_of n]
      else if n < 2048 then [char_of (192 + n div 64), char_of (128 + n mod 64)]
      else if n < 65536 then
        [char_of (224 + n div 4096), char_of (128 + n div 64 mod 64), char_of (128 + n mod 64)]
      else
        [char_of (240 + n div 262144), char_of (128 + n div 4096 mod 64),
         char_of (128 + n div 64 mod 64), char_of (128 + n mod 64)])"

text \<open>The low half of a surrogate pair, when it follows.\<close>

definition low_surrogate :: "string \<Rightarrow> (nat \<times> string) option" where
  "low_surrogate s =
     (if take 2 s = [CHR 0x5C, CHR ''u''] then
        (case code_unit (drop 2 s) of
           Some (v, rest) \<Rightarrow> if 56320 \<le> v \<and> v \<le> 57343 then Some (v, rest) else None
         | None \<Rightarrow> None)
      else None)"

definition unicode_escape :: "string \<Rightarrow> (string \<times> string) option" where
  "unicode_escape s =
     (case code_unit s of
        None \<Rightarrow> None
      | Some (u, rest) \<Rightarrow>
          if 55296 \<le> u \<and> u \<le> 56319 then
            (case low_surrogate rest of
               Some (v, rest') \<Rightarrow> Some (utf8_encode (65536 + (u - 55296) * 1024 + (v - 56320)), rest')
             | None \<Rightarrow> Some (utf8_encode u, rest))
          else Some (utf8_encode u, rest))"

definition simple_escapes :: "(char \<times> char) list" where
  "simple_escapes =
     [(CHR 0x22, CHR 0x22), (CHR 0x5C, CHR 0x5C), (CHR ''/'', CHR ''/''), (CHR ''b'', CHR 0x08),
      (CHR ''f'', CHR 0x0C), (CHR ''n'', CHR 0x0A), (CHR ''r'', CHR 0x0D), (CHR ''t'', CHR 0x09)]"

text \<open>What follows a backslash.\<close>

definition read_escape :: "string \<Rightarrow> (string \<times> string) option" where
  "read_escape s =
     (case s of
        [] \<Rightarrow> None
      | c # cs \<Rightarrow>
          if c = CHR ''u'' then unicode_escape cs
          else (case map_of simple_escapes c of Some d \<Rightarrow> Some ([d], cs) | None \<Rightarrow> None))"

lemma code_unit_length: "code_unit s = Some (u, rest) \<Longrightarrow> length rest < length s"
  by (induction s rule: code_unit.induct) (auto split: option.splits)

lemma low_surrogate_length: "low_surrogate s = Some (u, rest) \<Longrightarrow> length rest < length s"
  by (auto simp: low_surrogate_def split: if_splits option.splits dest: code_unit_length)

lemma read_escape_length: "read_escape s = Some (t, rest) \<Longrightarrow> length rest < length s"
  by (fastforce simp: read_escape_def unicode_escape_def split: list.splits if_splits option.splits
      dest: code_unit_length low_surrogate_length)

text \<open>The rest of a string literal after its opening quote.\<close>

function scan_string :: "string \<Rightarrow> (string \<times> string) option" where
  "scan_string s =
     (case s of
        [] \<Rightarrow> None
      | c # cs \<Rightarrow>
          if c = CHR 0x22 then Some ([], cs)
          else if c = CHR 0x5C then
            (case read_escape cs of
               None \<Rightarrow> None
             | Some (t, rest) \<Rightarrow> map_option (\<lambda>(u, r). (t @ u, r)) (scan_string rest))
          else if (of_char c :: nat) < 32 then None
          else map_option (\<lambda>(u, r). (c # u, r)) (scan_string cs))"
  by pat_completeness auto
termination
  by (relation "measure length") (auto dest: read_escape_length)

declare scan_string.simps [simp del]

lemma scan_string_length: "scan_string s = Some (t, rest) \<Longrightarrow> length rest < length s"
proof (induction s arbitrary: t rule: scan_string.induct)
  case (1 s)
  then show ?case
    by (subst (asm) (3) scan_string.simps)
      (fastforce split: list.splits if_splits option.splits dest: read_escape_length)
qed

section \<open>Numbers\<close>

definition scan_fraction :: "string \<Rightarrow> (string \<times> string) option" where
  "scan_fraction s =
     (if take 1 s = ''.'' then
        let ds = takeWhile ascii_digit (drop 1 s) in
        if ds = [] then None else Some (ds, dropWhile ascii_digit (drop 1 s))
      else Some ([], s))"

definition scan_exponent :: "string \<Rightarrow> (int \<times> string) option" where
  "scan_exponent s =
     (if take 1 s = ''e'' \<or> take 1 s = ''E'' then
        let signed = drop 1 s;
            body = (if take 1 signed = ''+'' \<or> take 1 signed = ''-'' then drop 1 signed else signed);
            ds = takeWhile ascii_digit body in
        if ds = [] then None
        else Some (if take 1 signed = ''-'' then - int (digits_value ds) else int (digits_value ds),
                   dropWhile ascii_digit body)
      else Some (0, s))"

definition decimal_value :: "bool \<Rightarrow> string \<Rightarrow> string \<Rightarrow> int \<Rightarrow> rat" where
  "decimal_value negative whole fraction e =
     (let q = of_nat (digits_value (whole @ fraction)) / 10 ^ length fraction;
          scaled = (if e < 0 then q / 10 ^ nat (- e) else q * 10 ^ nat e)
      in if negative then - scaled else scaled)"

definition scan_number :: "(rat \<Rightarrow> js_number) \<Rightarrow> string \<Rightarrow> (json \<times> string) option" where
  "scan_number round_number s =
     (let negative = (take 1 s = ''-'');
          unsigned = (if negative then drop 1 s else s);
          whole = takeWhile ascii_digit unsigned in
      if whole = [] \<or> take 1 whole = ''0'' \<and> whole \<noteq> ''0'' then None
      else
        (case scan_fraction (dropWhile ascii_digit unsigned) of
           None \<Rightarrow> None
         | Some (fraction, rest) \<Rightarrow>
             (case scan_exponent rest of
                None \<Rightarrow> None
              | Some (e, rest') \<Rightarrow>
                  Some (JNum (round_number (decimal_value negative whole fraction e)), rest'))))"

section \<open>Values\<close>

definition scan_literal :: "string \<Rightarrow> (json \<times> string) option" where
  "scan_literal s =
     (if take 4 s = ''null'' then Some (JNull, drop 4 s)
      else if take 4 s = ''true'' then Some (JBool True, drop 4 s)
      else if take 5 s = ''false'' then Some (JBool False, drop 5 s)
      else None)"

lemma skip_blanks_length: "length (skip_blanks s) \<le> length s"
  by (rule length_dropWhile_le)

lemma blanks_Cons_length: "skip_blanks s = c # cs \<Longrightarrow> length cs < length s"
  using skip_blanks_length [of s] by simp

lemma member_value_length:
  assumes "skip_blanks s = q # body" "scan_string body = Some (k, rest)" "skip_blanks rest = d # ds"
  shows "length ds < length s"
  using blanks_Cons_length [OF assms(1)] scan_string_length [OF assms(2)] blanks_Cons_length [OF assms(3)]
  by linarith

text \<open>
  \<open>parse_elements\<close> and \<open>parse_members\<close> read the items after an opening bracket, with those read
  so far. The comparisons of lengths always hold and only serve the termination proof.
\<close>

function
  parse_value :: "(rat \<Rightarrow> js_number) \<Rightarrow> string \<Rightarrow> (json \<times> string) option" and
  parse_elements :: "(rat \<Rightarrow> js_number) \<Rightarrow> json list \<Rightarrow> string \<Rightarrow> (json \<times> string) option" and
  parse_members :: "(rat \<Rightarrow> js_number) \<Rightarrow> (string \<times> json) list \<Rightarrow> string \<Rightarrow> (json \<times> string) option"
where
  "parse_value rnd s =
     (case skip_blanks s of
        [] \<Rightarrow> None
      | c # cs \<Rightarrow>
          if c = CHR ''{'' then
            (if take 1 (skip_blanks cs) = ''}'' then Some (JObj [], drop 1 (skip_blanks cs))
             else parse_members rnd [] cs)
          else if c = CHR ''['' then
            (if take 1 (skip_blanks cs) = '']'' then Some (JArr [], drop 1 (skip_blanks cs))
             else parse_elements rnd [] cs)
          else if c = CHR 0x22 then map_option (\<lambda>(t, r). (JStr t, r)) (scan_string cs)
          else
            (case scan_literal (c # cs) of
               Some r \<Rightarrow> Some r
             | None \<Rightarrow> scan_number rnd (c # cs)))"
| "parse_elements rnd acc s =
     (case parse_value rnd s of
        None \<Rightarrow> None
      | Some (v, rest) \<Rightarrow>
          (case skip_blanks rest of
             [] \<Rightarrow> None
           | c # cs \<Rightarrow>
               if c = CHR '','' \<and> length cs < length s then parse_elements rnd (acc @ [v]) cs
               else if c = CHR '']'' then Some (JArr (acc @ [v]), cs)
               else None))"
| "parse_members rnd acc s =
     (case skip_blanks s of
        [] \<Rightarrow> None
      | q # body \<Rightarrow>
          if q \<noteq> CHR 0x22 then None
          else
            (case scan_string body of
               None \<Rightarrow> None
             | Some (k, rest) \<Rightarrow>
                 (case skip_blanks rest of
                    [] \<Rightarrow> None
                  | d # ds \<Rightarrow>
                      if d \<noteq> CHR '':'' then None
                      else
                        (case parse_value rnd ds of
                           None \<Rightarrow> None
                         | Some (v, rest') \<Rightarrow>
                             (case skip_blanks rest' of
                                [] \<Rightarrow> None
                              | c # cs \<Rightarrow>
                                  if c = CHR '','' \<and> length cs < length s
                                  then parse_members rnd (AList.update k v acc) cs
                                  else if c = CHR ''}''
                                  then Some (JObj (fromEntries (AList.update k v acc)), cs)
                                  else None)))))"
  by pat_completeness auto

termination
  by (relation "measures
      [\<lambda>x. case x of Inl (_, s) \<Rightarrow> length s | Inr (Inl (_, _, s)) \<Rightarrow> length s | Inr (Inr (_, _, s)) \<Rightarrow> length s,
       \<lambda>x. case x of Inl _ \<Rightarrow> 0 | Inr _ \<Rightarrow> 1]")
    (auto dest: blanks_Cons_length member_value_length)

declare parse_value.simps [simp del] parse_elements.simps [simp del] parse_members.simps [simp del]

definition JSON_parse :: "(rat \<Rightarrow> js_number) \<Rightarrow> string \<Rightarrow> json option" where
  "JSON_parse round_number text =
     (case parse_value round_number text of
        Some (v, rest) \<Rightarrow> if skip_blanks rest = [] then Some v else None
      | None \<Rightarrow> None)"

section \<open>Parsing what was printed\<close>

lemma hex_value_hex_digit: "n < 16 \<Longrightarrow> hex_value (hex_digit n) = Some n"
  by (auto simp: hex_value_def hex_digit_def Let_def)

lemma control_escape:
  assumes "(of_char c :: nat) < 32"
  shows "read_escape (''u00'' @ [hex_digit (of_char c div 16), hex_digit (of_char c mod 16)] @ xs) = Some ([c], xs)"
proof -
  let ?b = "of_char c :: nat"
  have "hex_value CHR ''0'' = Some 0" by (simp add: hex_value_def)
  then have "code_unit (''00'' @ [hex_digit (?b div 16), hex_digit (?b mod 16)] @ xs) = Some (?b, xs)"
    using assms by (simp add: hex_value_hex_digit)
  then show ?thesis
    using assms by (simp add: read_escape_def unicode_escape_def utf8_encode_def)
qed

lemma scan_escape_char:
  "scan_string (escape_char c @ xs) = map_option (\<lambda>(u, r). (c # u, r)) (scan_string xs)"
proof -
  let ?b = "of_char c :: nat"
  consider "?b \<in> {34, 92, 8, 9, 10, 12, 13}" | "?b < 32" "?b \<notin> {8, 9, 10, 12, 13}"
    | "32 \<le> ?b" "?b \<noteq> 34" "?b \<noteq> 92"
    by fastforce
  then show ?thesis
  proof cases
    case 1
    then consider "c = CHR 0x22" | "c = CHR 0x5C" | "c = CHR 0x08" | "c = CHR 0x09" | "c = CHR 0x0A"
      | "c = CHR 0x0C" | "c = CHR 0x0D"
      using char_by_code by auto
    then show ?thesis
      by cases (simp add: escape_char_def Let_def, subst scan_string.simps,
        simp add: read_escape_def simple_escapes_def)+
  next
    case 2
    then have "escape_char c = CHR 0x5C # ''u00'' @ [hex_digit (?b div 16), hex_digit (?b mod 16)]"
      by (simp add: escape_char_def Let_def)
    then show ?thesis
      using control_escape [of c xs] 2(1) by (subst scan_string.simps) simp
  next
    case 3
    then have "escape_char c = [c]" "c \<noteq> CHR 0x22" "c \<noteq> CHR 0x5C"
      by (auto simp: escape_char_def Let_def)
    then show ?thesis using 3(1) by (subst scan_string.simps) simp
  qed
qed

lemma scan_quoted: "scan_string (concat (map escape_char t) @ CHR 0x22 # rest) = Some (t, rest)"
proof (induction t)
  case Nil
  then show ?case by (subst scan_string.simps) simp
next
  case (Cons c t)
  then show ?case by (simp add: scan_escape_char)
qed

text \<open>What may follow a value inside a document.\<close>

definition follows :: "string \<Rightarrow> bool" where
  "follows rest \<longleftrightarrow> rest = [] \<or> hd rest \<in> {CHR '','', CHR '']'', CHR ''}''}"

lemma digits_scanned:
  assumes "follows rest"
  shows "takeWhile ascii_digit (digits n @ rest) = digits n" "dropWhile ascii_digit (digits n @ rest) = rest"
proof -
  have "takeWhile ascii_digit rest = []" "dropWhile ascii_digit rest = rest"
    using assms by (cases rest; auto simp: follows_def ascii_digit_def)+
  then show "takeWhile ascii_digit (digits n @ rest) = digits n" "dropWhile ascii_digit (digits n @ rest) = rest"
    using digits_ascii [of _ n] by (auto simp: takeWhile_append2 dropWhile_append2)
qed

lemma digits_canonical: "digits n \<noteq> [] \<and> (take 1 (digits n) = ''0'' \<longrightarrow> digits n = ''0'')"
proof (induction n rule: digits.induct)
  case (1 n)
  show ?case
  proof (cases "n < 10")
    case True
    then show ?thesis by (subst (1 2 3) digits.simps) simp
  next
    case False
    then have n: "digits n = digits (n div 10) @ [char_of (48 + n mod 10)]" by (subst digits.simps) simp
    have "digits (n div 10) \<noteq> ''0''"
    proof
      assume "digits (n div 10) = ''0''"
      then have "n div 10 = 0" using digits_roundtrip [of "n div 10"] by (simp add: digits_value_def)
      then show False using False by simp
    qed
    then show ?thesis using 1 False n by (cases "digits (n div 10)") auto
  qed
qed

lemma follows_not_continued:
  assumes "follows rest"
  shows "scan_fraction rest = Some ([], rest)" "scan_exponent rest = Some (0, rest)"
  using assms by (cases rest; auto simp: follows_def scan_fraction_def scan_exponent_def)+

lemma scan_integer:
  assumes "follows rest"
  shows "scan_number rnd (show_int n @ rest) = Some (JNum (rnd (of_int n)), rest)"
proof (cases "n < 0")
  case True
  then show ?thesis
    using digits_scanned [OF assms, of "nat (- n)"] digits_canonical [of "nat (- n)"]
    by (simp add: scan_number_def show_int_def Let_def follows_not_continued [OF assms] decimal_value_def
        digits_roundtrip of_nat_nat)
next
  case False
  have "take 1 (digits (nat n) @ rest) \<noteq> ''-''"
    using digits_not_minus [of "nat n"] digits_canonical [of "nat n"] by (cases "digits (nat n)") auto
  then show ?thesis
    using False digits_scanned [OF assms, of "nat n"] digits_canonical [of "nat n"]
    by (simp add: scan_number_def show_int_def Let_def follows_not_continued [OF assms] decimal_value_def
        digits_roundtrip of_nat_nat)
qed

text \<open>
  The values the program puts on the wire: safe integers, and objects with distinct keys in
  enumeration order.
\<close>

fun wire :: "json \<Rightarrow> bool" where
  "wire (JNum x) = isSafeInteger (JNum x)"
| "wire (JArr xs) = list_all wire xs"
| "wire (JObj kvs) =
     (distinct (map fst kvs) \<and> fromEntries kvs = kvs \<and> list_all (\<lambda>kv. wire (snd kv)) kvs)"
| "wire _ = True"

definition exact_on_integers :: "(rat \<Rightarrow> js_number) \<Rightarrow> bool" where
  "exact_on_integers rnd \<longleftrightarrow> (\<forall>n. \<bar>n\<bar> \<le> max_safe_integer \<longrightarrow> rnd (of_int n) = Fin (of_int n))"

definition reads_back :: "(rat \<Rightarrow> js_number) \<Rightarrow> json \<Rightarrow> bool" where
  "reads_back rnd v \<longleftrightarrow> (\<forall>rest. follows rest \<longrightarrow> parse_value rnd (stringify v @ rest) = Some (v, rest))"

lemma show_int_head:
  obtains c cs where "show_int n = c # cs" "c = CHR ''-'' \<or> ascii_digit c"
proof (cases "n < 0")
  case True
  then show ?thesis using that by (simp add: show_int_def)
next
  case False
  then show ?thesis
    using that digits_canonical [of "nat n"] digits_ascii [of _ "nat n"]
    by (cases "digits (nat n)") (auto simp: show_int_def)
qed

lemma reads_back_number:
  assumes "exact_on_integers rnd" "wire (JNum x)"
  shows "reads_back rnd (JNum x)"
  unfolding reads_back_def
proof (intro allI impI)
  fix rest assume f: "follows rest"
  obtain n where n: "x = Fin (of_int n)" "\<bar>n\<bar> \<le> max_safe_integer"
    using assms(2) safe_int_eq_SomeD by fastforce
  then have printed: "stringify (JNum x) = show_int n" by (simp add: show_rat_def)
  obtain c cs where c: "show_int n = c # cs" "c = CHR ''-'' \<or> ascii_digit c" by (rule show_int_head)
  have "scan_literal (c # cs @ rest) = None" "\<not> is_blank c"
    "c \<noteq> CHR ''{''" "c \<noteq> CHR ''[''" "c \<noteq> CHR 0x22"
    using c(2) by (auto simp: scan_literal_def is_blank_def ascii_digit_def)
  then have "parse_value rnd (show_int n @ rest) = scan_number rnd (show_int n @ rest)"
    unfolding c(1) by (subst parse_value.simps) simp
  then show "parse_value rnd (stringify (JNum x) @ rest) = Some (JNum x, rest)"
    using scan_integer [OF f, of rnd n] assms(1) n printed by (simp add: exact_on_integers_def)
qed

lemma reads_back_scalars:
  "reads_back rnd JNull" "reads_back rnd (JBool b)" "reads_back rnd (JStr t)"
proof -
  show "reads_back rnd (JStr t)"
    unfolding reads_back_def
    by (subst parse_value.simps) (simp add: is_blank_def quote_def scan_quoted)
qed (unfold reads_back_def; subst parse_value.simps; simp add: is_blank_def scan_literal_def)+

lemma stringify_head:
  assumes "wire v"
  obtains c cs where "stringify v = c # cs" "\<not> is_blank c" "c \<noteq> CHR '']''" "(of_char c :: nat) < 128"
proof (cases v)
  case (JNum x)
  then obtain n where "stringify v = show_int n"
    using assms by (auto simp: show_rat_def dest!: safe_int_eq_SomeD)
  moreover obtain c cs where "show_int n = c # cs" "c = CHR ''-'' \<or> ascii_digit c" by (rule show_int_head)
  moreover have "\<not> is_blank c" "c \<noteq> CHR '']''" "(of_char c :: nat) < 128"
    using calculation(3) by (auto simp: is_blank_def ascii_digit_def Let_def)
  ultimately show ?thesis using that by simp
next
  case (JBool b)
  then show ?thesis using that by (cases b) (auto simp: is_blank_def)
qed (use that in \<open>auto simp: quote_def is_blank_def\<close>)

lemma reads_back_elements:
  assumes "\<forall>x \<in> set xs. reads_back rnd x" "xs \<noteq> []"
  shows "parse_elements rnd acc (comma_separated (map stringify xs) @ CHR '']'' # rest) = Some (JArr (acc @ xs), rest)"
  using assms
proof (induction xs arbitrary: acc)
  case (Cons x xs)
  note ih = Cons.IH and prems = Cons.prems
  have x: "parse_value rnd (stringify x @ c # cs) = Some (x, c # cs)" if "c \<in> {CHR '','', CHR '']''}" for c cs
    using Cons.prems(1) that by (auto simp: reads_back_def follows_def)
  show ?case
  proof (cases xs)
    case Nil
    then show ?thesis by (subst parse_elements.simps) (simp add: x is_blank_def)
  next
    case (Cons y ys)
    then show ?thesis
      using ih [of "acc @ [x]"] prems(1)
      by (subst parse_elements.simps) (simp add: x is_blank_def)
  qed
qed simp

lemma reads_back_members:
  assumes "\<forall>kv \<in> set kvs. reads_back rnd (snd kv)" "kvs \<noteq> []" "distinct (map fst (acc @ kvs))"
  shows "parse_members rnd acc
      (comma_separated (map (\<lambda>(k, v). quote k @ '':'' @ stringify v) kvs) @ CHR ''}'' # rest) =
    Some (JObj (fromEntries (acc @ kvs)), rest)"
  using assms
proof (induction kvs arbitrary: acc)
  case (Cons kv kvs)
  note ih = Cons.IH and prems = Cons.prems
  obtain k v where kv: "kv = (k, v)" by (cases kv)
  have v: "parse_value rnd (stringify v @ c # cs) = Some (v, c # cs)" if "c \<in> {CHR '','', CHR ''}''}" for c cs
    using Cons.prems(1) that by (auto simp: reads_back_def follows_def kv)
  have acc: "AList.update k v acc = acc @ [(k, v)]"
    using Cons.prems(3) by (simp add: kv update_fresh)
  show ?case
  proof (cases kvs)
    case Nil
    then show ?thesis
      by (subst parse_members.simps) (simp add: kv v acc is_blank_def quote_def scan_quoted)
  next
    case (Cons y ys)
    then show ?thesis
      using ih [of "acc @ [(k, v)]"] prems
      by (subst parse_members.simps) (simp add: kv v acc is_blank_def quote_def scan_quoted)
  qed
qed simp

lemma wire_reads_back:
  assumes "exact_on_integers rnd" "wire v"
  shows "reads_back rnd v"
  using assms(2)
proof (induction v)
  case (JNum x)
  then show ?case using assms(1) by (rule reads_back_number [rotated])
next
  case (JArr xs)
  then have items: "\<forall>x \<in> set xs. reads_back rnd x" by (auto simp: list_all_iff)
  show ?case
  proof (cases xs)
    case Nil
    then show ?thesis unfolding reads_back_def by (subst parse_value.simps) (simp add: is_blank_def)
  next
    case (Cons x ys)
    obtain c cs where c: "stringify x = c # cs" "\<not> is_blank c" "c \<noteq> CHR '']''"
      using JArr.prems Cons by (auto elim: stringify_head)
    obtain more where "comma_separated (map stringify xs) = stringify x @ more"
      by (cases ys) (auto simp: Cons)
    then have "parse_value rnd (stringify (JArr xs) @ rest) =
        parse_elements rnd [] (comma_separated (map stringify xs) @ CHR '']'' # rest)" for rest
      using c by (subst parse_value.simps) (simp add: is_blank_def [of "CHR ''[''"])
    then show ?thesis using reads_back_elements [OF items] Cons by (simp add: reads_back_def)
  qed
next
  case (JObj kvs)
  then have items: "\<forall>kv \<in> set kvs. reads_back rnd (snd kv)" by (force simp: list_all_iff)
  let ?body = "comma_separated (map (\<lambda>(k, v). quote k @ '':'' @ stringify v) kvs)"
  show ?case
  proof (cases kvs)
    case Nil
    then show ?thesis unfolding reads_back_def by (subst parse_value.simps) (simp add: is_blank_def)
  next
    case (Cons kv ys)
    obtain more where "?body = CHR 0x22 # more"
      by (cases ys; cases kv) (auto simp: Cons quote_def)
    then have "parse_value rnd (stringify (JObj kvs) @ rest) = parse_members rnd [] (?body @ CHR ''}'' # rest)" for rest
      by (subst parse_value.simps) (simp add: is_blank_def)
    then show ?thesis
      using reads_back_members [OF items, of "[]"] Cons JObj.prems by (simp add: reads_back_def)
  qed
qed (rule reads_back_scalars)+

lemma parse_stringify:
  assumes "exact_on_integers rnd" "wire v"
  shows "JSON_parse rnd (stringify v) = Some v"
  using wire_reads_back [OF assms] by (simp add: JSON_parse_def reads_back_def follows_def spec [of _ "[]"])

lemma text_decode_stringify:
  assumes "wire v" "utf8_valid (stringify v)"
  shows "text_decode (stringify v) = stringify v"
proof -
  obtain c cs where c: "stringify v = c # cs" "(of_char c :: nat) < 128"
    by (rule stringify_head [OF assms(1)])
  then have "strip_bom (stringify v) = stringify v" by (auto simp: strip_bom_def)
  then show ?thesis using concat_utf8_chars [OF assms(2)] by (simp add: text_decode_def)
qed

end
