(* ===== verification/Server_Wire.thy ===== *)
theory Server_Wire
  imports Server_Activation Json_Parse
begin

text \<open>
  The JSON-RPC server on the wire: a request document reaches the handlers as the envelope it
  prints, and the frames the server sends are the documents they print.
\<close>

lemma fetch_document:
  assumes "exact_on_integers rnd" "0 \<le> sc_maxFrameBytes cfg" "http_method request = ''POST''"
    "\<not> declared_too_large to_number (http_content_length request) (sc_maxFrameBytes cfg)"
    "body_bytes (http_body request) = Some (stringify v)"
    "int (byte_length v) \<le> sc_maxFrameBytes cfg" "wire v" "utf8_valid (stringify v)"
  shows "handle_fetch to_number (JSON_parse rnd) cfg s request uuid = handle_envelope cfg s v uuid"
proof -
  have "readBoundedBody to_number (http_content_length request) (http_body request) (sc_maxFrameBytes cfg) =
      Inr (stringify v)"
    using assms text_decode_stringify [OF assms(7,8)]
    by (auto simp: readBoundedBody_Inr_iff byte_length_def)
  then show ?thesis
    using assms(3) parse_stringify [OF assms(1,7)] by (simp add: handle_fetch_def)
qed

definition rpc_frame :: "json \<Rightarrow> json \<Rightarrow> json" where
  "rpc_frame rpc r = JObj [(''jsonrpc'', JStr ''2.0''), (''id'', rpc), (''result'', r)]"

lemma rpc_frame_wire: "wire rpc \<Longrightarrow> wire r \<Longrightarrow> wire (rpc_frame rpc r)"
proof -
  have "\<not> array_index ''jsonrpc''" "\<not> array_index ''id''" "\<not> array_index ''result''"
    by (simp_all add: array_index_def decimal_text_def ascii_digit_def)
  then show "wire rpc \<Longrightarrow> wire r \<Longrightarrow> wire (rpc_frame rpc r)"
    by (auto simp: rpc_frame_def intro!: fromEntries_no_index)
qed

text \<open>C28. 
  The wire is transparent for documents whose numbers are safe integers. A document within the
  frame limit, cut into chunks in any way, is handled exactly as the envelope it prints. A result is
  answered with a frame within the given limit that parses back to its envelope, or with status 413
  when the text of the envelope is longer than the limit.
\<close>

theorem server_wire_roundtrip:
  assumes "exact_on_integers rnd"
  shows "(0 \<le> sc_maxFrameBytes cfg \<and> http_method request = ''POST'' \<and>
      \<not> declared_too_large to_number (http_content_length request) (sc_maxFrameBytes cfg) \<and>
      body_bytes (http_body request) = Some (stringify v) \<and>
      int (byte_length v) \<le> sc_maxFrameBytes cfg \<and> wire v \<and> utf8_valid (stringify v) \<longrightarrow>
      server_step to_number (JSON_parse rnd) cfg s (Fetch request uuid) = handle_envelope cfg s v uuid) \<and>
    (wire rpc \<and> wire r \<longrightarrow>
      (\<exists>t. jsonRpcResult rpc (Some r) limit = Response 200 t \<and> JSON_parse rnd t = Some (rpc_frame rpc r) \<and>
         (\<forall>m. limit = Some m \<longrightarrow> int (length t) \<le> m)) \<or>
      (\<exists>m. limit = Some m \<and> m < int (byte_length (rpc_frame rpc r)) \<and>
         jsonRpcResult rpc (Some r) limit = Response 413 ''response too large''))"
proof (intro conjI impI)
  assume "wire rpc \<and> wire r"
  then have "JSON_parse rnd (stringify (rpc_frame rpc r)) = Some (rpc_frame rpc r)"
    using parse_stringify [OF assms] rpc_frame_wire by simp
  then show "(\<exists>t. jsonRpcResult rpc (Some r) limit = Response 200 t \<and>
        JSON_parse rnd t = Some (rpc_frame rpc r) \<and> (\<forall>m. limit = Some m \<longrightarrow> int (length t) \<le> m)) \<or>
      (\<exists>m. limit = Some m \<and> m < int (byte_length (rpc_frame rpc r)) \<and>
         jsonRpcResult rpc (Some r) limit = Response 413 ''response too large'')"
    by (cases limit)
      (auto simp: jsonRpcResult_def rpc_frame_def json_object_response_def byte_length_def)
qed (use fetch_document [OF assms] in auto)

definition sample_envelope :: json where
  "sample_envelope =
     JObj [(''jsonrpc'', JStr ''2.0''), (''id'', jint 7), (''method'', JStr ''lenso.cancel'')]"

text \<open>Its text, sent in two chunks.\<close>

definition sample_post :: http_request where
  "sample_post =
     \<lparr>http_method = ''POST'', http_content_length = None,
      http_body = Some [Chunk (take 9 (stringify sample_envelope)), Chunk (drop 9 (stringify sample_envelope))]\<rparr>"

lemma sample_envelope_text:
  "stringify sample_envelope =
     [CHR ''{''] @ quote ''jsonrpc'' @ '':'' @ quote ''2.0'' @ '','' @ quote ''id'' @ '':7,'' @ quote ''method'' @
     '':'' @ quote ''lenso.cancel'' @ [CHR ''}'']"
proof -
  have "digits 7 = ''7''" by code_simp
  then have "show_rat 7 = ''7''" by (simp add: show_rat_def show_int_def)
  then show ?thesis by (simp add: sample_envelope_def)
qed

theorem server_wire_roundtrip_witness:
  "exact_on_integers Fin \<and>
   server_step (\<lambda>_. Fin 0) (JSON_parse Fin) activation_config (initial_server activation_config)
     (Fetch sample_post ''u'') =
     handle_envelope activation_config (initial_server activation_config) sample_envelope ''u'' \<and>
   (\<exists>t. jsonRpcResult (jint 7) (Some (JBool True)) None = Response 200 t \<and>
      JSON_parse Fin t = Some (rpc_frame (jint 7) (JBool True)))"
proof -
  have exact: "exact_on_integers Fin" by (simp add: exact_on_integers_def)
  have ascii: "\<forall>c \<in> set (stringify sample_envelope). (of_char c :: nat) \<le> 127"
    "length (stringify sample_envelope) \<le> 100"
    unfolding sample_envelope_text by (simp_all add: quote_def escape_char_def Let_def)
  have wire: "wire sample_envelope"
    by (simp add: sample_envelope_def fromEntries_def array_index_def decimal_text_def ascii_digit_def)
  have body: "body_bytes (http_body sample_post) = Some (stringify sample_envelope)"
    by (simp add: sample_post_def body_bytes_def)
  show ?thesis
    using server_wire_roundtrip [OF exact, of activation_config sample_post "\<lambda>_. Fin 0" sample_envelope
        "initial_server activation_config" "''u''" "jint 7" "JBool True" None]
      exact ascii wire body utf8_valid_ascii [OF ascii(1)]
    by (auto simp: sample_post_def activation_config_def declared_too_large_def byte_length_def jsonRpcResult_def
        json_object_response_def)
qed

end
