(* ===== verification/Process_V1.thy ===== *)
theory Process_V1
  imports Plugin_Server
begin

text \<open>
  The Process V1 server (\<open>packages/lenso-bun-plugin/src/process-v1.ts\<close>): two listeners, one
  authenticated handshake, a bounded control queue, a bounded pool of data requests with a FIFO of
  waiters, and a ledger of correlation identities that is never evicted.

  The package \<open>@lenso/process-protocol\<close> and the digest functions are not part of the
  repository: they are the record \<open>process_protocol\<close>, an argument of the definitions. A
  validator of that package takes the envelope and returns the typed parameters, or \<open>None\<close>
  when it throws. As in the JSON-RPC server, an event is the code between two \<open>await\<close>s; a
  data request in flight is in one of the phases of \<open>data_phase\<close>.
\<close>

section \<open>Protocol types\<close>

record provided_capability =
  pc_capability_id :: string
  pc_descriptor_version :: string
  pc_descriptor_digest :: string
  pc_operations :: "string list"

record peer_limits =
  max_concurrent_requests :: int
  child_request_queue_capacity :: int
  control_queue_capacity :: int
  max_retired_correlation_ids :: int
  max_http_body_bytes :: int
  max_control_http_body_bytes :: int

record handshake_identity =
  identity_json :: json
  provided_capabilities :: "provided_capability list"
  identity_peer_limits :: peer_limits

record handshake_params =
  hp_identity :: handshake_identity
  hp_host_nonce :: string
  hp_host_proof :: string

record request_params =
  rp_session :: string
  rp_correlation_id :: string
  rp_capability_id :: string
  rp_descriptor_version :: string
  rp_descriptor_digest :: string
  rp_operation :: string
  rp_remaining_timeout_nanos :: "int option"
  rp_caller_instance :: "string option"
  rp_extensions :: "(string \<times> json) list"
  rp_payload :: json

record rpc_envelope =
  env_id :: string
  env_method :: string
  env_params :: json

record process_protocol =
  HANDSHAKE_METHOD :: string
  CANCEL_METHOD :: string
  SHUTDOWN_METHOD :: string
  REQUEST_METHOD :: string
  PROCESS_PROFILE :: string
  parseStrictJson :: "string \<Rightarrow> json option"
  validate_handshake :: "rpc_envelope \<Rightarrow> handshake_params option"
  validate_cancel :: "rpc_envelope \<Rightarrow> (string \<times> string) option"
  validate_shutdown :: "rpc_envelope \<Rightarrow> string option"
  validate_request :: "rpc_envelope \<Rightarrow> request_params option"
  handshakeProofPayload :: "handshake_identity \<Rightarrow> string \<Rightarrow> string \<Rightarrow> string"
  hostProofMessage :: "string \<Rightarrow> string"
  childProofMessage :: "string \<Rightarrow> string \<Rightarrow> string"
  decodeBase64Url32 :: "string \<Rightarrow> string option"
  encodeBase64Url :: "string \<Rightarrow> string"
  sha256 :: "string \<Rightarrow> string"
  hmac_sha256 :: "string \<Rightarrow> string \<Rightarrow> string"

record process_provider =
  pv_descriptor :: provider_descriptor
  pv_validateRequest :: "string \<Rightarrow> json \<Rightarrow> thrown option"
  pv_validateSuccess :: "string \<Rightarrow> json \<Rightarrow> thrown option"
  pv_validateDomainError :: "string \<Rightarrow> json \<Rightarrow> thrown option"

section \<open>Provider table\<close>

datatype process_error =
    InvalidSecretLength
  | InvalidProviderTable
  | NoProviders
  | TableMismatch
  | TableIncomplete
  | NoDistinctListeners
  | BootstrapPipeLength

fun collect_providers ::
  "(string \<times> process_provider) list \<Rightarrow> process_provider list \<Rightarrow> process_error + (string \<times> process_provider) list" where
  "collect_providers table [] = Inr table"
| "collect_providers table (p # ps) =
     (if stream_operations (pv_descriptor p) \<noteq> [] \<or> event_operations (pv_descriptor p) \<noteq> [] \<or>
         map_has table (capability_id (pv_descriptor p))
      then Inl InvalidProviderTable
      else collect_providers (AList.update (capability_id (pv_descriptor p)) p table) ps)"

definition collectProviders :: "process_provider list \<Rightarrow> process_error + (string \<times> process_provider) list" where
  "collectProviders bindings =
     bind_result (collect_providers [] bindings) (\<lambda>table. if table = [] then Inl NoProviders else Inr table)"

definition expected_capability :: "handshake_identity \<Rightarrow> string \<Rightarrow> provided_capability option" where
  "expected_capability identity cap =
     map_of (rev (map (\<lambda>c. (pc_capability_id c, c)) (provided_capabilities identity))) cap"

definition expected_size :: "handshake_identity \<Rightarrow> nat" where
  "expected_size identity = length (remdups (map pc_capability_id (provided_capabilities identity)))"

definition provider_admitted :: "handshake_identity \<Rightarrow> process_provider \<Rightarrow> bool" where
  "provider_admitted identity p \<longleftrightarrow>
     (case expected_capability identity (capability_id (pv_descriptor p)) of
        None \<Rightarrow> False
      | Some descriptor \<Rightarrow>
          pc_descriptor_version descriptor = descriptor_version (pv_descriptor p) \<and>
          Some (pc_descriptor_digest descriptor) = descriptor_digest (pv_descriptor p) \<and>
          stringify_strings (pc_operations descriptor) = stringify_strings (operations (pv_descriptor p)) \<and>
          stream_operations (pv_descriptor p) = [] \<and> event_operations (pv_descriptor p) = [])"

definition validateProviderIdentity ::
  "handshake_identity \<Rightarrow> (string \<times> process_provider) list \<Rightarrow> process_error + unit" where
  "validateProviderIdentity identity table =
     (if \<not> list_all (provider_admitted identity) (map snd table) then Inl TableMismatch
      else if length table \<noteq> expected_size identity then Inl TableIncomplete
      else Inr ())"

definition zero_bytes :: string where
  "zero_bytes = replicate 32 (char_of (0 :: nat))"

definition sameIdentity :: "process_protocol \<Rightarrow> handshake_identity \<Rightarrow> handshake_identity \<Rightarrow> bool" where
  "sameIdentity proto left right \<longleftrightarrow>
     (let z = encodeBase64Url proto zero_bytes in
      text_decode (handshakeProofPayload proto left z z) = text_decode (handshakeProofPayload proto right z z))"

section \<open>Envelopes and responses\<close>

record http_shape =
  shape_pathname :: string
  shape_search :: string
  shape_method :: string
  shape_content_type :: "string option"

definition ascii_lower :: "char \<Rightarrow> char" where
  "ascii_lower c = (let b = of_char c :: nat in if 65 \<le> b \<and> b \<le> 90 then char_of (b + 32) else c)"

definition rejectHttpShape :: "http_shape \<Rightarrow> string \<Rightarrow> http_response option" where
  "rejectHttpShape request path =
     (if shape_pathname request \<noteq> path \<or> shape_search request \<noteq> [] then Some (Response 404 ''not found'')
      else if shape_method request \<noteq> ''POST'' then Some (Response 405 ''method not allowed'')
      else if map_option (map ascii_lower) (shape_content_type request) \<noteq> Some ''application/json''
      then Some (Response 415 ''unsupported media type'')
      else None)"

definition rpcResult :: "string \<Rightarrow> json \<Rightarrow> http_response" where
  "rpcResult rpc result = json_object_response (JObj [(''jsonrpc'', JStr ''2.0''), (''id'', JStr rpc), (''result'', result)])"

definition rpcError :: "json \<Rightarrow> int \<Rightarrow> string \<Rightarrow> http_response" where
  "rpcError rpc code message = jsonRpcError rpc code message"

definition envelope_of_json :: "json \<Rightarrow> rpc_envelope option" where
  "envelope_of_json v =
     (case v of
        JObj kvs \<Rightarrow>
          (if list_ex (\<lambda>k. k \<notin> {''jsonrpc'', ''id'', ''method'', ''params''}) (map fst kvs) \<or>
              field v ''jsonrpc'' \<noteq> Some (JStr ''2.0'')
           then None
           else case (field v ''id'', field v ''method'', field v ''params'') of
             (Some (JStr i), Some (JStr m), Some p) \<Rightarrow> Some \<lparr>env_id = i, env_method = m, env_params = p\<rparr>
           | _ \<Rightarrow> None)
      | _ \<Rightarrow> None)"

definition parseEnvelope :: "process_protocol \<Rightarrow> body_read list option \<Rightarrow> int \<Rightarrow> http_response + rpc_envelope" where
  "parseEnvelope proto body maximumBytes =
     (case readBounded body maximumBytes of
        Inl _ \<Rightarrow> Inl (Response 413 ''request too large'')
      | Inr wire \<Rightarrow>
          (case parseStrictJson proto wire of
             None \<Rightarrow> Inl (rpcError JNull (-32700) ''Parse error'')
           | Some v \<Rightarrow>
               (case envelope_of_json v of
                  None \<Rightarrow> Inl (rpcError JNull (-32600) ''Invalid Request'')
                | Some e \<Rightarrow> Inr e)))"

definition requestResult :: "request_params \<Rightarrow> json \<Rightarrow> int \<Rightarrow> http_response" where
  "requestResult params outcome maximumBytes =
     (let body = JObj [(''jsonrpc'', JStr ''2.0''), (''id'', JStr (rp_correlation_id params)),
            (''result'', JObj [(''session'', JStr (rp_session params)),
               (''correlation_id'', JStr (rp_correlation_id params)), (''outcome'', outcome)])]
      in if int (byte_length body) > maximumBytes then Response 413 ''response too large'' else json_object_response body)"

definition resource_exhausted :: "string \<Rightarrow> json" where
  "resource_exhausted oper = runtime_outcome [(''kind'', JStr ''resource_exhausted''), (''operation'', JStr oper)]"

definition plugin_failure_v1 :: "thrown \<Rightarrow> json" where
  "plugin_failure_v1 e = runtime_outcome [(''kind'', JStr ''plugin_failure''), (''detail'', JStr (boundedErrorV1 e))]"

text \<open>A runtime failure is an object that is not an \<open>Error\<close>.\<close>

definition toProcessOutcome :: "dispatch_outcome \<Rightarrow> string \<Rightarrow> json" where
  "toProcessOutcome outcome oper =
     (case outcome of
        Success v \<Rightarrow> JObj [(''kind'', JStr ''success''), (''value'', v)]
      | Domain v \<Rightarrow> JObj [(''kind'', JStr ''domain''), (''error'', v)]
      | Runtime failure \<Rightarrow>
          if map_of failure ''kind'' = Some (JStr ''resource_exhausted'') then resource_exhausted oper
          else plugin_failure_v1 PlainObject)"

definition validateProviderOutcome :: "process_provider \<Rightarrow> string \<Rightarrow> dispatch_outcome \<Rightarrow> thrown option" where
  "validateProviderOutcome p oper outcome =
     (case outcome of
        Success v \<Rightarrow> pv_validateSuccess p oper v
      | Domain v \<Rightarrow> pv_validateDomainError p oper v
      | Runtime _ \<Rightarrow> None)"

definition startChildTimer :: "int option \<Rightarrow> int option" where
  "startChildTimer remaining =
     (case remaining of None \<Rightarrow> None | Some nanos \<Rightarrow> Some (min ((nanos + 999999) div 1000000) 2147483647))"

record process_context =
  pctx_requestId :: string
  pctx_callerInstance :: "string option"
  pctx_extensions :: "(string \<times> json) list option"

definition invocationContextV1 :: "request_params \<Rightarrow> process_context" where
  "invocationContextV1 params =
     \<lparr>pctx_requestId = rp_correlation_id params, pctx_callerInstance = rp_caller_instance params,
      pctx_extensions =
        (if rp_extensions params = [] then None
         else Some (foldl (\<lambda>m (k, v). AList.update k v m) [] (rp_extensions params)))\<rparr>"

section \<open>State\<close>

datatype data_phase =
    Waiting request_params
  | Granted request_params
  | Invoking request_params

record process_server =
  p_active :: "(string \<times> bool) list"
  p_retired :: "string list"
  p_accepting :: bool
  p_handshakeAttempted :: bool
  p_session :: "string option"
  p_identity :: "handshake_identity option"
  p_secret :: string
  p_running :: int
  p_waiters :: "string list"
  p_phases :: "(string \<times> data_phase) list"
  p_timers :: "string list"
  p_controlInFlight :: int
  p_control :: "(nat \<times> int) list"
  p_data :: "(nat \<times> int) list"
  p_next :: nat
  p_stop_scheduled :: bool
  p_listening :: bool

record process_config =
  pcfg_protocol :: process_protocol
  pcfg_identity :: "handshake_identity option"
  pcfg_providers :: "(string \<times> process_provider) list"

definition initial_process :: "string \<Rightarrow> process_server" where
  "initial_process secret =
     \<lparr>p_active = [], p_retired = [], p_accepting = True, p_handshakeAttempted = False, p_session = None,
      p_identity = None, p_secret = secret, p_running = 0, p_waiters = [], p_phases = [], p_timers = [],
      p_controlInFlight = 0, p_control = [], p_data = [], p_next = 0, p_stop_scheduled = False, p_listening = True\<rparr>"

text \<open>\<open>ports\<close> are the two bound ports, when both listeners are bound.\<close>

definition readiness_line :: "process_protocol \<Rightarrow> (int \<times> int) option \<Rightarrow> process_error + string" where
  "readiness_line proto ports =
     (case ports of
        None \<Rightarrow> Inl NoDistinctListeners
      | Some (data, control) \<Rightarrow>
          if data = control then Inl NoDistinctListeners
          else Inr (stringify (JObj [(''protocol'', JStr (PROCESS_PROFILE proto)), (''data_port'', jint data),
            (''control_port'', jint control)]) @ [CHR 0x0A]))"

definition startProcessV1 ::
  "process_protocol \<Rightarrow> handshake_identity option \<Rightarrow> string \<Rightarrow> process_provider list \<Rightarrow> (int \<times> int) option \<Rightarrow>
   process_error + process_config \<times> process_server \<times> string" where
  "startProcessV1 proto identity secret bindings ports =
     (if length secret \<noteq> 32 then Inl InvalidSecretLength
      else bind_result (collectProviders bindings) (\<lambda>table.
        bind_result (readiness_line proto ports) (\<lambda>line.
        Inr (\<lparr>pcfg_protocol = proto, pcfg_identity = identity, pcfg_providers = table\<rparr>, initial_process secret, line))))"

section \<open>Control listener\<close>

definition cancel_process :: "process_server \<Rightarrow> process_server" where
  "cancel_process s = s\<lparr>p_active := map (\<lambda>(i, c). (i, True)) (p_active s)\<rparr>"

definition cancel_correlation :: "string \<Rightarrow> process_server \<Rightarrow> process_server" where
  "cancel_correlation cid s = s\<lparr>p_active := map (\<lambda>(i, c). (i, if i = cid then True else c)) (p_active s)\<rparr>"

definition invalid_params :: "string \<Rightarrow> string \<Rightarrow> http_response" where
  "invalid_params rpc message = rpcError (JStr rpc) (-32602) message"

text \<open>The part of the handshake inside \<open>try ... finally\<close>, before the secret is erased.\<close>

definition handshake_attempt ::
  "process_config \<Rightarrow> process_server \<Rightarrow> rpc_envelope \<Rightarrow> string \<Rightarrow> http_response \<times> process_server" where
  "handshake_attempt cfg s e random =
     (let proto = pcfg_protocol cfg in
      case validate_handshake proto e of
        None \<Rightarrow> (invalid_params (env_id e) ''Invalid params'', s)
      | Some params \<Rightarrow>
          if (case pcfg_identity cfg of None \<Rightarrow> False | Some identity \<Rightarrow> \<not> sameIdentity proto (hp_identity params) identity)
          then (invalid_params (env_id e) ''handshake identity mismatch'', s)
          else if validateProviderIdentity (hp_identity params) (pcfg_providers cfg) \<noteq> Inr ()
          then (invalid_params (env_id e) ''Invalid params'', s)
          else
            let digest = sha256 proto (handshakeProofPayload proto (hp_identity params) (hp_host_nonce params) (hp_host_proof params));
                expected = hmac_sha256 proto (p_secret s) (hostProofMessage proto digest)
            in case decodeBase64Url32 proto (hp_host_proof params) of
                 None \<Rightarrow> (invalid_params (env_id e) ''Invalid params'', s)
               | Some actual \<Rightarrow>
                   if length expected \<noteq> length actual then (invalid_params (env_id e) ''Invalid params'', s)
                   else if expected \<noteq> actual then (invalid_params (env_id e) ''host proof mismatch'', s)
                   else
                     let token = encodeBase64Url proto random in
                     (rpcResult (env_id e) (JObj [(''identity'', identity_json (hp_identity params)), (''session'', JStr token),
                        (''child_proof'', JStr (encodeBase64Url proto (hmac_sha256 proto (p_secret s) (childProofMessage proto digest token))))]),
                      s\<lparr>p_session := Some token, p_identity := Some (hp_identity params)\<rparr>))"

definition process_handshake ::
  "process_config \<Rightarrow> process_server \<Rightarrow> rpc_envelope \<Rightarrow> string \<Rightarrow> http_response \<times> process_server" where
  "process_handshake cfg s e random =
     (if p_handshakeAttempted s then (invalid_params (env_id e) ''handshake already attempted'', s)
      else case handshake_attempt cfg (s\<lparr>p_handshakeAttempted := True\<rparr>) e random of
        (r, s') \<Rightarrow> (r, s'\<lparr>p_secret := zero_bytes\<rparr>))"

definition session_ok :: "process_server \<Rightarrow> string \<Rightarrow> bool" where
  "session_ok s candidate \<longleftrightarrow> p_session s = Some candidate"

definition accepted_result :: "rpc_envelope \<Rightarrow> string \<Rightarrow> http_response" where
  "accepted_result e token = rpcResult (env_id e) (JObj [(''session'', JStr token), (''accepted'', JBool True)])"

definition process_cancel :: "process_config \<Rightarrow> process_server \<Rightarrow> rpc_envelope \<Rightarrow> http_response \<times> process_server" where
  "process_cancel cfg s e =
     (case validate_cancel (pcfg_protocol cfg) e of
        None \<Rightarrow> (invalid_params (env_id e) ''Invalid params'', s)
      | Some (token, cid) \<Rightarrow>
          if \<not> session_ok s token then (invalid_params (env_id e) ''Invalid params'', s)
          else (accepted_result e token, cancel_correlation cid s))"

definition process_shutdown :: "process_config \<Rightarrow> process_server \<Rightarrow> rpc_envelope \<Rightarrow> http_response \<times> process_server" where
  "process_shutdown cfg s e =
     (case validate_shutdown (pcfg_protocol cfg) e of
        None \<Rightarrow> (invalid_params (env_id e) ''Invalid params'', s)
      | Some token \<Rightarrow>
          if \<not> session_ok s token then (invalid_params (env_id e) ''Invalid params'', s)
          else (accepted_result e token, (cancel_process (s\<lparr>p_accepting := False\<rparr>))\<lparr>p_stop_scheduled := True\<rparr>))"

definition control_dispatch ::
  "process_config \<Rightarrow> process_server \<Rightarrow> rpc_envelope \<Rightarrow> string \<Rightarrow> http_response \<times> process_server" where
  "control_dispatch cfg s e random =
     (let proto = pcfg_protocol cfg in
      if env_method e = HANDSHAKE_METHOD proto then process_handshake cfg s e random
      else if env_method e = CANCEL_METHOD proto then process_cancel cfg s e
      else if env_method e = SHUTDOWN_METHOD proto then process_shutdown cfg s e
      else (rpcError (JStr (env_id e)) (-32601) ''Method not found'', s))"

definition release_control :: "process_server \<Rightarrow> process_server" where
  "release_control s = (if p_controlInFlight s > 0 then s\<lparr>p_controlInFlight := p_controlInFlight s - 1\<rparr> else s)"

definition control_capacity :: "process_server \<Rightarrow> int" where
  "control_capacity s = (case p_identity s of Some i \<Rightarrow> control_queue_capacity (identity_peer_limits i) | None \<Rightarrow> 32)"

text \<open>A control request up to its first \<open>await\<close>; the body limit is the one in force then.\<close>

definition control_arrive :: "process_server \<Rightarrow> http_shape \<Rightarrow> http_response option \<times> process_server" where
  "control_arrive s request =
     (if p_controlInFlight s \<ge> control_capacity s then (Some (Response 503 ''control queue full''), s)
      else
        let s' = s\<lparr>p_controlInFlight := p_controlInFlight s + 1\<rparr> in
        case rejectHttpShape request ''/control'' of
          Some r \<Rightarrow> (Some r, release_control s')
        | None \<Rightarrow>
            (None, s'\<lparr>p_control := p_control s' @ [(p_next s', case p_identity s' of
                Some i \<Rightarrow> max_control_http_body_bytes (identity_peer_limits i) | None \<Rightarrow> 16384)],
              p_next := Suc (p_next s')\<rparr>))"

definition control_body ::
  "process_config \<Rightarrow> process_server \<Rightarrow> nat \<Rightarrow> int \<Rightarrow> body_read list option \<Rightarrow> string \<Rightarrow> http_response option \<times> process_server" where
  "control_body cfg s tok limit body random =
     (let s0 = s\<lparr>p_control := AList.delete tok (p_control s)\<rparr> in
      case parseEnvelope (pcfg_protocol cfg) body limit of
        Inl r \<Rightarrow> (Some r, release_control s0)
      | Inr e \<Rightarrow> (case control_dispatch cfg s0 e random of (r, s') \<Rightarrow> (Some r, release_control s')))"

section \<open>Data listener\<close>

definition data_arrive :: "process_server \<Rightarrow> http_shape \<Rightarrow> http_response option \<times> process_server" where
  "data_arrive s request =
     (case rejectHttpShape request ''/rpc'' of
        Some r \<Rightarrow> (Some r, s)
      | None \<Rightarrow>
          (None, s\<lparr>p_data := p_data s @ [(p_next s, case p_identity s of
              Some i \<Rightarrow> max_http_body_bytes (identity_peer_limits i) | None \<Rightarrow> 65536)], p_next := Suc (p_next s)\<rparr>))"

text \<open>
  \<open>acquireDataSlot\<close>: \<open>None\<close> when it resolves to \<open>false\<close>; otherwise the new count and
  queue, and whether the request runs at once or waits.
\<close>

definition acquireDataSlot :: "int \<Rightarrow> int \<Rightarrow> int \<Rightarrow> string list \<Rightarrow> string \<Rightarrow> (int \<times> string list \<times> bool) option" where
  "acquireDataSlot maximum capacity running waiters cid =
     (if running < maximum then Some (running + 1, waiters, True)
      else if int (length waiters) \<ge> capacity then None
      else Some (running, waiters @ [cid], False))"

definition grant :: "string \<Rightarrow> (string \<times> data_phase) list \<Rightarrow> (string \<times> data_phase) list" where
  "grant cid phases = map (\<lambda>(i, ph). (i, if i = cid then (case ph of Waiting q \<Rightarrow> Granted q | _ \<Rightarrow> ph) else ph)) phases"

definition releaseDataSlot :: "process_server \<Rightarrow> process_server" where
  "releaseDataSlot s =
     (case p_waiters s of
        cid # rest \<Rightarrow> s\<lparr>p_waiters := rest, p_phases := grant cid (p_phases s)\<rparr>
      | [] \<Rightarrow> s\<lparr>p_running := max 0 (p_running s - 1)\<rparr>)"

definition retire_correlation :: "string \<Rightarrow> process_server \<Rightarrow> process_server" where
  "retire_correlation cid s =
     s\<lparr>p_timers := set_delete cid (p_timers s), p_active := AList.delete cid (p_active s),
       p_retired := set_add cid (p_retired s), p_phases := AList.delete cid (p_phases s)\<rparr>"

definition finish_data :: "string \<Rightarrow> process_server \<Rightarrow> process_server" where
  "finish_data cid s = releaseDataSlot (retire_correlation cid s)"

definition body_limit :: "process_server \<Rightarrow> int" where
  "body_limit s = (case p_identity s of Some i \<Rightarrow> max_http_body_bytes (identity_peer_limits i) | None \<Rightarrow> 0)"

definition admitted_descriptor :: "handshake_identity \<Rightarrow> string \<Rightarrow> provided_capability option" where
  "admitted_descriptor identity cap = find (\<lambda>c. pc_capability_id c = cap) (provided_capabilities identity)"

definition operation_admitted :: "process_config \<Rightarrow> handshake_identity \<Rightarrow> request_params \<Rightarrow> bool" where
  "operation_admitted cfg identity params \<longleftrightarrow>
     (case (map_of (pcfg_providers cfg) (rp_capability_id params), admitted_descriptor identity (rp_capability_id params)) of
        (Some p, Some d) \<Rightarrow>
          rp_descriptor_version params = pc_descriptor_version d \<and>
          rp_descriptor_digest params = pc_descriptor_digest d \<and>
          rp_operation params \<in> set (operations (pv_descriptor p))
      | _ \<Rightarrow> False)"

definition admit_data :: "handshake_identity \<Rightarrow> process_server \<Rightarrow> request_params \<Rightarrow> http_response option \<times> process_server" where
  "admit_data identity s params =
     (let cid = rp_correlation_id params;
          limits = identity_peer_limits identity;
          s1 = s\<lparr>p_active := AList.update cid False (p_active s),
                 p_timers := (if startChildTimer (rp_remaining_timeout_nanos params) = None then p_timers s
                              else set_add cid (p_timers s))\<rparr>
      in case acquireDataSlot (max_concurrent_requests limits) (child_request_queue_capacity limits)
                (p_running s1) (p_waiters s1) cid of
           None \<Rightarrow>
             (Some (requestResult params (resource_exhausted (rp_operation params)) (max_http_body_bytes limits)),
              retire_correlation cid s1)
         | Some (running, waiters, now) \<Rightarrow>
             (None, s1\<lparr>p_running := running, p_waiters := waiters,
                p_phases := AList.update cid (if now then Granted params else Waiting params) (p_phases s1)\<rparr>))"

definition fail_closed :: "string \<Rightarrow> string \<Rightarrow> process_server \<Rightarrow> http_response option \<times> process_server" where
  "fail_closed rpc message s = (Some (invalid_params rpc message), s\<lparr>p_accepting := False\<rparr>)"

definition data_request ::
  "process_config \<Rightarrow> process_server \<Rightarrow> rpc_envelope \<Rightarrow> request_params \<Rightarrow> http_response option \<times> process_server" where
  "data_request cfg s e params =
     (case (p_session s, p_identity s) of
        (Some token, Some identity) \<Rightarrow>
          let cid = rp_correlation_id params; limits = identity_peer_limits identity in
          if \<not> p_accepting s
          then (Some (invalid_params (env_id e) ''request before handshake or after shutdown''), s)
          else if rp_session params \<noteq> token \<or> env_id e \<noteq> cid
          then (Some (invalid_params (env_id e) ''request identity mismatch''), s)
          else if map_has (p_active s) cid \<or> cid \<in> set (p_retired s)
          then fail_closed (env_id e) ''duplicate or retired correlation ID'' s
          else if int (length (p_retired s)) \<ge> max_retired_correlation_ids limits
          then fail_closed (env_id e) ''retired correlation ID capacity reached'' s
          else if int (length (p_active s)) \<ge> max_concurrent_requests limits \<and>
                  int (length (p_waiters s)) \<ge> child_request_queue_capacity limits
          then (Some (requestResult params (resource_exhausted (rp_operation params)) (max_http_body_bytes limits)), s)
          else if \<not> operation_admitted cfg identity params
          then fail_closed (env_id e) ''operation is absent from admitted identity'' s
          else admit_data identity s params
      | _ \<Rightarrow> (Some (invalid_params (env_id e) ''request before handshake or after shutdown''), s))"

definition data_body ::
  "process_config \<Rightarrow> process_server \<Rightarrow> nat \<Rightarrow> int \<Rightarrow> body_read list option \<Rightarrow> http_response option \<times> process_server" where
  "data_body cfg s tok limit body =
     (let s0 = s\<lparr>p_data := AList.delete tok (p_data s)\<rparr> in
      case parseEnvelope (pcfg_protocol cfg) body limit of
        Inl r \<Rightarrow> (Some r, s0)
      | Inr e \<Rightarrow>
          if env_method e \<noteq> REQUEST_METHOD (pcfg_protocol cfg)
          then (Some (rpcError (JStr (env_id e)) (-32601) ''Method not found''), s0)
          else case validate_request (pcfg_protocol cfg) e of
            None \<Rightarrow> (Some (invalid_params (env_id e) ''Invalid params''), s0)
          | Some params \<Rightarrow> data_request cfg s0 e params)"

definition request_rejected :: "process_config \<Rightarrow> request_params \<Rightarrow> thrown option" where
  "request_rejected cfg params =
     (case map_of (pcfg_providers cfg) (rp_capability_id params) of
        None \<Rightarrow> None
      | Some p \<Rightarrow> pv_validateRequest p (rp_operation params) (rp_payload params))"

text \<open>The continuation after the slot: a request cancelled meanwhile is refused, a payload the
  generated validator rejects fails closed, and otherwise the Provider is called.\<close>

definition slot_resumed ::
  "process_config \<Rightarrow> process_server \<Rightarrow> string \<Rightarrow> request_params \<Rightarrow> http_response option \<times> process_server" where
  "slot_resumed cfg s cid params =
     (if map_of (p_active s) cid = Some True
      then (Some (requestResult params (resource_exhausted (rp_operation params)) (body_limit s)), finish_data cid s)
      else case request_rejected cfg params of
        Some e \<Rightarrow> (Some (requestResult params (plugin_failure_v1 e) (body_limit s)), finish_data cid (s\<lparr>p_accepting := False\<rparr>))
      | None \<Rightarrow> (None, s\<lparr>p_phases := AList.update cid (Invoking params) (p_phases s)\<rparr>))"

definition provider_settled ::
  "process_config \<Rightarrow> process_server \<Rightarrow> string \<Rightarrow> request_params \<Rightarrow> thrown + dispatch_outcome \<Rightarrow>
   http_response option \<times> process_server" where
  "provider_settled cfg s cid params settled =
     (let failure = (\<lambda>e. (Some (requestResult params (plugin_failure_v1 e) (body_limit s)),
            finish_data cid (s\<lparr>p_accepting := False\<rparr>)))
      in case settled of
           Inl e \<Rightarrow> failure e
         | Inr outcome \<Rightarrow>
             (case (case map_of (pcfg_providers cfg) (rp_capability_id params) of
                      None \<Rightarrow> None
                    | Some p \<Rightarrow> validateProviderOutcome p (rp_operation params) outcome) of
                Some e \<Rightarrow> failure e
              | None \<Rightarrow>
                  (Some (requestResult params (toProcessOutcome outcome (rp_operation params)) (body_limit s)),
                   finish_data cid s)))"

definition child_timer :: "string \<Rightarrow> process_server \<Rightarrow> process_server" where
  "child_timer cid s =
     (if cid \<in> set (p_timers s) then cancel_correlation cid (s\<lparr>p_timers := set_delete cid (p_timers s)\<rparr>) else s)"

section \<open>The step function\<close>

definition process_stop :: "process_server \<Rightarrow> process_server" where
  "process_stop s = (cancel_process (s\<lparr>p_accepting := False\<rparr>))\<lparr>p_listening := False\<rparr>"

declare process_stop_def [simp]

datatype process_event =
    ControlArrive http_shape
  | ControlBody nat "body_read list option" string
  | DataArrive http_shape
  | DataBody nat "body_read list option"
  | SlotResumed string
  | ProviderSettled string "thrown + dispatch_outcome"
  | ChildTimer string
  | StopListeners
  | ProcessStop

text \<open>An event that is not enabled changes nothing.\<close>

fun process_step :: "process_config \<Rightarrow> process_server \<Rightarrow> process_event \<Rightarrow> http_response option \<times> process_server" where
  "process_step cfg s (ControlArrive request) = control_arrive s request"
| "process_step cfg s (ControlBody tok body random) =
     (case map_of (p_control s) tok of
        Some limit \<Rightarrow> control_body cfg s tok limit body random
      | None \<Rightarrow> (None, s))"
| "process_step cfg s (DataArrive request) = data_arrive s request"
| "process_step cfg s (DataBody tok body) =
     (case map_of (p_data s) tok of
        Some limit \<Rightarrow> data_body cfg s tok limit body
      | None \<Rightarrow> (None, s))"
| "process_step cfg s (SlotResumed cid) =
     (case map_of (p_phases s) cid of
        Some (Granted params) \<Rightarrow> slot_resumed cfg s cid params
      | _ \<Rightarrow> (None, s))"
| "process_step cfg s (ProviderSettled cid settled) =
     (case map_of (p_phases s) cid of
        Some (Invoking params) \<Rightarrow> provider_settled cfg s cid params settled
      | _ \<Rightarrow> (None, s))"
| "process_step cfg s (ChildTimer cid) = (None, child_timer cid s)"
| "process_step cfg s StopListeners =
     (None, if p_stop_scheduled s then s\<lparr>p_listening := False, p_stop_scheduled := False\<rparr> else s)"
| "process_step cfg s ProcessStop = (None, process_stop s)"

definition next_process :: "process_config \<Rightarrow> process_server \<Rightarrow> process_event \<Rightarrow> process_server" where
  "next_process cfg s e = snd (process_step cfg s e)"

section \<open>Bootstrap secret\<close>

text \<open>
  The bootstrap pipe is the list of the pieces in which its bytes become available;
  \<open>readSync\<close> returns at most the requested bytes of the first piece, and none at the end.
\<close>

fun readSync :: "nat \<Rightarrow> string list \<Rightarrow> string \<times> string list" where
  "readSync n [] = ([], [])"
| "readSync n (piece # pipe) = (take n piece, if length piece \<le> n then pipe else drop n piece # pipe)"

function read_candidate :: "string \<Rightarrow> string list \<Rightarrow> string \<times> string list" where
  "read_candidate candidate pipe =
     (if length candidate < 32
      then case readSync (32 - length candidate) pipe of
             ([], pipe') \<Rightarrow> (candidate, pipe')
           | (bytes, pipe') \<Rightarrow> read_candidate (candidate @ bytes) pipe'
      else (candidate, pipe))"
  by auto
termination
  by (relation "measure (\<lambda>(candidate, pipe). 32 - length candidate)") auto

declare read_candidate.simps [simp del]

definition readBootstrapSecret :: "string list \<Rightarrow> process_error + string" where
  "readBootstrapSecret pipe =
     (case read_candidate [] pipe of (candidate, rest) \<Rightarrow>
        if length candidate = 32 \<and> fst (readSync 1 rest) = [] then Inr candidate else Inl BootstrapPipeLength)"

end
