(* ===== verification/Process_Sample.thy ===== *)
theory Process_Sample
  imports Process_V1
begin

text \<open>
  A concrete Process V1 session: a protocol instance with transparent encodings, one provider, one
  slot, and the states after the handshake, after the first data request and after its Provider
  has been called. It shows that the hypotheses of the properties can hold.
\<close>

definition sample_secret :: string where
  "sample_secret = replicate 32 CHR ''k''"

definition sample_limits :: peer_limits where
  "sample_limits = \<lparr>max_concurrent_requests = 1, child_request_queue_capacity = 1, control_queue_capacity = 4,
     max_retired_correlation_ids = 8, max_http_body_bytes = 65536, max_control_http_body_bytes = 16384\<rparr>"

definition sample_capability :: provided_capability where
  "sample_capability = \<lparr>pc_capability_id = ''cap'', pc_descriptor_version = ''1'', pc_descriptor_digest = ''d'',
     pc_operations = [''get'']\<rparr>"

definition sample_identity :: handshake_identity where
  "sample_identity = \<lparr>identity_json = JNull, provided_capabilities = [sample_capability],
     identity_peer_limits = sample_limits\<rparr>"

definition sample_params :: request_params where
  "sample_params = \<lparr>rp_session = ''t'', rp_correlation_id = ''1'', rp_capability_id = ''cap'', rp_descriptor_version = ''1'',
     rp_descriptor_digest = ''d'', rp_operation = ''get'', rp_remaining_timeout_nanos = None, rp_caller_instance = None,
     rp_extensions = [], rp_payload = JNull\<rparr>"

definition sample_envelope :: "string \<Rightarrow> json" where
  "sample_envelope m = JObj [(''jsonrpc'', JStr ''2.0''), (''id'', JStr ''1''), (''method'', JStr m), (''params'', JNull)]"

definition sample_protocol :: process_protocol where
  "sample_protocol = \<lparr>HANDSHAKE_METHOD = ''h'', CANCEL_METHOD = ''c'', SHUTDOWN_METHOD = ''s'', REQUEST_METHOD = ''r'',
     PROCESS_PROFILE = ''p'', parseStrictJson = (\<lambda>t. Some (sample_envelope t)),
     validate_handshake = (\<lambda>_. Some \<lparr>hp_identity = sample_identity, hp_host_nonce = ''n'', hp_host_proof = sample_secret\<rparr>),
     validate_cancel = (\<lambda>_. Some (''t'', ''1'')), validate_shutdown = (\<lambda>_. Some ''t''),
     validate_request = (\<lambda>_. Some sample_params), handshakeProofPayload = (\<lambda>_ n _. n),
     hostProofMessage = (\<lambda>d. d), childProofMessage = (\<lambda>d t. t), decodeBase64Url32 = Some, encodeBase64Url = (\<lambda>b. b),
     sha256 = (\<lambda>b. b), hmac_sha256 = (\<lambda>k m. k)\<rparr>"

definition sample_provider :: process_provider where
  "sample_provider = \<lparr>pv_descriptor = \<lparr>capability_id = ''cap'', descriptor_version = ''1'', descriptor_digest = Some ''d'',
       operations = [''get''], stream_operations = [], event_operations = []\<rparr>,
     pv_validateRequest = (\<lambda>_ _. None), pv_validateSuccess = (\<lambda>_ _. None), pv_validateDomainError = (\<lambda>_ _. None)\<rparr>"

definition sample_process_config :: process_config where
  "sample_process_config = \<lparr>pcfg_protocol = sample_protocol, pcfg_identity = None, pcfg_providers = [(''cap'', sample_provider)]\<rparr>"

definition sample_shape :: "string \<Rightarrow> http_shape" where
  "sample_shape path = \<lparr>shape_pathname = path, shape_search = [], shape_method = ''POST'',
     shape_content_type = Some ''application/json''\<rparr>"

definition handshake_events :: "process_event list" where
  "handshake_events = [ControlArrive (sample_shape ''/control''), ControlBody 0 (Some [Chunk ''h'']) ''t'']"

definition request_events :: "process_event list" where
  "request_events = [DataArrive (sample_shape ''/rpc''), DataBody 1 (Some [Chunk ''r'']), SlotResumed ''1'']"

definition process_idle :: process_server where
  "process_idle = (initial_process sample_secret)\<lparr>p_handshakeAttempted := True, p_session := Some ''t'',
     p_identity := Some sample_identity, p_secret := zero_bytes, p_next := 1\<rparr>"

definition process_invoking :: process_server where
  "process_invoking = process_idle\<lparr>p_active := [(''1'', False)], p_phases := [(''1'', Invoking sample_params)],
     p_running := 1, p_next := 2\<rparr>"

lemma start_sample:
  "startProcessV1 sample_protocol None sample_secret [sample_provider] (Some (1, 2)) =
     Inr (sample_process_config, initial_process sample_secret,
       stringify (JObj [(''protocol'', JStr ''p''), (''data_port'', jint 1), (''control_port'', jint 2)]) @ [CHR 0x0A])"
  by (simp add: startProcessV1_def readiness_line_def sample_secret_def collectProviders_def sample_provider_def map_has_def
      sample_process_config_def sample_protocol_def)

lemma sample_body: "(of_char c :: nat) \<le> 127 \<Longrightarrow> 1 \<le> m \<Longrightarrow> readBounded (Some [Chunk [c]]) m = Inr [c]"
  by (simp add: readBounded_def text_decode_fatal_def utf8_valid_def text_decode_def utf8_chars_def emissions_def
      dec_byte_def dec_lead_def decoder_start_def dec_flush_def strip_bom_def)

lemma sample_parse:
  "(of_char c :: nat) \<le> 127 \<Longrightarrow> 1 \<le> m \<Longrightarrow>
   parseEnvelope sample_protocol (Some [Chunk [c]]) m = Inr \<lparr>env_id = ''1'', env_method = [c], env_params = JNull\<rparr>"
  by (simp add: parseEnvelope_def sample_body) (simp add: sample_protocol_def sample_envelope_def envelope_of_json_def field_def)

lemma sample_table: "validateProviderIdentity sample_identity [(''cap'', sample_provider)] = Inr ()"
  by (simp add: validateProviderIdentity_def provider_admitted_def expected_capability_def expected_size_def
      sample_identity_def sample_capability_def sample_provider_def)

lemma sample_shape_ok: "rejectHttpShape (sample_shape path) path = None"
  by (simp add: rejectHttpShape_def sample_shape_def ascii_lower_def Let_def)

lemma sample_handshake:
  "snd (process_handshake sample_process_config s e ''t'') =
     s\<lparr>p_handshakeAttempted := True, p_session := Some ''t'', p_identity := Some sample_identity, p_secret := zero_bytes\<rparr>"
  if "\<not> p_handshakeAttempted s" and "p_secret s = sample_secret"
  using that
  by (simp add: process_handshake_def handshake_attempt_def sample_process_config_def sample_table Let_def)
    (simp add: sample_protocol_def sample_table Let_def)

lemma run_handshake: "run (next_process sample_process_config) (initial_process sample_secret) handshake_events = process_idle"
proof -
  let ?s1 = "(initial_process sample_secret)\<lparr>p_controlInFlight := 1, p_control := [(0, 16384)], p_next := 1\<rparr>"
  have s1: "next_process sample_process_config (initial_process sample_secret) (ControlArrive (sample_shape ''/control'')) = ?s1"
    by (simp add: next_process_def control_arrive_def control_capacity_def sample_shape_ok Let_def)
      (simp add: initial_process_def control_capacity_def)
  have p: "parseEnvelope (pcfg_protocol sample_process_config) (Some [Chunk ''h'']) 16384 =
      Inr \<lparr>env_id = ''1'', env_method = ''h'', env_params = JNull\<rparr>"
    by (simp add: sample_process_config_def sample_parse)
  have m: "HANDSHAKE_METHOD (pcfg_protocol sample_process_config) = ''h''"
    by (simp add: sample_process_config_def sample_protocol_def)
  let ?e = "\<lparr>env_id = ''1'', env_method = ''h'', env_params = JNull\<rparr>"
  let ?u = "(initial_process sample_secret)\<lparr>p_controlInFlight := 1, p_next := 1\<rparr>"
  have u: "?s1\<lparr>p_control := AList.delete 0 (p_control ?s1)\<rparr> = ?u"
    by (simp add: initial_process_def)
  obtain r where h: "process_handshake sample_process_config ?u ?e ''t'' =
      (r, ?u\<lparr>p_handshakeAttempted := True, p_session := Some ''t'', p_identity := Some sample_identity, p_secret := zero_bytes\<rparr>)"
    using sample_handshake [of ?u ?e] by (simp add: initial_process_def) (metis prod.collapse)
  have "map_of (p_control ?s1) 0 = Some 16384" by simp
  then have "next_process sample_process_config ?s1 (ControlBody 0 (Some [Chunk ''h'']) ''t'') = process_idle"
    by (simp only: next_process_def process_step.simps option.case control_body_def Let_def u p sum.case
        control_dispatch_def m h rpc_envelope.simps if_True prod.case snd_conv)
      (simp add: h release_control_def process_idle_def initial_process_def)
  then show ?thesis by (simp add: handshake_events_def s1)
qed

lemma sample_operation: "operation_admitted sample_process_config sample_identity sample_params"
  by (simp add: operation_admitted_def sample_process_config_def admitted_descriptor_def sample_identity_def
      sample_capability_def sample_params_def sample_provider_def)

lemma sample_data_request:
  "snd (data_request sample_process_config (process_idle\<lparr>p_next := 2\<rparr>)
     \<lparr>env_id = ''1'', env_method = ''r'', env_params = JNull\<rparr> sample_params) =
   process_idle\<lparr>p_next := 2, p_active := [(''1'', False)], p_phases := [(''1'', Granted sample_params)], p_running := 1\<rparr>"
proof -
  have idle: "p_session process_idle = Some ''t''" "p_identity process_idle = Some sample_identity" "p_accepting process_idle"
    "p_active process_idle = []" "p_retired process_idle = []" "p_waiters process_idle = []" "p_running process_idle = 0"
    "p_timers process_idle = []" "p_phases process_idle = []"
    by (simp_all add: process_idle_def initial_process_def)
  have params: "rp_session sample_params = ''t''" "rp_correlation_id sample_params = ''1''"
    "rp_remaining_timeout_nanos sample_params = None"
    by (simp_all add: sample_params_def)
  have limits: "identity_peer_limits sample_identity = sample_limits" by (simp add: sample_identity_def)
  show ?thesis
    by (simp add: data_request_def idle params limits Let_def map_has_def sample_operation)
      (simp add: admit_data_def idle params limits sample_limits_def startChildTimer_def acquireDataSlot_def Let_def)
qed

lemma run_request: "run (next_process sample_process_config) process_idle request_events = process_invoking"
proof -
  let ?s1 = "process_idle\<lparr>p_data := [(1, 65536)], p_next := 2\<rparr>"
  let ?s2 = "process_idle\<lparr>p_next := 2, p_active := [(''1'', False)], p_phases := [(''1'', Granted sample_params)], p_running := 1\<rparr>"
  let ?e = "\<lparr>env_id = ''1'', env_method = ''r'', env_params = JNull\<rparr>"
  have s1: "next_process sample_process_config process_idle (DataArrive (sample_shape ''/rpc'')) = ?s1"
    by (simp add: next_process_def data_arrive_def sample_shape_ok)
      (simp add: process_idle_def initial_process_def sample_identity_def sample_limits_def numeral_2_eq_2)
  have p: "parseEnvelope (pcfg_protocol sample_process_config) (Some [Chunk ''r'']) 65536 = Inr ?e"
    "REQUEST_METHOD (pcfg_protocol sample_process_config) = ''r''"
    "validate_request (pcfg_protocol sample_process_config) ?e = Some sample_params"
    by (simp_all add: sample_process_config_def sample_parse) (simp_all add: sample_protocol_def)
  have u: "?s1\<lparr>p_data := AList.delete 1 (p_data ?s1)\<rparr> = process_idle\<lparr>p_next := 2\<rparr>"
    by (simp add: process_idle_def initial_process_def)
  have "map_of (p_data ?s1) 1 = Some 65536" by simp
  then have s2: "next_process sample_process_config ?s1 (DataBody 1 (Some [Chunk ''r''])) = ?s2"
    by (simp only: next_process_def process_step.simps option.case data_body_def Let_def u p sum.case
        rpc_envelope.simps simp_thms if_False sample_data_request)
  have "next_process sample_process_config ?s2 (SlotResumed ''1'') = process_invoking"
    by (simp add: next_process_def slot_resumed_def request_rejected_def sample_process_config_def sample_params_def
        sample_provider_def process_invoking_def)
  then show ?thesis by (simp add: request_events_def s1 s2 del: One_nat_def)
qed

lemma run_session:
  "run (next_process sample_process_config) (initial_process sample_secret) (handshake_events @ request_events) = process_invoking"
  by (simp add: run_append run_handshake run_request)

end
