(* ===== verification/Process_Properties.thy ===== *)
theory Process_Properties
  imports Process_Sample
begin

text \<open>
  What the Process V1 server guarantees in every schedule: the slot pool and its FIFO, the ledger of
  correlation identities, the one-shot authenticated handshake, fail-closed admission, and the
  exact provider table.
\<close>

section \<open>The slot pool\<close>

fun is_waiting :: "data_phase \<Rightarrow> bool" where
  "is_waiting (Waiting q) = True"
| "is_waiting _ = False"

definition waiting_ids :: "(string \<times> data_phase) list \<Rightarrow> string list" where
  "waiting_ids phases = map fst (filter (\<lambda>(i, ph). is_waiting ph) phases)"

definition limit_of :: "(peer_limits \<Rightarrow> int) \<Rightarrow> process_server \<Rightarrow> int" where
  "limit_of f s = (case p_identity s of None \<Rightarrow> 0 | Some i \<Rightarrow> max 0 (f (identity_peer_limits i)))"

definition pool_inv :: "process_server \<Rightarrow> bool" where
  "pool_inv s \<longleftrightarrow>
     distinct (map fst (p_active s)) \<and> map fst (p_phases s) = map fst (p_active s) \<and>
     waiting_ids (p_phases s) = p_waiters s \<and>
     p_running s + int (length (p_waiters s)) = int (length (p_active s)) \<and>
     p_running s \<le> limit_of max_concurrent_requests s \<and>
     int (length (p_waiters s)) \<le> limit_of child_request_queue_capacity s \<and>
     (p_waiters s \<noteq> [] \<longrightarrow> p_running s = limit_of max_concurrent_requests s) \<and>
     distinct (p_retired s) \<and> fst ` set (p_active s) \<inter> set (p_retired s) = {} \<and>
     int (length (p_retired s)) + int (length (p_active s)) \<le> max 0 (limit_of max_retired_correlation_ids s - 1) +
       limit_of max_concurrent_requests s + limit_of child_request_queue_capacity s \<and>
     set (p_timers s) \<subseteq> fst ` set (p_active s)"

definition auth_inv :: "process_server \<Rightarrow> bool" where
  "auth_inv s \<longleftrightarrow>
     (p_session s = None \<longleftrightarrow> p_identity s = None) \<and>
     (\<not> p_handshakeAttempted s \<longrightarrow> p_identity s = None) \<and>
     (p_handshakeAttempted s \<longrightarrow> p_secret s = zero_bytes) \<and>
     (p_identity s = None \<longrightarrow> p_active s = [] \<and> p_retired s = [])"

definition process_inv :: "process_server \<Rightarrow> bool" where
  "process_inv s \<longleftrightarrow> pool_inv s \<and> auth_inv s"

lemma waiting_ids_simps [simp]:
  "waiting_ids [] = []"
  "waiting_ids ((i, ph) # xs) = (if is_waiting ph then i # waiting_ids xs else waiting_ids xs)"
  "waiting_ids (xs @ ys) = waiting_ids xs @ waiting_ids ys"
  by (simp_all add: waiting_ids_def)

lemma waiting_ids_subset: "set (waiting_ids phases) \<subseteq> fst ` set phases"
  by (auto simp: waiting_ids_def)

lemma waiting_ids_length: "length (waiting_ids phases) \<le> length phases"
  by (simp add: waiting_ids_def)

lemma waiting_ids_delete_other:
  "distinct (map fst phases) \<Longrightarrow> map_of phases cid = Some ph \<Longrightarrow> \<not> is_waiting ph \<Longrightarrow>
   waiting_ids (AList.delete cid phases) = waiting_ids phases"
  by (induction phases) (auto split: if_splits simp: collection_simps)

lemma waiting_ids_update_other:
  "distinct (map fst phases) \<Longrightarrow> map_of phases cid = Some ph \<Longrightarrow> \<not> is_waiting ph \<Longrightarrow> \<not> is_waiting ph' \<Longrightarrow>
   waiting_ids (AList.update cid ph' phases) = waiting_ids phases"
  by (induction phases) (auto split: if_splits)

lemma keys_update_present: "map_of phases cid = Some ph \<Longrightarrow> map fst (AList.update cid ph' phases) = map fst phases"
  by (induction phases) (auto split: if_splits)

lemma keys_grant [simp]: "map fst (grant cid phases) = map fst phases"
  by (induction phases) (auto simp: grant_def)

lemma waiting_ids_grant_absent: "cid \<notin> fst ` set phases \<Longrightarrow> waiting_ids (grant cid phases) = waiting_ids phases"
  by (induction phases) (auto simp: grant_def)

lemma waiting_ids_grant:
  "distinct (map fst phases) \<Longrightarrow> waiting_ids phases = cid # rest \<Longrightarrow> waiting_ids (grant cid phases) = rest"
proof (induction phases)
  case Nil
  then show ?case by simp
next
  case (Cons p phases)
  obtain i ph where p: "p = (i, ph)" by fastforce
  have g: "grant cid (p # phases) = (i, if i = cid then (case ph of Waiting q \<Rightarrow> Granted q | _ \<Rightarrow> ph) else ph) # grant cid phases"
    by (simp add: grant_def p)
  show ?case
  proof (cases "is_waiting ph")
    case True
    then obtain q where "ph = Waiting q" by (cases ph) auto
    then show ?thesis using Cons p g by (auto simp: waiting_ids_grant_absent)
  next
    case False
    then have "i \<noteq> cid"
      using Cons.prems p waiting_ids_subset [of phases] by auto
    then show ?thesis using Cons False p g by auto
  qed
qed

lemma waiting_not_all:
  "map_of phases cid = Some ph \<Longrightarrow> \<not> is_waiting ph \<Longrightarrow> length (waiting_ids phases) < length phases"
proof -
  assume "map_of phases cid = Some ph" and n: "\<not> is_waiting ph"
  then have "(cid, ph) \<in> set phases" by (simp add: map_of_SomeD)
  then have "length (filter (\<lambda>(i, ph). is_waiting ph) phases) < length phases"
    using n by (intro length_filter_less [of "(cid, ph)"]) auto
  then show ?thesis by (simp add: waiting_ids_def)
qed

lemma limit_of_nonneg [simp]: "0 \<le> limit_of f s"
  by (simp add: limit_of_def split: option.split)

subsection \<open>Preservation\<close>

lemma limit_of_fields [simp]:
  "limit_of f (s\<lparr>p_accepting := b\<rparr>) = limit_of f s" "limit_of f (s\<lparr>p_active := a\<rparr>) = limit_of f s"
  "limit_of f (s\<lparr>p_phases := ph\<rparr>) = limit_of f s" "limit_of f (s\<lparr>p_waiters := w\<rparr>) = limit_of f s"
  "limit_of f (s\<lparr>p_running := n\<rparr>) = limit_of f s" "limit_of f (s\<lparr>p_timers := t\<rparr>) = limit_of f s"
  "limit_of f (s\<lparr>p_retired := r\<rparr>) = limit_of f s" "limit_of f (s\<lparr>p_control := c\<rparr>) = limit_of f s"
  "limit_of f (s\<lparr>p_data := d\<rparr>) = limit_of f s" "limit_of f (s\<lparr>p_next := k\<rparr>) = limit_of f s"
  "limit_of f (s\<lparr>p_controlInFlight := m\<rparr>) = limit_of f s" "limit_of f (s\<lparr>p_stop_scheduled := b\<rparr>) = limit_of f s"
  "limit_of f (s\<lparr>p_listening := b\<rparr>) = limit_of f s" "limit_of f (s\<lparr>p_secret := z\<rparr>) = limit_of f s"
  "limit_of f (s\<lparr>p_handshakeAttempted := b\<rparr>) = limit_of f s" "limit_of f (s\<lparr>p_session := u\<rparr>) = limit_of f s"
  by (simp_all add: limit_of_def)

lemma process_inv_fields [simp]:
  "process_inv (s\<lparr>p_accepting := b\<rparr>) = process_inv s" "process_inv (s\<lparr>p_control := c\<rparr>) = process_inv s"
  "process_inv (s\<lparr>p_data := d\<rparr>) = process_inv s" "process_inv (s\<lparr>p_next := k\<rparr>) = process_inv s"
  "process_inv (s\<lparr>p_controlInFlight := m\<rparr>) = process_inv s" "process_inv (s\<lparr>p_stop_scheduled := b\<rparr>) = process_inv s"
  "process_inv (s\<lparr>p_listening := b\<rparr>) = process_inv s"
  by (simp_all add: process_inv_def pool_inv_def auth_inv_def)

lemma cancel_keys [simp]:
  "map fst (map (\<lambda>(i, c). (i, True)) m) = map fst m"
  "map fst (map (\<lambda>(i, c). (i, if i = cid then True else c)) m) = map fst m"
  by (induction m) auto

lemma process_inv_active_keys:
  assumes "map fst a = map fst (p_active s)"
  shows "process_inv (s\<lparr>p_active := a\<rparr>) = process_inv s"
proof -
  have "length a = length (p_active s)" and "set (map fst a) = set (map fst (p_active s))"
    using assms by (metis length_map, metis)
  then have "fst ` set a = fst ` set (p_active s)" and "a = [] \<longleftrightarrow> p_active s = []" and "length a = length (p_active s)"
    by auto
  then show ?thesis using assms by (simp add: process_inv_def pool_inv_def auth_inv_def)
qed

lemma process_inv_cancel_process [simp]: "process_inv (cancel_process s) = process_inv s"
  unfolding cancel_process_def by (intro process_inv_active_keys cancel_keys)

lemma process_inv_cancel_correlation [simp]: "process_inv (cancel_correlation cid s) = process_inv s"
  unfolding cancel_correlation_def by (intro process_inv_active_keys cancel_keys)

lemma process_inv_disarm:
  assumes "process_inv s"
  shows "process_inv (s\<lparr>p_timers := set_delete cid (p_timers s)\<rparr>)"
proof -
  have "set (p_timers s) \<subseteq> fst ` set (p_active s)" using assms by (simp add: process_inv_def pool_inv_def)
  then have "set (set_delete cid (p_timers s)) \<subseteq> fst ` set (p_active s)" by auto
  then show ?thesis using assms unfolding process_inv_def pool_inv_def auth_inv_def by (simp del: set_set_delete)
qed

lemma process_inv_child_timer: "process_inv s \<Longrightarrow> process_inv (child_timer cid s)"
  by (simp add: child_timer_def process_inv_disarm)

lemma process_inv_release_control [simp]: "process_inv (release_control s) = process_inv s"
  by (simp add: release_control_def)

lemma delete_keys_length:
  "distinct (map fst m) \<Longrightarrow> cid \<in> fst ` set m \<Longrightarrow> int (length (AList.delete cid m)) = int (length m) - 1"
  using length_delete_present [of m cid] by linarith

lemma pool_inv_retire:
  assumes "pool_inv s" and "map_of (p_phases s) cid = Some ph" and "\<not> is_waiting ph"
  shows "distinct (map fst (p_active (retire_correlation cid s)))"
    and "map fst (p_phases (retire_correlation cid s)) = map fst (p_active (retire_correlation cid s))"
    and "waiting_ids (p_phases (retire_correlation cid s)) = p_waiters s"
    and "int (length (p_active (retire_correlation cid s))) = int (length (p_active s)) - 1"
    and "int (length (p_retired (retire_correlation cid s))) = int (length (p_retired s)) + 1"
    and "1 \<le> p_running s"
proof -
  have keys: "map fst (p_phases s) = map fst (p_active s)" and d: "distinct (map fst (p_active s))"
    and w: "waiting_ids (p_phases s) = p_waiters s"
    using assms(1) by (auto simp: pool_inv_def)
  have cid: "cid \<in> fst ` set (p_active s)"
    using assms(2) keys by (metis list.set_map map_of_eq_None_iff option.distinct(1))
  then have new: "cid \<notin> set (p_retired s)" using assms(1) by (auto simp: pool_inv_def)
  show "distinct (map fst (p_active (retire_correlation cid s)))"
    using d by (simp add: retire_correlation_def distinct_delete)
  show "map fst (p_phases (retire_correlation cid s)) = map fst (p_active (retire_correlation cid s))"
    using keys by (simp add: retire_correlation_def delete_keys)
  show "waiting_ids (p_phases (retire_correlation cid s)) = p_waiters s"
    using w assms(2,3) d keys by (simp add: retire_correlation_def waiting_ids_delete_other)
  show "int (length (p_active (retire_correlation cid s))) = int (length (p_active s)) - 1"
    using d cid by (simp add: retire_correlation_def delete_keys_length)
  show "int (length (p_retired (retire_correlation cid s))) = int (length (p_retired s)) + 1"
    using new by (simp add: retire_correlation_def length_set_add)
  have "length (p_waiters s) < length (p_phases s)" using w waiting_not_all [OF assms(2,3)] by simp
  moreover have "length (p_phases s) = length (p_active s)" using keys by (metis length_map)
  ultimately show "1 \<le> p_running s" using assms(1) by (auto simp: pool_inv_def)
qed

lemma process_inv_finish:
  assumes "process_inv s" and "map_of (p_phases s) cid = Some ph" and "\<not> is_waiting ph"
  shows "process_inv (finish_data cid s)"
proof -
  have pool: "pool_inv s" and auth: "auth_inv s" using assms(1) by (auto simp: process_inv_def)
  let ?r = "retire_correlation cid s"
  note r = pool_inv_retire [OF pool assms(2,3)]
  have same: "p_waiters ?r = p_waiters s" "p_running ?r = p_running s" "p_identity ?r = p_identity s"
    "p_session ?r = p_session s" "p_handshakeAttempted ?r = p_handshakeAttempted s" "p_secret ?r = p_secret s"
    by (simp_all add: retire_correlation_def)
  have lim: "limit_of f ?r = limit_of f s" for f by (simp add: limit_of_def same)
  have rest: "distinct (p_retired ?r)" "fst ` set (p_active ?r) \<inter> set (p_retired ?r) = {}"
    "set (p_timers ?r) \<subseteq> fst ` set (p_active ?r)"
    using pool by (auto simp: pool_inv_def retire_correlation_def keys_delete)
  have "p_active s \<noteq> []" using r(4) by auto
  then obtain identity where ident: "p_identity s = Some identity" using auth by (auto simp: auth_inv_def)
  show ?thesis
  proof (cases "p_waiters s")
    case Nil
    then have f: "finish_data cid s = ?r\<lparr>p_running := p_running s - 1\<rparr>"
      using r(6) same by (simp add: finish_data_def releaseDataSlot_def)
    show ?thesis
      using pool auth r rest same lim ident Nil unfolding f process_inv_def pool_inv_def auth_inv_def by simp
  next
    case (Cons w ws)
    then have f: "finish_data cid s = ?r\<lparr>p_waiters := ws, p_phases := grant w (p_phases ?r)\<rparr>"
      using same by (simp add: finish_data_def releaseDataSlot_def)
    have "waiting_ids (grant w (p_phases ?r)) = ws"
      using r(1,2,3) Cons by (simp add: waiting_ids_grant)
    then show ?thesis
      using pool auth r rest same lim ident Cons unfolding f process_inv_def pool_inv_def auth_inv_def by simp
  qed
qed

lemma process_inv_invoking:
  assumes "process_inv s" and "map_of (p_phases s) cid = Some ph" and "\<not> is_waiting ph"
  shows "process_inv (s\<lparr>p_phases := AList.update cid (Invoking q) (p_phases s)\<rparr>)"
proof -
  have "waiting_ids (AList.update cid (Invoking q) (p_phases s)) = waiting_ids (p_phases s)"
    using assms by (intro waiting_ids_update_other) (auto simp: process_inv_def pool_inv_def)
  moreover have "map fst (AList.update cid (Invoking q) (p_phases s)) = map fst (p_phases s)"
    using assms(2) by (rule keys_update_present)
  ultimately show ?thesis
    using assms(1) unfolding process_inv_def pool_inv_def auth_inv_def by simp
qed

text \<open>The guards of \<open>data_request\<close> under which a request is admitted.\<close>

definition admissible :: "process_server \<Rightarrow> handshake_identity \<Rightarrow> string \<Rightarrow> bool" where
  "admissible s identity cid \<longleftrightarrow>
     p_identity s = Some identity \<and> cid \<notin> fst ` set (p_active s) \<and> cid \<notin> set (p_retired s) \<and>
     int (length (p_retired s)) < max_retired_correlation_ids (identity_peer_limits identity) \<and>
     (int (length (p_active s)) < max_concurrent_requests (identity_peer_limits identity) \<or>
      int (length (p_waiters s)) < child_request_queue_capacity (identity_peer_limits identity))"

text \<open>Under these guards \<open>acquireDataSlot\<close> cannot refuse: the second resource check is redundant.\<close>

lemma acquire_never_refuses:
  assumes "process_inv s" and "admissible s identity cid"
  shows "acquireDataSlot (max_concurrent_requests (identity_peer_limits identity))
      (child_request_queue_capacity (identity_peer_limits identity)) (p_running s) (p_waiters s) cid \<noteq> None"
  using assms by (auto simp: acquireDataSlot_def admissible_def process_inv_def pool_inv_def)

lemma process_inv_admit:
  assumes "process_inv s" and "admissible s identity cid" and "rp_correlation_id q = cid"
  shows "process_inv (snd (admit_data identity s q))"
proof -
  let ?limits = "identity_peer_limits identity"
  let ?ts = "if startChildTimer (rp_remaining_timeout_nanos q) = None then p_timers s else set_add cid (p_timers s)"
  have pool: "pool_inv s" and auth: "auth_inv s" using assms(1) by (auto simp: process_inv_def)
  have id: "p_identity s = Some identity" and new: "cid \<notin> fst ` set (p_active s)" "cid \<notin> set (p_retired s)"
    using assms(2) by (auto simp: admissible_def)
  have "fst ` set (p_phases s) = fst ` set (p_active s)"
    using pool by (metis list.set_map pool_inv_def)
  then have newp: "cid \<notin> fst ` set (p_phases s)" using new by simp
  have ts: "set ?ts \<subseteq> insert cid (fst ` set (p_active s))" using pool by (auto simp: pool_inv_def)
  have r: "0 \<le> p_running s" "p_running s \<le> max 0 (max_concurrent_requests ?limits)"
    using pool id waiting_ids_length [of "p_phases s"] map_eq_imp_length_eq [of fst "p_phases s" fst "p_active s"]
    by (auto simp: pool_inv_def limit_of_def)
  show ?thesis
  proof (cases "p_running s < max_concurrent_requests ?limits")
    case True
    then have "p_waiters s = []" using pool id by (auto simp: pool_inv_def limit_of_def)
    moreover have "snd (admit_data identity s q) =
        s\<lparr>p_active := p_active s @ [(cid, False)], p_timers := ?ts, p_running := p_running s + 1,
          p_waiters := p_waiters s, p_phases := p_phases s @ [(cid, Granted q)]\<rparr>"
      using True assms(3) by (simp add: admit_data_def acquireDataSlot_def update_fresh new newp Let_def)
    ultimately show ?thesis
      using pool auth id new ts r True assms(2)
      by (auto simp: process_inv_def pool_inv_def auth_inv_def limit_of_def admissible_def simp del: set_set_add)
  next
    case False
    then have full: "int (length (p_waiters s)) < child_request_queue_capacity ?limits"
      using acquire_never_refuses [OF assms(1,2)] by (auto simp: acquireDataSlot_def split: if_splits)
    moreover have "snd (admit_data identity s q) =
        s\<lparr>p_active := p_active s @ [(cid, False)], p_timers := ?ts, p_running := p_running s,
          p_waiters := p_waiters s @ [cid], p_phases := p_phases s @ [(cid, Waiting q)]\<rparr>"
      using False full assms(3) by (simp add: admit_data_def acquireDataSlot_def update_fresh new newp Let_def)
    ultimately show ?thesis
      using pool auth id new ts r False assms(2)
      by (auto simp: process_inv_def pool_inv_def auth_inv_def limit_of_def admissible_def simp del: set_set_add)
  qed
qed

lemma data_request_admits:
  "data_request cfg s e q = (r, s') \<Longrightarrow> s' \<noteq> s \<Longrightarrow> s' \<noteq> s\<lparr>p_accepting := False\<rparr> \<Longrightarrow>
   \<exists>identity. admissible s identity (rp_correlation_id q) \<and> (r, s') = admit_data identity s q \<and> p_accepting s \<and>
     operation_admitted cfg identity q \<and> p_session s = Some (rp_session q) \<and> env_id e = rp_correlation_id q"
  by (auto simp: data_request_def admissible_def fail_closed_def map_has_iff Let_def split: option.splits if_splits)

lemma process_inv_data_request: "process_inv s \<Longrightarrow> process_inv (snd (data_request cfg s e q))"
proof -
  assume inv: "process_inv s"
  obtain r s' where d: "data_request cfg s e q = (r, s')" by fastforce
  consider "s' = s" | "s' = s\<lparr>p_accepting := False\<rparr>"
    | identity where "admissible s identity (rp_correlation_id q)" "(r, s') = admit_data identity s q"
    using data_request_admits [OF d] by blast
  then show ?thesis
  proof cases
    case (3 identity)
    then show ?thesis using process_inv_admit [OF inv, of identity] d by (metis snd_conv)
  qed (use inv d in simp_all)
qed

lemma process_inv_handshake: "process_inv s \<Longrightarrow> process_inv (snd (process_handshake cfg s e random))"
proof (cases "p_handshakeAttempted s")
  case True
  then show "process_inv s \<Longrightarrow> ?thesis" by (simp add: process_handshake_def)
next
  case False
  assume inv: "process_inv s"
  then have empty: "p_identity s = None" "p_session s = None" "p_active s = []" "p_retired s = []"
    using False by (auto simp: process_inv_def auth_inv_def)
  obtain r s' where h: "handshake_attempt cfg (s\<lparr>p_handshakeAttempted := True\<rparr>) e random = (r, s')" by fastforce
  then have "s' = s\<lparr>p_handshakeAttempted := True\<rparr> \<or>
      (\<exists>t i. s' = s\<lparr>p_handshakeAttempted := True, p_session := Some t, p_identity := Some i\<rparr>)"
    by (auto simp: handshake_attempt_def Let_def split: option.splits if_splits)
  then show ?thesis
    using inv empty False h
    by (auto simp: process_handshake_def process_inv_def pool_inv_def auth_inv_def limit_of_def)
qed

lemma process_inv_control_dispatch: "process_inv s \<Longrightarrow> process_inv (snd (control_dispatch cfg s e random))"
  by (simp add: control_dispatch_def Let_def process_inv_handshake process_cancel_def process_shutdown_def
      split: option.split prod.split)

lemma process_inv_control_arrive: "process_inv s \<Longrightarrow> process_inv (snd (control_arrive s request))"
  by (simp add: control_arrive_def Let_def split: option.split)

lemma process_inv_control_body: "process_inv s \<Longrightarrow> process_inv (snd (control_body cfg s tok limit body random))"
proof -
  assume inv: "process_inv s"
  have "process_inv (s\<lparr>p_control := AList.delete tok (p_control s)\<rparr>)" using inv by simp
  from process_inv_control_dispatch [OF this]
  have d: "process_inv (snd (control_dispatch cfg (s\<lparr>p_control := AList.delete tok (p_control s)\<rparr>) e random))" for e .
  then show ?thesis using inv by (simp add: control_body_def Let_def split: sum.split prod.split) (metis snd_conv)
qed

lemma process_inv_data_body: "process_inv s \<Longrightarrow> process_inv (snd (data_body cfg s tok limit body))"
  by (simp add: data_body_def Let_def process_inv_data_request split: sum.split option.split)

lemma process_inv_data_arrive: "process_inv s \<Longrightarrow> process_inv (snd (data_arrive s request))"
  by (simp add: data_arrive_def split: option.split)

lemma process_inv_slot_resumed:
  "process_inv s \<Longrightarrow> map_of (p_phases s) cid = Some (Granted q) \<Longrightarrow> process_inv (snd (slot_resumed cfg s cid q))"
  by (simp add: slot_resumed_def process_inv_finish process_inv_invoking split: option.split)

lemma process_inv_provider_settled:
  "process_inv s \<Longrightarrow> map_of (p_phases s) cid = Some (Invoking q) \<Longrightarrow>
   process_inv (snd (provider_settled cfg s cid q settled))"
  by (simp add: provider_settled_def Let_def process_inv_finish split: sum.split option.split)

lemma process_inv_step: "process_inv s \<Longrightarrow> process_inv (next_process cfg s e)"
  by (cases e) (simp_all add: next_process_def process_inv_control_arrive process_inv_control_body
      process_inv_data_arrive process_inv_data_body process_inv_slot_resumed process_inv_provider_settled
      process_inv_child_timer split: option.split data_phase.split)

lemma process_inv_initial: "process_inv (initial_process secret)"
  by (simp add: process_inv_def pool_inv_def auth_inv_def initial_process_def limit_of_def)

interpretation process: step_invariant "next_process cfg" process_inv for cfg
  by unfold_locales (rule process_inv_step)

lemma startProcessV1_Inr:
  "startProcessV1 proto identity secret bindings ports = Inr (cfg, s, line) \<Longrightarrow>
   s = initial_process secret \<and> pcfg_protocol cfg = proto \<and> pcfg_identity cfg = identity \<and> length secret = 32 \<and>
   collectProviders bindings = Inr (pcfg_providers cfg)"
  by (auto simp: startProcessV1_def result_simps split: option.splits if_splits)

text \<open>C3. The pool of data requests, in every schedule of the Process V1 server: the running
  requests and the waiting ones are exactly the active ones; the running ones are within
  \<open>max_concurrent_requests\<close> and the waiting ones within \<open>child_request_queue_capacity\<close>;
  requests wait only when every slot is taken; an identity is never both active and retired; and
  the identities retained overrun \<open>max_retired_correlation_ids\<close> by less than what can be in
  flight.\<close>

theorem process_pool:
  assumes "startProcessV1 proto identity secret bindings ports = Inr (cfg, s0, line)"
    and "s = run (next_process cfg) s0 es"
  shows "p_running s + int (length (p_waiters s)) = int (length (p_active s)) \<and>
    p_running s \<le> limit_of max_concurrent_requests s \<and>
    int (length (p_waiters s)) \<le> limit_of child_request_queue_capacity s \<and>
    (p_waiters s \<noteq> [] \<longrightarrow> p_running s = limit_of max_concurrent_requests s) \<and>
    p_waiters s = waiting_ids (p_phases s) \<and>
    distinct (map fst (p_active s)) \<and> fst ` set (p_active s) \<inter> set (p_retired s) = {} \<and>
    int (length (p_retired s)) + int (length (p_active s)) \<le> max 0 (limit_of max_retired_correlation_ids s - 1) +
      limit_of max_concurrent_requests s + limit_of child_request_queue_capacity s"
proof -
  have "process_inv s"
    using process.inv_run [OF process_inv_initial] startProcessV1_Inr [OF assms(1)] assms(2) by blast
  then show ?thesis by (simp add: process_inv_def pool_inv_def)
qed

theorem process_pool_witness:
  "p_running process_invoking + int (length (p_waiters process_invoking)) = 1 \<and>
   p_running process_invoking \<le> limit_of max_concurrent_requests process_invoking"
  using process_pool [OF start_sample run_session [symmetric]] by (simp add: process_invoking_def)

section \<open>The correlation ledger\<close>

definition known_ids :: "process_server \<Rightarrow> string set" where
  "known_ids s = fst ` set (p_active s) \<union> set (p_retired s)"

text \<open>
  The request that an event posts on the data listener, and the identity that an event admits: a
  request is admitted when it is not answered at once, so that it holds or waits for a slot. The
  ledger of the server plays no part in it.
\<close>

definition posted_data :: "process_config \<Rightarrow> process_server \<Rightarrow> process_event \<Rightarrow> request_params option" where
  "posted_data cfg s e =
     (case e of
        DataBody tok body \<Rightarrow>
          (case map_of (p_data s) tok of
             None \<Rightarrow> None
           | Some limit \<Rightarrow>
               (case parseEnvelope (pcfg_protocol cfg) body limit of
                  Inl _ \<Rightarrow> None
                | Inr env \<Rightarrow>
                    if env_method env = REQUEST_METHOD (pcfg_protocol cfg) then validate_request (pcfg_protocol cfg) env else None))
      | _ \<Rightarrow> None)"

definition admitted_id :: "process_config \<Rightarrow> process_server \<Rightarrow> process_event \<Rightarrow> string option" where
  "admitted_id cfg s e =
     (case posted_data cfg s e of
        None \<Rightarrow> None
      | Some params \<Rightarrow> if fst (process_step cfg s e) = None then Some (rp_correlation_id params) else None)"

definition ledger_step :: "process_server \<Rightarrow> process_server \<Rightarrow> bool" where
  "ledger_step s s' \<longleftrightarrow> known_ids s \<subseteq> known_ids s' \<and>
     (\<forall>k \<in> fst ` set (p_active s'). k \<notin> fst ` set (p_active s) \<longrightarrow> k \<notin> set (p_retired s))"

definition same_ledger :: "process_server \<Rightarrow> process_server \<Rightarrow> bool" where
  "same_ledger s s' \<longleftrightarrow> map fst (p_active s') = map fst (p_active s) \<and> p_retired s' = p_retired s"

lemma same_ledger_step: "same_ledger s s' \<Longrightarrow> ledger_step s s'"
proof -
  assume "same_ledger s s'"
  then have "set (map fst (p_active s')) = set (map fst (p_active s))" "p_retired s' = p_retired s"
    unfolding same_ledger_def by auto
  then show ?thesis by (simp add: ledger_step_def known_ids_def)
qed

lemma same_ledger_basic [simp]:
  "same_ledger s s" "same_ledger s (release_control t) = same_ledger s t"
  "same_ledger s (cancel_process t) = same_ledger s t" "same_ledger s (cancel_correlation cid t) = same_ledger s t"
  "same_ledger s (t\<lparr>p_accepting := b\<rparr>) = same_ledger s t" "same_ledger s (t\<lparr>p_stop_scheduled := b\<rparr>) = same_ledger s t"
  "same_ledger s (t\<lparr>p_listening := b\<rparr>) = same_ledger s t" "same_ledger s (t\<lparr>p_phases := ph\<rparr>) = same_ledger s t"
  "same_ledger s (t\<lparr>p_control := c\<rparr>) = same_ledger s t" "same_ledger s (t\<lparr>p_data := d\<rparr>) = same_ledger s t"
  "same_ledger s (t\<lparr>p_next := k\<rparr>) = same_ledger s t" "same_ledger s (t\<lparr>p_controlInFlight := m\<rparr>) = same_ledger s t"
  "same_ledger s (t\<lparr>p_timers := ts\<rparr>) = same_ledger s t" "same_ledger s (t\<lparr>p_secret := z\<rparr>) = same_ledger s t"
  "same_ledger s (t\<lparr>p_handshakeAttempted := b\<rparr>) = same_ledger s t" "same_ledger s (t\<lparr>p_session := u\<rparr>) = same_ledger s t"
  "same_ledger s (t\<lparr>p_identity := i\<rparr>) = same_ledger s t"
  by (simp_all add: same_ledger_def release_control_def cancel_process_def cancel_correlation_def del: map_map)

lemma same_ledger_handshake: "same_ledger s (snd (process_handshake cfg s e random))"
  by (simp add: process_handshake_def handshake_attempt_def Let_def split: option.split prod.split)

lemma same_ledger_control_dispatch: "same_ledger s (snd (control_dispatch cfg s e random))"
  by (simp add: control_dispatch_def Let_def same_ledger_handshake process_cancel_def process_shutdown_def
      split: option.split prod.split)

lemma same_ledger_control_body: "same_ledger s (snd (control_body cfg s tok limit body random))"
proof -
  let ?s = "s\<lparr>p_control := AList.delete tok (p_control s)\<rparr>"
  have "same_ledger s (snd (control_dispatch cfg ?s e random))" for e
    using same_ledger_control_dispatch [of ?s cfg e random] by (simp add: same_ledger_def)
  then show ?thesis by (simp add: control_body_def Let_def split: sum.split prod.split) (metis snd_conv)
qed

lemma finish_active: "p_active (finish_data cid s) = AList.delete cid (p_active s)"
  by (simp add: finish_data_def releaseDataSlot_def retire_correlation_def split: list.split)

lemma finish_retired: "p_retired (finish_data cid s) = set_add cid (p_retired s)"
  by (simp add: finish_data_def releaseDataSlot_def retire_correlation_def split: list.split)

lemma ledger_step_finish: "ledger_step s (finish_data cid s)" "ledger_step s (finish_data cid (s\<lparr>p_accepting := b\<rparr>))"
  by (auto simp: ledger_step_def known_ids_def finish_active finish_retired keys_delete)

lemma ledger_step_admit:
  assumes "admissible s identity (rp_correlation_id q)"
  shows "ledger_step s (snd (admit_data identity s q))"
proof -
  have new: "rp_correlation_id q \<notin> fst ` set (p_active s)" "rp_correlation_id q \<notin> set (p_retired s)"
    using assms by (auto simp: admissible_def)
  then show ?thesis
    by (auto simp: ledger_step_def known_ids_def admit_data_def retire_correlation_def Let_def update_fresh
        delete_append_fresh split: option.split)
qed

lemma data_request_pending:
  assumes "data_request cfg s env q = (None, t)"
  shows "\<exists>identity. admissible s identity (rp_correlation_id q) \<and> admit_data identity s q = (None, t)"
  using assms
  by (auto simp: data_request_def admissible_def fail_closed_def map_has_iff Let_def split: option.splits if_splits)

lemma ledger_step_data_request: "ledger_step s (snd (data_request cfg s e q))"
proof -
  obtain r s' where d: "data_request cfg s e q = (r, s')" by fastforce
  consider "s' = s" | "s' = s\<lparr>p_accepting := False\<rparr>"
    | identity where "admissible s identity (rp_correlation_id q)" "(r, s') = admit_data identity s q"
    using data_request_admits [OF d] by blast
  then show ?thesis
  proof cases
    case (3 identity)
    then show ?thesis using ledger_step_admit d by (metis snd_conv)
  qed (use d in \<open>simp_all add: same_ledger_step\<close>)
qed

lemma ledger_step_data_body: "ledger_step s (snd (data_body cfg s tok limit body))"
proof -
  let ?s = "s\<lparr>p_data := AList.delete tok (p_data s)\<rparr>"
  have "ledger_step s (snd (data_request cfg ?s e q))" for e q
    using ledger_step_data_request [of ?s cfg e q] by (simp add: ledger_step_def known_ids_def)
  then show ?thesis by (simp add: data_body_def Let_def same_ledger_step split: sum.split option.split)
qed

lemma ledger_step_next: "ledger_step s (next_process cfg s e)"
  by (cases e) (simp_all add: next_process_def same_ledger_step control_arrive_def data_arrive_def Let_def
      same_ledger_control_body ledger_step_data_body slot_resumed_def provider_settled_def ledger_step_finish
      child_timer_def split: option.split data_phase.split sum.split)

lemma admit_data_known:
  assumes "admit_data identity s q = (None, t)"
  shows "rp_correlation_id q \<in> known_ids t"
  using assms by (auto simp: admit_data_def known_ids_def Let_def keys_update split: option.splits)

lemma admitted_id_SomeD:
  assumes "admitted_id cfg s e = Some k"
  shows "k \<notin> known_ids s" "k \<in> known_ids (next_process cfg s e)"
proof -
  obtain q where q: "posted_data cfg s e = Some q" "k = rp_correlation_id q" "fst (process_step cfg s e) = None"
    using assms by (auto simp: admitted_id_def split: option.splits if_splits)
  then obtain tok body limit env where e: "e = DataBody tok body" "map_of (p_data s) tok = Some limit"
    "parseEnvelope (pcfg_protocol cfg) body limit = Inr env" "env_method env = REQUEST_METHOD (pcfg_protocol cfg)"
    "validate_request (pcfg_protocol cfg) env = Some q"
    by (auto simp: posted_data_def split: process_event.splits option.splits sum.splits if_splits)
  let ?s = "s\<lparr>p_data := AList.delete tok (p_data s)\<rparr>"
  have "process_step cfg s e = data_request cfg ?s env q" using e by (simp add: data_body_def Let_def)
  then obtain t where t: "data_request cfg ?s env q = (None, t)" "next_process cfg s e = t"
    using q(3) by (cases "data_request cfg ?s env q") (auto simp: next_process_def)
  then obtain identity where identity: "admissible ?s identity k" "admit_data identity ?s q = (None, t)"
    using q(2) data_request_pending by blast
  then show "k \<notin> known_ids s" "k \<in> known_ids (next_process cfg s e)"
    using admit_data_known [OF identity(2)] q(2) t(2) by (auto simp: admissible_def known_ids_def)
qed

interpretation process_ledger: id_ledger "next_process cfg" "\<lambda>_. True" "admitted_id cfg" known_ids for cfg
proof unfold_locales
  show "known_ids s \<subseteq> known_ids (next_process cfg s e)" for s e
    using ledger_step_next [of s cfg e] by (simp add: ledger_step_def)
qed (simp_all add: admitted_id_SomeD)

text \<open>C8. A correlation identity is admitted at most once in the life of a Process V1 server: along
  every schedule the identities of the posted requests that are not answered at once, but hold or wait
  for a slot, are pairwise distinct, also while an earlier request with the same identity is active,
  and all of them stay in the ledger of active and retired identities.\<close>

theorem process_admits_once:
  "distinct (admissions (next_process cfg) (admitted_id cfg) s es) \<and>
   set (admissions (next_process cfg) (admitted_id cfg) s es) \<subseteq> known_ids (run (next_process cfg) s es)"
  using process_ledger.admissions_distinct process_ledger.admissions_known by blast

section \<open>The handshake\<close>

definition same_session :: "process_server \<Rightarrow> process_server \<Rightarrow> bool" where
  "same_session s t \<longleftrightarrow> p_session t = p_session s \<and> p_identity t = p_identity s \<and> p_secret t = p_secret s \<and>
     p_handshakeAttempted t = p_handshakeAttempted s"

lemma same_session_basic [simp]:
  "same_session s s" "same_session s (release_control t) = same_session s t"
  "same_session s (cancel_process t) = same_session s t" "same_session s (cancel_correlation cid t) = same_session s t"
  "same_session s (t\<lparr>p_accepting := b\<rparr>) = same_session s t" "same_session s (t\<lparr>p_stop_scheduled := b\<rparr>) = same_session s t"
  "same_session s (t\<lparr>p_listening := b\<rparr>) = same_session s t" "same_session s (t\<lparr>p_phases := ph\<rparr>) = same_session s t"
  "same_session s (t\<lparr>p_control := c\<rparr>) = same_session s t" "same_session s (t\<lparr>p_data := d\<rparr>) = same_session s t"
  "same_session s (t\<lparr>p_next := k\<rparr>) = same_session s t" "same_session s (t\<lparr>p_controlInFlight := m\<rparr>) = same_session s t"
  "same_session s (t\<lparr>p_timers := ts\<rparr>) = same_session s t" "same_session s (finish_data cid t) = same_session s t"
  by (simp_all add: same_session_def release_control_def cancel_process_def cancel_correlation_def finish_data_def
      releaseDataSlot_def retire_correlation_def split: list.split)

lemma same_session_admit: "same_session s (snd (admit_data identity s q))"
  by (simp add: same_session_def admit_data_def retire_correlation_def Let_def split: option.split)

lemma same_session_data_request: "same_session s (snd (data_request cfg s e q))"
  by (simp add: data_request_def fail_closed_def Let_def same_session_admit split: option.split)

lemma same_session_data_body: "same_session s (snd (data_body cfg s tok limit body))"
proof -
  let ?s = "s\<lparr>p_data := AList.delete tok (p_data s)\<rparr>"
  have "same_session s (snd (data_request cfg ?s e q))" for e q
    using same_session_data_request [of ?s cfg e q] by (simp add: same_session_def)
  then show ?thesis by (simp add: data_body_def Let_def split: sum.split option.split)
qed

lemma control_body_session:
  "same_session s (snd (control_body cfg s tok limit body random)) \<or>
   (\<exists>e. parseEnvelope (pcfg_protocol cfg) body limit = Inr e \<and> env_method e = HANDSHAKE_METHOD (pcfg_protocol cfg) \<and>
      \<not> p_handshakeAttempted s \<and>
      same_session (snd (process_handshake cfg (s\<lparr>p_control := AList.delete tok (p_control s)\<rparr>) e random))
        (snd (control_body cfg s tok limit body random)))"
  by (auto simp: control_body_def control_dispatch_def process_cancel_def process_shutdown_def process_handshake_def
      Let_def split: sum.split option.split prod.split)

lemma session_step:
  "same_session s (next_process cfg s ev) \<or>
   (\<exists>tok body random limit e. ev = ControlBody tok body random \<and> map_of (p_control s) tok = Some limit \<and>
      parseEnvelope (pcfg_protocol cfg) body limit = Inr e \<and> \<not> p_handshakeAttempted s \<and>
      same_session (snd (process_handshake cfg (s\<lparr>p_control := AList.delete tok (p_control s)\<rparr>) e random))
        (next_process cfg s ev))"
proof (cases ev)
  case (ControlBody tok body random)
  then show ?thesis
    using control_body_session [of s cfg tok _ body random] by (fastforce simp: next_process_def split: option.split)
qed (simp_all add: next_process_def control_arrive_def data_arrive_def same_session_data_body slot_resumed_def
      provider_settled_def child_timer_def Let_def split: option.split data_phase.split sum.split)

lemma same_session_trans: "same_session s t \<Longrightarrow> same_session t u \<Longrightarrow> same_session s u"
  by (simp add: same_session_def)

lemma session_fixed: "p_handshakeAttempted s \<Longrightarrow> same_session s (run (next_process cfg) s es)"
proof (induction es arbitrary: s)
  case Nil
  then show ?case by simp
next
  case (Cons e es)
  have "same_session s (next_process cfg s e)" using session_step [of s cfg e] Cons.prems by blast
  then show ?case using Cons.IH Cons.prems same_session_trans by (auto simp: same_session_def)
qed

text \<open>One handshake. Once a handshake has been attempted, successfully or not, the bootstrap
  secret is erased and the session and the admitted identity never change again, in any schedule;
  after a failed attempt no request is ever admitted.\<close>

theorem process_handshake_once:
  assumes "startProcessV1 proto identity secret bindings ports = Inr (cfg, s0, line)"
    and "s = run (next_process cfg) s0 es" and "p_handshakeAttempted s" and "t = run (next_process cfg) s fs"
  shows "p_session t = p_session s \<and> p_identity t = p_identity s \<and> p_secret t = zero_bytes \<and>
    p_handshakeAttempted t \<and> (p_session s = None \<longrightarrow> p_active t = [] \<and> p_retired t = [])"
proof -
  have s: "process_inv s"
    using process.inv_run [OF process_inv_initial] startProcessV1_Inr [OF assms(1)] assms(2) by blast
  then have t: "process_inv t" using process.inv_run assms(4) by blast
  have "same_session s t" using session_fixed [OF assms(3)] assms(4) by blast
  then show ?thesis using s t assms(3) by (auto simp: same_session_def process_inv_def auth_inv_def)
qed

theorem process_handshake_once_witness:
  "p_session process_invoking = Some ''t'' \<and> p_secret process_invoking = zero_bytes"
  using process_handshake_once [OF start_sample run_handshake [symmetric], of process_invoking request_events] run_request
  by (simp add: process_idle_def)

text \<open>Before the attempt the secret is the bootstrap secret.\<close>

lemma secret_kept:
  assumes "\<not> p_handshakeAttempted (run (next_process cfg) s es)"
  shows "\<not> p_handshakeAttempted s \<and> p_secret (run (next_process cfg) s es) = p_secret s"
  using assms
proof (induction es arbitrary: s)
  case Nil
  then show ?case by simp
next
  case (Cons e es)
  let ?s = "next_process cfg s e"
  have IH: "\<not> p_handshakeAttempted ?s" "p_secret (run (next_process cfg) ?s es) = p_secret ?s"
    using Cons by auto
  have "p_handshakeAttempted (snd (process_handshake cfg u env random))" for u env random
    by (auto simp: process_handshake_def handshake_attempt_def Let_def split: option.split prod.split)
  then have "same_session s ?s" using session_step [of s cfg e] IH(1) by (auto simp: same_session_def)
  then show ?case using IH by (simp add: same_session_def)
qed

definition authentic :: "process_config \<Rightarrow> string \<Rightarrow> handshake_params \<Rightarrow> bool" where
  "authentic cfg secret params \<longleftrightarrow>
     (let proto = pcfg_protocol cfg;
          digest = sha256 proto (handshakeProofPayload proto (hp_identity params) (hp_host_nonce params) (hp_host_proof params))
      in decodeBase64Url32 proto (hp_host_proof params) = Some (hmac_sha256 proto secret (hostProofMessage proto digest)) \<and>
         validateProviderIdentity (hp_identity params) (pcfg_providers cfg) = Inr () \<and>
         (\<forall>identity. pcfg_identity cfg = Some identity \<longrightarrow> sameIdentity proto (hp_identity params) identity))"

lemma handshake_sets_session:
  assumes "\<not> p_handshakeAttempted s" and "p_session s = None"
    and "p_session (snd (process_handshake cfg s e random)) \<noteq> None"
  shows "\<exists>params. validate_handshake (pcfg_protocol cfg) e = Some params \<and> authentic cfg (p_secret s) params \<and>
    p_identity (snd (process_handshake cfg s e random)) = Some (hp_identity params) \<and>
    p_session (snd (process_handshake cfg s e random)) = Some (encodeBase64Url (pcfg_protocol cfg) random)"
  using assms
  by (auto simp: process_handshake_def handshake_attempt_def authentic_def Let_def split: option.splits if_splits)

text \<open>C11. Authenticity of the session. A session is only ever established by a handshake whose
  host proof is the keyed digest, under the bootstrap secret, of the proof payload of exactly the
  admitted parameters, whose identity carries the provider table of this process, and equals the
  expected identity where one is configured; the session token is the encoding of fresh random
  bytes.\<close>

theorem process_session_authentic:
  assumes "startProcessV1 proto identity secret bindings ports = Inr (cfg, s0, line)"
    and "s = run (next_process cfg) s0 es" and "p_session s = None" and "p_session (next_process cfg s ev) \<noteq> None"
  shows "\<exists>tok body random e params. ev = ControlBody tok body random \<and>
    validate_handshake proto e = Some params \<and> authentic cfg secret params \<and>
    p_identity (next_process cfg s ev) = Some (hp_identity params) \<and>
    p_session (next_process cfg s ev) = Some (encodeBase64Url proto random)"
proof -
  have start: "s0 = initial_process secret" "pcfg_protocol cfg = proto"
    using startProcessV1_Inr [OF assms(1)] by auto
  obtain tok body random e where c: "ev = ControlBody tok body random" "\<not> p_handshakeAttempted s"
    "same_session (snd (process_handshake cfg (s\<lparr>p_control := AList.delete tok (p_control s)\<rparr>) e random)) (next_process cfg s ev)"
    using session_step [of s cfg ev] assms(3,4) by (auto simp: same_session_def)
  have "p_secret s = secret" using secret_kept [of cfg s0 es] c(2) assms(2) start by (simp add: initial_process_def)
  then show ?thesis
    using handshake_sets_session [of "s\<lparr>p_control := AList.delete tok (p_control s)\<rparr>" cfg e random] c assms(3,4) start
    by (auto simp: same_session_def)
qed

theorem process_session_authentic_witness:
  "\<exists>s tok body random params. next_process sample_process_config s (ControlBody tok body random) = process_idle \<and>
     authentic sample_process_config sample_secret params \<and> p_identity process_idle = Some (hp_identity params)"
proof -
  let ?s = "run (next_process sample_process_config) (initial_process sample_secret) [ControlArrive (sample_shape ''/control'')]"
  let ?ev = "ControlBody 0 (Some [Chunk ''h'']) ''t''"
  have n: "next_process sample_process_config ?s ?ev = process_idle"
    using run_handshake by (simp add: handshake_events_def)
  have "p_session ?s = None"
    by (simp add: next_process_def control_arrive_def sample_shape_ok Let_def)
      (simp add: initial_process_def release_control_def)
  then show ?thesis
    using process_session_authentic [OF start_sample refl, of "[ControlArrive (sample_shape ''/control'')]" ?ev] n
    by (fastforce simp: process_idle_def)
qed

end
