(* ===== verification/Process_Outcomes.thy ===== *)
theory Process_Outcomes
  imports Process_Properties
begin

text \<open>
  Fail-closed admission, the settlement of Provider calls with the hand-over of slots in order, the
  exact provider table, and the bootstrap secret of the Process V1 server.
\<close>

section \<open>Fail-closed admission\<close>

definition closed_like :: "process_server \<Rightarrow> process_server \<Rightarrow> bool" where
  "closed_like s t \<longleftrightarrow> \<not> p_accepting t \<and> fst ` set (p_active t) \<subseteq> fst ` set (p_active s)"

lemma closed_like_same:
  assumes "\<not> p_accepting t" and "same_ledger s t"
  shows "closed_like s t"
proof -
  have "set (map fst (p_active t)) = set (map fst (p_active s))" using assms(2) by (simp add: same_ledger_def)
  then show ?thesis using assms(1) by (simp add: closed_like_def)
qed

lemma closed_like_finish: "\<not> p_accepting s \<Longrightarrow> closed_like s (finish_data cid s)"
  "closed_like s (finish_data cid (s\<lparr>p_accepting := False\<rparr>))"
proof -
  have acc: "p_accepting (finish_data cid u) = p_accepting u" for u
    by (simp add: finish_data_def releaseDataSlot_def retire_correlation_def split: list.split)
  show "\<not> p_accepting s \<Longrightarrow> closed_like s (finish_data cid s)"
    by (auto simp: closed_like_def acc finish_active keys_delete)
  show "closed_like s (finish_data cid (s\<lparr>p_accepting := False\<rparr>))"
    by (auto simp: closed_like_def acc finish_active keys_delete)
qed

lemma accepting_control: "\<not> p_accepting s \<Longrightarrow> \<not> p_accepting (snd (control_body cfg s tok limit body random))"
  by (auto simp: control_body_def control_dispatch_def process_handshake_def handshake_attempt_def process_cancel_def
      process_shutdown_def release_control_def cancel_process_def cancel_correlation_def Let_def
      split: sum.split option.split prod.split)

lemma closed_like_control: "\<not> p_accepting s \<Longrightarrow> closed_like s (snd (control_body cfg s tok limit body random))"
  by (intro closed_like_same accepting_control same_ledger_control_body)

lemma closed_like_trans: "closed_like s t \<Longrightarrow> closed_like t u \<Longrightarrow> closed_like s u"
  unfolding closed_like_def by blast

lemma closed_like_data_body:
  "\<not> p_accepting s \<Longrightarrow> closed_like s (snd (data_body cfg s tok limit body))"
  by (simp add: data_body_def data_request_def closed_like_same Let_def split: sum.split option.split)

lemma closed_like_step: "\<not> p_accepting s \<Longrightarrow> closed_like s (next_process cfg s e)"
  by (cases e) (simp_all add: next_process_def closed_like_same closed_like_data_body closed_like_control
      control_arrive_def data_arrive_def release_control_def slot_resumed_def
      provider_settled_def closed_like_finish child_timer_def cancel_correlation_def cancel_process_def same_ledger_def
      Let_def del: map_map split: option.split data_phase.split sum.split)

text \<open>C12. The data listener fails closed. A request that repeats a known correlation identity, that
  finds the retained identities at their capacity, or whose operation is not in the admitted
  identity, is refused and closes the server; a closed server stays closed in every schedule, and
  no identity ever becomes active again.\<close>

theorem process_fail_closed:
  assumes "p_accepting s" and "p_session s = Some (rp_session q)" and "p_identity s = Some identity"
    and "env_id e = rp_correlation_id q"
    and "rp_correlation_id q \<in> known_ids s \<or>
      int (length (p_retired s)) \<ge> max_retired_correlation_ids (identity_peer_limits identity) \<or>
      \<not> operation_admitted cfg identity q \<and>
        int (length (p_active s)) < max_concurrent_requests (identity_peer_limits identity)"
  shows "\<exists>message. data_request cfg s e q = (Some (invalid_params (env_id e) message), s\<lparr>p_accepting := False\<rparr>) \<and>
    closed_like s (run (next_process cfg) (s\<lparr>p_accepting := False\<rparr>) es)"
proof -
  have closed: "\<not> p_accepting u \<Longrightarrow> closed_like u (run (next_process cfg) u es)" for u
  proof (induction es arbitrary: u)
    case Nil
    then show ?case by (simp add: closed_like_def)
  next
    case (Cons ev es)
    have a: "closed_like u (next_process cfg u ev)" using Cons.prems by (rule closed_like_step)
    then have "closed_like (next_process cfg u ev) (run (next_process cfg) (next_process cfg u ev) es)"
      by (intro Cons.IH) (simp add: closed_like_def)
    from closed_like_trans [OF a this] show ?case by simp
  qed
  have "closed_like s (run (next_process cfg) (s\<lparr>p_accepting := False\<rparr>) es)"
    using closed [of "s\<lparr>p_accepting := False\<rparr>"] by (simp add: closed_like_def)
  moreover have "\<exists>message. data_request cfg s e q = (Some (invalid_params (env_id e) message), s\<lparr>p_accepting := False\<rparr>)"
    using assms by (auto simp: data_request_def fail_closed_def known_ids_def map_has_iff Let_def)
  ultimately show ?thesis by blast
qed

theorem process_fail_closed_witness:
  "\<exists>message. data_request sample_process_config process_invoking \<lparr>env_id = ''1'', env_method = ''r'', env_params = JNull\<rparr>
      sample_params = (Some (invalid_params ''1'' message), process_invoking\<lparr>p_accepting := False\<rparr>)"
  using process_fail_closed [of process_invoking sample_params sample_identity
      "\<lparr>env_id = ''1'', env_method = ''r'', env_params = JNull\<rparr>" sample_process_config "[]"]
  by (simp add: process_invoking_def process_idle_def initial_process_def sample_params_def known_ids_def)

section \<open>Settlement and hand-over\<close>

lemma requestResult_bounded: "bounded_response m (requestResult params outcome m)"
  by (simp add: bounded_response_def requestResult_def json_object_response_def byte_length_def Let_def)

lemma map_of_grant_other: "i \<noteq> cid \<Longrightarrow> map_of (grant cid phases) i = map_of phases i"
  by (induction phases) (auto simp: grant_def)

lemma map_of_grant:
  "map_of phases cid = Some (Waiting q) \<Longrightarrow> map_of (grant cid phases) cid = Some (Granted q)"
  by (induction phases) (auto simp: grant_def split: if_splits)

lemma waiting_head:
  "distinct (map fst phases) \<Longrightarrow> waiting_ids phases = w # ws \<Longrightarrow> \<exists>q. map_of phases w = Some (Waiting q)"
proof -
  assume d: "distinct (map fst phases)" and "waiting_ids phases = w # ws"
  then have "w \<in> set (waiting_ids phases)" by simp
  then obtain ph where "(w, ph) \<in> set phases" "is_waiting ph" by (auto simp: waiting_ids_def)
  then show ?thesis using d by (cases ph) (auto simp: map_of_eq_Some_iff)
qed

text \<open>The error of a settlement: an exception, or a value that the generated validator rejects.\<close>

definition settlement_failure :: "process_config \<Rightarrow> request_params \<Rightarrow> thrown + dispatch_outcome \<Rightarrow> thrown option" where
  "settlement_failure cfg q settled =
     (case settled of
        Inl e \<Rightarrow> Some e
      | Inr outcome \<Rightarrow>
          (case map_of (pcfg_providers cfg) (rp_capability_id q) of
             None \<Rightarrow> None
           | Some p \<Rightarrow> validateProviderOutcome p (rp_operation q) outcome))"

text \<open>C15. Settlement of a Provider call, in every schedule. The response carries the outcome of the
  Provider, or the plugin failure of an exception or of a value that the generated validator
  rejects, which closes the server; it is within the admitted body limit (or is the 413 refusal);
  the identity is retired; and the slot goes to the request that has waited
  longest: it is granted and the number of running requests stays; only without waiters is a slot
  freed.\<close>

theorem process_settlement:
  assumes "startProcessV1 proto identity secret bindings ports = Inr (cfg, s0, line)"
    and "s = run (next_process cfg) s0 es" and "map_of (p_phases s) cid = Some (Invoking q)"
  shows "\<exists>response s'. process_step cfg s (ProviderSettled cid settled) = (Some response, s') \<and>
    response = requestResult q (case settlement_failure cfg q settled of
        Some e \<Rightarrow> plugin_failure_v1 e | None \<Rightarrow> toProcessOutcome (projr settled) (rp_operation q)) (body_limit s) \<and>
    bounded_response (body_limit s) response \<and>
    cid \<in> set (p_retired s') \<and> cid \<notin> fst ` set (p_active s') \<and>
    (p_accepting s' \<longleftrightarrow> settlement_failure cfg q settled = None \<and> p_accepting s) \<and>
    (case p_waiters s of
       [] \<Rightarrow> p_running s' = p_running s - 1
     | w # ws \<Rightarrow> p_waiters s' = ws \<and> p_running s' = p_running s \<and> (\<exists>qw. map_of (p_phases s') w = Some (Granted qw)))"
proof -
  have "process_inv s"
    using process.inv_run [OF process_inv_initial] startProcessV1_Inr [OF assms(1)] assms(2) by blast
  then have pool: "pool_inv s" by (simp add: process_inv_def)
  note r = pool_inv_retire [OF pool assms(3), simplified]
  have finish: "(case p_waiters s of
       [] \<Rightarrow> p_running (finish_data cid u) = p_running s - 1
     | w # ws \<Rightarrow> p_waiters (finish_data cid u) = ws \<and> p_running (finish_data cid u) = p_running s \<and>
         (\<exists>qw. map_of (p_phases (finish_data cid u)) w = Some (Granted qw)))"
    if "u = s\<lparr>p_accepting := b\<rparr>" for u b
  proof (cases "p_waiters s")
    case Nil
    then show ?thesis using that r(6) by (simp add: finish_data_def releaseDataSlot_def retire_correlation_def)
  next
    case (Cons w ws)
    have d: "distinct (map fst (p_phases (retire_correlation cid s)))" using r(1,2) by simp
    then obtain qw where "map_of (p_phases (retire_correlation cid s)) w = Some (Waiting qw)"
      using waiting_head [OF d] r(3) Cons by auto
    then have "map_of (grant w (p_phases (retire_correlation cid s))) w = Some (Granted qw)" by (rule map_of_grant)
    then show ?thesis using that Cons by (simp add: finish_data_def releaseDataSlot_def retire_correlation_def)
  qed
  have acc: "p_accepting (finish_data cid u) = p_accepting u" for u
    by (simp add: finish_data_def releaseDataSlot_def retire_correlation_def split: list.split)
  have s: "s = s\<lparr>p_accepting := p_accepting s\<rparr>" by simp
  show ?thesis
    using assms(3) finish [OF refl, of False] finish [OF s] finish_active [of cid] finish_retired [of cid]
    by (auto simp: provider_settled_def settlement_failure_def requestResult_bounded acc keys_delete Let_def split: sum.split option.split)
qed

theorem process_settlement_witness:
  "\<exists>response s'. process_step sample_process_config process_invoking (ProviderSettled ''1'' (Inr (Success JNull))) =
     (Some response, s') \<and> bounded_response 65536 response \<and> ''1'' \<in> set (p_retired s') \<and> p_running s' = 0"
proof -
  have "map_of (p_phases process_invoking) ''1'' = Some (Invoking sample_params)" by (simp add: process_invoking_def)
  from process_settlement [OF start_sample run_session [symmetric] this, of "Inr (Success JNull)"]
  show ?thesis
    by (auto simp: process_invoking_def process_idle_def initial_process_def body_limit_def sample_identity_def sample_limits_def)
qed

section \<open>The provider table\<close>

definition capability_row :: "provided_capability \<Rightarrow> string \<times> string \<times> string option \<times> string list" where
  "capability_row c = (pc_capability_id c, pc_descriptor_version c, Some (pc_descriptor_digest c), pc_operations c)"

definition provider_row :: "process_provider \<Rightarrow> string \<times> string \<times> string option \<times> string list" where
  "provider_row p = (capability_id (pv_descriptor p), descriptor_version (pv_descriptor p),
     descriptor_digest (pv_descriptor p), operations (pv_descriptor p))"

lemma collect_providers_Inr:
  "collect_providers table ps = Inr table' \<Longrightarrow> distinct (map fst table) \<Longrightarrow>
   (\<forall>(k, p) \<in> set table. k = capability_id (pv_descriptor p)) \<Longrightarrow>
   table' = table @ map (\<lambda>p. (capability_id (pv_descriptor p), p)) ps \<and> distinct (map fst table') \<and>
   (\<forall>p \<in> set ps. stream_operations (pv_descriptor p) = [] \<and> event_operations (pv_descriptor p) = [])"
proof (induction ps arbitrary: table)
  case Nil
  then show ?case by simp
next
  case (Cons p ps)
  then have new: "capability_id (pv_descriptor p) \<notin> fst ` set table"
    and ops: "stream_operations (pv_descriptor p) = []" "event_operations (pv_descriptor p) = []"
    by (auto simp: map_has_iff split: if_splits)
  let ?t = "table @ [(capability_id (pv_descriptor p), p)]"
  have "collect_providers ?t ps = Inr table'"
    using Cons.prems(1) new ops by (simp add: update_fresh map_has_iff)
  moreover have "distinct (map fst ?t)" and "\<forall>(k, p) \<in> set ?t. k = capability_id (pv_descriptor p)"
    using Cons.prems(2,3) new by auto
  ultimately have h: "table' = ?t @ map (\<lambda>p. (capability_id (pv_descriptor p), p)) ps \<and> distinct (map fst table') \<and>
      (\<forall>p \<in> set ps. stream_operations (pv_descriptor p) = [] \<and> event_operations (pv_descriptor p) = [])"
    by (rule Cons.IH)
  show ?case
  proof (intro conjI)
    show "table' = table @ map (\<lambda>p. (capability_id (pv_descriptor p), p)) (p # ps)" using h by simp
    show "distinct (map fst table')" using h by blast
    show "\<forall>p \<in> set (p # ps). stream_operations (pv_descriptor p) = [] \<and> event_operations (pv_descriptor p) = []"
      using h ops by simp
  qed
qed

lemma collectProviders_Inr:
  assumes "collectProviders bindings = Inr table"
  shows "table = map (\<lambda>p. (capability_id (pv_descriptor p), p)) bindings \<and> distinct (map fst table) \<and> bindings \<noteq> [] \<and>
    (\<forall>p \<in> set bindings. stream_operations (pv_descriptor p) = [] \<and> event_operations (pv_descriptor p) = [])"
  using assms collect_providers_Inr [of "[]" bindings] by (auto simp: collectProviders_def result_simps split: if_splits)

lemma expected_capability_distinct:
  assumes "distinct (map pc_capability_id (provided_capabilities identity))"
  shows "expected_capability identity cap = Some c \<longleftrightarrow> c \<in> set (provided_capabilities identity) \<and> pc_capability_id c = cap"
proof -
  have "distinct (map fst (rev (map (\<lambda>c. (pc_capability_id c, c)) (provided_capabilities identity))))"
    using assms by (simp add: rev_map [symmetric] o_def)
  then show ?thesis by (auto simp: expected_capability_def map_of_eq_Some_iff)
qed

lemma provider_admitted_iff:
  assumes "distinct (map pc_capability_id (provided_capabilities identity))"
    and "stream_operations (pv_descriptor p) = []" and "event_operations (pv_descriptor p) = []"
  shows "provider_admitted identity p \<longleftrightarrow> provider_row p \<in> capability_row ` set (provided_capabilities identity)"
proof -
  have "provider_admitted identity p \<longleftrightarrow>
      (\<exists>c. expected_capability identity (capability_id (pv_descriptor p)) = Some c \<and> capability_row c = provider_row p)"
  proof (cases "expected_capability identity (capability_id (pv_descriptor p))")
    case None
    then show ?thesis by (simp add: provider_admitted_def)
  next
    case (Some c)
    then have "pc_capability_id c = capability_id (pv_descriptor p)"
      using expected_capability_distinct [OF assms(1)] by blast
    then show ?thesis using Some assms(2,3) by (simp add: provider_admitted_def capability_row_def provider_row_def)
  qed
  also have "\<dots> \<longleftrightarrow> (\<exists>c \<in> set (provided_capabilities identity). capability_row c = provider_row p)"
    using expected_capability_distinct [OF assms(1)] by (auto simp: capability_row_def provider_row_def)
  finally show ?thesis by (metis image_iff)
qed

text \<open>The exact provider table. For an identity with distinct capabilities, the table of this
  process is accepted exactly when its rows (capability, version, digest, operations in order) are
  the rows of the identity, no more and no fewer.\<close>

theorem validateProviderIdentity_exact:
  assumes "collectProviders bindings = Inr table" and "distinct (map pc_capability_id (provided_capabilities identity))"
  shows "validateProviderIdentity identity table = Inr () \<longleftrightarrow>
    provider_row ` set bindings = capability_row ` set (provided_capabilities identity)"
proof -
  note t = collectProviders_Inr [OF assms(1)]
  have snd: "map snd table = bindings" and len: "length table = length bindings"
    and db: "distinct (map (\<lambda>p. capability_id (pv_descriptor p)) bindings)"
    using t by (auto simp: o_def)
  have "expected_size identity = length (provided_capabilities identity)"
    using assms(2) by (metis distinct_remdups_id expected_size_def length_map)
  then have iff: "validateProviderIdentity identity table = Inr () \<longleftrightarrow>
      provider_row ` set bindings \<subseteq> capability_row ` set (provided_capabilities identity) \<and>
      length bindings = length (provided_capabilities identity)"
    using t provider_admitted_iff [OF assms(2)] by (auto simp: validateProviderIdentity_def snd len list_all_iff)
  have dr: "distinct (map provider_row bindings)" "distinct (map capability_row (provided_capabilities identity))"
    using db assms(2) by (auto simp: distinct_map provider_row_def capability_row_def inj_on_def)
  have cards: "card (provider_row ` set bindings) = length bindings"
    "card (capability_row ` set (provided_capabilities identity)) = length (provided_capabilities identity)"
    using distinct_card [OF dr(1)] distinct_card [OF dr(2)] by simp_all
  show ?thesis
    unfolding iff using cards card_subset_eq [of "capability_row ` set (provided_capabilities identity)" "provider_row ` set bindings"]
    by auto
qed

theorem validateProviderIdentity_exact_witness:
  "provider_row ` set [sample_provider] = capability_row ` set (provided_capabilities sample_identity)"
proof -
  have "collectProviders [sample_provider] = Inr [(''cap'', sample_provider)]"
    by (simp add: collectProviders_def sample_provider_def map_has_def)
  from validateProviderIdentity_exact [OF this, of sample_identity] sample_table show ?thesis
    by (simp add: sample_identity_def)
qed

section \<open>The bootstrap secret\<close>

lemma readSync_nonempty:
  "\<forall>x \<in> set pipe. x \<noteq> [] \<Longrightarrow> 0 < n \<Longrightarrow> readSync n pipe = (bytes, rest) \<Longrightarrow>
   bytes @ concat rest = concat pipe \<and> length bytes \<le> n \<and> (\<forall>x \<in> set rest. x \<noteq> []) \<and> (bytes = [] \<longleftrightarrow> pipe = [])"
  by (cases pipe) (auto split: if_splits)

lemma read_candidate_spec:
  "\<forall>x \<in> set pipe. x \<noteq> [] \<Longrightarrow> length candidate \<le> 32 \<Longrightarrow> read_candidate candidate pipe = (got, rest) \<Longrightarrow>
   got @ concat rest = candidate @ concat pipe \<and> length got \<le> 32 \<and> (\<forall>x \<in> set rest. x \<noteq> []) \<and>
   (length got < 32 \<longrightarrow> rest = [])"
proof (induction candidate pipe rule: read_candidate.induct)
  case (1 candidate pipe)
  show ?case
  proof (cases "length candidate < 32")
    case False
    then show ?thesis using 1 by (simp add: read_candidate.simps)
  next
    case True
    obtain bytes pipe' where r: "readSync (32 - length candidate) pipe = (bytes, pipe')" by fastforce
    note spec = readSync_nonempty [OF 1(2) _ r]
    show ?thesis
    proof (cases bytes)
      case Nil
      then have "pipe = []" using spec True by simp
      then show ?thesis using 1 True r Nil by (simp add: read_candidate.simps)
    next
      case (Cons b bs)
      have "read_candidate candidate pipe = read_candidate (candidate @ bytes) pipe'"
        using True r Cons by (subst read_candidate.simps) simp
      moreover have "length (candidate @ bytes) \<le> 32" using spec True by simp linarith
      ultimately have "got @ concat rest = (candidate @ bytes) @ concat pipe' \<and> length got \<le> 32 \<and>
          (\<forall>x \<in> set rest. x \<noteq> []) \<and> (length got < 32 \<longrightarrow> rest = [])"
        using 1(1) [OF True r [symmetric] Cons] 1(4) spec True Cons by simp
      then show ?thesis using spec True by simp
    qed
  qed
qed

text \<open>The bootstrap secret. However the pipe delivers its bytes, the secret is returned exactly
  when the pipe holds 32 bytes, and it is these bytes; a shorter or longer pipe is an error.\<close>

theorem readBootstrapSecret_exact:
  assumes "\<forall>x \<in> set pipe. x \<noteq> []"
  shows "readBootstrapSecret pipe = Inr secret \<longleftrightarrow> concat pipe = secret \<and> length secret = 32"
proof -
  obtain got rest where g: "read_candidate [] pipe = (got, rest)" by fastforce
  have spec: "got @ concat rest = concat pipe" "length got \<le> 32" "\<forall>x \<in> set rest. x \<noteq> []" "length got < 32 \<longrightarrow> rest = []"
    using read_candidate_spec [OF assms _ g] by auto
  have "fst (readSync 1 rest) = [] \<longleftrightarrow> rest = []" and c: "concat rest = [] \<longleftrightarrow> rest = []"
    using spec(3) by (cases rest; simp)+
  then have r: "readBootstrapSecret pipe = Inr secret \<longleftrightarrow> length got = 32 \<and> rest = [] \<and> got = secret"
    using g by (auto simp: readBootstrapSecret_def)
  show ?thesis
  proof (cases "rest = []")
    case True
    then show ?thesis using r spec(1) by auto
  next
    case False
    then have "length got = 32" "0 < length (concat rest)" using spec(2,4) c by auto
    moreover have "length got + length (concat rest) = length (concat pipe)"
      using arg_cong [OF spec(1), of length] by simp
    ultimately have "length (concat pipe) \<noteq> 32" by linarith
    then show ?thesis using r False by blast
  qed
qed

theorem readBootstrapSecret_exact_witness:
  "readBootstrapSecret [replicate 20 CHR ''a'', replicate 12 CHR ''b''] = Inr (replicate 20 CHR ''a'' @ replicate 12 CHR ''b'')"
  using readBootstrapSecret_exact [of "[replicate 20 CHR ''a'', replicate 12 CHR ''b'']"
      "replicate 20 CHR ''a'' @ replicate 12 CHR ''b''"] by simp

section \<open>Runtime failures\<close>

text \<open>A runtime failure that a Provider returns, other than resource exhaustion, loses its kind and
  its detail: whatever the failure says, the outcome sent is a plugin failure with the text
  \<open>[object Object]\<close>.\<close>

theorem runtime_detail_lost:
  assumes "map_of failure ''kind'' \<noteq> Some (JStr ''resource_exhausted'')"
  shows "toProcessOutcome (Runtime failure) oper =
    runtime_outcome [(''kind'', JStr ''plugin_failure''), (''detail'', JStr ''[object Object]'')]"
proof -
  have "\<forall>c \<in> set ''[object Object]''. (of_char c :: nat) \<le> 127" by simp
  then have "concat (utf8_chars ''[object Object]'') = ''[object Object]''"
    using concat_utf8_chars utf8_valid_ascii by blast
  then have "boundedErrorV1 PlainObject = ''[object Object]''"
    using bounded_loop_complete [of 0 "utf8_chars ''[object Object]''"] by (simp add: boundedErrorV1_def Let_def)
  then show ?thesis using assms by (simp add: toProcessOutcome_def plugin_failure_v1_def)
qed

theorem runtime_detail_lost_witness:
  "toProcessOutcome (Runtime [(''kind'', JStr ''plugin_failure''), (''detail'', JStr ''disk full'')]) ''get'' =
    runtime_outcome [(''kind'', JStr ''plugin_failure''), (''detail'', JStr ''[object Object]'')]"
  using runtime_detail_lost [of "[(''kind'', JStr ''plugin_failure''), (''detail'', JStr ''disk full'')]"] by simp

end
