(* ===== verification/Authoring_V2.thy ===== *)
theory Authoring_V2
  imports Plugin_Server
begin

text \<open>
  The pure part of the Authoring V2 runtime (\<open>packages/lenso-bun-plugin/src/v2.ts\<close>): the
  bootstrap line, the comparison of the admitted session with the Plugin definition, the binding of
  providers and dependencies, remaining budgets, and the translation of outcomes.

  The validators and proof messages of \<open>@lenso/process-protocol\<close> and the digests are the
  record \<open>authoring_protocol\<close>, an argument of the definitions: a validator returns the typed
  message, or the error it throws. \<open>ap_initialize_request\<close> reads the fields of an initialize
  request, which the source casts and \<open>authoringHandshakeProofPayload\<close> checks.
\<close>

section \<open>Messages\<close>

record init_limits =
  max_frame_bytes :: int
  max_retired_ids :: int
  max_active_invocations :: int
  max_unfinished_executions :: int
  max_queued_calls :: int
  max_active_outbound_calls :: int

record required_declaration =
  rd_requirement_id :: string
  rd_cardinality :: string
  rd_capability_id :: string
  rd_descriptor_version :: string
  rd_descriptor_digest :: string

record provided_endpoint =
  pe_endpoint_id :: string
  pe_capability_id :: string
  pe_descriptor_version :: string
  pe_descriptor_digest :: string

record route_descriptor =
  rt_requirement_id :: string
  rt_route_id :: string
  rt_capability_id :: string
  rt_provider_instance :: string

record initialize_params =
  in_json :: json
  in_api_version :: int
  in_session :: string
  in_limits :: init_limits
  required_declarations :: "required_declaration list"
  provided_endpoints :: "provided_endpoint list"
  in_routes :: "route_descriptor list"
  in_config :: json

record initialize_request =
  ir_initialize :: initialize_params
  ir_callback_origin :: string
  ir_host_nonce :: string
  ir_host_proof :: string

record invocation_scope =
  scope_id :: string
  parent_scope_id :: "string option"
  remaining_budget_nanos :: int
  permissions :: "json list"
  scope_extensions :: "(string \<times> json) list"

text \<open>The parameters of \<open>lenso.invoke\<close>, \<open>lenso.event.publish\<close> and \<open>lenso.stream.open\<close>.\<close>

record work_params =
  wp_session :: string
  wp_correlation_id :: string
  wp_endpoint_id :: string
  wp_capability_id :: string
  wp_operation :: string
  wp_scope :: invocation_scope
  wp_payload :: json

text \<open>The parameters of the stream actions; only \<open>lenso.stream.send\<close> has a sequence and a message.\<close>

record stream_params =
  sp_session :: string
  sp_correlation_id :: string
  sp_stream_id :: string
  sp_sequence :: string
  sp_message :: json

record lifecycle_params =
  lp_session :: string
  lp_scope_id :: string
  lp_remaining_budget_nanos :: int

record cancel_params =
  cp_session :: string
  cp_scope_id :: string
  cp_correlation_id :: string

record bootstrap =
  callback_origin :: string
  bootstrap_secret :: string

record authoring_protocol =
  AUTHORING_API_VERSION :: int
  ap_initialize_request :: "json \<Rightarrow> thrown + initialize_request"
  validateInitializeForRuntimeProfile :: "initialize_params \<Rightarrow> thrown option"
  ap_construct :: "initialize_params \<Rightarrow> json \<Rightarrow> thrown + lifecycle_params"
  ap_stop :: "initialize_params \<Rightarrow> json \<Rightarrow> thrown + lifecycle_params"
  ap_cancel :: "initialize_params \<Rightarrow> json \<Rightarrow> thrown + cancel_params"
  ap_invoke :: "initialize_params \<Rightarrow> json \<Rightarrow> thrown + work_params"
  ap_event :: "initialize_params \<Rightarrow> json \<Rightarrow> thrown + work_params"
  ap_stream_open :: "initialize_params \<Rightarrow> json \<Rightarrow> thrown + work_params"
  ap_stream_action :: "initialize_params \<Rightarrow> string \<Rightarrow> json \<Rightarrow> thrown + stream_params"
  authoringHandshakeProofPayload :: "initialize_params \<Rightarrow> string \<Rightarrow> string \<Rightarrow> string"
  authoringHostProofMessage :: "string \<Rightarrow> string"
  authoringChildProofMessage :: "string \<Rightarrow> string \<Rightarrow> string"
  ap_decodeBase64Url32 :: "string \<Rightarrow> string option"
  ap_encodeBase64Url :: "string \<Rightarrow> string"
  ap_sha256 :: "string \<Rightarrow> string"
  ap_hmac :: "string \<Rightarrow> string \<Rightarrow> string"
  ap_valid_result :: "string \<Rightarrow> string \<Rightarrow> json option \<Rightarrow> thrown option"

section \<open>Bootstrap\<close>

datatype bootstrap_error =
    BootstrapTooLong
  | BootstrapSyntax
  | BootstrapInvalid
  | BootstrapClosed

text \<open>\<open>lines\<close> are the lines of standard input; the keys are sorted and compared as texts.\<close>

definition readBootstrap :: "(string \<Rightarrow> json option) \<Rightarrow> string list \<Rightarrow> bootstrap_error + bootstrap" where
  "readBootstrap parse lines =
     (case lines of
        [] \<Rightarrow> Inl BootstrapClosed
      | line # _ \<Rightarrow>
          if length line > 4096 then Inl BootstrapTooLong
          else case parse line of
            None \<Rightarrow> Inl BootstrapSyntax
          | Some v \<Rightarrow>
              if stringify_strings (js_sort (map fst (props v))) \<noteq> stringify_strings [''bootstrap_secret'', ''callback_origin'']
              then Inl BootstrapInvalid
              else case (field v ''callback_origin'', field v ''bootstrap_secret'') of
                (Some (JStr origin), Some (JStr secret)) \<Rightarrow> Inr \<lparr>callback_origin = origin, bootstrap_secret = secret\<rparr>
              | _ \<Rightarrow> Inl BootstrapInvalid)"

section \<open>Proofs\<close>

definition createProof :: "authoring_protocol \<Rightarrow> string \<Rightarrow> string \<Rightarrow> string" where
  "createProof proto secret message = ap_encodeBase64Url proto (ap_hmac proto secret message)"

definition verifyProof :: "authoring_protocol \<Rightarrow> string \<Rightarrow> string \<Rightarrow> string \<Rightarrow> thrown option" where
  "verifyProof proto secret message proof =
     (case (ap_decodeBase64Url32 proto (createProof proto secret message), ap_decodeBase64Url32 proto proof) of
        (Some expected, Some received) \<Rightarrow>
          if expected = received then None else Some (ErrorObject ''host_proof does not authenticate'')
      | _ \<Rightarrow> Some (ErrorObject ''host_proof is not canonical''))"

section \<open>Admission of the definition\<close>

text \<open>
  What a dependency declares under its name. A legacy binding has no \<open>contract\<close> and no
  cardinality, so it never matches; a value that is not an object raises a \<open>TypeError\<close>.
\<close>

definition declared_id :: "string \<times> raw_dependency \<Rightarrow> thrown + string" where
  "declared_id nr =
     (case snd nr of
        NotAnObject \<Rightarrow> Inl js_type_error
      | LegacyBinding _ \<Rightarrow> Inr (fst nr)
      | DependencyDeclaration _ ident _ _ \<Rightarrow> Inr (dependency_id (fst nr) ident))"

definition digest_matches :: "string option \<Rightarrow> string \<Rightarrow> bool" where
  "digest_matches declared admitted \<longleftrightarrow> (case declared of None \<Rightarrow> True | Some d \<Rightarrow> d = admitted)"

definition requirement_matches :: "initialize_params \<Rightarrow> string \<times> raw_dependency \<Rightarrow> bool" where
  "requirement_matches initialize nr \<longleftrightarrow>
     (case snd nr of
        DependencyDeclaration _ ident d cardinality \<Rightarrow>
          (case find (\<lambda>r. rd_requirement_id r = dependency_id (fst nr) ident) (required_declarations initialize) of
             None \<Rightarrow> False
           | Some admitted \<Rightarrow>
               cardinality = rd_cardinality admitted \<and> capability_id d = rd_capability_id admitted \<and>
               descriptor_version d = rd_descriptor_version admitted \<and>
               digest_matches (descriptor_digest d) (rd_descriptor_digest admitted))
      | _ \<Rightarrow> False)"

definition endpoint_matches :: "provider_descriptor list \<Rightarrow> provided_endpoint \<Rightarrow> bool" where
  "endpoint_matches declared endpoint \<longleftrightarrow>
     (case find (\<lambda>d. capability_id d = pe_capability_id endpoint) declared of
        None \<Rightarrow> False
      | Some d \<Rightarrow>
          descriptor_version d = pe_descriptor_version endpoint \<and>
          digest_matches (descriptor_digest d) (pe_descriptor_digest endpoint))"

definition validateDefinition ::
  "authoring_protocol \<Rightarrow> plugin_definition \<Rightarrow> initialize_params \<Rightarrow> thrown + unit" where
  "validateDefinition proto definition initialize =
     (case validateInitializeForRuntimeProfile proto initialize of
        Some e \<Rightarrow> Inl e
      | None \<Rightarrow>
          if in_api_version initialize \<noteq> AUTHORING_API_VERSION proto then Inl (ErrorObject ''unsupported Authoring API'')
          else
          bind_result (mapM declared_id (def_dependency_list definition)) (\<lambda>ids.
          if stringify_strings (js_sort ids) \<noteq> stringify_strings (map rd_requirement_id (required_declarations initialize))
          then Inl (ErrorObject ''admitted named requirements do not match the Plugin declaration'')
          else case find (\<lambda>nr. \<not> requirement_matches initialize nr) (def_dependency_list definition) of
            Some nr \<Rightarrow> Inl (ErrorObject (''admitted requirement '' @ fst nr @ '' does not match its declaration''))
          | None \<Rightarrow>
              let declared = map provider_descriptor_of (def_providers definition) in
              if length declared \<noteq> length (provided_endpoints initialize)
              then Inl (ErrorObject ''admitted endpoints do not match the Plugin declaration'')
              else case find (\<lambda>e. \<not> endpoint_matches declared e) (provided_endpoints initialize) of
                Some e \<Rightarrow> Inl (ErrorObject (''admitted endpoint '' @ pe_endpoint_id e @ '' does not match its declaration''))
              | None \<Rightarrow> Inr ()))"

section \<open>Binding\<close>

text \<open>What a generated binder returns: the contract it binds, and whether it has the optional methods.\<close>

record bound_provider =
  bp_descriptor :: provider_descriptor
  bp_has_stream :: bool
  bp_has_event :: bool

fun bindProviders ::
  "(provider_descriptor \<Rightarrow> thrown + bound_provider) \<Rightarrow> plugin_definition \<Rightarrow> provided_endpoint list \<Rightarrow>
   (string \<times> bound_provider) list \<Rightarrow> thrown + (string \<times> bound_provider) list" where
  "bindProviders bnd definition [] bindings = Inr bindings"
| "bindProviders bnd definition (endpoint # endpoints) bindings =
     (case find (\<lambda>p. capability_id (provider_descriptor_of p) = pe_capability_id endpoint) (def_providers definition) of
        Some (ProviderDeclaration d) \<Rightarrow>
          bind_result (bnd d) (\<lambda>b.
          if capability_id (bp_descriptor b) \<noteq> pe_capability_id endpoint \<or>
             descriptor_version (bp_descriptor b) \<noteq> pe_descriptor_version endpoint
          then Inl (ErrorObject (''binder for '' @ pe_endpoint_id endpoint @ '' returned another contract''))
          else bindProviders bnd definition endpoints (AList.update (pe_endpoint_id endpoint) b bindings))
      | _ \<Rightarrow> Inl (ErrorObject (''endpoint '' @ pe_endpoint_id endpoint @ '' requires an instance binder'')))"

text \<open>The routes each dependency is bound to; \<open>client\<close> is the generated \<open>createClient\<close>.\<close>

fun bind_inputs ::
  "(string \<Rightarrow> route_descriptor \<Rightarrow> thrown option) \<Rightarrow> initialize_params \<Rightarrow> (string \<times> raw_dependency) list \<Rightarrow>
   thrown + (string \<times> route_descriptor list) list" where
  "bind_inputs client initialize [] = Inr []"
| "bind_inputs client initialize ((name, raw) # rest) =
     (case raw of
        DependencyDeclaration _ ident _ cardinality \<Rightarrow>
          let routes = filter (\<lambda>r. rt_requirement_id r = dependency_id name ident) (in_routes initialize) in
          bind_result (mapM (\<lambda>r. case client name r of Some e \<Rightarrow> Inl e | None \<Rightarrow> Inr r) routes) (\<lambda>rs.
          if cardinality \<noteq> ''many'' \<and> cardinality \<noteq> ''optional'' \<and> rs = [] then Inl js_type_error
          else bind_result (bind_inputs client initialize rest) (\<lambda>others.
            Inr ((name, if cardinality = ''many'' then rs else take 1 rs) # others)))
      | _ \<Rightarrow> Inl js_type_error)"

section \<open>Budgets and scopes\<close>

text \<open>
  \<open>reading\<close> is the clock reading \<open>(performance.now() - started) * 1000000\<close> of
  \<open>remainingBudget\<close>.
\<close>

definition remaining_nanos :: "int \<Rightarrow> rat \<Rightarrow> int" where
  "remaining_nanos initial reading =
     (let elapsed = max 0 \<lfloor>reading\<rfloor> in if elapsed \<ge> initial then 0 else initial - elapsed)"

definition remaining_milliseconds :: "int \<Rightarrow> rat \<Rightarrow> rat" where
  "remaining_milliseconds initial reading =
     max 0 (min (of_int max_safe_integer) (of_int (remaining_nanos initial reading) / 1000000))"

definition outboundScope :: "invocation_scope \<Rightarrow> rat \<Rightarrow> string \<Rightarrow> invocation_scope" where
  "outboundScope parent reading correlationId =
     \<lparr>scope_id = scope_id parent @ '':outbound:'' @ correlationId, parent_scope_id = Some (scope_id parent),
      remaining_budget_nanos = remaining_nanos (remaining_budget_nanos parent) reading,
      permissions = permissions parent, scope_extensions = scope_extensions parent\<rparr>"

definition lifecycle_scope :: "lifecycle_params \<Rightarrow> invocation_scope" where
  "lifecycle_scope params =
     \<lparr>scope_id = lp_scope_id params, parent_scope_id = None, remaining_budget_nanos = lp_remaining_budget_nanos params,
      permissions = [], scope_extensions = []\<rparr>"

section \<open>Outcomes\<close>

definition failure_kind :: "(string \<times> json) list \<Rightarrow> json option" where
  "failure_kind failure = map_of failure ''kind''"

text \<open>\<open>failure.detail ?? failure.kind\<close>, thrown into \<open>boundedError\<close>.\<close>

definition failure_detail :: "(string \<times> json) list \<Rightarrow> thrown" where
  "failure_detail failure =
     (case (if is_nullish (map_of failure ''detail'') then failure_kind failure else map_of failure ''detail'') of
        None \<Rightarrow> PrimitiveValue ''undefined''
      | Some (JObj _) \<Rightarrow> PlainObject
      | Some v \<Rightarrow> PrimitiveValue (js_string v))"

definition normalizeRuntimeFailure :: "(string \<times> json) list \<Rightarrow> string \<Rightarrow> string \<Rightarrow> string \<Rightarrow> (string \<times> json) list" where
  "normalizeRuntimeFailure failure correlation capability oper =
     (case failure_kind failure of
        Some (JStr k) \<Rightarrow>
          if k = ''cancelled'' \<or> k = ''deadline_exceeded'' then [(''kind'', JStr k), (''request_id'', JStr correlation)]
          else if k = ''resource_exhausted'' \<or> k = ''unknown_operation''
          then [(''kind'', JStr k), (''capability'', JStr capability), (''operation'', JStr oper)]
          else if k = ''protocol_violation'' then [(''kind'', JStr k), (''capability'', JStr capability)]
          else if k = ''admission_closed'' then [(''kind'', JStr k)]
          else [(''kind'', JStr ''plugin_failure''), (''detail'', JStr (boundedErrorV2 (failure_detail failure)))]
      | _ \<Rightarrow> [(''kind'', JStr ''plugin_failure''), (''detail'', JStr (boundedErrorV2 (failure_detail failure)))])"

definition toWireOutcome :: "dispatch_outcome \<Rightarrow> work_params \<Rightarrow> json" where
  "toWireOutcome outcome params =
     (case outcome of
        Success v \<Rightarrow> JObj [(''kind'', JStr ''success''), (''value'', v)]
      | Domain v \<Rightarrow> JObj [(''kind'', JStr ''domain''), (''error'', v)]
      | Runtime failure \<Rightarrow> runtime_outcome
          (normalizeRuntimeFailure failure (wp_correlation_id params) (wp_capability_id params) (wp_operation params)))"

definition wireFailure :: "(string \<times> json) list \<Rightarrow> (string \<times> json) list" where
  "wireFailure failure = normalizeRuntimeFailure failure ''0'' ''lenso.bun-authoring'' ''stream''"

definition plugin_failure_v2 :: "thrown \<Rightarrow> json" where
  "plugin_failure_v2 e = runtime_outcome [(''kind'', JStr ''plugin_failure''), (''detail'', JStr (boundedErrorV2 e))]"

definition boundedJsonResponse :: "json \<Rightarrow> int \<Rightarrow> http_response" where
  "boundedJsonResponse v maxBytes =
     (if int (byte_length v) > maxBytes then Response 507 [] else json_object_response v)"

end
