(* ===== verification/Authoring_Session.thy ===== *)
theory Authoring_Session
  imports Authoring_V2
begin

text \<open>
  The server of Authoring V2 (class \<open>BunAuthoringServer\<close> of \<open>v2.ts\<close>) as a state and a
  step function over atomic events: an RPC whose body has been read, the settlement of a call into
  user code, the progress of a callback to the Host, and the calls that user code makes through its
  clients and outbound streams.

  Contexts are tokens; a context is live while it is in \<open>v_contexts\<close> (the \<open>WeakMap\<close> of the
  source) and aborted when its controller is. What a handler keeps across an \<open>await\<close> is a
  \<open>v2_cont\<close>. A callback first waits for its proof, then takes its number and is posted.
\<close>

section \<open>State\<close>

record rpc_handle =
  rh_id :: "json option"
  rh_limit :: int

record active_entry =
  ae_ctx :: nat
  ae_scope :: string

record stream_entry =
  se_ctx :: nat
  se_nextSend :: nat
  se_nextReceive :: nat

record outbound_binding =
  ob_stream :: string
  ob_capability :: string
  ob_maxCalls :: int
  ob_nextSend :: nat
  ob_closed :: bool

datatype v2_cont =
    KVerify rpc_handle initialize_request
  | KChildProof rpc_handle json
  | KConstruct rpc_handle initialize_params lifecycle_params nat
  | KInvoke rpc_handle work_params nat
  | KEvent rpc_handle work_params nat
  | KOpen rpc_handle work_params nat
  | KSend rpc_handle stream_params
  | KReceive rpc_handle stream_params
  | KClose rpc_handle stream_params
  | KStop rpc_handle lifecycle_params nat
  | KSettled rpc_handle json json
  | KCall string
  | KEventOut string
  | KStreamOpen string string int
  | KAction nat string bool
  | KReceiveOut nat string
  | KVoid

record v2_server =
  v_active :: "(string \<times> active_entry) list"
  v_streams :: "(string \<times> stream_entry) list"
  v_ended :: "(string \<times> stream_entry) list"
  v_outboundStreams :: "(string \<times> nat) list"
  v_bindings :: "(nat \<times> outbound_binding) list"
  v_contexts :: "(nat \<times> invocation_scope) list"
  v_aborted :: "nat list"
  v_retired :: "string list"
  v_initialize :: "initialize_params option"
  v_instance :: bool
  v_providers :: "(string \<times> bound_provider) list"
  v_constructionAttempted :: bool
  v_stopAttempted :: bool
  v_nextOutboundId :: nat
  v_nextCallbackId :: nat
  v_nextStreamId :: nat
  v_activeOutboundCalls :: int
  v_activeEventPublications :: int
  v_reading :: "(nat \<times> int) list"
  v_pending :: "(nat \<times> v2_cont) list"
  v_posted :: "(nat \<times> nat) list"
  v_next :: nat
  v_finish :: bool

definition initial_v2 :: v2_server where
  "initial_v2 = \<lparr>v_active = [], v_streams = [], v_ended = [], v_outboundStreams = [], v_bindings = [], v_contexts = [], v_aborted = [],
     v_retired = [], v_initialize = None, v_instance = False, v_providers = [], v_constructionAttempted = False,
     v_stopAttempted = False, v_nextOutboundId = 1, v_nextCallbackId = 1, v_nextStreamId = 1, v_activeOutboundCalls = 0,
     v_activeEventPublications = 0, v_reading = [], v_pending = [], v_posted = [], v_next = 0, v_finish = False\<rparr>"

record v2_config =
  vc_protocol :: authoring_protocol
  vc_definition :: plugin_definition
  vc_bootstrap :: bootstrap
  vc_secret :: string
  vc_bind :: "provider_descriptor \<Rightarrow> thrown + bound_provider"
  vc_client :: "string \<Rightarrow> route_descriptor \<Rightarrow> thrown option"
  vc_parse_config :: "json \<Rightarrow> thrown option"

datatype v2_output =
    NoOutput
  | HttpReply http_response
  | UserResult "thrown + json"

definition reply :: "rpc_handle \<Rightarrow> thrown + json \<Rightarrow> v2_output" where
  "reply h result =
     HttpReply (boundedJsonResponse (JObj ((''jsonrpc'', JStr ''2.0'') # optional_field ''id'' (rh_id h) @
       [case result of
          Inr v \<Rightarrow> (''result'', v)
        | Inl e \<Rightarrow> (''error'', JObj [(''code'', jint (-32602)), (''message'', JStr (boundedErrorV2 e))])])) (rh_limit h))"

definition suspend :: "v2_cont \<Rightarrow> v2_server \<Rightarrow> v2_server" where
  "suspend k s = s\<lparr>v_pending := v_pending s @ [(v_next s, k)], v_next := Suc (v_next s)\<rparr>"

definition resume :: "nat \<Rightarrow> v2_server \<Rightarrow> v2_server" where
  "resume tok s = s\<lparr>v_pending := AList.delete tok (v_pending s), v_posted := AList.delete tok (v_posted s)\<rparr>"

text \<open>A fresh context, registered as live.\<close>

definition new_context :: "invocation_scope \<Rightarrow> v2_server \<Rightarrow> nat \<times> v2_server" where
  "new_context scope s =
     (v_next s, s\<lparr>v_contexts := v_contexts s @ [(v_next s, scope)], v_next := Suc (v_next s)\<rparr>)"

definition drop_context :: "nat \<Rightarrow> v2_server \<Rightarrow> v2_server" where
  "drop_context ctx s = s\<lparr>v_contexts := AList.delete ctx (v_contexts s)\<rparr>"

section \<open>Initialization and construction\<close>

text \<open>
  The fields of the request are read here at once. The source compares the callback origin before it
  uses the others, so for a request that has neither the right origin nor the other fields the error
  is another one. Signing with an imported HMAC key does not fail.
\<close>

definition initializeSession ::
  "v2_config \<Rightarrow> v2_server \<Rightarrow> rpc_handle \<Rightarrow> json \<Rightarrow> v2_output \<times> v2_server" where
  "initializeSession cfg s h params =
     (if v_initialize s \<noteq> None then (reply h (Inl (ErrorObject ''Bun Authoring V2 initialized more than once'')), s)
      else case ap_initialize_request (vc_protocol cfg) params of
        Inl e \<Rightarrow> (reply h (Inl e), s)
      | Inr request \<Rightarrow>
          if ir_callback_origin request \<noteq> callback_origin (vc_bootstrap cfg)
          then (reply h (Inl (ErrorObject ''callback origin does not match the private bootstrap'')), s)
          else (NoOutput, suspend (KVerify h request) s))"

definition request_digest :: "v2_config \<Rightarrow> initialize_request \<Rightarrow> string" where
  "request_digest cfg request =
     ap_sha256 (vc_protocol cfg) (authoringHandshakeProofPayload (vc_protocol cfg) (ir_initialize request)
       (ir_callback_origin request) (ir_host_nonce request))"

text \<open>After \<open>verifyProof\<close>: \<open>random\<close> is the child's nonce.\<close>

definition proof_verified ::
  "v2_config \<Rightarrow> v2_server \<Rightarrow> rpc_handle \<Rightarrow> initialize_request \<Rightarrow> string \<Rightarrow> v2_output \<times> v2_server" where
  "proof_verified cfg s h request random =
     (let proto = vc_protocol cfg; digest = request_digest cfg request in
      case verifyProof proto (vc_secret cfg) (authoringHostProofMessage proto digest) (ir_host_proof request) of
        Some e \<Rightarrow> (reply h (Inl e), s)
      | None \<Rightarrow>
          (case validateDefinition proto (vc_definition cfg) (ir_initialize request) of
             Inl e \<Rightarrow> (reply h (Inl e), s)
           | Inr _ \<Rightarrow>
               let nonce = ap_encodeBase64Url proto random in
               (NoOutput, suspend (KChildProof h (JObj [(''initialized'', in_json (ir_initialize request)),
                  (''child_nonce'', JStr nonce),
                  (''child_proof'', JStr (createProof proto (vc_secret cfg) (authoringChildProofMessage proto digest nonce)))]))
                  (s\<lparr>v_initialize := Some (ir_initialize request)\<rparr>))))"

definition construct_result :: "lifecycle_params \<Rightarrow> thrown option \<Rightarrow> json" where
  "construct_result params failure =
     JObj [(''session'', JStr (lp_session params)), (''lifecycle_scope_id'', JStr (lp_scope_id params)),
       (''outcome'', case failure of
          None \<Rightarrow> JObj [(''kind'', JStr ''constructed'')]
        | Some e \<Rightarrow> JObj [(''kind'', JStr ''failed''), (''detail'', JStr (boundedErrorV2 e))])]"

text \<open>The instance that \<open>create\<close> returned, or \<open>False\<close> when it is not an object.\<close>

definition construct_finish ::
  "v2_config \<Rightarrow> v2_server \<Rightarrow> rpc_handle \<Rightarrow> initialize_params \<Rightarrow> lifecycle_params \<Rightarrow> nat \<Rightarrow> thrown + bool \<Rightarrow>
   v2_output \<times> v2_server" where
  "construct_finish cfg s h initialize params ctx created =
     (let failed = (\<lambda>e. (reply h (Inr (construct_result params (Some e))), drop_context ctx s)) in
      case created of
        Inl e \<Rightarrow> failed e
      | Inr False \<Rightarrow> failed (ErrorObject ''Plugin factory must return one complete object'')
      | Inr True \<Rightarrow>
          (case bindProviders (vc_bind cfg) (vc_definition cfg) (provided_endpoints initialize) [] of
             Inl e \<Rightarrow> failed e
           | Inr bindings \<Rightarrow>
               (reply h (Inr (construct_result params None)),
                (drop_context ctx s)\<lparr>v_providers := bindings, v_instance := True\<rparr>)))"

definition construct_inputs :: "v2_config \<Rightarrow> initialize_params \<Rightarrow> thrown + (string \<times> route_descriptor list) list" where
  "construct_inputs cfg initialize =
     bind_result (bind_inputs (vc_client cfg) initialize (def_dependency_list (vc_definition cfg))) (\<lambda>dependencies.
     if def_config (vc_definition cfg) = None then Inr dependencies
     else case vc_parse_config cfg (in_config initialize) of Some e \<Rightarrow> Inl e | None \<Rightarrow> Inr dependencies)"

definition construct :: "v2_config \<Rightarrow> v2_server \<Rightarrow> rpc_handle \<Rightarrow> initialize_params \<Rightarrow> json \<Rightarrow> v2_output \<times> v2_server" where
  "construct cfg s h initialize raw =
     (case ap_construct (vc_protocol cfg) initialize raw of
        Inl e \<Rightarrow> (reply h (Inl e), s)
      | Inr params \<Rightarrow>
          if v_constructionAttempted s then (reply h (Inl (ErrorObject ''Bun Plugin constructed more than once'')), s)
          else
            case new_context (lifecycle_scope params) (s\<lparr>v_constructionAttempted := True\<rparr>) of (ctx, s') \<Rightarrow>
            (case construct_inputs cfg initialize of
               Inl e \<Rightarrow> construct_finish cfg s' h initialize params ctx (Inl e)
             | Inr inputs \<Rightarrow>
                 if def_create (vc_definition cfg) then (NoOutput, suspend (KConstruct h initialize params ctx) s')
                 else construct_finish cfg s' h initialize params ctx (Inr True)))"

section \<open>Invocations\<close>

definition work_result :: "work_params \<Rightarrow> json \<Rightarrow> json" where
  "work_result params outcome =
     JObj [(''session'', JStr (wp_session params)), (''correlation_id'', JStr (wp_correlation_id params)), (''outcome'', outcome)]"

definition exhausted :: "work_params \<Rightarrow> json" where
  "exhausted params = runtime_outcome [(''kind'', JStr ''resource_exhausted''), (''capability'', JStr (wp_capability_id params)),
     (''operation'', JStr (wp_operation params))]"

definition settlement :: "work_params \<Rightarrow> string \<Rightarrow> json" where
  "settlement params state =
     JObj [(''session'', JStr (wp_session params)), (''scope_id'', JStr (scope_id (wp_scope params))),
       (''correlation_id'', JStr (wp_correlation_id params)), (''state'', JStr state)]"

text \<open>\<open>await this.#settled(...)\<close>: the settlement is posted to the Host, then the result is sent.\<close>

definition settled :: "rpc_handle \<Rightarrow> work_params \<Rightarrow> string \<Rightarrow> json \<Rightarrow> v2_server \<Rightarrow> v2_output \<times> v2_server" where
  "settled h params state outcome s =
     (NoOutput, suspend (KSettled h (settlement params state) (work_result params outcome)) s)"

definition final_state :: "v2_server \<Rightarrow> nat \<Rightarrow> string" where
  "final_state s ctx = (if ctx \<in> set (v_aborted s) then ''cancelled'' else ''completed'')"

definition retire_work :: "work_params \<Rightarrow> v2_server \<Rightarrow> v2_server" where
  "retire_work params s =
     s\<lparr>v_active := AList.delete (wp_correlation_id params) (v_active s),
       v_retired := set_add (wp_correlation_id params) (v_retired s)\<rparr>"

definition admit_work :: "work_params \<Rightarrow> v2_server \<Rightarrow> nat \<times> v2_server" where
  "admit_work params s =
     (case new_context (wp_scope params) s of (ctx, s') \<Rightarrow>
        (ctx, s'\<lparr>v_active := AList.update (wp_correlation_id params)
           \<lparr>ae_ctx = ctx, ae_scope = scope_id (wp_scope params)\<rparr> (v_active s')\<rparr>))"

definition known_correlation :: "v2_server \<Rightarrow> string \<Rightarrow> bool" where
  "known_correlation s cid \<longleftrightarrow> map_has (v_active s) cid \<or> cid \<in> set (v_retired s)"

definition invoke_finish ::
  "v2_server \<Rightarrow> rpc_handle \<Rightarrow> work_params \<Rightarrow> nat \<Rightarrow> thrown + dispatch_outcome \<Rightarrow> v2_output \<times> v2_server" where
  "invoke_finish s h params ctx result =
     (case result of
        Inl e \<Rightarrow> settled h params ''abandoned'' (plugin_failure_v2 e) (retire_work params s)
      | Inr outcome \<Rightarrow> settled h params (final_state s ctx) (toWireOutcome outcome params) (retire_work params s))"

definition invoke :: "v2_config \<Rightarrow> v2_server \<Rightarrow> rpc_handle \<Rightarrow> initialize_params \<Rightarrow> json \<Rightarrow> v2_output \<times> v2_server" where
  "invoke cfg s h initialize raw =
     (case ap_invoke (vc_protocol cfg) initialize raw of
        Inl e \<Rightarrow> (reply h (Inl e), s)
      | Inr params \<Rightarrow>
          if \<not> v_instance s then (reply h (Inl (ErrorObject ''Bun Plugin invoked before construction'')), s)
          else if known_correlation s (wp_correlation_id params)
          then (reply h (Inl (ErrorObject ''Bun Plugin reused a correlation id'')), s)
          else if int (length (v_retired s)) \<ge> max_retired_ids (in_limits initialize)
          then (reply h (Inl (ErrorObject ''Bun Plugin retired identity limit exhausted'')), s)
          else if int (length (v_active s)) \<ge> max_active_invocations (in_limits initialize)
          then settled h params ''completed'' (exhausted params) s
          else
            case admit_work params s of (ctx, s') \<Rightarrow>
            (case map_of (v_providers s') (wp_endpoint_id params) of
               None \<Rightarrow> invoke_finish s' h params ctx (Inl (ErrorObject ''unknown admitted endpoint''))
             | Some p \<Rightarrow> (NoOutput, suspend (KInvoke h params ctx) s')))"

section \<open>Events\<close>

datatype action_result = Accepted | ActionRuntime "(string \<times> json) list"

definition accepted_json :: json where
  "accepted_json = JObj [(''kind'', JStr ''accepted'')]"

definition event_finish :: "v2_server \<Rightarrow> rpc_handle \<Rightarrow> work_params \<Rightarrow> nat \<Rightarrow> thrown + action_result \<Rightarrow> v2_output \<times> v2_server" where
  "event_finish s h params ctx result =
     (reply h (Inr (work_result params (case result of
        Inl e \<Rightarrow> plugin_failure_v2 e
      | Inr Accepted \<Rightarrow> accepted_json
      | Inr (ActionRuntime failure) \<Rightarrow> runtime_outcome (normalizeRuntimeFailure failure (wp_correlation_id params)
          (wp_capability_id params) (wp_operation params))))),
      drop_context ctx (s\<lparr>v_activeEventPublications := v_activeEventPublications s - 1\<rparr>))"

definition publishEvent :: "v2_config \<Rightarrow> v2_server \<Rightarrow> rpc_handle \<Rightarrow> initialize_params \<Rightarrow> json \<Rightarrow> v2_output \<times> v2_server" where
  "publishEvent cfg s h initialize raw =
     (case ap_event (vc_protocol cfg) initialize raw of
        Inl e \<Rightarrow> (reply h (Inl e), s)
      | Inr params \<Rightarrow>
          if \<not> v_instance s then (reply h (Inl (ErrorObject ''Bun Plugin published to before construction'')), s)
          else
            case new_context (wp_scope params) s of (ctx, s') \<Rightarrow>
            (case map_of (v_providers s') (wp_endpoint_id params) of
               None \<Rightarrow> (reply h (Inl (ErrorObject ''unknown admitted endpoint'')), s')
             | Some p \<Rightarrow>
                 if \<not> bp_has_event p then (reply h (Inl (ErrorObject ''Event operation has no provider binding'')), s')
                 else if v_activeEventPublications s' \<ge> max_queued_calls (in_limits initialize)
                 then (reply h (Inr (work_result params (exhausted params))), s')
                 else (NoOutput, suspend (KEvent h params ctx)
                         (s'\<lparr>v_activeEventPublications := v_activeEventPublications s' + 1\<rparr>))))"

section \<open>Inbound streams\<close>

datatype open_result =
    Opened
  | OpenDomain json
  | OpenRuntime "(string \<times> json) list"

definition work_failure :: "work_params \<Rightarrow> (string \<times> json) list \<Rightarrow> json" where
  "work_failure params failure =
     runtime_outcome (normalizeRuntimeFailure failure (wp_correlation_id params) (wp_capability_id params) (wp_operation params))"

text \<open>The end of \<open>#openStream\<close>: only an opened stream keeps its context.\<close>

definition open_finish ::
  "v2_server \<Rightarrow> rpc_handle \<Rightarrow> work_params \<Rightarrow> nat \<Rightarrow> thrown + open_result \<Rightarrow> v2_output \<times> v2_server" where
  "open_finish s h params ctx result =
     (let close = (\<lambda>t. retire_work params (drop_context ctx t)) in
      case result of
        Inl e \<Rightarrow> settled h params ''abandoned'' (plugin_failure_v2 e) (close s)
      | Inr Opened \<Rightarrow>
          if ctx \<in> set (v_aborted s)
          then settled h params ''cancelled''
                 (runtime_outcome [(''kind'', JStr ''cancelled''), (''request_id'', JStr (wp_correlation_id params))]) (close s)
          else
            let sid = show_int (int (v_nextStreamId s)) in
            settled h params ''completed'' (JObj [(''kind'', JStr ''opened''), (''stream_id'', JStr sid)])
              (retire_work params (s\<lparr>v_nextStreamId := Suc (v_nextStreamId s),
                 v_streams := AList.update sid \<lparr>se_ctx = ctx, se_nextSend = 0, se_nextReceive = 0\<rparr> (v_streams s)\<rparr>))
      | Inr (OpenDomain v) \<Rightarrow>
          settled h params (final_state s ctx) (JObj [(''kind'', JStr ''domain''), (''error'', v)]) (close s)
      | Inr (OpenRuntime failure) \<Rightarrow> settled h params (final_state s ctx) (work_failure params failure) (close s))"

definition openStream :: "v2_config \<Rightarrow> v2_server \<Rightarrow> rpc_handle \<Rightarrow> initialize_params \<Rightarrow> json \<Rightarrow> v2_output \<times> v2_server" where
  "openStream cfg s h initialize raw =
     (case ap_stream_open (vc_protocol cfg) initialize raw of
        Inl e \<Rightarrow> (reply h (Inl e), s)
      | Inr params \<Rightarrow>
          if \<not> v_instance s then (reply h (Inl (ErrorObject ''Bun Plugin streamed to before construction'')), s)
          else if known_correlation s (wp_correlation_id params)
          then (reply h (Inl (ErrorObject ''Bun Plugin reused a correlation id'')), s)
          else if int (length (v_retired s)) \<ge> max_retired_ids (in_limits initialize) \<or>
                  int (length (v_active s)) \<ge> max_active_invocations (in_limits initialize) \<or>
                  int (length (v_streams s)) \<ge> max_unfinished_executions (in_limits initialize)
          then settled h params ''completed'' (exhausted params) s
          else
            case admit_work params s of (ctx, s') \<Rightarrow>
            (case map_of (v_providers s') (wp_endpoint_id params) of
               None \<Rightarrow> open_finish s' h params ctx (Inl (ErrorObject ''unknown admitted endpoint''))
             | Some p \<Rightarrow>
                 if \<not> bp_has_stream p
                 then open_finish s' h params ctx (Inl (ErrorObject ''Stream operation has no provider binding''))
                 else (NoOutput, suspend (KOpen h params ctx) s')))"

definition stream_result :: "stream_params \<Rightarrow> json \<Rightarrow> json" where
  "stream_result params outcome =
     JObj [(''session'', JStr (sp_session params)), (''correlation_id'', JStr (sp_correlation_id params)),
       (''stream_id'', JStr (sp_stream_id params)), (''outcome'', outcome)]"

definition unknown_stream :: json where
  "unknown_stream = runtime_outcome [(''kind'', JStr ''protocol_violation''), (''capability'', JStr ''lenso.bun-authoring'')]"

definition sendStream :: "v2_server \<Rightarrow> rpc_handle \<Rightarrow> stream_params \<Rightarrow> v2_output \<times> v2_server" where
  "sendStream s h params =
     (case map_of (v_streams s) (sp_stream_id params) of
        None \<Rightarrow> (reply h (Inr (stream_result params unknown_stream)), s)
      | Some stream \<Rightarrow>
          if sp_sequence params \<noteq> show_int (int (se_nextSend stream))
          then (reply h (Inl (ErrorObject ''Bun Stream send sequence is not contiguous'')), s)
          else (NoOutput, suspend (KSend h params) s))"

text \<open>
  A handler holds the record of its stream across an \<open>await\<close>, also when the stream leaves the
  table meanwhile: \<open>v_ended\<close> keeps these records.
\<close>

definition stream_record :: "v2_server \<Rightarrow> string \<Rightarrow> stream_entry option" where
  "stream_record s sid = (case map_of (v_streams s) sid of Some e \<Rightarrow> Some e | None \<Rightarrow> map_of (v_ended s) sid)"

definition update_stream :: "string \<Rightarrow> (stream_entry \<Rightarrow> stream_entry) \<Rightarrow> v2_server \<Rightarrow> v2_server" where
  "update_stream sid f s =
     (case map_of (v_streams s) sid of
        Some e \<Rightarrow> s\<lparr>v_streams := AList.update sid (f e) (v_streams s)\<rparr>
      | None \<Rightarrow>
          (case map_of (v_ended s) sid of
             Some e \<Rightarrow> s\<lparr>v_ended := AList.update sid (f e) (v_ended s)\<rparr>
           | None \<Rightarrow> s))"

definition send_finish :: "v2_server \<Rightarrow> rpc_handle \<Rightarrow> stream_params \<Rightarrow> thrown + action_result \<Rightarrow> v2_output \<times> v2_server" where
  "send_finish s h params result =
     (case result of
        Inl e \<Rightarrow> (reply h (Inl e), s)
      | Inr Accepted \<Rightarrow>
          (reply h (Inr (stream_result params accepted_json)),
           update_stream (sp_stream_id params) (\<lambda>e. e\<lparr>se_nextSend := Suc (se_nextSend e)\<rparr>) s)
      | Inr (ActionRuntime failure) \<Rightarrow>
          (reply h (Inr (stream_result params (runtime_outcome (wireFailure failure)))), s))"

definition receiveStream :: "v2_server \<Rightarrow> rpc_handle \<Rightarrow> stream_params \<Rightarrow> v2_output \<times> v2_server" where
  "receiveStream s h params =
     (if map_has (v_streams s) (sp_stream_id params) then (NoOutput, suspend (KReceive h params) s)
      else (reply h (Inr (stream_result params unknown_stream)), s))"

datatype receive_result =
    Message json
  | PeerHalfClosed
  | TerminalSuccess
  | TerminalDomain json
  | ReceiveRuntime "(string \<times> json) list"

definition end_stream :: "string \<Rightarrow> v2_server \<Rightarrow> v2_server" where
  "end_stream sid s =
     (case map_of (v_streams s) sid of
        None \<Rightarrow> s
      | Some stream \<Rightarrow>
          drop_context (se_ctx stream)
            (s\<lparr>v_streams := AList.delete sid (v_streams s), v_ended := AList.update sid stream (v_ended s)\<rparr>))"

definition receive_finish ::
  "v2_server \<Rightarrow> rpc_handle \<Rightarrow> stream_params \<Rightarrow> thrown + receive_result \<Rightarrow> v2_output \<times> v2_server" where
  "receive_finish s h params result =
     (let sid = sp_stream_id params;
          sequence = (case stream_record s sid of Some e \<Rightarrow> se_nextReceive e | None \<Rightarrow> 0);
          answer = (\<lambda>outcome. reply h (Inr (stream_result params (JObj outcome)))) in
      case result of
        Inl e \<Rightarrow> (reply h (Inl e), s)
      | Inr (Message v) \<Rightarrow>
          (answer [(''kind'', JStr ''message''), (''sequence'', JStr (show_int (int sequence))), (''message'', v)],
           update_stream sid (\<lambda>e. e\<lparr>se_nextReceive := Suc (se_nextReceive e)\<rparr>) s)
      | Inr PeerHalfClosed \<Rightarrow> (answer [(''kind'', JStr ''peer_half_closed'')], s)
      | Inr TerminalSuccess \<Rightarrow>
          (answer [(''kind'', JStr ''terminal''), (''outcome'', JObj [(''kind'', JStr ''success'')])], end_stream sid s)
      | Inr (TerminalDomain v) \<Rightarrow>
          (answer [(''kind'', JStr ''terminal''), (''outcome'', JObj [(''kind'', JStr ''domain''), (''error'', v)])],
           end_stream sid s)
      | Inr (ReceiveRuntime failure) \<Rightarrow>
          (answer [(''kind'', JStr ''runtime''), (''failure'', JObj (wireFailure failure))], s))"

definition closeStreamSend :: "v2_server \<Rightarrow> rpc_handle \<Rightarrow> stream_params \<Rightarrow> v2_output \<times> v2_server" where
  "closeStreamSend s h params =
     (if map_has (v_streams s) (sp_stream_id params) then (NoOutput, suspend (KClose h params) s)
      else (reply h (Inr (stream_result params unknown_stream)), s))"

definition close_finish :: "v2_server \<Rightarrow> rpc_handle \<Rightarrow> stream_params \<Rightarrow> thrown + action_result \<Rightarrow> v2_output \<times> v2_server" where
  "close_finish s h params result =
     (case result of
        Inl e \<Rightarrow> (reply h (Inl e), s)
      | Inr Accepted \<Rightarrow> (reply h (Inr (stream_result params accepted_json)), s)
      | Inr (ActionRuntime failure) \<Rightarrow> (reply h (Inr (stream_result params (runtime_outcome (wireFailure failure)))), s))"

definition cancelStream :: "v2_server \<Rightarrow> rpc_handle \<Rightarrow> stream_params \<Rightarrow> v2_output \<times> v2_server" where
  "cancelStream s h params =
     (reply h (Inr (stream_result params accepted_json)), end_stream (sp_stream_id params) s)"

definition cancel_v2 :: "v2_server \<Rightarrow> rpc_handle \<Rightarrow> cancel_params \<Rightarrow> v2_output \<times> v2_server" where
  "cancel_v2 s h params =
     (let accepted = (case map_of (v_active s) (cp_correlation_id params) of
            None \<Rightarrow> False | Some a \<Rightarrow> ae_scope a = cp_scope_id params)
      in (reply h (Inr (JObj [(''session'', JStr (cp_session params)), (''scope_id'', JStr (cp_scope_id params)),
            (''correlation_id'', JStr (cp_correlation_id params)), (''accepted'', JBool accepted)])),
          if accepted then s\<lparr>v_aborted := set_add (ae_ctx (the (map_of (v_active s) (cp_correlation_id params)))) (v_aborted s)\<rparr>
          else s))"

section \<open>Calls of user code to the Host\<close>

definition outbound_id :: "v2_server \<Rightarrow> string" where
  "outbound_id s = show_int (int (v_nextOutboundId s))"

definition take_outbound_id :: "v2_server \<Rightarrow> v2_server" where
  "take_outbound_id s = s\<lparr>v_nextOutboundId := Suc (v_nextOutboundId s)\<rparr>"

definition begin_outbound :: "v2_server \<Rightarrow> v2_server" where
  "begin_outbound s = s\<lparr>v_activeOutboundCalls := v_activeOutboundCalls s + 1\<rparr>"

definition end_outbound :: "v2_server \<Rightarrow> v2_server" where
  "end_outbound s = s\<lparr>v_activeOutboundCalls := v_activeOutboundCalls s - 1\<rparr>"

definition no_context :: thrown where
  "no_context = ErrorObject ''Host calls require the active invocation context''"

datatype outbound_kind = OutCall | OutEvent | OutStream

text \<open>
  \<open>#outboundCall\<close>, \<open>#outboundEvent\<close> and \<open>#outboundStream\<close> up to the callback: the
  context must be live, not aborted, and a call slot (for a stream also a stream slot) free.
\<close>

definition cancelled_failure :: "outbound_kind \<Rightarrow> string \<Rightarrow> json" where
  "cancelled_failure kind requestId =
     (case kind of
        OutCall \<Rightarrow> runtime_outcome [(''kind'', JStr ''cancelled''), (''detail'', JStr requestId)]
      | _ \<Rightarrow> runtime_outcome [(''kind'', JStr ''cancelled''), (''request_id'', JStr requestId)])"

definition exhausted_failure :: "outbound_kind \<Rightarrow> route_descriptor \<Rightarrow> string \<Rightarrow> json" where
  "exhausted_failure kind route oper =
     (case kind of
        OutCall \<Rightarrow> runtime_outcome [(''kind'', JStr ''resource_exhausted''), (''detail'', JStr oper)]
      | _ \<Rightarrow> runtime_outcome [(''kind'', JStr ''resource_exhausted''), (''capability'', JStr (rt_capability_id route)),
          (''operation'', JStr oper)])"

definition outbound_continuation :: "initialize_params \<Rightarrow> outbound_kind \<Rightarrow> route_descriptor \<Rightarrow> string \<Rightarrow> v2_cont" where
  "outbound_continuation initialize kind route cid =
     (case kind of
        OutCall \<Rightarrow> KCall cid
      | OutEvent \<Rightarrow> KEventOut cid
      | OutStream \<Rightarrow> KStreamOpen cid (rt_capability_id route) (max_active_outbound_calls (in_limits initialize)))"

definition outbound ::
  "v2_server \<Rightarrow> outbound_kind \<Rightarrow> nat \<Rightarrow> string \<Rightarrow> route_descriptor \<Rightarrow> string \<Rightarrow> v2_output \<times> v2_server" where
  "outbound s kind ctx requestId route oper =
     (case (map_of (v_contexts s) ctx, v_initialize s) of
        (None, _) \<Rightarrow> (UserResult (Inl no_context), s)
      | (Some scope, None) \<Rightarrow> (UserResult (Inl (ErrorObject ''Bun Plugin is not initialized'')), s)
      | (Some scope, Some initialize) \<Rightarrow>
          if ctx \<in> set (v_aborted s) then (UserResult (Inr (cancelled_failure kind requestId)), s)
          else if v_activeOutboundCalls s \<ge> max_active_outbound_calls (in_limits initialize) \<or>
                  kind = OutStream \<and> int (length (v_outboundStreams s)) \<ge> max_unfinished_executions (in_limits initialize)
          then (UserResult (Inr (exhausted_failure kind route oper)), s)
          else (NoOutput, suspend (outbound_continuation initialize kind route (outbound_id s)) (take_outbound_id (begin_outbound s))))"

definition outboundCall :: "v2_server \<Rightarrow> nat \<Rightarrow> string \<Rightarrow> route_descriptor \<Rightarrow> string \<Rightarrow> v2_output \<times> v2_server" where
  "outboundCall s ctx requestId route oper = outbound s OutCall ctx requestId route oper"

definition outboundEvent :: "v2_server \<Rightarrow> nat \<Rightarrow> string \<Rightarrow> route_descriptor \<Rightarrow> string \<Rightarrow> v2_output \<times> v2_server" where
  "outboundEvent s ctx requestId route oper = outbound s OutEvent ctx requestId route oper"

definition outboundStream :: "v2_server \<Rightarrow> nat \<Rightarrow> string \<Rightarrow> route_descriptor \<Rightarrow> string \<Rightarrow> v2_output \<times> v2_server" where
  "outboundStream s ctx requestId route oper = outbound s OutStream ctx requestId route oper"

definition client_call :: "v2_server \<Rightarrow> outbound_kind \<Rightarrow> nat \<Rightarrow> string \<Rightarrow> route_descriptor \<Rightarrow> string \<Rightarrow> v2_output \<times> v2_server" where
  "client_call s kind ctx requestId route oper =
     (case kind of
        OutCall \<Rightarrow> outboundCall s ctx requestId route oper
      | OutEvent \<Rightarrow> outboundEvent s ctx requestId route oper
      | OutStream \<Rightarrow> outboundStream s ctx requestId route oper)"

lemma client_call_outbound [simp]: "client_call s kind ctx requestId route oper = outbound s kind ctx requestId route oper"
  by (cases kind) (simp_all add: client_call_def outboundCall_def outboundEvent_def outboundStream_def)

text \<open>The request that is posted for it.\<close>

definition outbound_request ::
  "initialize_params \<Rightarrow> outbound_kind \<Rightarrow> invocation_scope \<Rightarrow> rat \<Rightarrow> route_descriptor \<Rightarrow> string \<Rightarrow> string \<Rightarrow> json \<Rightarrow> json" where
  "outbound_request initialize kind parent reading route cid oper payload =
     (let scope = outboundScope parent reading cid in
      JObj [(''session'', JStr (in_session initialize)), (''correlation_id'', JStr cid),
        (''requirement_id'', JStr (rt_requirement_id route)), (''route_id'', JStr (rt_route_id route)),
        (''operation'', JStr oper),
        (''scope'', JObj [(''scope_id'', JStr (scope_id scope)),
           (''parent_scope_id'', case parent_scope_id scope of None \<Rightarrow> JNull | Some i \<Rightarrow> JStr i),
           (''remaining_budget_nanos'', JStr (show_int (remaining_budget_nanos scope))),
           (''permissions'', JArr (permissions scope)),
           (''extensions'', JArr (map snd (scope_extensions scope)))]),
        (case kind of OutCall \<Rightarrow> ''payload'' | OutEvent \<Rightarrow> ''event'' | OutStream \<Rightarrow> ''request'', payload)])"

definition fromWireOutcome :: "json \<Rightarrow> json" where
  "fromWireOutcome outcome =
     (let fallback = (\<lambda>v. case v of Some x \<Rightarrow> [(''value'', x)] | None \<Rightarrow> []) in
      case field outcome ''kind'' of
        Some (JStr k) \<Rightarrow>
          if k = ''success'' then JObj ((''kind'', JStr ''success'') # fallback (field outcome ''value''))
          else if k = ''domain'' then JObj ((''kind'', JStr ''domain'') # fallback (field outcome ''error''))
          else runtime_outcome (optional_field ''kind'' (ofield (field outcome ''failure'') ''kind'') @
                 optional_field ''detail'' (field outcome ''failure''))
      | _ \<Rightarrow> JNull)"

definition set_binding :: "nat \<Rightarrow> (outbound_binding \<Rightarrow> outbound_binding) \<Rightarrow> v2_server \<Rightarrow> v2_server" where
  "set_binding b f s = s\<lparr>v_bindings := map (\<lambda>(i, x). (i, if i = b then f x else x)) (v_bindings s)\<rparr>"

text \<open>\<open>finish\<close> of an outbound stream.\<close>

definition finish_binding :: "nat \<Rightarrow> v2_server \<Rightarrow> v2_server" where
  "finish_binding b s =
     (case map_of (v_bindings s) b of
        None \<Rightarrow> s
      | Some x \<Rightarrow> set_binding b (\<lambda>y. y\<lparr>ob_closed := True\<rparr>) (s\<lparr>v_outboundStreams := AList.delete (ob_stream x) (v_outboundStreams s)\<rparr>))"

definition binding_closed :: "v2_server \<Rightarrow> nat \<Rightarrow> bool" where
  "binding_closed s b \<longleftrightarrow> (case map_of (v_bindings s) b of None \<Rightarrow> True | Some x \<Rightarrow> ob_closed x)"

definition stream_violation :: "v2_server \<Rightarrow> nat \<Rightarrow> string \<Rightarrow> json" where
  "stream_violation s b kind =
     runtime_outcome [(''kind'', JStr kind),
       (''capability'', JStr (case map_of (v_bindings s) b of None \<Rightarrow> [] | Some x \<Rightarrow> ob_capability x))]"

text \<open>The call limit is the one of the session the stream was opened in.\<close>

definition outbound_full :: "v2_server \<Rightarrow> nat \<Rightarrow> bool" where
  "outbound_full s b \<longleftrightarrow> (case map_of (v_bindings s) b of None \<Rightarrow> True | Some x \<Rightarrow> v_activeOutboundCalls s \<ge> ob_maxCalls x)"

definition outbound_action :: "v2_server \<Rightarrow> nat \<Rightarrow> bool \<Rightarrow> v2_output \<times> v2_server" where
  "outbound_action s b is_send =
     (let cid = outbound_id s; s' = take_outbound_id s in
      if binding_closed s' b then (UserResult (Inr (stream_violation s' b ''protocol_violation'')), s')
      else if outbound_full s' b then (UserResult (Inr (stream_violation s' b ''resource_exhausted'')), s')
      else (NoOutput, suspend (KAction b cid is_send) (begin_outbound s')))"

definition outbound_receive :: "v2_server \<Rightarrow> nat \<Rightarrow> v2_output \<times> v2_server" where
  "outbound_receive s b =
     (if binding_closed s b then (UserResult (Inr (stream_violation s b ''protocol_violation'')), s)
      else if outbound_full s b then (UserResult (Inr (stream_violation s b ''resource_exhausted'')), s)
      else (NoOutput, suspend (KReceiveOut b (outbound_id s)) (take_outbound_id (begin_outbound s))))"

definition outbound_cancel :: "nat \<Rightarrow> v2_server \<Rightarrow> v2_server" where
  "outbound_cancel b s =
     (if binding_closed s b then s else suspend KVoid (take_outbound_id (finish_binding b s)))"

section \<open>Stop\<close>

definition stop_result :: "lifecycle_params \<Rightarrow> string \<Rightarrow> thrown option \<Rightarrow> json" where
  "stop_result params hook diagnostic =
     JObj [(''session'', JStr (lp_session params)), (''cleanup_scope_id'', JStr (lp_scope_id params)), (''hook'', JStr hook),
       (''diagnostics'', JArr (case diagnostic of
          None \<Rightarrow> []
        | Some e \<Rightarrow> [JObj [(''code'', JStr ''plugin_stop_failed''), (''detail'', JStr (boundedErrorV2 e))]]))]"

definition cancel_outbound_streams :: "v2_server \<Rightarrow> v2_server" where
  "cancel_outbound_streams s = (foldl (\<lambda>t b. outbound_cancel b t) s (map snd (v_outboundStreams s)))\<lparr>v_outboundStreams := []\<rparr>"

definition cancel_inbound_streams :: "v2_server \<Rightarrow> v2_server" where
  "cancel_inbound_streams s = foldl (\<lambda>t sid. end_stream sid t) s (map fst (v_streams s))"

definition stop_v2 :: "v2_config \<Rightarrow> v2_server \<Rightarrow> rpc_handle \<Rightarrow> lifecycle_params \<Rightarrow> v2_output \<times> v2_server" where
  "stop_v2 cfg s h params =
     (if v_stopAttempted s then (reply h (Inl (ErrorObject ''Bun Plugin stopped more than once'')), s)
      else
        let s1 = s\<lparr>v_stopAttempted := True\<rparr> in
        if v_active s1 \<noteq> [] \<or> v_activeOutboundCalls s1 > 0
        then (reply h (Inl (ErrorObject ''Bun Plugin stopped with unfinished work'')), s1)
        else
          let s2 = cancel_inbound_streams (cancel_outbound_streams s1) in
          if \<not> v_instance s2 then (reply h (Inl (ErrorObject ''Bun Plugin stopped before construction'')), s2)
          else if def_stop (vc_definition cfg)
          then (case new_context (lifecycle_scope params) s2 of (ctx, s3) \<Rightarrow> (NoOutput, suspend (KStop h params ctx) s3))
          else (reply h (Inr (stop_result params ''not_declared'' None)), s2\<lparr>v_finish := True\<rparr>))"

definition stop_finish :: "v2_server \<Rightarrow> rpc_handle \<Rightarrow> lifecycle_params \<Rightarrow> nat \<Rightarrow> thrown option \<Rightarrow> v2_output \<times> v2_server" where
  "stop_finish s h params ctx failure =
     (reply h (Inr (stop_result params (if failure = None then ''completed'' else ''failed'') failure)),
      (drop_context ctx s)\<lparr>v_finish := True\<rparr>)"

section \<open>Callbacks\<close>

datatype callback_reply =
    CallbackRejected thrown
  | CallbackStatus nat
  | CallbackBody json

definition callback_result :: "callback_reply \<Rightarrow> thrown + json option" where
  "callback_result r =
     (case r of
        CallbackRejected e \<Rightarrow> Inl e
      | CallbackStatus n \<Rightarrow> Inl (ErrorObject (''Host callback returned HTTP '' @ show_int (int n)))
      | CallbackBody body \<Rightarrow>
          if body = JNull then Inl js_type_error
          else (case field body ''error'' of
              None \<Rightarrow> Inr (field body ''result'')
            | Some JNull \<Rightarrow> Inl js_type_error
            | Some e \<Rightarrow>
                (case field e ''message'' of
                   Some (JStr m) \<Rightarrow> Inl (ErrorObject m)
                 | Some v \<Rightarrow> if v = JNull then Inl (ErrorObject ''Host callback failed'') else Inl (ErrorObject (js_string v))
                 | None \<Rightarrow> Inl (ErrorObject ''Host callback failed''))))"

definition outcome_of :: "json option \<Rightarrow> json" where
  "outcome_of r = (case ofield r ''outcome'' of Some v \<Rightarrow> v | None \<Rightarrow> JNull)"

definition outcome_kind :: "json option \<Rightarrow> string" where
  "outcome_kind r = text_of (field (outcome_of r) ''kind'')"

definition checked_result :: "v2_config \<Rightarrow> string \<Rightarrow> string \<Rightarrow> callback_reply \<Rightarrow> thrown + json option" where
  "checked_result cfg kind cid r =
     bind_result (callback_result r) (\<lambda>v.
       case ap_valid_result (vc_protocol cfg) kind cid v of Some e \<Rightarrow> Inl e | None \<Rightarrow> Inr v)"

definition new_binding :: "string \<Rightarrow> string \<Rightarrow> int \<Rightarrow> v2_server \<Rightarrow> v2_server" where
  "new_binding sid capability maxCalls s =
     s\<lparr>v_bindings := v_bindings s @ [(v_next s, \<lparr>ob_stream = sid, ob_capability = capability, ob_maxCalls = maxCalls, ob_nextSend = 0, ob_closed = False\<rparr>)],
       v_outboundStreams := AList.update sid (v_next s) (v_outboundStreams s), v_next := Suc (v_next s)\<rparr>"

definition stream_opened :: "v2_server \<Rightarrow> string \<Rightarrow> int \<Rightarrow> json option \<Rightarrow> v2_output \<times> v2_server" where
  "stream_opened s capability maxCalls v =
     (if outcome_kind v = ''domain''
      then (UserResult (Inr (JObj ((''kind'', JStr ''domain'') # optional_field ''value'' (field (outcome_of v) ''error'')))), s)
      else if outcome_kind v = ''runtime'' then (UserResult (Inr (outcome_of v)), s)
      else (UserResult (Inr (JObj [(''kind'', JStr ''opened'')])),
            new_binding (text_of (field (outcome_of v) ''stream_id'')) capability maxCalls s))"

definition action_answered :: "v2_server \<Rightarrow> nat \<Rightarrow> bool \<Rightarrow> json option \<Rightarrow> v2_output \<times> v2_server" where
  "action_answered s b is_send v =
     (UserResult (Inr (outcome_of v)),
      if outcome_kind v = ''runtime'' then finish_binding b s
      else if is_send \<and> outcome_kind v = ''accepted'' then set_binding b (\<lambda>x. x\<lparr>ob_nextSend := Suc (ob_nextSend x)\<rparr>) s
      else s)"

definition receive_answered :: "v2_server \<Rightarrow> nat \<Rightarrow> json option \<Rightarrow> v2_output \<times> v2_server" where
  "receive_answered s b v =
     (let inner = field (outcome_of v) ''outcome'' in
      if outcome_kind v = ''message''
      then (UserResult (Inr (JObj ((''kind'', JStr ''message'') # optional_field ''value'' (field (outcome_of v) ''message'')))), s)
      else if outcome_kind v = ''peer_half_closed'' then (UserResult (Inr (JObj [(''kind'', JStr ''peer_half_closed'')])), s)
      else if outcome_kind v = ''terminal''
      then (UserResult (Inr (if text_of (ofield inner ''kind'') = ''success'' then JObj [(''kind'', JStr ''terminal_success'')]
              else JObj ((''kind'', JStr ''terminal_domain'') # optional_field ''value'' (ofield inner ''error'')))),
            finish_binding b s)
      else (UserResult (Inr (outcome_of v)), finish_binding b s))"

text \<open>A call that has been counted is uncounted in every case (\<open>finally\<close>), after its effects.\<close>

definition outbound_done ::
  "v2_server \<Rightarrow> thrown + json option \<Rightarrow> (v2_server \<Rightarrow> json option \<Rightarrow> v2_output \<times> v2_server) \<Rightarrow> v2_output \<times> v2_server" where
  "outbound_done s result k =
     (case result of
        Inl e \<Rightarrow> (UserResult (Inl e), end_outbound s)
      | Inr v \<Rightarrow> (case k s v of (out, s') \<Rightarrow> (out, end_outbound s')))"

definition callback_done :: "v2_config \<Rightarrow> v2_server \<Rightarrow> v2_cont \<Rightarrow> callback_reply \<Rightarrow> v2_output \<times> v2_server" where
  "callback_done cfg s k r =
     (case k of
        KSettled h _ result \<Rightarrow>
          (case callback_result r of Inl e \<Rightarrow> (reply h (Inl e), s) | Inr _ \<Rightarrow> (reply h (Inr result), s))
      | KCall cid \<Rightarrow>
          outbound_done s (checked_result cfg ''result'' cid r) (\<lambda>t v. (UserResult (Inr (fromWireOutcome (outcome_of v))), t))
      | KEventOut cid \<Rightarrow>
          outbound_done s (checked_result cfg ''event_publish_result'' cid r) (\<lambda>t v. (UserResult (Inr (outcome_of v)), t))
      | KStreamOpen cid capability maxCalls \<Rightarrow>
          outbound_done s (checked_result cfg ''stream_open_result'' cid r) (\<lambda>t v. stream_opened t capability maxCalls v)
      | KAction b cid is_send \<Rightarrow>
          outbound_done s (checked_result cfg ''stream_action_result'' cid r) (\<lambda>t v. action_answered t b is_send v)
      | KReceiveOut b cid \<Rightarrow>
          outbound_done s (checked_result cfg ''stream_receive_result'' cid r) (\<lambda>t v. receive_answered t b v)
      | _ \<Rightarrow> (NoOutput, s))"

fun is_callback :: "v2_cont \<Rightarrow> bool" where
  "is_callback (KSettled _ _ _) = True"
| "is_callback (KCall _) = True"
| "is_callback (KEventOut _) = True"
| "is_callback (KStreamOpen _ _ _) = True"
| "is_callback (KAction _ _ _) = True"
| "is_callback (KReceiveOut _ _) = True"
| "is_callback KVoid = True"
| "is_callback _ = False"

section \<open>Dispatch and step\<close>

definition with_initialize ::
  "v2_server \<Rightarrow> rpc_handle \<Rightarrow> (initialize_params \<Rightarrow> v2_output \<times> v2_server) \<Rightarrow> v2_output \<times> v2_server" where
  "with_initialize s h k =
     (case v_initialize s of
        None \<Rightarrow> (reply h (Inl (ErrorObject ''Bun Plugin is not initialized'')), s)
      | Some initialize \<Rightarrow> k initialize)"

definition with_params ::
  "v2_server \<Rightarrow> rpc_handle \<Rightarrow> (initialize_params \<Rightarrow> thrown + 'p) \<Rightarrow> ('p \<Rightarrow> v2_output \<times> v2_server) \<Rightarrow> v2_output \<times> v2_server" where
  "with_params s h validate k =
     with_initialize s h (\<lambda>initialize. case validate initialize of Inl e \<Rightarrow> (reply h (Inl e), s) | Inr params \<Rightarrow> k params)"

definition dispatch :: "v2_config \<Rightarrow> v2_server \<Rightarrow> rpc_handle \<Rightarrow> string \<Rightarrow> json \<Rightarrow> v2_output \<times> v2_server" where
  "dispatch cfg s h meth params =
     (let proto = vc_protocol cfg in
      if meth = ''lenso.initialize'' then initializeSession cfg s h params
      else if meth = ''lenso.construct'' then with_initialize s h (\<lambda>i. construct cfg s h i params)
      else if meth = ''lenso.invoke'' then with_initialize s h (\<lambda>i. invoke cfg s h i params)
      else if meth = ''lenso.event.publish'' then with_initialize s h (\<lambda>i. publishEvent cfg s h i params)
      else if meth = ''lenso.stream.open'' then with_initialize s h (\<lambda>i. openStream cfg s h i params)
      else if meth = ''lenso.stream.send''
      then with_params s h (\<lambda>i. ap_stream_action proto i ''stream_send'' params) (sendStream s h)
      else if meth = ''lenso.stream.receive''
      then with_params s h (\<lambda>i. ap_stream_action proto i ''stream_receive'' params) (receiveStream s h)
      else if meth = ''lenso.stream.close_send''
      then with_params s h (\<lambda>i. ap_stream_action proto i ''stream_close_send'' params) (closeStreamSend s h)
      else if meth = ''lenso.stream.cancel''
      then with_params s h (\<lambda>i. ap_stream_action proto i ''stream_cancel'' params) (cancelStream s h)
      else if meth = ''lenso.cancel'' then with_params s h (\<lambda>i. ap_cancel proto i params) (cancel_v2 s h)
      else if meth = ''lenso.stop'' then with_params s h (\<lambda>i. ap_stop proto i params) (stop_v2 cfg s h)
      else (reply h (Inl (ErrorObject (''unknown Bun Authoring method '' @ meth))), s))"

definition frame_limit :: "v2_server \<Rightarrow> int" where
  "frame_limit s = (case v_initialize s of None \<Rightarrow> 1048576 | Some i \<Rightarrow> max_frame_bytes (in_limits i))"

definition handle_rpc ::
  "v2_config \<Rightarrow> (string \<Rightarrow> json option) \<Rightarrow> v2_server \<Rightarrow> int \<Rightarrow> string \<Rightarrow> v2_output \<times> v2_server" where
  "handle_rpc cfg parse s limit bytes =
     (if int (length bytes) > limit then (HttpReply (Response 413 []), s)
      else case parse (text_decode bytes) of
        None \<Rightarrow> (reply \<lparr>rh_id = Some JNull, rh_limit = limit\<rparr> (Inl (ErrorObject ''SyntaxError'')), s)
      | Some rpc \<Rightarrow>
          if rpc = JNull then (reply \<lparr>rh_id = Some JNull, rh_limit = limit\<rparr> (Inl js_type_error), s)
          else
            let h = \<lparr>rh_id = field rpc ''id'', rh_limit = limit\<rparr>;
                params = (case field rpc ''params'' of Some (JArr [p]) \<Rightarrow> p | Some p \<Rightarrow> p | None \<Rightarrow> JNull)
            in if field rpc ''jsonrpc'' \<noteq> Some (JStr ''2.0'') \<or> rh_id h = None \<or> \<not> is_text (field rpc ''method'')
               then (reply h (Inl (ErrorObject ''invalid JSON-RPC request'')), s)
               else dispatch cfg s h (text_of (field rpc ''method'')) params)"

datatype v2_event =
    V2Arrive string
  | V2Body nat string
  | ProofVerified nat string
  | ChildProofDone nat
  | ConstructDone nat "thrown + bool"
  | InvokeDone nat "thrown + dispatch_outcome"
  | EventDone nat "thrown + action_result"
  | OpenDone nat "thrown + open_result"
  | SendDone nat "thrown + action_result"
  | ReceiveDone nat "thrown + receive_result"
  | CloseDone nat "thrown + action_result"
  | StopDone nat "thrown option"
  | CallbackProved nat
  | CallbackDone nat callback_reply
  | UserOutbound outbound_kind nat string route_descriptor string
  | UserSend nat
  | UserReceive nat
  | UserCloseSend nat
  | UserCancel nat

text \<open>An event that is not enabled changes nothing.\<close>

fun v2_step :: "v2_config \<Rightarrow> (string \<Rightarrow> json option) \<Rightarrow> v2_server \<Rightarrow> v2_event \<Rightarrow> v2_output \<times> v2_server" where
  "v2_step cfg parse s (V2Arrive meth) =
     (if meth \<noteq> ''POST'' then (HttpReply (Response 405 []), s)
      else (NoOutput, s\<lparr>v_reading := v_reading s @ [(v_next s, frame_limit s)], v_next := Suc (v_next s)\<rparr>))"
| "v2_step cfg parse s (V2Body tok bytes) =
     (case map_of (v_reading s) tok of
        None \<Rightarrow> (NoOutput, s)
      | Some limit \<Rightarrow> handle_rpc cfg parse (s\<lparr>v_reading := AList.delete tok (v_reading s)\<rparr>) limit bytes)"
| "v2_step cfg parse s (ProofVerified tok random) =
     (case map_of (v_pending s) tok of
        Some (KVerify h request) \<Rightarrow> proof_verified cfg (resume tok s) h request random
      | _ \<Rightarrow> (NoOutput, s))"
| "v2_step cfg parse s (ChildProofDone tok) =
     (case map_of (v_pending s) tok of
        Some (KChildProof h result) \<Rightarrow> (reply h (Inr result), resume tok s)
      | _ \<Rightarrow> (NoOutput, s))"
| "v2_step cfg parse s (ConstructDone tok result) =
     (case map_of (v_pending s) tok of
        Some (KConstruct h initialize params ctx) \<Rightarrow> construct_finish cfg (resume tok s) h initialize params ctx result
      | _ \<Rightarrow> (NoOutput, s))"
| "v2_step cfg parse s (InvokeDone tok result) =
     (case map_of (v_pending s) tok of
        Some (KInvoke h params ctx) \<Rightarrow> invoke_finish (resume tok s) h params ctx result
      | _ \<Rightarrow> (NoOutput, s))"
| "v2_step cfg parse s (EventDone tok result) =
     (case map_of (v_pending s) tok of
        Some (KEvent h params ctx) \<Rightarrow> event_finish (resume tok s) h params ctx result
      | _ \<Rightarrow> (NoOutput, s))"
| "v2_step cfg parse s (OpenDone tok result) =
     (case map_of (v_pending s) tok of
        Some (KOpen h params ctx) \<Rightarrow> open_finish (resume tok s) h params ctx result
      | _ \<Rightarrow> (NoOutput, s))"
| "v2_step cfg parse s (SendDone tok result) =
     (case map_of (v_pending s) tok of
        Some (KSend h params) \<Rightarrow> send_finish (resume tok s) h params result
      | _ \<Rightarrow> (NoOutput, s))"
| "v2_step cfg parse s (ReceiveDone tok result) =
     (case map_of (v_pending s) tok of
        Some (KReceive h params) \<Rightarrow> receive_finish (resume tok s) h params result
      | _ \<Rightarrow> (NoOutput, s))"
| "v2_step cfg parse s (CloseDone tok result) =
     (case map_of (v_pending s) tok of
        Some (KClose h params) \<Rightarrow> close_finish (resume tok s) h params result
      | _ \<Rightarrow> (NoOutput, s))"
| "v2_step cfg parse s (StopDone tok failure) =
     (case map_of (v_pending s) tok of
        Some (KStop h params ctx) \<Rightarrow> stop_finish (resume tok s) h params ctx failure
      | _ \<Rightarrow> (NoOutput, s))"
| "v2_step cfg parse s (CallbackProved tok) =
     (case map_of (v_pending s) tok of
        Some k \<Rightarrow>
          if is_callback k \<and> \<not> map_has (v_posted s) tok
          then (NoOutput, s\<lparr>v_posted := AList.update tok (v_nextCallbackId s) (v_posted s), v_nextCallbackId := Suc (v_nextCallbackId s)\<rparr>)
          else (NoOutput, s)
      | None \<Rightarrow> (NoOutput, s))"
| "v2_step cfg parse s (CallbackDone tok r) =
     (case map_of (v_pending s) tok of
        Some k \<Rightarrow>
          if is_callback k \<and> map_has (v_posted s) tok then callback_done cfg (resume tok s) k r else (NoOutput, s)
      | None \<Rightarrow> (NoOutput, s))"
| "v2_step cfg parse s (UserOutbound kind ctx requestId route oper) = client_call s kind ctx requestId route oper"
| "v2_step cfg parse s (UserSend b) = outbound_action s b True"
| "v2_step cfg parse s (UserReceive b) = outbound_receive s b"
| "v2_step cfg parse s (UserCloseSend b) = outbound_action s b False"
| "v2_step cfg parse s (UserCancel b) = (NoOutput, outbound_cancel b s)"

definition next_v2 :: "v2_config \<Rightarrow> (string \<Rightarrow> json option) \<Rightarrow> v2_server \<Rightarrow> v2_event \<Rightarrow> v2_server" where
  "next_v2 cfg parse s e = snd (v2_step cfg parse s e)"

end
