(* ===== verification/Authoring_Spec.thy ===== *)
theory Authoring_Spec
  imports Authoring_Session "HOL-Library.Multiset"
begin

text \<open>
  The abstract specification of an Authoring V2 session: what the Host may rely on, without tokens,
  replies, contexts and messages. A session is the admitted initialization, the multiset of calls
  that are being awaited, the ledger of correlation identities, the counters and the lifecycle
  flags; \<open>move\<close> lists the ways in which it may change. The invariants of the server are
  proved here by rule induction; \<open>Authoring_Refinement\<close> shows that every step of the server is
  a move.
\<close>

section \<open>Sessions and moves\<close>

record session =
  s_init :: "initialize_params option"
  s_waits :: "v2_cont multiset"
  s_active :: "string list"
  s_retired :: "string list"
  s_calls :: int
  s_events :: int
  s_streams :: nat
  s_outstreams :: nat
  s_bounds :: "int set"
  s_attempted :: bool
  s_instance :: bool
  s_stopped :: bool
  s_finish :: bool

text \<open>The roles of an awaited call.\<close>

fun work_id :: "v2_cont \<Rightarrow> string option" where
  "work_id (KInvoke _ p _) = Some (wp_correlation_id p)"
| "work_id (KOpen _ p _) = Some (wp_correlation_id p)"
| "work_id _ = None"

fun is_open :: "v2_cont \<Rightarrow> bool" where
  "is_open (KOpen _ _ _) = True"
| "is_open _ = False"

fun is_event :: "v2_cont \<Rightarrow> bool" where
  "is_event (KEvent _ _ _) = True"
| "is_event _ = False"

fun is_call :: "v2_cont \<Rightarrow> bool" where
  "is_call (KCall _) = True"
| "is_call (KEventOut _) = True"
| "is_call (KStreamOpen _ _ _) = True"
| "is_call (KAction _ _ _) = True"
| "is_call (KReceiveOut _ _) = True"
| "is_call _ = False"

fun is_stream_call :: "v2_cont \<Rightarrow> bool" where
  "is_stream_call (KStreamOpen _ _ _) = True"
| "is_stream_call _ = False"

fun is_verify :: "v2_cont \<Rightarrow> bool" where
  "is_verify (KVerify _ _) = True"
| "is_verify _ = False"

fun is_construct :: "v2_cont \<Rightarrow> bool" where
  "is_construct (KConstruct _ _ _ _) = True"
| "is_construct _ = False"

fun is_stop :: "v2_cont \<Rightarrow> bool" where
  "is_stop (KStop _ _ _) = True"
| "is_stop _ = False"

fun is_passive :: "v2_cont \<Rightarrow> bool" where
  "is_passive (KChildProof _ _) = True"
| "is_passive (KSend _ _) = True"
| "is_passive (KReceive _ _) = True"
| "is_passive (KClose _ _) = True"
| "is_passive (KSettled _ _ _) = True"
| "is_passive KVoid = True"
| "is_passive _ = False"

text \<open>The guard of \<open>#invoke\<close> and \<open>#openStream\<close> for a fresh identity.\<close>

definition may_admit :: "session \<Rightarrow> string \<Rightarrow> bool \<Rightarrow> bool" where
  "may_admit s i opn \<longleftrightarrow>
     (case s_init s of
        None \<Rightarrow> False
      | Some initialize \<Rightarrow>
          s_instance s \<and> i \<notin> set (s_active s) \<and> i \<notin> set (s_retired s) \<and>
          int (length (s_retired s)) < max_retired_ids (in_limits initialize) \<and>
          int (length (s_active s)) < max_active_invocations (in_limits initialize) \<and>
          (opn \<longrightarrow> int (s_streams s) < max_unfinished_executions (in_limits initialize)))"

text \<open>The guard of a call to the Host: a free slot, for an opened stream by its own session's limit.\<close>

definition may_call :: "session \<Rightarrow> v2_cont \<Rightarrow> bool" where
  "may_call s k \<longleftrightarrow> s_attempted s \<and>
     ((\<exists>b \<in> s_bounds s. \<not> is_stream_call k \<and> s_calls s < b) \<or>
      (\<exists>initialize. s_init s = Some initialize \<and> s_calls s < max_active_outbound_calls (in_limits initialize) \<and>
         (\<forall>cid c m. k = KStreamOpen cid c m \<longrightarrow>
            int (s_outstreams s) < max_unfinished_executions (in_limits initialize) \<and>
            m = max_active_outbound_calls (in_limits initialize))))"

text \<open>An initialization is checked when it arrives and again when its proof has been computed.\<close>

datatype screening = Arrived | Proved

inductive move :: "(screening \<Rightarrow> initialize_request \<Rightarrow> bool) \<Rightarrow> session \<Rightarrow> session \<Rightarrow> bool"
  for auth :: "screening \<Rightarrow> initialize_request \<Rightarrow> bool" where
  Stay: "move auth s s"
| Wait: "is_passive k \<Longrightarrow> n \<le> s_outstreams s \<Longrightarrow>
    move auth s (s\<lparr>s_waits := add_mset k (s_waits s), s_outstreams := n\<rparr>)"
| Wake: "k \<in># s_waits s \<Longrightarrow> is_passive k \<Longrightarrow> n \<le> s_streams s \<Longrightarrow>
    move auth s (s\<lparr>s_waits := s_waits s - {#k#}, s_streams := n\<rparr>)"
| End_Stream: "n \<le> s_streams s \<Longrightarrow> move auth s (s\<lparr>s_streams := n\<rparr>)"
| Verify: "s_init s = None \<Longrightarrow> auth Arrived r \<Longrightarrow> move auth s (s\<lparr>s_waits := add_mset (KVerify h r) (s_waits s)\<rparr>)"
| Reject: "k \<in># s_waits s \<Longrightarrow> is_verify k \<Longrightarrow> move auth s (s\<lparr>s_waits := s_waits s - {#k#}\<rparr>)"
| Initialize: "KVerify h r \<in># s_waits s \<Longrightarrow> auth Proved r \<Longrightarrow>
    move auth s (s\<lparr>s_init := Some (ir_initialize r), s_waits := add_mset (KChildProof h v) (s_waits s - {#KVerify h r#})\<rparr>)"
| Construct: "\<not> s_attempted s \<Longrightarrow> s_init s = Some i \<Longrightarrow>
    move auth s (s\<lparr>s_attempted := True, s_waits := add_mset (KConstruct h i params ctx) (s_waits s)\<rparr>)"
| Construct_Now: "\<not> s_attempted s \<Longrightarrow> s_init s = Some i \<Longrightarrow>
    move auth s (s\<lparr>s_attempted := True, s_instance := s_instance s \<or> b\<rparr>)"
| Constructed: "k \<in># s_waits s \<Longrightarrow> is_construct k \<Longrightarrow>
    move auth s (s\<lparr>s_waits := s_waits s - {#k#}, s_instance := s_instance s \<or> b\<rparr>)"
| Admit: "work_id k = Some i \<Longrightarrow> may_admit s i (is_open k) \<Longrightarrow>
    move auth s (s\<lparr>s_waits := add_mset k (s_waits s), s_active := s_active s @ [i]\<rparr>)"
| Refuse: "may_admit s i opn \<Longrightarrow> is_passive k \<Longrightarrow>
    move auth s (s\<lparr>s_waits := add_mset k (s_waits s), s_retired := set_add i (s_retired s)\<rparr>)"
| Settle: "k \<in># s_waits s \<Longrightarrow> work_id k = Some i \<Longrightarrow> is_passive k' \<Longrightarrow> n \<le> s_streams s + (if is_open k then 1 else 0) \<Longrightarrow>
    move auth s (s\<lparr>s_waits := add_mset k' (s_waits s - {#k#}), s_active := set_delete i (s_active s),
      s_retired := set_add i (s_retired s), s_streams := n\<rparr>)"
| Publish: "s_init s = Some i \<Longrightarrow> s_instance s \<Longrightarrow> is_event k \<Longrightarrow> s_events s < max_queued_calls (in_limits i) \<Longrightarrow>
    move auth s (s\<lparr>s_waits := add_mset k (s_waits s), s_events := s_events s + 1\<rparr>)"
| Published: "k \<in># s_waits s \<Longrightarrow> is_event k \<Longrightarrow>
    move auth s (s\<lparr>s_waits := s_waits s - {#k#}, s_events := s_events s - 1\<rparr>)"
| Call: "is_call k \<Longrightarrow> may_call s k \<Longrightarrow>
    move auth s (s\<lparr>s_waits := add_mset k (s_waits s), s_calls := s_calls s + 1\<rparr>)"
| Return: "k \<in># s_waits s \<Longrightarrow> is_call k \<Longrightarrow> n \<le> s_outstreams s \<Longrightarrow>
    move auth s (s\<lparr>s_waits := s_waits s - {#k#}, s_calls := s_calls s - 1, s_outstreams := n\<rparr>)"
| Opened_Out: "KStreamOpen cid c m \<in># s_waits s \<Longrightarrow> n \<le> Suc (s_outstreams s) \<Longrightarrow>
    move auth s (s\<lparr>s_waits := s_waits s - {#KStreamOpen cid c m#}, s_calls := s_calls s - 1, s_outstreams := n,
      s_bounds := insert m (s_bounds s)\<rparr>)"
| Stop: "\<not> s_stopped s \<Longrightarrow> set_mset voids \<subseteq> {KVoid} \<Longrightarrow> n \<le> s_streams s \<Longrightarrow> m \<le> s_outstreams s \<Longrightarrow>
    hook = {#} \<and> \<not> fin \<or> s_active s = [] \<and> s_calls s \<le> 0 \<and> s_instance s \<and> (hook = {#} \<or> hook = {#KStop h p ctx#} \<and> \<not> fin) \<Longrightarrow>
    move auth s (s\<lparr>s_stopped := True, s_waits := s_waits s + voids + hook, s_streams := n, s_outstreams := m,
      s_finish := s_finish s \<or> fin\<rparr>)"
| Stopped: "k \<in># s_waits s \<Longrightarrow> is_stop k \<Longrightarrow> move auth s (s\<lparr>s_waits := s_waits s - {#k#}, s_finish := True\<rparr>)"

definition initial_session :: session where
  "initial_session = \<lparr>s_init = None, s_waits = {#}, s_active = [], s_retired = [], s_calls = 0, s_events = 0, s_streams = 0,
     s_outstreams = 0, s_bounds = {}, s_attempted = False, s_instance = False, s_stopped = False, s_finish = False\<rparr>"

section \<open>Accounting\<close>

definition work_of :: "v2_cont multiset \<Rightarrow> string multiset" where
  "work_of w = image_mset (the \<circ> work_id) (filter_mset (\<lambda>k. work_id k \<noteq> None) w)"

definition number :: "(v2_cont \<Rightarrow> bool) \<Rightarrow> v2_cont multiset \<Rightarrow> int" where
  "number P w = int (size (filter_mset P w))"

text \<open>The ledger, the counters and the lifecycle flags agree with the calls being awaited.\<close>

definition balanced :: "session \<Rightarrow> bool" where
  "balanced s \<longleftrightarrow>
     mset (s_active s) = work_of (s_waits s) \<and> distinct (s_active s) \<and> distinct (s_retired s) \<and>
     set (s_active s) \<inter> set (s_retired s) = {} \<and>
     s_calls s = number is_call (s_waits s) \<and> s_events s = number is_event (s_waits s)"

definition staged :: "session \<Rightarrow> bool" where
  "staged s \<longleftrightarrow>
     number is_construct (s_waits s) \<le> (if s_attempted s then 1 else 0) \<and>
     number is_stop (s_waits s) \<le> (if s_stopped s then 1 else 0) \<and>
     (s_finish s \<longrightarrow> s_stopped s \<and> number is_stop (s_waits s) = 0) \<and>
     (s_attempted s \<longrightarrow> s_init s \<noteq> None) \<and>
     (s_instance s \<longrightarrow> s_attempted s \<and> number is_construct (s_waits s) = 0) \<and>
     (\<not> s_attempted s \<longrightarrow> s_active s = [] \<and> s_retired s = [] \<and> s_bounds s = {} \<and> s_streams s = 0 \<and> s_outstreams s = 0 \<and>
        number is_call (s_waits s) = 0 \<and> number is_event (s_waits s) = 0 \<and> number is_open (s_waits s) = 0)"

lemma number_add [simp]: "number P (add_mset k w) = (if P k then 1 else 0) + number P w"
  by (simp add: number_def)

lemma number_plus [simp]: "number P (v + w) = number P v + number P w"
  by (simp add: number_def)

lemma number_empty [simp]: "number P {#} = 0"
  by (simp add: number_def)

lemma number_nonneg [simp]: "0 \<le> number P w"
  by (simp add: number_def)

lemma number_le_0 [simp]: "number P w \<le> 0 \<longleftrightarrow> number P w = 0"
  by (simp add: number_def)

lemma number_remove [simp]: "k \<in># w \<Longrightarrow> number P (w - {#k#}) = number P w - (if P k then 1 else 0)"
  by (auto simp: number_def size_Diff_singleton dest!: multi_member_split)

lemma number_voids: "set_mset voids \<subseteq> {KVoid} \<Longrightarrow> \<not> P KVoid \<Longrightarrow> number P voids = 0"
  by (auto simp: number_def filter_mset_eq_conv)

lemma number_pos: "k \<in># w \<Longrightarrow> P k \<Longrightarrow> 1 \<le> number P w"
  by (auto simp: number_def dest!: multi_member_split)

lemma work_of_add [simp]:
  "work_of (add_mset k w) = (case work_id k of None \<Rightarrow> work_of w | Some i \<Rightarrow> add_mset i (work_of w))"
  by (simp add: work_of_def split: option.split)

lemma work_of_remove [simp]:
  "k \<in># w \<Longrightarrow> work_of (w - {#k#}) = (case work_id k of None \<Rightarrow> work_of w | Some i \<Rightarrow> work_of w - {#i#})"
  by (auto simp: work_of_def dest!: multi_member_split split: option.split)

lemma work_of_voids: "set_mset voids \<subseteq> {KVoid} \<Longrightarrow> work_of (w + voids) = work_of w"
  by (auto simp: work_of_def filter_mset_eq_conv)

text \<open>A call has one role.\<close>

lemma passive_role:
  "is_passive k \<Longrightarrow> work_id k = None \<and> \<not> is_open k \<and> \<not> is_event k \<and> \<not> is_call k \<and> \<not> is_verify k \<and> \<not> is_construct k \<and>
   \<not> is_stop k \<and> \<not> is_stream_call k"
  by (cases k) simp_all

lemma call_role:
  "is_call k \<Longrightarrow> work_id k = None \<and> is_call k = True \<and> \<not> is_open k \<and> \<not> is_event k \<and> \<not> is_verify k \<and> \<not> is_construct k \<and> \<not> is_stop k"
  by (cases k) simp_all

lemma event_role:
  "is_event k \<Longrightarrow> work_id k = None \<and> is_event k = True \<and> \<not> is_open k \<and> \<not> is_call k \<and> \<not> is_verify k \<and> \<not> is_construct k \<and>
   \<not> is_stop k \<and> \<not> is_stream_call k"
  by (cases k) simp_all

lemma construct_role:
  "is_construct k \<Longrightarrow> work_id k = None \<and> is_construct k = True \<and> \<not> is_open k \<and> \<not> is_event k \<and> \<not> is_call k \<and> \<not> is_verify k \<and>
   \<not> is_stop k \<and> \<not> is_stream_call k"
  by (cases k) simp_all

lemma stop_role:
  "is_stop k \<Longrightarrow> work_id k = None \<and> is_stop k = True \<and> \<not> is_open k \<and> \<not> is_event k \<and> \<not> is_call k \<and> \<not> is_verify k \<and>
   \<not> is_construct k \<and> \<not> is_stream_call k"
  by (cases k) simp_all

lemma verify_role:
  "is_verify k \<Longrightarrow> work_id k = None \<and> is_verify k = True \<and> \<not> is_open k \<and> \<not> is_event k \<and> \<not> is_call k \<and> \<not> is_construct k \<and>
   \<not> is_stop k \<and> \<not> is_stream_call k"
  by (cases k) simp_all

lemma work_role:
  "work_id k = Some i \<Longrightarrow> work_id k = Some i \<and> \<not> is_event k \<and> \<not> is_call k \<and> \<not> is_verify k \<and> \<not> is_construct k \<and>
   \<not> is_stop k \<and> \<not> is_stream_call k"
  by (cases k) simp_all

lemma mset_set_delete: "distinct xs \<Longrightarrow> mset (set_delete x xs) = mset xs - {#x#}"
  by (induction xs) (auto simp: set_delete_def filter_id_conv)

lemma work_member: "k \<in># w \<Longrightarrow> work_id k = Some i \<Longrightarrow> i \<in># work_of w"
proof -
  assume "k \<in># w" and "work_id k = Some i"
  then obtain v where "w = add_mset k v" by (auto dest: multi_member_split)
  then show ?thesis using \<open>work_id k = Some i\<close> by simp
qed

lemma balanced_move: "move auth s t \<Longrightarrow> balanced s \<Longrightarrow> balanced t"
proof (induction rule: move.induct)
  case (Wait k n s)
  from passive_role [OF Wait(1)] Wait show ?case by (simp add: balanced_def)
next
  case (Wake k s n)
  from passive_role [OF Wake(2)] Wake show ?case by (simp add: balanced_def)
next
  case (Reject k s)
  from verify_role [OF Reject(2)] Reject show ?case by (simp add: balanced_def)
next
  case (Constructed k s b)
  from construct_role [OF Constructed(2)] Constructed show ?case by (simp add: balanced_def)
next
  case (Admit k i s)
  from work_role [OF Admit(1)] Admit show ?case
    by (auto simp: balanced_def may_admit_def split: option.splits)
next
  case (Refuse s i opn k)
  from passive_role [OF Refuse(2)] Refuse show ?case
    by (auto simp: balanced_def may_admit_def split: option.splits)
next
  case (Settle k s i k' n)
  have "i \<in> set (s_active s)"
    using work_member [OF Settle(1,2)] Settle(5) by (metis balanced_def set_mset_mset)
  with passive_role [OF Settle(3)] work_role [OF Settle(2)] Settle show ?case
    by (auto simp: balanced_def mset_set_delete)
next
  case (Publish s i k)
  from event_role [OF Publish(3)] Publish show ?case by (simp add: balanced_def)
next
  case (Published k s)
  from event_role [OF Published(2)] Published show ?case by (simp add: balanced_def)
next
  case (Call k s)
  from call_role [OF Call(1)] Call show ?case by (simp add: balanced_def)
next
  case (Return k s n)
  from call_role [OF Return(2)] Return show ?case by (simp add: balanced_def)
next
  case (Stop s voids n m hook fin h p ctx)
  then have "work_of (s_waits s + voids + hook) = work_of (s_waits s)" "number is_call (voids + hook) = 0"
    "number is_event (voids + hook) = 0"
    using number_voids [of voids] work_of_voids [of voids "s_waits s"] by auto
  then show ?case using Stop by (simp add: balanced_def)
next
  case (Stopped k s)
  from stop_role [OF Stopped(2)] Stopped show ?case by (simp add: balanced_def)
qed (auto simp: balanced_def)

section \<open>Lifecycle\<close>

lemma staged_move: "move auth s t \<Longrightarrow> balanced s \<Longrightarrow> staged s \<Longrightarrow> staged t"
proof (induction rule: move.induct)
  case (Wait k n s)
  from passive_role [OF Wait(1)] Wait show ?case by (auto simp: staged_def)
next
  case (Wake k s n)
  from passive_role [OF Wake(2)] Wake show ?case by (auto simp: staged_def)
next
  case (Reject k s)
  from verify_role [OF Reject(2)] Reject show ?case by (simp add: staged_def)
next
  case (Constructed k s b)
  from construct_role [OF Constructed(2)] number_pos [OF Constructed(1), of is_construct] Constructed show ?case
    by (auto simp: staged_def split: if_splits)
next
  case (Admit k i s)
  from work_role [OF Admit(1)] Admit show ?case
    by (auto simp: staged_def may_admit_def split: option.splits)
next
  case (Refuse s i opn k)
  from passive_role [OF Refuse(2)] Refuse show ?case
    by (auto simp: staged_def may_admit_def split: option.splits)
next
  case (Settle k s i k' n)
  have "s_attempted s"
    using work_member [OF Settle(1,2)] Settle(5,6) by (auto simp: balanced_def staged_def)
  with passive_role [OF Settle(3)] work_role [OF Settle(2)] Settle show ?case
    by (auto simp: staged_def)
next
  case (Publish s i k)
  from event_role [OF Publish(3)] Publish show ?case by (auto simp: staged_def)
next
  case (Published k s)
  from event_role [OF Published(2)] number_pos [OF Published(1), of is_event] Published show ?case by (auto simp: staged_def)
next
  case (Call k s)
  from call_role [OF Call(1)] Call show ?case by (auto simp: staged_def may_call_def)
next
  case (Return k s n)
  from call_role [OF Return(2)] number_pos [OF Return(1), of is_call] Return show ?case by (auto simp: staged_def)
next
  case (Opened_Out cid c m s n)
  have "1 \<le> number is_call (s_waits s)" using number_pos [OF Opened_Out(1), of is_call] by simp
  with Opened_Out show ?case by (auto simp: staged_def)
next
  case (Stop s voids n m hook fin h p ctx)
  have v: "number is_construct voids = 0" "number is_stop voids = 0" "number is_call voids = 0" "number is_event voids = 0"
    "number is_open voids = 0"
    using number_voids [OF Stop(2)] by simp_all
  from Stop v show ?case by (auto simp: staged_def)
next
  case (Stopped k s)
  from stop_role [OF Stopped(2)] number_pos [OF Stopped(1), of is_stop] Stopped show ?case
    by (auto simp: staged_def split: if_splits)
qed (auto simp: staged_def)

section \<open>Limits\<close>

text \<open>
  Once the session is initialized with no other verification under way it stays so, and its limits
  bound the work. A stream is counted when it is open, and the limit is checked when its opening
  starts: openings under way add to the bound.
\<close>

definition clamp :: "int \<Rightarrow> int" where
  "clamp n = max 0 n"

definition limited :: "initialize_params \<Rightarrow> session \<Rightarrow> bool" where
  "limited i s \<longleftrightarrow>
     s_init s = Some i \<and> number is_verify (s_waits s) = 0 \<and>
     s_bounds s \<subseteq> {max_active_outbound_calls (in_limits i)} \<and>
     (\<forall>cid c m. KStreamOpen cid c m \<in># s_waits s \<longrightarrow> m = max_active_outbound_calls (in_limits i)) \<and>
     int (length (s_active s)) \<le> clamp (max_active_invocations (in_limits i)) \<and>
     int (length (s_active s)) + int (length (s_retired s)) \<le>
       clamp (max_retired_ids (in_limits i) - 1) + clamp (max_active_invocations (in_limits i)) \<and>
     s_events s \<le> clamp (max_queued_calls (in_limits i)) \<and>
     s_calls s \<le> clamp (max_active_outbound_calls (in_limits i)) \<and>
     int (s_streams s) + number is_open (s_waits s) \<le>
       clamp (max_unfinished_executions (in_limits i) - 1) + clamp (max_active_invocations (in_limits i)) \<and>
     int (s_outstreams s) + number is_stream_call (s_waits s) \<le>
       clamp (max_unfinished_executions (in_limits i) - 1) + clamp (max_active_outbound_calls (in_limits i))"

lemma number_le: "(\<And>k. P k \<Longrightarrow> Q k) \<Longrightarrow> number P w \<le> number Q w"
  by (induction w) auto

lemma stream_calls_le: "number is_stream_call w \<le> number is_call w"
  by (rule number_le) (metis is_call.simps(3) is_stream_call.elims(2))

lemma opens_le: "balanced s \<Longrightarrow> number is_open (s_waits s) \<le> int (length (s_active s))"
proof -
  assume "balanced s"
  have "number is_open w \<le> int (size (work_of w))" for w
    by (induction w) (auto split: option.split elim: is_open.elims)
  then show ?thesis using \<open>balanced s\<close> by (metis balanced_def size_mset)
qed

lemma clamp_mono: "a \<le> b \<Longrightarrow> clamp a \<le> clamp b" and clamp_ge: "a \<le> clamp a" "0 \<le> clamp a"
  by (simp_all add: clamp_def)

lemma clamp_bump: "a < m \<Longrightarrow> a + 1 \<le> clamp m"
  by (simp add: clamp_def)

lemma set_delete_absent: "x \<notin> set xs \<Longrightarrow> set_delete x xs = xs"
  by (auto simp: set_delete_def filter_id_conv)

lemma length_set_delete_member: "distinct xs \<Longrightarrow> x \<in> set xs \<Longrightarrow> Suc (length (set_delete x xs)) = length xs"
proof (induction xs)
  case (Cons y ys)
  then show ?case using set_delete_absent [of x ys] by (auto simp: set_delete_def)
qed simp

lemma limited_move: "move auth s t \<Longrightarrow> balanced s \<Longrightarrow> limited i s \<Longrightarrow> limited i t"
proof (induction rule: move.induct)
  case (Wait k n s)
  from passive_role [OF Wait(1)] Wait show ?case by (auto simp: limited_def)
next
  case (Wake k s n)
  from passive_role [OF Wake(2)] Wake show ?case by (auto simp: limited_def dest: in_diffD)
next
  case (Reject k s)
  from verify_role [OF Reject(2)] number_pos [OF Reject(1), of is_verify] Reject show ?case by (simp add: limited_def)
next
  case (Initialize h r s v)
  from number_pos [OF Initialize(1), of is_verify] Initialize show ?case by (fastforce simp: limited_def)
next
  case (Constructed k s b)
  from construct_role [OF Constructed(2)] Constructed show ?case
    by (auto simp: limited_def dest: in_diffD)
next
  case (Admit k j s)
  from work_role [OF Admit(1)] opens_le [OF Admit(3)] Admit show ?case
    by (auto simp: limited_def may_admit_def clamp_def)
next
  case (Refuse s j opn k)
  from passive_role [OF Refuse(2)] Refuse show ?case
    by (auto simp: limited_def may_admit_def clamp_def collection_simps)
next
  case (Settle k s j k' n)
  have j: "j \<in> set (s_active s)"
    using work_member [OF Settle(1,2)] Settle(5) by (metis balanced_def set_mset_mset)
  have "Suc (length (set_delete j (s_active s))) = length (s_active s)"
    using Settle(5) j by (simp add: balanced_def length_set_delete_member)
  with passive_role [OF Settle(3)] work_role [OF Settle(2)] Settle show ?case
    by (auto simp: limited_def collection_simps dest: in_diffD split: if_splits)
next
  case (Publish s j k)
  have "s_events s + 1 \<le> clamp (max_queued_calls (in_limits i))"
    using Publish(1,4,6) by (simp add: limited_def clamp_def)
  with event_role [OF Publish(3)] Publish(1,3,6) show ?case by (auto simp: limited_def)
next
  case (Published k s)
  from event_role [OF Published(2)] Published show ?case by (auto simp: limited_def dest: in_diffD)
next
  case (Call k s)
  have n: "number is_stream_call (s_waits s) \<le> s_calls s"
    using stream_calls_le Call(3) by (simp add: balanced_def)
  have c: "s_calls s + 1 \<le> clamp (max_active_outbound_calls (in_limits i))"
    using Call(2,4) by (fastforce simp: limited_def may_call_def intro: clamp_bump)
  have o: "int (s_outstreams s) \<le> clamp (max_unfinished_executions (in_limits i) - 1)" if "is_stream_call k"
    using Call(2,4) that by (cases k) (auto simp: limited_def may_call_def clamp_def)
  have m: "\<forall>cid cap m. k = KStreamOpen cid cap m \<longrightarrow> m = max_active_outbound_calls (in_limits i)"
    using Call(2,4) by (auto simp: limited_def may_call_def)
  show ?case
  proof (cases "is_stream_call k")
    case True
    with call_role [OF Call(1)] o n c m Call(4) show ?thesis by (auto simp: limited_def)
  next
    case False
    with call_role [OF Call(1)] c m Call(4) show ?thesis by (auto simp: limited_def)
  qed
next
  case (Return k s n)
  from call_role [OF Return(2)] Return show ?case by (auto simp: limited_def dest: in_diffD)
next
  case (Opened_Out cid c m s n)
  define w where "w = s_waits s - {#KStreamOpen cid c m#}"
  have all: "\<forall>cid c m. KStreamOpen cid c m \<in># s_waits s \<longrightarrow> m = max_active_outbound_calls (in_limits i)"
    using Opened_Out(4) by (simp add: limited_def)
  have m: "m = max_active_outbound_calls (in_limits i)" using all Opened_Out(1) by blast
  have rest: "\<forall>cid c m. KStreamOpen cid c m \<in># w \<longrightarrow> m = max_active_outbound_calls (in_limits i)"
    using all unfolding w_def by (meson in_diffD)
  have n: "number is_verify w = number is_verify (s_waits s)" "number is_open w = number is_open (s_waits s)"
    "number is_stream_call w = number is_stream_call (s_waits s) - 1"
    using Opened_Out(1) by (simp_all add: w_def)
  show ?case unfolding w_def [symmetric]
    using Opened_Out(2,4) rest n by (simp add: limited_def) (simp add: m)
next
  case (Stop s voids n m hook fin h p ctx)
  have v: "number is_verify voids = 0" "number is_open voids = 0" "number is_stream_call voids = 0"
    using number_voids [OF Stop(2)] by simp_all
  from Stop v show ?case by (auto simp: limited_def)
next
  case (Stopped k s)
  from stop_role [OF Stopped(2)] Stopped show ?case by (auto simp: limited_def dest: in_diffD)
qed (auto simp: limited_def)

section \<open>The ledger and the lifecycle along moves\<close>

definition session_ids :: "session \<Rightarrow> string set" where
  "session_ids s = set (s_active s) \<union> set (s_retired s)"

lemma ids_grow: "move auth s t \<Longrightarrow> session_ids s \<subseteq> session_ids t"
  by (induction rule: move.induct) (auto simp: session_ids_def)

text \<open>User code gets a call for an identity only in a move that admits the identity.\<close>

lemma fresh_admission:
  "move auth s t \<Longrightarrow> count (work_of (s_waits s)) i < count (work_of (s_waits t)) i \<Longrightarrow> i \<notin> session_ids s \<and> i \<in> session_ids t"
proof (induction rule: move.induct)
  case (Stop s voids n m hook fin h p ctx)
  then have "work_of (s_waits s + voids + hook) = work_of (s_waits s)"
    using work_of_voids [of voids "s_waits s"] by auto
  then show ?case using Stop by simp
qed (auto simp: session_ids_def may_admit_def dest: passive_role call_role event_role work_role verify_role construct_role stop_role
    split: option.splits if_splits)

lemma flags_grow:
  "move auth s t \<Longrightarrow> (s_attempted s \<longrightarrow> s_attempted t) \<and> (s_stopped s \<longrightarrow> s_stopped t) \<and> (s_instance s \<longrightarrow> s_instance t)"
  by (induction rule: move.induct) auto

text \<open>A hook is called only in the move that sets its flag.\<close>

lemma construct_starts:
  "move auth s t \<Longrightarrow> number is_construct (s_waits s) < number is_construct (s_waits t) \<Longrightarrow> \<not> s_attempted s \<and> s_attempted t"
proof (induction rule: move.induct)
  case (Stop s voids n m hook fin h p ctx)
  then show ?case using number_voids [OF Stop(2), of is_construct] by auto
qed (auto dest: passive_role call_role event_role work_role split: if_splits)

lemma stop_starts:
  "move auth s t \<Longrightarrow> number is_stop (s_waits s) < number is_stop (s_waits t) \<Longrightarrow> \<not> s_stopped s \<and> s_stopped t"
proof (induction rule: move.induct)
  case (Stop s voids n m hook fin h p ctx)
  then show ?case by simp
qed (auto dest: passive_role call_role event_role work_role split: if_splits)

text \<open>A stop that did not call the hook and did not finish is final.\<close>

definition stuck :: "session \<Rightarrow> bool" where
  "stuck s \<longleftrightarrow> s_stopped s \<and> \<not> s_finish s \<and> number is_stop (s_waits s) = 0"

lemma stuck_move: "move auth s t \<Longrightarrow> stuck s \<Longrightarrow> stuck t"
proof (induction rule: move.induct)
  case (Stopped k s)
  then show ?case using number_pos [OF Stopped(1), of is_stop] by (simp add: stuck_def)
qed (auto simp: stuck_def dest: passive_role call_role event_role work_role verify_role construct_role)

text \<open>The session in force has passed both checks.\<close>

definition admitted_init :: "(screening \<Rightarrow> initialize_request \<Rightarrow> bool) \<Rightarrow> session \<Rightarrow> bool" where
  "admitted_init auth s \<longleftrightarrow>
     (\<forall>h r. KVerify h r \<in># s_waits s \<longrightarrow> auth Arrived r) \<and>
     (\<forall>i. s_init s = Some i \<longrightarrow> (\<exists>r. ir_initialize r = i \<and> auth Arrived r \<and> auth Proved r))"

lemma admitted_init_move: "move auth s t \<Longrightarrow> admitted_init auth s \<Longrightarrow> admitted_init auth t"
proof (induction rule: move.induct)
  case (Stop s voids n m hook fin h p ctx)
  then show ?case by (auto simp: admitted_init_def)
qed (auto simp: admitted_init_def dest: in_diffD split: if_splits)

text \<open>Together.\<close>

definition accounted :: "session \<Rightarrow> bool" where
  "accounted s \<longleftrightarrow> balanced s \<and> staged s"

lemma accounted_move: "accounted s \<Longrightarrow> move auth s t \<Longrightarrow> accounted t"
  using balanced_move staged_move by (auto simp: accounted_def)

lemma accounted_initial: "accounted initial_session"
  by (simp add: accounted_def balanced_def staged_def initial_session_def work_of_def number_def)

text \<open>Before the construction nothing has been admitted.\<close>

lemma limited_start:
  "accounted s \<Longrightarrow> \<not> s_attempted s \<Longrightarrow> s_init s = Some i \<Longrightarrow> number is_verify (s_waits s) = 0 \<Longrightarrow> limited i s"
proof -
  assume a: "accounted s" and n: "\<not> s_attempted s" and i: "s_init s = Some i" "number is_verify (s_waits s) = 0"
  have z: "number is_call (s_waits s) = 0" using a n by (auto simp: accounted_def staged_def)
  then have "KStreamOpen cid c m \<notin># s_waits s" for cid c m
    using number_pos [of "KStreamOpen cid c m" "s_waits s" is_call] by auto
  moreover have "number is_stream_call (s_waits s) = 0"
    using z stream_calls_le [of "s_waits s"] by simp
  ultimately show ?thesis using a n i
    by (auto simp: limited_def accounted_def balanced_def staged_def clamp_ge)
qed

end
