(* ===== verification/Authoring_Refinement.thy ===== *)
theory Authoring_Refinement
  imports Authoring_Spec
begin

text \<open>
  The Authoring V2 server refines its specification: \<open>abs_v2\<close> forgets tokens, contexts,
  replies and stream records, and every step of the server is a \<open>move\<close>. The tokens of the
  awaited calls are distinct, which makes the wake-up of one of them the removal of one element
  from the multiset of the specification.
\<close>

section \<open>Abstraction\<close>

definition abs_v2 :: "v2_server \<Rightarrow> session" where
  "abs_v2 s = \<lparr>s_init = v_initialize s, s_waits = image_mset snd (mset (v_pending s)), s_active = map fst (v_active s),
     s_retired = v_retired s, s_calls = v_activeOutboundCalls s, s_events = v_activeEventPublications s,
     s_streams = length (v_streams s), s_outstreams = length (v_outboundStreams s),
     s_bounds = ob_maxCalls ` snd ` set (v_bindings s), s_attempted = v_constructionAttempted s, s_instance = v_instance s,
     s_stopped = v_stopAttempted s, s_finish = v_finish s\<rparr>"

definition sane_tokens :: "v2_server \<Rightarrow> bool" where
  "sane_tokens s \<longleftrightarrow> distinct (map fst (v_pending s)) \<and> (\<forall>t \<in> fst ` set (v_pending s). t < v_next s)"

definition sane_stage :: "v2_server \<Rightarrow> bool" where
  "sane_stage s \<longleftrightarrow>
     (v_contexts s \<noteq> [] \<or> v_bindings s \<noteq> [] \<or> v_instance s \<or> (\<exists>k \<in> snd ` set (v_pending s). is_stream_call k \<or> is_construct k) \<longrightarrow>
      v_constructionAttempted s)"

definition sane :: "v2_server \<Rightarrow> bool" where
  "sane s \<longleftrightarrow> sane_tokens s \<and> sane_stage s"

text \<open>The proof of one handler: it keeps the concrete invariant and is a move.\<close>

definition refines :: "(screening \<Rightarrow> initialize_request \<Rightarrow> bool) \<Rightarrow> v2_server \<Rightarrow> v2_output \<times> v2_server \<Rightarrow> bool" where
  "refines auth s out \<longleftrightarrow> sane (snd out) \<and> move auth (abs_v2 s) (abs_v2 (snd out))"

lemma refines_stay: "sane s \<Longrightarrow> refines auth s (out, s)"
  by (simp add: refines_def move.Stay)

lemma refinesI: "sane t \<Longrightarrow> move auth (abs_v2 s) (abs_v2 t) \<Longrightarrow> refines auth s (out, t)"
  by (simp add: refines_def)

section \<open>Primitive updates\<close>

lemma abs_fields [simp]:
  "s_init (abs_v2 s) = v_initialize s" "s_active (abs_v2 s) = map fst (v_active s)" "s_retired (abs_v2 s) = v_retired s"
  "s_calls (abs_v2 s) = v_activeOutboundCalls s" "s_events (abs_v2 s) = v_activeEventPublications s"
  "s_streams (abs_v2 s) = length (v_streams s)" "s_outstreams (abs_v2 s) = length (v_outboundStreams s)"
  "s_bounds (abs_v2 s) = ob_maxCalls ` snd ` set (v_bindings s)" "s_attempted (abs_v2 s) = v_constructionAttempted s"
  "s_instance (abs_v2 s) = v_instance s" "s_stopped (abs_v2 s) = v_stopAttempted s" "s_finish (abs_v2 s) = v_finish s"
  by (simp_all add: abs_v2_def)

lemma abs_suspend: "abs_v2 (suspend k s) = (abs_v2 s)\<lparr>s_waits := add_mset k (s_waits (abs_v2 s))\<rparr>"
  by (simp add: abs_v2_def suspend_def)

lemma mset_delete:
  "distinct (map fst xs) \<Longrightarrow> map_of xs t = Some k \<Longrightarrow> image_mset snd (mset (AList.delete t xs)) = image_mset snd (mset xs) - {#k#}"
proof (induction xs)
  case (Cons x xs)
  show ?case
  proof (cases "fst x = t")
    case True
    then have "t \<notin> fst ` set xs" using Cons.prems by auto
    then show ?thesis using Cons.prems True by (cases x) (simp add: delete_absent)
  next
    case False
    then have i: "image_mset snd (mset (AList.delete t xs)) = image_mset snd (mset xs) - {#k#}"
      using Cons by (cases x) auto
    have "(t, k) \<in> set xs" using Cons.prems False by (cases x) (auto dest: map_of_SomeD)
    then have "k \<in># image_mset snd (mset xs)" by force
    then show ?thesis using i False by (cases x) (simp add: add_mset_diff_bothsides)
  qed
qed simp

lemma abs_resume:
  "sane s \<Longrightarrow> map_of (v_pending s) tok = Some k \<Longrightarrow>
   abs_v2 (resume tok s) = (abs_v2 s)\<lparr>s_waits := s_waits (abs_v2 s) - {#k#}\<rparr>"
  by (simp add: abs_v2_def resume_def sane_def sane_tokens_def mset_delete)

lemma waits_member: "map_of (v_pending s) tok = Some k \<Longrightarrow> k \<in># s_waits (abs_v2 s)"
  by (force simp: abs_v2_def dest: map_of_SomeD)

lemma sane_suspend: "sane s \<Longrightarrow> is_stream_call k \<or> is_construct k \<longrightarrow> v_constructionAttempted s \<Longrightarrow> sane (suspend k s)"
  by (auto simp: sane_def sane_tokens_def sane_stage_def suspend_def)

lemma delete_member: "x \<in> set (AList.delete k xs) \<Longrightarrow> x \<in> set xs"
  by (auto simp: AList.delete_eq)

lemma sane_resume: "sane s \<Longrightarrow> sane (resume tok s)"
  by (auto simp: sane_def sane_tokens_def sane_stage_def resume_def distinct_delete dest: delete_member)

lemma abs_contexts [simp]: "abs_v2 (drop_context ctx s) = abs_v2 s" "abs_v2 (snd (new_context scope s)) = abs_v2 s"
  by (simp_all add: abs_v2_def drop_context_def new_context_def)

lemma sane_drop: "sane s \<Longrightarrow> sane (drop_context ctx s)"
  by (auto simp: sane_def sane_tokens_def sane_stage_def drop_context_def)

lemma sane_new: "sane s \<Longrightarrow> v_constructionAttempted s \<Longrightarrow> sane (snd (new_context scope s))"
  by (auto simp: sane_def sane_tokens_def sane_stage_def new_context_def less_Suc_eq)

lemma sane_fields [simp]:
  "sane (s\<lparr>v_active := a\<rparr>) = sane s" "sane (s\<lparr>v_streams := st\<rparr>) = sane s" "sane (s\<lparr>v_ended := st\<rparr>) = sane s"
  "sane (s\<lparr>v_outboundStreams := os\<rparr>) = sane s" "sane (s\<lparr>v_aborted := ab\<rparr>) = sane s" "sane (s\<lparr>v_retired := r\<rparr>) = sane s"
  "sane (s\<lparr>v_initialize := i\<rparr>) = sane s" "sane (s\<lparr>v_providers := p\<rparr>) = sane s" "sane (s\<lparr>v_stopAttempted := b\<rparr>) = sane s"
  "sane (s\<lparr>v_nextOutboundId := n\<rparr>) = sane s" "sane (s\<lparr>v_nextCallbackId := n\<rparr>) = sane s" "sane (s\<lparr>v_nextStreamId := n\<rparr>) = sane s"
  "sane (s\<lparr>v_activeOutboundCalls := c\<rparr>) = sane s" "sane (s\<lparr>v_activeEventPublications := c\<rparr>) = sane s"
  "sane (s\<lparr>v_reading := rd\<rparr>) = sane s" "sane (s\<lparr>v_posted := ps\<rparr>) = sane s" "sane (s\<lparr>v_finish := b\<rparr>) = sane s"
  by (simp_all add: sane_def sane_tokens_def sane_stage_def)

lemma abs_updates [simp]:
  "abs_v2 (s\<lparr>v_active := a\<rparr>) = (abs_v2 s)\<lparr>s_active := map fst a\<rparr>"
  "abs_v2 (s\<lparr>v_streams := st\<rparr>) = (abs_v2 s)\<lparr>s_streams := length st\<rparr>"
  "abs_v2 (s\<lparr>v_ended := st\<rparr>) = abs_v2 s"
  "abs_v2 (s\<lparr>v_outboundStreams := os\<rparr>) = (abs_v2 s)\<lparr>s_outstreams := length os\<rparr>"
  "abs_v2 (s\<lparr>v_bindings := bs\<rparr>) = (abs_v2 s)\<lparr>s_bounds := ob_maxCalls ` snd ` set bs\<rparr>"
  "abs_v2 (s\<lparr>v_contexts := cs\<rparr>) = abs_v2 s"
  "abs_v2 (s\<lparr>v_aborted := ab\<rparr>) = abs_v2 s"
  "abs_v2 (s\<lparr>v_retired := r\<rparr>) = (abs_v2 s)\<lparr>s_retired := r\<rparr>"
  "abs_v2 (s\<lparr>v_initialize := i\<rparr>) = (abs_v2 s)\<lparr>s_init := i\<rparr>"
  "abs_v2 (s\<lparr>v_instance := b\<rparr>) = (abs_v2 s)\<lparr>s_instance := b\<rparr>"
  "abs_v2 (s\<lparr>v_providers := p\<rparr>) = abs_v2 s"
  "abs_v2 (s\<lparr>v_constructionAttempted := b\<rparr>) = (abs_v2 s)\<lparr>s_attempted := b\<rparr>"
  "abs_v2 (s\<lparr>v_stopAttempted := b\<rparr>) = (abs_v2 s)\<lparr>s_stopped := b\<rparr>"
  "abs_v2 (s\<lparr>v_nextOutboundId := n\<rparr>) = abs_v2 s"
  "abs_v2 (s\<lparr>v_nextCallbackId := n\<rparr>) = abs_v2 s"
  "abs_v2 (s\<lparr>v_nextStreamId := n\<rparr>) = abs_v2 s"
  "abs_v2 (s\<lparr>v_activeOutboundCalls := c\<rparr>) = (abs_v2 s)\<lparr>s_calls := c\<rparr>"
  "abs_v2 (s\<lparr>v_activeEventPublications := c\<rparr>) = (abs_v2 s)\<lparr>s_events := c\<rparr>"
  "abs_v2 (s\<lparr>v_reading := rd\<rparr>) = abs_v2 s"
  "abs_v2 (s\<lparr>v_posted := ps\<rparr>) = abs_v2 s"
  "abs_v2 (s\<lparr>v_finish := b\<rparr>) = (abs_v2 s)\<lparr>s_finish := b\<rparr>"
  "abs_v2 (s\<lparr>v_next := n\<rparr>) = abs_v2 s"
  by (simp_all add: abs_v2_def)

lemma session_same [simp]:
  "s\<lparr>s_init := s_init s\<rparr> = (s :: session)" "s\<lparr>s_active := s_active s\<rparr> = s" "s\<lparr>s_streams := s_streams s\<rparr> = s"
  "s\<lparr>s_outstreams := s_outstreams s\<rparr> = s" "s\<lparr>s_bounds := s_bounds s\<rparr> = s" "s\<lparr>s_instance := s_instance s\<rparr> = s"
  "s\<lparr>s_finish := s_finish s\<rparr> = s"
  by simp_all

text \<open>Updates are brought into one order, with the awaited calls last.\<close>

lemma session_order [simp]:
  "s\<lparr>s_streams := n, s_active := x_active\<rparr> = s\<lparr>s_active := x_active, s_streams := n\<rparr>"
  "s\<lparr>s_streams := n, s_retired := x_retired\<rparr> = s\<lparr>s_retired := x_retired, s_streams := n\<rparr>"
  "s\<lparr>s_outstreams := m, s_calls := x_calls\<rparr> = s\<lparr>s_calls := x_calls, s_outstreams := m\<rparr>"
  "s\<lparr>s_bounds := bs, s_calls := x_calls\<rparr> = s\<lparr>s_calls := x_calls, s_bounds := bs\<rparr>"
  "s\<lparr>s_bounds := bs, s_outstreams := m\<rparr> = s\<lparr>s_outstreams := m, s_bounds := bs\<rparr>"
  "s\<lparr>s_waits := w, s_init := x_init\<rparr> = s\<lparr>s_init := x_init, s_waits := w\<rparr>"
  "s\<lparr>s_waits := w, s_active := x_active\<rparr> = s\<lparr>s_active := x_active, s_waits := w\<rparr>"
  "s\<lparr>s_waits := w, s_retired := x_retired\<rparr> = s\<lparr>s_retired := x_retired, s_waits := w\<rparr>"
  "s\<lparr>s_waits := w, s_calls := x_calls\<rparr> = s\<lparr>s_calls := x_calls, s_waits := w\<rparr>"
  "s\<lparr>s_waits := w, s_events := x_events\<rparr> = s\<lparr>s_events := x_events, s_waits := w\<rparr>"
  "s\<lparr>s_waits := w, s_streams := x_streams\<rparr> = s\<lparr>s_streams := x_streams, s_waits := w\<rparr>"
  "s\<lparr>s_waits := w, s_outstreams := x_outstreams\<rparr> = s\<lparr>s_outstreams := x_outstreams, s_waits := w\<rparr>"
  "s\<lparr>s_waits := w, s_bounds := x_bounds\<rparr> = s\<lparr>s_bounds := x_bounds, s_waits := w\<rparr>"
  "s\<lparr>s_waits := w, s_attempted := x_attempted\<rparr> = s\<lparr>s_attempted := x_attempted, s_waits := w\<rparr>"
  "s\<lparr>s_waits := w, s_instance := x_instance\<rparr> = s\<lparr>s_instance := x_instance, s_waits := w\<rparr>"
  "s\<lparr>s_waits := w, s_stopped := x_stopped\<rparr> = s\<lparr>s_stopped := x_stopped, s_waits := w\<rparr>"
  "s\<lparr>s_waits := w, s_finish := x_finish\<rparr> = s\<lparr>s_finish := x_finish, s_waits := w\<rparr>"
  by simp_all

section \<open>Initialization and construction\<close>

definition authentic_request :: "v2_config \<Rightarrow> initialize_request \<Rightarrow> bool" where
  "authentic_request cfg r \<longleftrightarrow>
     verifyProof (vc_protocol cfg) (vc_secret cfg) (authoringHostProofMessage (vc_protocol cfg) (request_digest cfg r))
       (ir_host_proof r) = None \<and>
     validateDefinition (vc_protocol cfg) (vc_definition cfg) (ir_initialize r) = Inr ()"

fun screened :: "v2_config \<Rightarrow> screening \<Rightarrow> initialize_request \<Rightarrow> bool" where
  "screened cfg Arrived r \<longleftrightarrow> ir_callback_origin r = callback_origin (vc_bootstrap cfg)"
| "screened cfg Proved r \<longleftrightarrow> authentic_request cfg r"

lemma initializeSession_refines: "sane s \<Longrightarrow> refines (screened cfg) s (initializeSession cfg s h params)"
  by (auto simp: initializeSession_def refines_stay abs_suspend sane_suspend split: sum.split
      intro!: refinesI move.Verify)

lemma proof_verified_refines:
  assumes "sane s" and "map_of (v_pending s) tok = Some (KVerify h request)"
  shows "refines (screened cfg) s (proof_verified cfg (resume tok s) h request random)"
proof -
  note m = waits_member [OF assms(2)] and r = abs_resume [OF assms] and sr = sane_resume [OF assms(1), of tok]
  have rej: "refines (screened cfg) s (out, resume tok s)" for out
    using move.Reject [OF m] sr by (simp add: refines_def r)
  show ?thesis
    using rej sr move.Initialize [OF m, of "screened cfg"]
    by (auto simp: proof_verified_def Let_def refines_def abs_suspend r sane_suspend authentic_request_def
        split: option.split sum.split)
qed

lemma construct_finish_state:
  "snd (construct_finish cfg s h initialize params ctx created) = drop_context ctx s \<or>
   (\<exists>p. snd (construct_finish cfg s h initialize params ctx created) = (drop_context ctx s)\<lparr>v_providers := p, v_instance := True\<rparr>)"
  by (auto simp: construct_finish_def Let_def split: sum.split bool.split)

lemma sane_instance: "sane s \<Longrightarrow> v_constructionAttempted s \<Longrightarrow> sane (s\<lparr>v_instance := b\<rparr>)"
  by (simp add: sane_def sane_tokens_def sane_stage_def)

lemma sane_attempt: "sane s \<Longrightarrow> sane (s\<lparr>v_constructionAttempted := True\<rparr>)"
  by (simp add: sane_def sane_tokens_def sane_stage_def)

lemma drop_fields [simp]:
  "v_constructionAttempted (drop_context ctx s) = v_constructionAttempted s" "v_instance (drop_context ctx s) = v_instance s"
  by (simp_all add: drop_context_def)

lemma resume_fields [simp]:
  "v_constructionAttempted (resume tok s) = v_constructionAttempted s" "v_instance (resume tok s) = v_instance s"
  "v_streams (resume tok s) = v_streams s" "v_ended (resume tok s) = v_ended s" "v_active (resume tok s) = v_active s"
  "v_retired (resume tok s) = v_retired s" "v_bindings (resume tok s) = v_bindings s" "v_aborted (resume tok s) = v_aborted s"
  "v_outboundStreams (resume tok s) = v_outboundStreams s" "v_initialize (resume tok s) = v_initialize s"
  "v_activeOutboundCalls (resume tok s) = v_activeOutboundCalls s" "v_finish (resume tok s) = v_finish s"
  "v_activeEventPublications (resume tok s) = v_activeEventPublications s"
  "v_stopAttempted (resume tok s) = v_stopAttempted s"
  by (simp_all add: resume_def)

lemma construct_finish_sane:
  "sane s \<Longrightarrow> v_constructionAttempted s \<Longrightarrow> sane (snd (construct_finish cfg s h initialize params ctx created))"
  using construct_finish_state [of cfg s h initialize params ctx created] sane_drop [of s ctx]
  by (auto simp: sane_instance)

lemma construct_finish_abs:
  "\<exists>b. abs_v2 (snd (construct_finish cfg s h initialize params ctx created)) =
     (abs_v2 s)\<lparr>s_instance := s_instance (abs_v2 s) \<or> b\<rparr>"
  using construct_finish_state [of cfg s h initialize params ctx created]
  by (elim disjE exE) (auto intro: exI [of _ False] exI [of _ True])

lemma sane_pending:
  "sane s \<Longrightarrow> map_of (v_pending s) tok = Some k \<Longrightarrow> is_stream_call k \<or> is_construct k \<Longrightarrow> v_constructionAttempted s"
  by (force simp: sane_def sane_stage_def dest: map_of_SomeD)

lemma constructed_refines:
  assumes "sane s" and "map_of (v_pending s) tok = Some (KConstruct h initialize params ctx)"
  shows "refines auth s (construct_finish cfg (resume tok s) h initialize params ctx created)"
proof -
  obtain b where "abs_v2 (snd (construct_finish cfg (resume tok s) h initialize params ctx created)) =
      (abs_v2 (resume tok s))\<lparr>s_instance := s_instance (abs_v2 (resume tok s)) \<or> b\<rparr>"
    using construct_finish_abs by blast
  then show ?thesis
    using move.Constructed [OF waits_member [OF assms(2)], of auth b] sane_pending [OF assms]
      construct_finish_sane [OF sane_resume [OF assms(1), of tok]]
    by (simp add: refines_def abs_resume [OF assms])
qed

lemma construct_refines:
  assumes "sane s" and "v_initialize s = Some initialize"
  shows "refines auth s (construct cfg s h initialize raw)"
proof -
  define s1 where "s1 = s\<lparr>v_constructionAttempted := True\<rparr>"
  define s2 where "s2 params = snd (new_context (lifecycle_scope params) s1)" for params
  have nc: "new_context (lifecycle_scope params) s1 = (v_next s, s2 params)" for params
    by (simp add: s2_def new_context_def s1_def)
  have a: "abs_v2 (s2 params) = (abs_v2 s)\<lparr>s_attempted := True\<rparr>" for params
    by (simp add: s2_def) (simp add: s1_def)
  have sn: "sane (s2 params)" "v_constructionAttempted (s2 params)" for params
    using sane_attempt [OF assms(1)] sane_new [of s1] by (simp_all add: s2_def s1_def new_context_def)
  have now: "refines auth s (construct_finish cfg (s2 params) h initialize params (v_next s) r)"
    if "\<not> v_constructionAttempted s" for params r
  proof -
    obtain b where "abs_v2 (snd (construct_finish cfg (s2 params) h initialize params (v_next s) r)) =
        (abs_v2 (s2 params))\<lparr>s_instance := s_instance (abs_v2 (s2 params)) \<or> b\<rparr>"
      using construct_finish_abs by blast
    then show ?thesis
      using move.Construct_Now [of "abs_v2 s" initialize auth b] that assms(2) construct_finish_sane [OF sn]
      by (simp add: refines_def a)
  qed
  show ?thesis
    using assms now sn move.Construct [of "abs_v2 s" initialize auth]
    by (auto simp: construct_def refines_stay s1_def [symmetric] nc abs_suspend a sane_suspend
        split: sum.split intro!: refinesI)
qed

section \<open>Work\<close>

lemma abs_retire:
  "abs_v2 (retire_work params s) = (abs_v2 s)\<lparr>s_active := set_delete (wp_correlation_id params) (s_active (abs_v2 s)),
     s_retired := set_add (wp_correlation_id params) (s_retired (abs_v2 s))\<rparr>"
  by (simp add: retire_work_def map_fst_delete)

lemma sane_retire [simp]: "sane (retire_work params s) = sane s"
  by (simp add: retire_work_def)

lemma refines_settled:
  "sane t \<Longrightarrow> (\<And>k. is_passive k \<Longrightarrow> move auth (abs_v2 s) ((abs_v2 t)\<lparr>s_waits := add_mset k (s_waits (abs_v2 t))\<rparr>)) \<Longrightarrow>
   refines auth s (settled h params state outcome t)"
  by (simp add: settled_def refines_def abs_suspend sane_suspend)

text \<open>An answer that awaits only the settlement callback.\<close>

lemma settled_refines: "sane s \<Longrightarrow> refines auth s (settled h params state outcome s)"
proof (rule refines_settled)
  fix k :: v2_cont
  assume "is_passive k"
  from move.Wait [OF this, of "s_outstreams (abs_v2 s)" "abs_v2 s" auth]
  show "move auth (abs_v2 s) ((abs_v2 s)\<lparr>s_waits := add_mset k (s_waits (abs_v2 s))\<rparr>)"
    by (simp del: abs_fields)
qed

text \<open>Admitted work is settled: at once, or when its call returns.\<close>

lemma admit_work_facts:
  assumes "admit_work params s = (ctx, t)" and "\<not> known_correlation s (wp_correlation_id params)" and "sane s" and "v_instance s"
  shows "sane t" and "abs_v2 t = (abs_v2 s)\<lparr>s_active := s_active (abs_v2 s) @ [wp_correlation_id params]\<rparr>"
    and "v_providers t = v_providers s" and "v_constructionAttempted t"
proof -
  have at: "v_constructionAttempted s" using assms(3,4) by (simp add: sane_def sane_stage_def)
  have t: "t = (snd (new_context (wp_scope params) s))\<lparr>v_active := AList.update (wp_correlation_id params)
      \<lparr>ae_ctx = ctx, ae_scope = scope_id (wp_scope params)\<rparr> (v_active s)\<rparr>"
    using assms(1) by (auto simp: admit_work_def new_context_def)
  show "sane t" using sane_new [OF assms(3) at] by (simp add: t)
  show "v_providers t = v_providers s" "v_constructionAttempted t" by (simp_all add: t new_context_def at)
  have "wp_correlation_id params \<notin> fst ` set (v_active s)"
    using assms(2) by (simp add: known_correlation_def collection_simps)
  then show "abs_v2 t = (abs_v2 s)\<lparr>s_active := s_active (abs_v2 s) @ [wp_correlation_id params]\<rparr>"
    by (simp add: t update_fresh)
qed

lemma refuse_move:
  assumes "may_admit (abs_v2 s) i opn" and "is_passive k" and "n = length (v_streams s)"
    and "abs_v2 t = (abs_v2 s)\<lparr>s_active := s_active (abs_v2 s) @ [i]\<rparr>"
  shows "move auth (abs_v2 s) ((abs_v2 t)\<lparr>s_active := set_delete i (s_active (abs_v2 t)),
    s_retired := set_add i (s_retired (abs_v2 t)), s_waits := add_mset k (s_waits (abs_v2 t))\<rparr>)"
proof -
  have "i \<notin> set (map fst (v_active s))"
    using assms(1) by (auto simp: may_admit_def split: option.splits)
  then have "set_delete i (map fst (v_active s) @ [i]) = map fst (v_active s)"
    by (simp add: set_delete_def filter_id_conv) fastforce
  then show ?thesis
    using move.Refuse [OF assms(1,2), of auth] assms(4) by (simp add: abs_v2_def)
qed

lemma invoke_finish_settles:
  "\<exists>state outcome. invoke_finish s h params ctx result = settled h params state outcome (retire_work params s)"
  by (auto simp: invoke_finish_def split: sum.split)

lemma invoked_refines:
  assumes "sane s" and "map_of (v_pending s) tok = Some (KInvoke h params ctx)"
  shows "refines auth s (invoke_finish (resume tok s) h params ctx result)"
proof -
  obtain state outcome where e: "invoke_finish (resume tok s) h params ctx result =
      settled h params state outcome (retire_work params (resume tok s))"
    using invoke_finish_settles by blast
  show ?thesis unfolding e
  proof (rule refines_settled)
    show "sane (retire_work params (resume tok s))" by (simp add: sane_resume assms(1))
  next
    fix k :: v2_cont
    assume "is_passive k"
    from move.Settle [OF waits_member [OF assms(2)] _ this, of "wp_correlation_id params" "s_streams (abs_v2 s)" auth]
    show "move auth (abs_v2 s) ((abs_v2 (retire_work params (resume tok s)))\<lparr>s_waits :=
        add_mset k (s_waits (abs_v2 (retire_work params (resume tok s))))\<rparr>)"
      by (simp add: abs_retire abs_resume [OF assms] del: abs_fields)
  qed
qed

lemma invoke_refines:
  assumes "sane s" and "v_initialize s = Some initialize"
  shows "refines auth s (invoke cfg s h initialize raw)"
proof (cases "ap_invoke (vc_protocol cfg) initialize raw")
  case (Inl e)
  then show ?thesis using assms by (simp add: invoke_def refines_stay)
next
  case (Inr params)
  obtain ctx t where a: "admit_work params s = (ctx, t)" by fastforce
  let ?i = "wp_correlation_id params"
  have admitted: "refines auth s (case map_of (v_providers t) (wp_endpoint_id params) of
      None \<Rightarrow> invoke_finish t h params ctx (Inl e) | Some p \<Rightarrow> (NoOutput, suspend (KInvoke h params ctx) t))"
    if g: "v_instance s" "\<not> known_correlation s ?i" "may_admit (abs_v2 s) ?i False" for e
  proof -
    note f = admit_work_facts [OF a g(2) assms(1) g(1)]
    have "refines auth s (invoke_finish t h params ctx (Inl e))"
      using refuse_move [OF g(3) _ refl f(2)] f(1) invoke_finish_settles [of t h params ctx "Inl e"]
      by (auto simp: abs_retire intro!: refines_settled)
    moreover have "refines auth s (NoOutput, suspend (KInvoke h params ctx) t)"
      using move.Admit [of "KInvoke h params ctx" ?i "abs_v2 s" auth] g(3) f(1)
      by (simp add: refines_def abs_suspend f(2) sane_suspend)
    ultimately show ?thesis by (simp split: option.split)
  qed
  show ?thesis
    using assms admitted
    by (auto simp: invoke_def Inr a refines_stay settled_refines may_admit_def known_correlation_def collection_simps)
qed

section \<open>Events and inbound streams\<close>

lemma published_refines:
  assumes "sane s" and "map_of (v_pending s) tok = Some (KEvent h params ctx)"
  shows "refines auth s (event_finish (resume tok s) h params ctx result)"
  using move.Published [OF waits_member [OF assms(2)], of auth] sane_drop sane_resume [OF assms(1), of tok]
  by (simp add: event_finish_def refines_def abs_resume [OF assms])

lemma publishEvent_refines:
  assumes "sane s" and "v_initialize s = Some initialize"
  shows "refines auth s (publishEvent cfg s h initialize raw)"
proof (cases "ap_event (vc_protocol cfg) initialize raw")
  case (Inl e)
  then show ?thesis using assms by (simp add: publishEvent_def refines_stay)
next
  case (Inr params)
  define t where "t = snd (new_context (wp_scope params) s)"
  have nc: "new_context (wp_scope params) s = (v_next s, t)" by (simp add: t_def new_context_def)
  have at: "abs_v2 t = abs_v2 s" by (simp add: t_def)
  have ev: "v_activeEventPublications t = v_activeEventPublications s" by (simp add: t_def new_context_def)
  have st: "sane t" if "v_instance s"
    using assms(1) that sane_new [OF assms(1)] by (simp add: t_def sane_def sane_stage_def)
  have stay: "refines auth s (out, t)" if "v_instance s" for out
    using st [OF that] by (simp add: refines_def at move.Stay)
  show ?thesis
    using assms st stay move.Publish [of "abs_v2 s" initialize "KEvent h params (v_next s)" auth]
    by (auto simp: publishEvent_def Inr nc refines_stay abs_suspend at sane_suspend ev split: option.split intro!: refinesI)
qed

lemma opened_streams: "length (AList.update k v m) \<le> Suc (length m)"
  by (induction m) auto

lemma open_finish_settles:
  "\<exists>state outcome t n. open_finish s h params ctx result = settled h params state outcome (retire_work params t) \<and>
     (sane s \<longrightarrow> sane t) \<and> abs_v2 t = (abs_v2 s)\<lparr>s_streams := n\<rparr> \<and>
     (n = s_streams (abs_v2 s) \<or> result = Inr Opened \<and> n \<le> Suc (s_streams (abs_v2 s)))"
proof (cases "result = Inr Opened \<and> ctx \<notin> set (v_aborted s)")
  case True
  let ?t = "s\<lparr>v_nextStreamId := Suc (v_nextStreamId s), v_streams := AList.update (show_int (int (v_nextStreamId s)))
      \<lparr>se_ctx = ctx, se_nextSend = 0, se_nextReceive = 0\<rparr> (v_streams s)\<rparr>"
  have "open_finish s h params ctx result = settled h params ''completed''
      (JObj [(''kind'', JStr ''opened''), (''stream_id'', JStr (show_int (int (v_nextStreamId s))))]) (retire_work params ?t)"
    using True by (simp add: open_finish_def Let_def)
  moreover have "abs_v2 ?t = (abs_v2 s)\<lparr>s_streams := length (v_streams ?t)\<rparr>" by simp
  moreover have "sane s \<longrightarrow> sane ?t" by simp
  moreover have "length (v_streams ?t) \<le> Suc (s_streams (abs_v2 s))" using opened_streams by simp
  ultimately show ?thesis using True by blast
next
  case False
  then have "\<exists>state outcome. open_finish s h params ctx result =
      settled h params state outcome (retire_work params (drop_context ctx s))"
    by (auto simp: open_finish_def Let_def split: sum.splits open_result.splits)
  then obtain state outcome where
    "open_finish s h params ctx result = settled h params state outcome (retire_work params (drop_context ctx s))"
    by blast
  moreover have "abs_v2 (drop_context ctx s) = (abs_v2 s)\<lparr>s_streams := s_streams (abs_v2 s)\<rparr>" by (simp del: abs_fields)
  ultimately show ?thesis using sane_drop by blast
qed

lemma opened_refines:
  assumes "sane s" and "map_of (v_pending s) tok = Some (KOpen h params ctx)"
  shows "refines auth s (open_finish (resume tok s) h params ctx result)"
proof -
  obtain state outcome t n where e: "open_finish (resume tok s) h params ctx result =
      settled h params state outcome (retire_work params t)"
    and st: "sane t" and at: "abs_v2 t = (abs_v2 (resume tok s))\<lparr>s_streams := n\<rparr>"
    and n: "n \<le> Suc (s_streams (abs_v2 s))"
    using open_finish_settles [of "resume tok s" h params ctx result] sane_resume [OF assms(1)]
    by (auto simp: abs_resume [OF assms])
  show ?thesis unfolding e
  proof (rule refines_settled)
    show "sane (retire_work params t)" using st by simp
  next
    fix k :: v2_cont
    assume "is_passive k"
    from move.Settle [OF waits_member [OF assms(2)] _ this, of "wp_correlation_id params" n auth] n
    show "move auth (abs_v2 s) ((abs_v2 (retire_work params t))\<lparr>s_waits := add_mset k (s_waits (abs_v2 (retire_work params t)))\<rparr>)"
      by (simp add: abs_retire at abs_resume [OF assms])
  qed
qed

lemma openStream_refines:
  assumes "sane s" and "v_initialize s = Some initialize"
  shows "refines auth s (openStream cfg s h initialize raw)"
proof (cases "ap_stream_open (vc_protocol cfg) initialize raw")
  case (Inl e)
  then show ?thesis using assms by (simp add: openStream_def refines_stay)
next
  case (Inr params)
  obtain ctx t where a: "admit_work params s = (ctx, t)" by fastforce
  let ?i = "wp_correlation_id params"
  have now: "refines auth s (open_finish t h params ctx (Inl e))" and later: "refines auth s (NoOutput, suspend (KOpen h params ctx) t)"
    if g: "v_instance s" "\<not> known_correlation s ?i" "may_admit (abs_v2 s) ?i True" for e
  proof -
    note f = admit_work_facts [OF a g(2) assms(1) g(1)]
    show "refines auth s (open_finish t h params ctx (Inl e))"
      using refuse_move [OF g(3) _ refl f(2)] f(1) open_finish_settles [of t h params ctx "Inl e"]
      by (auto simp: abs_retire simp del: abs_fields intro!: refines_settled)
    show "refines auth s (NoOutput, suspend (KOpen h params ctx) t)"
      using move.Admit [of "KOpen h params ctx" ?i "abs_v2 s" auth] g(3) f(1)
      by (simp add: refines_def abs_suspend f(2) sane_suspend)
  qed
  show ?thesis
    using assms now later
    by (auto simp: openStream_def Inr a refines_stay settled_refines may_admit_def known_correlation_def collection_simps
        split: option.split)
qed

text \<open>Stream actions await the binding; a finished action may end its stream.\<close>

lemma wait_refines: "sane s \<Longrightarrow> is_passive k \<Longrightarrow> refines auth s (out, suspend k s)"
  using move.Wait [of k "s_outstreams (abs_v2 s)" "abs_v2 s" auth] passive_role [of k]
  by (simp add: refines_def abs_suspend sane_suspend del: abs_fields)

lemma wake_refines:
  assumes "sane s" and "map_of (v_pending s) tok = Some k" and "is_passive k"
    and "sane (resume tok s) \<Longrightarrow> sane t"
    and "abs_v2 t = (abs_v2 (resume tok s))\<lparr>s_streams := n\<rparr>" and "n \<le> s_streams (abs_v2 s)"
  shows "refines auth s (out, t)"
  using move.Wake [OF waits_member [OF assms(2)] assms(3,6), of auth] assms(4) sane_resume [OF assms(1), of tok]
  by (simp add: refines_def assms(5) abs_resume [OF assms(1,2)])

lemma woken_refines:
  "sane s \<Longrightarrow> map_of (v_pending s) tok = Some k \<Longrightarrow> is_passive k \<Longrightarrow> refines auth s (out, resume tok s)"
  by (rule wake_refines [where n = "length (v_streams s)"]) (simp_all add: abs_v2_def)

lemma update_stream_facts: "sane (update_stream sid f s) = sane s" "abs_v2 (update_stream sid f s) = abs_v2 s"
proof -
  have "length (AList.update sid v (v_streams s)) = length (v_streams s)" if "map_of (v_streams s) sid = Some e" for v e
    using that by (force intro: length_update_present dest: map_of_SomeD)
  then show "sane (update_stream sid f s) = sane s" "abs_v2 (update_stream sid f s) = abs_v2 s"
    by (auto simp: update_stream_def abs_v2_def split: option.split)
qed

lemma abs_streams_same: "(abs_v2 s)\<lparr>s_streams := length (v_streams s)\<rparr> = abs_v2 s"
  by (simp add: abs_v2_def)

lemma end_stream_facts:
  "sane s \<Longrightarrow> sane (end_stream sid s)"
  "\<exists>n \<le> length (v_streams s). abs_v2 (end_stream sid s) = (abs_v2 s)\<lparr>s_streams := n\<rparr>"
proof -
  show "sane s \<Longrightarrow> sane (end_stream sid s)"
    by (auto simp: end_stream_def sane_drop split: option.split)
  show "\<exists>n \<le> length (v_streams s). abs_v2 (end_stream sid s) = (abs_v2 s)\<lparr>s_streams := n\<rparr>"
  proof (cases "map_of (v_streams s) sid")
    case None
    then show ?thesis
      by (intro exI [of _ "length (v_streams s)"]) (simp add: end_stream_def abs_streams_same)
  next
    case (Some e)
    then show ?thesis
      by (intro exI [of _ "length (AList.delete sid (v_streams s))"]) (simp add: end_stream_def length_delete_le)
  qed
qed

lemma end_stream_refines: "sane s \<Longrightarrow> refines auth s (out, end_stream sid s)"
  using end_stream_facts [of s sid] move.End_Stream [of _ "abs_v2 s" auth] by (auto simp: refines_def)

lemma sendStream_refines: "sane s \<Longrightarrow> refines auth s (sendStream s h params)"
  by (auto simp: sendStream_def refines_stay wait_refines split: option.split)

lemma receiveStream_refines: "sane s \<Longrightarrow> refines auth s (receiveStream s h params)"
  by (simp add: receiveStream_def refines_stay wait_refines)

lemma closeStreamSend_refines: "sane s \<Longrightarrow> refines auth s (closeStreamSend s h params)"
  by (simp add: closeStreamSend_def refines_stay wait_refines)

lemma cancelStream_refines: "sane s \<Longrightarrow> refines auth s (cancelStream s h params)"
  by (simp add: cancelStream_def end_stream_refines)

lemma cancel_v2_refines: "sane s \<Longrightarrow> refines auth s (cancel_v2 s h params)"
  by (simp add: cancel_v2_def Let_def refines_def move.Stay)

lemma update_woken_refines:
  "sane s \<Longrightarrow> map_of (v_pending s) tok = Some k \<Longrightarrow> is_passive k \<Longrightarrow> refines auth s (out, update_stream sid f (resume tok s))"
  using woken_refines [of s tok k auth out] by (simp add: refines_def update_stream_facts)

lemma end_woken_refines:
  assumes "sane s" and "map_of (v_pending s) tok = Some k" and "is_passive k"
  shows "refines auth s (out, end_stream sid (resume tok s))"
proof -
  obtain n where "n \<le> length (v_streams s)" "abs_v2 (end_stream sid (resume tok s)) = (abs_v2 (resume tok s))\<lparr>s_streams := n\<rparr>"
    using end_stream_facts(2) [of "resume tok s" sid] by auto
  then show ?thesis using assms end_stream_facts(1) by (intro wake_refines [OF assms]) auto
qed

lemma sent_refines:
  "sane s \<Longrightarrow> map_of (v_pending s) tok = Some (KSend h params) \<Longrightarrow> refines auth s (send_finish (resume tok s) h params result)"
  by (auto simp: send_finish_def woken_refines update_woken_refines split: sum.split action_result.split)

lemma received_refines:
  "sane s \<Longrightarrow> map_of (v_pending s) tok = Some (KReceive h params) \<Longrightarrow> refines auth s (receive_finish (resume tok s) h params result)"
  by (auto simp: receive_finish_def Let_def woken_refines update_woken_refines end_woken_refines
      split: sum.split receive_result.split)

lemma closed_refines:
  "sane s \<Longrightarrow> map_of (v_pending s) tok = Some (KClose h params) \<Longrightarrow> refines auth s (close_finish (resume tok s) h params result)"
  by (auto simp: close_finish_def woken_refines split: sum.split action_result.split)

section \<open>Calls to the Host\<close>

lemma abs_call:
  "abs_v2 (take_outbound_id s) = abs_v2 s" "abs_v2 (begin_outbound s) = (abs_v2 s)\<lparr>s_calls := v_activeOutboundCalls s + 1\<rparr>"
  "abs_v2 (end_outbound s) = (abs_v2 s)\<lparr>s_calls := v_activeOutboundCalls s - 1\<rparr>"
  "sane (take_outbound_id s) = sane s" "sane (begin_outbound s) = sane s" "sane (end_outbound s) = sane s"
  by (simp_all add: take_outbound_id_def begin_outbound_def end_outbound_def)

lemma call_refines:
  assumes "sane s" and "is_call k" and "may_call (abs_v2 s) k"
    and "t = take_outbound_id (begin_outbound s) \<or> t = begin_outbound (take_outbound_id s)"
  shows "refines auth s (out, suspend k t)"
proof -
  have "abs_v2 t = (abs_v2 s)\<lparr>s_calls := v_activeOutboundCalls s + 1\<rparr>" "sane t" "v_constructionAttempted t"
    using assms by (auto simp: abs_call take_outbound_id_def begin_outbound_def may_call_def)
  then show ?thesis
    using move.Call [OF assms(2,3), of auth] call_role [OF assms(2)] by (simp add: refines_def abs_suspend sane_suspend)
qed

lemma outbound_refines: "sane s \<Longrightarrow> refines auth s (outbound s kind ctx requestId route oper)"
proof (cases "map_of (v_contexts s) ctx")
  case None
  then show "sane s \<Longrightarrow> ?thesis" by (simp add: outbound_def refines_stay)
next
  case (Some scope)
  assume s: "sane s"
  have at: "v_constructionAttempted s" using s Some by (auto simp: sane_def sane_stage_def)
  have c: "is_call (outbound_continuation i kind route cid)" for i cid
    by (simp add: outbound_continuation_def split: outbound_kind.split)
  have "may_call (abs_v2 s) (outbound_continuation i kind route cid)"
    if "v_initialize s = Some i" "v_activeOutboundCalls s < max_active_outbound_calls (in_limits i)"
      "kind = OutStream \<longrightarrow> int (length (v_outboundStreams s)) < max_unfinished_executions (in_limits i)" for i cid
    using that at by (cases kind) (simp_all add: may_call_def outbound_continuation_def)
  then show ?thesis using s Some
    by (auto simp: outbound_def refines_stay split: option.split intro!: call_refines c)
qed

lemma binding_call:
  assumes "sane s" and "\<not> outbound_full s b" and "is_call k" and "\<not> is_stream_call k"
  shows "may_call (abs_v2 s) k"
proof -
  obtain x where x: "map_of (v_bindings s) b = Some x" "v_activeOutboundCalls s < ob_maxCalls x"
    using assms(2) by (auto simp: outbound_full_def split: option.splits)
  then have "ob_maxCalls x \<in> s_bounds (abs_v2 s)" by (force dest: map_of_SomeD)
  moreover have "v_constructionAttempted s" using x assms(1) by (auto simp: sane_def sane_stage_def)
  ultimately show ?thesis using x assms(4) unfolding may_call_def by (auto simp del: abs_fields(8))
qed

lemma outbound_full_id [simp]: "outbound_full (take_outbound_id s) b = outbound_full s b"
  by (simp add: outbound_full_def take_outbound_id_def split: option.split)

lemma id_refines: "sane s \<Longrightarrow> refines auth s (out, take_outbound_id s)"
  by (simp add: refines_def abs_call move.Stay)

lemma outbound_action_refines: "sane s \<Longrightarrow> refines auth s (outbound_action s b is_send)"
  by (auto simp: outbound_action_def Let_def id_refines intro!: call_refines binding_call)

lemma outbound_receive_refines: "sane s \<Longrightarrow> refines auth s (outbound_receive s b)"
  by (auto simp: outbound_receive_def refines_stay intro!: call_refines binding_call)

text \<open>Ending an outbound stream.\<close>

lemma set_binding_bounds: "\<forall>x. ob_maxCalls (f x) = ob_maxCalls x \<Longrightarrow> abs_v2 (set_binding b f s) = abs_v2 s"
  by (auto simp: set_binding_def abs_v2_def image_image intro!: image_cong)

lemma sane_bindings: "bs = [] \<longleftrightarrow> v_bindings s = [] \<Longrightarrow> sane (s\<lparr>v_bindings := bs\<rparr>) = sane s"
  by (simp add: sane_def sane_tokens_def sane_stage_def)

lemma sane_set_binding [simp]: "sane (set_binding b f s) = sane s"
  by (simp add: set_binding_def sane_bindings)

lemma finish_binding_facts:
  "sane (finish_binding b s) = sane s"
  "\<exists>n \<le> length (v_outboundStreams s). abs_v2 (finish_binding b s) = (abs_v2 s)\<lparr>s_outstreams := n\<rparr>"
proof -
  show "sane (finish_binding b s) = sane s"
    by (simp add: finish_binding_def split: option.split)
  show "\<exists>n \<le> length (v_outboundStreams s). abs_v2 (finish_binding b s) = (abs_v2 s)\<lparr>s_outstreams := n\<rparr>"
  proof (cases "map_of (v_bindings s) b")
    case None
    then show ?thesis
      by (intro exI [of _ "length (v_outboundStreams s)"]) (simp add: finish_binding_def abs_v2_def)
  next
    case (Some x)
    then show ?thesis
      by (intro exI [of _ "length (AList.delete (ob_stream x) (v_outboundStreams s))"])
        (simp add: finish_binding_def set_binding_bounds length_delete_le)
  qed
qed

lemma outbound_cancel_facts:
  "sane s \<Longrightarrow> sane (outbound_cancel b s)"
  "\<exists>n \<le> length (v_outboundStreams s). \<exists>voids. set_mset voids \<subseteq> {KVoid} \<and>
     abs_v2 (outbound_cancel b s) = (abs_v2 s)\<lparr>s_outstreams := n, s_waits := s_waits (abs_v2 s) + voids\<rparr>"
proof -
  show "sane s \<Longrightarrow> sane (outbound_cancel b s)"
    by (simp add: outbound_cancel_def sane_suspend abs_call finish_binding_facts)
  obtain n where n: "n \<le> length (v_outboundStreams s)" "abs_v2 (finish_binding b s) = (abs_v2 s)\<lparr>s_outstreams := n\<rparr>"
    using finish_binding_facts by blast
  show "\<exists>n \<le> length (v_outboundStreams s). \<exists>voids. set_mset voids \<subseteq> {KVoid} \<and>
     abs_v2 (outbound_cancel b s) = (abs_v2 s)\<lparr>s_outstreams := n, s_waits := s_waits (abs_v2 s) + voids\<rparr>"
  proof (cases "binding_closed s b")
    case True
    then show ?thesis
      by (intro exI [of _ "length (v_outboundStreams s)"] conjI exI [of _ "{#}"]) (simp_all add: outbound_cancel_def abs_v2_def)
  next
    case False
    then show ?thesis using n
      by (intro exI [of _ n] conjI exI [of _ "{#KVoid#}"]) (simp_all add: outbound_cancel_def abs_suspend abs_call)
  qed
qed

lemma outbound_cancel_refines: "sane s \<Longrightarrow> refines auth s (out, outbound_cancel b s)"
proof (cases "binding_closed s b")
  case True
  then show "sane s \<Longrightarrow> ?thesis" by (simp add: outbound_cancel_def refines_stay)
next
  case False
  assume s: "sane s"
  obtain n where n: "n \<le> length (v_outboundStreams s)" "abs_v2 (finish_binding b s) = (abs_v2 s)\<lparr>s_outstreams := n\<rparr>"
    using finish_binding_facts by blast
  show ?thesis
    using False s n move.Wait [of KVoid n "abs_v2 s" auth]
    by (simp add: outbound_cancel_def refines_def abs_suspend abs_call sane_suspend finish_binding_facts)
qed

section \<open>Callbacks\<close>

lemma return_refines:
  assumes "sane s" and "map_of (v_pending s) tok = Some k" and "is_call k" and "sane t"
    and "abs_v2 t = (abs_v2 (resume tok s))\<lparr>s_outstreams := n\<rparr>" and "n \<le> s_outstreams (abs_v2 s)"
    and "v_activeOutboundCalls t = v_activeOutboundCalls s"
  shows "refines auth s (out, end_outbound t)"
  using move.Return [OF waits_member [OF assms(2)] assms(3,6), of auth] assms(4,7)
  by (simp add: refines_def abs_call assms(5) abs_resume [OF assms(1,2)])

lemma outbound_calls_kept [simp]:
  "v_activeOutboundCalls (finish_binding b s) = v_activeOutboundCalls s"
  "v_activeOutboundCalls (set_binding b f s) = v_activeOutboundCalls s"
  "v_activeOutboundCalls (new_binding sid c m s) = v_activeOutboundCalls s"
  by (simp_all add: finish_binding_def set_binding_def new_binding_def split: option.split)

text \<open>What a continuation of a callback does to the state, before the call is uncounted.\<close>

definition lets_go :: "v2_server \<Rightarrow> v2_server \<Rightarrow> bool" where
  "lets_go r t \<longleftrightarrow> (sane r \<longrightarrow> sane t) \<and> v_activeOutboundCalls t = v_activeOutboundCalls r \<and>
     (\<exists>n \<le> length (v_outboundStreams r). abs_v2 t = (abs_v2 r)\<lparr>s_outstreams := n\<rparr>)"

lemma lets_go_refl: "lets_go r r"
  by (auto simp: lets_go_def abs_v2_def)

lemma lets_go_finish: "lets_go r (finish_binding b r)"
  using finish_binding_facts by (simp add: lets_go_def)

lemma lets_go_send: "lets_go r (set_binding b (\<lambda>x. x\<lparr>ob_nextSend := Suc (ob_nextSend x)\<rparr>) r)"
  using lets_go_refl [of r] by (simp add: lets_go_def set_binding_bounds)

lemma action_lets_go: "lets_go r (snd (action_answered r b is_send v))"
  by (simp add: action_answered_def lets_go_refl lets_go_finish lets_go_send)

lemma receive_lets_go: "lets_go r (snd (receive_answered r b v))"
  by (simp add: receive_answered_def Let_def lets_go_refl lets_go_finish)

lemma lets_go_refines:
  assumes "sane s" and "map_of (v_pending s) tok = Some k" and "is_call k" and "lets_go (resume tok s) t"
  shows "refines auth s (out, end_outbound t)"
proof -
  obtain n where "n \<le> length (v_outboundStreams s)" "abs_v2 t = (abs_v2 (resume tok s))\<lparr>s_outstreams := n\<rparr>"
    using assms(4) by (auto simp: lets_go_def)
  then show ?thesis
    using assms sane_resume [OF assms(1), of tok] by (intro return_refines [OF assms(1-3)]) (auto simp: lets_go_def)
qed

lemma outbound_done_refines:
  assumes "sane s" and "map_of (v_pending s) tok = Some k" and "is_call k"
    and "\<And>v. lets_go (resume tok s) (snd (f (resume tok s) v))"
  shows "refines auth s (outbound_done (resume tok s) result f)"
proof (cases result)
  case (Inl e)
  then show ?thesis using lets_go_refines [OF assms(1-3) lets_go_refl] by (simp add: outbound_done_def)
next
  case (Inr v)
  then show ?thesis using lets_go_refines [OF assms(1-3) assms(4)] by (simp add: outbound_done_def split_beta)
qed

lemma new_binding_facts:
  assumes "sane s" and "v_constructionAttempted s"
  shows "sane (new_binding sid c m s)"
    and "\<exists>n \<le> Suc (length (v_outboundStreams s)). abs_v2 (new_binding sid c m s) =
      (abs_v2 s)\<lparr>s_outstreams := n, s_bounds := insert m (s_bounds (abs_v2 s))\<rparr>"
proof -
  show "sane (new_binding sid c m s)"
    using assms by (auto simp: new_binding_def sane_def sane_tokens_def sane_stage_def less_Suc_eq)
  show "\<exists>n \<le> Suc (length (v_outboundStreams s)). abs_v2 (new_binding sid c m s) =
      (abs_v2 s)\<lparr>s_outstreams := n, s_bounds := insert m (s_bounds (abs_v2 s))\<rparr>"
    by (intro exI [of _ "length (v_outboundStreams (new_binding sid c m s))"])
      (simp add: new_binding_def opened_streams)
qed

lemma stream_opened_refines:
  assumes "sane s" and "map_of (v_pending s) tok = Some (KStreamOpen cid c m)"
  shows "refines auth s (outbound_done (resume tok s) result (\<lambda>t v. stream_opened t c m v))"
proof -
  let ?r = "resume tok s"
  have at: "v_constructionAttempted ?r" using sane_pending [OF assms] by simp
  have stay: "refines auth s (out, end_outbound ?r)" for out
    using lets_go_refines [OF assms _ lets_go_refl] by simp
  have opened: "refines auth s (out, end_outbound (new_binding sid c m ?r))" for out sid
  proof -
    obtain n where "n \<le> Suc (s_outstreams (abs_v2 s))" "abs_v2 (new_binding sid c m ?r) =
        (abs_v2 ?r)\<lparr>s_outstreams := n, s_bounds := insert m (s_bounds (abs_v2 s))\<rparr>"
      using new_binding_facts(2) [OF sane_resume [OF assms(1)] at, of sid c m] by auto
    then show ?thesis
      using move.Opened_Out [OF waits_member [OF assms(2)], of n auth] new_binding_facts(1) [OF sane_resume [OF assms(1)] at]
      by (simp add: refines_def abs_call abs_resume [OF assms])
  qed
  show ?thesis
    using stay opened by (simp add: outbound_done_def stream_opened_def split: sum.split)
qed

lemma callback_done_refines:
  assumes "sane s" and "map_of (v_pending s) tok = Some k" and "is_callback k"
  shows "refines auth s (callback_done cfg (resume tok s) k r)"
proof (cases k)
  case (KSettled h x result)
  then show ?thesis using assms woken_refines [OF assms(1,2)]
    by (simp add: callback_done_def split: sum.split)
next
  case (KCall cid)
  then show ?thesis using outbound_done_refines [OF assms(1,2)] lets_go_refl by (simp add: callback_done_def)
next
  case (KEventOut cid)
  then show ?thesis using outbound_done_refines [OF assms(1,2)] lets_go_refl by (simp add: callback_done_def)
next
  case (KStreamOpen cid c m)
  then show ?thesis using stream_opened_refines assms by (simp add: callback_done_def)
next
  case (KAction b cid is_send)
  then show ?thesis using outbound_done_refines [OF assms(1,2)] action_lets_go by (simp add: callback_done_def)
next
  case (KReceiveOut b cid)
  then show ?thesis using outbound_done_refines [OF assms(1,2)] receive_lets_go by (simp add: callback_done_def)
next
  case KVoid
  then show ?thesis using woken_refines [OF assms(1,2)] by (simp add: callback_done_def)
qed (use assms in simp_all)

section \<open>Stop\<close>

lemma cancel_all_facts:
  "(sane s \<longrightarrow> sane (foldl (\<lambda>t b. outbound_cancel b t) s bs)) \<and>
   (\<exists>n \<le> length (v_outboundStreams s). \<exists>voids. set_mset voids \<subseteq> {KVoid} \<and> abs_v2 (foldl (\<lambda>t b. outbound_cancel b t) s bs) =
     (abs_v2 s)\<lparr>s_outstreams := n, s_waits := s_waits (abs_v2 s) + voids\<rparr>)"
proof (induction bs arbitrary: s)
  case Nil
  show ?case
    by (auto intro!: exI [of _ "length (v_outboundStreams s)"] exI [of _ "{#}"] simp: abs_v2_def)
next
  case (Cons b bs)
  let ?t = "outbound_cancel b s"
  obtain n v where 1: "n \<le> length (v_outboundStreams s)" "set_mset v \<subseteq> {KVoid}"
    "abs_v2 ?t = (abs_v2 s)\<lparr>s_outstreams := n, s_waits := s_waits (abs_v2 s) + v\<rparr>"
    using outbound_cancel_facts(2) [of s b] by blast
  obtain n' v' where 2: "n' \<le> length (v_outboundStreams ?t)" "set_mset v' \<subseteq> {KVoid}"
    "abs_v2 (foldl (\<lambda>t b. outbound_cancel b t) ?t bs) = (abs_v2 ?t)\<lparr>s_outstreams := n', s_waits := s_waits (abs_v2 ?t) + v'\<rparr>"
    using Cons.IH [of ?t] by blast
  have "length (v_outboundStreams ?t) = n"
    using arg_cong [OF 1(3), of s_outstreams] by simp
  with 1 2 have "n' \<le> length (v_outboundStreams s)" "set_mset (v + v') \<subseteq> {KVoid}"
    "abs_v2 (foldl (\<lambda>t b. outbound_cancel b t) s (b # bs)) = (abs_v2 s)\<lparr>s_outstreams := n', s_waits := s_waits (abs_v2 s) + (v + v')\<rparr>"
    by (auto simp: ac_simps)
  moreover have "sane s \<longrightarrow> sane (foldl (\<lambda>t b. outbound_cancel b t) s (b # bs))"
    using Cons.IH [of ?t] outbound_cancel_facts(1) [of s b] by auto
  ultimately show ?case by blast
qed

lemma end_all_facts:
  "(sane s \<longrightarrow> sane (foldl (\<lambda>t sid. end_stream sid t) s sids)) \<and>
   (\<exists>n \<le> length (v_streams s). abs_v2 (foldl (\<lambda>t sid. end_stream sid t) s sids) = (abs_v2 s)\<lparr>s_streams := n\<rparr>)"
proof (induction sids arbitrary: s)
  case Nil
  show ?case by (auto intro!: exI [of _ "length (v_streams s)"] simp: abs_streams_same)
next
  case (Cons sid sids)
  let ?t = "end_stream sid s"
  obtain n where 1: "n \<le> length (v_streams s)" "abs_v2 ?t = (abs_v2 s)\<lparr>s_streams := n\<rparr>"
    using end_stream_facts(2) [of s sid] by blast
  obtain n' where 2: "n' \<le> length (v_streams ?t)"
    "abs_v2 (foldl (\<lambda>t sid. end_stream sid t) ?t sids) = (abs_v2 ?t)\<lparr>s_streams := n'\<rparr>"
    using Cons.IH [of ?t] by blast
  have "length (v_streams ?t) = n" using arg_cong [OF 1(2), of s_streams] by simp
  then have "n' \<le> length (v_streams s)"
    "abs_v2 (foldl (\<lambda>t sid. end_stream sid t) s (sid # sids)) = (abs_v2 s)\<lparr>s_streams := n'\<rparr>"
    using 1 2 by auto
  moreover have "sane s \<longrightarrow> sane (foldl (\<lambda>t sid. end_stream sid t) s (sid # sids))"
    using Cons.IH [of ?t] end_stream_facts(1) [of s sid] by auto
  ultimately show ?case by blast
qed

text \<open>Both cancellations of \<open>#stop\<close> together.\<close>

lemma stop_cancel_facts:
  assumes "s2 = cancel_inbound_streams (cancel_outbound_streams s1)"
  obtains n m voids where "n \<le> length (v_streams s1)" "m \<le> length (v_outboundStreams s1)" "set_mset voids \<subseteq> {KVoid}"
    "abs_v2 s2 = (abs_v2 s1)\<lparr>s_streams := n, s_outstreams := m, s_waits := s_waits (abs_v2 s1) + voids\<rparr>"
    "sane s1 \<longrightarrow> sane s2"
proof -
  let ?o = "foldl (\<lambda>t b. outbound_cancel b t) s1 (map snd (v_outboundStreams s1))"
  let ?c = "cancel_outbound_streams s1"
  obtain m voids where o: "set_mset voids \<subseteq> {KVoid}"
    "abs_v2 ?o = (abs_v2 s1)\<lparr>s_outstreams := m, s_waits := s_waits (abs_v2 s1) + voids\<rparr>" "sane s1 \<longrightarrow> sane ?o"
    using cancel_all_facts [of s1 "map snd (v_outboundStreams s1)"] by blast
  have c: "abs_v2 ?c = (abs_v2 s1)\<lparr>s_outstreams := 0, s_waits := s_waits (abs_v2 s1) + voids\<rparr>" "sane s1 \<longrightarrow> sane ?c"
    using o by (simp_all add: cancel_outbound_streams_def)
  obtain n where n: "n \<le> length (v_streams ?c)" "abs_v2 s2 = (abs_v2 ?c)\<lparr>s_streams := n\<rparr>" "sane ?c \<longrightarrow> sane s2"
    using end_all_facts [of ?c "map fst (v_streams ?c)"] assms by (auto simp: cancel_inbound_streams_def)
  have "length (v_streams ?c) = length (v_streams s1)" using arg_cong [OF c(1), of s_streams] by simp
  then show ?thesis using that [of n 0 voids] n c o(1) by auto
qed

lemma cancel_kept:
  assumes "abs_v2 s2 = (abs_v2 s1)\<lparr>s_streams := n, s_outstreams := m, s_waits := w\<rparr>"
  shows "v_instance s2 = v_instance s1" and "v_constructionAttempted s2 = v_constructionAttempted s1" and "v_finish s2 = v_finish s1"
  using arg_cong [OF assms, of s_instance] arg_cong [OF assms, of s_attempted] arg_cong [OF assms, of s_finish] by simp_all

lemma stop_move:
  assumes "\<not> v_stopAttempted s" and "n \<le> length (v_streams s)" and "m \<le> length (v_outboundStreams s)" and "set_mset voids \<subseteq> {KVoid}"
    and "hook = {#} \<and> \<not> fin \<or> v_active s = [] \<and> v_activeOutboundCalls s \<le> 0 \<and> v_instance s \<and>
      (hook = {#} \<or> hook = {#KStop h params ctx#} \<and> \<not> fin)"
    and "a = (abs_v2 s)\<lparr>s_stopped := True, s_streams := n, s_outstreams := m, s_finish := v_finish s \<or> fin,
      s_waits := s_waits (abs_v2 s) + voids + hook\<rparr>"
  shows "move auth (abs_v2 s) a"
  using move.Stop [of "abs_v2 s" voids n m hook fin h params ctx auth] assms by simp

lemma stop_v2_refines: "sane s \<Longrightarrow> refines auth s (stop_v2 cfg s h params)"
proof (cases "v_stopAttempted s")
  case True
  then show "sane s \<Longrightarrow> ?thesis" by (simp add: stop_v2_def refines_stay)
next
  case False
  assume s: "sane s"
  define s1 where "s1 = s\<lparr>v_stopAttempted := True\<rparr>"
  have s1: "sane s1" "abs_v2 s1 = (abs_v2 s)\<lparr>s_stopped := True\<rparr>" using s by (simp_all add: s1_def)
  show ?thesis
  proof (cases "v_active s \<noteq> [] \<or> v_activeOutboundCalls s > 0")
    case True
    have "refines auth s (out, s1)" for out
      using s1 False stop_move [of s "length (v_streams s)" "length (v_outboundStreams s)" "{#}" "{#}" False]
      by (simp add: refines_def abs_v2_def)
    then show ?thesis using True False by (auto simp: stop_v2_def Let_def s1_def)
  next
    case idle: False
    define s2 where "s2 = cancel_inbound_streams (cancel_outbound_streams s1)"
    obtain n m voids where c: "n \<le> length (v_streams s1)" "m \<le> length (v_outboundStreams s1)" "set_mset voids \<subseteq> {KVoid}"
      "abs_v2 s2 = (abs_v2 s1)\<lparr>s_streams := n, s_outstreams := m, s_waits := s_waits (abs_v2 s1) + voids\<rparr>"
      "sane s1 \<longrightarrow> sane s2"
      by (rule stop_cancel_facts [OF s2_def]) auto
    note k = cancel_kept [OF c(4)]
    have mv: "move auth (abs_v2 s) a"
      if "hook = {#} \<and> \<not> fin \<or> v_instance s \<and> (hook = {#} \<or> hook = {#KStop h params ctx#} \<and> \<not> fin)"
        "a = (abs_v2 s2)\<lparr>s_finish := v_finish s \<or> fin, s_waits := s_waits (abs_v2 s2) + hook\<rparr>" for hook fin ctx a
      using stop_move [OF False _ _ c(3), of n m hook fin h params ctx a auth] that idle c s1(2)
      by (auto simp: s1_def)
    have "refines auth s (out, s2)" for out
      using mv [of "{#}" False] c(5) s1(1) k by (simp add: refines_def abs_v2_def s1_def)
    moreover have "refines auth s (out, s2\<lparr>v_finish := True\<rparr>)" if "v_instance s2" for out
      using mv [of "{#}" True] c(5) s1(1) k that by (simp add: refines_def abs_v2_def s1_def)
    moreover have "refines auth s (out, suspend (KStop h params ctx) t)"
      if "v_instance s2" "new_context scope s2 = (ctx, t)" for out ctx t scope
    proof -
      have t: "t = snd (new_context scope s2)" using that by simp
      have "sane t" using sane_new [of s2] c(5) s1(1) that(1) by (auto simp: t sane_def sane_stage_def)
      moreover have "abs_v2 t = abs_v2 s2" by (simp add: t)
      ultimately show ?thesis
        using mv [of "{#KStop h params ctx#}" False ctx] that(1) k
        by (simp add: refines_def abs_suspend sane_suspend s1_def) (simp add: abs_v2_def)
    qed
    ultimately show ?thesis using False idle
      by (auto simp: stop_v2_def Let_def s1_def [symmetric] s2_def [symmetric] split: prod.split) (simp_all add: s1_def)
  qed
qed

lemma stopped_refines:
  assumes "sane s" and "map_of (v_pending s) tok = Some (KStop h params ctx)"
  shows "refines auth s (stop_finish (resume tok s) h params ctx failure)"
  using move.Stopped [OF waits_member [OF assms(2)], of auth] sane_drop sane_resume [OF assms(1), of tok]
  by (simp add: stop_finish_def refines_def abs_resume [OF assms])

section \<open>Steps\<close>

lemma dispatch_refines: "sane s \<Longrightarrow> refines (screened cfg) s (dispatch cfg s h meth params)"
  by (simp add: dispatch_def Let_def with_params_def with_initialize_def refines_stay initializeSession_refines construct_refines
      invoke_refines publishEvent_refines openStream_refines sendStream_refines receiveStream_refines closeStreamSend_refines
      cancelStream_refines cancel_v2_refines stop_v2_refines split: option.split sum.split)

lemma handle_rpc_refines: "sane s \<Longrightarrow> refines (screened cfg) s (handle_rpc cfg parse s limit bytes)"
  by (simp add: handle_rpc_def Let_def refines_stay dispatch_refines split: option.split)

lemma arrive_refines: "sane s \<Longrightarrow> refines auth s (out, s\<lparr>v_reading := rd, v_next := Suc (v_next s)\<rparr>)"
  by (auto simp: refines_def move.Stay sane_def sane_tokens_def sane_stage_def less_Suc_eq)

lemma posted_refines: "sane s \<Longrightarrow> refines auth s (out, s\<lparr>v_posted := p, v_nextCallbackId := n\<rparr>)"
  by (simp add: refines_def move.Stay)

lemma step_refines: "sane s \<Longrightarrow> refines (screened cfg) s (v2_step cfg parse s e)"
proof (cases e)
  case (V2Body tok bytes)
  assume s: "sane s"
  let ?t = "s\<lparr>v_reading := AList.delete tok (v_reading s)\<rparr>"
  have "refines (screened cfg) ?t (handle_rpc cfg parse ?t limit bytes)" for limit
    by (rule handle_rpc_refines) (use s in simp)
  then have "refines (screened cfg) s (handle_rpc cfg parse ?t limit bytes)" for limit
    by (simp add: refines_def)
  then show ?thesis using V2Body s by (simp add: refines_stay split: option.split)
qed (auto simp: refines_stay proof_verified_refines constructed_refines invoked_refines published_refines opened_refines sent_refines
    received_refines closed_refines stopped_refines callback_done_refines outbound_refines outbound_action_refines
    outbound_receive_refines outbound_cancel_refines woken_refines arrive_refines posted_refines
    split: option.split v2_cont.split)

interpretation authoring: refinement_map "next_v2 cfg parse" sane abs_v2 "move (screened cfg)" for cfg parse
proof
  show "sane (next_v2 cfg parse s e)" if "sane s" for s e
    using step_refines [OF that] by (simp add: refines_def next_v2_def)
  show "move (screened cfg) (abs_v2 s) (abs_v2 (next_v2 cfg parse s e))" if "sane s" for s e
    using step_refines [OF that] by (simp add: refines_def next_v2_def)
qed

lemma sane_initial: "sane initial_v2"
  by (simp add: sane_def sane_tokens_def sane_stage_def initial_v2_def)

lemma abs_initial: "abs_v2 initial_v2 = initial_session"
  by (simp add: abs_v2_def initial_v2_def initial_session_def)

end
