(* ===== verification/Authoring_Sample.thy ===== *)
theory Authoring_Sample
  imports Authoring_Session
begin

text \<open>
  A concrete Authoring V2 session: a protocol instance with transparent encodings, a Plugin with
  one provider, a factory and a stop hook, and the states along a schedule that initializes it,
  constructs it, and invokes it. It shows that the hypotheses of the properties can hold.
\<close>

definition sample_v2_secret :: string where
  "sample_v2_secret = replicate 32 CHR ''k''"

definition sample_v2_limits :: init_limits where
  "sample_v2_limits = \<lparr>max_frame_bytes = 65536, max_retired_ids = 8, max_active_invocations = 2, max_unfinished_executions = 2,
     max_queued_calls = 2, max_active_outbound_calls = 2\<rparr>"

definition sample_initialize :: "string \<Rightarrow> initialize_params" where
  "sample_initialize tok = \<lparr>in_json = JNull, in_api_version = 2, in_session = tok, in_limits = sample_v2_limits,
     required_declarations = [], provided_endpoints = [\<lparr>pe_endpoint_id = ''e'', pe_capability_id = ''cap'',
       pe_descriptor_version = ''1'', pe_descriptor_digest = ''d''\<rparr>], in_routes = [], in_config = JNull\<rparr>"

definition sample_request :: "string \<Rightarrow> initialize_request" where
  "sample_request tok = \<lparr>ir_initialize = sample_initialize tok, ir_callback_origin = ''http://host'', ir_host_nonce = ''n'',
     ir_host_proof = sample_v2_secret\<rparr>"

definition sample_scope :: invocation_scope where
  "sample_scope = \<lparr>scope_id = ''s'', parent_scope_id = None, remaining_budget_nanos = 5, permissions = [], scope_extensions = []\<rparr>"

definition sample_work :: work_params where
  "sample_work = \<lparr>wp_session = ''t'', wp_correlation_id = ''w'', wp_endpoint_id = ''e'', wp_capability_id = ''cap'',
     wp_operation = ''get'', wp_scope = sample_scope, wp_payload = JNull\<rparr>"

definition sample_stream :: stream_params where
  "sample_stream = \<lparr>sp_session = ''t'', sp_correlation_id = ''a'', sp_stream_id = ''1'', sp_sequence = ''0'', sp_message = JNull\<rparr>"

definition sample_lifecycle :: lifecycle_params where
  "sample_lifecycle = \<lparr>lp_session = ''t'', lp_scope_id = ''l'', lp_remaining_budget_nanos = 5\<rparr>"

definition sample_authoring :: authoring_protocol where
  "sample_authoring = \<lparr>AUTHORING_API_VERSION = 2,
     ap_initialize_request = (\<lambda>v. Inr (sample_request (if v = JBool False then ''t'' else ''u''))),
     validateInitializeForRuntimeProfile = (\<lambda>_. None),
     ap_construct = (\<lambda>_ _. Inr sample_lifecycle), ap_stop = (\<lambda>_ _. Inr sample_lifecycle),
     ap_cancel = (\<lambda>_ _. Inr \<lparr>cp_session = ''t'', cp_scope_id = ''s'', cp_correlation_id = ''w''\<rparr>),
     ap_invoke = (\<lambda>_ _. Inr sample_work), ap_event = (\<lambda>_ _. Inr sample_work), ap_stream_open = (\<lambda>_ _. Inr sample_work),
     ap_stream_action = (\<lambda>_ _ _. Inr sample_stream),
     authoringHandshakeProofPayload = (\<lambda>_ _ n. n), authoringHostProofMessage = (\<lambda>d. d), authoringChildProofMessage = (\<lambda>d n. n),
     ap_decodeBase64Url32 = Some, ap_encodeBase64Url = (\<lambda>b. b), ap_sha256 = (\<lambda>b. b), ap_hmac = (\<lambda>k m. k),
     ap_valid_result = (\<lambda>_ _ _. None)\<rparr>"

definition sample_plugin :: plugin_definition where
  "sample_plugin = \<lparr>def_providers = [ProviderDeclaration sample_descriptor], def_dependencies = None, def_config = None,
     def_configurationSchema = None, def_create = True, def_stop = True, def_maxConcurrentRequests = 32\<rparr>"

definition sample_bound :: bound_provider where
  "sample_bound = \<lparr>bp_descriptor = sample_descriptor, bp_has_stream = True, bp_has_event = True\<rparr>"

definition sample_v2_config :: v2_config where
  "sample_v2_config = \<lparr>vc_protocol = sample_authoring, vc_definition = sample_plugin,
     vc_bootstrap = \<lparr>callback_origin = ''http://host'', bootstrap_secret = sample_v2_secret\<rparr>, vc_secret = sample_v2_secret,
     vc_bind = (\<lambda>_. Inr sample_bound), vc_client = (\<lambda>_ _. None), vc_parse_config = (\<lambda>_. None)\<rparr>"

text \<open>The body of a request is its method; a body \<open>again\<close> is an initialization with other parameters.\<close>

definition sample_rpc :: "string \<Rightarrow> json option" where
  "sample_rpc t = Some (JObj [(''jsonrpc'', JStr ''2.0''), (''id'', JStr ''1''),
     (''method'', JStr (if t = ''again'' then ''lenso.initialize'' else t)), (''params'', JBool (t = ''again''))])"

definition sample_next :: "v2_server \<Rightarrow> v2_event \<Rightarrow> v2_server" where
  "sample_next = next_v2 sample_v2_config sample_rpc"

definition sample_handle :: "v2_server \<Rightarrow> rpc_handle" where
  "sample_handle s = \<lparr>rh_id = Some (JStr ''1''), rh_limit = frame_limit s\<rparr>"

text \<open>A request that arrives and whose body is read at once.\<close>

definition sample_call :: "v2_server \<Rightarrow> string \<Rightarrow> v2_event list" where
  "sample_call s m = [V2Arrive ''POST'', V2Body (v_next s) m]"

lemma text_decode_ascii:
  assumes "\<forall>c \<in> set s. (of_char c :: nat) \<le> 127"
  shows "text_decode s = s"
proof -
  have "concat (utf8_chars s) = s"
    by (rule concat_utf8_chars) (rule utf8_valid_ascii [OF assms])
  moreover have "strip_bom s = s"
  proof -
    have "CHR 0xEF \<notin> set s" using assms by auto
    then have "take 3 s \<noteq> [CHR 0xEF, CHR 0xBB, CHR 0xBF]" by (metis in_set_takeD list.set_intros(1))
    then show ?thesis by (simp add: strip_bom_def)
  qed
  ultimately show ?thesis by (simp add: text_decode_def)
qed

text \<open>A request is dispatched with the limit that was in force when it arrived.\<close>

lemma sample_call_runs:
  assumes "v_reading s = []" and "int (length m) \<le> frame_limit s" and "\<forall>c \<in> set m. (of_char c :: nat) \<le> 127"
  shows "run sample_next s (sample_call s m) =
    snd (dispatch sample_v2_config (s\<lparr>v_next := Suc (v_next s)\<rparr>) (sample_handle s)
      (if m = ''again'' then ''lenso.initialize'' else m) (JBool (m = ''again'')))"
proof -
  let ?t = "s\<lparr>v_reading := [(v_next s, frame_limit s)], v_next := Suc (v_next s)\<rparr>"
  have 1: "sample_next s (V2Arrive ''POST'') = ?t"
    using assms(1) by (simp add: sample_next_def next_v2_def)
  have d: "?t\<lparr>v_reading := AList.delete (v_next s) (v_reading ?t)\<rparr> = s\<lparr>v_next := Suc (v_next s)\<rparr>"
    using assms(1) by simp
  have "sample_next ?t (V2Body (v_next s) m) =
      snd (handle_rpc sample_v2_config sample_rpc (s\<lparr>v_next := Suc (v_next s)\<rparr>) (frame_limit s) m)"
    unfolding sample_next_def next_v2_def v2_step.simps d by simp
  then show ?thesis
    using assms(2) by (simp add: sample_call_def 1 handle_rpc_def text_decode_ascii [OF assms(3)])
      (simp add: sample_rpc_def field_def is_text_def text_of_def sample_handle_def Let_def)
qed

text \<open>The states of the schedule: proof under way, initialized, factory under way, constructed, invoked.\<close>

definition sample_initialized :: v2_server where
  "sample_initialized = initial_v2\<lparr>v_initialize := Some (sample_initialize ''t''), v_next := 3,
     v_pending := [(2, KChildProof (sample_handle initial_v2) (JObj [(''initialized'', JNull), (''child_nonce'', JStr ''r''),
       (''child_proof'', JStr sample_v2_secret)]))]\<rparr>"

definition initialize_events :: "v2_event list" where
  "initialize_events = sample_call initial_v2 ''lenso.initialize'' @ [ProofVerified 1 ''r'']"

lemma sample_definition: "validateDefinition sample_authoring sample_plugin (sample_initialize tok) = Inr ()"
  by (simp add: validateDefinition_def sample_authoring_def sample_plugin_def sample_initialize_def def_dependency_list_def
      js_sort_def endpoint_matches_def digest_matches_def sample_descriptor_def)

lemma sample_proof:
  "verifyProof sample_authoring sample_v2_secret (authoringHostProofMessage sample_authoring d) (ir_host_proof (sample_request tok)) = None"
  by (simp add: verifyProof_def createProof_def sample_authoring_def sample_request_def)

lemma sample_config_simps [simp]:
  "vc_protocol sample_v2_config = sample_authoring" "vc_definition sample_v2_config = sample_plugin"
  "vc_secret sample_v2_config = sample_v2_secret" "callback_origin (vc_bootstrap sample_v2_config) = ''http://host''"
  "vc_bind sample_v2_config = (\<lambda>_. Inr sample_bound)"
  by (simp_all add: sample_v2_config_def)

lemma sample_authoring_simps [simp]:
  "ap_initialize_request sample_authoring v = Inr (sample_request (if v = JBool False then ''t'' else ''u''))"
  "ap_construct sample_authoring i v = Inr sample_lifecycle" "ap_stop sample_authoring i v = Inr sample_lifecycle"
  "ap_invoke sample_authoring i v = Inr sample_work" "ap_stream_open sample_authoring i v = Inr sample_work"
  "ap_stream_action sample_authoring i k v = Inr sample_stream" "ap_encodeBase64Url sample_authoring b = b"
  "createProof sample_authoring secret m = secret" "ir_callback_origin (sample_request tok) = ''http://host''"
  "ir_initialize (sample_request tok) = sample_initialize tok" "in_json (sample_initialize tok) = JNull"
  by (simp_all add: sample_authoring_def sample_request_def sample_initialize_def createProof_def)

text \<open>One verified proof: the session in force is replaced.\<close>

lemma sample_verified:
  "snd (proof_verified sample_v2_config s h (sample_request tok) ''r'') =
     suspend (KChildProof h (JObj [(''initialized'', JNull), (''child_nonce'', JStr ''r''), (''child_proof'', JStr sample_v2_secret)]))
       (s\<lparr>v_initialize := Some (sample_initialize tok)\<rparr>)"
  by (simp add: proof_verified_def Let_def sample_proof sample_definition)

lemma run_initialize: "run sample_next initial_v2 initialize_events = sample_initialized"
proof -
  let ?u = "initial_v2\<lparr>v_pending := [(1, KVerify (sample_handle initial_v2) (sample_request ''t''))], v_next := 2\<rparr>"
  have 1: "run sample_next initial_v2 (sample_call initial_v2 ''lenso.initialize'') = ?u"
    by (subst sample_call_runs)
      (simp_all add: initial_v2_def frame_limit_def dispatch_def initializeSession_def suspend_def numeral_2_eq_2)
  have "sample_next ?u (ProofVerified 1 ''r'') = snd (proof_verified sample_v2_config (resume 1 ?u) (sample_handle initial_v2) (sample_request ''t'') ''r'')"
    by (simp add: sample_next_def next_v2_def)
  also have "\<dots> = sample_initialized"
    by (simp add: sample_verified sample_initialized_def suspend_def resume_def initial_v2_def)
  finally show ?thesis by (simp add: initialize_events_def run_append 1)
qed

definition sample_acknowledged :: v2_server where
  "sample_acknowledged = initial_v2\<lparr>v_initialize := Some (sample_initialize ''t''), v_next := 3\<rparr>"

definition sample_ready :: v2_server where
  "sample_ready = initial_v2\<lparr>v_initialize := Some (sample_initialize ''t''), v_next := 6, v_constructionAttempted := True,
     v_instance := True, v_providers := [(''e'', sample_bound)]\<rparr>"

definition sample_invoked :: v2_server where
  "sample_invoked = sample_ready\<lparr>v_next := 9, v_active := [(''w'', \<lparr>ae_ctx = 7, ae_scope = ''s''\<rparr>)], v_contexts := [(7, sample_scope)],
     v_pending := [(8, KInvoke (sample_handle sample_ready) sample_work 7)]\<rparr>"

definition construct_events :: "v2_event list" where
  "construct_events = ChildProofDone 2 # sample_call sample_acknowledged ''lenso.construct'' @ [ConstructDone 5 (Inr True)]"

definition invoke_events :: "v2_event list" where
  "invoke_events = sample_call sample_ready ''lenso.invoke''"

lemma sample_frame [simp]: "v_initialize s = Some (sample_initialize tok) \<Longrightarrow> frame_limit s = 65536"
  by (simp add: frame_limit_def sample_initialize_def sample_v2_limits_def)

lemma sample_inputs: "construct_inputs sample_v2_config i = Inr []"
  by (simp add: construct_inputs_def sample_plugin_def def_dependency_list_def)

lemma sample_binds:
  "bindProviders (\<lambda>_. Inr sample_bound) sample_plugin (provided_endpoints (sample_initialize tok)) [] = Inr [(''e'', sample_bound)]"
  by (simp add: sample_initialize_def sample_plugin_def sample_descriptor_def sample_bound_def)

lemma run_construct: "run sample_next sample_initialized construct_events = sample_ready"
proof -
  let ?h = "sample_handle sample_acknowledged"
  let ?u = "sample_acknowledged\<lparr>v_next := 6, v_constructionAttempted := True, v_contexts := [(4, lifecycle_scope sample_lifecycle)],
      v_pending := [(5, KConstruct ?h (sample_initialize ''t'') sample_lifecycle 4)]\<rparr>"
  have 0: "sample_next sample_initialized (ChildProofDone 2) = sample_acknowledged"
    by (simp add: sample_next_def next_v2_def sample_initialized_def resume_def sample_acknowledged_def initial_v2_def)
  have c: "def_create sample_plugin" by (simp add: sample_plugin_def)
  have 1: "run sample_next sample_acknowledged (sample_call sample_acknowledged ''lenso.construct'') = ?u"
    by (subst sample_call_runs)
      (simp_all add: sample_acknowledged_def initial_v2_def dispatch_def with_initialize_def construct_def new_context_def
        sample_inputs c suspend_def)
  have 2: "sample_next ?u (ConstructDone 5 (Inr True)) = sample_ready"
    by (simp add: sample_next_def next_v2_def construct_finish_def sample_binds drop_context_def resume_def Let_def
        sample_acknowledged_def sample_ready_def initial_v2_def)
  show ?thesis by (simp add: construct_events_def 0 run_append 1 2)
qed

lemma sample_work_simps [simp]:
  "wp_correlation_id sample_work = ''w''" "wp_endpoint_id sample_work = ''e''" "wp_scope sample_work = sample_scope"
  "scope_id sample_scope = ''s''"
  by (simp_all add: sample_work_def sample_scope_def)

lemma sample_limit_simps [simp]:
  "in_limits (sample_initialize tok) = sample_v2_limits" "max_retired_ids sample_v2_limits = 8"
  "max_active_invocations sample_v2_limits = 2" "max_active_outbound_calls sample_v2_limits = 2"
  "max_unfinished_executions sample_v2_limits = 2"
  by (simp_all add: sample_initialize_def sample_v2_limits_def)

lemma run_invoke: "run sample_next sample_ready invoke_events = sample_invoked"
proof -
  have "run sample_next sample_ready (sample_call sample_ready ''lenso.invoke'') = sample_invoked"
    by (subst sample_call_runs)
      (simp_all add: sample_ready_def initial_v2_def dispatch_def with_initialize_def invoke_def known_correlation_def map_has_def
        admit_work_def new_context_def suspend_def sample_invoked_def)
  then show ?thesis by (simp add: invoke_events_def)
qed

lemma run_to_invoked:
  "run sample_next initial_v2 (initialize_events @ construct_events @ invoke_events) = sample_invoked"
  by (simp add: run_append run_initialize run_construct run_invoke)

end
