(* ===== verification/Authoring_Properties.thy ===== *)
theory Authoring_Properties
  imports Authoring_Refinement Authoring_Sample
begin

text \<open>
  What the Authoring V2 server guarantees in every schedule of requests, settlements, callbacks and
  calls of user code: it refines the session specification, its counters agree with the calls
  under way, its limits hold, identities and lifecycle hooks are used once, and only an
  authenticated session that matches the Plugin definition is ever in force.
\<close>

section \<open>Accounting\<close>

text \<open>C1. Every schedule of the Authoring V2 server is a sequence of moves of the session
  specification: the abstraction of each reachable state is reached from the initial session by
  the moves that the specification allows.\<close>

theorem authoring_refines:
  "(move (screened cfg))\<^sup>*\<^sup>* initial_session (abs_v2 (run (next_v2 cfg parse) initial_v2 es))"
  using authoring.run_moves [OF sane_initial, of cfg parse es] by (simp add: abs_initial)

lemma accounted_run: "accounted (abs_v2 (run (next_v2 cfg parse) initial_v2 es))"
  by (rule authoring.run_keeps [OF sane_initial]) (auto simp: abs_initial accounted_initial intro: accounted_move)

lemma number_pending: "number P (s_waits (abs_v2 s)) = int (length (filter (P \<circ> snd) (v_pending s)))"
proof -
  have "size (filter_mset P (image_mset snd (mset xs))) = length (filter (P \<circ> snd) xs)" for xs :: "(nat \<times> v2_cont) list"
    by (induction xs) auto
  then show ?thesis by (simp add: number_def abs_v2_def)
qed

lemma work_pending: "work_of (s_waits (abs_v2 s)) = mset (List.map_filter (work_id \<circ> snd) (v_pending s))"
proof -
  have "work_of (image_mset snd (mset xs)) = mset (List.map_filter (work_id \<circ> snd) xs)" for xs :: "(nat \<times> v2_cont) list"
    by (induction xs) (auto simp: List.map_filter_def work_of_def)
  then show ?thesis by (simp add: abs_v2_def)
qed

text \<open>C4. In every schedule the bookkeeping of the Authoring V2 server is exact: the active
  identities are those of the invocations and stream openings in user code, each once and none of
  them retired; the outbound and event counters are the numbers of the calls under way; at most one
  \<open>create\<close> and one \<open>stop\<close> hook run; and there is an instance only after its factory
  has returned.\<close>

theorem authoring_accounting:
  "let s = run (next_v2 cfg parse) initial_v2 es in
   mset (map fst (v_active s)) = mset (List.map_filter (work_id \<circ> snd) (v_pending s)) \<and>
   distinct (map fst (v_active s)) \<and> distinct (v_retired s) \<and> fst ` set (v_active s) \<inter> set (v_retired s) = {} \<and>
   v_activeOutboundCalls s = int (length (filter (is_call \<circ> snd) (v_pending s))) \<and>
   v_activeEventPublications s = int (length (filter (is_event \<circ> snd) (v_pending s))) \<and>
   length (filter (is_construct \<circ> snd) (v_pending s)) + (if v_instance s then 1 else 0) \<le>
     (if v_constructionAttempted s then 1 else (0 :: nat)) \<and>
   length (filter (is_stop \<circ> snd) (v_pending s)) + (if v_finish s then 1 else 0) \<le> (if v_stopAttempted s then 1 else (0 :: nat))"
  using accounted_run [of cfg parse es]
  by (auto simp: Let_def accounted_def balanced_def staged_def number_pending work_pending split: if_splits)

section \<open>Limits\<close>

lemma limited_run:
  assumes "sane s" and "accounted (abs_v2 s)" and "limited i (abs_v2 s)"
  shows "limited i (abs_v2 (run (next_v2 cfg parse) s es))"
proof -
  have "accounted (abs_v2 (run (next_v2 cfg parse) s es)) \<and> limited i (abs_v2 (run (next_v2 cfg parse) s es))"
    by (rule authoring.run_keeps [OF assms(1)])
      (use assms in \<open>auto intro: accounted_move limited_move simp: accounted_def intro: balanced_move staged_move\<close>)
  then show ?thesis ..
qed

text \<open>C6. Once an Authoring V2 session is initialized, with no other initialization being verified
  and nothing constructed yet, the following holds in every later schedule. The active invocations,
  the event publications and the outbound calls stay within \<open>max_active_invocations\<close>,
  \<open>max_queued_calls\<close> and \<open>max_active_outbound_calls\<close>. The other two limits are compared before
  the work under way is counted, and can be exceeded by it: retired and active identities together
  are at most \<open>max_retired_ids - 1\<close> plus \<open>max_active_invocations\<close>; inbound (outbound) streams with
  their openings under way are at most \<open>max_unfinished_executions - 1\<close> plus
  \<open>max_active_invocations\<close> (\<open>max_active_outbound_calls\<close>).\<close>

theorem authoring_limits:
  assumes "s = run (next_v2 cfg parse) initial_v2 es" and "v_initialize s = Some i" and "\<not> v_constructionAttempted s"
    and "list_all (\<lambda>(tok, k). \<not> is_verify k) (v_pending s)"
  shows "let t = run (next_v2 cfg parse) s es'; limits = in_limits i in
    v_initialize t = Some i \<and>
    int (length (v_active t)) \<le> max 0 (max_active_invocations limits) \<and>
    int (length (v_active t)) + int (length (v_retired t)) \<le>
      max 0 (max_retired_ids limits - 1) + max 0 (max_active_invocations limits) \<and>
    v_activeEventPublications t \<le> max 0 (max_queued_calls limits) \<and>
    v_activeOutboundCalls t \<le> max 0 (max_active_outbound_calls limits) \<and>
    int (length (v_streams t)) + int (length (filter (is_open \<circ> snd) (v_pending t))) \<le>
      max 0 (max_unfinished_executions limits - 1) + max 0 (max_active_invocations limits) \<and>
    int (length (v_outboundStreams t)) + int (length (filter (is_stream_call \<circ> snd) (v_pending t))) \<le>
      max 0 (max_unfinished_executions limits - 1) + max 0 (max_active_outbound_calls limits)"
proof -
  have s: "sane s" "accounted (abs_v2 s)"
    using authoring.inv_run [OF sane_initial] accounted_run assms(1) by simp_all
  have "filter (is_verify \<circ> snd) (v_pending s) = []"
    using assms(4) by (auto simp: list_all_iff filter_empty_conv)
  then have "limited i (abs_v2 s)"
    using s(2) assms(2,3) by (intro limited_start) (simp_all add: number_pending)
  then have "limited i (abs_v2 (run (next_v2 cfg parse) s es'))" using s by (intro limited_run)
  then show ?thesis by (simp add: limited_def clamp_def number_pending)
qed

theorem authoring_limits_witness:
  "v_initialize sample_invoked = Some (sample_initialize ''t'') \<and>
   int (length (v_active sample_invoked)) + int (length (v_retired sample_invoked)) \<le> 7 + 2 \<and> length (v_active sample_invoked) = 1"
  using authoring_limits [OF run_initialize [unfolded sample_next_def, symmetric], of "sample_initialize ''t''" "construct_events @ invoke_events"]
    run_construct run_invoke
  by (simp add: run_append sample_next_def Let_def) (simp add: sample_initialized_def initial_v2_def sample_invoked_def)

section \<open>Identities and hooks\<close>








text \<open>The lifecycle hooks as identities: an event that starts a hook admits it.\<close>

datatype hook = Create_Hook | Stop_Hook

definition running :: "(v2_cont \<Rightarrow> bool) \<Rightarrow> v2_server \<Rightarrow> nat" where
  "running P s = length (filter (P \<circ> snd) (v_pending s))"

definition started_hook :: "v2_config \<Rightarrow> (string \<Rightarrow> json option) \<Rightarrow> v2_server \<Rightarrow> v2_event \<Rightarrow> hook option" where
  "started_hook cfg parse s e =
     (let t = next_v2 cfg parse s e in
      if running is_construct s < running is_construct t then Some Create_Hook
      else if running is_stop s < running is_stop t then Some Stop_Hook
      else None)"

definition used_hooks :: "v2_server \<Rightarrow> hook set" where
  "used_hooks s = (if v_constructionAttempted s then {Create_Hook} else {}) \<union> (if v_stopAttempted s then {Stop_Hook} else {})"

lemma started_hookD:
  assumes "sane s" and "started_hook cfg parse s e = Some k"
  shows "k \<notin> used_hooks s" and "k \<in> used_hooks (next_v2 cfg parse s e)"
  using assms(2) construct_starts [OF authoring.simulation [OF assms(1)], of cfg parse e]
    stop_starts [OF authoring.simulation [OF assms(1)], of cfg parse e]
  by (auto simp: started_hook_def Let_def used_hooks_def number_pending running_def split: if_splits)

interpretation hook_ledger: id_ledger "next_v2 cfg parse" sane "started_hook cfg parse" used_hooks for cfg parse
proof unfold_locales
  show "k \<notin> used_hooks s" "k \<in> used_hooks (next_v2 cfg parse s e)"
    if "sane s" "started_hook cfg parse s e = Some k" for s e k
    using started_hookD [OF that] by simp_all
  show "used_hooks s \<subseteq> used_hooks (next_v2 cfg parse s e)" if "sane s" for s e
    using flags_grow [OF authoring.simulation [OF that], of cfg parse e] by (auto simp: used_hooks_def)
qed

text \<open>C9. The Plugin factory and the stop hook are called at most once each in the life of an
  Authoring V2 server, whatever the Host sends and in whatever order calls settle.\<close>

theorem authoring_hooks_once:
  "distinct (admissions (next_v2 cfg parse) (started_hook cfg parse) initial_v2 es)"
  by (rule hook_ledger.admissions_distinct [OF sane_initial])

section \<open>Authentic sessions\<close>

text \<open>C10. The session an Authoring V2 server runs with is authentic: it comes from a request for the
  callback origin of the private bootstrap, with a Host proof under the bootstrap secret over
  exactly that request, and it matches the Plugin definition.\<close>

theorem authoring_session_authentic:
  assumes "v_initialize (run (next_v2 cfg parse) initial_v2 es) = Some i"
  shows "\<exists>r. ir_initialize r = i \<and> ir_callback_origin r = callback_origin (vc_bootstrap cfg) \<and>
    verifyProof (vc_protocol cfg) (vc_secret cfg) (authoringHostProofMessage (vc_protocol cfg) (request_digest cfg r))
      (ir_host_proof r) = None \<and>
    validateDefinition (vc_protocol cfg) (vc_definition cfg) i = Inr ()"
proof -
  have "admitted_init (screened cfg) (abs_v2 (run (next_v2 cfg parse) initial_v2 es))"
  proof (rule authoring.run_keeps [OF sane_initial])
    show "admitted_init (screened cfg) (abs_v2 initial_v2)"
      by (simp add: admitted_init_def abs_initial) (simp add: initial_session_def)
  qed (rule admitted_init_move)
  then show ?thesis using assms by (auto simp: admitted_init_def authentic_request_def)
qed

theorem authoring_session_authentic_witness:
  "\<exists>r :: initialize_request. ir_initialize r = sample_initialize ''t'' \<and> ir_callback_origin r = ''http://host''"
proof -
  have "v_initialize (run (next_v2 sample_v2_config sample_rpc) initial_v2 initialize_events) = Some (sample_initialize ''t'')"
    using run_initialize by (simp add: sample_next_def sample_initialized_def)
  from authoring_session_authentic [OF this] show ?thesis unfolding sample_config_simps(4) by blast
qed

section \<open>A refused stop\<close>

text \<open>A stop that is refused because of unfinished work can never be repeated: whatever
  happens afterwards, the server does not call the stop hook and does not finish.\<close>

theorem authoring_refused_stop_final:
  assumes "s = run (next_v2 cfg parse) initial_v2 es" and "\<not> v_stopAttempted s"
    and "v_active s \<noteq> [] \<or> v_activeOutboundCalls s > 0"
  shows "let t = run (next_v2 cfg parse) (snd (stop_v2 cfg s h params)) es' in
    \<not> v_finish t \<and> running is_stop t = 0 \<and>
    (\<forall>h' params'. stop_v2 cfg t h' params' = (reply h' (Inl (ErrorObject ''Bun Plugin stopped more than once'')), t))"
proof -
  let ?u = "snd (stop_v2 cfg s h params)"
  have u: "?u = s\<lparr>v_stopAttempted := True\<rparr>" using assms(2,3) by (auto simp: stop_v2_def Let_def)
  have s: "sane s" "staged (abs_v2 s)"
    using authoring.inv_run [OF sane_initial] accounted_run assms(1) by (simp_all add: accounted_def)
  then have "sane ?u" "stuck (abs_v2 ?u)"
    using assms(2) by (auto simp: u stuck_def staged_def)
  then have "stuck (abs_v2 (run (next_v2 cfg parse) ?u es'))"
    by (rule authoring.run_keeps [where P = stuck]) (rule stuck_move)
  then have t: "v_stopAttempted (run (next_v2 cfg parse) ?u es')" "\<not> v_finish (run (next_v2 cfg parse) ?u es')"
    "running is_stop (run (next_v2 cfg parse) ?u es') = 0"
    by (simp_all add: stuck_def number_pending running_def)
  have "stop_v2 cfg t h' params' = (reply h' (Inl (ErrorObject ''Bun Plugin stopped more than once'')), t)"
    if "v_stopAttempted t" for t h' params'
    using that by (simp add: stop_v2_def)
  then show ?thesis using t unfolding Let_def by blast
qed

theorem authoring_refused_stop_final_witness:
  "\<not> v_stopAttempted sample_invoked \<and> v_active sample_invoked \<noteq> [] \<and>
   \<not> v_finish (run sample_next (snd (stop_v2 sample_v2_config sample_invoked (sample_handle sample_invoked) sample_lifecycle))
     [InvokeDone 8 (Inr (Success JNull))])"
proof -
  have "\<not> v_stopAttempted sample_invoked" "v_active sample_invoked \<noteq> []"
    by (simp_all add: sample_invoked_def sample_ready_def initial_v2_def)
  then show ?thesis
    using authoring_refused_stop_final [OF run_to_invoked [unfolded sample_next_def, symmetric],
        of "sample_handle sample_invoked" sample_lifecycle "[InvokeDone 8 (Inr (Success JNull))]"]
    by (simp add: sample_next_def Let_def)
qed

end
