(* ===== verification/Authoring_Outcomes.thy ===== *)
theory Authoring_Outcomes
  imports Authoring_Properties
begin

text \<open>
  The behaviour of single operations of the Authoring V2 server: the admission of a session against
  the Plugin definition, the settlement of an invocation, the budget of nested calls, and three
  interleavings that the guards of the source do not exclude.
\<close>

section \<open>Admission of a session\<close>

text \<open>A dependency and the requirement the Host admitted for it.\<close>

definition agrees :: "initialize_params \<Rightarrow> string \<Rightarrow> raw_dependency \<Rightarrow> bool" where
  "agrees initialize name raw \<longleftrightarrow>
     (\<exists>kind ident d cardinality a. raw = DependencyDeclaration kind ident d cardinality \<and>
        a \<in> set (required_declarations initialize) \<and> rd_requirement_id a = dependency_id name ident \<and>
        rd_cardinality a = cardinality \<and> rd_capability_id a = capability_id d \<and>
        rd_descriptor_version a = descriptor_version d \<and>
        (\<forall>digest. descriptor_digest d = Some digest \<longrightarrow> rd_descriptor_digest a = digest))"

definition serves :: "plugin_definition \<Rightarrow> provided_endpoint \<Rightarrow> bool" where
  "serves definition endpoint \<longleftrightarrow>
     (\<exists>p \<in> set (def_providers definition). capability_id (provider_descriptor_of p) = pe_capability_id endpoint \<and>
        descriptor_version (provider_descriptor_of p) = pe_descriptor_version endpoint \<and>
        (\<forall>digest. descriptor_digest (provider_descriptor_of p) = Some digest \<longrightarrow> pe_descriptor_digest endpoint = digest))"

lemma find_distinct:
  assumes "distinct (map f xs)"
  shows "(case find (\<lambda>x. f x = k) xs of None \<Rightarrow> False | Some x \<Rightarrow> Q x) \<longleftrightarrow> (\<exists>x \<in> set xs. f x = k \<and> Q x)"
  using assms by (induction xs) (auto, metis image_eqI)

lemma requirement_matches_iff:
  assumes "distinct (map rd_requirement_id (required_declarations initialize))"
  shows "requirement_matches initialize (name, raw) \<longleftrightarrow> agrees initialize name raw"
proof (cases raw)
  case (DependencyDeclaration kind ident d cardinality)
  show ?thesis
    unfolding requirement_matches_def snd_conv fst_conv DependencyDeclaration raw_dependency.case find_distinct [OF assms]
    by (auto simp: agrees_def digest_matches_def split: option.splits)
qed (simp_all add: requirement_matches_def agrees_def)

lemma endpoint_matches_iff:
  assumes "distinct (map (capability_id \<circ> provider_descriptor_of) (def_providers definition))"
  shows "endpoint_matches (map provider_descriptor_of (def_providers definition)) endpoint \<longleftrightarrow> serves definition endpoint"
proof -
  have "distinct (map capability_id (map provider_descriptor_of (def_providers definition)))" using assms by simp
  from find_distinct [OF this] show ?thesis
    unfolding endpoint_matches_def by (auto simp: serves_def digest_matches_def split: option.splits)
qed

lemma declared_ids_iff:
  "(\<forall>(name, raw) \<in> set deps. agrees initialize name raw) \<Longrightarrow>
   mapM declared_id deps = Inr (map (\<lambda>(name, raw). case raw of DependencyDeclaration _ ident _ _ \<Rightarrow> dependency_id name ident | _ \<Rightarrow> name) deps)"
  by (induction deps) (auto simp: declared_id_def agrees_def)

text \<open>C17. A session whose requirements have distinct identities is accepted for a Plugin whose
  providers have distinct capabilities exactly when: the runtime profile and the API version fit;
  every dependency has an admitted requirement with its identity, cardinality, capability, version
  and (when declared) digest; the requirements are these identities in sorted order and nothing else;
  there are as many endpoints as providers; and every endpoint is served by a provider with its
  capability, version and (when declared) digest.\<close>

theorem validateDefinition_exact:
  assumes "distinct (map rd_requirement_id (required_declarations initialize))"
    and "distinct (map (capability_id \<circ> provider_descriptor_of) (def_providers definition))"
  shows "validateDefinition proto definition initialize = Inr () \<longleftrightarrow>
    validateInitializeForRuntimeProfile proto initialize = None \<and> in_api_version initialize = AUTHORING_API_VERSION proto \<and>
    (\<forall>(name, raw) \<in> set (def_dependency_list definition). agrees initialize name raw) \<and>
    map rd_requirement_id (required_declarations initialize) =
      js_sort (map (\<lambda>(name, raw). case raw of DependencyDeclaration _ ident _ _ \<Rightarrow> dependency_id name ident | _ \<Rightarrow> name)
        (def_dependency_list definition)) \<and>
    length (provided_endpoints initialize) = length (def_providers definition) \<and>
    (\<forall>endpoint \<in> set (provided_endpoints initialize). serves definition endpoint)"
  (is "?L \<longleftrightarrow> ?P \<and> ?V \<and> ?D \<and> ?R \<and> ?N \<and> ?E")
proof -
  let ?deps = "def_dependency_list definition"
  have "find (\<lambda>nr. \<not> requirement_matches initialize nr) ?deps = None \<longleftrightarrow> ?D"
    using requirement_matches_iff [OF assms(1)] by (auto simp: find_None_all)
  moreover have "find (\<lambda>e. \<not> endpoint_matches (map provider_descriptor_of (def_providers definition)) e) (provided_endpoints initialize) = None
      \<longleftrightarrow> ?E"
    using endpoint_matches_iff [OF assms(2)] by (simp add: find_None_all)
  ultimately have "?L \<longleftrightarrow> ?P \<and> ?V \<and> (\<exists>ids. mapM declared_id ?deps = Inr ids \<and>
      js_sort ids = map rd_requirement_id (required_declarations initialize)) \<and> ?D \<and> ?N \<and> ?E"
    by (auto simp: validateDefinition_def result_simps Let_def split: option.splits)
  then show ?thesis using declared_ids_iff [of ?deps initialize] by auto
qed

definition sample_dependency_plugin :: plugin_definition where
  "sample_dependency_plugin = sample_plugin\<lparr>def_dependencies :=
     Some [(''db'', DependencyDeclaration ''lenso.dependency'' None sample_descriptor ''required'')]\<rparr>"

definition sample_dependency_session :: initialize_params where
  "sample_dependency_session = (sample_initialize ''t'')\<lparr>required_declarations := [\<lparr>rd_requirement_id = ''db'', rd_cardinality = ''required'',
     rd_capability_id = ''cap'', rd_descriptor_version = ''1'', rd_descriptor_digest = ''d''\<rparr>]\<rparr>"

theorem validateDefinition_exact_witness:
  "validateDefinition sample_authoring sample_dependency_plugin sample_dependency_session = Inr () \<and>
   validateDefinition sample_authoring sample_dependency_plugin (sample_initialize ''t'') \<noteq> Inr ()"
proof -
  have "validateDefinition sample_authoring sample_dependency_plugin sample_dependency_session = Inr ()"
    by (subst validateDefinition_exact)
      (simp_all add: sample_dependency_plugin_def sample_dependency_session_def sample_plugin_def sample_initialize_def
        sample_authoring_def sample_descriptor_def def_dependency_list_def js_sort_def agrees_def serves_def dependency_id_def)
  moreover have "validateDefinition sample_authoring sample_dependency_plugin (sample_initialize ''t'') \<noteq> Inr ()"
    by (subst validateDefinition_exact)
      (simp_all add: sample_dependency_plugin_def sample_plugin_def sample_initialize_def def_dependency_list_def agrees_def)
  ultimately show ?thesis ..
qed

section \<open>Settlement of an invocation\<close>

definition settled_state :: "v2_server \<Rightarrow> nat \<Rightarrow> thrown + dispatch_outcome \<Rightarrow> string" where
  "settled_state s ctx result =
     (case result of Inl _ \<Rightarrow> ''abandoned'' | Inr _ \<Rightarrow> if ctx \<in> set (v_aborted s) then ''cancelled'' else ''completed'')"

definition settled_outcome :: "work_params \<Rightarrow> thrown + dispatch_outcome \<Rightarrow> json" where
  "settled_outcome params result =
     (case result of Inl e \<Rightarrow> plugin_failure_v2 e | Inr outcome \<Rightarrow> toWireOutcome outcome params)"

lemma invoke_done_step:
  assumes "map_of (v_pending s) tok = Some (KInvoke h params ctx)"
  shows "next_v2 cfg parse s (InvokeDone tok result) =
    suspend (KSettled h (settlement params (settled_state s ctx result)) (work_result params (settled_outcome params result)))
      (retire_work params (resume tok s))"
  using assms
  by (simp add: next_v2_def invoke_finish_def settled_def settled_state_def settled_outcome_def final_state_def resume_def
      split: sum.split)

lemma map_of_append_fresh: "k \<notin> fst ` set m \<Longrightarrow> map_of (m @ [(k, v)]) k = Some v"
  by (simp add: map_add_Some_iff map_of_eq_None_iff)

text \<open>A suspended call gets the next token.\<close>

lemma sane_fresh: "sane s \<Longrightarrow> v_next s \<notin> fst ` set (v_pending s)"
  by (auto simp: sane_def sane_tokens_def)

lemma suspend_lookup: "sane s \<Longrightarrow> map_of (v_pending (suspend k s)) (v_next s) = Some k"
  by (simp add: suspend_def map_of_append_fresh sane_fresh del: map_of_append)

lemma retire_fields [simp]:
  "v_next (retire_work params s) = v_next s" "v_pending (retire_work params s) = v_pending s"
  "v_contexts (retire_work params s) = v_contexts s" "v_posted (retire_work params s) = v_posted s"
  by (simp_all add: retire_work_def)

lemma sane_run: "sane (run (next_v2 cfg parse) initial_v2 es)"
  by (rule authoring.inv_run [OF sane_initial])

lemma pending_work_active:
  assumes "accounted (abs_v2 s)" and "map_of (v_pending s) tok = Some (KInvoke h params ctx)"
  shows "wp_correlation_id params \<in> fst ` set (v_active s)"
proof -
  have "wp_correlation_id params \<in># work_of (s_waits (abs_v2 s))"
    by (rule work_member [OF waits_member [OF assms(2)]]) simp
  then have "wp_correlation_id params \<in># mset (s_active (abs_v2 s))"
    using assms(1) by (simp add: accounted_def balanced_def)
  then show ?thesis by simp
qed

text \<open>C16. When user code settles an invocation of an Authoring V2 server, its identity moves from the
  active to the retired ones and the Host is told the settlement before the answer: abandoned when
  the provider threw, otherwise cancelled or completed by its signal. The answer carries the
  translated outcome (a bounded plugin failure for a thrown error), or the error of the settlement
  callback when that fails.\<close>

theorem authoring_settlement:
  assumes "s = run (next_v2 cfg parse) initial_v2 es" and "map_of (v_pending s) tok = Some (KInvoke h params ctx)"
  shows "let t = next_v2 cfg parse s (InvokeDone tok result); i = wp_correlation_id params;
      note = KSettled h (settlement params (settled_state s ctx result)) (work_result params (settled_outcome params result)) in
    i \<in> fst ` set (v_active s) \<and> i \<notin> fst ` set (v_active t) \<and> i \<in> set (v_retired t) \<and>
    map_of (v_pending t) tok = None \<and> map_of (v_pending t) (v_next s) = Some note \<and>
    (\<forall>u r. map_of (v_pending u) (v_next s) = Some note \<and> map_has (v_posted u) (v_next s) \<longrightarrow>
       fst (v2_step cfg parse u (CallbackDone (v_next s) r)) =
         reply h (map_sum id (\<lambda>_. work_result params (settled_outcome params result)) (callback_result r)))"
proof -
  let ?k = "KSettled h (settlement params (settled_state s ctx result)) (work_result params (settled_outcome params result))"
  let ?r = "retire_work params (resume tok s)"
  have s: "sane s" using sane_run assms(1) by simp
  have t: "next_v2 cfg parse s (InvokeDone tok result) = suspend ?k ?r"
    by (rule invoke_done_step [OF assms(2)])
  have "map_of (v_pending (suspend ?k ?r)) (v_next ?r) = Some ?k"
    by (rule suspend_lookup) (simp add: sane_resume s)
  then have 1: "map_of (v_pending (suspend ?k ?r)) (v_next s) = Some ?k" by (simp add: resume_def)
  have tok: "tok \<in> fst ` set (v_pending s)" using assms(2) by (force dest: map_of_SomeD)
  then have "tok \<noteq> v_next s" using s by (auto simp: sane_def sane_tokens_def)
  then have 2: "map_of (v_pending (suspend ?k ?r)) tok = None"
    by (auto simp: suspend_def resume_def map_of_eq_None_iff keys_delete)
  have 3: "wp_correlation_id params \<notin> fst ` set (v_active (suspend ?k ?r))" "wp_correlation_id params \<in> set (v_retired (suspend ?k ?r))"
    by (simp_all add: suspend_def retire_work_def keys_delete)
  have 4: "fst (v2_step cfg parse u (CallbackDone (v_next s) r)) =
      reply h (map_sum id (\<lambda>_. work_result params (settled_outcome params result)) (callback_result r))"
    if "map_of (v_pending u) (v_next s) = Some ?k" "map_has (v_posted u) (v_next s)" for u r
    using that by (simp add: callback_done_def split: sum.split)
  show ?thesis
    unfolding Let_def t using 1 2 3 4 pending_work_active [OF _ assms(2)] accounted_run assms(1) by blast
qed

theorem authoring_settlement_witness:
  "''w'' \<in> set (v_retired (next_v2 sample_v2_config sample_rpc sample_invoked (InvokeDone 8 (Inr (Success JNull)))))"
proof -
  have "map_of (v_pending sample_invoked) 8 = Some (KInvoke (sample_handle sample_ready) sample_work 7)"
    by (simp add: sample_invoked_def)
  from authoring_settlement [OF run_to_invoked [unfolded sample_next_def, symmetric] this, of "Inr (Success JNull)"]
  show ?thesis by (simp add: Let_def del: map_of_eq_Some_iff)
qed

section \<open>Contexts after their invocation\<close>

text \<open>The context of an invocation outlives it: after the invocation has settled, a call to the
  Host through that context is still accepted and takes an outbound slot, although the source
  demands an active invocation context.\<close>

theorem settled_context_stays_live:
  assumes "s = run (next_v2 cfg parse) initial_v2 es" and "map_of (v_pending s) tok = Some (KInvoke h params ctx)"
    and "map_of (v_contexts s) ctx = Some scope" and "v_initialize s = Some initialize" and "ctx \<notin> set (v_aborted s)"
    and "v_activeOutboundCalls s < max_active_outbound_calls (in_limits initialize)"
  shows "let t = next_v2 cfg parse s (InvokeDone tok result);
      u = next_v2 cfg parse t (UserOutbound OutCall ctx requestId route oper) in
    wp_correlation_id params \<in> set (v_retired t) \<and> v_activeOutboundCalls u = v_activeOutboundCalls t + 1 \<and>
    (\<exists>k. map_of (v_pending u) k = Some (KCall (outbound_id t)))"
proof -
  define t where "t = next_v2 cfg parse s (InvokeDone tok result)"
  have s: "sane s" using sane_run assms(1) by simp
  have st: "sane t" using authoring.inv_step [OF s] by (simp add: t_def)
  have t: "map_of (v_contexts t) ctx = Some scope" "v_initialize t = Some initialize" "ctx \<notin> set (v_aborted t)"
    "v_activeOutboundCalls t = v_activeOutboundCalls s" "wp_correlation_id params \<in> set (v_retired t)"
    using assms(3-6) by (simp_all add: t_def invoke_done_step [OF assms(2)] suspend_def retire_work_def resume_def)
  have u: "next_v2 cfg parse t (UserOutbound OutCall ctx requestId route oper) =
      suspend (KCall (outbound_id t)) (take_outbound_id (begin_outbound t))"
    using t assms(6) by (simp add: next_v2_def outbound_def outbound_continuation_def)
  have "map_of (v_pending (suspend (KCall (outbound_id t)) (take_outbound_id (begin_outbound t)))) (v_next (take_outbound_id (begin_outbound t))) =
      Some (KCall (outbound_id t))"
    by (rule suspend_lookup) (simp add: abs_call st)
  moreover have "v_activeOutboundCalls (suspend (KCall (outbound_id t)) (take_outbound_id (begin_outbound t))) = v_activeOutboundCalls t + 1"
    by (simp add: suspend_def take_outbound_id_def begin_outbound_def)
  ultimately show ?thesis
    unfolding Let_def t_def [symmetric] u using t(5) by blast
qed

definition sample_route :: route_descriptor where
  "sample_route = \<lparr>rt_requirement_id = ''db'', rt_route_id = ''r'', rt_capability_id = ''cap'', rt_provider_instance = ''p''\<rparr>"

theorem settled_context_stays_live_witness:
  "v_activeOutboundCalls (run sample_next sample_invoked [InvokeDone 8 (Inr (Success JNull)),
     UserOutbound OutCall 7 ''w'' sample_route ''get'']) = 1"
proof -
  have s: "map_of (v_pending sample_invoked) 8 = Some (KInvoke (sample_handle sample_ready) sample_work 7)"
    "map_of (v_contexts sample_invoked) 7 = Some sample_scope" "v_initialize sample_invoked = Some (sample_initialize ''t'')"
    "7 \<notin> set (v_aborted sample_invoked)" "v_activeOutboundCalls sample_invoked < max_active_outbound_calls (in_limits (sample_initialize ''t''))"
    by (simp_all add: sample_invoked_def sample_ready_def initial_v2_def)
  have "v_activeOutboundCalls (next_v2 sample_v2_config sample_rpc sample_invoked (InvokeDone 8 (Inr (Success JNull)))) = 0"
    by (simp add: invoke_done_step [OF s(1)] suspend_def retire_work_def resume_def)
      (simp add: sample_invoked_def sample_ready_def initial_v2_def)
  then show ?thesis
    using settled_context_stays_live [OF run_to_invoked [unfolded sample_next_def, symmetric] s, of "Inr (Success JNull)" "''w''" sample_route "''get''"]
    by (simp add: Let_def sample_next_def)
qed

section \<open>Interleavings that the guards do not exclude\<close>

lemma lookup_after_resume: "tok \<noteq> tok' \<Longrightarrow> map_of (v_pending (resume tok s)) tok' = map_of (v_pending s) tok'"
  by (simp add: resume_def delete_conv')

lemma lookup_after_suspend: "map_of (v_pending s) tok = Some k \<Longrightarrow> map_of (v_pending (suspend k' s)) tok = Some k"
  by (simp add: suspend_def)

lemma proof_verified_accepts:
  assumes "authentic_request cfg r"
  shows "\<exists>v. proof_verified cfg s h r random = (NoOutput, suspend (KChildProof h v) (s\<lparr>v_initialize := Some (ir_initialize r)\<rparr>))"
  using assms by (auto simp: authentic_request_def proof_verified_def Let_def)

text \<open>The guard \<open>initialized more than once\<close> is checked before the proof is awaited: of two
  initializations whose proofs are being verified together both are accepted, and the one that is
  verified later replaces the session in force.\<close>

theorem initialization_not_exclusive:
  assumes "map_of (v_pending s) a = Some (KVerify h r)" and "map_of (v_pending s) b = Some (KVerify h' r')" and "a \<noteq> b"
    and "authentic_request cfg r" and "authentic_request cfg r'"
  shows "let t = next_v2 cfg parse s (ProofVerified a n); u = next_v2 cfg parse t (ProofVerified b n') in
    v_initialize t = Some (ir_initialize r) \<and> v_initialize u = Some (ir_initialize r')"
proof -
  obtain v where t: "next_v2 cfg parse s (ProofVerified a n) =
      suspend (KChildProof h v) ((resume a s)\<lparr>v_initialize := Some (ir_initialize r)\<rparr>)"
    using proof_verified_accepts [OF assms(4), of "resume a s" h n] assms(1) by (auto simp: next_v2_def)
  have "map_of (v_pending (next_v2 cfg parse s (ProofVerified a n))) b = Some (KVerify h' r')"
    unfolding t by (rule lookup_after_suspend) (simp add: lookup_after_resume [OF assms(3)] assms(2))
  then have "v_initialize (next_v2 cfg parse (next_v2 cfg parse s (ProofVerified a n)) (ProofVerified b n')) = Some (ir_initialize r')"
    using proof_verified_accepts [OF assms(5), of "resume b (next_v2 cfg parse s (ProofVerified a n))" h' n']
    by (auto simp: next_v2_def suspend_def)
  moreover have "v_initialize (next_v2 cfg parse s (ProofVerified a n)) = Some (ir_initialize r)"
    by (simp add: t suspend_def)
  ultimately show ?thesis by (simp add: Let_def)
qed

definition race_events :: "v2_event list" where
  "race_events = [V2Arrive ''POST'', V2Arrive ''POST'', V2Body 0 ''lenso.initialize'', V2Body 1 ''again'']"

lemma sample_body_v2:
  assumes "\<forall>c \<in> set m. (of_char c :: nat) \<le> 127" and "int (length m) \<le> limit" and "map_of (v_reading s) tok = Some limit"
  shows "sample_next s (V2Body tok m) =
    snd (dispatch sample_v2_config (s\<lparr>v_reading := AList.delete tok (v_reading s)\<rparr>) \<lparr>rh_id = Some (JStr ''1''), rh_limit = limit\<rparr>
      (if m = ''again'' then ''lenso.initialize'' else m) (JBool (m = ''again'')))"
  using assms(2,3)
  by (simp add: sample_next_def next_v2_def handle_rpc_def text_decode_ascii [OF assms(1)])
    (simp add: sample_rpc_def field_def is_text_def text_of_def Let_def)

definition sample_raced :: v2_server where
  "sample_raced = initial_v2\<lparr>v_next := 4, v_pending := [(2, KVerify \<lparr>rh_id = Some (JStr ''1''), rh_limit = 1048576\<rparr> (sample_request ''t'')),
     (3, KVerify \<lparr>rh_id = Some (JStr ''1''), rh_limit = 1048576\<rparr> (sample_request ''u''))]\<rparr>"

lemma run_race: "run sample_next initial_v2 race_events = sample_raced"
proof -
  let ?h = "\<lparr>rh_id = Some (JStr ''1''), rh_limit = 1048576\<rparr>"
  let ?a = "initial_v2\<lparr>v_reading := [(0, 1048576), (1, 1048576)], v_next := 2\<rparr>"
  let ?b = "initial_v2\<lparr>v_reading := [(1, 1048576)], v_next := 3, v_pending := [(2, KVerify ?h (sample_request ''t''))]\<rparr>"
  have 1: "sample_next (sample_next initial_v2 (V2Arrive ''POST'')) (V2Arrive ''POST'') = ?a"
    by (simp add: sample_next_def next_v2_def initial_v2_def frame_limit_def numeral_2_eq_2)
  have 2: "sample_next ?a (V2Body 0 ''lenso.initialize'') = ?b"
    by (subst sample_body_v2 [where limit = 1048576]) (simp_all add: initial_v2_def dispatch_def initializeSession_def suspend_def)
  have 3: "sample_next ?b (V2Body 1 ''again'') = sample_raced"
    by (subst sample_body_v2 [where limit = 1048576])
      (simp_all add: initial_v2_def dispatch_def initializeSession_def suspend_def sample_raced_def)
  show ?thesis by (simp add: race_events_def 1 2 3 del: One_nat_def)
qed

theorem initialization_not_exclusive_witness:
  "\<exists>es. v_initialize (run sample_next initial_v2 es) = Some (sample_initialize ''t'') \<and>
     v_initialize (sample_next (run sample_next initial_v2 es) (ProofVerified 3 ''r'')) = Some (sample_initialize ''u'')"
proof -
  have a: "authentic_request sample_v2_config (sample_request tok)" for tok
    by (simp add: authentic_request_def sample_proof sample_definition)
  have "map_of (v_pending sample_raced) 2 = Some (KVerify \<lparr>rh_id = Some (JStr ''1''), rh_limit = 1048576\<rparr> (sample_request ''t''))"
    "map_of (v_pending sample_raced) 3 = Some (KVerify \<lparr>rh_id = Some (JStr ''1''), rh_limit = 1048576\<rparr> (sample_request ''u''))"
    by (simp_all add: sample_raced_def)
  from initialization_not_exclusive [OF this _ a a, of sample_rpc "''r''" "''r''"] show ?thesis
    by (intro exI [of _ "race_events @ [ProofVerified 2 ''r'']"]) (simp add: run_append run_race [unfolded sample_next_def] sample_next_def Let_def)
qed

text \<open>The sequence of a stream message is compared before the binding is awaited: two messages
  with the same sequence that arrive together are both given to the binding, and when both are
  accepted the expected sequence has advanced by two, so the sequence in between is never accepted.\<close>

theorem stream_sends_not_exclusive:
  assumes "s = run (next_v2 cfg parse) initial_v2 es" and "map_of (v_streams s) sid = Some e"
    and "sp_stream_id p = sid" and "sp_stream_id q = sid"
    and "sp_sequence p = show_int (int (se_nextSend e))" and "sp_sequence q = show_int (int (se_nextSend e))"
  shows "let (out, s1) = sendStream s h p; (out', s2) = sendStream s1 h' q;
      u = run (next_v2 cfg parse) s2 [SendDone (v_next s) (Inr Accepted), SendDone (Suc (v_next s)) (Inr Accepted)] in
    out = NoOutput \<and> out' = NoOutput \<and> map_of (v_streams u) sid = Some (e\<lparr>se_nextSend := se_nextSend e + 2\<rparr>)"
proof -
  let ?s1 = "suspend (KSend h p) s" and ?s2 = "suspend (KSend h' q) (suspend (KSend h p) s)"
  let ?inc = "\<lambda>e. e\<lparr>se_nextSend := Suc (se_nextSend e)\<rparr>"
  have s: "sane s" "sane ?s1" using sane_run assms(1) by (simp_all add: sane_suspend)
  have 1: "sendStream s h p = (NoOutput, ?s1)" "sendStream ?s1 h' q = (NoOutput, ?s2)"
    using assms(2-6) by (simp_all add: sendStream_def suspend_def)
  have a: "map_of (v_pending ?s2) (v_next s) = Some (KSend h p)"
    by (intro lookup_after_suspend suspend_lookup s)
  have b: "map_of (v_pending ?s2) (Suc (v_next s)) = Some (KSend h' q)"
    using suspend_lookup [OF s(2), of "KSend h' q"] by (simp add: suspend_def)
  let ?t = "update_stream sid ?inc (resume (v_next s) ?s2)"
  have t: "next_v2 cfg parse ?s2 (SendDone (v_next s) (Inr Accepted)) = ?t"
    using a by (simp add: next_v2_def send_finish_def assms(3))
  have st: "map_of (v_streams (resume (v_next s) ?s2)) sid = Some e"
    using assms(2) by (simp add: resume_def suspend_def)
  have e1: "map_of (v_streams ?t) sid = Some (?inc e)"
    using st by (simp add: update_stream_def update_conv')
  have "v_pending ?t = v_pending (resume (v_next s) ?s2)"
    by (simp add: update_stream_def split: option.split)
  then have "map_of (v_pending ?t) (Suc (v_next s)) = Some (KSend h' q)"
    using lookup_after_resume [of "v_next s" "Suc (v_next s)" ?s2] b by simp
  then have "next_v2 cfg parse ?t (SendDone (Suc (v_next s)) (Inr Accepted)) = update_stream sid ?inc (resume (Suc (v_next s)) ?t)"
    by (simp add: next_v2_def send_finish_def assms(4))
  moreover have "map_of (v_streams (resume (Suc (v_next s)) ?t)) sid = Some (?inc e)"
    using e1 by simp
  then have "map_of (v_streams (update_stream sid ?inc (resume (Suc (v_next s)) ?t))) sid = Some (e\<lparr>se_nextSend := se_nextSend e + 2\<rparr>)"
    by (simp add: update_stream_def update_conv')
  ultimately show ?thesis by (simp add: 1 t)
qed

lemma sample_digits: "show_int 0 = ''0''" "show_int 1 = ''1''"
  by code_simp+

definition stream_events :: "v2_event list" where
  "stream_events = sample_call sample_ready ''lenso.stream.open'' @ [OpenDone 8 (Inr Opened)]"

definition sample_streaming :: v2_server where
  "sample_streaming = sample_ready\<lparr>v_next := 10, v_nextStreamId := 2, v_contexts := [(7, sample_scope)], v_retired := [''w''],
     v_streams := [(''1'', \<lparr>se_ctx = 7, se_nextSend = 0, se_nextReceive = 0\<rparr>)],
     v_pending := [(9, KSettled (sample_handle sample_ready) (settlement sample_work ''completed'')
       (work_result sample_work (JObj [(''kind'', JStr ''opened''), (''stream_id'', JStr ''1'')])))]\<rparr>"

lemma run_stream: "run sample_next sample_ready stream_events = sample_streaming"
proof -
  let ?u = "sample_ready\<lparr>v_next := 9, v_active := [(''w'', \<lparr>ae_ctx = 7, ae_scope = ''s''\<rparr>)], v_contexts := [(7, sample_scope)],
     v_pending := [(8, KOpen (sample_handle sample_ready) sample_work 7)]\<rparr>"
  have 1: "run sample_next sample_ready (sample_call sample_ready ''lenso.stream.open'') = ?u"
    by (subst sample_call_runs)
      (simp_all add: sample_ready_def initial_v2_def dispatch_def with_initialize_def openStream_def known_correlation_def map_has_def
        admit_work_def new_context_def suspend_def sample_bound_def)
  have "sample_next ?u (OpenDone 8 (Inr Opened)) = sample_streaming"
    by (simp add: sample_next_def next_v2_def open_finish_def settled_def retire_work_def resume_def suspend_def set_add_def Let_def)
      (simp add: sample_streaming_def sample_ready_def initial_v2_def sample_digits numeral_2_eq_2)
  then show ?thesis by (simp add: stream_events_def run_append 1)
qed

theorem stream_sends_not_exclusive_witness:
  "\<exists>s2 u. s2 = snd (sendStream (snd (sendStream sample_streaming (sample_handle sample_ready) sample_stream)) (sample_handle sample_ready) sample_stream) \<and>
     u = run sample_next s2 [SendDone 10 (Inr Accepted), SendDone 11 (Inr Accepted)] \<and>
     map_option se_nextSend (map_of (v_streams u) ''1'') = Some 2"
proof -
  have r: "sample_streaming = run (next_v2 sample_v2_config sample_rpc) initial_v2 (initialize_events @ construct_events @ stream_events)"
    using run_stream by (simp add: run_append run_initialize [unfolded sample_next_def] run_construct [unfolded sample_next_def] sample_next_def)
  let ?e = "\<lparr>se_ctx = 7, se_nextSend = 0, se_nextReceive = 0\<rparr>"
  have f: "map_of (v_streams sample_streaming) ''1'' = Some ?e" "sp_stream_id sample_stream = ''1''"
    "sp_sequence sample_stream = show_int (int (se_nextSend ?e))" "v_next sample_streaming = 10"
    by (simp_all add: sample_streaming_def sample_stream_def sample_digits)
  show ?thesis
    using stream_sends_not_exclusive [OF r f(1) f(2) f(2) f(3) f(3), of "sample_handle sample_ready" "sample_handle sample_ready"] f(4)
    by (simp add: split_beta Let_def sample_next_def)
qed

section \<open>Budgets\<close>

lemma remaining_nanos_bounds: "0 \<le> initial \<Longrightarrow> 0 \<le> remaining_nanos initial reading \<and> remaining_nanos initial reading \<le> initial"
  by (auto simp: remaining_nanos_def Let_def max_def)

lemma rest_antitone:
  fixes a b i :: int
  assumes "a \<le> b"
  shows "(if max 0 b \<ge> i then 0 else i - max 0 b) \<le> (if max 0 a \<ge> i then 0 else i - max 0 a)"
  using assms by (simp add: max_def)

lemma remaining_nanos_antitone: "reading \<le> reading' \<Longrightarrow> remaining_nanos initial reading' \<le> remaining_nanos initial reading"
proof -
  assume "reading \<le> reading'"
  then have "\<lfloor>reading\<rfloor> \<le> \<lfloor>reading'\<rfloor>" by (rule floor_mono)
  then show ?thesis unfolding remaining_nanos_def Let_def by (rule rest_antitone)
qed

text \<open>A nested call names its parent and never has more budget than it.\<close>

lemma outboundScope_within:
  "0 \<le> remaining_budget_nanos parent \<Longrightarrow>
   parent_scope_id (outboundScope parent reading cid) = Some (scope_id parent) \<and>
   0 \<le> remaining_budget_nanos (outboundScope parent reading cid) \<and>
   remaining_budget_nanos (outboundScope parent reading cid) \<le> remaining_budget_nanos parent"
  using remaining_nanos_bounds by (simp add: outboundScope_def)

end
