(* ===== verification/Frame_Transport.thy ===== *)
theory Frame_Transport
  imports Json_Parse Bounded_Body
begin

text \<open>
  The framed transport that the providers of \<open>fixtures/bun\<close> speak on their standard streams
  (\<open>argument\<close>, \<open>appendBytes\<close>, \<open>readFrame\<close>, \<open>send\<close> and the loop of \<open>framedProvider\<close>, which are
  the same code in \<open>stream-provider.ts\<close>, \<open>event-provider-core.ts\<close> and \<open>request-provider.ts\<close>).

  A frame is the byte length of a JSON document, as a big-endian 32-bit integer, and the document.
  Standard input is the list of the results of \<open>reader.read()\<close> up to \<open>done\<close>. The limit is the
  Number of the command line, whatever it is; adding four to it is exact where it is an integer.
  Standard output is the sequence of bytes handed to the write queue, which keeps their order.

  The theorems show that the transport is transparent: a provider that reads frames behaves as its
  message handler on the messages, whenever the bytes arrive frame by frame, and for any other
  chunking it may fail with the limit error but never sees a wrong message.
\<close>

section \<open>Command line\<close>

fun argument_after :: "string \<Rightarrow> string list \<Rightarrow> string option" where
  "argument_after name [] = None"
| "argument_after name (a # as) =
     (if a = name then (case as of [] \<Rightarrow> None | v # _ \<Rightarrow> Some v) else argument_after name as)"

definition fixture_argument :: "string list \<Rightarrow> string \<Rightarrow> string \<Rightarrow> string" where
  "fixture_argument args name fallback = (case argument_after name args of None \<Rightarrow> fallback | Some v \<Rightarrow> v)"

section \<open>Frames\<close>

text \<open>The comparison \<open>n > limit\<close> and the sum \<open>limit + 4\<close>.\<close>

fun exceeds :: "nat \<Rightarrow> js_number \<Rightarrow> bool" where
  "exceeds n (Fin q) = (of_nat n > q)"
| "exceeds n NaN = False"
| "exceeds n PosInfinity = False"
| "exceeds n NegInfinity = True"

fun plus_four :: "js_number \<Rightarrow> js_number" where
  "plus_four (Fin q) = Fin (q + 4)"
| "plus_four x = x"

datatype frame_error = FrameTooLarge | TruncatedFrame | StdinRejected | FrameSyntaxError

definition appendBytes :: "js_number \<Rightarrow> string \<Rightarrow> string \<Rightarrow> frame_error + string" where
  "appendBytes maxFrameBytes left right =
     (if exceeds (length left + length right) (plus_four maxFrameBytes) then Inl FrameTooLarge
      else Inr (left @ right))"

text \<open>\<open>DataView.setUint32\<close> and \<open>getUint32\<close> at offset 0, big-endian.\<close>

definition setUint32 :: "nat \<Rightarrow> string" where
  "setUint32 n = [char_of (n div 16777216 mod 256), char_of (n div 65536 mod 256),
     char_of (n div 256 mod 256), char_of (n mod 256)]"

fun getUint32 :: "string \<Rightarrow> nat" where
  "getUint32 (a # b # c # d # _) =
     ((of_char a * 256 + of_char b) * 256 + of_char c) * 256 + of_char d"
| "getUint32 _ = 0"

text \<open>
  The loops of \<open>readFrame\<close>: chunks are appended until \<open>n\<close> bytes are buffered. The flag is false
  when the input ended first.
\<close>

fun fill :: "js_number \<Rightarrow> nat \<Rightarrow> string \<Rightarrow> body_read list \<Rightarrow> frame_error + bool \<times> string \<times> body_read list" where
  "fill maxFrameBytes n buffered [] = Inr (n \<le> length buffered, buffered, [])"
| "fill maxFrameBytes n buffered (r # rs) =
     (if n \<le> length buffered then Inr (True, buffered, r # rs)
      else case r of
        ReadRejected \<Rightarrow> Inl StdinRejected
      | Chunk bs \<Rightarrow> bind_result (appendBytes maxFrameBytes buffered bs) (\<lambda>b. fill maxFrameBytes n b rs))"

text \<open>A frame, or \<open>None\<close> when the input ends before a header is complete.\<close>

definition readFrame ::
  "(rat \<Rightarrow> js_number) \<Rightarrow> js_number \<Rightarrow> string \<Rightarrow> body_read list \<Rightarrow>
   frame_error + json option \<times> string \<times> body_read list" where
  "readFrame rnd maxFrameBytes buffered rs =
     bind_result (fill maxFrameBytes 4 buffered rs) (\<lambda>(full, b, rs1).
       if \<not> full then Inr (None, b, rs1)
       else let n = getUint32 b in
         if exceeds n maxFrameBytes then Inl FrameTooLarge
         else bind_result (fill maxFrameBytes (n + 4) b rs1) (\<lambda>(full, b, rs2).
           if \<not> full then Inl TruncatedFrame
           else case JSON_parse rnd (text_decode (take n (drop 4 b))) of
             None \<Rightarrow> Inl FrameSyntaxError
           | Some v \<Rightarrow> Inr (Some v, drop (n + 4) b, rs2)))"

definition frame_bytes :: "json \<Rightarrow> string" where
  "frame_bytes message = setUint32 (byte_length message) @ stringify message"

definition send_frame :: "js_number \<Rightarrow> json \<Rightarrow> frame_error + string" where
  "send_frame maxFrameBytes message =
     (if exceeds (byte_length message) maxFrameBytes then Inl FrameTooLarge
      else Inr (frame_bytes message))"

section \<open>The message loop\<close>

fun truthy :: "json \<Rightarrow> bool" where
  "truthy JNull = False"
| "truthy (JBool b) = b"
| "truthy (JNum x) = (x \<noteq> Fin 0 \<and> x \<noteq> NaN)"
| "truthy (JStr s) = (s \<noteq> [])"
| "truthy (JArr _) = True"
| "truthy (JObj _) = True"

text \<open>What the body of the loop does with one message.\<close>

datatype 's loop_step = Proceed 's "json option" | Finish | Fail string | Exit nat

datatype serve_end = Returned | FrameFailed frame_error | HandlerFailed string | Exited nat

lemma fill_bytes:
  "fill mx n b rs = Inr (full, b', rs') \<Longrightarrow>
     length b' + sum_list (map (\<lambda>r. case r of Chunk bs \<Rightarrow> length bs | ReadRejected \<Rightarrow> 0) rs') =
     length b + sum_list (map (\<lambda>r. case r of Chunk bs \<Rightarrow> length bs | ReadRejected \<Rightarrow> 0) rs) \<and>
     (full \<longleftrightarrow> n \<le> length b')"
  by (induction mx n b rs arbitrary: b' rs' rule: fill.induct)
    (auto simp: appendBytes_def result_simps split: if_splits body_read.splits)

definition unread :: "string \<Rightarrow> body_read list \<Rightarrow> nat" where
  "unread b rs = length b + sum_list (map (\<lambda>r. case r of Chunk bs \<Rightarrow> length bs | ReadRejected \<Rightarrow> 0) rs)"

lemma readFrame_shrinks: "readFrame rnd mx b rs = Inr (Some v, b', rs') \<Longrightarrow> unread b' rs' < unread b rs"
  by (fastforce simp: readFrame_def result_simps Let_def unread_def split: if_splits option.splits
      dest!: fill_bytes)

function serve_frames ::
  "(rat \<Rightarrow> js_number) \<Rightarrow> js_number \<Rightarrow> ('s \<Rightarrow> json \<Rightarrow> 's loop_step) \<Rightarrow> 's \<Rightarrow> string \<Rightarrow> body_read list \<Rightarrow>
   serve_end \<times> 's \<times> string" where
  "serve_frames rnd mx handle s b rs =
     (case readFrame rnd mx b rs of
        Inl e \<Rightarrow> (FrameFailed e, s, [])
      | Inr (None, _, _) \<Rightarrow> (Returned, s, [])
      | Inr (Some v, b', rs') \<Rightarrow>
          if \<not> truthy v then (Returned, s, [])
          else case handle s v of
            Finish \<Rightarrow> (Returned, s, [])
          | Fail e \<Rightarrow> (HandlerFailed e, s, [])
          | Exit n \<Rightarrow> (Exited n, s, [])
          | Proceed s' None \<Rightarrow> serve_frames rnd mx handle s' b' rs'
          | Proceed s' (Some m) \<Rightarrow>
              (case send_frame mx m of
                 Inl e \<Rightarrow> (FrameFailed e, s', [])
               | Inr bytes \<Rightarrow>
                   (case serve_frames rnd mx handle s' b' rs' of
                      (e, s'', out) \<Rightarrow> (e, s'', bytes @ out))))"
  by pat_completeness auto
termination
  by (relation "measure (\<lambda>(_, _, _, _, b, rs). unread b rs)") (auto dest: readFrame_shrinks)

declare serve_frames.simps [simp del]

text \<open>
  \<open>framedProvider\<close>: the first frame is the handshake, answered by \<open>accept\<close> with the new state, the
  acknowledgement and whether the session is active; then the loop.
\<close>

definition framedProvider ::
  "(rat \<Rightarrow> js_number) \<Rightarrow> js_number \<Rightarrow> ('s \<Rightarrow> json \<Rightarrow> 's \<times> json \<times> bool) \<Rightarrow> ('s \<Rightarrow> json \<Rightarrow> 's loop_step) \<Rightarrow> 's \<Rightarrow>
   body_read list \<Rightarrow> serve_end \<times> 's \<times> string" where
  "framedProvider rnd mx accept handle s rs =
     (case readFrame rnd mx [] rs of
        Inl e \<Rightarrow> (FrameFailed e, s, [])
      | Inr (None, _, _) \<Rightarrow> (HandlerFailed ''handshake required'', s, [])
      | Inr (Some first, b, rs') \<Rightarrow>
          if \<not> truthy first \<or> field first ''kind'' \<noteq> Some (JStr ''handshake'')
          then (HandlerFailed ''handshake required'', s, [])
          else case accept s first of (s', ack, active) \<Rightarrow>
            (case send_frame mx ack of
               Inl e \<Rightarrow> (FrameFailed e, s', [])
             | Inr bytes \<Rightarrow>
                 if \<not> active then (Returned, s', bytes)
                 else case serve_frames rnd mx handle s' b rs' of
                   (e, s'', out) \<Rightarrow> (e, s'', bytes @ out)))"

section \<open>The transport on messages\<close>

text \<open>What the loop does with the messages themselves, and the messages it sends.\<close>

fun serve_messages ::
  "js_number \<Rightarrow> ('s \<Rightarrow> json \<Rightarrow> 's loop_step) \<Rightarrow> 's \<Rightarrow> json list \<Rightarrow> serve_end \<times> 's \<times> json list" where
  "serve_messages mx handle s [] = (Returned, s, [])"
| "serve_messages mx handle s (v # vs) =
     (if \<not> truthy v then (Returned, s, [])
      else case handle s v of
        Finish \<Rightarrow> (Returned, s, [])
      | Fail e \<Rightarrow> (HandlerFailed e, s, [])
      | Exit n \<Rightarrow> (Exited n, s, [])
      | Proceed s' None \<Rightarrow> serve_messages mx handle s' vs
      | Proceed s' (Some m) \<Rightarrow>
          if exceeds (byte_length m) mx then (FrameFailed FrameTooLarge, s', [])
          else case serve_messages mx handle s' vs of (e, s'', ms) \<Rightarrow> (e, s'', m # ms))"

definition framed :: "serve_end \<times> 's \<times> json list \<Rightarrow> serve_end \<times> 's \<times> string" where
  "framed r = (case r of (e, s, ms) \<Rightarrow> (e, s, concat (map frame_bytes ms)))"

text \<open>A message that can be framed under the limit and reads back.\<close>

definition framable :: "js_number \<Rightarrow> json \<Rightarrow> bool" where
  "framable mx v \<longleftrightarrow>
     wire v \<and> utf8_valid (stringify v) \<and> \<not> exceeds (byte_length v) mx \<and> byte_length v < 4294967296"

section \<open>Laws\<close>

lemma uint32_roundtrip: "n < 4294967296 \<Longrightarrow> getUint32 (setUint32 n @ bs) = n"
proof -
  assume "n < 4294967296"
  then have d: "n div 16777216 mod 256 = n div 256 div 256 div 256" "n div 65536 = n div 256 div 256"
    by (simp_all add: div_mult2_eq [symmetric])
  have "getUint32 (setUint32 n @ bs) =
      ((n div 16777216 mod 256 * 256 + n div 65536 mod 256) * 256 + n div 256 mod 256) * 256 + n mod 256"
    by (simp add: setUint32_def of_char_of)
  also have "\<dots> = n" by (simp only: d div_mult_mod_eq)
  finally show ?thesis .
qed

lemma length_setUint32 [simp]: "length (setUint32 n) = 4"
  by (simp add: setUint32_def)

lemma getUint32_prefix: "4 \<le> length b \<Longrightarrow> getUint32 (b @ bs) = getUint32 b"
  by (cases b rule: getUint32.cases) auto

lemma frame_parts:
  assumes "framable mx v" "exact_on_integers rnd"
  shows "JSON_parse rnd (text_decode (take (byte_length v) (drop 4 (frame_bytes v @ bs)))) = Some v"
    "getUint32 (frame_bytes v @ bs) = byte_length v" "length (frame_bytes v) = byte_length v + 4"
  using assms parse_stringify [OF assms(2)] text_decode_stringify [of v]
  by (simp_all add: framable_def frame_bytes_def uint32_roundtrip byte_length_def)

lemma exceeds_mono: "exceeds m x \<Longrightarrow> m \<le> n \<Longrightarrow> exceeds n x"
  by (cases x) (auto intro: order_less_le_trans)

lemma frame_fits:
  assumes "framable mx v"
  shows "\<not> exceeds (length (frame_bytes v)) (plus_four mx)"
  using assms by (cases mx) (auto simp: framable_def frame_bytes_def byte_length_def)

lemma fill_cases:
  assumes "chunk_bytes rs = Some bs"
  obtains "fill mx n b rs = Inl FrameTooLarge"
  | b' rs' bs' where "fill mx n b rs = Inr (n \<le> length (b @ bs), b', rs')"
      "chunk_bytes rs' = Some bs'" "b' @ bs' = b @ bs" "n \<le> length (b @ bs) \<longrightarrow> n \<le> length b'"
proof -
  have "fill mx n b rs = Inl FrameTooLarge \<or>
    (\<exists>b' rs' bs'. fill mx n b rs = Inr (n \<le> length (b @ bs), b', rs') \<and> chunk_bytes rs' = Some bs' \<and>
       b' @ bs' = b @ bs \<and> (n \<le> length (b @ bs) \<longrightarrow> n \<le> length b'))"
    using assms
  proof (induction rs arbitrary: b bs)
    case (Cons r rs)
    then obtain cs ds where r: "r = Chunk cs" "chunk_bytes rs = Some ds" "bs = cs @ ds"
      by (cases r) auto
    then show ?case using Cons.IH [OF r(2), of "b @ cs"] Cons.prems
      by (auto simp: appendBytes_def)
  qed auto
  then show ?thesis using that by blast
qed

lemma readFrame_cases:
  assumes "framable mx v" "exact_on_integers rnd" "chunk_bytes rs = Some bs" "b @ bs = frame_bytes v @ rest"
  obtains "readFrame rnd mx b rs = Inl FrameTooLarge"
  | b' rs' bs' where "readFrame rnd mx b rs = Inr (Some v, b', rs')" "chunk_bytes rs' = Some bs'" "b' @ bs' = rest"
proof (cases rule: fill_cases [OF assms(3), of mx 4 b])
  case 1
  then show ?thesis using that by (simp add: readFrame_def)
next
  case (2 b1 rs1 bs1)
  note parts = frame_parts [OF assms(1,2)]
  have full: "4 \<le> length b1" "4 \<le> length (b @ bs)"
    using 2(4) assms(4) parts(3) by (simp_all add: trans_le_add2)
  have n: "getUint32 b1 = byte_length v"
    using getUint32_prefix [OF full(1), of bs1] 2(3) assms(4) parts(2) [of rest] by simp
  have ok: "\<not> exceeds (byte_length v) mx" using assms(1) by (simp add: framable_def)
  show ?thesis
  proof (cases rule: fill_cases [OF 2(2), of mx "byte_length v + 4" b1])
    case 1
    then show ?thesis using that 2(1) full n ok by (simp add: readFrame_def)
  next
    case inner: (2 b2 rs2 bs2)
    have whole: "b2 @ bs2 = frame_bytes v @ rest" using inner(3) 2(3) assms(4) by simp
    have long: "byte_length v + 4 \<le> length b2" "byte_length v + 4 \<le> length (b1 @ bs1)"
      using inner(4) 2(3) assms(4) parts(3) by (simp_all add: trans_le_add1)
    have take: "take (byte_length v) (drop 4 b2) = take (byte_length v) (drop 4 (frame_bytes v @ rest))"
      using long(1) arg_cong [OF whole, of "\<lambda>xs. take (byte_length v) (drop 4 xs)"] by simp
    have "drop (byte_length v + 4) b2 @ bs2 = rest"
      using long(1) arg_cong [OF whole, of "drop (byte_length v + 4)"] parts(3) by simp
    then show ?thesis
      using that(2) 2(1) full n ok inner(1,2) long(2) take parts(1) [of rest] by (simp add: readFrame_def)
  qed
qed

lemma readFrame_end:
  assumes "chunk_bytes rs = Some bs" "b @ bs = []"
  obtains "readFrame rnd mx b rs = Inl FrameTooLarge" | b' rs' where "readFrame rnd mx b rs = Inr (None, b', rs')"
  by (cases rule: fill_cases [OF assms(1), of mx 4 b]) (use assms(2) that in \<open>auto simp: readFrame_def\<close>)

lemma fill_aligned:
  assumes "\<not> exceeds (length (b @ concat cs)) (plus_four mx)" "n \<le> length (b @ concat cs)"
  obtains b' cs' where "fill mx n b (map Chunk cs @ rs) = Inr (True, b', map Chunk cs' @ rs)"
    "b' @ concat cs' = b @ concat cs" "set cs' \<subseteq> set cs" "n \<le> length b'"
proof -
  have "\<exists>b' cs'. fill mx n b (map Chunk cs @ rs) = Inr (True, b', map Chunk cs' @ rs) \<and>
      b' @ concat cs' = b @ concat cs \<and> set cs' \<subseteq> set cs \<and> n \<le> length b'"
    using assms
  proof (induction cs arbitrary: b)
    case Nil
    then show ?case by (cases rs) (auto intro: exI [of _ "[]"])
  next
    case (Cons c cs)
    show ?case
    proof (cases "n \<le> length b")
      case True
      then show ?thesis by (auto intro!: exI [of _ "c # cs"])
    next
      case False
      have "\<not> exceeds (length b + length c) (plus_four mx)"
        using Cons.prems(1) exceeds_mono by fastforce
      moreover have "\<exists>b' cs'. fill mx n (b @ c) (map Chunk cs @ rs) = Inr (True, b', map Chunk cs' @ rs) \<and>
          b' @ concat cs' = (b @ c) @ concat cs \<and> set cs' \<subseteq> set cs \<and> n \<le> length b'"
        using Cons.prems by (intro Cons.IH) (simp_all add: add.assoc)
      ultimately show ?thesis using False by (fastforce simp: appendBytes_def)
    qed
  qed
  then show ?thesis using that by blast
qed

text \<open>A frame that arrives in chunks of its own is read without looking at what follows.\<close>

lemma readFrame_aligned:
  assumes "framable mx v" "exact_on_integers rnd" "concat cs = frame_bytes v" "[] \<notin> set cs"
  shows "readFrame rnd mx [] (map Chunk cs @ rs) = Inr (Some v, [], rs)"
proof -
  note parts = frame_parts [OF assms(1,2)]
  note fits = frame_fits [OF assms(1)]
  obtain b1 cs1 where one: "fill mx 4 [] (map Chunk cs @ rs) = Inr (True, b1, map Chunk cs1 @ rs)"
    "b1 @ concat cs1 = frame_bytes v" "set cs1 \<subseteq> set cs" "4 \<le> length b1"
    by (rule fill_aligned [of "[]" cs mx 4 rs]) (use assms(3) fits parts(3) in auto)
  obtain b2 cs2 where two:
    "fill mx (byte_length v + 4) b1 (map Chunk cs1 @ rs) = Inr (True, b2, map Chunk cs2 @ rs)"
    "b2 @ concat cs2 = frame_bytes v" "set cs2 \<subseteq> set cs1" "byte_length v + 4 \<le> length b2"
    by (rule fill_aligned [of b1 cs1 mx "byte_length v + 4" rs]) (use one(2) fits parts(3) in auto)
  have "length b2 + length (concat cs2) = byte_length v + 4"
    using arg_cong [OF two(2), of length] parts(3) by simp
  then have "length (concat cs2) = 0" using two(4) by linarith
  then have "concat cs2 = []" by (simp only: length_0_conv)
  moreover have "[] \<notin> set cs2" using assms(4) one(3) two(3) by blast
  ultimately have whole: "cs2 = []" "b2 = frame_bytes v" using two(2) by (cases cs2; auto)+
  have "getUint32 b1 = byte_length v"
    using getUint32_prefix [OF one(4), of "concat cs1"] one(2) parts(2) [of "[]"] by simp
  then show ?thesis
    using one(1) two(1) whole parts(1) [of "[]"] parts(3) assms(1) by (simp add: readFrame_def framable_def)
qed

text \<open>One turn of the loop on a message: the end of the loop, or the next state and what is sent.\<close>

definition turn ::
  "js_number \<Rightarrow> ('s \<Rightarrow> json \<Rightarrow> 's loop_step) \<Rightarrow> 's \<Rightarrow> json \<Rightarrow> serve_end \<times> 's + 's \<times> json list" where
  "turn mx handle s v =
     (if \<not> truthy v then Inl (Returned, s)
      else case handle s v of
        Finish \<Rightarrow> Inl (Returned, s)
      | Fail e \<Rightarrow> Inl (HandlerFailed e, s)
      | Exit n \<Rightarrow> Inl (Exited n, s)
      | Proceed s' None \<Rightarrow> Inr (s', [])
      | Proceed s' (Some m) \<Rightarrow>
          if exceeds (byte_length m) mx then Inl (FrameFailed FrameTooLarge, s') else Inr (s', [m]))"

lemma serve_messages_turn:
  "serve_messages mx handle s (v # vs) =
     (case turn mx handle s v of
        Inl (e, s') \<Rightarrow> (e, s', [])
      | Inr (s', ms) \<Rightarrow> (case serve_messages mx handle s' vs of (e, s'', ns) \<Rightarrow> (e, s'', ms @ ns)))"
  by (simp add: turn_def split: loop_step.split option.split prod.split)

declare serve_messages.simps(2) [simp del]

lemma serve_frames_turn:
  assumes "readFrame rnd mx b rs = Inr (Some v, b', rs')"
  shows "serve_frames rnd mx handle s b rs =
     (case turn mx handle s v of
        Inl (e, s') \<Rightarrow> (e, s', [])
      | Inr (s', ms) \<Rightarrow>
          (case serve_frames rnd mx handle s' b' rs' of (e, s'', out) \<Rightarrow> (e, s'', concat (map frame_bytes ms) @ out)))"
  using assms
  by (simp add: serve_frames.simps [of rnd mx handle s b rs] turn_def send_frame_def
      split: loop_step.split option.split prod.split)

lemma serve_frames_stops:
  "readFrame rnd mx b rs = Inl e \<Longrightarrow> serve_frames rnd mx handle s b rs = (FrameFailed e, s, [])"
  "readFrame rnd mx b rs = Inr (None, b', rs') \<Longrightarrow> serve_frames rnd mx handle s b rs = (Returned, s, [])"
  by (simp_all add: serve_frames.simps [of rnd mx handle s b rs])

theorem framed_any_chunking:
  assumes "exact_on_integers rnd" "\<forall>v \<in> set vs. framable mx v"
    and "chunk_bytes rs = Some bs" "b @ bs = concat (map frame_bytes vs)"
  shows "serve_frames rnd mx handle s b rs = framed (serve_messages mx handle s vs) \<or>
    (\<exists>us s' ms. take (length us) vs = us \<and> serve_messages mx handle s us = (Returned, s', ms) \<and>
       serve_frames rnd mx handle s b rs = (FrameFailed FrameTooLarge, s', concat (map frame_bytes ms)))"
  using assms(2-)
proof (induction vs arbitrary: s b rs bs)
  case Nil
  then have "b @ bs = []" by simp
  then show ?case
    by (cases rule: readFrame_end [OF Nil.prems(2), of b rnd mx])
      (auto simp: serve_frames_stops framed_def)
next
  case (Cons v vs)
  have f: "framable mx v" "b @ bs = frame_bytes v @ concat (map frame_bytes vs)"
    "\<forall>v \<in> set vs. framable mx v" using Cons.prems by auto
  show ?case
  proof (cases rule: readFrame_cases [OF f(1) assms(1) Cons.prems(2) f(2)])
    case 1
    then show ?thesis by (intro disjI2 exI [of _ "[]"]) (simp add: serve_frames_stops)
  next
    case (2 b' rs' bs')
    note frames = serve_frames_turn [OF 2(1), of handle s] and messages = serve_messages_turn [of mx handle s v]
    show ?thesis
    proof (cases "turn mx handle s v")
      case (Inl r)
      then show ?thesis by (cases r) (simp add: frames messages framed_def)
    next
      case (Inr r)
      obtain s' ms where r: "r = (s', ms)" by (cases r)
      from Cons.IH [OF f(3) 2(2,3), of s'] show ?thesis
      proof (elim disjE exE conjE)
        assume "serve_frames rnd mx handle s' b' rs' = framed (serve_messages mx handle s' vs)"
        then show ?thesis using Inr r by (simp add: frames messages framed_def split: prod.split)
      next
        fix us s'' ns
        assume "take (length us) vs = us" "serve_messages mx handle s' us = (Returned, s'', ns)"
          "serve_frames rnd mx handle s' b' rs' = (FrameFailed FrameTooLarge, s'', concat (map frame_bytes ns))"
        then show ?thesis using Inr r
          by (intro disjI2 exI [of _ "v # us"]) (simp add: frames messages)
      qed
    qed
  qed
qed

text \<open>The chunks of each message, in order, none of them empty and none crossing a frame boundary.\<close>

definition frame_chunks :: "string list list \<Rightarrow> json list \<Rightarrow> bool" where
  "frame_chunks css vs \<longleftrightarrow> list_all2 (\<lambda>cs v. concat cs = frame_bytes v \<and> [] \<notin> set cs) css vs"

lemma serve_aligned:
  assumes "exact_on_integers rnd" "\<forall>v \<in> set vs. framable mx v" "frame_chunks css vs"
  shows "serve_frames rnd mx handle s [] (map Chunk (concat css)) = framed (serve_messages mx handle s vs)"
  using assms(2-)
proof (induction vs arbitrary: s css)
  case Nil
  then show ?case
    by (simp add: frame_chunks_def serve_frames.simps [of rnd mx handle s "[]" "[]"] readFrame_def framed_def)
next
  case (Cons v vs)
  obtain cs css' where css: "css = cs # css'" "concat cs = frame_bytes v" "[] \<notin> set cs" "frame_chunks css' vs"
    using Cons.prems by (auto simp: frame_chunks_def list_all2_Cons2)
  have read: "readFrame rnd mx [] (map Chunk (concat css)) = Inr (Some v, [], map Chunk (concat css'))"
    using readFrame_aligned [OF _ assms(1) css(2,3)] Cons.prems css(1) by simp
  have IH: "serve_frames rnd mx handle s' [] (map Chunk (concat css')) = framed (serve_messages mx handle s' vs)" for s'
    using Cons.IH [OF _ css(4)] Cons.prems by simp
  show ?case
    by (simp add: serve_frames_turn [OF read] serve_messages_turn IH framed_def split: sum.split prod.split)
qed

text \<open>The provider on the messages themselves: the handshake, then the loop.\<close>

definition provide_messages ::
  "js_number \<Rightarrow> ('s \<Rightarrow> json \<Rightarrow> 's \<times> json \<times> bool) \<Rightarrow> ('s \<Rightarrow> json \<Rightarrow> 's loop_step) \<Rightarrow> 's \<Rightarrow> json list \<Rightarrow>
   serve_end \<times> 's \<times> json list" where
  "provide_messages mx accept handle s vs =
     (case vs of
        [] \<Rightarrow> (HandlerFailed ''handshake required'', s, [])
      | first # rest \<Rightarrow>
          if \<not> truthy first \<or> field first ''kind'' \<noteq> Some (JStr ''handshake'')
          then (HandlerFailed ''handshake required'', s, [])
          else case accept s first of (s', ack, active) \<Rightarrow>
            if exceeds (byte_length ack) mx then (FrameFailed FrameTooLarge, s', [])
            else if \<not> active then (Returned, s', [ack])
            else case serve_messages mx handle s' rest of (e, s'', ms) \<Rightarrow> (e, s'', ack # ms))"

lemma framedProvider_messages:
  assumes "readFrame rnd mx [] rs = Inr (Some v, b, rs')"
    and "\<And>s. serve_frames rnd mx handle s b rs' = framed (serve_messages mx handle s vs)"
  shows "framedProvider rnd mx accept handle s rs = framed (provide_messages mx accept handle s (v # vs))"
  using assms
  by (simp add: framedProvider_def provide_messages_def framed_def send_frame_def split: prod.split)

lemma framed_aligned:
  assumes "exact_on_integers rnd" "\<forall>v \<in> set vs. framable mx v" and c: "frame_chunks css vs"
  shows "framedProvider rnd mx accept handle s (map Chunk (concat css)) = framed (provide_messages mx accept handle s vs)"
proof (cases vs)
  case Nil
  then show ?thesis using c by (simp add: frame_chunks_def framedProvider_def provide_messages_def readFrame_def framed_def)
next
  case (Cons v vs')
  then obtain cs css' where css: "css = cs # css'" "concat cs = frame_bytes v" "[] \<notin> set cs" "frame_chunks css' vs'"
    using c by (auto simp: frame_chunks_def list_all2_Cons2)
  have "readFrame rnd mx [] (map Chunk (concat css)) = Inr (Some v, [], map Chunk (concat css'))"
    using readFrame_aligned [OF _ assms(1) css(2,3)] assms(2) Cons css(1) by simp
  then show ?thesis
    unfolding Cons by (rule framedProvider_messages) (use serve_aligned [OF assms(1) _ css(4), of mx handle] assms(2) Cons in simp)
qed

lemma framed_chunked:
  assumes "exact_on_integers rnd" "\<forall>v \<in> set vs. framable mx v"
    and c: "chunk_bytes rs = Some (concat (map frame_bytes vs))"
  shows "framedProvider rnd mx accept handle s rs = framed (provide_messages mx accept handle s vs) \<or>
      (\<exists>us e s' ms. take (length us) vs = us \<and> provide_messages mx accept handle s us = (e, s', ms) \<and>
         framedProvider rnd mx accept handle s rs = (FrameFailed FrameTooLarge, s', concat (map frame_bytes ms)))"
proof -
  let ?stop = "\<lambda>us e s' ms. take (length us) vs = us \<and> provide_messages mx accept handle s us = (e, s', ms) \<and>
    framedProvider rnd mx accept handle s rs = (FrameFailed FrameTooLarge, s', concat (map frame_bytes ms))"
  have refused: "?stop [] (HandlerFailed ''handshake required'') s []"
    if "readFrame rnd mx [] rs = Inl FrameTooLarge"
    using that by (simp add: provide_messages_def framedProvider_def)
  show "framedProvider rnd mx accept handle s rs = framed (provide_messages mx accept handle s vs) \<or>
      (\<exists>us e s' ms. ?stop us e s' ms)"
  proof (cases vs)
    case Nil
    then have e: "[] @ concat (map frame_bytes vs) = []" by simp
    show ?thesis
    proof (cases rule: readFrame_end [OF c e, of rnd mx])
      case 1
      then show ?thesis using refused by blast
    next
      case (2 b' rs')
      then show ?thesis using Nil by (simp add: framedProvider_def provide_messages_def framed_def)
    qed
  next
    case (Cons v vs')
    then have f: "framable mx v" "\<forall>v \<in> set vs'. framable mx v"
      "[] @ concat (map frame_bytes vs) = frame_bytes v @ concat (map frame_bytes vs')"
      using assms(2) by simp_all
    show ?thesis
    proof (cases rule: readFrame_cases [OF f(1) assms(1) c f(3)])
      case 1
      then show ?thesis using refused by blast
    next
      case (2 b' rs' bs')
      obtain s1 ack active where a: "accept s v = (s1, ack, active)" by (cases "accept s v") auto
      from framed_any_chunking [OF assms(1) f(2) 2(2,3), of handle s1] show ?thesis
      proof (elim disjE exE conjE)
        assume "serve_frames rnd mx handle s1 b' rs' = framed (serve_messages mx handle s1 vs')"
        then show ?thesis using Cons 2(1) a
          by (simp add: framedProvider_def provide_messages_def framed_def send_frame_def split: prod.split)
      next
        fix us s' ms
        assume "take (length us) vs' = us" "serve_messages mx handle s1 us = (Returned, s', ms)"
          "serve_frames rnd mx handle s1 b' rs' = (FrameFailed FrameTooLarge, s', concat (map frame_bytes ms))"
        then have "?stop (v # us) Returned s' (ack # ms) \<or>
            framedProvider rnd mx accept handle s rs = framed (provide_messages mx accept handle s vs)"
          using Cons 2(1) a by (auto simp: framedProvider_def provide_messages_def framed_def send_frame_def)
        then show ?thesis by blast
      qed
    qed
  qed
qed

theorem pipelined_frames_refused:
  assumes "exceeds (length (frame_bytes v) + length (frame_bytes w)) (plus_four mx)"
  shows "serve_frames rnd mx handle s [] [Chunk (frame_bytes v @ frame_bytes w)] = (FrameFailed FrameTooLarge, s, [])"
  using assms by (simp add: serve_frames_stops readFrame_def appendBytes_def)

text \<open>
  The contract of a message handler: it keeps an invariant of the provider's state. Whatever bytes
  arrive, the provider then ends with the invariant.
\<close>

locale message_handler =
  fixes handle :: "'s \<Rightarrow> json \<Rightarrow> 's loop_step"
    and inv :: "'s \<Rightarrow> bool"
  assumes keeps: "inv s \<Longrightarrow> handle s v = Proceed s' m \<Longrightarrow> inv s'"
begin

lemma turn_keeps:
  "inv s \<Longrightarrow> (case turn mx handle s v of Inl (e, s') \<Rightarrow> inv s' | Inr (s', ms) \<Rightarrow> inv s')"
  by (auto simp: turn_def dest: keeps split: loop_step.split option.split)

lemma messages_keep: "inv s \<Longrightarrow> serve_messages mx handle s vs = (e, s', ms) \<Longrightarrow> inv s'"
proof (induction vs arbitrary: s ms)
  case (Cons v vs)
  then show ?case
    using turn_keeps [OF Cons.prems(1), of mx v]
    by (auto simp: serve_messages_turn split: sum.splits prod.splits)
qed simp

lemma frames_keep: "inv s \<Longrightarrow> serve_frames rnd mx handle s b rs = (e, s', out) \<Longrightarrow> inv s'"
proof (induction "unread b rs" arbitrary: s b rs out rule: less_induct)
  case less
  show ?case
  proof (cases "readFrame rnd mx b rs")
    case (Inl f)
    then show ?thesis using less.prems by (simp add: serve_frames_stops)
  next
    case (Inr r)
    then obtain w b' rs' where r: "readFrame rnd mx b rs = Inr (w, b', rs')" by (cases r) auto
    show ?thesis
    proof (cases w)
      case None
      then show ?thesis using less.prems r by (simp add: serve_frames_stops)
    next
      case (Some v)
      then show ?thesis
        using r less.prems turn_keeps [OF less.prems(1), of mx v] less.hyps [OF readFrame_shrinks [OF r [unfolded Some]]]
        by (auto simp: serve_frames_turn split: sum.splits prod.splits)
    qed
  qed
qed

end

locale message_provider = message_handler handle inv
  for handle :: "'s \<Rightarrow> json \<Rightarrow> 's loop_step" and inv :: "'s \<Rightarrow> bool" +
  fixes accept :: "'s \<Rightarrow> json \<Rightarrow> 's \<times> json \<times> bool"
  assumes accept_keeps: "inv s \<Longrightarrow> accept s v = (s', ack, active) \<Longrightarrow> inv s'"
begin

lemma provider_keeps:
  assumes "inv s" "framedProvider rnd mx accept handle s rs = (e, s', out)"
  shows "inv s'"
proof (cases "readFrame rnd mx [] rs")
  case (Inl f)
  then show ?thesis using assms by (simp add: framedProvider_def)
next
  case (Inr r)
  then obtain w b rs' where r: "readFrame rnd mx [] rs = Inr (w, b, rs')" by (cases r) auto
  show ?thesis
  proof (cases w)
    case None
    then show ?thesis using assms r by (simp add: framedProvider_def)
  next
    case (Some v)
    obtain s1 ack active where a: "accept s v = (s1, ack, active)" by (cases "accept s v") auto
    obtain e2 s2 out2 where l: "serve_frames rnd mx handle s1 b rs' = (e2, s2, out2)"
      by (cases "serve_frames rnd mx handle s1 b rs'") auto
    have "inv s1" using accept_keeps [OF assms(1) a] .
    moreover have "inv s2" using frames_keep [OF \<open>inv s1\<close> l] .
    moreover have "s' = s \<or> s' = s1 \<or> s' = s2"
      using assms(2) r Some a l by (simp add: framedProvider_def split: if_splits sum.splits)
    ultimately show ?thesis using assms(1) by blast
  qed
qed

end

end
