(* ===== verification/Fixture_Rpc.thy ===== *)
theory Fixture_Rpc
  imports Frame_Transport Plugin_Server
begin

text \<open>
  What the providers of \<open>fixtures/bun\<close> share besides the frames: the conversions JavaScript applies to
  wire values, \<open>Map\<close> and \<open>Set\<close> keyed by wire values, the handshake, and the JSON-RPC transport
  (\<open>readBoundedBody\<close> and the \<open>fetch\<close> of \<open>jsonRpcProvider\<close> up to the dispatch on the method).

  The code casts messages to their TypeScript types without checking them, so the model keeps them
  as \<open>json\<close> and reads fields as JavaScript does. The endpoints of the command line are in their
  declared type.
\<close>

section \<open>Conversions\<close>

text \<open>\<open>ToNumber\<close> of a wire value; \<open>to_number\<close> is \<open>Number(text)\<close>.\<close>

fun js_to_number :: "(string \<Rightarrow> js_number) \<Rightarrow> json option \<Rightarrow> js_number" where
  "js_to_number to_number None = NaN"
| "js_to_number to_number (Some JNull) = Fin 0"
| "js_to_number to_number (Some (JBool b)) = Fin (if b then 1 else 0)"
| "js_to_number to_number (Some (JNum x)) = x"
| "js_to_number to_number (Some (JStr s)) = to_number s"
| "js_to_number to_number (Some (JArr xs)) = to_number (js_string (JArr xs))"
| "js_to_number to_number (Some (JObj _)) = NaN"

fun not_positive :: "js_number \<Rightarrow> bool" where
  "not_positive (Fin q) = (q \<le> 0)"
| "not_positive NaN = False"
| "not_positive PosInfinity = False"
| "not_positive NegInfinity = True"

section \<open>Collections keyed by wire values\<close>

text \<open>
  Keys compare by \<open>SameValueZero\<close>: an array or object from the wire is a new reference, so it equals
  no key that is present.
\<close>

fun by_value :: "json option \<Rightarrow> bool" where
  "by_value (Some (JArr _)) = False"
| "by_value (Some (JObj _)) = False"
| "by_value _ = True"

definition key_get :: "(json option \<times> 'a) list \<Rightarrow> json option \<Rightarrow> 'a option" where
  "key_get m k = (if by_value k then map_of m k else None)"

definition key_set :: "json option \<Rightarrow> 'a \<Rightarrow> (json option \<times> 'a) list \<Rightarrow> (json option \<times> 'a) list" where
  "key_set k v m = (if by_value k then AList.update k v m else m @ [(k, v)])"

definition key_delete :: "json option \<Rightarrow> (json option \<times> 'a) list \<Rightarrow> (json option \<times> 'a) list" where
  "key_delete k m = (if by_value k then AList.delete k m else m)"

definition key_member :: "json option \<Rightarrow> json option list \<Rightarrow> bool" where
  "key_member k ks \<longleftrightarrow> by_value k \<and> k \<in> set ks"

definition key_add :: "json option \<Rightarrow> json option list \<Rightarrow> json option list" where
  "key_add k ks = (if key_member k ks then ks else ks @ [k])"

text \<open>
  \<open>markRetiredStream\<close>, \<open>markRetired\<close>: at the limit the oldest key goes, unless it is \<open>undefined\<close>.
\<close>

definition drop_oldest :: "json option list \<Rightarrow> json option list" where
  "drop_oldest ks = (case ks of Some k # rest \<Rightarrow> rest | _ \<Rightarrow> ks)"

definition remember :: "nat \<Rightarrow> json option \<Rightarrow> json option list \<Rightarrow> json option list" where
  "remember bound k ks =
     key_add k (if \<not> key_member k ks \<and> length ks \<ge> bound then drop_oldest ks else ks)"

section \<open>Handshake\<close>

record fixture_config =
  fx_maxFrameBytes :: js_number
  fx_expectedEndpoints :: "json list"

text \<open>The command line; a value of \<open>--lenso-endpoints-json\<close> that is not an array is outside its declared type.\<close>

definition launch_config ::
  "(string \<Rightarrow> js_number) \<Rightarrow> (rat \<Rightarrow> js_number) \<Rightarrow> json \<Rightarrow> string list \<Rightarrow> fixture_config option" where
  "launch_config to_number rnd fallback args =
     (case JSON_parse rnd (fixture_argument args ''--lenso-endpoints-json'' (stringify (JArr [fallback]))) of
        Some (JArr es) \<Rightarrow>
          Some \<lparr>fx_maxFrameBytes = to_number (fixture_argument args ''--lenso-max-frame-bytes'' ''65536''),
                fx_expectedEndpoints = es\<rparr>
      | _ \<Rightarrow> None)"

definition expectedHandshake :: "fixture_config \<Rightarrow> json option \<Rightarrow> bool" where
  "expectedHandshake cfg handshake \<longleftrightarrow>
     (case ofield handshake ''endpoints'' of
        Some (JArr es) \<Rightarrow>
          ofield handshake ''protocol_version'' = Some (jint PROTOCOL_VERSION) \<and>
          ofield handshake ''value_profile'' = Some (JStr VALUE_PROFILE) \<and>
          ofield handshake ''max_frame_bytes'' = Some (JNum (fx_maxFrameBytes cfg)) \<and>
          fx_maxFrameBytes cfg \<noteq> NaN \<and>
          stringify (JArr es) = stringify (JArr (fx_expectedEndpoints cfg))
      | _ \<Rightarrow> False)"

text \<open>The acknowledgement; \<open>token\<close> is the session text made from the clock and a random number.\<close>

definition ack_session :: "fixture_config \<Rightarrow> json option \<Rightarrow> string \<Rightarrow> string option" where
  "ack_session cfg handshake token = (if expectedHandshake cfg handshake then Some token else None)"

definition handshakeAck :: "fixture_config \<Rightarrow> json option \<Rightarrow> string \<Rightarrow> (string \<times> json) list" where
  "handshakeAck cfg handshake token =
     [(''accepted'', JBool (expectedHandshake cfg handshake)), (''protocol_version'', jint PROTOCOL_VERSION),
      (''value_profile'', JStr VALUE_PROFILE), (''max_frame_bytes'', JNum (fx_maxFrameBytes cfg)),
      (''endpoints'', JArr (endpoint_list handshake))] @
     (case ack_session cfg handshake token of None \<Rightarrow> [] | Some t \<Rightarrow> [(''session'', JStr t)])"

section \<open>The JSON-RPC transport\<close>

fun read_limited :: "js_number \<Rightarrow> nat \<Rightarrow> text_decoder \<Rightarrow> body_read list \<Rightarrow> string option" where
  "read_limited mx sofar td [] = Some (decode_end td)"
| "read_limited mx sofar td (ReadRejected # rs) = None"
| "read_limited mx sofar td (Chunk bs # rs) =
     (if exceeds (sofar + length bs) mx then None
      else case decode_stream td bs of (out, td') \<Rightarrow>
        map_option ((@) out) (read_limited mx (sofar + length bs) td' rs))"

definition readBoundedBody_fixture :: "js_number \<Rightarrow> body_read list option \<Rightarrow> string option" where
  "readBoundedBody_fixture mx body =
     (case body of None \<Rightarrow> Some [] | Some rs \<Rightarrow> read_limited mx 0 new_text_decoder rs)"

text \<open>A call of the transport: it answers, throws, or leaves through \<open>process.exit\<close>.\<close>

datatype rpc_answer = RpcResponse http_response | RpcExit nat

abbreviation rpc_result :: "json \<Rightarrow> json \<Rightarrow> rpc_answer" where
  "rpc_result rpc r \<equiv> RpcResponse (jsonRpcResult rpc (Some r) None)"

abbreviation rpc_type_error :: rpc_answer where
  "rpc_type_error \<equiv> RpcResponse (Uncaught js_type_error)"

definition fixture_envelope ::
  "('s \<Rightarrow> json \<Rightarrow> string \<Rightarrow> json option \<Rightarrow> rpc_answer \<times> 's) \<Rightarrow> 's \<Rightarrow> json \<Rightarrow> rpc_answer \<times> 's" where
  "fixture_envelope dispatch s message =
     (if message = JNull then (rpc_type_error, s)
      else
        let rpc = (case field message ''id'' of Some v \<Rightarrow> v | None \<Rightarrow> JNull);
            params = (case field message ''params'' of Some (JArr [p]) \<Rightarrow> Some p | p \<Rightarrow> p)
        in case (field message ''jsonrpc'' = Some (JStr ''2.0''), field message ''method'') of
             (True, Some (JStr meth)) \<Rightarrow> dispatch s rpc meth params
           | _ \<Rightarrow> (RpcResponse (jsonRpcError rpc (-32600) ''Invalid Request''), s))"

definition fixture_fetch ::
  "(rat \<Rightarrow> js_number) \<Rightarrow> js_number \<Rightarrow> ('s \<Rightarrow> json \<Rightarrow> string \<Rightarrow> json option \<Rightarrow> rpc_answer \<times> 's) \<Rightarrow> 's \<Rightarrow>
   http_request \<Rightarrow> rpc_answer \<times> 's" where
  "fixture_fetch rnd mx dispatch s request =
     (if http_method request \<noteq> ''POST'' then (RpcResponse (Response 405 ''method not allowed''), s)
      else case readBoundedBody_fixture mx (http_body request) of
        None \<Rightarrow> (RpcResponse (Response 413 ''request too large''), s)
      | Some body \<Rightarrow>
          (case JSON_parse rnd body of
             None \<Rightarrow> (RpcResponse (jsonRpcError JNull (-32700) ''Parse error''), s)
           | Some message \<Rightarrow> fixture_envelope dispatch s message))"

section \<open>Laws\<close>

lemma launch_default:
  assumes "exact_on_integers rnd" "wire fallback"
  shows "launch_config to_number rnd fallback [] =
    Some \<lparr>fx_maxFrameBytes = to_number ''65536'', fx_expectedEndpoints = [fallback]\<rparr>"
  using parse_stringify [OF assms(1), of "JArr [fallback]"] assms(2)
  by (simp add: launch_config_def fixture_argument_def)

lemma key_get_delete [simp]:
  "key_get (key_delete k m) k' = (if k = k' then None else key_get m k')"
  by (auto simp: key_get_def key_delete_def delete_conv')

lemma key_get_set [simp]:
  "key_get (key_set k v m) k' = (if k = k' \<and> by_value k then Some v else key_get m k')"
  by (auto simp: key_get_def key_set_def update_conv' map_add_def split: option.splits)

lemma key_member_add [simp]: "key_member k (key_add k' ks) \<longleftrightarrow> key_member k ks \<or> k = k' \<and> by_value k"
  by (auto simp: key_add_def key_member_def)

lemma keys_after_set: "fst ` set (key_set k v m) = insert k (fst ` set m)"
  by (auto simp: key_set_def keys_update)

lemma in_key_set: "(k', v') \<in> set (key_set k v m) \<Longrightarrow> (k', v') = (k, v) \<or> (k', v') \<in> set m"
proof -
  have "(k', v') \<in> set (AList.update k v m) \<Longrightarrow> (k', v') = (k, v) \<or> (k', v') \<in> set m"
    by (induction m) (auto split: if_splits)
  then show "(k', v') \<in> set (key_set k v m) \<Longrightarrow> (k', v') = (k, v) \<or> (k', v') \<in> set m"
    by (auto simp: key_set_def split: if_splits)
qed

text \<open>
  The contract of a JSON-RPC dispatch: it keeps an invariant for every method and parameters, where
  \<open>'e\<close> is what a request gets from the environment. Every sequence of HTTP requests then keeps it.
\<close>

definition rpc_step ::
  "(rat \<Rightarrow> js_number) \<Rightarrow> js_number \<Rightarrow> ('e \<Rightarrow> 's \<Rightarrow> json \<Rightarrow> string \<Rightarrow> json option \<Rightarrow> rpc_answer \<times> 's) \<Rightarrow> 's \<Rightarrow>
   'e \<times> http_request \<Rightarrow> 's" where
  "rpc_step rnd mx dispatch s e = snd (fixture_fetch rnd mx (dispatch (fst e)) s (snd e))"

locale rpc_dispatch =
  fixes dispatch :: "'e \<Rightarrow> 's \<Rightarrow> json \<Rightarrow> string \<Rightarrow> json option \<Rightarrow> rpc_answer \<times> 's"
    and inv :: "'s \<Rightarrow> bool"
  assumes dispatch_keeps: "inv s \<Longrightarrow> inv (snd (dispatch e s rpc meth params))"
begin

lemma envelope_keeps: "inv s \<Longrightarrow> inv (snd (fixture_envelope (dispatch e) s message))"
  by (simp add: fixture_envelope_def Let_def dispatch_keeps split: option.split json.split bool.split)

lemma step_keeps: "inv s \<Longrightarrow> inv (rpc_step rnd mx dispatch s e)"
  by (simp add: rpc_step_def fixture_fetch_def envelope_keeps split: option.split)

lemma requests_keep: "inv s \<Longrightarrow> inv (run (rpc_step rnd mx dispatch) s es)"
  by (induction es arbitrary: s) (simp_all add: step_keeps)

end

end
