(* ===== verification/Stream_Provider.thy ===== *)
theory Stream_Provider
  imports Fixture_Rpc
begin

text \<open>
  The chat provider of \<open>fixtures/bun/stream-provider.ts\<close>: bidirectional streams with credit,
  sequence numbers, half-close and a terminal event, over frames or JSON-RPC.

  The module variables are the record \<open>stream_provider\<close>, a stream the record \<open>stream_state\<close>. The
  handlers have no \<open>await\<close>, so each message is one step. \<open>openStream_chat\<close>, \<open>streamCall\<close> and
  \<open>cancelStream_chat\<close> are the operations; \<open>stream_message\<close> is the body of the frame loop and
  \<open>stream_rpc\<close> the dispatch of the JSON-RPC transport. Credits are Numbers; adding and subtracting
  one is exact where they are integers.
\<close>

section \<open>State\<close>

datatype terminal_outcome = TerminalSuccess | TerminalDomain json

datatype stream_event = MessageEvent json | PeerHalfClosed | TerminalEvent terminal_outcome

record stream_state =
  nextInboundSequence :: int
  nextOutboundSequence :: int
  st_credit :: js_number
  st_events :: "stream_event list"
  peerHalfClosed :: bool
  localHalfClosed :: bool
  terminalQueued :: bool
  terminalSeen :: bool
  receiveInFlight :: bool
  providerClosesFirst :: bool

record stream_provider =
  chat_streams :: "(json option \<times> stream_state) list"
  retiredStreamIds :: "json option list"
  chat_handshake :: "json option"
  chat_session :: "string option"
  chat_stopped :: bool

definition initial_stream_provider :: stream_provider where
  "initial_stream_provider =
     \<lparr>chat_streams = [], retiredStreamIds = [], chat_handshake = None, chat_session = None, chat_stopped = False\<rparr>"

abbreviation MAX_BUFFERED_STREAM_EVENTS :: nat where
  "MAX_BUFFERED_STREAM_EVENTS \<equiv> 16"

abbreviation maxRetiredStreamIds :: nat where
  "maxRetiredStreamIds \<equiv> 1024"

section \<open>Outcomes\<close>

definition runtime_stream :: "string \<Rightarrow> json option \<Rightarrow> json option \<Rightarrow> json" where
  "runtime_stream kind detail requestId =
     (if kind = ''resource_exhausted''
      then runtime_outcome [(''kind'', JStr kind),
        (''operation'', case detail of None \<Rightarrow> JStr ''chat'' | Some JNull \<Rightarrow> JStr ''chat'' | Some d \<Rightarrow> d)]
      else
        let failure = (''kind'', JStr kind) # optional_field ''detail'' detail in
        if requestId \<noteq> None \<and> (kind = ''cancelled'' \<or> kind = ''deadline_exceeded'')
        then runtime_outcome (failure @ optional_field ''request_id'' requestId)
        else runtime_outcome failure)"

definition protocolViolation_stream :: json where
  "protocolViolation_stream = runtime_stream ''protocol_violation'' None None"

definition exhausted_stream :: "string \<Rightarrow> json" where
  "exhausted_stream operation = runtime_stream ''resource_exhausted'' (Some (JStr operation)) None"

definition accepted_outcome :: "js_number \<Rightarrow> json" where
  "accepted_outcome c = JObj [(''kind'', JStr ''accepted''), (''credit'', JNum c)]"

definition event_outcome :: "(string \<times> json) list \<Rightarrow> json" where
  "event_outcome event = JObj [(''kind'', JStr ''event''), (''event'', JObj event)]"

fun terminal_json :: "terminal_outcome \<Rightarrow> json" where
  "terminal_json TerminalSuccess = JObj [(''kind'', JStr ''success'')]"
| "terminal_json (TerminalDomain v) = JObj [(''kind'', JStr ''domain''), (''value'', v)]"

definition message_outcome :: "int \<Rightarrow> json \<Rightarrow> json" where
  "message_outcome seq payload =
     event_outcome [(''kind'', JStr ''message''), (''sequence'', jint seq), (''payload'', payload)]"

definition half_closed_outcome :: json where
  "half_closed_outcome = event_outcome [(''kind'', JStr ''peer_half_closed'')]"

definition terminal_outcome_json :: "terminal_outcome \<Rightarrow> json" where
  "terminal_outcome_json t = event_outcome [(''kind'', JStr ''terminal''), (''outcome'', terminal_json t)]"

definition echo :: "string \<Rightarrow> json" where
  "echo text = JObj [(''text'', JStr (''Bun echo: '' @ text))]"

section \<open>Operations\<close>

definition markRetiredStream :: "json option \<Rightarrow> stream_provider \<Rightarrow> stream_provider" where
  "markRetiredStream streamId s =
     s\<lparr>retiredStreamIds := remember maxRetiredStreamIds streamId (retiredStreamIds s)\<rparr>"

definition resetSession :: "stream_provider \<Rightarrow> stream_provider" where
  "resetSession s = s\<lparr>chat_streams := [], retiredStreamIds := []\<rparr>"

definition stream_handshake ::
  "fixture_config \<Rightarrow> json option \<Rightarrow> string \<Rightarrow> stream_provider \<Rightarrow> stream_provider" where
  "stream_handshake cfg handshake token s =
     (resetSession (s\<lparr>chat_handshake := (if expectedHandshake cfg handshake then handshake else None)\<rparr>))
       \<lparr>chat_session := ack_session cfg handshake token\<rparr>"

definition has_session :: "stream_provider \<Rightarrow> json option \<Rightarrow> bool" where
  "has_session s candidate \<longleftrightarrow> hasSession candidate (chat_session s) (chat_handshake s)"

definition streamEndpoint :: "fixture_config \<Rightarrow> json option" where
  "streamEndpoint cfg =
     find (\<lambda>endpoint. field endpoint ''capability_id'' = Some (JStr ''example.chat@1'')) (fx_expectedEndpoints cfg)"

definition serves_stream :: "fixture_config \<Rightarrow> json \<Rightarrow> bool" where
  "serves_stream cfg opn \<longleftrightarrow>
     (case streamEndpoint cfg of
        None \<Rightarrow> False
      | Some endpoint \<Rightarrow>
          field opn ''capability_id'' = field endpoint ''capability_id'' \<and>
          (case field opn ''operation'' of
             None \<Rightarrow> False
           | Some operation \<Rightarrow>
               by_value (Some operation) \<and>
               operation \<in> set (case field endpoint ''stream_operations'' of Some v \<Rightarrow> elems v | None \<Rightarrow> [])))"

text \<open>\<open>Math.min(credit, 16)\<close>.\<close>

fun initial_credit :: "js_number \<Rightarrow> js_number" where
  "initial_credit (Fin q) = Fin (min q 16)"
| "initial_credit PosInfinity = Fin 16"
| "initial_credit x = x"

definition new_stream :: "js_number \<Rightarrow> string \<Rightarrow> stream_state" where
  "new_stream c room =
     (let first = (room = ''provider-closes-first'') in
      \<lparr>nextInboundSequence = 0, nextOutboundSequence = 0, st_credit = c,
       st_events = (if first then [PeerHalfClosed] else []),
       peerHalfClosed = False, localHalfClosed = False, terminalQueued = False, terminalSeen = False,
       receiveInFlight = False, providerClosesFirst = first\<rparr>)"

datatype stream_answer = Answer json | ProcessExit

definition openStream_chat ::
  "(string \<Rightarrow> js_number) \<Rightarrow> fixture_config \<Rightarrow> json \<Rightarrow> stream_provider \<Rightarrow> stream_answer \<times> stream_provider" where
  "openStream_chat to_number cfg opn s =
     (let streamId = field opn ''stream_id'';
          requested = js_to_number to_number (field opn ''credit'')
      in
      if \<not> has_session s (field opn ''session'') then (Answer protocolViolation_stream, s)
      else if \<not> serves_stream cfg opn \<or> not_positive requested
      then (Answer (runtime_stream ''unknown_operation'' (field opn ''operation'') None), s)
      else if field opn ''deadline_nanos'' = Some (jint 0)
      then (Answer (runtime_stream ''deadline_exceeded'' None (field opn ''request_id'')), s)
      else if key_get (chat_streams s) streamId \<noteq> None \<or> key_member streamId (retiredStreamIds s)
      then (Answer protocolViolation_stream, s)
      else case ofield (field opn ''payload'') ''room'' of
        Some (JStr room) \<Rightarrow>
          if room = ''__crash__'' then (ProcessExit, s)
          else if room = ''closed'' then (Answer (JObj [(''kind'', JStr ''domain''), (''value'', JStr ''room_closed'')]), s)
          else let c = initial_credit requested in
            (Answer (JObj ([(''kind'', JStr ''opened'')] @ optional_field ''stream_id'' streamId @ [(''credit'', JNum c)])),
             s\<lparr>chat_streams := key_set streamId (new_stream c room) (chat_streams s)\<rparr>)
      | _ \<Rightarrow> (Answer protocolViolation_stream, s))"

fun credit_add :: "int \<Rightarrow> js_number \<Rightarrow> js_number" where
  "credit_add n (Fin q) = Fin (q + of_int n)"
| "credit_add n x = x"

text \<open>The three actions on the stream object: the answer and the object afterwards.\<close>

definition stream_send :: "json \<Rightarrow> stream_state \<Rightarrow> stream_answer \<times> stream_state" where
  "stream_send call st =
     (if peerHalfClosed st \<or> terminalQueued st \<or> terminalSeen st \<or>
         field call ''sequence'' \<noteq> Some (jint (nextInboundSequence st))
      then (Answer protocolViolation_stream, st)
      else if length (st_events st) \<ge> MAX_BUFFERED_STREAM_EVENTS then (Answer (exhausted_stream ''send''), st)
      else if not_positive (st_credit st) then (Answer (exhausted_stream ''send''), st)
      else
        let st1 = st\<lparr>st_credit := credit_add (-1) (st_credit st), nextInboundSequence := nextInboundSequence st + 1\<rparr> in
        case ofield (field call ''payload'') ''text'' of
          Some (JStr text) \<Rightarrow>
            if text = ''__crash__'' then (ProcessExit, st1)
            else
              let st2 =
                (if text = ''__domain__''
                 then st1\<lparr>st_events := st_events st1 @ [TerminalEvent (TerminalDomain (JStr ''room_closed''))],
                          terminalQueued := True\<rparr>
                 else if \<not> providerClosesFirst st1
                 then st1\<lparr>st_events := st_events st1 @ [MessageEvent (echo text)]\<rparr>
                 else st1);
                  st3 = st2\<lparr>st_credit := credit_add 1 (st_credit st2)\<rparr>
              in (Answer (accepted_outcome (st_credit st3)), st3)
        | _ \<Rightarrow> (Answer protocolViolation_stream, st1))"

definition stream_close_send :: "stream_state \<Rightarrow> stream_answer \<times> stream_state" where
  "stream_close_send st =
     (if peerHalfClosed st \<or> terminalQueued st \<or> terminalSeen st then (Answer protocolViolation_stream, st)
      else
        (Answer (accepted_outcome (st_credit st)),
         st\<lparr>peerHalfClosed := True,
            st_events := st_events st @ (if providerClosesFirst st then [] else [PeerHalfClosed]) @
              [TerminalEvent TerminalSuccess],
            terminalQueued := True\<rparr>))"

text \<open>The flag tells whether the stream is deleted and retired.\<close>

definition stream_receive :: "stream_state \<Rightarrow> stream_answer \<times> stream_state \<times> bool" where
  "stream_receive st =
     (if receiveInFlight st then (Answer (exhausted_stream ''chat.receive''), st, False)
      else case st_events st of
        [] \<Rightarrow> (Answer (exhausted_stream ''chat.receive''), st, False)
      | MessageEvent payload # es \<Rightarrow>
          let st1 = st\<lparr>st_events := es\<rparr> in
          if localHalfClosed st \<or> terminalQueued st then (Answer protocolViolation_stream, st1, False)
          else (Answer (message_outcome (nextOutboundSequence st) payload),
                st1\<lparr>nextOutboundSequence := nextOutboundSequence st + 1\<rparr>, False)
      | PeerHalfClosed # es \<Rightarrow>
          let st1 = st\<lparr>st_events := es\<rparr> in
          if localHalfClosed st then (Answer protocolViolation_stream, st1, False)
          else (Answer half_closed_outcome, st1\<lparr>localHalfClosed := True\<rparr>, False)
      | TerminalEvent t # es \<Rightarrow>
          (Answer (terminal_outcome_json t), st\<lparr>st_events := es, terminalSeen := True\<rparr>, True))"

definition put_stream :: "json option \<Rightarrow> stream_state \<Rightarrow> stream_provider \<Rightarrow> stream_provider" where
  "put_stream streamId st s = s\<lparr>chat_streams := key_set streamId st (chat_streams s)\<rparr>"

definition drop_stream :: "json option \<Rightarrow> stream_provider \<Rightarrow> stream_provider" where
  "drop_stream streamId s =
     markRetiredStream streamId (s\<lparr>chat_streams := key_delete streamId (chat_streams s)\<rparr>)"

definition streamCall :: "json \<Rightarrow> stream_provider \<Rightarrow> stream_answer \<times> stream_provider" where
  "streamCall call s =
     (let streamId = field call ''stream_id'' in
      if \<not> has_session s (field call ''session'') then (Answer protocolViolation_stream, s)
      else case key_get (chat_streams s) streamId of
        None \<Rightarrow> (Answer protocolViolation_stream, s)
      | Some st \<Rightarrow>
          if field call ''action'' = Some (JStr ''send'')
          then (case stream_send call st of (a, st') \<Rightarrow> (a, put_stream streamId st' s))
          else if field call ''action'' = Some (JStr ''close_send'')
          then (case stream_close_send st of (a, st') \<Rightarrow> (a, put_stream streamId st' s))
          else (case stream_receive st of (a, st', finished) \<Rightarrow>
            (a, if finished then drop_stream streamId s else put_stream streamId st' s)))"

definition cancelStream_chat :: "json option \<Rightarrow> json option \<Rightarrow> stream_provider \<Rightarrow> stream_provider" where
  "cancelStream_chat streamId candidate s = (if has_session s candidate then drop_stream streamId s else s)"

section \<open>Transports\<close>

definition stream_accept ::
  "fixture_config \<Rightarrow> string \<Rightarrow> stream_provider \<Rightarrow> json \<Rightarrow> stream_provider \<times> json \<times> bool" where
  "stream_accept cfg token s handshake =
     (stream_handshake cfg (Some handshake) token s,
      JObj ((''kind'', JStr ''handshake_ack'') # handshakeAck cfg (Some handshake) token),
      expectedHandshake cfg (Some handshake))"

definition stream_response :: "json \<Rightarrow> stream_answer \<times> stream_provider \<Rightarrow> stream_provider loop_step" where
  "stream_response message r =
     (case r of
        (ProcessExit, s) \<Rightarrow> Exit 17
      | (Answer v, s) \<Rightarrow>
          Proceed s (Some (JObj ([(''kind'', JStr ''stream_response'')] @
            optional_field ''request_id'' (field message ''request_id'') @ [(''response'', v)]))))"

definition stream_message ::
  "(string \<Rightarrow> js_number) \<Rightarrow> fixture_config \<Rightarrow> stream_provider \<Rightarrow> json \<Rightarrow> stream_provider loop_step" where
  "stream_message to_number cfg s message =
     (let kind = field message ''kind'' in
      if kind = Some (JStr ''shutdown'') then Finish
      else if kind = Some (JStr ''stream_cancel'')
      then Proceed (cancelStream_chat (field message ''stream_id'') (field message ''session'') s) None
      else if kind = Some (JStr ''stream_open'') then stream_response message (openStream_chat to_number cfg message s)
      else if kind = Some (JStr ''stream_call'') then stream_response message (streamCall message s)
      else Fail ''protocol violation'')"

definition rpc_stream_answer :: "json \<Rightarrow> stream_answer \<times> stream_provider \<Rightarrow> rpc_answer \<times> stream_provider" where
  "rpc_stream_answer rpc r =
     (case r of (ProcessExit, s) \<Rightarrow> (RpcExit 17, s) | (Answer v, s) \<Rightarrow> (rpc_result rpc v, s))"

definition stream_rpc_cancel :: "json \<Rightarrow> json option \<Rightarrow> stream_provider \<Rightarrow> rpc_answer \<times> stream_provider" where
  "stream_rpc_cancel rpc params s =
     (let streamId = ofield params ''stream_id''; candidate = ofield params ''session'' in
      if is_nullish params then (rpc_type_error, s)
      else if \<not> (case streamId of Some v \<Rightarrow> is_number v | None \<Rightarrow> False) \<or> \<not> is_text candidate
      then (rpc_result rpc protocolViolation_stream, s)
      else (rpc_result rpc (JBool True), cancelStream_chat streamId candidate s))"

definition stream_rpc ::
  "(string \<Rightarrow> js_number) \<Rightarrow> fixture_config \<Rightarrow> string \<Rightarrow> stream_provider \<Rightarrow> json \<Rightarrow> string \<Rightarrow> json option \<Rightarrow>
   rpc_answer \<times> stream_provider" where
  "stream_rpc to_number cfg token s rpc meth params =
     (if meth = ''lenso.handshake''
      then let s' = stream_handshake cfg params token s in
        if is_nullish params then (rpc_type_error, s')
        else (rpc_result rpc (JObj (handshakeAck cfg params token)), s')
      else if meth = ''lenso.stream.cancel''
      then stream_rpc_cancel rpc params s
      else if meth = ''lenso.shutdown'' then (rpc_result rpc (JBool True), s\<lparr>chat_stopped := True\<rparr>)
      else if chat_handshake s = None then (rpc_result rpc protocolViolation_stream, s)
      else if meth = ''lenso.stream.open''
      then (if is_nullish params then (rpc_type_error, s)
            else rpc_stream_answer rpc (openStream_chat to_number cfg (the params) s))
      else if meth \<in> {''lenso.stream.send'', ''lenso.stream.receive'', ''lenso.stream.close_send''}
      then (if is_nullish params then (rpc_type_error, s)
            else rpc_stream_answer rpc (streamCall (the params) s))
      else (rpc_result rpc protocolViolation_stream, s))"

end
