(* ===== verification/Stream_Properties.thy ===== *)
theory Stream_Properties
  imports Stream_Provider
begin

text \<open>
  The chat streams: the invariant of a stream and of the provider, kept by every operation on both
  transports; what a client of the framed transport observes of one stream (\<open>client_view\<close>); and what
  a client that keeps receiving gets out of a stream.
\<close>

section \<open>Invariant\<close>

fun is_terminal :: "stream_event \<Rightarrow> bool" where
  "is_terminal (TerminalEvent _) = True"
| "is_terminal _ = False"

fun is_message :: "stream_event \<Rightarrow> bool" where
  "is_message (MessageEvent _) = True"
| "is_message _ = False"

fun credit_bounded :: "js_number \<Rightarrow> bool" where
  "credit_bounded (Fin q) = (q \<le> 16)"
| "credit_bounded NaN = True"
| "credit_bounded _ = False"

text \<open>
  Before a terminal event is queued there is none in the buffer and no half-close but the one a room
  that closes first starts with; afterwards exactly one, at the end.
\<close>

definition buffer_ok :: "stream_state \<Rightarrow> bool" where
  "buffer_ok st \<longleftrightarrow>
     (if terminalQueued st
      then st_events st \<noteq> [] \<and> is_terminal (last (st_events st)) \<and>
        list_all (\<lambda>e. \<not> is_terminal e) (butlast (st_events st)) \<and> length (st_events st) \<le> 18
      else list_all (\<lambda>e. \<not> is_terminal e) (st_events st) \<and> length (st_events st) \<le> 16)"

definition half_close_ok :: "stream_state \<Rightarrow> bool" where
  "half_close_ok st \<longleftrightarrow>
     count_list (st_events st) PeerHalfClosed + (if localHalfClosed st then 1 else 0) \<le> 1 \<and>
     (providerClosesFirst st \<longrightarrow> list_all (\<lambda>e. \<not> is_message e) (st_events st)) \<and>
     (\<not> providerClosesFirst st \<and> \<not> terminalQueued st \<longrightarrow>
        PeerHalfClosed \<notin> set (st_events st) \<and> \<not> localHalfClosed st)"

definition stream_ok :: "stream_state \<Rightarrow> bool" where
  "stream_ok st \<longleftrightarrow>
     \<not> receiveInFlight st \<and> \<not> terminalSeen st \<and> (peerHalfClosed st \<longrightarrow> terminalQueued st) \<and>
     0 \<le> nextInboundSequence st \<and> 0 \<le> nextOutboundSequence st \<and> credit_bounded (st_credit st) \<and>
     buffer_ok st \<and> half_close_ok st"

definition provider_ok :: "stream_provider \<Rightarrow> bool" where
  "provider_ok s \<longleftrightarrow>
     (\<forall>(k, st) \<in> set (chat_streams s). stream_ok st) \<and>
     (\<forall>k. key_get (chat_streams s) k \<noteq> None \<longrightarrow> \<not> key_member k (retiredStreamIds s)) \<and>
     (None \<notin> set (retiredStreamIds s) \<longrightarrow> length (retiredStreamIds s) \<le> maxRetiredStreamIds)"

lemmas stream_state_ok = stream_ok_def buffer_ok_def half_close_ok_def

lemma stream_ok_bounds:
  "stream_ok st \<Longrightarrow> length (st_events st) \<le> 18 \<and> credit_bounded (st_credit st) \<and> \<not> receiveInFlight st"
  by (simp add: stream_ok_def buffer_ok_def split: if_splits)

lemma credit_bounded_initial: "\<not> not_positive c \<Longrightarrow> credit_bounded (initial_credit c)"
  by (cases c) auto

lemma credit_bounded_back: "credit_bounded c \<Longrightarrow> credit_bounded (credit_add 1 (credit_add (-1) c))"
  by (cases c) auto

lemma credit_bounded_spent: "credit_bounded c \<Longrightarrow> credit_bounded (credit_add (-1) c)"
  by (cases c) auto

lemma new_stream_ok: "credit_bounded c \<Longrightarrow> stream_ok (new_stream c room)"
  by (simp add: stream_state_ok new_stream_def Let_def)

abbreviation accepts_send :: "json \<Rightarrow> stream_state \<Rightarrow> bool" where
  "accepts_send call st \<equiv>
     \<not> peerHalfClosed st \<and> \<not> terminalQueued st \<and> \<not> terminalSeen st \<and>
     field call ''sequence'' = Some (jint (nextInboundSequence st)) \<and>
     length (st_events st) < MAX_BUFFERED_STREAM_EVENTS \<and> \<not> not_positive (st_credit st)"

abbreviation charged :: "stream_state \<Rightarrow> stream_state" where
  "charged st \<equiv>
     st\<lparr>st_credit := credit_add (-1) (st_credit st), nextInboundSequence := nextInboundSequence st + 1\<rparr>"

abbreviation settled_send :: "stream_event list \<Rightarrow> bool \<Rightarrow> stream_state \<Rightarrow> stream_state" where
  "settled_send es queued st \<equiv>
     st\<lparr>st_credit := credit_add 1 (credit_add (-1) (st_credit st)), nextInboundSequence := nextInboundSequence st + 1,
        st_events := st_events st @ es, terminalQueued := queued\<rparr>"

lemma stream_sendE:
  assumes "stream_send call st = (a, st')"
  obtains (refused) v where "st' = st" "a = Answer v" "v = protocolViolation_stream \<or> v = exhausted_stream ''send''"
  | (charged) "accepts_send call st" "st' = charged st" "a = Answer protocolViolation_stream \<or> a = ProcessExit"
  | (domain) "accepts_send call st" "ofield (field call ''payload'') ''text'' = Some (JStr ''__domain__'')"
      "st' = settled_send [TerminalEvent (TerminalDomain (JStr ''room_closed''))] True st"
      "a = Answer (accepted_outcome (st_credit st'))"
  | (spoken) w where "accepts_send call st" "ofield (field call ''payload'') ''text'' = Some (JStr w)"
      "w \<noteq> ''__domain__''"
      "st' = settled_send (if providerClosesFirst st then [] else [MessageEvent (echo w)]) False st"
      "a = Answer (accepted_outcome (st_credit st'))"
proof (cases "accepts_send call st")
  case False
  then show ?thesis using assms refused by (auto simp: stream_send_def split: if_splits)
next
  case True
  show ?thesis
  proof (cases "\<exists>w. ofield (field call ''payload'') ''text'' = Some (JStr w)")
    case False
    then show ?thesis using assms True charged
      by (auto simp: stream_send_def Let_def split: option.splits json.splits)
  next
    case t: True
    then obtain w where t: "ofield (field call ''payload'') ''text'' = Some (JStr w)" by blast
    then have r: "stream_send call st =
        (if w = ''__crash__'' then (ProcessExit, charged st)
         else let st' = (if w = ''__domain__''
              then settled_send [TerminalEvent (TerminalDomain (JStr ''room_closed''))] True st
              else settled_send (if providerClosesFirst st then [] else [MessageEvent (echo w)]) False st)
           in (Answer (accepted_outcome (st_credit st')), st'))"
      using True by (simp add: stream_send_def Let_def)
    consider "w = ''__crash__''" | "w = ''__domain__''" | "w \<noteq> ''__crash__''" "w \<noteq> ''__domain__''"
      by blast
    then show ?thesis
    proof cases
      case 1
      then show ?thesis using assms r True charged by simp
    next
      case 2
      then show ?thesis using assms r True t domain by (auto simp: Let_def)
    next
      case 3
      then show ?thesis using assms r True t spoken by (auto simp: Let_def)
    qed
  qed
qed

lemma stream_send_ok:
  assumes "stream_ok st" "stream_send call st = (a, st')"
  shows "stream_ok st'"
  using assms(2)
  by (cases rule: stream_sendE)
    (use assms(1) in \<open>simp_all add: stream_state_ok credit_bounded_back credit_bounded_spent\<close>)

lemma stream_close_send_ok: "stream_ok st \<Longrightarrow> stream_close_send st = (a, st') \<Longrightarrow> stream_ok st'"
  by (auto simp: stream_close_send_def stream_state_ok butlast_append count_list_0_iff split: if_splits)

lemma stream_receiveE:
  assumes "stream_ok st" "stream_receive st = (a, st', finished)"
  obtains (empty) "st_events st = []" "a = Answer (exhausted_stream ''chat.receive'')" "st' = st" "\<not> finished"
  | (lost) p es where "st_events st = MessageEvent p # es" "terminalQueued st"
      "a = Answer protocolViolation_stream" "st' = st\<lparr>st_events := es\<rparr>" "\<not> finished"
  | (delivered) p es where "st_events st = MessageEvent p # es" "\<not> terminalQueued st"
      "a = Answer (message_outcome (nextOutboundSequence st) p)"
      "st' = st\<lparr>st_events := es, nextOutboundSequence := nextOutboundSequence st + 1\<rparr>" "\<not> finished"
  | (closed) es where "st_events st = PeerHalfClosed # es" "\<not> localHalfClosed st"
      "a = Answer half_closed_outcome" "st' = st\<lparr>st_events := es, localHalfClosed := True\<rparr>" "\<not> finished"
  | (terminal) t where "st_events st = [TerminalEvent t]" "terminalQueued st"
      "a = Answer (terminal_outcome_json t)" finished
proof (cases "st_events st")
  case Nil
  then have r: "stream_receive st = (Answer (exhausted_stream ''chat.receive''), st, False)"
    by (simp add: stream_receive_def)
  then have "a = Answer (exhausted_stream ''chat.receive'') \<and> st' = st \<and> \<not> finished" using assms(2) by auto
  then show ?thesis using Nil empty by blast
next
  case (Cons e es)
  show ?thesis
  proof (cases e)
    case (MessageEvent p)
    then show ?thesis using assms Cons lost delivered
      by (auto simp: stream_receive_def stream_ok_def half_close_ok_def Let_def split: if_splits)
  next
    case PeerHalfClosed
    then show ?thesis using assms Cons closed
      by (auto simp: stream_receive_def stream_ok_def half_close_ok_def Let_def split: if_splits)
  next
    case (TerminalEvent t)
    then show ?thesis using assms Cons terminal
      by (cases es) (auto simp: stream_receive_def stream_ok_def buffer_ok_def Let_def split: if_splits)
  qed
qed

lemma stream_receive_ok:
  assumes "stream_ok st" "stream_receive st = (a, st', False)"
  shows "stream_ok st'"
  using assms
  by (cases rule: stream_receiveE)
    (use assms(1) in \<open>auto simp: stream_state_ok count_list_0_iff split: if_splits\<close>)

section \<open>The provider\<close>

lemma streams_ok_get: "provider_ok s \<Longrightarrow> key_get (chat_streams s) k = Some st \<Longrightarrow> stream_ok st"
  by (auto simp: provider_ok_def key_get_def split: if_splits dest!: map_of_SomeD)

lemma key_get_by_value: "key_get m k = Some v \<Longrightarrow> by_value k"
  by (simp add: key_get_def split: if_splits)

lemma put_stream_ok:
  assumes "provider_ok s" "stream_ok st" "\<not> key_member k (retiredStreamIds s)"
  shows "provider_ok (put_stream k st s)"
  using assms by (auto simp: provider_ok_def put_stream_def dest!: in_key_set)

lemma remember_bounded:
  assumes "None \<notin> set ks \<longrightarrow> length ks \<le> bound" "None \<notin> set (remember bound k ks)" "0 < bound"
  shows "length (remember bound k ks) \<le> bound"
  using assms
  by (auto simp: remember_def key_add_def drop_oldest_def key_member_def split: list.splits option.splits if_splits)

lemma remember_member: "key_member k' (remember bound k ks) \<Longrightarrow> key_member k' ks \<or> k' = k"
  by (auto simp: remember_def key_add_def drop_oldest_def key_member_def split: list.splits option.splits if_splits)

lemma remembered: "by_value k \<Longrightarrow> key_member k (remember bound k ks)"
  by (simp add: remember_def)

lemma in_key_delete: "x \<in> set (key_delete k m) \<Longrightarrow> x \<in> set m"
  by (auto simp: key_delete_def AList.delete_eq split: if_splits)

lemma drop_stream_ok: "provider_ok s \<Longrightarrow> provider_ok (drop_stream k s)"
  unfolding provider_ok_def drop_stream_def markRetiredStream_def
  by (auto simp: remember_bounded dest!: remember_member dest: in_key_delete split: if_splits)

lemma outcome_kinds [simp]:
  "field (runtime_stream k d i) ''kind'' = Some (JStr ''runtime'')"
  "field protocolViolation_stream ''kind'' = Some (JStr ''runtime'')"
  "field (exhausted_stream o') ''kind'' = Some (JStr ''runtime'')"
  "field (accepted_outcome c) ''kind'' = Some (JStr ''accepted'')"
  "field (event_outcome e) ''kind'' = Some (JStr ''event'')"
  by (simp_all add: field_def runtime_stream_def runtime_outcome_def protocolViolation_stream_def
      exhausted_stream_def accepted_outcome_def event_outcome_def Let_def)

lemma cancelStream_ok: "provider_ok s \<Longrightarrow> provider_ok (cancelStream_chat k t s)"
  by (simp add: cancelStream_chat_def drop_stream_ok)

lemma openStream_chat_cases:
  assumes "openStream_chat to_number cfg opn s = (a, s')"
  obtains (refused) "s' = s" "\<And>v. a = Answer v \<Longrightarrow> field v ''kind'' = Some (JStr ''runtime'') \<or> field v ''kind'' = Some (JStr ''domain'')"
  | (opened) room c where "key_get (chat_streams s) (field opn ''stream_id'') = None"
      "\<not> key_member (field opn ''stream_id'') (retiredStreamIds s)"
      "ofield (field opn ''payload'') ''room'' = Some (JStr room)" "\<not> not_positive c"
      "a = Answer (JObj ([(''kind'', JStr ''opened'')] @ optional_field ''stream_id'' (field opn ''stream_id'') @
         [(''credit'', JNum (initial_credit c))]))"
      "s' = put_stream (field opn ''stream_id'') (new_stream (initial_credit c) room) s"
proof -
  define sid where "sid = field opn ''stream_id''"
  define c where "c = js_to_number to_number (field opn ''credit'')"
  let ?admitted = "has_session s (field opn ''session'') \<and> serves_stream cfg opn \<and> \<not> not_positive c \<and>
    field opn ''deadline_nanos'' \<noteq> Some (jint 0) \<and> key_get (chat_streams s) sid = None \<and>
    \<not> key_member sid (retiredStreamIds s)"
  note unfolded = openStream_chat_def [of to_number cfg opn s, folded sid_def c_def, unfolded Let_def]
  show ?thesis
  proof (cases ?admitted)
    case False
    then have "s' = s \<and> (\<exists>v. a = Answer v \<and> field v ''kind'' = Some (JStr ''runtime''))"
      using assms unfolded by (simp split: if_splits) auto
    then show ?thesis by (intro refused) auto
  next
    case True
    show ?thesis
    proof (cases "\<exists>room. ofield (field opn ''payload'') ''room'' = Some (JStr room)")
      case False
      then have "a = Answer protocolViolation_stream \<and> s' = s"
        using True assms unfolded by (auto split: option.splits json.splits)
      then show ?thesis by (intro refused) auto
    next
      case room: True
      then obtain room where room: "ofield (field opn ''payload'') ''room'' = Some (JStr room)" by blast
      show ?thesis
      proof (cases "room = ''__crash__'' \<or> room = ''closed''")
        case stopped: True
        then have "s' = s \<and> (a = ProcessExit \<or> a = Answer (JObj [(''kind'', JStr ''domain''), (''value'', JStr ''room_closed'')]))"
          using True assms unfolded room by auto
        then show ?thesis by (intro refused) (auto simp: field_def)
      next
        case False
        then show ?thesis using True assms unfolded room
          by (intro opened [of room c]) (simp_all add: sid_def put_stream_def)
      qed
    qed
  qed
qed

lemma openStream_chat_ok: "provider_ok s \<Longrightarrow> openStream_chat to_number cfg opn s = (a, s') \<Longrightarrow> provider_ok s'"
  by (cases rule: openStream_chat_cases [of to_number cfg opn s a s'])
    (auto intro: put_stream_ok new_stream_ok credit_bounded_initial)

lemma streamCall_ok: "provider_ok s \<Longrightarrow> streamCall call s = (a, s') \<Longrightarrow> provider_ok s'"
proof -
  assume ok: "provider_ok s" and r: "streamCall call s = (a, s')"
  show "provider_ok s'"
  proof (cases "key_get (chat_streams s) (field call ''stream_id'')")
    case None
    then show ?thesis using ok r by (simp add: streamCall_def Let_def split: if_splits)
  next
    case (Some st)
    have fresh: "\<not> key_member (field call ''stream_id'') (retiredStreamIds s)"
      using ok Some by (auto simp: provider_ok_def)
    show ?thesis
      using r Some streams_ok_get [OF ok Some] put_stream_ok [OF ok _ fresh] drop_stream_ok [OF ok] ok
      by (auto simp: streamCall_def Let_def split: if_splits prod.splits
          dest: stream_send_ok stream_close_send_ok stream_receive_ok)
  qed
qed

section \<open>Both transports\<close>

lemma stream_handshake_ok: "provider_ok (stream_handshake cfg handshake token s)"
  by (simp add: provider_ok_def stream_handshake_def resetSession_def key_get_def)

lemma stream_response_Proceed:
  "stream_response message r = Proceed s' reply \<longleftrightarrow>
     (\<exists>v. r = (Answer v, s') \<and>
        reply = Some (JObj ([(''kind'', JStr ''stream_response'')] @
          optional_field ''request_id'' (field message ''request_id'') @ [(''response'', v)])))"
  by (cases r) (auto simp: stream_response_def split: stream_answer.split)

interpretation chat: message_handler "stream_message to_number cfg" provider_ok
proof
  fix s v s' m
  assume "provider_ok s" "stream_message to_number cfg s v = Proceed s' m"
  then show "provider_ok s'"
    by (auto simp: stream_message_def Let_def stream_response_Proceed split: if_splits
        intro: cancelStream_ok openStream_chat_ok streamCall_ok)
qed

lemma stream_rpc_ok:
  assumes "provider_ok s"
  shows "provider_ok (snd (stream_rpc to_number cfg token s rpc meth params))"
proof -
  have "provider_ok (s\<lparr>chat_stopped := True\<rparr>)" using assms by (simp add: provider_ok_def)
  moreover have "provider_ok (snd (rpc_stream_answer rpc (openStream_chat to_number cfg v s)))" for v
    using openStream_chat_ok [OF assms] by (cases "openStream_chat to_number cfg v s")
      (auto simp: rpc_stream_answer_def split: stream_answer.split)
  moreover have "provider_ok (snd (rpc_stream_answer rpc (streamCall v s)))" for v
    using streamCall_ok [OF assms] by (cases "streamCall v s")
      (auto simp: rpc_stream_answer_def split: stream_answer.split)
  moreover have "provider_ok (snd (stream_rpc_cancel rpc params s))"
    using assms cancelStream_ok by (simp add: stream_rpc_cancel_def Let_def)
  ultimately show ?thesis
    using assms stream_handshake_ok by (simp add: stream_rpc_def Let_def)
qed

interpretation chat_rpc: rpc_dispatch "stream_rpc to_number cfg" provider_ok
  by unfold_locales (rule stream_rpc_ok)

lemma provider_ok_initial: "provider_ok initial_stream_provider"
  by (simp add: provider_ok_def initial_stream_provider_def key_get_def)

interpretation chat_frames: message_provider "stream_message to_number cfg" provider_ok "stream_accept cfg token"
  by unfold_locales (auto simp: stream_accept_def stream_handshake_ok)

section \<open>What a client observes of a stream\<close>

record chat_view =
  view_echoes :: bool
  view_texts :: "string list"
  view_got :: "(json option \<times> json option) list"

definition fresh_view :: "bool \<Rightarrow> chat_view" where
  "fresh_view echoes = \<lparr>view_echoes = echoes, view_texts = [], view_got = []\<rparr>"

text \<open>
  The client of the stream \<open>sid\<close> keeps the texts whose sending was accepted, where the room echoes them,
  and the sequence numbers and payloads of the messages it received, since the stream was last opened.
\<close>

definition observe :: "json option \<Rightarrow> json \<Rightarrow> json \<Rightarrow> chat_view \<Rightarrow> chat_view" where
  "observe sid message response w =
     (let kind = field response ''kind''; event = field response ''event'' in
      if field message ''stream_id'' \<noteq> sid then w
      else if kind = Some (JStr ''opened'')
      then fresh_view (ofield (field message ''payload'') ''room'' \<noteq> Some (JStr ''provider-closes-first''))
      else if kind = Some (JStr ''accepted'') \<and> field message ''action'' = Some (JStr ''send'')
      then (let t = text_of (ofield (field message ''payload'') ''text'') in
            if view_echoes w \<and> t \<noteq> ''__domain__'' then w\<lparr>view_texts := view_texts w @ [t]\<rparr> else w)
      else if kind = Some (JStr ''event'') \<and> ofield event ''kind'' = Some (JStr ''message'')
      then w\<lparr>view_got := view_got w @ [(ofield event ''sequence'', ofield event ''payload'')]\<rparr>
      else w)"

fun client_view ::
  "(string \<Rightarrow> js_number) \<Rightarrow> fixture_config \<Rightarrow> js_number \<Rightarrow> json option \<Rightarrow> chat_view \<Rightarrow> stream_provider \<Rightarrow> json list \<Rightarrow>
   chat_view" where
  "client_view to_number cfg mx sid w s [] = w"
| "client_view to_number cfg mx sid w s (v # vs) =
     (case turn mx (stream_message to_number cfg) s v of
        Inl _ \<Rightarrow> w
      | Inr (s', replies) \<Rightarrow>
          client_view to_number cfg mx sid
            (fold (\<lambda>r w. case field r ''response'' of None \<Rightarrow> w | Some response \<Rightarrow> observe sid v response w) replies w)
            s' vs)"

fun event_messages :: "stream_event list \<Rightarrow> json list" where
  "event_messages [] = []"
| "event_messages (MessageEvent p # es) = p # event_messages es"
| "event_messages (_ # es) = event_messages es"

definition numbered :: "json list \<Rightarrow> (json option \<times> json option) list" where
  "numbered ps = map (\<lambda>i. (Some (jint (int i)), Some (ps ! i))) [0..<length ps]"

text \<open>What was got is numbered and starts what was sent; before the end of the stream the rest is buffered.\<close>

definition view_prefix :: "chat_view \<Rightarrow> json list \<Rightarrow> json list \<Rightarrow> bool" where
  "view_prefix w got rest \<longleftrightarrow> view_got w = numbered got \<and> map echo (view_texts w) = got @ rest"

definition stream_agrees :: "chat_view \<Rightarrow> stream_state \<Rightarrow> bool" where
  "stream_agrees w st \<longleftrightarrow>
     (\<exists>got rest. view_prefix w got rest \<and> nextOutboundSequence st = int (length got) \<and>
        (view_echoes w \<longleftrightarrow> \<not> providerClosesFirst st) \<and>
        (\<not> terminalQueued st \<longrightarrow> rest = event_messages (st_events st)))"

definition view_agrees :: "json option \<Rightarrow> chat_view \<Rightarrow> stream_provider \<Rightarrow> bool" where
  "view_agrees sid w s \<longleftrightarrow>
     (\<exists>got rest. view_prefix w got rest) \<and>
     (\<forall>st. key_get (chat_streams s) sid = Some st \<longrightarrow> stream_agrees w st)"

lemma numbered_snoc: "numbered (ps @ [p]) = numbered ps @ [(Some (jint (int (length ps))), Some p)]"
  by (auto simp: numbered_def nth_append)

lemma event_messages_append [simp]: "event_messages (es @ fs) = event_messages es @ event_messages fs"
  by (induction es rule: event_messages.induct) auto

lemma observe_other [simp]: "field message ''stream_id'' \<noteq> sid \<Longrightarrow> observe sid message v w = w"
  by (simp add: observe_def)

lemma observe_failure [simp]:
  "field v ''kind'' = Some (JStr ''runtime'') \<Longrightarrow> observe sid message v w = w"
  "field v ''kind'' = Some (JStr ''domain'') \<Longrightarrow> observe sid message v w = w"
  by (simp_all add: observe_def Let_def)

lemma view_put:
  "view_agrees sid w s \<Longrightarrow> k \<noteq> sid \<or> stream_agrees w st \<Longrightarrow> view_agrees sid w (put_stream k st s)"
  by (auto simp: view_agrees_def put_stream_def split: if_splits)

lemma view_put_new: "stream_agrees w st \<Longrightarrow> key_get (chat_streams s) sid = None \<or> by_value sid \<Longrightarrow>
    view_agrees sid w (put_stream sid st s)"
  by (auto simp: view_agrees_def put_stream_def stream_agrees_def split: if_splits)

lemma view_drop: "view_agrees sid w s \<Longrightarrow> view_agrees sid w (drop_stream k s)"
  by (auto simp: view_agrees_def drop_stream_def markRetiredStream_def split: if_splits)

lemma view_open:
  assumes "view_agrees sid w s" "openStream_chat to_number cfg opn s = (Answer v, s')"
  shows "view_agrees sid (observe sid opn v w) s'"
  using assms(2)
proof (cases rule: openStream_chat_cases)
  case refused
  then show ?thesis using assms(1) by auto
next
  case (opened room c)
  show ?thesis
  proof (cases "field opn ''stream_id'' = sid")
    case True
    have "field v ''kind'' = Some (JStr ''opened'')" using opened(5) by (simp add: field_def)
    then have "observe sid opn v w = fresh_view (room \<noteq> ''provider-closes-first'')"
      using True opened(3) by (simp add: observe_def)
    moreover have "stream_agrees (fresh_view (room \<noteq> ''provider-closes-first'')) (new_stream d room)" for d
      by (simp add: stream_agrees_def view_prefix_def fresh_view_def numbered_def new_stream_def Let_def)
    ultimately show ?thesis using True opened(1,6) by (simp add: view_put_new)
  next
    case False
    then show ?thesis using assms(1) opened(6) by (simp add: view_put)
  qed
qed

lemma send_agrees:
  assumes "stream_ok st" "stream_agrees w st" "stream_send call st = (Answer v, st')"
    and "field call ''stream_id'' = sid" "field call ''action'' = Some (JStr ''send'')"
  shows "stream_agrees (observe sid call v w) st'"
  using assms(3)
proof (cases rule: stream_sendE)
  case (refused u)
  then show ?thesis using assms(2) by auto
next
  case charged
  then show ?thesis using assms(2) by (auto simp: stream_agrees_def)
next
  case domain
  then have "observe sid call v w = w"
    using assms(4,5) by (simp add: observe_def Let_def text_of_def)
  then show ?thesis using assms(2) domain(3) by (auto simp: stream_agrees_def)
next
  case (spoken t)
  then have "observe sid call v w = (if view_echoes w then w\<lparr>view_texts := view_texts w @ [t]\<rparr> else w)"
    using assms(4,5) by (simp add: observe_def Let_def text_of_def)
  moreover obtain got where "view_prefix w got (event_messages (st_events st))"
    "nextOutboundSequence st = int (length got)" "view_echoes w \<longleftrightarrow> \<not> providerClosesFirst st"
    using assms(2) spoken(1) by (auto simp: stream_agrees_def)
  ultimately show ?thesis
    using spoken(4) by (auto simp: stream_agrees_def view_prefix_def intro!: exI [of _ got])
qed

lemma close_send_agrees:
  assumes "stream_agrees w st" "stream_close_send st = (Answer v, st')"
    and "field call ''action'' = Some (JStr ''close_send'')"
  shows "stream_agrees (observe sid call v w) st'"
proof -
  have "observe sid call v w = w"
    using assms(2,3) by (auto simp: stream_close_send_def observe_def Let_def split: if_splits)
  then show ?thesis
    using assms(1,2) by (auto simp: stream_close_send_def stream_agrees_def split: if_splits) blast+
qed

lemma receive_agrees:
  assumes "stream_ok st" "stream_agrees w st" "stream_receive st = (Answer v, st', finished)"
    and "field call ''stream_id'' = sid"
  shows "if finished then observe sid call v w = w else stream_agrees (observe sid call v w) st'"
  using assms(1,3)
proof (cases rule: stream_receiveE)
  case (delivered p es)
  have "ofield (field v ''event'') ''kind'' = Some (JStr ''message'')"
    "ofield (field v ''event'') ''sequence'' = Some (jint (nextOutboundSequence st))"
    "ofield (field v ''event'') ''payload'' = Some p" "field v ''kind'' = Some (JStr ''event'')"
    using delivered(3) by (simp_all add: message_outcome_def event_outcome_def field_def ofield_def)
  then have "observe sid call v w =
      w\<lparr>view_got := view_got w @ [(Some (jint (nextOutboundSequence st)), Some p)]\<rparr>"
    using assms(4) by (simp add: observe_def Let_def)
  moreover obtain got where "view_prefix w got (p # event_messages es)"
    "nextOutboundSequence st = int (length got)" "view_echoes w \<longleftrightarrow> \<not> providerClosesFirst st"
    using assms(2) delivered(1,2) by (auto simp: stream_agrees_def)
  ultimately show ?thesis
    using delivered(2,4,5)
    by (auto simp: stream_agrees_def view_prefix_def numbered_snoc intro!: exI [of _ "got @ [p]"])
qed (use assms(2) in \<open>auto simp: stream_agrees_def half_closed_outcome_def terminal_outcome_json_def observe_def Let_def
      field_def [of "JObj _"] ofield_def event_outcome_def\<close>)

lemma streamCall_cases:
  assumes "streamCall call s = (a, s')" "field call ''stream_id'' = k"
  obtains (refused) "s' = s" "a = Answer protocolViolation_stream"
  | (send) st st' where "key_get (chat_streams s) k = Some st" "field call ''action'' = Some (JStr ''send'')"
      "stream_send call st = (a, st')" "s' = put_stream k st' s"
  | (close_send) st st' where "key_get (chat_streams s) k = Some st"
      "field call ''action'' = Some (JStr ''close_send'')"
      "stream_close_send st = (a, st')" "s' = put_stream k st' s"
  | (receive) st st' finished where "key_get (chat_streams s) k = Some st"
      "stream_receive st = (a, st', finished)"
      "s' = (if finished then drop_stream k s else put_stream k st' s)"
proof (cases "if has_session s (field call ''session'') then key_get (chat_streams s) k else None")
  case None
  then show ?thesis using assms refused by (auto simp: streamCall_def Let_def split: if_splits)
next
  case (Some st)
  then have st: "has_session s (field call ''session'')" "key_get (chat_streams s) k = Some st"
    by (simp_all split: if_splits)
  obtain b st1 where s: "stream_send call st = (b, st1)" by (cases "stream_send call st")
  obtain c st2 where c: "stream_close_send st = (c, st2)" by (cases "stream_close_send st")
  obtain d st3 finished where r: "stream_receive st = (d, st3, finished)" by (cases "stream_receive st")
  consider "field call ''action'' = Some (JStr ''send'')" | "field call ''action'' = Some (JStr ''close_send'')"
    | "field call ''action'' \<noteq> Some (JStr ''send'')" "field call ''action'' \<noteq> Some (JStr ''close_send'')" by blast
  then show ?thesis
  proof cases
    case 1
    then show ?thesis using assms st s by (intro send [OF st(2) 1, of st1]) (simp_all add: streamCall_def)
  next
    case 2
    then show ?thesis using assms st c by (intro close_send [OF st(2) 2, of st2]) (simp_all add: streamCall_def)
  next
    case 3
    then show ?thesis using assms st r by (intro receive [OF st(2), of st3 finished]) (simp_all add: streamCall_def)
  qed
qed

lemma view_call:
  assumes "provider_ok s" "view_agrees sid w s" "streamCall call s = (Answer v, s')"
  shows "view_agrees sid (observe sid call v w) s'"
proof (cases "field call ''stream_id'' = sid")
  case False
  show ?thesis
    by (cases rule: streamCall_cases [OF assms(3) refl])
      (use assms(2) False in \<open>auto intro: view_put view_drop\<close>)
next
  case True
  have agrees: "stream_ok st" "stream_agrees w st" "by_value sid" if "key_get (chat_streams s) sid = Some st" for st
    using that assms(1,2) by (auto simp: view_agrees_def dest: streams_ok_get key_get_by_value)
  from assms(3) True show ?thesis
  proof (cases rule: streamCall_cases)
    case (send st st')
    then show ?thesis using send_agrees [OF agrees(1,2) [OF send(1)] send(3) True send(2)] agrees(3)
      by (simp add: view_put_new)
  next
    case (close_send st st')
    then show ?thesis using close_send_agrees [OF agrees(2) [OF close_send(1)] close_send(3,2)] agrees(3)
      by (simp add: view_put_new)
  next
    case (receive st st' finished)
    then show ?thesis using receive_agrees [OF agrees(1,2) [OF receive(1)] receive(2) True] agrees(3) assms(2)
      by (simp add: view_put_new view_drop split: if_splits)
  qed (use assms(2) in simp)
qed

lemma view_message:
  assumes "provider_ok s" "view_agrees sid w s" "turn mx (stream_message to_number cfg) s v = Inr (s', replies)"
  shows "view_agrees sid
    (fold (\<lambda>r w. case field r ''response'' of None \<Rightarrow> w | Some response \<Rightarrow> observe sid v response w) replies w) s'"
proof -
  have response: "field (JObj ([(''kind'', k)] @ optional_field ''request_id'' i @ [(''response'', r)])) ''response'' = Some r"
    for k i r by (cases i) (simp_all add: field_def optional_field_def)
  obtain reply where reply: "stream_message to_number cfg s v = Proceed s' reply"
    "replies = (case reply of None \<Rightarrow> [] | Some r \<Rightarrow> [r])"
    using assms(3) by (auto simp: turn_def split: if_splits loop_step.splits option.splits)
  then show ?thesis
    using assms(1,2) view_open [OF assms(2)] view_call [OF assms(1,2)] response
    by (auto simp: stream_message_def Let_def stream_response_Proceed cancelStream_chat_def view_drop simp del: append.simps
        split: if_splits)
qed

lemma client_view_agrees:
  "provider_ok s \<Longrightarrow> view_agrees sid w s \<Longrightarrow>
   \<exists>got rest. view_prefix (client_view to_number cfg mx sid w s vs) got rest"
proof (induction vs arbitrary: w s)
  case Nil
  then show ?case by (auto simp: view_agrees_def)
next
  case (Cons v vs)
  show ?case
  proof (cases "turn mx (stream_message to_number cfg) s v")
    case (Inl r)
    then show ?thesis using Cons.prems by (auto simp: view_agrees_def)
  next
    case (Inr r)
    then obtain s' replies where r: "turn mx (stream_message to_number cfg) s v = Inr (s', replies)"
      by (cases r) auto
    have "provider_ok s'" using chat.turn_keeps [OF Cons.prems(1), of mx to_number cfg v] r by simp
    then show ?thesis using Cons.IH [OF _ view_message [OF Cons.prems r]] r by simp
  qed
qed

lemma view_prefix_numbered:
  assumes "view_prefix w got rest"
  shows "length (view_got w) \<le> length (view_texts w)"
    "view_got w = map (\<lambda>i. (Some (jint (int i)), Some (echo (view_texts w ! i)))) [0..<length (view_got w)]"
proof -
  have w: "view_got w = numbered got" "map echo (view_texts w) = got @ rest"
    using assms by (simp_all add: view_prefix_def)
  have len: "length got + length rest = length (view_texts w)"
    using arg_cong [OF w(2), of length] by simp
  have "got ! i = echo (view_texts w ! i)" if "i < length got" for i
    using that len arg_cong [OF w(2), of "\<lambda>xs. xs ! i"] by (simp add: nth_append)
  then show "view_got w = map (\<lambda>i. (Some (jint (int i)), Some (echo (view_texts w ! i)))) [0..<length (view_got w)]"
    by (simp add: w(1) numbered_def)
  show "length (view_got w) \<le> length (view_texts w)" using len by (simp add: w(1) numbered_def)
qed

section \<open>Draining a stream\<close>

text \<open>The answers of \<open>n\<close> calls in a row.\<close>

fun calls :: "json \<Rightarrow> nat \<Rightarrow> stream_provider \<Rightarrow> stream_answer list \<times> stream_provider" where
  "calls call 0 s = ([], s)"
| "calls call (Suc n) s =
     (case streamCall call s of (a, s1) \<Rightarrow> case calls call n s1 of (as, s2) \<Rightarrow> (a # as, s2))"

text \<open>
  What receiving gives for the buffered events: in order and numbered, except that a message is
  answered with a protocol violation once the terminal event is queued.
\<close>

fun drained :: "bool \<Rightarrow> int \<Rightarrow> stream_event list \<Rightarrow> json list" where
  "drained queued n [] = []"
| "drained queued n (MessageEvent p # es) =
     (if queued then protocolViolation_stream # drained queued n es
      else message_outcome n p # drained queued (n + 1) es)"
| "drained queued n (PeerHalfClosed # es) = half_closed_outcome # drained queued n es"
| "drained queued n (TerminalEvent t # es) = terminal_outcome_json t # drained queued n es"

lemma has_session_put [simp]: "has_session (put_stream k st s) c = has_session s c"
  by (simp add: has_session_def put_stream_def)

lemma key_get_put [simp]: "by_value k \<Longrightarrow> key_get (chat_streams (put_stream k st s)) k = Some st"
  by (simp add: put_stream_def)

lemma drop_stream_gone:
  "by_value k \<Longrightarrow> key_get (chat_streams (drop_stream k s)) k = None \<and> key_member k (retiredStreamIds (drop_stream k s))"
  by (simp add: drop_stream_def markRetiredStream_def remembered)

lemma calls_drain:
  assumes "provider_ok s" "has_session s (field call ''session'')" "field call ''stream_id'' = sid"
    "field call ''action'' = Some (JStr ''receive'')" "key_get (chat_streams s) sid = Some st"
  shows "\<exists>s'. calls call (length (st_events st)) s =
      (map Answer (drained (terminalQueued st) (nextOutboundSequence st) (st_events st)), s') \<and>
    (if terminalQueued st then key_get (chat_streams s') sid = None \<and> key_member sid (retiredStreamIds s')
     else \<exists>st'. key_get (chat_streams s') sid = Some st' \<and> st_events st' = [])"
  using assms
proof (induction "st_events st" arbitrary: s st)
  case Nil
  then have "\<not> terminalQueued st"
    using streams_ok_get [OF Nil.prems(1,5)] by (auto simp: stream_ok_def buffer_ok_def)
  then show ?case using Nil.hyps [symmetric] Nil.prems(5) by simp
next
  case (Cons e es)
  note ok = streams_ok_get [OF Cons.prems(1,5)] and byv = key_get_by_value [OF Cons.prems(5)]
  obtain a st' finished where r: "stream_receive st = (a, st', finished)" by (cases "stream_receive st")
  let ?s = "if finished then drop_stream sid s else put_stream sid st' s"
  have step: "streamCall call s = (a, ?s)"
    using Cons.prems r by (simp add: streamCall_def)
  have next_ok: "provider_ok ?s" using streamCall_ok [OF Cons.prems(1) step] .
  have ev: "st_events st = e # es" using Cons.hyps(2) by simp
  have IH: "\<exists>s'. calls call (length es) (put_stream sid st' s) =
        (map Answer (drained (terminalQueued st') (nextOutboundSequence st') es), s') \<and>
      (if terminalQueued st' then key_get (chat_streams s') sid = None \<and> key_member sid (retiredStreamIds s')
       else \<exists>st'. key_get (chat_streams s') sid = Some st' \<and> st_events st' = [])"
    if "st_events st' = es" "\<not> finished"
    using Cons.hyps(1) [of st' "put_stream sid st' s"] that next_ok Cons.prems(2-4) byv by simp
  from ok r show ?case
  proof (cases rule: stream_receiveE)
    case empty
    then show ?thesis using ev by simp
  next
    case (terminal t)
    then show ?thesis using ev step drop_stream_gone [OF byv] by simp
  next
    case (lost p es')
    then show ?thesis using ev step IH by auto
  next
    case (delivered p es')
    then show ?thesis using ev step IH by auto
  next
    case (closed es')
    then show ?thesis using ev step IH by auto
  qed
qed

end
