(* ===== verification/Stream_Sample.thy ===== *)
theory Stream_Sample
  imports Stream_Properties
begin

text \<open>
  A chat session: the handshake, an open room, one text, the end of sending; its frames; and the
  properties that a running provider has, each at a point of this session.
\<close>

section \<open>The session\<close>

definition chat_endpoint :: json where
  "chat_endpoint =
     JObj [(''capability_id'', JStr ''example.chat@1''), (''descriptor_version'', JStr ''1.0.0''),
       (''operations'', JArr [JStr ''chat'']), (''stream_operations'', JArr [JStr ''chat''])]"

definition chat_config :: fixture_config where
  "chat_config = \<lparr>fx_maxFrameBytes = Fin 65536, fx_expectedEndpoints = [chat_endpoint]\<rparr>"

definition chat_hello :: json where
  "chat_hello =
     JObj [(''kind'', JStr ''handshake''), (''protocol_version'', jint 1), (''value_profile'', JStr VALUE_PROFILE),
       (''max_frame_bytes'', jint 65536), (''endpoints'', JArr [chat_endpoint])]"

definition chat_open :: json where
  "chat_open =
     JObj [(''kind'', JStr ''stream_open''), (''request_id'', jint 1), (''stream_id'', jint 7),
       (''capability_id'', JStr ''example.chat@1''), (''operation'', JStr ''chat''), (''session'', JStr ''t''),
       (''credit'', jint 4), (''payload'', JObj [(''room'', JStr ''lobby'')])]"

definition chat_call :: "string \<Rightarrow> (string \<times> json) list \<Rightarrow> json" where
  "chat_call action extra =
     JObj ([(''kind'', JStr ''stream_call''), (''action'', JStr action), (''request_id'', jint 2),
       (''stream_id'', jint 7), (''session'', JStr ''t'')] @ extra)"

definition chat_send :: json where
  "chat_send = chat_call ''send'' [(''sequence'', jint 0), (''payload'', JObj [(''text'', JStr ''hi'')])]"

definition chat_started :: stream_provider where
  "chat_started = stream_handshake chat_config (Some chat_hello) ''t'' initial_stream_provider"

definition chat_stream :: "stream_event list \<Rightarrow> stream_state" where
  "chat_stream es =
     \<lparr>nextInboundSequence = 1, nextOutboundSequence = 0, st_credit = Fin 4, st_events = es, peerHalfClosed = False,
      localHalfClosed = False, terminalQueued = False, terminalSeen = False, receiveInFlight = False,
      providerClosesFirst = False\<rparr>"

definition chat_running :: stream_provider where
  "chat_running = chat_started\<lparr>chat_streams := [(Some (jint 7), chat_stream [MessageEvent (echo ''hi'')])]\<rparr>"

definition chat_closing :: stream_provider where
  "chat_closing = chat_started\<lparr>chat_streams :=
     [(Some (jint 7), (chat_stream [MessageEvent (echo ''hi''), PeerHalfClosed, TerminalEvent TerminalSuccess])
        \<lparr>peerHalfClosed := True, terminalQueued := True\<rparr>)]\<rparr>"

lemma chat_accepted: "expectedHandshake chat_config (Some chat_hello)"
  by (simp add: expectedHandshake_def chat_config_def chat_hello_def ofield_def field_def PROTOCOL_VERSION_def)

lemma chat_started_session: "has_session chat_started (Some (JStr ''t''))"
  by (simp add: has_session_def hasSession_def chat_started_def stream_handshake_def resetSession_def ack_session_def
      chat_accepted)

lemma chat_started_fields [simp]:
  "chat_streams chat_started = []" "retiredStreamIds chat_started = []"
  by (simp_all add: chat_started_def stream_handshake_def resetSession_def)

lemma chat_session_same:
  "has_session (s\<lparr>chat_streams := m\<rparr>) c = has_session s c"
  by (simp add: has_session_def)

lemma chat_opened:
  "openStream_chat (\<lambda>_. NaN) chat_config chat_open chat_started =
     (Answer (JObj [(''kind'', JStr ''opened''), (''stream_id'', jint 7), (''credit'', jint 4)]),
      chat_started\<lparr>chat_streams := [(Some (jint 7), new_stream (Fin 4) ''lobby'')]\<rparr>)"
  using chat_started_session
  by (simp add: openStream_chat_def Let_def chat_open_def field_def serves_stream_def streamEndpoint_def chat_config_def
      chat_endpoint_def key_get_def key_member_def key_set_def optional_field_def ofield_def)

lemma chat_sent:
  "streamCall chat_send (chat_started\<lparr>chat_streams := [(Some (jint 7), new_stream (Fin 4) ''lobby'')]\<rparr>) =
     (Answer (accepted_outcome (Fin 4)), chat_running)"
  using chat_started_session
  by (simp add: streamCall_def Let_def chat_send_def chat_call_def field_def key_get_def chat_session_same
      stream_send_def new_stream_def ofield_def put_stream_def key_set_def chat_running_def chat_stream_def)

lemma chat_closed:
  "streamCall (chat_call ''close_send'' []) chat_running = (Answer (accepted_outcome (Fin 4)), chat_closing)"
  using chat_started_session
  by (simp add: streamCall_def Let_def chat_call_def field_def key_get_def chat_session_same stream_close_send_def
      put_stream_def key_set_def chat_running_def chat_closing_def chat_stream_def)

lemma chat_received:
  "streamCall (chat_call ''receive'' []) chat_running =
     (Answer (message_outcome 0 (echo ''hi'')),
      chat_started\<lparr>chat_streams := [(Some (jint 7), (chat_stream [])\<lparr>nextOutboundSequence := 1\<rparr>)]\<rparr>)"
  using chat_started_session
  by (simp add: streamCall_def Let_def chat_call_def field_def key_get_def chat_session_same stream_receive_def
      put_stream_def key_set_def chat_running_def chat_stream_def)

end
