(* ===== verification/Stream_Results.thy ===== *)
theory Stream_Results
  imports Stream_Sample
begin

text \<open>
  The properties of the framed transport and of the chat provider, with the session of
  \<open>Stream_Sample\<close> as their instance.
\<close>

section \<open>The framed transport\<close>

lemma short_framable:
  assumes "wire v" "\<forall>c \<in> set (stringify v). (of_char c :: nat) \<le> 127" "length (stringify v) \<le> 1000"
  shows "framable (Fin 65536) v"
  using assms by (simp add: framable_def byte_length_def utf8_valid_ascii)

lemma small_numbers:
  "show_rat 1 = ''1''" "show_rat 7 = ''7''" "show_rat 4 = ''4''" "show_rat 65536 = ''65536''"
proof -
  have "digits 1 = ''1''" "digits 7 = ''7''" "digits 4 = ''4''" "digits 65536 = ''65536''"
    by (simp_all add: digits.simps) code_simp+
  then show "show_rat 1 = ''1''" "show_rat 7 = ''7''" "show_rat 4 = ''4''" "show_rat 65536 = ''65536''"
    by (simp_all add: show_rat_def show_int_def)
qed

lemma chat_hello_framable: "framable (Fin 65536) chat_hello"
  by (rule short_framable)
    (simp_all add: chat_hello_def chat_endpoint_def VALUE_PROFILE_def small_numbers quote_def escape_char_def Let_def
      fromEntries_def array_index_def decimal_text_def ascii_digit_def)

lemma chat_open_framable: "framable (Fin 65536) chat_open"
  by (rule short_framable)
    (simp_all add: chat_open_def small_numbers quote_def escape_char_def Let_def
      fromEntries_def array_index_def decimal_text_def ascii_digit_def)

text \<open>C37. 
  The framed transport is transparent. When every message arrives in chunks of its own, the provider
  behaves as on the messages themselves and sends the frames of its answers. For every other
  chunking it does the same, or stops with the limit error after a prefix of the messages.
\<close>

theorem framed_transparent:
  assumes "exact_on_integers rnd" "\<forall>v \<in> set vs. framable mx v"
  shows "(frame_chunks css vs \<longrightarrow>
      framedProvider rnd mx accept handle s (map Chunk (concat css)) = framed (provide_messages mx accept handle s vs)) \<and>
    (chunk_bytes rs = Some (concat (map frame_bytes vs)) \<longrightarrow>
      framedProvider rnd mx accept handle s rs = framed (provide_messages mx accept handle s vs) \<or>
      (\<exists>us e s' ms. take (length us) vs = us \<and> provide_messages mx accept handle s us = (e, s', ms) \<and>
         framedProvider rnd mx accept handle s rs = (FrameFailed FrameTooLarge, s', concat (map frame_bytes ms))))"
  by (intro conjI impI) (rule framed_aligned [OF assms], assumption, rule framed_chunked [OF assms], assumption)

definition chat_chunks :: "string list list" where
  "chat_chunks = [[take 3 (frame_bytes chat_hello), drop 3 (frame_bytes chat_hello)], [frame_bytes chat_open]]"

definition chat_ack :: json where
  "chat_ack = JObj ((''kind'', JStr ''handshake_ack'') # handshakeAck chat_config (Some chat_hello) ''t'')"

definition chat_open_reply :: json where
  "chat_open_reply =
     JObj [(''kind'', JStr ''stream_response''), (''request_id'', jint 1),
       (''response'', JObj [(''kind'', JStr ''opened''), (''stream_id'', jint 7), (''credit'', jint 4)])]"

lemma chat_replies_short: "byte_length chat_ack \<le> 65536" "byte_length chat_open_reply \<le> 65536"
  by (simp_all add: byte_length_def chat_ack_def handshakeAck_def chat_accepted ack_session_def endpoint_list_def
      ofield_def field_def chat_hello_def chat_endpoint_def chat_config_def PROTOCOL_VERSION_def VALUE_PROFILE_def
      chat_open_reply_def small_numbers quote_def escape_char_def Let_def)

lemma chat_message_open:
  "stream_message (\<lambda>_. NaN) chat_config chat_started chat_open =
     Proceed (chat_started\<lparr>chat_streams := [(Some (jint 7), new_stream (Fin 4) ''lobby'')]\<rparr>) (Some chat_open_reply)"
  using chat_opened
  by (simp add: stream_message_def chat_open_def field_def stream_response_def chat_open_reply_def optional_field_def)

lemma chat_message_call:
  assumes "streamCall (chat_call action extra) s = (Answer v, s')"
  shows "stream_message (\<lambda>_. NaN) chat_config s (chat_call action extra) =
    Proceed s' (Some (JObj [(''kind'', JStr ''stream_response''), (''request_id'', jint 2), (''response'', v)]))"
proof -
  have "field (chat_call action extra) ''kind'' = Some (JStr ''stream_call'')"
    "field (chat_call action extra) ''request_id'' = Some (jint 2)"
    by (simp_all add: chat_call_def field_def)
  then show ?thesis using assms by (simp add: stream_message_def stream_response_def optional_field_def)
qed

lemmas chat_messages =
  chat_message_open chat_message_call [OF chat_sent [unfolded chat_send_def], folded chat_send_def]
  chat_message_call [OF chat_closed] chat_message_call [OF chat_received]

lemma chat_truthy: "truthy chat_open" "truthy chat_send" "truthy (chat_call a x)"
  by (simp_all add: chat_open_def chat_send_def chat_call_def)

lemma chat_provided:
  "provide_messages (Fin 65536) (stream_accept chat_config ''t'') (stream_message (\<lambda>_. NaN) chat_config)
     initial_stream_provider [chat_hello, chat_open] =
   (Returned, chat_started\<lparr>chat_streams := [(Some (jint 7), new_stream (Fin 4) ''lobby'')]\<rparr>, [chat_ack, chat_open_reply])"
proof -
  have "truthy chat_open" "truthy chat_hello" "field chat_hello ''kind'' = Some (JStr ''handshake'')"
    by (simp_all add: chat_open_def chat_hello_def field_def)
  then show ?thesis
    using chat_replies_short
    by (simp add: provide_messages_def stream_accept_def chat_accepted serve_messages_turn turn_def chat_message_open
        flip: chat_started_def chat_ack_def)
qed

lemma chat_frames_exact:
  "exact_on_integers Fin" "\<forall>v \<in> set [chat_hello, chat_open]. framable (Fin 65536) v"
  "frame_chunks chat_chunks [chat_hello, chat_open]"
  using chat_hello_framable chat_open_framable
  by (simp_all add: exact_on_integers_def frame_chunks_def chat_chunks_def frame_bytes_def setUint32_def)

theorem framed_transparent_witness:
  "framedProvider Fin (Fin 65536) (stream_accept chat_config ''t'') (stream_message (\<lambda>_. NaN) chat_config)
     initial_stream_provider (map Chunk (concat chat_chunks)) =
   (Returned, chat_started\<lparr>chat_streams := [(Some (jint 7), new_stream (Fin 4) ''lobby'')]\<rparr>,
    frame_bytes chat_ack @ frame_bytes chat_open_reply)"
  using framed_transparent [OF chat_frames_exact(1,2), of chat_chunks "stream_accept chat_config ''t''"
      "stream_message (\<lambda>_. NaN) chat_config" initial_stream_provider "[]"] chat_frames_exact(3)
  by (simp add: framed_def chat_provided)

section \<open>Chat streams\<close>

text \<open>C38. 
  Chat streams are FIFO channels. Whatever messages arrive at the framed provider, the client of a
  stream has received a prefix of the echoes of the texts it sent, in order, numbered from zero
  without gaps.
\<close>

theorem stream_delivery:
  "let w = client_view to_number cfg mx sid (fresh_view True)
     (stream_handshake cfg handshake token initial_stream_provider) vs
   in length (view_got w) \<le> length (view_texts w) \<and>
      view_got w = map (\<lambda>i. (Some (jint (int i)), Some (echo (view_texts w ! i)))) [0..<length (view_got w)]"
proof -
  let ?s = "stream_handshake cfg handshake token initial_stream_provider"
  have "view_agrees sid (fresh_view True) ?s"
    by (simp add: view_agrees_def view_prefix_def fresh_view_def numbered_def stream_handshake_def resetSession_def
        key_get_def)
  then obtain got rest where "view_prefix (client_view to_number cfg mx sid (fresh_view True) ?s vs) got rest"
    using client_view_agrees stream_handshake_ok by blast
  from view_prefix_numbered [OF this] show ?thesis by (simp add: Let_def)
qed

theorem stream_delivery_witness:
  "view_got (client_view (\<lambda>_. NaN) chat_config PosInfinity (Some (jint 7)) (fresh_view True) chat_started
     [chat_open, chat_send, chat_call ''receive'' []]) = [(Some (jint 0), Some (echo ''hi''))]"
proof -
  let ?w = "client_view (\<lambda>_. NaN) chat_config PosInfinity (Some (jint 7)) (fresh_view True) chat_started
     [chat_open, chat_send, chat_call ''receive'' []]"
  have "view_texts ?w = [''hi''] \<and> length (view_got ?w) = 1"
    using chat_messages by (simp add: turn_def chat_truthy observe_def Let_def field_def [of "JObj _"] chat_open_reply_def
        chat_open_def chat_send_def chat_call_def ofield_def text_of_def fresh_view_def accepted_outcome_def
        message_outcome_def event_outcome_def)
  then show ?thesis
    using stream_delivery [of "\<lambda>_. NaN" chat_config PosInfinity "Some (jint 7)" "Some chat_hello" "''t''"
        "[chat_open, chat_send, chat_call ''receive'' []]"]
    by (simp add: Let_def flip: chat_started_def)
qed

text \<open>
  Whatever bytes arrive on standard input, and whatever requests arrive at the JSON-RPC transport, a
  stream buffers at most 18 events, its credit is at most 16, no receive is left under way, and its
  identity is not retired; at most 1024 identities are retained while none of them is
  \<open>undefined\<close>.
\<close>

theorem stream_limits:
  assumes "framedProvider rnd mx (stream_accept cfg token) (stream_message to_number cfg) initial_stream_provider rs =
      (e, s, out) \<or>
    s = run (rpc_step rnd mx (stream_rpc to_number cfg)) initial_stream_provider requests"
  shows "(\<forall>k st. key_get (chat_streams s) k = Some st \<longrightarrow>
      length (st_events st) \<le> 18 \<and> credit_bounded (st_credit st) \<and> \<not> receiveInFlight st \<and>
      \<not> key_member k (retiredStreamIds s)) \<and>
    (None \<notin> set (retiredStreamIds s) \<longrightarrow> length (retiredStreamIds s) \<le> maxRetiredStreamIds)"
proof -
  have ok: "provider_ok s"
    using assms chat_frames.provider_keeps [OF provider_ok_initial] chat_rpc.requests_keep [OF provider_ok_initial]
    by blast
  then show ?thesis
    using stream_ok_bounds streams_ok_get [OF ok] by (simp add: provider_ok_def)
qed

abbreviation chat_lobby :: stream_provider where
  "chat_lobby \<equiv> chat_started\<lparr>chat_streams := [(Some (jint 7), new_stream (Fin 4) ''lobby'')]\<rparr>"

theorem stream_limits_witness:
  "framedProvider Fin (Fin 65536) (stream_accept chat_config ''t'') (stream_message (\<lambda>_. NaN) chat_config)
     initial_stream_provider (map Chunk (concat chat_chunks)) =
       (Returned, chat_lobby, frame_bytes chat_ack @ frame_bytes chat_open_reply) \<and>
   key_get (chat_streams chat_lobby) (Some (jint 7)) = Some (new_stream (Fin 4) ''lobby'') \<and>
   length (st_events (new_stream (Fin 4) ''lobby'')) \<le> 18 \<and> \<not> key_member (Some (jint 7)) (retiredStreamIds chat_lobby) \<and>
   length (retiredStreamIds chat_lobby) \<le> maxRetiredStreamIds"
proof -
  have run: "framedProvider Fin (Fin 65536) (stream_accept chat_config ''t'') (stream_message (\<lambda>_. NaN) chat_config)
      initial_stream_provider (map Chunk (concat chat_chunks)) =
        (Returned, chat_lobby, frame_bytes chat_ack @ frame_bytes chat_open_reply)"
    by (simp add: framed_aligned [OF chat_frames_exact] framed_def chat_provided)
  have "key_get (chat_streams chat_lobby) (Some (jint 7)) = Some (new_stream (Fin 4) ''lobby'')"
    by (simp add: key_get_def)
  with run stream_limits [OF disjI1 [OF run]] show ?thesis by simp
qed

text \<open>C39. 
  A client that keeps receiving drains the stream. In a running session, as many receives as there are
  buffered events answer with these events in order, numbered from where the stream was; if the
  terminal event is queued they close the stream and retire its identity, but every message still
  buffered before it is answered with a protocol violation and lost.
\<close>

theorem stream_drained:
  assumes "serve_messages mx (stream_message to_number cfg) (stream_handshake cfg handshake token initial_stream_provider) vs =
      (Returned, s, ms)"
    and "has_session s (field call ''session'')" "field call ''stream_id'' = sid"
    and "field call ''action'' = Some (JStr ''receive'')" "key_get (chat_streams s) sid = Some st"
  shows "\<exists>s'. calls call (length (st_events st)) s =
      (map Answer (drained (terminalQueued st) (nextOutboundSequence st) (st_events st)), s') \<and>
    (if terminalQueued st then key_get (chat_streams s') sid = None \<and> key_member sid (retiredStreamIds s')
     else \<exists>st'. key_get (chat_streams s') sid = Some st' \<and> st_events st' = [])"
  using calls_drain chat.messages_keep [OF stream_handshake_ok assms(1)] assms(2-) by blast

lemma chat_session:
  "\<exists>ms. serve_messages PosInfinity (stream_message (\<lambda>_. NaN) chat_config) chat_started
     [chat_open, chat_send, chat_call ''close_send'' []] = (Returned, chat_closing, ms)"
  using chat_messages by (simp add: serve_messages_turn turn_def chat_truthy)

theorem stream_drained_witness:
  "\<exists>s'. calls (chat_call ''receive'' []) 3 chat_closing =
      ([Answer protocolViolation_stream, Answer half_closed_outcome, Answer (terminal_outcome_json TerminalSuccess)], s') \<and>
    key_get (chat_streams s') (Some (jint 7)) = None \<and> key_member (Some (jint 7)) (retiredStreamIds s')"
proof -
  obtain ms where ms: "serve_messages PosInfinity (stream_message (\<lambda>_. NaN) chat_config)
      (stream_handshake chat_config (Some chat_hello) ''t'' initial_stream_provider)
      [chat_open, chat_send, chat_call ''close_send'' []] = (Returned, chat_closing, ms)"
    using chat_session by (auto simp: chat_started_def)
  have "field (chat_call ''receive'' []) ''session'' = Some (JStr ''t'')"
    "field (chat_call ''receive'' []) ''stream_id'' = Some (jint 7)"
    "field (chat_call ''receive'' []) ''action'' = Some (JStr ''receive'')"
    by (simp_all add: chat_call_def field_def)
  then show ?thesis
    using stream_drained [OF ms, of "chat_call ''receive'' []" "Some (jint 7)"] chat_started_session
    by (simp add: chat_closing_def chat_session_same key_get_def chat_stream_def numeral_3_eq_3)
qed

end
