(* ===== verification/Event_Provider.thy ===== *)
theory Event_Provider
  imports Fixture_Rpc
begin

text \<open>
  The notification provider of \<open>fixtures/bun/event-provider-core.ts\<close>: events are accepted into a
  bounded queue per caller binding and handled one after the other, over frames or JSON-RPC.

  The module variables are the record \<open>event_provider\<close>. \<open>drainEvents\<close> is asynchronous: it takes an
  event from the queue, sleeps, and goes on, so a queue keeps the event it sleeps for
  (\<open>eq_current\<close>) and the end of the sleep is the event \<open>DrainTimer\<close> of a schedule. An exception inside
  \<open>drainEvents\<close> is a rejection that nobody handles; \<open>eq_rejections\<close> counts them. The command line is
  in its declared types.
\<close>

section \<open>State\<close>

datatype event_mode = AcceptMode | RejectMode

record event_binding =
  eb_capability_id :: string
  eb_caller_instance :: string
  eb_capacity :: int

record event_queue =
  eq_queue :: "json list"
  eq_active :: bool
  eq_capacity :: int
  eq_current :: "json option"
  eq_rejections :: nat

record event_provider =
  eventQueues :: "(string \<times> event_queue) list"
  ev_cancelled :: "json option list"
  ev_handshake :: "json option"
  ev_session :: "string option"
  ev_stopped :: bool
  ev_exit :: "nat option"

definition binding_key :: "event_binding \<Rightarrow> string" where
  "binding_key b = eb_caller_instance b @ '':'' @ eb_capability_id b"

text \<open>A capacity is an integer here; the comparison \<open>queue.length >= capacity\<close> takes a fractional one as
  the next integer.\<close>

definition initial_queue :: "int \<Rightarrow> event_queue" where
  "initial_queue c = \<lparr>eq_queue = [], eq_active = False, eq_capacity = c, eq_current = None, eq_rejections = 0\<rparr>"

definition initial_event_provider :: "event_binding list \<Rightarrow> event_provider" where
  "initial_event_provider bindings =
     \<lparr>eventQueues = fold (\<lambda>b. AList.update (binding_key b) (initial_queue (eb_capacity b))) bindings [],
      ev_cancelled = [], ev_handshake = None, ev_session = None, ev_stopped = False, ev_exit = None\<rparr>"

section \<open>Operations\<close>

definition eventBindingKey :: "json \<Rightarrow> string option" where
  "eventBindingKey event =
     (case field event ''caller_instance'' of
        None \<Rightarrow> None
      | Some caller \<Rightarrow>
          if \<not> truthy caller then None
          else Some (js_string caller @ '':'' @
            (case field event ''capability_id'' of None \<Rightarrow> ''undefined'' | Some c \<Rightarrow> js_string c)))"

definition eventQueueFor :: "event_provider \<Rightarrow> json \<Rightarrow> (string \<times> event_queue) option" where
  "eventQueueFor s event =
     (case eventBindingKey event of
        None \<Rightarrow> None
      | Some k \<Rightarrow> map_option (Pair k) (map_of (eventQueues s) k))"

definition runtime_event :: "string \<Rightarrow> json option \<Rightarrow> json option \<Rightarrow> json" where
  "runtime_event kind detail requestId =
     runtime_outcome ((''kind'', JStr kind) #
       (if kind = ''resource_exhausted''
        then [(''operation'', case detail of None \<Rightarrow> JStr ''notify'' | Some JNull \<Rightarrow> JStr ''notify'' | Some d \<Rightarrow> d)]
        else if requestId \<noteq> None \<and> (kind = ''cancelled'' \<or> kind = ''deadline_exceeded'')
        then optional_field ''request_id'' requestId
        else optional_field ''detail'' detail))"

definition event_handshake ::
  "fixture_config \<Rightarrow> json option \<Rightarrow> string \<Rightarrow> event_provider \<Rightarrow> event_provider" where
  "event_handshake cfg handshake token s =
     s\<lparr>ev_handshake := (if expectedHandshake cfg handshake then handshake else None),
       ev_session := ack_session cfg handshake token\<rparr>"

text \<open>
  The loop of \<open>drainEvents\<close> up to its next \<open>await\<close>: it sleeps for the next event, leaves when the
  queue is empty, or fails on a payload without properties.
\<close>

fun drain_loop :: "event_queue \<Rightarrow> json list \<Rightarrow> event_queue" where
  "drain_loop q [] = q\<lparr>eq_queue := [], eq_active := False, eq_current := None\<rparr>"
| "drain_loop q (event # es) =
     (if \<not> truthy event then drain_loop q es
      else if is_nullish (field event ''payload'')
      then q\<lparr>eq_queue := es, eq_active := False, eq_current := None, eq_rejections := eq_rejections q + 1\<rparr>
      else q\<lparr>eq_queue := es, eq_active := True, eq_current := Some event\<rparr>)"

definition drainEvents :: "event_queue \<Rightarrow> event_queue" where
  "drainEvents q = (if eq_active q then q else drain_loop q (eq_queue q))"

definition put_queue :: "string \<Rightarrow> event_queue \<Rightarrow> event_provider \<Rightarrow> event_provider" where
  "put_queue k q s = s\<lparr>eventQueues := AList.update k q (eventQueues s)\<rparr>"

definition drain_timer :: "string \<Rightarrow> event_provider \<Rightarrow> event_provider" where
  "drain_timer k s =
     (case map_of (eventQueues s) k of
        None \<Rightarrow> s
      | Some q \<Rightarrow>
          (case eq_current q of
             None \<Rightarrow> s
           | Some event \<Rightarrow>
               if ofield (field event ''payload'') ''message'' = Some (JStr ''__crash__'') then s\<lparr>ev_exit := Some 17\<rparr>
               else put_queue k (drain_loop q (eq_queue q)) s))"

definition serves_event :: "fixture_config \<Rightarrow> json \<Rightarrow> bool" where
  "serves_event cfg event \<longleftrightarrow>
     (case find (\<lambda>candidate. field candidate ''capability_id'' = field event ''capability_id'') (fx_expectedEndpoints cfg) of
        None \<Rightarrow> False
      | Some endpoint \<Rightarrow>
          (case field event ''operation'' of
             None \<Rightarrow> False
           | Some operation \<Rightarrow>
               by_value (Some operation) \<and>
               operation \<in> set (case field endpoint ''event_operations'' of Some v \<Rightarrow> elems v | None \<Rightarrow> [])))"

definition retained :: "event_queue \<Rightarrow> int" where
  "retained q = int (length (eq_queue q)) + (if eq_active q then 1 else 0)"

definition event_success :: json where
  "event_success = JObj [(''kind'', JStr ''success''), (''value'', JNull)]"

definition caller_required :: json where
  "caller_required = runtime_event ''protocol_violation'' (Some (JStr ''event caller instance is required'')) None"

definition publishEvent_queue ::
  "fixture_config \<Rightarrow> event_mode \<Rightarrow> json \<Rightarrow> event_provider \<Rightarrow> json \<times> event_provider" where
  "publishEvent_queue cfg mode event s =
     (if ev_handshake s = None \<or> field event ''session'' \<noteq> map_option JStr (ev_session s)
      then (runtime_event ''protocol_violation'' (Some (JStr ''event session mismatch'')) None, s)
      else if \<not> serves_event cfg event
      then (runtime_event ''unknown_operation'' (field event ''operation'') None, s)
      else if (case field event ''caller_instance'' of None \<Rightarrow> True | Some c \<Rightarrow> \<not> truthy c) then (caller_required, s)
      else if field event ''deadline_nanos'' = Some (jint 0)
      then (runtime_event ''deadline_exceeded'' None (field event ''request_id''), s)
      else if mode = RejectMode then (runtime_event ''resource_exhausted'' (field event ''operation'') None, s)
      else case eventQueueFor s event of
        None \<Rightarrow> (caller_required, s)
      | Some (k, q) \<Rightarrow>
          if retained q \<ge> eq_capacity q
          then (runtime_event ''resource_exhausted'' (field event ''operation'') None, s)
          else (event_success, put_queue k (drainEvents (q\<lparr>eq_queue := eq_queue q @ [event]\<rparr>)) s))"

section \<open>Transports\<close>

definition event_accept ::
  "fixture_config \<Rightarrow> string \<Rightarrow> event_provider \<Rightarrow> json \<Rightarrow> event_provider \<times> json \<times> bool" where
  "event_accept cfg token s handshake =
     (event_handshake cfg (Some handshake) token s,
      JObj ((''kind'', JStr ''handshake_ack'') # handshakeAck cfg (Some handshake) token),
      expectedHandshake cfg (Some handshake))"

definition event_message ::
  "fixture_config \<Rightarrow> event_mode \<Rightarrow> event_provider \<Rightarrow> json \<Rightarrow> event_provider loop_step" where
  "event_message cfg mode s message =
     (let kind = field message ''kind''; requestId = field message ''request_id'' in
      if kind = Some (JStr ''shutdown'') then Finish
      else if kind = Some (JStr ''cancel'') then Proceed (s\<lparr>ev_cancelled := key_add requestId (ev_cancelled s)\<rparr>) None
      else if kind \<noteq> Some (JStr ''event_publish'') then Fail ''protocol violation''
      else if key_member requestId (ev_cancelled s)
      then Proceed (s\<lparr>ev_cancelled := set_delete requestId (ev_cancelled s)\<rparr>) None
      else case publishEvent_queue cfg mode message s of (outcome, s') \<Rightarrow>
        Proceed s' (Some (JObj ([(''kind'', JStr ''response'')] @ optional_field ''request_id'' requestId @
          [(''outcome'', outcome)]))))"

definition event_rpc ::
  "fixture_config \<Rightarrow> event_mode \<Rightarrow> string \<Rightarrow> event_provider \<Rightarrow> json \<Rightarrow> string \<Rightarrow> json option \<Rightarrow>
   rpc_answer \<times> event_provider" where
  "event_rpc cfg mode token s rpc meth params =
     (if meth = ''lenso.handshake''
      then let s' = event_handshake cfg params token s in
        if is_nullish params then (rpc_type_error, s')
        else (rpc_result rpc (JObj (handshakeAck cfg params token)), s')
      else if meth = ''lenso.cancel''
      then (if is_nullish params then (rpc_type_error, s)
            else if ofield params ''session'' \<noteq> map_option JStr (ev_session s)
            then (rpc_result rpc (runtime_event ''protocol_violation'' None None), s)
            else (rpc_result rpc (JBool True),
              if ofield params ''request_id'' = None then s
              else s\<lparr>ev_cancelled := key_add (ofield params ''request_id'') (ev_cancelled s)\<rparr>))
      else if meth = ''lenso.shutdown'' then (rpc_result rpc (JBool True), s\<lparr>ev_stopped := True\<rparr>)
      else if meth \<noteq> ''lenso.event.publish'' then (rpc_result rpc (runtime_event ''protocol_violation'' None None), s)
      else if ev_handshake s = None
      then (rpc_result rpc (runtime_event ''protocol_violation'' (Some (JStr ''event session mismatch'')) None), s)
      else if is_nullish params then (rpc_type_error, s)
      else case publishEvent_queue cfg mode (the params) s of (outcome, s') \<Rightarrow> (rpc_result rpc outcome, s'))"

section \<open>Schedules\<close>

text \<open>A process runs one transport; after \<open>process.exit\<close> nothing happens.\<close>

datatype event_input = EventMessage json | EventCall string json string "json option" | DrainTimer string

fun event_step :: "fixture_config \<Rightarrow> event_mode \<Rightarrow> event_provider \<Rightarrow> event_input \<Rightarrow> event_provider" where
  "event_step cfg mode s (EventMessage v) =
     (case event_message cfg mode s v of Proceed s' _ \<Rightarrow> s' | _ \<Rightarrow> s)"
| "event_step cfg mode s (EventCall token rpc meth params) = snd (event_rpc cfg mode token s rpc meth params)"
| "event_step cfg mode s (DrainTimer k) = drain_timer k s"

definition event_next :: "fixture_config \<Rightarrow> event_mode \<Rightarrow> event_provider \<Rightarrow> event_input \<Rightarrow> event_provider" where
  "event_next cfg mode s i = (if ev_exit s \<noteq> None then s else event_step cfg mode s i)"

end
