(* ===== verification/Event_Properties.thy ===== *)
theory Event_Properties
  imports Event_Provider
begin

text \<open>
  The notification queues: in every schedule of messages, calls and timers, an accepted event is
  handled once, in the order of acceptance, and a queue never retains more than its capacity.
\<close>

section \<open>Histories\<close>

definition current_list :: "event_queue \<Rightarrow> json list" where
  "current_list q = (case eq_current q of None \<Rightarrow> [] | Some event \<Rightarrow> [event])"

text \<open>An event that \<open>drainEvents\<close> can look into.\<close>

definition readable :: "json \<Rightarrow> bool" where
  "readable event \<longleftrightarrow> truthy event \<and> \<not> is_nullish (field event ''payload'')"

text \<open>The event that an input hands to \<open>publishEvent\<close>.\<close>

fun published :: "event_provider \<Rightarrow> event_input \<Rightarrow> json option" where
  "published s (EventMessage v) =
     (if field v ''kind'' = Some (JStr ''event_publish'') \<and> \<not> key_member (field v ''request_id'') (ev_cancelled s)
      then Some v else None)"
| "published s (EventCall token rpc meth params) =
     (if meth = ''lenso.event.publish'' \<and> ev_handshake s \<noteq> None \<and> \<not> is_nullish params then params else None)"
| "published s (DrainTimer k) = None"

text \<open>The events accepted into the queue \<open>k\<close> by an input, and the events of \<open>k\<close> whose sleep it ends.\<close>

definition accepted :: "fixture_config \<Rightarrow> event_mode \<Rightarrow> string \<Rightarrow> event_provider \<Rightarrow> event_input \<Rightarrow> json list" where
  "accepted cfg mode k s i =
     (case published s i of
        None \<Rightarrow> []
      | Some v \<Rightarrow>
          if ev_exit s = None \<and> eventBindingKey v = Some k \<and> fst (publishEvent_queue cfg mode v s) = event_success
          then [v] else [])"

fun handled :: "string \<Rightarrow> event_provider \<Rightarrow> event_input \<Rightarrow> json list" where
  "handled k s (DrainTimer k') =
     (case map_of (eventQueues s) k of
        None \<Rightarrow> []
      | Some q \<Rightarrow>
          if ev_exit s = None \<and> k' = k \<and> ev_exit (drain_timer k s) = None then current_list q else [])"
| "handled k s _ = []"

fun history_step ::
  "fixture_config \<Rightarrow> event_mode \<Rightarrow> string \<Rightarrow> event_provider \<times> json list \<times> json list \<Rightarrow> event_input \<Rightarrow>
   event_provider \<times> json list \<times> json list" where
  "history_step cfg mode k (s, as, hs) i = (event_next cfg mode s i, as @ accepted cfg mode k s i, hs @ handled k s i)"

section \<open>Invariant\<close>

definition queue_ok :: "event_queue \<Rightarrow> bool" where
  "queue_ok q \<longleftrightarrow> (eq_active q \<longleftrightarrow> eq_current q \<noteq> None) \<and> retained q \<le> max 0 (eq_capacity q)"

fun history_ok :: "string \<Rightarrow> event_provider \<times> json list \<times> json list \<Rightarrow> bool" where
  "history_ok k (s, as, hs) =
     (case map_of (eventQueues s) k of
        None \<Rightarrow> as = [] \<and> hs = []
      | Some q \<Rightarrow> queue_ok q \<and> filter readable as = hs @ current_list q @ filter readable (eq_queue q))"

lemma drain_loop_history:
  "current_list (drain_loop q es) @ filter readable (eq_queue (drain_loop q es)) = filter readable es"
  by (induction q es rule: drain_loop.induct) (auto simp: current_list_def readable_def)

lemma drain_loop_ok:
  "(eq_active (drain_loop q es) \<longleftrightarrow> eq_current (drain_loop q es) \<noteq> None) \<and>
   retained (drain_loop q es) \<le> int (length es) \<and> eq_capacity (drain_loop q es) = eq_capacity q"
  by (induction q es rule: drain_loop.induct) (auto simp: retained_def)

lemma drain_timer_ok:
  assumes "queue_ok q"
  shows "queue_ok (drain_loop q (eq_queue q))"
  using assms drain_loop_ok [of q "eq_queue q"] by (auto simp: queue_ok_def retained_def split: if_splits)

lemma drainEvents_ok:
  assumes "queue_ok q" "retained q < eq_capacity q"
  shows "queue_ok (drainEvents (q\<lparr>eq_queue := eq_queue q @ [event]\<rparr>))"
    "current_list (drainEvents (q\<lparr>eq_queue := eq_queue q @ [event]\<rparr>)) @
     filter readable (eq_queue (drainEvents (q\<lparr>eq_queue := eq_queue q @ [event]\<rparr>))) =
     current_list q @ filter readable (eq_queue q) @ filter readable [event]"
proof -
  let ?q = "q\<lparr>eq_queue := eq_queue q @ [event]\<rparr>"
  show "queue_ok (drainEvents ?q)"
    using assms drain_loop_ok [of ?q "eq_queue q @ [event]"]
    by (auto simp: drainEvents_def queue_ok_def retained_def)
  have "current_list q = []" if "\<not> eq_active q" using that assms(1) by (simp add: queue_ok_def current_list_def)
  then show "current_list (drainEvents ?q) @ filter readable (eq_queue (drainEvents ?q)) =
     current_list q @ filter readable (eq_queue q) @ filter readable [event]"
    using drain_loop_history [of ?q "eq_queue q @ [event]"]
    by (auto simp: drainEvents_def current_list_def [of ?q] current_list_def [of q])
qed

lemma failure_not_success [simp]: "runtime_event kind d i \<noteq> event_success" "caller_required \<noteq> event_success"
  by (simp_all add: runtime_event_def runtime_outcome_def event_success_def caller_required_def)

lemma publishEvent_cases:
  assumes "publishEvent_queue cfg mode event s = (outcome, s')"
  obtains (refused) "s' = s" "outcome \<noteq> event_success"
  | (queued) k q where "eventBindingKey event = Some k" "map_of (eventQueues s) k = Some q"
      "retained q < eq_capacity q" "outcome = event_success"
      "s' = put_queue k (drainEvents (q\<lparr>eq_queue := eq_queue q @ [event]\<rparr>)) s"
proof (cases "outcome = event_success")
  case True
  then obtain k q where "eventQueueFor s event = Some (k, q)" "\<not> retained q \<ge> eq_capacity q"
    "s' = put_queue k (drainEvents (q\<lparr>eq_queue := eq_queue q @ [event]\<rparr>)) s"
    using assms by (auto simp: publishEvent_queue_def split: if_splits option.splits prod.splits)
  then show ?thesis using True queued by (auto simp: eventQueueFor_def split: option.splits)
next
  case False
  then have "s' = s" using assms by (auto simp: publishEvent_queue_def split: if_splits option.splits prod.splits)
  then show ?thesis using False refused by blast
qed

lemma published_step:
  assumes "ev_exit s = None" "published s i = Some v"
  shows "event_next cfg mode s i = snd (publishEvent_queue cfg mode v s) \<and> handled k s i = []"
proof (cases i)
  case (EventMessage m)
  then have "v = m" "field v ''kind'' = Some (JStr ''event_publish'')" "\<not> key_member (field v ''request_id'') (ev_cancelled s)"
    using assms(2) by (simp_all split: if_splits)
  then show ?thesis using EventMessage assms(1)
    by (simp add: event_next_def event_message_def Let_def split: prod.split)
next
  case (EventCall token rpc meth params)
  then have "meth = ''lenso.event.publish''" "ev_handshake s \<noteq> None" "\<not> is_nullish params" "params = Some v"
    using assms(2) by (simp_all split: if_splits)
  then show ?thesis using EventCall assms(1) by (auto simp: event_next_def event_rpc_def split: prod.split)
qed (use assms(2) in simp)

lemma unpublished_step:
  assumes "published s i = None" "\<nexists>k. i = DrainTimer k"
  shows "eventQueues (event_next cfg mode s i) = eventQueues s \<and> handled k s i = []"
proof (cases i)
  case (EventMessage m)
  then show ?thesis using assms
    by (auto simp: event_next_def event_message_def Let_def split: if_splits)
next
  case (EventCall token rpc meth params)
  then show ?thesis using assms(1)
    by (auto simp: event_next_def event_rpc_def Let_def event_handshake_def is_nullish_def split: if_splits)
qed (use assms(2) in simp)

lemma queue_update [simp]:
  "map_of (eventQueues (put_queue k q s)) k' = (if k = k' then Some q else map_of (eventQueues s) k')"
  by (simp add: put_queue_def update_conv')

lemma history_publish:
  assumes "history_ok k (s, as, hs)" "publishEvent_queue cfg mode v s = (outcome, s')"
  shows "history_ok k (s', as @ (if eventBindingKey v = Some k \<and> outcome = event_success then [v] else []), hs)"
  using assms(2)
proof (cases rule: publishEvent_cases)
  case refused
  then show ?thesis using assms(1) by simp
next
  case (queued k' q)
  then show ?thesis using assms(1) drainEvents_ok [of q v] by (auto split: option.splits)
qed

lemma history_timer:
  assumes "history_ok k (s, as, hs)" "ev_exit s = None"
  shows "history_ok k (drain_timer k' s, as, hs @ handled k s (DrainTimer k'))"
proof (cases "map_of (eventQueues s) k'")
  case None
  then show ?thesis using assms by (auto simp: drain_timer_def split: option.splits)
next
  case (Some q)
  show ?thesis
  proof (cases "eq_current q = None")
    case True
    then show ?thesis using assms Some by (auto simp: drain_timer_def current_list_def split: option.splits)
  next
    case False
    then obtain e where e: "eq_current q = Some e" by blast
    show ?thesis
    proof (cases "ofield (field e ''payload'') ''message'' = Some (JStr ''__crash__'')")
      case True
      then show ?thesis using assms Some e by (auto simp: drain_timer_def split: option.splits)
    next
      case ok: False
      then have "drain_timer k' s = put_queue k' (drain_loop q (eq_queue q)) s" "ev_exit (drain_timer k' s) = None"
        using Some e assms(2) by (simp_all add: drain_timer_def put_queue_def)
      then show ?thesis
        using assms Some drain_timer_ok [of q] drain_loop_history [of q "eq_queue q"]
        by (auto split: option.splits)
    qed
  qed
qed

lemma history_step_ok: "history_ok k h \<Longrightarrow> history_ok k (history_step cfg mode k h i)"
proof -
  obtain s as hs where h: "h = (s, as, hs)" by (cases h)
  assume ok: "history_ok k h"
  consider "ev_exit s \<noteq> None" | v where "ev_exit s = None" "published s i = Some v"
    | "ev_exit s = None" "published s i = None" "\<nexists>k. i = DrainTimer k" | k' where "ev_exit s = None" "i = DrainTimer k'"
    by (cases "published s i") auto
  then show ?thesis
  proof cases
    case 1
    then show ?thesis using ok h
      by (cases i) (auto simp: event_next_def accepted_def split: option.splits)
  next
    case (2 v)
    then show ?thesis using ok h published_step [OF 2] history_publish [of k s as hs cfg mode v]
      by (cases "publishEvent_queue cfg mode v s") (simp add: accepted_def)
  next
    case 3
    then show ?thesis using ok h unpublished_step [OF 3(2,3)] by (simp add: accepted_def)
  next
    case (4 k')
    then show ?thesis using ok h history_timer [of k s as hs k'] by (simp add: accepted_def event_next_def)
  qed
qed

interpretation history: step_invariant "history_step cfg mode k" "history_ok k"
  by unfold_locales (rule history_step_ok)

lemma history_run: "fst (run (history_step cfg mode k) (s, as, hs) es) = run (event_next cfg mode) s es"
  by (induction es arbitrary: s as hs) simp_all

lemma initial_queues:
  "map_of (eventQueues (initial_event_provider bindings)) k = Some q \<Longrightarrow> \<exists>c. q = initial_queue c"
proof -
  have "map_of (fold (\<lambda>b. AList.update (binding_key b) (initial_queue (eb_capacity b))) bindings m) k = Some q \<Longrightarrow>
      (\<exists>c. q = initial_queue c) \<or> map_of m k = Some q" for m
    by (induction bindings arbitrary: m) (fastforce simp: update_conv' split: if_splits)+
  from this [of "[]"]
  show "map_of (eventQueues (initial_event_provider bindings)) k = Some q \<Longrightarrow> \<exists>c. q = initial_queue c"
    by (simp add: initial_event_provider_def)
qed

text \<open>C40. 
  Events are handled exactly once and in order. In every schedule, the events accepted into a queue
  whose payload can be read are those handled so far, the one being handled and those still queued,
  in this order; and a queue never retains more events than its capacity.
\<close>

theorem event_delivery:
  assumes "run (history_step cfg mode k) (initial_event_provider bindings, [], []) es = (s, as, hs)"
    and "map_of (eventQueues s) k = Some q"
  shows "s = run (event_next cfg mode) (initial_event_provider bindings) es \<and>
    filter readable as = hs @ current_list q @ filter readable (eq_queue q) \<and>
    retained q \<le> max 0 (eq_capacity q)"
proof -
  have "history_ok k (initial_event_provider bindings, [], [])"
    using initial_queues [of bindings k]
    by (auto simp: initial_queue_def queue_ok_def retained_def current_list_def split: option.split)
  then have "history_ok k (s, as, hs)" using history.inv_run assms(1) by metis
  moreover have "s = run (event_next cfg mode) (initial_event_provider bindings) es"
    using history_run [of cfg mode k "initial_event_provider bindings" "[]" "[]" es] assms(1) by simp
  ultimately show ?thesis using assms(2) by (simp add: queue_ok_def)
qed

section \<open>A session\<close>

definition notify_config :: fixture_config where
  "notify_config =
     \<lparr>fx_maxFrameBytes = Fin 65536, fx_expectedEndpoints =
        [JObj [(''capability_id'', JStr ''n@1''), (''event_operations'', JArr [JStr ''notify''])]]\<rparr>"

definition notify_hello :: json where
  "notify_hello =
     JObj [(''protocol_version'', jint 1), (''value_profile'', JStr VALUE_PROFILE), (''max_frame_bytes'', jint 65536),
       (''endpoints'', JArr (fx_expectedEndpoints notify_config))]"

definition notify_event :: "string \<Rightarrow> json" where
  "notify_event m =
     JObj [(''request_id'', jint 1), (''capability_id'', JStr ''n@1''), (''operation'', JStr ''notify''),
       (''caller_instance'', JStr ''c''), (''session'', JStr ''t''), (''payload'', JObj [(''message'', JStr m)])]"

definition notify_bindings :: "event_binding list" where
  "notify_bindings = [\<lparr>eb_capability_id = ''n@1'', eb_caller_instance = ''c'', eb_capacity = 2\<rparr>]"

definition notify_inputs :: "event_input list" where
  "notify_inputs =
     [EventCall ''t'' JNull ''lenso.handshake'' (Some notify_hello),
      EventCall ''t'' JNull ''lenso.event.publish'' (Some (notify_event ''a'')),
      EventCall ''t'' JNull ''lenso.event.publish'' (Some (notify_event ''b'')),
      EventCall ''t'' JNull ''lenso.event.publish'' (Some (notify_event ''c'')),
      DrainTimer ''c:n@1'']"

definition notify_queue :: "json list \<Rightarrow> json \<Rightarrow> event_queue" where
  "notify_queue es e =
     \<lparr>eq_queue = es, eq_active = True, eq_capacity = 2, eq_current = Some e, eq_rejections = 0\<rparr>"

definition notify_state :: "(string \<times> event_queue) list \<Rightarrow> event_provider" where
  "notify_state qs =
     \<lparr>eventQueues = qs, ev_cancelled = [], ev_handshake = Some notify_hello, ev_session = Some ''t'',
      ev_stopped = False, ev_exit = None\<rparr>"

lemma notify_state_fields [simp]:
  "eventQueues (notify_state qs) = qs" "ev_handshake (notify_state qs) = Some notify_hello" "ev_exit (notify_state qs) = None"
  by (simp_all add: notify_state_def)

lemma notify_accepted: "expectedHandshake notify_config (Some notify_hello)"
  by (simp add: expectedHandshake_def notify_config_def notify_hello_def ofield_def field_def PROTOCOL_VERSION_def)

lemma notify_publish:
  "publishEvent_queue notify_config AcceptMode (notify_event m) (notify_state [(''c:n@1'', q)]) =
     (if retained q \<ge> eq_capacity q
      then (runtime_event ''resource_exhausted'' (Some (JStr ''notify'')) None, notify_state [(''c:n@1'', q)])
      else (event_success, notify_state [(''c:n@1'', drainEvents (q\<lparr>eq_queue := eq_queue q @ [notify_event m]\<rparr>))]))"
  by (simp add: publishEvent_queue_def notify_event_def notify_state_def field_def serves_event_def notify_config_def
      eventQueueFor_def eventBindingKey_def put_queue_def)

lemma notify_session:
  "run (history_step notify_config AcceptMode ''c:n@1'') (initial_event_provider notify_bindings, [], []) notify_inputs =
     (notify_state [(''c:n@1'', notify_queue [] (notify_event ''b''))],
      [notify_event ''a'', notify_event ''b''], [notify_event ''a''])"
proof -
  let ?step = "history_step notify_config AcceptMode ''c:n@1''"
  let ?publish = "\<lambda>m. EventCall ''t'' JNull ''lenso.event.publish'' (Some (notify_event m))"
  have hello: "?step (initial_event_provider notify_bindings, [], []) (EventCall ''t'' JNull ''lenso.handshake'' (Some notify_hello)) =
      (notify_state [(''c:n@1'', initial_queue 2)], [], [])"
    by (simp add: initial_event_provider_def notify_bindings_def binding_key_def event_next_def event_rpc_def
        is_nullish_def notify_hello_def [symmetric] event_handshake_def notify_accepted ack_session_def notify_state_def
        accepted_def Let_def)
  have key: "eventBindingKey (notify_event m) = Some ''c:n@1''" for m
    by (simp add: eventBindingKey_def notify_event_def field_def)
  have publish: "?step (notify_state [(''c:n@1'', q)], as, hs) (?publish m) =
      (if retained q \<ge> eq_capacity q then (notify_state [(''c:n@1'', q)], as, hs)
       else (notify_state [(''c:n@1'', drainEvents (q\<lparr>eq_queue := eq_queue q @ [notify_event m]\<rparr>))], as @ [notify_event m], hs))"
    for q as hs m
    using notify_publish [of m q] key
    by (simp add: event_next_def event_rpc_def is_nullish_def accepted_def notify_event_def [of m, symmetric]
        notify_event_def [THEN arg_cong, of "\<lambda>v. v = JNull"])
  have timer: "?step (notify_state [(''c:n@1'', notify_queue [notify_event b] (notify_event ''a''))], as, hs) (DrainTimer ''c:n@1'') =
      (notify_state [(''c:n@1'', notify_queue [] (notify_event b))], as, hs @ [notify_event ''a''])" for as hs b
    by (simp add: event_next_def accepted_def drain_timer_def notify_queue_def put_queue_def notify_state_def
        current_list_def notify_event_def field_def ofield_def is_nullish_def)
  have "truthy (notify_event m)" "\<not> is_nullish (field (notify_event m) ''payload'')" for m
    by (simp_all add: notify_event_def field_def is_nullish_def)
  then have first: "drainEvents ((initial_queue 2)\<lparr>eq_queue := [notify_event ''a'']\<rparr>) = notify_queue [] (notify_event ''a'')"
    by (simp add: drainEvents_def initial_queue_def notify_queue_def)
  have later: "drainEvents ((notify_queue [] e)\<lparr>eq_queue := es\<rparr>) = notify_queue es e" for es e
    by (simp add: drainEvents_def notify_queue_def)
  have "retained (initial_queue 2) = 0" "eq_capacity (initial_queue 2) = 2" "eq_queue (initial_queue 2) = []"
    "retained (notify_queue es e) = int (length es) + 1" "eq_capacity (notify_queue es e) = 2" "eq_queue (notify_queue es e) = es"
    for es e
    by (simp_all add: initial_queue_def notify_queue_def retained_def)
  then show ?thesis
    by (simp add: notify_inputs_def hello publish timer first later del: history_step.simps)
qed

theorem event_delivery_witness:
  "filter readable [notify_event ''a'', notify_event ''b''] =
     [notify_event ''a''] @ current_list (notify_queue [] (notify_event ''b'')) \<and>
   retained (notify_queue [] (notify_event ''b'')) \<le> 2"
  using event_delivery [OF notify_session, of "notify_queue [] (notify_event ''b'')"]
  by (simp add: notify_queue_def)

end
