(* ===== verification/Capability_Binding.thy ===== *)
theory Capability_Binding
  imports Plugin_Definition Json_Parse
begin

text \<open>
  The generated Capability bindings of \<open>packages/lenso-bun/src/capabilities\<close>. Every file has the
  same shape: codecs, a contract reference, \<open>bindProvider\<close>, which turns a typed Provider into a
  binding on JSON values, and \<open>bindDependency\<close>, which turns an invoker on JSON values into a typed
  client. This theory holds the pieces the files repeat: the arms of the \<open>switch\<close> statements, the
  methods of a client and the stream adapters; the \<open>Catalogue\<close> theories hold what each
  file makes of them.

  A typed value is a value of type \<open>'v\<close>. The package \<open>@lenso/contract-runtime\<close> is outside the
  repository; it is the record \<open>contract_runtime\<close>. An \<open>async\<close> call into user code is represented by
  what it settles with, a result or a thrown error.
\<close>

section \<open>The contract runtime\<close>

record 'v contract_runtime =
  encodePortableJson :: "'v \<Rightarrow> string \<Rightarrow> thrown + string"
  decodePortableJson :: "string \<Rightarrow> thrown + 'v"
  decodeDomainError :: "string \<Rightarrow> string list \<Rightarrow> thrown + 'v"
  json_value :: "json \<Rightarrow> 'v"
  round_decimal :: "rat \<Rightarrow> js_number"

text \<open>\<open>JSON.parse(text)\<close>, and the six codecs that every operation has under its own name.\<close>

definition parse_text :: "'v contract_runtime \<Rightarrow> string \<Rightarrow> thrown + json" where
  "parse_text rt t =
     (case JSON_parse (round_decimal rt) t of None \<Rightarrow> Inl (ErrorObject ''SyntaxError'') | Some j \<Rightarrow> Inr j)"

record 'v operation_codec =
  oc_encodeRequest :: "'v \<Rightarrow> thrown + string"
  oc_decodeRequest :: "string \<Rightarrow> thrown + 'v"
  oc_encodeResponse :: "'v \<Rightarrow> thrown + string"
  oc_decodeResponse :: "string \<Rightarrow> thrown + 'v"
  oc_encodeError :: "'v \<Rightarrow> thrown + string"
  oc_decodeError :: "string \<Rightarrow> thrown + 'v"

definition generated_codec :: "'v contract_runtime \<Rightarrow> string list \<Rightarrow> 'v operation_codec" where
  "generated_codec rt codes =
     \<lparr>oc_encodeRequest = (\<lambda>v. encodePortableJson rt v ''request''), oc_decodeRequest = decodePortableJson rt,
      oc_encodeResponse = (\<lambda>v. encodePortableJson rt v ''response''), oc_decodeResponse = decodePortableJson rt,
      oc_encodeError = (\<lambda>v. encodePortableJson rt v ''Domain Error''),
      oc_decodeError = (\<lambda>wire. decodeDomainError rt wire codes)\<rparr>"

text \<open>The codecs of a file: the operations and the Domain errors their decoders know.\<close>

definition codecs :: "'v contract_runtime \<Rightarrow> (string \<times> string list) list \<Rightarrow> string \<Rightarrow> 'v operation_codec" where
  "codecs rt table operation = generated_codec rt (case map_of table operation of Some codes \<Rightarrow> codes | None \<Rightarrow> [])"

definition encoded_json :: "'v contract_runtime \<Rightarrow> thrown + string \<Rightarrow> thrown + json" where
  "encoded_json rt t = bind_result t (parse_text rt)"

section \<open>Results\<close>

text \<open>\<open>{ ok: true, value }\<close> or \<open>{ ok: false, error }\<close> with a Domain or a runtime error.\<close>

type_synonym failure = "(string \<times> json) list"

datatype 'v invocation_result = ResultOk 'v | ResultDomain 'v | ResultRuntime failure

definition failure_of :: "string \<Rightarrow> thrown \<Rightarrow> failure" where
  "failure_of kind e = [(''kind'', JStr kind), (''detail'', JStr (errorMessage e))]"

definition unknown_operation :: "string \<Rightarrow> failure" where
  "unknown_operation operation = [(''kind'', JStr ''unknown_operation''), (''operation'', JStr operation)]"

text \<open>\<open>try { ... } catch (error) { return ...; }\<close>\<close>

definition try_catch :: "thrown + 'a \<Rightarrow> (thrown \<Rightarrow> 'a) \<Rightarrow> 'a" where
  "try_catch r handler = (case r of Inl e \<Rightarrow> handler e | Inr a \<Rightarrow> a)"

definition switch :: "string \<Rightarrow> (string \<times> 'a) list \<Rightarrow> 'a \<Rightarrow> 'a" where
  "switch operation arms other = (case map_of arms operation of Some a \<Rightarrow> a | None \<Rightarrow> other)"

section \<open>Requests\<close>

definition decoded_payload :: "'v contract_runtime \<Rightarrow> (string \<Rightarrow> thrown + 'v) \<Rightarrow> string \<Rightarrow> json \<Rightarrow> thrown + 'v" where
  "decoded_payload rt decode label payload = bind_result (encodePortableJson rt (json_value rt payload) label) decode"

text \<open>The arm of an operation in \<open>invokeRequest\<close>; \<open>method\<close> is the Provider's method.\<close>

definition request_arm ::
  "'v contract_runtime \<Rightarrow> 'v operation_codec \<Rightarrow> (json \<Rightarrow> 'v \<Rightarrow> thrown + 'v invocation_result) \<Rightarrow> json \<Rightarrow> json \<Rightarrow> dispatch_outcome" where
  "request_arm rt c meth context payload =
     (case decoded_payload rt (oc_decodeRequest c) ''request'' payload of
        Inl e \<Rightarrow> Runtime (failure_of ''protocol_violation'' e)
      | Inr request \<Rightarrow>
          try_catch
            (bind_result (meth context request) (\<lambda>result.
               case result of
                 ResultOk v \<Rightarrow> bind_result (encoded_json rt (oc_encodeResponse c v)) (\<lambda>j. Inr (Success j))
               | ResultDomain v \<Rightarrow> bind_result (encoded_json rt (oc_encodeError c v)) (\<lambda>j. Inr (Domain j))
               | ResultRuntime f \<Rightarrow> Inr (Runtime f)))
            (\<lambda>e. Runtime (failure_of ''plugin_failure'' e)))"

text \<open>The call a client makes when it is given no context.\<close>

definition default_call :: json where
  "default_call = JObj [(''requestId'', JStr ''0''), (''cancelled'', JBool False)]"

definition call_context :: "json option \<Rightarrow> json" where
  "call_context context = (case context of None \<Rightarrow> default_call | Some c \<Rightarrow> c)"

type_synonym invoker = "string \<Rightarrow> json \<Rightarrow> json \<Rightarrow> thrown + dispatch_outcome"

text \<open>The method of an operation in \<open>createClient\<close>.\<close>

definition request_method ::
  "'v contract_runtime \<Rightarrow> string \<Rightarrow> 'v operation_codec \<Rightarrow> invoker \<Rightarrow> 'v \<Rightarrow> json option \<Rightarrow> 'v invocation_result" where
  "request_method rt operation c invoke request context =
     (case encoded_json rt (oc_encodeRequest c request) of
        Inl e \<Rightarrow> ResultRuntime (failure_of ''protocol_violation'' e)
      | Inr payload \<Rightarrow>
          try_catch
            (bind_result (invoke operation (call_context context) payload) (\<lambda>outcome.
               case outcome of
                 Success j \<Rightarrow> bind_result (oc_decodeResponse c (stringify j)) (\<lambda>v. Inr (ResultOk v))
               | Domain j \<Rightarrow> bind_result (oc_decodeError c (stringify j)) (\<lambda>v. Inr (ResultDomain v))
               | Runtime f \<Rightarrow> Inr (ResultRuntime f)))
            (\<lambda>e. ResultRuntime (failure_of ''plugin_failure'' e)))"

section \<open>Streams\<close>

text \<open>What a stream session yields: a message, the half-close of the peer, or its end.\<close>

datatype 'v stream_signal = SignalMessage 'v | SignalHalfClosed | SignalEnd "'v option"

text \<open>
  A Provider gives an async iterable or a session; \<open>'s\<close> is the reference to it. \<open>ProvidedIterable\<close>
  is what the method returned directly, the other results are what its promise settled with. An
  iterable whose \<open>Symbol.asyncIterator\<close> method throws counts as a method that throws.
\<close>

datatype 's provider_stream = IterableStream 's | SessionStream 's

datatype ('v, 's) provided =
    ProvidedIterable 's
  | ProvidedStream "'s provider_stream"
  | ProvidedDomain 'v
  | ProvidedRuntime failure

datatype 's stream_open_outcome = Opened "'s provider_stream" | OpenDomain json | OpenRuntime failure

definition stream_arm ::
  "'v contract_runtime \<Rightarrow> 'v operation_codec \<Rightarrow> (json \<Rightarrow> 'v \<Rightarrow> thrown + ('v, 's) provided) \<Rightarrow> json \<Rightarrow> json \<Rightarrow> 's stream_open_outcome" where
  "stream_arm rt c meth context payload =
     (case decoded_payload rt (oc_decodeRequest c) ''stream open request'' payload of
        Inl e \<Rightarrow> OpenRuntime (failure_of ''protocol_violation'' e)
      | Inr request \<Rightarrow>
          try_catch
            (bind_result (meth context request) (\<lambda>result.
               case result of
                 ProvidedIterable s \<Rightarrow> Inr (Opened (IterableStream s))
               | ProvidedStream s \<Rightarrow> Inr (Opened s)
               | ProvidedDomain v \<Rightarrow> bind_result (encoded_json rt (oc_encodeError c v)) (\<lambda>j. Inr (OpenDomain j))
               | ProvidedRuntime f \<Rightarrow> Inr (OpenRuntime f)))
            (\<lambda>e. OpenRuntime (failure_of ''plugin_failure'' e)))"

text \<open>
  \<open>lowerProviderStream\<close>: what the operations of the lowered stream settle with, given what the
  session's own operation or the iterator's \<open>next\<close> settles with (\<open>None\<close> is \<open>done\<close>). A thrown
  \<open>ServerOutputStreamInputError\<close> is told from other errors. \<open>cancelled\<close> is the flag of the closure.
\<close>

datatype stream_error = InputError string | OtherError thrown

fun lowered_send :: "'s provider_stream \<Rightarrow> thrown option \<Rightarrow> stream_error option" where
  "lowered_send (IterableStream s) settled = Some (InputError ''server-output stream does not accept inbound messages'')"
| "lowered_send (SessionStream s) settled = map_option OtherError settled"

definition iterator_receive :: "bool \<Rightarrow> thrown + 'v option \<Rightarrow> thrown + 'v stream_signal" where
  "iterator_receive cancelled settled =
     (if cancelled then Inr (SignalEnd None)
      else bind_result settled (\<lambda>item. Inr (case item of None \<Rightarrow> SignalEnd None | Some v \<Rightarrow> SignalMessage v)))"

text \<open>
  The closure of an iterable: \<open>li_next n\<close> is what the \<open>n\<close>-th call of \<open>iterator.next\<close> settles with,
  \<open>li_calls\<close> counts these calls and \<open>li_returns\<close> the calls of \<open>iterator.return\<close>, which an iterator
  may lack (\<open>li_has_return\<close>). What \<open>return\<close> settles with is ignored.
\<close>

record 'v lowered_iterator =
  li_next :: "nat \<Rightarrow> thrown + 'v option"
  li_has_return :: bool
  li_calls :: nat
  li_cancelled :: bool
  li_returns :: nat

definition lowered_receive :: "'v lowered_iterator \<Rightarrow> (thrown + 'v stream_signal) \<times> 'v lowered_iterator" where
  "lowered_receive it =
     (iterator_receive (li_cancelled it) (li_next it (li_calls it)),
      if li_cancelled it then it else it\<lparr>li_calls := Suc (li_calls it)\<rparr>)"

definition lowered_cancel :: "'v lowered_iterator \<Rightarrow> 'v lowered_iterator" where
  "lowered_cancel it =
     it\<lparr>li_cancelled := True, li_returns := (if li_has_return it then Suc (li_returns it) else li_returns it)\<rparr>"

fun lowered_closeSend :: "'s provider_stream \<Rightarrow> thrown option \<Rightarrow> thrown option" where
  "lowered_closeSend (IterableStream s) settled = None"
| "lowered_closeSend (SessionStream s) settled = settled"

text \<open>The session binding of a Provider: what its operations answer to the runtime.\<close>

datatype action_outcome = Accepted | ActionRuntime failure

datatype receive_outcome =
    ReceivedMessage json
  | ReceivedHalfClosed
  | ReceivedSuccess
  | ReceivedDomain json
  | ReceivedRuntime failure

text \<open>
  The decoded message is the argument of \<open>stream.send\<close>; \<open>settle\<close> gives what that call settles with.
\<close>

definition provider_send ::
  "'v contract_runtime \<Rightarrow> 'v operation_codec \<Rightarrow> 's provider_stream \<Rightarrow> ('v \<Rightarrow> thrown option) \<Rightarrow> json \<Rightarrow> action_outcome" where
  "provider_send rt c stream settle message =
     (case decoded_payload rt (oc_decodeResponse c) ''stream message'' message of
        Inl e \<Rightarrow> ActionRuntime (failure_of ''protocol_violation'' e)
      | Inr decoded \<Rightarrow>
          (case lowered_send stream (settle decoded) of
             None \<Rightarrow> Accepted
           | Some (InputError m) \<Rightarrow> ActionRuntime (failure_of ''protocol_violation'' (ErrorObject m))
           | Some (OtherError e) \<Rightarrow> ActionRuntime (failure_of ''plugin_failure'' e)))"

definition provider_receive ::
  "'v contract_runtime \<Rightarrow> 'v operation_codec \<Rightarrow> thrown + 'v stream_signal \<Rightarrow> receive_outcome" where
  "provider_receive rt c settled =
     try_catch
       (bind_result settled (\<lambda>event.
          case event of
            SignalMessage v \<Rightarrow> bind_result (encoded_json rt (oc_encodeResponse c v)) (\<lambda>j. Inr (ReceivedMessage j))
          | SignalHalfClosed \<Rightarrow> Inr ReceivedHalfClosed
          | SignalEnd None \<Rightarrow> Inr ReceivedSuccess
          | SignalEnd (Some v) \<Rightarrow> bind_result (encoded_json rt (oc_encodeError c v)) (\<lambda>j. Inr (ReceivedDomain j))))
       (\<lambda>e. ReceivedRuntime (failure_of ''plugin_failure'' e))"

definition provider_closeSend :: "'s provider_stream \<Rightarrow> thrown option \<Rightarrow> action_outcome" where
  "provider_closeSend stream settled =
     (case lowered_closeSend stream settled of
        None \<Rightarrow> Accepted
      | Some e \<Rightarrow> ActionRuntime (failure_of ''plugin_failure'' e))"

text \<open>The client of a stream: \<open>dependencyRuntimeError\<close> attaches the failure to the error it throws.\<close>

datatype dependency_error = DependencyRuntimeError failure | DependencyThrown thrown

definition dependencyFailure :: "dependency_error \<Rightarrow> failure" where
  "dependencyFailure e =
     (case e of DependencyRuntimeError f \<Rightarrow> f | DependencyThrown t \<Rightarrow> failure_of ''plugin_failure'' t)"

fun lift_thrown :: "thrown + 'a \<Rightarrow> dependency_error + 'a" where
  "lift_thrown (Inl e) = Inl (DependencyThrown e)"
| "lift_thrown (Inr a) = Inr a"

fun client_action :: "action_outcome \<Rightarrow> dependency_error + unit" where
  "client_action Accepted = Inr ()"
| "client_action (ActionRuntime f) = Inl (DependencyRuntimeError f)"

definition client_send ::
  "'v contract_runtime \<Rightarrow> 'v operation_codec \<Rightarrow> (json \<Rightarrow> dependency_error + action_outcome) \<Rightarrow> 'v \<Rightarrow> dependency_error + unit" where
  "client_send rt c settle message =
     bind_result (lift_thrown (encoded_json rt (oc_encodeResponse c message))) (\<lambda>j.
     bind_result (settle j) client_action)"

definition client_receive ::
  "'v operation_codec \<Rightarrow> dependency_error + receive_outcome \<Rightarrow> dependency_error + 'v stream_signal" where
  "client_receive c settled =
     bind_result settled (\<lambda>result.
       case result of
         ReceivedMessage j \<Rightarrow> bind_result (lift_thrown (oc_decodeResponse c (stringify j))) (\<lambda>v. Inr (SignalMessage v))
       | ReceivedHalfClosed \<Rightarrow> Inr SignalHalfClosed
       | ReceivedSuccess \<Rightarrow> Inr (SignalEnd None)
       | ReceivedDomain j \<Rightarrow>
           bind_result (lift_thrown (oc_decodeError c (stringify j))) (\<lambda>v. Inr (SignalEnd (Some v)))
       | ReceivedRuntime f \<Rightarrow> Inl (DependencyRuntimeError f))"

definition client_closeSend :: "dependency_error + action_outcome \<Rightarrow> dependency_error + unit" where
  "client_closeSend settled = bind_result settled client_action"

datatype ('v, 's) stream_opening = StreamReady "'s provider_stream" | StreamDomain 'v | StreamRuntime failure

type_synonym 's stream_invoker = "string \<Rightarrow> json \<Rightarrow> json \<Rightarrow> dependency_error + 's stream_open_outcome"

definition stream_method ::
  "'v contract_runtime \<Rightarrow> string \<Rightarrow> 'v operation_codec \<Rightarrow> 's stream_invoker \<Rightarrow> 'v \<Rightarrow> json option \<Rightarrow> ('v, 's) stream_opening" where
  "stream_method rt operation c openStream request context =
     (case encoded_json rt (oc_encodeRequest c request) of
        Inl e \<Rightarrow> StreamRuntime (failure_of ''protocol_violation'' e)
      | Inr payload \<Rightarrow>
          (case bind_result (openStream operation (call_context context) payload) (\<lambda>outcome.
               case outcome of
                 OpenDomain j \<Rightarrow>
                   bind_result (lift_thrown (oc_decodeError c (stringify j))) (\<lambda>v. Inr (StreamDomain v))
               | OpenRuntime f \<Rightarrow> Inr (StreamRuntime f)
               | Opened s \<Rightarrow> Inr (StreamReady s)) of
             Inl e \<Rightarrow> StreamRuntime (dependencyFailure e)
           | Inr r \<Rightarrow> r))"

section \<open>Bindings and contracts\<close>

record ('v, 's) typed_provider =
  tp_request :: "string \<Rightarrow> json \<Rightarrow> 'v \<Rightarrow> thrown + 'v invocation_result"
  tp_stream :: "string \<Rightarrow> json \<Rightarrow> 'v \<Rightarrow> thrown + ('v, 's) provided"

record 's capability_binding =
  cb_descriptor :: provider_descriptor
  cb_invokeRequest :: "string \<Rightarrow> json \<Rightarrow> json \<Rightarrow> dispatch_outcome"
  cb_openStream :: "string \<Rightarrow> json \<Rightarrow> json \<Rightarrow> 's stream_open_outcome"
  cb_publishEvent :: "string \<Rightarrow> json \<Rightarrow> json \<Rightarrow> action_outcome"

record 's dependency_invoker =
  di_invoke :: invoker
  di_openStream :: "'s stream_invoker"

datatype ('v, 's) client_method =
    RequestMethod "'v \<Rightarrow> json option \<Rightarrow> 'v invocation_result"
  | StreamMethod "'v \<Rightarrow> json option \<Rightarrow> ('v, 's) stream_opening"

record ('v, 's) capability_dependency =
  cd_descriptor :: provider_descriptor
  cd_createClient :: "'s dependency_invoker \<Rightarrow> (string \<times> ('v, 's) client_method) list"

record generated_contract =
  gc_contract :: capability_contract
  gc_capability_id :: string
  gc_descriptor_version :: string
  gc_descriptor_digest :: string
  gc_generated_client :: string

text \<open>\<open>required(id)\<close>, \<open>optional(id)\<close> and \<open>many(id)\<close> of a contract.\<close>

definition declare_dependency :: "generated_contract \<Rightarrow> string \<Rightarrow> string option \<Rightarrow> raw_dependency" where
  "declare_dependency c cardinality ident =
     DependencyDeclaration ''lenso.dependency'' ident (contract_descriptor (gc_contract c)) cardinality"

definition required_dependency :: "generated_contract \<Rightarrow> string option \<Rightarrow> raw_dependency" where
  "required_dependency c ident = declare_dependency c ''one'' ident"

definition optional_dependency :: "generated_contract \<Rightarrow> string option \<Rightarrow> raw_dependency" where
  "optional_dependency c ident = declare_dependency c ''optional'' ident"

definition many_dependency :: "generated_contract \<Rightarrow> string option \<Rightarrow> raw_dependency" where
  "many_dependency c ident = declare_dependency c ''many'' ident"

named_theorems catalogue_defs \<open>definitions of the generated files\<close>

definition generated_descriptor ::
  "string \<Rightarrow> string \<Rightarrow> string list \<Rightarrow> string list \<Rightarrow> string list \<Rightarrow> provider_descriptor" where
  "generated_descriptor ident version ops streams events =
     \<lparr>capability_id = ident, descriptor_version = version, descriptor_digest = None, operations = ops,
      stream_operations = streams, event_operations = events\<rparr>"

section \<open>The contract of a generated file\<close>

definition request_operations :: "provider_descriptor \<Rightarrow> string list" where
  "request_operations d = filter (\<lambda>oper. oper \<notin> set (stream_operations d @ event_operations d)) (operations d)"

lemmas catalogue_simps =
  generated_descriptor_def validateDescriptor_def request_operations_def switch_def canonical_sha256_def lower_hex_def

text \<open>
  What a generated file promises: one descriptor on both sides, an arm of the right kind for every
  operation of the descriptor and for no other, and a client method for each of them.
\<close>

locale capability =
  fixes bind_provider :: "'v contract_runtime \<Rightarrow> ('v, 's) typed_provider \<Rightarrow> 's capability_binding"
    and bind_dependency :: "'v contract_runtime \<Rightarrow> ('v, 's) capability_dependency"
    and generated :: generated_contract
    and codec :: "'v contract_runtime \<Rightarrow> string \<Rightarrow> 'v operation_codec"
    and descriptor :: provider_descriptor
  assumes descriptors: "contract_descriptor (gc_contract generated) = descriptor"
      "cb_descriptor (bind_provider rt prov) = descriptor" "cd_descriptor (bind_dependency rt) = descriptor"
    and valid: "validateDescriptor descriptor = Inr ()"
      "contract_kind (gc_contract generated) = ''lenso.capability''" "has_bindProvider (gc_contract generated)"
      "canonical_sha256 (gc_descriptor_digest generated)" "gc_capability_id generated = capability_id descriptor"
    and codec: "codec rt oper \<in> range (generated_codec rt)"
    and invokes: "cb_invokeRequest (bind_provider rt prov) oper context payload =
      (if oper \<in> set (request_operations descriptor) then request_arm rt (codec rt oper) (tp_request prov oper) context payload
       else Runtime (unknown_operation oper))"
    and opens: "cb_openStream (bind_provider rt prov) oper context payload =
      (if oper \<in> set (stream_operations descriptor) then stream_arm rt (codec rt oper) (tp_stream prov oper) context payload
       else OpenRuntime (unknown_operation oper))"
    and publishes: "cb_publishEvent (bind_provider rt prov) oper context payload = ActionRuntime (unknown_operation oper)"
      "event_operations descriptor = []"
    and client: "map_of (cd_createClient (bind_dependency rt) invoke) oper =
      (if oper \<in> set (request_operations descriptor)
       then Some (RequestMethod (request_method rt oper (codec rt oper) (di_invoke invoke)))
       else if oper \<in> set (stream_operations descriptor)
       then Some (StreamMethod (stream_method rt oper (codec rt oper) (di_openStream invoke)))
       else None)"

end
