(* ===== verification/Catalogue_Auth.thy ===== *)
theory Catalogue_Auth
  imports Capability_Binding
begin

text \<open>
  The generated files for authentication and identity: \<open>account-admin.ts\<close>,
  \<open>anonymous-auth.ts\<close>,
  \<open>auth.ts\<close>,
  \<open>credential-issuer.ts\<close>,
  \<open>device-auth.ts\<close>,
  \<open>federated-auth.ts\<close>,
  \<open>identity-directory.ts\<close>,
  \<open>oauth-flow.ts\<close>,
  \<open>oidc-provider.ts\<close>,
  \<open>password-auth.ts\<close>,
  \<open>phone-auth.ts\<close>.
  Each file gives its constants, the codecs of its operations, \<open>bindProvider\<close>, \<open>bindDependency\<close> and the
  contract reference, with the arms and methods of \<open>Capability_Binding\<close>.
\<close>

section \<open>lenso.auth.account-admin@1\<close>

definition CAPABILITY_ID_account_admin :: string where
  [catalogue_defs]: "CAPABILITY_ID_account_admin = ''lenso.auth.account-admin@1''"

definition DESCRIPTOR_VERSION_account_admin :: string where
  [catalogue_defs]: "DESCRIPTOR_VERSION_account_admin = ''1.0.0''"

definition DESCRIPTOR_DIGEST_account_admin :: string where
  [catalogue_defs]: "DESCRIPTOR_DIGEST_account_admin = ''sha256:fa2514ed403327d8dbba88787e0cec1233c289656c6d93cb9bf225b0708af49b''"

definition codec_account_admin :: "'v contract_runtime \<Rightarrow> string \<Rightarrow> 'v operation_codec" where
  [catalogue_defs]: "codec_account_admin rt = codecs rt
     [(''list_sessions'', [''forbidden'', ''invalid_page'', ''invalid_subject'']),
      (''list_subjects'', [''forbidden'', ''invalid_page'']),
      (''set_subject_status'', [''forbidden'', ''invalid_status'', ''invalid_subject'', ''not_found''])]"

definition bindAccountAdminProvider :: "'v contract_runtime \<Rightarrow> ('v, 's) typed_provider \<Rightarrow> 's capability_binding" where
  [catalogue_defs]: "bindAccountAdminProvider rt prov =
     \<lparr>cb_descriptor = generated_descriptor CAPABILITY_ID_account_admin DESCRIPTOR_VERSION_account_admin
        [''list_sessions'', ''list_subjects'', ''set_subject_status''] [] [],
      cb_invokeRequest = (\<lambda>operation context payload. switch operation
        [(''list_sessions'', request_arm rt (codec_account_admin rt ''list_sessions'') (tp_request prov ''list_sessions'') context payload),
         (''list_subjects'', request_arm rt (codec_account_admin rt ''list_subjects'') (tp_request prov ''list_subjects'') context payload),
         (''set_subject_status'', request_arm rt (codec_account_admin rt ''set_subject_status'') (tp_request prov ''set_subject_status'') context payload)]
        (Runtime (unknown_operation operation))),
      cb_openStream = (\<lambda>operation context payload. switch operation [] (OpenRuntime (unknown_operation operation))),
      cb_publishEvent = (\<lambda>operation context payload. switch operation [] (ActionRuntime (unknown_operation operation)))\<rparr>"

definition bindAccountAdminDependency :: "'v contract_runtime \<Rightarrow> ('v, 's) capability_dependency" where
  [catalogue_defs]: "bindAccountAdminDependency rt =
     \<lparr>cd_descriptor = generated_descriptor CAPABILITY_ID_account_admin DESCRIPTOR_VERSION_account_admin
        [''list_sessions'', ''list_subjects'', ''set_subject_status''] [] [],
      cd_createClient = (\<lambda>invoke.
        [(''list_sessions'', RequestMethod (request_method rt ''list_sessions'' (codec_account_admin rt ''list_sessions'') (di_invoke invoke))),
         (''list_subjects'', RequestMethod (request_method rt ''list_subjects'' (codec_account_admin rt ''list_subjects'') (di_invoke invoke))),
         (''set_subject_status'', RequestMethod (request_method rt ''set_subject_status'' (codec_account_admin rt ''set_subject_status'') (di_invoke invoke)))])\<rparr>"

definition contract_account_admin :: generated_contract where
  [catalogue_defs]: "contract_account_admin =
     \<lparr>gc_contract =
        \<lparr>contract_kind = ''lenso.capability'',
         contract_descriptor = generated_descriptor CAPABILITY_ID_account_admin DESCRIPTOR_VERSION_account_admin
        [''list_sessions'', ''list_subjects'', ''set_subject_status''] [] [],
         has_bindProvider = True\<rparr>,
      gc_capability_id = CAPABILITY_ID_account_admin, gc_descriptor_version = DESCRIPTOR_VERSION_account_admin,
      gc_descriptor_digest = DESCRIPTOR_DIGEST_account_admin, gc_generated_client = ''AccountAdminClient''\<rparr>"

interpretation account_admin: capability bindAccountAdminProvider bindAccountAdminDependency contract_account_admin codec_account_admin
    "generated_descriptor CAPABILITY_ID_account_admin DESCRIPTOR_VERSION_account_admin [''list_sessions'', ''list_subjects'', ''set_subject_status''] [] []"
  by unfold_locales (simp_all add: catalogue_defs catalogue_simps codecs_def)

section \<open>lenso.auth.anonymous@1\<close>

definition CAPABILITY_ID_anonymous_auth :: string where
  [catalogue_defs]: "CAPABILITY_ID_anonymous_auth = ''lenso.auth.anonymous@1''"

definition DESCRIPTOR_VERSION_anonymous_auth :: string where
  [catalogue_defs]: "DESCRIPTOR_VERSION_anonymous_auth = ''1.0.0''"

definition DESCRIPTOR_DIGEST_anonymous_auth :: string where
  [catalogue_defs]: "DESCRIPTOR_DIGEST_anonymous_auth = ''sha256:bf5c4509c831964f4be6c5a0993b031022f7d478e8bd15ad4b65f3efc2eec72d''"

definition codec_anonymous_auth :: "'v contract_runtime \<Rightarrow> string \<Rightarrow> 'v operation_codec" where
  [catalogue_defs]: "codec_anonymous_auth rt = codecs rt
     [(''sign_in'', [''disabled'', ''invalid_device''])]"

definition bindAnonymousProvider :: "'v contract_runtime \<Rightarrow> ('v, 's) typed_provider \<Rightarrow> 's capability_binding" where
  [catalogue_defs]: "bindAnonymousProvider rt prov =
     \<lparr>cb_descriptor = generated_descriptor CAPABILITY_ID_anonymous_auth DESCRIPTOR_VERSION_anonymous_auth
        [''sign_in''] [] [],
      cb_invokeRequest = (\<lambda>operation context payload. switch operation
        [(''sign_in'', request_arm rt (codec_anonymous_auth rt ''sign_in'') (tp_request prov ''sign_in'') context payload)]
        (Runtime (unknown_operation operation))),
      cb_openStream = (\<lambda>operation context payload. switch operation [] (OpenRuntime (unknown_operation operation))),
      cb_publishEvent = (\<lambda>operation context payload. switch operation [] (ActionRuntime (unknown_operation operation)))\<rparr>"

definition bindAnonymousDependency :: "'v contract_runtime \<Rightarrow> ('v, 's) capability_dependency" where
  [catalogue_defs]: "bindAnonymousDependency rt =
     \<lparr>cd_descriptor = generated_descriptor CAPABILITY_ID_anonymous_auth DESCRIPTOR_VERSION_anonymous_auth
        [''sign_in''] [] [],
      cd_createClient = (\<lambda>invoke.
        [(''sign_in'', RequestMethod (request_method rt ''sign_in'' (codec_anonymous_auth rt ''sign_in'') (di_invoke invoke)))])\<rparr>"

definition contract_anonymous_auth :: generated_contract where
  [catalogue_defs]: "contract_anonymous_auth =
     \<lparr>gc_contract =
        \<lparr>contract_kind = ''lenso.capability'',
         contract_descriptor = generated_descriptor CAPABILITY_ID_anonymous_auth DESCRIPTOR_VERSION_anonymous_auth
        [''sign_in''] [] [],
         has_bindProvider = True\<rparr>,
      gc_capability_id = CAPABILITY_ID_anonymous_auth, gc_descriptor_version = DESCRIPTOR_VERSION_anonymous_auth,
      gc_descriptor_digest = DESCRIPTOR_DIGEST_anonymous_auth, gc_generated_client = ''AnonymousClient''\<rparr>"

interpretation anonymous_auth: capability bindAnonymousProvider bindAnonymousDependency contract_anonymous_auth codec_anonymous_auth
    "generated_descriptor CAPABILITY_ID_anonymous_auth DESCRIPTOR_VERSION_anonymous_auth [''sign_in''] [] []"
  by unfold_locales (simp_all add: catalogue_defs catalogue_simps codecs_def)

section \<open>lenso.auth@1\<close>

definition CAPABILITY_ID_auth :: string where
  [catalogue_defs]: "CAPABILITY_ID_auth = ''lenso.auth@1''"

definition DESCRIPTOR_VERSION_auth :: string where
  [catalogue_defs]: "DESCRIPTOR_VERSION_auth = ''1.0.0''"

definition DESCRIPTOR_DIGEST_auth :: string where
  [catalogue_defs]: "DESCRIPTOR_DIGEST_auth = ''sha256:b14b8ad9c35dee119ff4fb61635853a28c11bb096d47a8dd5b6d7455de77321a''"

definition codec_auth :: "'v contract_runtime \<Rightarrow> string \<Rightarrow> 'v operation_codec" where
  [catalogue_defs]: "codec_auth rt = codecs rt
     [(''authenticate'', [''expired'', ''invalid'', ''revoked'', ''unsupported''])]"

definition bindAuthProvider :: "'v contract_runtime \<Rightarrow> ('v, 's) typed_provider \<Rightarrow> 's capability_binding" where
  [catalogue_defs]: "bindAuthProvider rt prov =
     \<lparr>cb_descriptor = generated_descriptor CAPABILITY_ID_auth DESCRIPTOR_VERSION_auth
        [''authenticate''] [] [],
      cb_invokeRequest = (\<lambda>operation context payload. switch operation
        [(''authenticate'', request_arm rt (codec_auth rt ''authenticate'') (tp_request prov ''authenticate'') context payload)]
        (Runtime (unknown_operation operation))),
      cb_openStream = (\<lambda>operation context payload. switch operation [] (OpenRuntime (unknown_operation operation))),
      cb_publishEvent = (\<lambda>operation context payload. switch operation [] (ActionRuntime (unknown_operation operation)))\<rparr>"

definition bindAuthDependency :: "'v contract_runtime \<Rightarrow> ('v, 's) capability_dependency" where
  [catalogue_defs]: "bindAuthDependency rt =
     \<lparr>cd_descriptor = generated_descriptor CAPABILITY_ID_auth DESCRIPTOR_VERSION_auth
        [''authenticate''] [] [],
      cd_createClient = (\<lambda>invoke.
        [(''authenticate'', RequestMethod (request_method rt ''authenticate'' (codec_auth rt ''authenticate'') (di_invoke invoke)))])\<rparr>"

definition contract_auth :: generated_contract where
  [catalogue_defs]: "contract_auth =
     \<lparr>gc_contract =
        \<lparr>contract_kind = ''lenso.capability'',
         contract_descriptor = generated_descriptor CAPABILITY_ID_auth DESCRIPTOR_VERSION_auth
        [''authenticate''] [] [],
         has_bindProvider = True\<rparr>,
      gc_capability_id = CAPABILITY_ID_auth, gc_descriptor_version = DESCRIPTOR_VERSION_auth,
      gc_descriptor_digest = DESCRIPTOR_DIGEST_auth, gc_generated_client = ''AuthClient''\<rparr>"

interpretation auth: capability bindAuthProvider bindAuthDependency contract_auth codec_auth
    "generated_descriptor CAPABILITY_ID_auth DESCRIPTOR_VERSION_auth [''authenticate''] [] []"
  by unfold_locales (simp_all add: catalogue_defs catalogue_simps codecs_def)

section \<open>lenso.auth.credential-issuer@1\<close>

definition CAPABILITY_ID_credential_issuer :: string where
  [catalogue_defs]: "CAPABILITY_ID_credential_issuer = ''lenso.auth.credential-issuer@1''"

definition DESCRIPTOR_VERSION_credential_issuer :: string where
  [catalogue_defs]: "DESCRIPTOR_VERSION_credential_issuer = ''1.0.0''"

definition DESCRIPTOR_DIGEST_credential_issuer :: string where
  [catalogue_defs]: "DESCRIPTOR_DIGEST_credential_issuer = ''sha256:c7dfd679a0a3a534b9b1206ea4639163a0a8eae6eb5c9bc6e944efeee0560ac3''"

definition codec_credential_issuer :: "'v contract_runtime \<Rightarrow> string \<Rightarrow> 'v operation_codec" where
  [catalogue_defs]: "codec_credential_issuer rt = codecs rt
     [(''issue'', [''disabled'', ''expired'', ''invalid_authority'', ''invalid_subject'']),
      (''revoke'', [''invalid_session'', ''not_found''])]"

definition bindCredentialIssuerProvider :: "'v contract_runtime \<Rightarrow> ('v, 's) typed_provider \<Rightarrow> 's capability_binding" where
  [catalogue_defs]: "bindCredentialIssuerProvider rt prov =
     \<lparr>cb_descriptor = generated_descriptor CAPABILITY_ID_credential_issuer DESCRIPTOR_VERSION_credential_issuer
        [''issue'', ''revoke''] [] [],
      cb_invokeRequest = (\<lambda>operation context payload. switch operation
        [(''issue'', request_arm rt (codec_credential_issuer rt ''issue'') (tp_request prov ''issue'') context payload),
         (''revoke'', request_arm rt (codec_credential_issuer rt ''revoke'') (tp_request prov ''revoke'') context payload)]
        (Runtime (unknown_operation operation))),
      cb_openStream = (\<lambda>operation context payload. switch operation [] (OpenRuntime (unknown_operation operation))),
      cb_publishEvent = (\<lambda>operation context payload. switch operation [] (ActionRuntime (unknown_operation operation)))\<rparr>"

definition bindCredentialIssuerDependency :: "'v contract_runtime \<Rightarrow> ('v, 's) capability_dependency" where
  [catalogue_defs]: "bindCredentialIssuerDependency rt =
     \<lparr>cd_descriptor = generated_descriptor CAPABILITY_ID_credential_issuer DESCRIPTOR_VERSION_credential_issuer
        [''issue'', ''revoke''] [] [],
      cd_createClient = (\<lambda>invoke.
        [(''issue'', RequestMethod (request_method rt ''issue'' (codec_credential_issuer rt ''issue'') (di_invoke invoke))),
         (''revoke'', RequestMethod (request_method rt ''revoke'' (codec_credential_issuer rt ''revoke'') (di_invoke invoke)))])\<rparr>"

definition contract_credential_issuer :: generated_contract where
  [catalogue_defs]: "contract_credential_issuer =
     \<lparr>gc_contract =
        \<lparr>contract_kind = ''lenso.capability'',
         contract_descriptor = generated_descriptor CAPABILITY_ID_credential_issuer DESCRIPTOR_VERSION_credential_issuer
        [''issue'', ''revoke''] [] [],
         has_bindProvider = True\<rparr>,
      gc_capability_id = CAPABILITY_ID_credential_issuer, gc_descriptor_version = DESCRIPTOR_VERSION_credential_issuer,
      gc_descriptor_digest = DESCRIPTOR_DIGEST_credential_issuer, gc_generated_client = ''CredentialIssuerClient''\<rparr>"

interpretation credential_issuer: capability bindCredentialIssuerProvider bindCredentialIssuerDependency contract_credential_issuer codec_credential_issuer
    "generated_descriptor CAPABILITY_ID_credential_issuer DESCRIPTOR_VERSION_credential_issuer [''issue'', ''revoke''] [] []"
  by unfold_locales (simp_all add: catalogue_defs catalogue_simps codecs_def)

section \<open>lenso.auth.device@1\<close>

definition CAPABILITY_ID_device_auth :: string where
  [catalogue_defs]: "CAPABILITY_ID_device_auth = ''lenso.auth.device@1''"

definition DESCRIPTOR_VERSION_device_auth :: string where
  [catalogue_defs]: "DESCRIPTOR_VERSION_device_auth = ''1.0.0''"

definition DESCRIPTOR_DIGEST_device_auth :: string where
  [catalogue_defs]: "DESCRIPTOR_DIGEST_device_auth = ''sha256:1bbda78718b00e00b1c8d5f062e04e24895edafaf8bb81af0da849253cf56167''"

definition codec_device_auth :: "'v contract_runtime \<Rightarrow> string \<Rightarrow> 'v operation_codec" where
  [catalogue_defs]: "codec_device_auth rt = codecs rt
     [(''list'', [''invalid_subject'']),
      (''observe'', [''invalid_device'', ''invalid_subject'']),
      (''set_trust'', [''invalid_device'', ''invalid_subject'', ''not_found''])]"

definition bindDeviceProvider :: "'v contract_runtime \<Rightarrow> ('v, 's) typed_provider \<Rightarrow> 's capability_binding" where
  [catalogue_defs]: "bindDeviceProvider rt prov =
     \<lparr>cb_descriptor = generated_descriptor CAPABILITY_ID_device_auth DESCRIPTOR_VERSION_device_auth
        [''list'', ''observe'', ''set_trust''] [] [],
      cb_invokeRequest = (\<lambda>operation context payload. switch operation
        [(''list'', request_arm rt (codec_device_auth rt ''list'') (tp_request prov ''list'') context payload),
         (''observe'', request_arm rt (codec_device_auth rt ''observe'') (tp_request prov ''observe'') context payload),
         (''set_trust'', request_arm rt (codec_device_auth rt ''set_trust'') (tp_request prov ''set_trust'') context payload)]
        (Runtime (unknown_operation operation))),
      cb_openStream = (\<lambda>operation context payload. switch operation [] (OpenRuntime (unknown_operation operation))),
      cb_publishEvent = (\<lambda>operation context payload. switch operation [] (ActionRuntime (unknown_operation operation)))\<rparr>"

definition bindDeviceDependency :: "'v contract_runtime \<Rightarrow> ('v, 's) capability_dependency" where
  [catalogue_defs]: "bindDeviceDependency rt =
     \<lparr>cd_descriptor = generated_descriptor CAPABILITY_ID_device_auth DESCRIPTOR_VERSION_device_auth
        [''list'', ''observe'', ''set_trust''] [] [],
      cd_createClient = (\<lambda>invoke.
        [(''list'', RequestMethod (request_method rt ''list'' (codec_device_auth rt ''list'') (di_invoke invoke))),
         (''observe'', RequestMethod (request_method rt ''observe'' (codec_device_auth rt ''observe'') (di_invoke invoke))),
         (''set_trust'', RequestMethod (request_method rt ''set_trust'' (codec_device_auth rt ''set_trust'') (di_invoke invoke)))])\<rparr>"

definition contract_device_auth :: generated_contract where
  [catalogue_defs]: "contract_device_auth =
     \<lparr>gc_contract =
        \<lparr>contract_kind = ''lenso.capability'',
         contract_descriptor = generated_descriptor CAPABILITY_ID_device_auth DESCRIPTOR_VERSION_device_auth
        [''list'', ''observe'', ''set_trust''] [] [],
         has_bindProvider = True\<rparr>,
      gc_capability_id = CAPABILITY_ID_device_auth, gc_descriptor_version = DESCRIPTOR_VERSION_device_auth,
      gc_descriptor_digest = DESCRIPTOR_DIGEST_device_auth, gc_generated_client = ''DeviceClient''\<rparr>"

interpretation device_auth: capability bindDeviceProvider bindDeviceDependency contract_device_auth codec_device_auth
    "generated_descriptor CAPABILITY_ID_device_auth DESCRIPTOR_VERSION_device_auth [''list'', ''observe'', ''set_trust''] [] []"
  by unfold_locales (simp_all add: catalogue_defs catalogue_simps codecs_def)

section \<open>lenso.auth.federated@1\<close>

definition CAPABILITY_ID_federated_auth :: string where
  [catalogue_defs]: "CAPABILITY_ID_federated_auth = ''lenso.auth.federated@1''"

definition DESCRIPTOR_VERSION_federated_auth :: string where
  [catalogue_defs]: "DESCRIPTOR_VERSION_federated_auth = ''1.0.0''"

definition DESCRIPTOR_DIGEST_federated_auth :: string where
  [catalogue_defs]: "DESCRIPTOR_DIGEST_federated_auth = ''sha256:298d90953f0dc7de9506bbe0a9bcd38a1789ba6ab4a922a4e8fe0f325dcd0557''"

definition codec_federated_auth :: "'v contract_runtime \<Rightarrow> string \<Rightarrow> 'v operation_codec" where
  [catalogue_defs]: "codec_federated_auth rt = codecs rt
     [(''complete'', [''disabled'', ''invalid_callback'', ''invalid_state'', ''provider_rejected'', ''unverified_identity'']),
      (''start'', [''invalid_return_to'', ''provider_unavailable''])]"

definition bindFederatedProvider :: "'v contract_runtime \<Rightarrow> ('v, 's) typed_provider \<Rightarrow> 's capability_binding" where
  [catalogue_defs]: "bindFederatedProvider rt prov =
     \<lparr>cb_descriptor = generated_descriptor CAPABILITY_ID_federated_auth DESCRIPTOR_VERSION_federated_auth
        [''complete'', ''start''] [] [],
      cb_invokeRequest = (\<lambda>operation context payload. switch operation
        [(''complete'', request_arm rt (codec_federated_auth rt ''complete'') (tp_request prov ''complete'') context payload),
         (''start'', request_arm rt (codec_federated_auth rt ''start'') (tp_request prov ''start'') context payload)]
        (Runtime (unknown_operation operation))),
      cb_openStream = (\<lambda>operation context payload. switch operation [] (OpenRuntime (unknown_operation operation))),
      cb_publishEvent = (\<lambda>operation context payload. switch operation [] (ActionRuntime (unknown_operation operation)))\<rparr>"

definition bindFederatedDependency :: "'v contract_runtime \<Rightarrow> ('v, 's) capability_dependency" where
  [catalogue_defs]: "bindFederatedDependency rt =
     \<lparr>cd_descriptor = generated_descriptor CAPABILITY_ID_federated_auth DESCRIPTOR_VERSION_federated_auth
        [''complete'', ''start''] [] [],
      cd_createClient = (\<lambda>invoke.
        [(''complete'', RequestMethod (request_method rt ''complete'' (codec_federated_auth rt ''complete'') (di_invoke invoke))),
         (''start'', RequestMethod (request_method rt ''start'' (codec_federated_auth rt ''start'') (di_invoke invoke)))])\<rparr>"

definition contract_federated_auth :: generated_contract where
  [catalogue_defs]: "contract_federated_auth =
     \<lparr>gc_contract =
        \<lparr>contract_kind = ''lenso.capability'',
         contract_descriptor = generated_descriptor CAPABILITY_ID_federated_auth DESCRIPTOR_VERSION_federated_auth
        [''complete'', ''start''] [] [],
         has_bindProvider = True\<rparr>,
      gc_capability_id = CAPABILITY_ID_federated_auth, gc_descriptor_version = DESCRIPTOR_VERSION_federated_auth,
      gc_descriptor_digest = DESCRIPTOR_DIGEST_federated_auth, gc_generated_client = ''FederatedClient''\<rparr>"

interpretation federated_auth: capability bindFederatedProvider bindFederatedDependency contract_federated_auth codec_federated_auth
    "generated_descriptor CAPABILITY_ID_federated_auth DESCRIPTOR_VERSION_federated_auth [''complete'', ''start''] [] []"
  by unfold_locales (simp_all add: catalogue_defs catalogue_simps codecs_def)

section \<open>lenso.identity.directory@1\<close>

definition CAPABILITY_ID_identity_directory :: string where
  [catalogue_defs]: "CAPABILITY_ID_identity_directory = ''lenso.identity.directory@1''"

definition DESCRIPTOR_VERSION_identity_directory :: string where
  [catalogue_defs]: "DESCRIPTOR_VERSION_identity_directory = ''1.0.0''"

definition DESCRIPTOR_DIGEST_identity_directory :: string where
  [catalogue_defs]: "DESCRIPTOR_DIGEST_identity_directory = ''sha256:1a2067f9a41179d5090f3095c4eef8ffb422ee788428ea567a9f9236d1636a91''"

definition codec_identity_directory :: "'v contract_runtime \<Rightarrow> string \<Rightarrow> 'v operation_codec" where
  [catalogue_defs]: "codec_identity_directory rt = codecs rt
     [(''ensure_identity'', [''disabled'', ''invalid_identity'']),
      (''read_status'', [''invalid_subject'', ''not_found''])]"

definition bindDirectoryProvider :: "'v contract_runtime \<Rightarrow> ('v, 's) typed_provider \<Rightarrow> 's capability_binding" where
  [catalogue_defs]: "bindDirectoryProvider rt prov =
     \<lparr>cb_descriptor = generated_descriptor CAPABILITY_ID_identity_directory DESCRIPTOR_VERSION_identity_directory
        [''ensure_identity'', ''read_status''] [] [],
      cb_invokeRequest = (\<lambda>operation context payload. switch operation
        [(''ensure_identity'', request_arm rt (codec_identity_directory rt ''ensure_identity'') (tp_request prov ''ensure_identity'') context payload),
         (''read_status'', request_arm rt (codec_identity_directory rt ''read_status'') (tp_request prov ''read_status'') context payload)]
        (Runtime (unknown_operation operation))),
      cb_openStream = (\<lambda>operation context payload. switch operation [] (OpenRuntime (unknown_operation operation))),
      cb_publishEvent = (\<lambda>operation context payload. switch operation [] (ActionRuntime (unknown_operation operation)))\<rparr>"

definition bindDirectoryDependency :: "'v contract_runtime \<Rightarrow> ('v, 's) capability_dependency" where
  [catalogue_defs]: "bindDirectoryDependency rt =
     \<lparr>cd_descriptor = generated_descriptor CAPABILITY_ID_identity_directory DESCRIPTOR_VERSION_identity_directory
        [''ensure_identity'', ''read_status''] [] [],
      cd_createClient = (\<lambda>invoke.
        [(''ensure_identity'', RequestMethod (request_method rt ''ensure_identity'' (codec_identity_directory rt ''ensure_identity'') (di_invoke invoke))),
         (''read_status'', RequestMethod (request_method rt ''read_status'' (codec_identity_directory rt ''read_status'') (di_invoke invoke)))])\<rparr>"

definition contract_identity_directory :: generated_contract where
  [catalogue_defs]: "contract_identity_directory =
     \<lparr>gc_contract =
        \<lparr>contract_kind = ''lenso.capability'',
         contract_descriptor = generated_descriptor CAPABILITY_ID_identity_directory DESCRIPTOR_VERSION_identity_directory
        [''ensure_identity'', ''read_status''] [] [],
         has_bindProvider = True\<rparr>,
      gc_capability_id = CAPABILITY_ID_identity_directory, gc_descriptor_version = DESCRIPTOR_VERSION_identity_directory,
      gc_descriptor_digest = DESCRIPTOR_DIGEST_identity_directory, gc_generated_client = ''DirectoryClient''\<rparr>"

interpretation identity_directory: capability bindDirectoryProvider bindDirectoryDependency contract_identity_directory codec_identity_directory
    "generated_descriptor CAPABILITY_ID_identity_directory DESCRIPTOR_VERSION_identity_directory [''ensure_identity'', ''read_status''] [] []"
  by unfold_locales (simp_all add: catalogue_defs catalogue_simps codecs_def)

section \<open>lenso.auth.oauth-flow@1\<close>

definition CAPABILITY_ID_oauth_flow :: string where
  [catalogue_defs]: "CAPABILITY_ID_oauth_flow = ''lenso.auth.oauth-flow@1''"

definition DESCRIPTOR_VERSION_oauth_flow :: string where
  [catalogue_defs]: "DESCRIPTOR_VERSION_oauth_flow = ''1.0.0''"

definition DESCRIPTOR_DIGEST_oauth_flow :: string where
  [catalogue_defs]: "DESCRIPTOR_DIGEST_oauth_flow = ''sha256:a48fea8dc09de5b5b83df7d24e903b8f0623f713aef2f1305ed6536559771610''"

definition codec_oauth_flow :: "'v contract_runtime \<Rightarrow> string \<Rightarrow> 'v operation_codec" where
  [catalogue_defs]: "codec_oauth_flow rt = codecs rt
     [(''consume'', [''already_consumed'', ''expired'', ''invalid_state'', ''provider_mismatch'']),
      (''create'', [''invalid_expiry'', ''invalid_provider'', ''invalid_return_to''])]"

definition bindOauthFlowProvider :: "'v contract_runtime \<Rightarrow> ('v, 's) typed_provider \<Rightarrow> 's capability_binding" where
  [catalogue_defs]: "bindOauthFlowProvider rt prov =
     \<lparr>cb_descriptor = generated_descriptor CAPABILITY_ID_oauth_flow DESCRIPTOR_VERSION_oauth_flow
        [''consume'', ''create''] [] [],
      cb_invokeRequest = (\<lambda>operation context payload. switch operation
        [(''consume'', request_arm rt (codec_oauth_flow rt ''consume'') (tp_request prov ''consume'') context payload),
         (''create'', request_arm rt (codec_oauth_flow rt ''create'') (tp_request prov ''create'') context payload)]
        (Runtime (unknown_operation operation))),
      cb_openStream = (\<lambda>operation context payload. switch operation [] (OpenRuntime (unknown_operation operation))),
      cb_publishEvent = (\<lambda>operation context payload. switch operation [] (ActionRuntime (unknown_operation operation)))\<rparr>"

definition bindOauthFlowDependency :: "'v contract_runtime \<Rightarrow> ('v, 's) capability_dependency" where
  [catalogue_defs]: "bindOauthFlowDependency rt =
     \<lparr>cd_descriptor = generated_descriptor CAPABILITY_ID_oauth_flow DESCRIPTOR_VERSION_oauth_flow
        [''consume'', ''create''] [] [],
      cd_createClient = (\<lambda>invoke.
        [(''consume'', RequestMethod (request_method rt ''consume'' (codec_oauth_flow rt ''consume'') (di_invoke invoke))),
         (''create'', RequestMethod (request_method rt ''create'' (codec_oauth_flow rt ''create'') (di_invoke invoke)))])\<rparr>"

definition contract_oauth_flow :: generated_contract where
  [catalogue_defs]: "contract_oauth_flow =
     \<lparr>gc_contract =
        \<lparr>contract_kind = ''lenso.capability'',
         contract_descriptor = generated_descriptor CAPABILITY_ID_oauth_flow DESCRIPTOR_VERSION_oauth_flow
        [''consume'', ''create''] [] [],
         has_bindProvider = True\<rparr>,
      gc_capability_id = CAPABILITY_ID_oauth_flow, gc_descriptor_version = DESCRIPTOR_VERSION_oauth_flow,
      gc_descriptor_digest = DESCRIPTOR_DIGEST_oauth_flow, gc_generated_client = ''OauthFlowClient''\<rparr>"

interpretation oauth_flow: capability bindOauthFlowProvider bindOauthFlowDependency contract_oauth_flow codec_oauth_flow
    "generated_descriptor CAPABILITY_ID_oauth_flow DESCRIPTOR_VERSION_oauth_flow [''consume'', ''create''] [] []"
  by unfold_locales (simp_all add: catalogue_defs catalogue_simps codecs_def)

section \<open>lenso.auth.oidc-provider@1\<close>

definition CAPABILITY_ID_oidc_provider :: string where
  [catalogue_defs]: "CAPABILITY_ID_oidc_provider = ''lenso.auth.oidc-provider@1''"

definition DESCRIPTOR_VERSION_oidc_provider :: string where
  [catalogue_defs]: "DESCRIPTOR_VERSION_oidc_provider = ''1.0.0''"

definition DESCRIPTOR_DIGEST_oidc_provider :: string where
  [catalogue_defs]: "DESCRIPTOR_DIGEST_oidc_provider = ''sha256:2a0c7ec263bae3fd702bab778a396a9a2e6503d757d5d0f84d1afa4d4ccde1e1''"

definition codec_oidc_provider :: "'v contract_runtime \<Rightarrow> string \<Rightarrow> 'v operation_codec" where
  [catalogue_defs]: "codec_oidc_provider rt = codecs rt
     [(''authorize'', [''disabled_subject'', ''forbidden'', ''invalid_client'', ''invalid_pkce'', ''invalid_redirect_uri'', ''invalid_request'', ''invalid_scope'']),
      (''exchange'', [''disabled_subject'', ''invalid_grant'', ''invalid_request'']),
      (''jwks'', [''disabled'']),
      (''metadata'', [''disabled''])]"

definition bindOidcProviderProvider :: "'v contract_runtime \<Rightarrow> ('v, 's) typed_provider \<Rightarrow> 's capability_binding" where
  [catalogue_defs]: "bindOidcProviderProvider rt prov =
     \<lparr>cb_descriptor = generated_descriptor CAPABILITY_ID_oidc_provider DESCRIPTOR_VERSION_oidc_provider
        [''authorize'', ''exchange'', ''jwks'', ''metadata''] [] [],
      cb_invokeRequest = (\<lambda>operation context payload. switch operation
        [(''authorize'', request_arm rt (codec_oidc_provider rt ''authorize'') (tp_request prov ''authorize'') context payload),
         (''exchange'', request_arm rt (codec_oidc_provider rt ''exchange'') (tp_request prov ''exchange'') context payload),
         (''jwks'', request_arm rt (codec_oidc_provider rt ''jwks'') (tp_request prov ''jwks'') context payload),
         (''metadata'', request_arm rt (codec_oidc_provider rt ''metadata'') (tp_request prov ''metadata'') context payload)]
        (Runtime (unknown_operation operation))),
      cb_openStream = (\<lambda>operation context payload. switch operation [] (OpenRuntime (unknown_operation operation))),
      cb_publishEvent = (\<lambda>operation context payload. switch operation [] (ActionRuntime (unknown_operation operation)))\<rparr>"

definition bindOidcProviderDependency :: "'v contract_runtime \<Rightarrow> ('v, 's) capability_dependency" where
  [catalogue_defs]: "bindOidcProviderDependency rt =
     \<lparr>cd_descriptor = generated_descriptor CAPABILITY_ID_oidc_provider DESCRIPTOR_VERSION_oidc_provider
        [''authorize'', ''exchange'', ''jwks'', ''metadata''] [] [],
      cd_createClient = (\<lambda>invoke.
        [(''authorize'', RequestMethod (request_method rt ''authorize'' (codec_oidc_provider rt ''authorize'') (di_invoke invoke))),
         (''exchange'', RequestMethod (request_method rt ''exchange'' (codec_oidc_provider rt ''exchange'') (di_invoke invoke))),
         (''jwks'', RequestMethod (request_method rt ''jwks'' (codec_oidc_provider rt ''jwks'') (di_invoke invoke))),
         (''metadata'', RequestMethod (request_method rt ''metadata'' (codec_oidc_provider rt ''metadata'') (di_invoke invoke)))])\<rparr>"

definition contract_oidc_provider :: generated_contract where
  [catalogue_defs]: "contract_oidc_provider =
     \<lparr>gc_contract =
        \<lparr>contract_kind = ''lenso.capability'',
         contract_descriptor = generated_descriptor CAPABILITY_ID_oidc_provider DESCRIPTOR_VERSION_oidc_provider
        [''authorize'', ''exchange'', ''jwks'', ''metadata''] [] [],
         has_bindProvider = True\<rparr>,
      gc_capability_id = CAPABILITY_ID_oidc_provider, gc_descriptor_version = DESCRIPTOR_VERSION_oidc_provider,
      gc_descriptor_digest = DESCRIPTOR_DIGEST_oidc_provider, gc_generated_client = ''OidcProviderClient''\<rparr>"

interpretation oidc_provider: capability bindOidcProviderProvider bindOidcProviderDependency contract_oidc_provider codec_oidc_provider
    "generated_descriptor CAPABILITY_ID_oidc_provider DESCRIPTOR_VERSION_oidc_provider [''authorize'', ''exchange'', ''jwks'', ''metadata''] [] []"
  by unfold_locales (simp_all add: catalogue_defs catalogue_simps codecs_def)

section \<open>lenso.auth.password@1\<close>

definition CAPABILITY_ID_password_auth :: string where
  [catalogue_defs]: "CAPABILITY_ID_password_auth = ''lenso.auth.password@1''"

definition DESCRIPTOR_VERSION_password_auth :: string where
  [catalogue_defs]: "DESCRIPTOR_VERSION_password_auth = ''1.0.0''"

definition DESCRIPTOR_DIGEST_password_auth :: string where
  [catalogue_defs]: "DESCRIPTOR_DIGEST_password_auth = ''sha256:49bcdc6966b97438419f6de15a3d929a8dab45f78dc9e1b27b0ce122f8f21b80''"

definition codec_password_auth :: "'v contract_runtime \<Rightarrow> string \<Rightarrow> 'v operation_codec" where
  [catalogue_defs]: "codec_password_auth rt = codecs rt
     [(''login'', [''disabled'', ''invalid_credentials'', ''invalid_identifier'', ''rate_limited'']),
      (''register'', [''disabled'', ''identifier_taken'', ''invalid_identifier'', ''weak_password''])]"

definition bindPasswordProvider :: "'v contract_runtime \<Rightarrow> ('v, 's) typed_provider \<Rightarrow> 's capability_binding" where
  [catalogue_defs]: "bindPasswordProvider rt prov =
     \<lparr>cb_descriptor = generated_descriptor CAPABILITY_ID_password_auth DESCRIPTOR_VERSION_password_auth
        [''login'', ''register''] [] [],
      cb_invokeRequest = (\<lambda>operation context payload. switch operation
        [(''login'', request_arm rt (codec_password_auth rt ''login'') (tp_request prov ''login'') context payload),
         (''register'', request_arm rt (codec_password_auth rt ''register'') (tp_request prov ''register'') context payload)]
        (Runtime (unknown_operation operation))),
      cb_openStream = (\<lambda>operation context payload. switch operation [] (OpenRuntime (unknown_operation operation))),
      cb_publishEvent = (\<lambda>operation context payload. switch operation [] (ActionRuntime (unknown_operation operation)))\<rparr>"

definition bindPasswordDependency :: "'v contract_runtime \<Rightarrow> ('v, 's) capability_dependency" where
  [catalogue_defs]: "bindPasswordDependency rt =
     \<lparr>cd_descriptor = generated_descriptor CAPABILITY_ID_password_auth DESCRIPTOR_VERSION_password_auth
        [''login'', ''register''] [] [],
      cd_createClient = (\<lambda>invoke.
        [(''login'', RequestMethod (request_method rt ''login'' (codec_password_auth rt ''login'') (di_invoke invoke))),
         (''register'', RequestMethod (request_method rt ''register'' (codec_password_auth rt ''register'') (di_invoke invoke)))])\<rparr>"

definition contract_password_auth :: generated_contract where
  [catalogue_defs]: "contract_password_auth =
     \<lparr>gc_contract =
        \<lparr>contract_kind = ''lenso.capability'',
         contract_descriptor = generated_descriptor CAPABILITY_ID_password_auth DESCRIPTOR_VERSION_password_auth
        [''login'', ''register''] [] [],
         has_bindProvider = True\<rparr>,
      gc_capability_id = CAPABILITY_ID_password_auth, gc_descriptor_version = DESCRIPTOR_VERSION_password_auth,
      gc_descriptor_digest = DESCRIPTOR_DIGEST_password_auth, gc_generated_client = ''PasswordClient''\<rparr>"

interpretation password_auth: capability bindPasswordProvider bindPasswordDependency contract_password_auth codec_password_auth
    "generated_descriptor CAPABILITY_ID_password_auth DESCRIPTOR_VERSION_password_auth [''login'', ''register''] [] []"
  by unfold_locales (simp_all add: catalogue_defs catalogue_simps codecs_def)

section \<open>lenso.auth.phone@1\<close>

definition CAPABILITY_ID_phone_auth :: string where
  [catalogue_defs]: "CAPABILITY_ID_phone_auth = ''lenso.auth.phone@1''"

definition DESCRIPTOR_VERSION_phone_auth :: string where
  [catalogue_defs]: "DESCRIPTOR_VERSION_phone_auth = ''1.0.0''"

definition DESCRIPTOR_DIGEST_phone_auth :: string where
  [catalogue_defs]: "DESCRIPTOR_DIGEST_phone_auth = ''sha256:1140db66cc831e18608d35ce467e539918f70f90f6bde5c7fa541668c0c697ac''"

definition codec_phone_auth :: "'v contract_runtime \<Rightarrow> string \<Rightarrow> 'v operation_codec" where
  [catalogue_defs]: "codec_phone_auth rt = codecs rt
     [(''password_login'', [''disabled'', ''invalid_credentials'', ''invalid_phone'', ''rate_limited'']),
      (''set_password'', [''disabled'', ''forbidden'', ''invalid_subject'', ''not_found'', ''weak_password'']),
      (''start_otp'', [''delivery_rejected'', ''invalid_phone'', ''invalid_purpose'', ''rate_limited'', ''resend_too_soon'']),
      (''verify_otp'', [''disabled'', ''expired'', ''invalid_challenge'', ''invalid_code'', ''too_many_attempts''])]"

definition bindPhoneProvider :: "'v contract_runtime \<Rightarrow> ('v, 's) typed_provider \<Rightarrow> 's capability_binding" where
  [catalogue_defs]: "bindPhoneProvider rt prov =
     \<lparr>cb_descriptor = generated_descriptor CAPABILITY_ID_phone_auth DESCRIPTOR_VERSION_phone_auth
        [''password_login'', ''set_password'', ''start_otp'', ''verify_otp''] [] [],
      cb_invokeRequest = (\<lambda>operation context payload. switch operation
        [(''password_login'', request_arm rt (codec_phone_auth rt ''password_login'') (tp_request prov ''password_login'') context payload),
         (''set_password'', request_arm rt (codec_phone_auth rt ''set_password'') (tp_request prov ''set_password'') context payload),
         (''start_otp'', request_arm rt (codec_phone_auth rt ''start_otp'') (tp_request prov ''start_otp'') context payload),
         (''verify_otp'', request_arm rt (codec_phone_auth rt ''verify_otp'') (tp_request prov ''verify_otp'') context payload)]
        (Runtime (unknown_operation operation))),
      cb_openStream = (\<lambda>operation context payload. switch operation [] (OpenRuntime (unknown_operation operation))),
      cb_publishEvent = (\<lambda>operation context payload. switch operation [] (ActionRuntime (unknown_operation operation)))\<rparr>"

definition bindPhoneDependency :: "'v contract_runtime \<Rightarrow> ('v, 's) capability_dependency" where
  [catalogue_defs]: "bindPhoneDependency rt =
     \<lparr>cd_descriptor = generated_descriptor CAPABILITY_ID_phone_auth DESCRIPTOR_VERSION_phone_auth
        [''password_login'', ''set_password'', ''start_otp'', ''verify_otp''] [] [],
      cd_createClient = (\<lambda>invoke.
        [(''password_login'', RequestMethod (request_method rt ''password_login'' (codec_phone_auth rt ''password_login'') (di_invoke invoke))),
         (''set_password'', RequestMethod (request_method rt ''set_password'' (codec_phone_auth rt ''set_password'') (di_invoke invoke))),
         (''start_otp'', RequestMethod (request_method rt ''start_otp'' (codec_phone_auth rt ''start_otp'') (di_invoke invoke))),
         (''verify_otp'', RequestMethod (request_method rt ''verify_otp'' (codec_phone_auth rt ''verify_otp'') (di_invoke invoke)))])\<rparr>"

definition contract_phone_auth :: generated_contract where
  [catalogue_defs]: "contract_phone_auth =
     \<lparr>gc_contract =
        \<lparr>contract_kind = ''lenso.capability'',
         contract_descriptor = generated_descriptor CAPABILITY_ID_phone_auth DESCRIPTOR_VERSION_phone_auth
        [''password_login'', ''set_password'', ''start_otp'', ''verify_otp''] [] [],
         has_bindProvider = True\<rparr>,
      gc_capability_id = CAPABILITY_ID_phone_auth, gc_descriptor_version = DESCRIPTOR_VERSION_phone_auth,
      gc_descriptor_digest = DESCRIPTOR_DIGEST_phone_auth, gc_generated_client = ''PhoneClient''\<rparr>"

interpretation phone_auth: capability bindPhoneProvider bindPhoneDependency contract_phone_auth codec_phone_auth
    "generated_descriptor CAPABILITY_ID_phone_auth DESCRIPTOR_VERSION_phone_auth [''password_login'', ''set_password'', ''start_otp'', ''verify_otp''] [] []"
  by unfold_locales (simp_all add: catalogue_defs catalogue_simps codecs_def)

end
