(* ===== verification/Catalogue_Agent.thy ===== *)
theory Catalogue_Agent
  imports Capability_Binding
begin

text \<open>
  The generated files for agents: \<open>agent-auth-openai-codex.ts\<close>,
  \<open>agent-model.ts\<close>,
  \<open>agent-prompt-provider.ts\<close>,
  \<open>agent-prompt.ts\<close>,
  \<open>agent-session.ts\<close>,
  \<open>agent-tool-provider.ts\<close>,
  \<open>agent-tools.ts\<close>,
  \<open>agent.ts\<close>.
  Each file gives its constants, the codecs of its operations, \<open>bindProvider\<close>, \<open>bindDependency\<close> and the
  contract reference, with the arms and methods of \<open>Capability_Binding\<close>.
\<close>

section \<open>lenso.agent.auth.openai-codex@1\<close>

definition CAPABILITY_ID_agent_auth_openai_codex :: string where
  [catalogue_defs]: "CAPABILITY_ID_agent_auth_openai_codex = ''lenso.agent.auth.openai-codex@1''"

definition DESCRIPTOR_VERSION_agent_auth_openai_codex :: string where
  [catalogue_defs]: "DESCRIPTOR_VERSION_agent_auth_openai_codex = ''1.0.0''"

definition DESCRIPTOR_DIGEST_agent_auth_openai_codex :: string where
  [catalogue_defs]: "DESCRIPTOR_DIGEST_agent_auth_openai_codex = ''sha256:22f178904ed4633ee41e505889e31d52a5d3b82bc98180cfd73b9ee97c151353''"

definition codec_agent_auth_openai_codex :: "'v contract_runtime \<Rightarrow> string \<Rightarrow> 'v operation_codec" where
  [catalogue_defs]: "codec_agent_auth_openai_codex rt = codecs rt
     [(''access'', [''not_authenticated'', ''refresh_rejected''])]"

definition bindOpenaiCodexProvider :: "'v contract_runtime \<Rightarrow> ('v, 's) typed_provider \<Rightarrow> 's capability_binding" where
  [catalogue_defs]: "bindOpenaiCodexProvider rt prov =
     \<lparr>cb_descriptor = generated_descriptor CAPABILITY_ID_agent_auth_openai_codex DESCRIPTOR_VERSION_agent_auth_openai_codex
        [''access''] [] [],
      cb_invokeRequest = (\<lambda>operation context payload. switch operation
        [(''access'', request_arm rt (codec_agent_auth_openai_codex rt ''access'') (tp_request prov ''access'') context payload)]
        (Runtime (unknown_operation operation))),
      cb_openStream = (\<lambda>operation context payload. switch operation [] (OpenRuntime (unknown_operation operation))),
      cb_publishEvent = (\<lambda>operation context payload. switch operation [] (ActionRuntime (unknown_operation operation)))\<rparr>"

definition bindOpenaiCodexDependency :: "'v contract_runtime \<Rightarrow> ('v, 's) capability_dependency" where
  [catalogue_defs]: "bindOpenaiCodexDependency rt =
     \<lparr>cd_descriptor = generated_descriptor CAPABILITY_ID_agent_auth_openai_codex DESCRIPTOR_VERSION_agent_auth_openai_codex
        [''access''] [] [],
      cd_createClient = (\<lambda>invoke.
        [(''access'', RequestMethod (request_method rt ''access'' (codec_agent_auth_openai_codex rt ''access'') (di_invoke invoke)))])\<rparr>"

definition contract_agent_auth_openai_codex :: generated_contract where
  [catalogue_defs]: "contract_agent_auth_openai_codex =
     \<lparr>gc_contract =
        \<lparr>contract_kind = ''lenso.capability'',
         contract_descriptor = generated_descriptor CAPABILITY_ID_agent_auth_openai_codex DESCRIPTOR_VERSION_agent_auth_openai_codex
        [''access''] [] [],
         has_bindProvider = True\<rparr>,
      gc_capability_id = CAPABILITY_ID_agent_auth_openai_codex, gc_descriptor_version = DESCRIPTOR_VERSION_agent_auth_openai_codex,
      gc_descriptor_digest = DESCRIPTOR_DIGEST_agent_auth_openai_codex, gc_generated_client = ''OpenaiCodexClient''\<rparr>"

interpretation agent_auth_openai_codex: capability bindOpenaiCodexProvider bindOpenaiCodexDependency contract_agent_auth_openai_codex codec_agent_auth_openai_codex
    "generated_descriptor CAPABILITY_ID_agent_auth_openai_codex DESCRIPTOR_VERSION_agent_auth_openai_codex [''access''] [] []"
  by unfold_locales (simp_all add: catalogue_defs catalogue_simps codecs_def)

section \<open>lenso.agent.model@1\<close>

definition CAPABILITY_ID_agent_model :: string where
  [catalogue_defs]: "CAPABILITY_ID_agent_model = ''lenso.agent.model@1''"

definition DESCRIPTOR_VERSION_agent_model :: string where
  [catalogue_defs]: "DESCRIPTOR_VERSION_agent_model = ''1.1.0''"

definition DESCRIPTOR_DIGEST_agent_model :: string where
  [catalogue_defs]: "DESCRIPTOR_DIGEST_agent_model = ''sha256:92b4efa0015a8fd88bf5fe179091d0201bca9557c0cd76a68c5bc0e0de7d5d64''"

definition codec_agent_model :: "'v contract_runtime \<Rightarrow> string \<Rightarrow> 'v operation_codec" where
  [catalogue_defs]: "codec_agent_model rt = codecs rt
     [(''complete'', [''content_rejected'', ''invalid_request'', ''unsupported_model''])]"

definition bindModelProvider :: "'v contract_runtime \<Rightarrow> ('v, 's) typed_provider \<Rightarrow> 's capability_binding" where
  [catalogue_defs]: "bindModelProvider rt prov =
     \<lparr>cb_descriptor = generated_descriptor CAPABILITY_ID_agent_model DESCRIPTOR_VERSION_agent_model
        [''complete''] [''complete''] [],
      cb_invokeRequest = (\<lambda>operation context payload. switch operation [] (Runtime (unknown_operation operation))),
      cb_openStream = (\<lambda>operation context payload. switch operation
        [(''complete'', stream_arm rt (codec_agent_model rt ''complete'') (tp_stream prov ''complete'') context payload)]
        (OpenRuntime (unknown_operation operation))),
      cb_publishEvent = (\<lambda>operation context payload. switch operation [] (ActionRuntime (unknown_operation operation)))\<rparr>"

definition bindModelDependency :: "'v contract_runtime \<Rightarrow> ('v, 's) capability_dependency" where
  [catalogue_defs]: "bindModelDependency rt =
     \<lparr>cd_descriptor = generated_descriptor CAPABILITY_ID_agent_model DESCRIPTOR_VERSION_agent_model
        [''complete''] [''complete''] [],
      cd_createClient = (\<lambda>invoke.
        [(''complete'', StreamMethod (stream_method rt ''complete'' (codec_agent_model rt ''complete'') (di_openStream invoke)))])\<rparr>"

definition contract_agent_model :: generated_contract where
  [catalogue_defs]: "contract_agent_model =
     \<lparr>gc_contract =
        \<lparr>contract_kind = ''lenso.capability'',
         contract_descriptor = generated_descriptor CAPABILITY_ID_agent_model DESCRIPTOR_VERSION_agent_model
        [''complete''] [''complete''] [],
         has_bindProvider = True\<rparr>,
      gc_capability_id = CAPABILITY_ID_agent_model, gc_descriptor_version = DESCRIPTOR_VERSION_agent_model,
      gc_descriptor_digest = DESCRIPTOR_DIGEST_agent_model, gc_generated_client = ''ModelClient''\<rparr>"

interpretation agent_model: capability bindModelProvider bindModelDependency contract_agent_model codec_agent_model
    "generated_descriptor CAPABILITY_ID_agent_model DESCRIPTOR_VERSION_agent_model [''complete''] [''complete''] []"
  by unfold_locales (simp_all add: catalogue_defs catalogue_simps codecs_def)

section \<open>lenso.agent.prompt-provider@1\<close>

definition CAPABILITY_ID_agent_prompt_provider :: string where
  [catalogue_defs]: "CAPABILITY_ID_agent_prompt_provider = ''lenso.agent.prompt-provider@1''"

definition DESCRIPTOR_VERSION_agent_prompt_provider :: string where
  [catalogue_defs]: "DESCRIPTOR_VERSION_agent_prompt_provider = ''1.0.0''"

definition DESCRIPTOR_DIGEST_agent_prompt_provider :: string where
  [catalogue_defs]: "DESCRIPTOR_DIGEST_agent_prompt_provider = ''sha256:72d10926cb52edf5cda2f9fe340edd7d64cdf41f059d529e3b5cf23fd22a980d''"

definition codec_agent_prompt_provider :: "'v contract_runtime \<Rightarrow> string \<Rightarrow> 'v operation_codec" where
  [catalogue_defs]: "codec_agent_prompt_provider rt = codecs rt
     [(''contribute'', [''contribution_invalid''])]"

definition bindPromptProviderProvider :: "'v contract_runtime \<Rightarrow> ('v, 's) typed_provider \<Rightarrow> 's capability_binding" where
  [catalogue_defs]: "bindPromptProviderProvider rt prov =
     \<lparr>cb_descriptor = generated_descriptor CAPABILITY_ID_agent_prompt_provider DESCRIPTOR_VERSION_agent_prompt_provider
        [''contribute''] [] [],
      cb_invokeRequest = (\<lambda>operation context payload. switch operation
        [(''contribute'', request_arm rt (codec_agent_prompt_provider rt ''contribute'') (tp_request prov ''contribute'') context payload)]
        (Runtime (unknown_operation operation))),
      cb_openStream = (\<lambda>operation context payload. switch operation [] (OpenRuntime (unknown_operation operation))),
      cb_publishEvent = (\<lambda>operation context payload. switch operation [] (ActionRuntime (unknown_operation operation)))\<rparr>"

definition bindPromptProviderDependency :: "'v contract_runtime \<Rightarrow> ('v, 's) capability_dependency" where
  [catalogue_defs]: "bindPromptProviderDependency rt =
     \<lparr>cd_descriptor = generated_descriptor CAPABILITY_ID_agent_prompt_provider DESCRIPTOR_VERSION_agent_prompt_provider
        [''contribute''] [] [],
      cd_createClient = (\<lambda>invoke.
        [(''contribute'', RequestMethod (request_method rt ''contribute'' (codec_agent_prompt_provider rt ''contribute'') (di_invoke invoke)))])\<rparr>"

definition contract_agent_prompt_provider :: generated_contract where
  [catalogue_defs]: "contract_agent_prompt_provider =
     \<lparr>gc_contract =
        \<lparr>contract_kind = ''lenso.capability'',
         contract_descriptor = generated_descriptor CAPABILITY_ID_agent_prompt_provider DESCRIPTOR_VERSION_agent_prompt_provider
        [''contribute''] [] [],
         has_bindProvider = True\<rparr>,
      gc_capability_id = CAPABILITY_ID_agent_prompt_provider, gc_descriptor_version = DESCRIPTOR_VERSION_agent_prompt_provider,
      gc_descriptor_digest = DESCRIPTOR_DIGEST_agent_prompt_provider, gc_generated_client = ''PromptProviderClient''\<rparr>"

interpretation agent_prompt_provider: capability bindPromptProviderProvider bindPromptProviderDependency contract_agent_prompt_provider codec_agent_prompt_provider
    "generated_descriptor CAPABILITY_ID_agent_prompt_provider DESCRIPTOR_VERSION_agent_prompt_provider [''contribute''] [] []"
  by unfold_locales (simp_all add: catalogue_defs catalogue_simps codecs_def)

section \<open>lenso.agent.prompt@1\<close>

definition CAPABILITY_ID_agent_prompt :: string where
  [catalogue_defs]: "CAPABILITY_ID_agent_prompt = ''lenso.agent.prompt@1''"

definition DESCRIPTOR_VERSION_agent_prompt :: string where
  [catalogue_defs]: "DESCRIPTOR_VERSION_agent_prompt = ''1.0.0''"

definition DESCRIPTOR_DIGEST_agent_prompt :: string where
  [catalogue_defs]: "DESCRIPTOR_DIGEST_agent_prompt = ''sha256:5665329a1bd42c17abce3944624b220738c6d40c4cc541611a6e3f08f8e32fa8''"

definition codec_agent_prompt :: "'v contract_runtime \<Rightarrow> string \<Rightarrow> 'v operation_codec" where
  [catalogue_defs]: "codec_agent_prompt rt = codecs rt
     [(''assemble'', [''prompt_invalid''])]"

definition bindPromptProvider :: "'v contract_runtime \<Rightarrow> ('v, 's) typed_provider \<Rightarrow> 's capability_binding" where
  [catalogue_defs]: "bindPromptProvider rt prov =
     \<lparr>cb_descriptor = generated_descriptor CAPABILITY_ID_agent_prompt DESCRIPTOR_VERSION_agent_prompt
        [''assemble''] [] [],
      cb_invokeRequest = (\<lambda>operation context payload. switch operation
        [(''assemble'', request_arm rt (codec_agent_prompt rt ''assemble'') (tp_request prov ''assemble'') context payload)]
        (Runtime (unknown_operation operation))),
      cb_openStream = (\<lambda>operation context payload. switch operation [] (OpenRuntime (unknown_operation operation))),
      cb_publishEvent = (\<lambda>operation context payload. switch operation [] (ActionRuntime (unknown_operation operation)))\<rparr>"

definition bindPromptDependency :: "'v contract_runtime \<Rightarrow> ('v, 's) capability_dependency" where
  [catalogue_defs]: "bindPromptDependency rt =
     \<lparr>cd_descriptor = generated_descriptor CAPABILITY_ID_agent_prompt DESCRIPTOR_VERSION_agent_prompt
        [''assemble''] [] [],
      cd_createClient = (\<lambda>invoke.
        [(''assemble'', RequestMethod (request_method rt ''assemble'' (codec_agent_prompt rt ''assemble'') (di_invoke invoke)))])\<rparr>"

definition contract_agent_prompt :: generated_contract where
  [catalogue_defs]: "contract_agent_prompt =
     \<lparr>gc_contract =
        \<lparr>contract_kind = ''lenso.capability'',
         contract_descriptor = generated_descriptor CAPABILITY_ID_agent_prompt DESCRIPTOR_VERSION_agent_prompt
        [''assemble''] [] [],
         has_bindProvider = True\<rparr>,
      gc_capability_id = CAPABILITY_ID_agent_prompt, gc_descriptor_version = DESCRIPTOR_VERSION_agent_prompt,
      gc_descriptor_digest = DESCRIPTOR_DIGEST_agent_prompt, gc_generated_client = ''PromptClient''\<rparr>"

interpretation agent_prompt: capability bindPromptProvider bindPromptDependency contract_agent_prompt codec_agent_prompt
    "generated_descriptor CAPABILITY_ID_agent_prompt DESCRIPTOR_VERSION_agent_prompt [''assemble''] [] []"
  by unfold_locales (simp_all add: catalogue_defs catalogue_simps codecs_def)

section \<open>lenso.agent.session@1\<close>

definition CAPABILITY_ID_agent_session :: string where
  [catalogue_defs]: "CAPABILITY_ID_agent_session = ''lenso.agent.session@1''"

definition DESCRIPTOR_VERSION_agent_session :: string where
  [catalogue_defs]: "DESCRIPTOR_VERSION_agent_session = ''1.1.0''"

definition DESCRIPTOR_DIGEST_agent_session :: string where
  [catalogue_defs]: "DESCRIPTOR_DIGEST_agent_session = ''sha256:59e3fa78ae7b6f5c3a683210053a9916fa4a6c8d7b9fbc70c452d82891e5e063''"

definition codec_agent_session :: "'v contract_runtime \<Rightarrow> string \<Rightarrow> 'v operation_codec" where
  [catalogue_defs]: "codec_agent_session rt = codecs rt
     [(''append'', [''invalid_event'', ''not_found'']),
      (''open'', [''invalid_session_id'', ''not_found'']),
      (''read'', [''invalid_cursor'', ''not_found''])]"

definition bindSessionProvider :: "'v contract_runtime \<Rightarrow> ('v, 's) typed_provider \<Rightarrow> 's capability_binding" where
  [catalogue_defs]: "bindSessionProvider rt prov =
     \<lparr>cb_descriptor = generated_descriptor CAPABILITY_ID_agent_session DESCRIPTOR_VERSION_agent_session
        [''append'', ''open'', ''read''] [] [],
      cb_invokeRequest = (\<lambda>operation context payload. switch operation
        [(''append'', request_arm rt (codec_agent_session rt ''append'') (tp_request prov ''append'') context payload),
         (''open'', request_arm rt (codec_agent_session rt ''open'') (tp_request prov ''open'') context payload),
         (''read'', request_arm rt (codec_agent_session rt ''read'') (tp_request prov ''read'') context payload)]
        (Runtime (unknown_operation operation))),
      cb_openStream = (\<lambda>operation context payload. switch operation [] (OpenRuntime (unknown_operation operation))),
      cb_publishEvent = (\<lambda>operation context payload. switch operation [] (ActionRuntime (unknown_operation operation)))\<rparr>"

definition bindSessionDependency :: "'v contract_runtime \<Rightarrow> ('v, 's) capability_dependency" where
  [catalogue_defs]: "bindSessionDependency rt =
     \<lparr>cd_descriptor = generated_descriptor CAPABILITY_ID_agent_session DESCRIPTOR_VERSION_agent_session
        [''append'', ''open'', ''read''] [] [],
      cd_createClient = (\<lambda>invoke.
        [(''append'', RequestMethod (request_method rt ''append'' (codec_agent_session rt ''append'') (di_invoke invoke))),
         (''open'', RequestMethod (request_method rt ''open'' (codec_agent_session rt ''open'') (di_invoke invoke))),
         (''read'', RequestMethod (request_method rt ''read'' (codec_agent_session rt ''read'') (di_invoke invoke)))])\<rparr>"

definition contract_agent_session :: generated_contract where
  [catalogue_defs]: "contract_agent_session =
     \<lparr>gc_contract =
        \<lparr>contract_kind = ''lenso.capability'',
         contract_descriptor = generated_descriptor CAPABILITY_ID_agent_session DESCRIPTOR_VERSION_agent_session
        [''append'', ''open'', ''read''] [] [],
         has_bindProvider = True\<rparr>,
      gc_capability_id = CAPABILITY_ID_agent_session, gc_descriptor_version = DESCRIPTOR_VERSION_agent_session,
      gc_descriptor_digest = DESCRIPTOR_DIGEST_agent_session, gc_generated_client = ''SessionClient''\<rparr>"

interpretation agent_session: capability bindSessionProvider bindSessionDependency contract_agent_session codec_agent_session
    "generated_descriptor CAPABILITY_ID_agent_session DESCRIPTOR_VERSION_agent_session [''append'', ''open'', ''read''] [] []"
  by unfold_locales (simp_all add: catalogue_defs catalogue_simps codecs_def)

section \<open>lenso.agent.tool-provider@1\<close>

definition CAPABILITY_ID_agent_tool_provider :: string where
  [catalogue_defs]: "CAPABILITY_ID_agent_tool_provider = ''lenso.agent.tool-provider@1''"

definition DESCRIPTOR_VERSION_agent_tool_provider :: string where
  [catalogue_defs]: "DESCRIPTOR_VERSION_agent_tool_provider = ''1.0.0''"

definition DESCRIPTOR_DIGEST_agent_tool_provider :: string where
  [catalogue_defs]: "DESCRIPTOR_DIGEST_agent_tool_provider = ''sha256:d9e6a24abe6b4957fc8801554338e8a80a00f9746eb878eee4ef3008e9f154dd''"

definition codec_agent_tool_provider :: "'v contract_runtime \<Rightarrow> string \<Rightarrow> 'v operation_codec" where
  [catalogue_defs]: "codec_agent_tool_provider rt = codecs rt
     [(''catalog'', [''catalog_invalid'']),
      (''execute'', [''invalid_arguments'', ''not_found'', ''output_limit_exceeded'', ''permission_denied''])]"

definition bindToolProviderProvider :: "'v contract_runtime \<Rightarrow> ('v, 's) typed_provider \<Rightarrow> 's capability_binding" where
  [catalogue_defs]: "bindToolProviderProvider rt prov =
     \<lparr>cb_descriptor = generated_descriptor CAPABILITY_ID_agent_tool_provider DESCRIPTOR_VERSION_agent_tool_provider
        [''catalog'', ''execute''] [] [],
      cb_invokeRequest = (\<lambda>operation context payload. switch operation
        [(''catalog'', request_arm rt (codec_agent_tool_provider rt ''catalog'') (tp_request prov ''catalog'') context payload),
         (''execute'', request_arm rt (codec_agent_tool_provider rt ''execute'') (tp_request prov ''execute'') context payload)]
        (Runtime (unknown_operation operation))),
      cb_openStream = (\<lambda>operation context payload. switch operation [] (OpenRuntime (unknown_operation operation))),
      cb_publishEvent = (\<lambda>operation context payload. switch operation [] (ActionRuntime (unknown_operation operation)))\<rparr>"

definition bindToolProviderDependency :: "'v contract_runtime \<Rightarrow> ('v, 's) capability_dependency" where
  [catalogue_defs]: "bindToolProviderDependency rt =
     \<lparr>cd_descriptor = generated_descriptor CAPABILITY_ID_agent_tool_provider DESCRIPTOR_VERSION_agent_tool_provider
        [''catalog'', ''execute''] [] [],
      cd_createClient = (\<lambda>invoke.
        [(''catalog'', RequestMethod (request_method rt ''catalog'' (codec_agent_tool_provider rt ''catalog'') (di_invoke invoke))),
         (''execute'', RequestMethod (request_method rt ''execute'' (codec_agent_tool_provider rt ''execute'') (di_invoke invoke)))])\<rparr>"

definition contract_agent_tool_provider :: generated_contract where
  [catalogue_defs]: "contract_agent_tool_provider =
     \<lparr>gc_contract =
        \<lparr>contract_kind = ''lenso.capability'',
         contract_descriptor = generated_descriptor CAPABILITY_ID_agent_tool_provider DESCRIPTOR_VERSION_agent_tool_provider
        [''catalog'', ''execute''] [] [],
         has_bindProvider = True\<rparr>,
      gc_capability_id = CAPABILITY_ID_agent_tool_provider, gc_descriptor_version = DESCRIPTOR_VERSION_agent_tool_provider,
      gc_descriptor_digest = DESCRIPTOR_DIGEST_agent_tool_provider, gc_generated_client = ''ToolProviderClient''\<rparr>"

interpretation agent_tool_provider: capability bindToolProviderProvider bindToolProviderDependency contract_agent_tool_provider codec_agent_tool_provider
    "generated_descriptor CAPABILITY_ID_agent_tool_provider DESCRIPTOR_VERSION_agent_tool_provider [''catalog'', ''execute''] [] []"
  by unfold_locales (simp_all add: catalogue_defs catalogue_simps codecs_def)

section \<open>lenso.agent.tools@1\<close>

definition CAPABILITY_ID_agent_tools :: string where
  [catalogue_defs]: "CAPABILITY_ID_agent_tools = ''lenso.agent.tools@1''"

definition DESCRIPTOR_VERSION_agent_tools :: string where
  [catalogue_defs]: "DESCRIPTOR_VERSION_agent_tools = ''1.0.0''"

definition DESCRIPTOR_DIGEST_agent_tools :: string where
  [catalogue_defs]: "DESCRIPTOR_DIGEST_agent_tools = ''sha256:cce8d9a6b3ba3fbe02e0fee42b86f40b43f0b821b9011e3101d6a6e6ed50d761''"

definition codec_agent_tools :: "'v contract_runtime \<Rightarrow> string \<Rightarrow> 'v operation_codec" where
  [catalogue_defs]: "codec_agent_tools rt = codecs rt
     [(''catalog'', [''catalog_invalid'']),
      (''execute'', [''invalid_arguments'', ''unknown_tool''])]"

definition bindToolsProvider :: "'v contract_runtime \<Rightarrow> ('v, 's) typed_provider \<Rightarrow> 's capability_binding" where
  [catalogue_defs]: "bindToolsProvider rt prov =
     \<lparr>cb_descriptor = generated_descriptor CAPABILITY_ID_agent_tools DESCRIPTOR_VERSION_agent_tools
        [''catalog'', ''execute''] [] [],
      cb_invokeRequest = (\<lambda>operation context payload. switch operation
        [(''catalog'', request_arm rt (codec_agent_tools rt ''catalog'') (tp_request prov ''catalog'') context payload),
         (''execute'', request_arm rt (codec_agent_tools rt ''execute'') (tp_request prov ''execute'') context payload)]
        (Runtime (unknown_operation operation))),
      cb_openStream = (\<lambda>operation context payload. switch operation [] (OpenRuntime (unknown_operation operation))),
      cb_publishEvent = (\<lambda>operation context payload. switch operation [] (ActionRuntime (unknown_operation operation)))\<rparr>"

definition bindToolsDependency :: "'v contract_runtime \<Rightarrow> ('v, 's) capability_dependency" where
  [catalogue_defs]: "bindToolsDependency rt =
     \<lparr>cd_descriptor = generated_descriptor CAPABILITY_ID_agent_tools DESCRIPTOR_VERSION_agent_tools
        [''catalog'', ''execute''] [] [],
      cd_createClient = (\<lambda>invoke.
        [(''catalog'', RequestMethod (request_method rt ''catalog'' (codec_agent_tools rt ''catalog'') (di_invoke invoke))),
         (''execute'', RequestMethod (request_method rt ''execute'' (codec_agent_tools rt ''execute'') (di_invoke invoke)))])\<rparr>"

definition contract_agent_tools :: generated_contract where
  [catalogue_defs]: "contract_agent_tools =
     \<lparr>gc_contract =
        \<lparr>contract_kind = ''lenso.capability'',
         contract_descriptor = generated_descriptor CAPABILITY_ID_agent_tools DESCRIPTOR_VERSION_agent_tools
        [''catalog'', ''execute''] [] [],
         has_bindProvider = True\<rparr>,
      gc_capability_id = CAPABILITY_ID_agent_tools, gc_descriptor_version = DESCRIPTOR_VERSION_agent_tools,
      gc_descriptor_digest = DESCRIPTOR_DIGEST_agent_tools, gc_generated_client = ''ToolsClient''\<rparr>"

interpretation agent_tools: capability bindToolsProvider bindToolsDependency contract_agent_tools codec_agent_tools
    "generated_descriptor CAPABILITY_ID_agent_tools DESCRIPTOR_VERSION_agent_tools [''catalog'', ''execute''] [] []"
  by unfold_locales (simp_all add: catalogue_defs catalogue_simps codecs_def)

section \<open>lenso.agent@1\<close>

definition CAPABILITY_ID_agent :: string where
  [catalogue_defs]: "CAPABILITY_ID_agent = ''lenso.agent@1''"

definition DESCRIPTOR_VERSION_agent :: string where
  [catalogue_defs]: "DESCRIPTOR_VERSION_agent = ''1.1.0''"

definition DESCRIPTOR_DIGEST_agent :: string where
  [catalogue_defs]: "DESCRIPTOR_DIGEST_agent = ''sha256:e995b7af328e09be4fc8510188d5034d535cd7294e8a743f980ffec6b6a0b01a''"

definition codec_agent :: "'v contract_runtime \<Rightarrow> string \<Rightarrow> 'v operation_codec" where
  [catalogue_defs]: "codec_agent rt = codecs rt
     [(''run_turn'', [''concurrent_turn'', ''context_limit_exceeded'', ''invalid_session'', ''step_limit_exceeded'', ''tool_call_limit_exceeded''])]"

definition bindAgentProvider :: "'v contract_runtime \<Rightarrow> ('v, 's) typed_provider \<Rightarrow> 's capability_binding" where
  [catalogue_defs]: "bindAgentProvider rt prov =
     \<lparr>cb_descriptor = generated_descriptor CAPABILITY_ID_agent DESCRIPTOR_VERSION_agent
        [''run_turn''] [''run_turn''] [],
      cb_invokeRequest = (\<lambda>operation context payload. switch operation [] (Runtime (unknown_operation operation))),
      cb_openStream = (\<lambda>operation context payload. switch operation
        [(''run_turn'', stream_arm rt (codec_agent rt ''run_turn'') (tp_stream prov ''run_turn'') context payload)]
        (OpenRuntime (unknown_operation operation))),
      cb_publishEvent = (\<lambda>operation context payload. switch operation [] (ActionRuntime (unknown_operation operation)))\<rparr>"

definition bindAgentDependency :: "'v contract_runtime \<Rightarrow> ('v, 's) capability_dependency" where
  [catalogue_defs]: "bindAgentDependency rt =
     \<lparr>cd_descriptor = generated_descriptor CAPABILITY_ID_agent DESCRIPTOR_VERSION_agent
        [''run_turn''] [''run_turn''] [],
      cd_createClient = (\<lambda>invoke.
        [(''run_turn'', StreamMethod (stream_method rt ''run_turn'' (codec_agent rt ''run_turn'') (di_openStream invoke)))])\<rparr>"

definition contract_agent :: generated_contract where
  [catalogue_defs]: "contract_agent =
     \<lparr>gc_contract =
        \<lparr>contract_kind = ''lenso.capability'',
         contract_descriptor = generated_descriptor CAPABILITY_ID_agent DESCRIPTOR_VERSION_agent
        [''run_turn''] [''run_turn''] [],
         has_bindProvider = True\<rparr>,
      gc_capability_id = CAPABILITY_ID_agent, gc_descriptor_version = DESCRIPTOR_VERSION_agent,
      gc_descriptor_digest = DESCRIPTOR_DIGEST_agent, gc_generated_client = ''AgentClient''\<rparr>"

interpretation agent: capability bindAgentProvider bindAgentDependency contract_agent codec_agent
    "generated_descriptor CAPABILITY_ID_agent DESCRIPTOR_VERSION_agent [''run_turn''] [''run_turn''] []"
  by unfold_locales (simp_all add: catalogue_defs catalogue_simps codecs_def)

end
