(* ===== verification/Catalogue_Services.thy ===== *)
theory Catalogue_Services
  imports Capability_Binding
begin

text \<open>
  The generated files for jobs, secrets, messages, HTTP and WebSocket endpoints: \<open>http-client.ts\<close>,
  \<open>http-endpoint.ts\<close>,
  \<open>jobs.ts\<close>,
  \<open>secrets.ts\<close>,
  \<open>sms-delivery.ts\<close>,
  \<open>websocket-endpoint.ts\<close>.
  Each file gives its constants, the codecs of its operations, \<open>bindProvider\<close>, \<open>bindDependency\<close> and the
  contract reference, with the arms and methods of \<open>Capability_Binding\<close>.
\<close>

section \<open>lenso.http.client@1\<close>

definition CAPABILITY_ID_http_client :: string where
  [catalogue_defs]: "CAPABILITY_ID_http_client = ''lenso.http.client@1''"

definition DESCRIPTOR_VERSION_http_client :: string where
  [catalogue_defs]: "DESCRIPTOR_VERSION_http_client = ''1.0.1''"

definition DESCRIPTOR_DIGEST_http_client :: string where
  [catalogue_defs]: "DESCRIPTOR_DIGEST_http_client = ''sha256:21b24a413879f67cbd6a0c43ebe7b087deaaf916f49b49f4057ea66e032838c7''"

definition codec_http_client :: "'v contract_runtime \<Rightarrow> string \<Rightarrow> 'v operation_codec" where
  [catalogue_defs]: "codec_http_client rt = codecs rt
     [(''send'', [''destination_not_allowed'', ''invalid_request'', ''request_too_large'', ''response_too_large'', ''timeout'', ''transport_failure''])]"

definition bindClientProvider :: "'v contract_runtime \<Rightarrow> ('v, 's) typed_provider \<Rightarrow> 's capability_binding" where
  [catalogue_defs]: "bindClientProvider rt prov =
     \<lparr>cb_descriptor = generated_descriptor CAPABILITY_ID_http_client DESCRIPTOR_VERSION_http_client
        [''send''] [] [],
      cb_invokeRequest = (\<lambda>operation context payload. switch operation
        [(''send'', request_arm rt (codec_http_client rt ''send'') (tp_request prov ''send'') context payload)]
        (Runtime (unknown_operation operation))),
      cb_openStream = (\<lambda>operation context payload. switch operation [] (OpenRuntime (unknown_operation operation))),
      cb_publishEvent = (\<lambda>operation context payload. switch operation [] (ActionRuntime (unknown_operation operation)))\<rparr>"

definition bindClientDependency :: "'v contract_runtime \<Rightarrow> ('v, 's) capability_dependency" where
  [catalogue_defs]: "bindClientDependency rt =
     \<lparr>cd_descriptor = generated_descriptor CAPABILITY_ID_http_client DESCRIPTOR_VERSION_http_client
        [''send''] [] [],
      cd_createClient = (\<lambda>invoke.
        [(''send'', RequestMethod (request_method rt ''send'' (codec_http_client rt ''send'') (di_invoke invoke)))])\<rparr>"

definition contract_http_client :: generated_contract where
  [catalogue_defs]: "contract_http_client =
     \<lparr>gc_contract =
        \<lparr>contract_kind = ''lenso.capability'',
         contract_descriptor = generated_descriptor CAPABILITY_ID_http_client DESCRIPTOR_VERSION_http_client
        [''send''] [] [],
         has_bindProvider = True\<rparr>,
      gc_capability_id = CAPABILITY_ID_http_client, gc_descriptor_version = DESCRIPTOR_VERSION_http_client,
      gc_descriptor_digest = DESCRIPTOR_DIGEST_http_client, gc_generated_client = ''ClientClient''\<rparr>"

interpretation http_client: capability bindClientProvider bindClientDependency contract_http_client codec_http_client
    "generated_descriptor CAPABILITY_ID_http_client DESCRIPTOR_VERSION_http_client [''send''] [] []"
  by unfold_locales (simp_all add: catalogue_defs catalogue_simps codecs_def)

section \<open>lenso.http.endpoint@1\<close>

definition CAPABILITY_ID_http_endpoint :: string where
  [catalogue_defs]: "CAPABILITY_ID_http_endpoint = ''lenso.http.endpoint@1''"

definition DESCRIPTOR_VERSION_http_endpoint :: string where
  [catalogue_defs]: "DESCRIPTOR_VERSION_http_endpoint = ''1.1.0''"

definition DESCRIPTOR_DIGEST_http_endpoint :: string where
  [catalogue_defs]: "DESCRIPTOR_DIGEST_http_endpoint = ''sha256:701deedf705cb1a3b2f35fcae72f20ae85d46c6da6a008405a519018bbcdd3fe''"

definition codec_http_endpoint :: "'v contract_runtime \<Rightarrow> string \<Rightarrow> 'v operation_codec" where
  [catalogue_defs]: "codec_http_endpoint rt = codecs rt
     [(''describe'', [''invalid_configuration'']),
      (''handle'', [''rejected''])]"

definition bindEndpointProvider_http :: "'v contract_runtime \<Rightarrow> ('v, 's) typed_provider \<Rightarrow> 's capability_binding" where
  [catalogue_defs]: "bindEndpointProvider_http rt prov =
     \<lparr>cb_descriptor = generated_descriptor CAPABILITY_ID_http_endpoint DESCRIPTOR_VERSION_http_endpoint
        [''describe'', ''handle''] [] [],
      cb_invokeRequest = (\<lambda>operation context payload. switch operation
        [(''describe'', request_arm rt (codec_http_endpoint rt ''describe'') (tp_request prov ''describe'') context payload),
         (''handle'', request_arm rt (codec_http_endpoint rt ''handle'') (tp_request prov ''handle'') context payload)]
        (Runtime (unknown_operation operation))),
      cb_openStream = (\<lambda>operation context payload. switch operation [] (OpenRuntime (unknown_operation operation))),
      cb_publishEvent = (\<lambda>operation context payload. switch operation [] (ActionRuntime (unknown_operation operation)))\<rparr>"

definition bindEndpointDependency_http :: "'v contract_runtime \<Rightarrow> ('v, 's) capability_dependency" where
  [catalogue_defs]: "bindEndpointDependency_http rt =
     \<lparr>cd_descriptor = generated_descriptor CAPABILITY_ID_http_endpoint DESCRIPTOR_VERSION_http_endpoint
        [''describe'', ''handle''] [] [],
      cd_createClient = (\<lambda>invoke.
        [(''describe'', RequestMethod (request_method rt ''describe'' (codec_http_endpoint rt ''describe'') (di_invoke invoke))),
         (''handle'', RequestMethod (request_method rt ''handle'' (codec_http_endpoint rt ''handle'') (di_invoke invoke)))])\<rparr>"

definition contract_http_endpoint :: generated_contract where
  [catalogue_defs]: "contract_http_endpoint =
     \<lparr>gc_contract =
        \<lparr>contract_kind = ''lenso.capability'',
         contract_descriptor = generated_descriptor CAPABILITY_ID_http_endpoint DESCRIPTOR_VERSION_http_endpoint
        [''describe'', ''handle''] [] [],
         has_bindProvider = True\<rparr>,
      gc_capability_id = CAPABILITY_ID_http_endpoint, gc_descriptor_version = DESCRIPTOR_VERSION_http_endpoint,
      gc_descriptor_digest = DESCRIPTOR_DIGEST_http_endpoint, gc_generated_client = ''EndpointClient''\<rparr>"

interpretation http_endpoint: capability bindEndpointProvider_http bindEndpointDependency_http contract_http_endpoint codec_http_endpoint
    "generated_descriptor CAPABILITY_ID_http_endpoint DESCRIPTOR_VERSION_http_endpoint [''describe'', ''handle''] [] []"
  by unfold_locales (simp_all add: catalogue_defs catalogue_simps codecs_def)

section \<open>lenso.jobs@1\<close>

definition CAPABILITY_ID_jobs :: string where
  [catalogue_defs]: "CAPABILITY_ID_jobs = ''lenso.jobs@1''"

definition DESCRIPTOR_VERSION_jobs :: string where
  [catalogue_defs]: "DESCRIPTOR_VERSION_jobs = ''1.0.0''"

definition DESCRIPTOR_DIGEST_jobs :: string where
  [catalogue_defs]: "DESCRIPTOR_DIGEST_jobs = ''sha256:34fca9ad91952dd4eb9da844b94925cd0a54928843c803ed51e1c6ccb11d690d''"

definition codec_jobs :: "'v contract_runtime \<Rightarrow> string \<Rightarrow> 'v operation_codec" where
  [catalogue_defs]: "codec_jobs rt = codecs rt
     [(''claim'', [''invalid_queue'', ''no_job_available'', ''unauthorized'']),
      (''complete'', [''invalid_lease'', ''unauthorized'']),
      (''enqueue'', [''idempotency_conflict'', ''invalid_job'', ''unauthorized'']),
      (''fail'', [''invalid_failure'', ''invalid_lease'', ''unauthorized'']),
      (''inspect'', [''job_not_found'', ''unauthorized'']),
      (''renew'', [''invalid_lease'', ''unauthorized''])]"

definition bindJobsProvider :: "'v contract_runtime \<Rightarrow> ('v, 's) typed_provider \<Rightarrow> 's capability_binding" where
  [catalogue_defs]: "bindJobsProvider rt prov =
     \<lparr>cb_descriptor = generated_descriptor CAPABILITY_ID_jobs DESCRIPTOR_VERSION_jobs
        [''claim'', ''complete'', ''enqueue'', ''fail'', ''inspect'', ''renew''] [] [],
      cb_invokeRequest = (\<lambda>operation context payload. switch operation
        [(''claim'', request_arm rt (codec_jobs rt ''claim'') (tp_request prov ''claim'') context payload),
         (''complete'', request_arm rt (codec_jobs rt ''complete'') (tp_request prov ''complete'') context payload),
         (''enqueue'', request_arm rt (codec_jobs rt ''enqueue'') (tp_request prov ''enqueue'') context payload),
         (''fail'', request_arm rt (codec_jobs rt ''fail'') (tp_request prov ''fail'') context payload),
         (''inspect'', request_arm rt (codec_jobs rt ''inspect'') (tp_request prov ''inspect'') context payload),
         (''renew'', request_arm rt (codec_jobs rt ''renew'') (tp_request prov ''renew'') context payload)]
        (Runtime (unknown_operation operation))),
      cb_openStream = (\<lambda>operation context payload. switch operation [] (OpenRuntime (unknown_operation operation))),
      cb_publishEvent = (\<lambda>operation context payload. switch operation [] (ActionRuntime (unknown_operation operation)))\<rparr>"

definition bindJobsDependency :: "'v contract_runtime \<Rightarrow> ('v, 's) capability_dependency" where
  [catalogue_defs]: "bindJobsDependency rt =
     \<lparr>cd_descriptor = generated_descriptor CAPABILITY_ID_jobs DESCRIPTOR_VERSION_jobs
        [''claim'', ''complete'', ''enqueue'', ''fail'', ''inspect'', ''renew''] [] [],
      cd_createClient = (\<lambda>invoke.
        [(''claim'', RequestMethod (request_method rt ''claim'' (codec_jobs rt ''claim'') (di_invoke invoke))),
         (''complete'', RequestMethod (request_method rt ''complete'' (codec_jobs rt ''complete'') (di_invoke invoke))),
         (''enqueue'', RequestMethod (request_method rt ''enqueue'' (codec_jobs rt ''enqueue'') (di_invoke invoke))),
         (''fail'', RequestMethod (request_method rt ''fail'' (codec_jobs rt ''fail'') (di_invoke invoke))),
         (''inspect'', RequestMethod (request_method rt ''inspect'' (codec_jobs rt ''inspect'') (di_invoke invoke))),
         (''renew'', RequestMethod (request_method rt ''renew'' (codec_jobs rt ''renew'') (di_invoke invoke)))])\<rparr>"

definition contract_jobs :: generated_contract where
  [catalogue_defs]: "contract_jobs =
     \<lparr>gc_contract =
        \<lparr>contract_kind = ''lenso.capability'',
         contract_descriptor = generated_descriptor CAPABILITY_ID_jobs DESCRIPTOR_VERSION_jobs
        [''claim'', ''complete'', ''enqueue'', ''fail'', ''inspect'', ''renew''] [] [],
         has_bindProvider = True\<rparr>,
      gc_capability_id = CAPABILITY_ID_jobs, gc_descriptor_version = DESCRIPTOR_VERSION_jobs,
      gc_descriptor_digest = DESCRIPTOR_DIGEST_jobs, gc_generated_client = ''JobsClient''\<rparr>"

interpretation jobs: capability bindJobsProvider bindJobsDependency contract_jobs codec_jobs
    "generated_descriptor CAPABILITY_ID_jobs DESCRIPTOR_VERSION_jobs [''claim'', ''complete'', ''enqueue'', ''fail'', ''inspect'', ''renew''] [] []"
  by unfold_locales (simp_all add: catalogue_defs catalogue_simps codecs_def)

section \<open>lenso.secrets@1\<close>

definition CAPABILITY_ID_secrets :: string where
  [catalogue_defs]: "CAPABILITY_ID_secrets = ''lenso.secrets@1''"

definition DESCRIPTOR_VERSION_secrets :: string where
  [catalogue_defs]: "DESCRIPTOR_VERSION_secrets = ''1.0.0''"

definition DESCRIPTOR_DIGEST_secrets :: string where
  [catalogue_defs]: "DESCRIPTOR_DIGEST_secrets = ''sha256:8f48068ae97861edffc7b156101cac61522a1d06113b7d054664b77ff781e1bd''"

definition codec_secrets :: "'v contract_runtime \<Rightarrow> string \<Rightarrow> 'v operation_codec" where
  [catalogue_defs]: "codec_secrets rt = codecs rt
     [(''resolve'', [''invalid_reference'', ''unknown_reference''])]"

definition bindSecretsProvider :: "'v contract_runtime \<Rightarrow> ('v, 's) typed_provider \<Rightarrow> 's capability_binding" where
  [catalogue_defs]: "bindSecretsProvider rt prov =
     \<lparr>cb_descriptor = generated_descriptor CAPABILITY_ID_secrets DESCRIPTOR_VERSION_secrets
        [''resolve''] [] [],
      cb_invokeRequest = (\<lambda>operation context payload. switch operation
        [(''resolve'', request_arm rt (codec_secrets rt ''resolve'') (tp_request prov ''resolve'') context payload)]
        (Runtime (unknown_operation operation))),
      cb_openStream = (\<lambda>operation context payload. switch operation [] (OpenRuntime (unknown_operation operation))),
      cb_publishEvent = (\<lambda>operation context payload. switch operation [] (ActionRuntime (unknown_operation operation)))\<rparr>"

definition bindSecretsDependency :: "'v contract_runtime \<Rightarrow> ('v, 's) capability_dependency" where
  [catalogue_defs]: "bindSecretsDependency rt =
     \<lparr>cd_descriptor = generated_descriptor CAPABILITY_ID_secrets DESCRIPTOR_VERSION_secrets
        [''resolve''] [] [],
      cd_createClient = (\<lambda>invoke.
        [(''resolve'', RequestMethod (request_method rt ''resolve'' (codec_secrets rt ''resolve'') (di_invoke invoke)))])\<rparr>"

definition contract_secrets :: generated_contract where
  [catalogue_defs]: "contract_secrets =
     \<lparr>gc_contract =
        \<lparr>contract_kind = ''lenso.capability'',
         contract_descriptor = generated_descriptor CAPABILITY_ID_secrets DESCRIPTOR_VERSION_secrets
        [''resolve''] [] [],
         has_bindProvider = True\<rparr>,
      gc_capability_id = CAPABILITY_ID_secrets, gc_descriptor_version = DESCRIPTOR_VERSION_secrets,
      gc_descriptor_digest = DESCRIPTOR_DIGEST_secrets, gc_generated_client = ''SecretsClient''\<rparr>"

interpretation secrets: capability bindSecretsProvider bindSecretsDependency contract_secrets codec_secrets
    "generated_descriptor CAPABILITY_ID_secrets DESCRIPTOR_VERSION_secrets [''resolve''] [] []"
  by unfold_locales (simp_all add: catalogue_defs catalogue_simps codecs_def)

section \<open>lenso.message.sms@1\<close>

definition CAPABILITY_ID_sms_delivery :: string where
  [catalogue_defs]: "CAPABILITY_ID_sms_delivery = ''lenso.message.sms@1''"

definition DESCRIPTOR_VERSION_sms_delivery :: string where
  [catalogue_defs]: "DESCRIPTOR_VERSION_sms_delivery = ''1.0.0''"

definition DESCRIPTOR_DIGEST_sms_delivery :: string where
  [catalogue_defs]: "DESCRIPTOR_DIGEST_sms_delivery = ''sha256:9f730009bddb72adf66cc6aef67109a187aa5029087661fd58f2c2169b1e6387''"

definition codec_sms_delivery :: "'v contract_runtime \<Rightarrow> string \<Rightarrow> 'v operation_codec" where
  [catalogue_defs]: "codec_sms_delivery rt = codecs rt
     [(''send'', [''invalid_destination'', ''rejected'', ''throttled''])]"

definition bindSmsProvider :: "'v contract_runtime \<Rightarrow> ('v, 's) typed_provider \<Rightarrow> 's capability_binding" where
  [catalogue_defs]: "bindSmsProvider rt prov =
     \<lparr>cb_descriptor = generated_descriptor CAPABILITY_ID_sms_delivery DESCRIPTOR_VERSION_sms_delivery
        [''send''] [] [],
      cb_invokeRequest = (\<lambda>operation context payload. switch operation
        [(''send'', request_arm rt (codec_sms_delivery rt ''send'') (tp_request prov ''send'') context payload)]
        (Runtime (unknown_operation operation))),
      cb_openStream = (\<lambda>operation context payload. switch operation [] (OpenRuntime (unknown_operation operation))),
      cb_publishEvent = (\<lambda>operation context payload. switch operation [] (ActionRuntime (unknown_operation operation)))\<rparr>"

definition bindSmsDependency :: "'v contract_runtime \<Rightarrow> ('v, 's) capability_dependency" where
  [catalogue_defs]: "bindSmsDependency rt =
     \<lparr>cd_descriptor = generated_descriptor CAPABILITY_ID_sms_delivery DESCRIPTOR_VERSION_sms_delivery
        [''send''] [] [],
      cd_createClient = (\<lambda>invoke.
        [(''send'', RequestMethod (request_method rt ''send'' (codec_sms_delivery rt ''send'') (di_invoke invoke)))])\<rparr>"

definition contract_sms_delivery :: generated_contract where
  [catalogue_defs]: "contract_sms_delivery =
     \<lparr>gc_contract =
        \<lparr>contract_kind = ''lenso.capability'',
         contract_descriptor = generated_descriptor CAPABILITY_ID_sms_delivery DESCRIPTOR_VERSION_sms_delivery
        [''send''] [] [],
         has_bindProvider = True\<rparr>,
      gc_capability_id = CAPABILITY_ID_sms_delivery, gc_descriptor_version = DESCRIPTOR_VERSION_sms_delivery,
      gc_descriptor_digest = DESCRIPTOR_DIGEST_sms_delivery, gc_generated_client = ''SmsClient''\<rparr>"

interpretation sms_delivery: capability bindSmsProvider bindSmsDependency contract_sms_delivery codec_sms_delivery
    "generated_descriptor CAPABILITY_ID_sms_delivery DESCRIPTOR_VERSION_sms_delivery [''send''] [] []"
  by unfold_locales (simp_all add: catalogue_defs catalogue_simps codecs_def)

section \<open>lenso.websocket.endpoint@1\<close>

definition CAPABILITY_ID_websocket_endpoint :: string where
  [catalogue_defs]: "CAPABILITY_ID_websocket_endpoint = ''lenso.websocket.endpoint@1''"

definition DESCRIPTOR_VERSION_websocket_endpoint :: string where
  [catalogue_defs]: "DESCRIPTOR_VERSION_websocket_endpoint = ''1.0.0''"

definition DESCRIPTOR_DIGEST_websocket_endpoint :: string where
  [catalogue_defs]: "DESCRIPTOR_DIGEST_websocket_endpoint = ''sha256:ab8584c9e3f1e1582398521cecedf0b2e9de0c6d29386141dcfc8175c620b798''"

definition codec_websocket_endpoint :: "'v contract_runtime \<Rightarrow> string \<Rightarrow> 'v operation_codec" where
  [catalogue_defs]: "codec_websocket_endpoint rt = codecs rt
     [(''connect_websocket'', [''rejected'', ''unauthorized'', ''unsupported_protocol'']),
      (''describe_websocket'', [''invalid_configuration''])]"

definition bindEndpointProvider_websocket :: "'v contract_runtime \<Rightarrow> ('v, 's) typed_provider \<Rightarrow> 's capability_binding" where
  [catalogue_defs]: "bindEndpointProvider_websocket rt prov =
     \<lparr>cb_descriptor = generated_descriptor CAPABILITY_ID_websocket_endpoint DESCRIPTOR_VERSION_websocket_endpoint
        [''connect_websocket'', ''describe_websocket''] [''connect_websocket''] [],
      cb_invokeRequest = (\<lambda>operation context payload. switch operation
        [(''describe_websocket'', request_arm rt (codec_websocket_endpoint rt ''describe_websocket'') (tp_request prov ''describe_websocket'') context payload)]
        (Runtime (unknown_operation operation))),
      cb_openStream = (\<lambda>operation context payload. switch operation
        [(''connect_websocket'', stream_arm rt (codec_websocket_endpoint rt ''connect_websocket'') (tp_stream prov ''connect_websocket'') context payload)]
        (OpenRuntime (unknown_operation operation))),
      cb_publishEvent = (\<lambda>operation context payload. switch operation [] (ActionRuntime (unknown_operation operation)))\<rparr>"

definition bindEndpointDependency_websocket :: "'v contract_runtime \<Rightarrow> ('v, 's) capability_dependency" where
  [catalogue_defs]: "bindEndpointDependency_websocket rt =
     \<lparr>cd_descriptor = generated_descriptor CAPABILITY_ID_websocket_endpoint DESCRIPTOR_VERSION_websocket_endpoint
        [''connect_websocket'', ''describe_websocket''] [''connect_websocket''] [],
      cd_createClient = (\<lambda>invoke.
        [(''connect_websocket'', StreamMethod (stream_method rt ''connect_websocket'' (codec_websocket_endpoint rt ''connect_websocket'') (di_openStream invoke))),
         (''describe_websocket'', RequestMethod (request_method rt ''describe_websocket'' (codec_websocket_endpoint rt ''describe_websocket'') (di_invoke invoke)))])\<rparr>"

definition contract_websocket_endpoint :: generated_contract where
  [catalogue_defs]: "contract_websocket_endpoint =
     \<lparr>gc_contract =
        \<lparr>contract_kind = ''lenso.capability'',
         contract_descriptor = generated_descriptor CAPABILITY_ID_websocket_endpoint DESCRIPTOR_VERSION_websocket_endpoint
        [''connect_websocket'', ''describe_websocket''] [''connect_websocket''] [],
         has_bindProvider = True\<rparr>,
      gc_capability_id = CAPABILITY_ID_websocket_endpoint, gc_descriptor_version = DESCRIPTOR_VERSION_websocket_endpoint,
      gc_descriptor_digest = DESCRIPTOR_DIGEST_websocket_endpoint, gc_generated_client = ''EndpointClient''\<rparr>"

interpretation websocket_endpoint: capability bindEndpointProvider_websocket bindEndpointDependency_websocket contract_websocket_endpoint codec_websocket_endpoint
    "generated_descriptor CAPABILITY_ID_websocket_endpoint DESCRIPTOR_VERSION_websocket_endpoint [''connect_websocket'', ''describe_websocket''] [''connect_websocket''] []"
  by unfold_locales (simp_all add: catalogue_defs catalogue_simps codecs_def)

end
