(* ===== verification/Capability_Catalogue.thy ===== *)
theory Capability_Catalogue
  imports Catalogue_Auth Catalogue_Agent Catalogue_Services
begin

text \<open>
  The catalogue of the generated Capability bindings, and what the two sides of a generated file
  make of each other: the client of \<open>bindDependency\<close> over the binding of \<open>bindProvider\<close>. The laws are
  proved once for the locale \<open>capability\<close>; every generated file is an instance of it.
\<close>

section \<open>The catalogue\<close>

record ('v, 's) catalogue_entry =
  ce_provider :: "'v contract_runtime \<Rightarrow> ('v, 's) typed_provider \<Rightarrow> 's capability_binding"
  ce_dependency :: "'v contract_runtime \<Rightarrow> ('v, 's) capability_dependency"
  ce_contract :: generated_contract
  ce_codec :: "'v contract_runtime \<Rightarrow> string \<Rightarrow> 'v operation_codec"

definition capability_catalogue :: "('v, 's) catalogue_entry list" where
  "capability_catalogue =
     [\<lparr>ce_provider = bindAccountAdminProvider, ce_dependency = bindAccountAdminDependency,
       ce_contract = contract_account_admin, ce_codec = codec_account_admin\<rparr>,
      \<lparr>ce_provider = bindAnonymousProvider, ce_dependency = bindAnonymousDependency,
       ce_contract = contract_anonymous_auth, ce_codec = codec_anonymous_auth\<rparr>,
      \<lparr>ce_provider = bindAuthProvider, ce_dependency = bindAuthDependency,
       ce_contract = contract_auth, ce_codec = codec_auth\<rparr>,
      \<lparr>ce_provider = bindCredentialIssuerProvider, ce_dependency = bindCredentialIssuerDependency,
       ce_contract = contract_credential_issuer, ce_codec = codec_credential_issuer\<rparr>,
      \<lparr>ce_provider = bindDeviceProvider, ce_dependency = bindDeviceDependency,
       ce_contract = contract_device_auth, ce_codec = codec_device_auth\<rparr>,
      \<lparr>ce_provider = bindFederatedProvider, ce_dependency = bindFederatedDependency,
       ce_contract = contract_federated_auth, ce_codec = codec_federated_auth\<rparr>,
      \<lparr>ce_provider = bindDirectoryProvider, ce_dependency = bindDirectoryDependency,
       ce_contract = contract_identity_directory, ce_codec = codec_identity_directory\<rparr>,
      \<lparr>ce_provider = bindOauthFlowProvider, ce_dependency = bindOauthFlowDependency,
       ce_contract = contract_oauth_flow, ce_codec = codec_oauth_flow\<rparr>,
      \<lparr>ce_provider = bindOidcProviderProvider, ce_dependency = bindOidcProviderDependency,
       ce_contract = contract_oidc_provider, ce_codec = codec_oidc_provider\<rparr>,
      \<lparr>ce_provider = bindPasswordProvider, ce_dependency = bindPasswordDependency,
       ce_contract = contract_password_auth, ce_codec = codec_password_auth\<rparr>,
      \<lparr>ce_provider = bindPhoneProvider, ce_dependency = bindPhoneDependency,
       ce_contract = contract_phone_auth, ce_codec = codec_phone_auth\<rparr>,
      \<lparr>ce_provider = bindOpenaiCodexProvider, ce_dependency = bindOpenaiCodexDependency,
       ce_contract = contract_agent_auth_openai_codex, ce_codec = codec_agent_auth_openai_codex\<rparr>,
      \<lparr>ce_provider = bindModelProvider, ce_dependency = bindModelDependency,
       ce_contract = contract_agent_model, ce_codec = codec_agent_model\<rparr>,
      \<lparr>ce_provider = bindPromptProviderProvider, ce_dependency = bindPromptProviderDependency,
       ce_contract = contract_agent_prompt_provider, ce_codec = codec_agent_prompt_provider\<rparr>,
      \<lparr>ce_provider = bindPromptProvider, ce_dependency = bindPromptDependency,
       ce_contract = contract_agent_prompt, ce_codec = codec_agent_prompt\<rparr>,
      \<lparr>ce_provider = bindSessionProvider, ce_dependency = bindSessionDependency,
       ce_contract = contract_agent_session, ce_codec = codec_agent_session\<rparr>,
      \<lparr>ce_provider = bindToolProviderProvider, ce_dependency = bindToolProviderDependency,
       ce_contract = contract_agent_tool_provider, ce_codec = codec_agent_tool_provider\<rparr>,
      \<lparr>ce_provider = bindToolsProvider, ce_dependency = bindToolsDependency,
       ce_contract = contract_agent_tools, ce_codec = codec_agent_tools\<rparr>,
      \<lparr>ce_provider = bindAgentProvider, ce_dependency = bindAgentDependency,
       ce_contract = contract_agent, ce_codec = codec_agent\<rparr>,
      \<lparr>ce_provider = bindClientProvider, ce_dependency = bindClientDependency,
       ce_contract = contract_http_client, ce_codec = codec_http_client\<rparr>,
      \<lparr>ce_provider = bindEndpointProvider_http, ce_dependency = bindEndpointDependency_http,
       ce_contract = contract_http_endpoint, ce_codec = codec_http_endpoint\<rparr>,
      \<lparr>ce_provider = bindJobsProvider, ce_dependency = bindJobsDependency,
       ce_contract = contract_jobs, ce_codec = codec_jobs\<rparr>,
      \<lparr>ce_provider = bindSecretsProvider, ce_dependency = bindSecretsDependency,
       ce_contract = contract_secrets, ce_codec = codec_secrets\<rparr>,
      \<lparr>ce_provider = bindSmsProvider, ce_dependency = bindSmsDependency,
       ce_contract = contract_sms_delivery, ce_codec = codec_sms_delivery\<rparr>,
      \<lparr>ce_provider = bindEndpointProvider_websocket, ce_dependency = bindEndpointDependency_websocket,
       ce_contract = contract_websocket_endpoint, ce_codec = codec_websocket_endpoint\<rparr>]"

definition entry_descriptor :: "('v, 's) catalogue_entry \<Rightarrow> provider_descriptor" where
  "entry_descriptor e = contract_descriptor (gc_contract (ce_contract e))"

definition generated_entry :: "('v, 's) catalogue_entry \<Rightarrow> bool" where
  "generated_entry e \<longleftrightarrow>
     capability (ce_provider e) (ce_dependency e) (ce_contract e) (ce_codec e) (entry_descriptor e)"

lemma catalogue_list_all: "list_all generated_entry (capability_catalogue :: ('v, 's) catalogue_entry list)"
  unfolding capability_catalogue_def generated_entry_def entry_descriptor_def
  by (simp add: account_admin.capability_axioms [folded account_admin.descriptors(1)]
    anonymous_auth.capability_axioms [folded anonymous_auth.descriptors(1)]
    auth.capability_axioms [folded auth.descriptors(1)]
    credential_issuer.capability_axioms [folded credential_issuer.descriptors(1)]
    device_auth.capability_axioms [folded device_auth.descriptors(1)]
    federated_auth.capability_axioms [folded federated_auth.descriptors(1)]
    identity_directory.capability_axioms [folded identity_directory.descriptors(1)]
    oauth_flow.capability_axioms [folded oauth_flow.descriptors(1)]
    oidc_provider.capability_axioms [folded oidc_provider.descriptors(1)]
    password_auth.capability_axioms [folded password_auth.descriptors(1)]
    phone_auth.capability_axioms [folded phone_auth.descriptors(1)]
    agent_auth_openai_codex.capability_axioms [folded agent_auth_openai_codex.descriptors(1)]
    agent_model.capability_axioms [folded agent_model.descriptors(1)]
    agent_prompt_provider.capability_axioms [folded agent_prompt_provider.descriptors(1)]
    agent_prompt.capability_axioms [folded agent_prompt.descriptors(1)]
    agent_session.capability_axioms [folded agent_session.descriptors(1)]
    agent_tool_provider.capability_axioms [folded agent_tool_provider.descriptors(1)]
    agent_tools.capability_axioms [folded agent_tools.descriptors(1)]
    agent.capability_axioms [folded agent.descriptors(1)]
    http_client.capability_axioms [folded http_client.descriptors(1)]
    http_endpoint.capability_axioms [folded http_endpoint.descriptors(1)]
    jobs.capability_axioms [folded jobs.descriptors(1)]
    secrets.capability_axioms [folded secrets.descriptors(1)]
    sms_delivery.capability_axioms [folded sms_delivery.descriptors(1)]
    websocket_endpoint.capability_axioms [folded websocket_endpoint.descriptors(1)])

lemma catalogue_generated: "e \<in> set capability_catalogue \<Longrightarrow> generated_entry e"
  using catalogue_list_all by (auto simp: list_all_iff)

lemmas catalogue_capability = catalogue_generated [unfolded generated_entry_def]

section \<open>Portable values\<close>

text \<open>
  What the bindings need of \<open>@lenso/contract-runtime\<close>: a value of a contract type has one JSON form,
  whatever label the encoder is given, and both the encoder and the decoder bring that form back to
  the value. For a Domain error the decoder is the one of the operation, which knows the declared codes.
\<close>

definition portable :: "'v contract_runtime \<Rightarrow> 'v \<Rightarrow> bool" where
  "portable rt v \<longleftrightarrow>
     (\<exists>j. (\<forall>label. encoded_json rt (encodePortableJson rt v label) = Inr j \<and> decoded_payload rt (decodePortableJson rt) label j = Inr v) \<and>
          decodePortableJson rt (stringify j) = Inr v)"

definition portable_domain :: "'v contract_runtime \<Rightarrow> 'v operation_codec \<Rightarrow> 'v \<Rightarrow> bool" where
  "portable_domain rt c v \<longleftrightarrow>
     (\<exists>j. encoded_json rt (oc_encodeError c v) = Inr j \<and> oc_decodeError c (stringify j) = Inr v)"

fun portable_result :: "'v contract_runtime \<Rightarrow> 'v operation_codec \<Rightarrow> 'v invocation_result \<Rightarrow> bool" where
  "portable_result rt c (ResultOk v) = portable rt v"
| "portable_result rt c (ResultDomain v) = portable_domain rt c v"
| "portable_result rt c (ResultRuntime f) = True"

fun portable_provided :: "'v contract_runtime \<Rightarrow> 'v operation_codec \<Rightarrow> ('v, 's) provided \<Rightarrow> bool" where
  "portable_provided rt c (ProvidedDomain v) = portable_domain rt c v"
| "portable_provided rt c _ = True"

fun portable_signal :: "'v contract_runtime \<Rightarrow> 'v operation_codec \<Rightarrow> 'v stream_signal \<Rightarrow> bool" where
  "portable_signal rt c (SignalMessage v) = portable rt v"
| "portable_signal rt c (SignalEnd (Some v)) = portable_domain rt c v"
| "portable_signal rt c _ = True"

lemma portableE:
  assumes "portable rt v"
  obtains j where "\<And>label. encoded_json rt (encodePortableJson rt v label) = Inr j"
    "\<And>label. decoded_payload rt (decodePortableJson rt) label j = Inr v" "decodePortableJson rt (stringify j) = Inr v"
  using assms unfolding portable_def by blast

lemma portable_domainE:
  assumes "portable_domain rt c v"
  obtains j where "encoded_json rt (oc_encodeError c v) = Inr j" "oc_decodeError c (stringify j) = Inr v"
  using assms unfolding portable_domain_def by blast

text \<open>A client that calls a Provider binding directly: what a Host does with values carried unchanged.\<close>

definition loopback :: "'s capability_binding \<Rightarrow> 's dependency_invoker" where
  "loopback b = \<lparr>di_invoke = (\<lambda>operation context payload. Inr (cb_invokeRequest b operation context payload)),
     di_openStream = (\<lambda>operation context payload. Inr (cb_openStream b operation context payload))\<rparr>"

text \<open>What the caller of a Provider's method is owed.\<close>

fun promised_result :: "thrown + 'v invocation_result \<Rightarrow> 'v invocation_result" where
  "promised_result (Inl e) = ResultRuntime (failure_of ''plugin_failure'' e)"
| "promised_result (Inr r) = r"

fun promised_stream :: "thrown + ('v, 's) provided \<Rightarrow> ('v, 's) stream_opening" where
  "promised_stream (Inl e) = StreamRuntime (failure_of ''plugin_failure'' e)"
| "promised_stream (Inr (ProvidedIterable s)) = StreamReady (IterableStream s)"
| "promised_stream (Inr (ProvidedStream s)) = StreamReady s"
| "promised_stream (Inr (ProvidedDomain v)) = StreamDomain v"
| "promised_stream (Inr (ProvidedRuntime f)) = StreamRuntime f"

section \<open>Arms and methods\<close>

lemma try_catch_simps [simp]: "try_catch (Inl e) h = h e" "try_catch (Inr a) h = a"
  by (simp_all add: try_catch_def)

lemma request_method_arm:
  assumes "c \<in> range (generated_codec rt)" "portable rt request"
    and "\<And>r. meth (call_context context) request = Inr r \<Longrightarrow> portable_result rt c r"
  shows "request_method rt oper c (\<lambda>_ ctx p. Inr (request_arm rt c meth ctx p)) request context =
    promised_result (meth (call_context context) request)"
proof (cases "meth (call_context context) request")
  case (Inl e)
  then show ?thesis using assms(1,2)
    by (auto elim!: portableE simp: request_method_def request_arm_def generated_codec_def)
next
  case (Inr r)
  then have "portable_result rt c r" using assms(3) by simp
  then show ?thesis using assms(1,2) Inr
    by (cases r) (auto elim!: portableE portable_domainE
        simp: request_method_def request_arm_def generated_codec_def)
qed

lemma stream_method_arm:
  assumes "c \<in> range (generated_codec rt)" "portable rt request"
    and "\<And>r. meth (call_context context) request = Inr r \<Longrightarrow> portable_provided rt c r"
  shows "stream_method rt oper c (\<lambda>_ ctx p. Inr (stream_arm rt c meth ctx p)) request context =
    promised_stream (meth (call_context context) request)"
proof (cases "meth (call_context context) request")
  case (Inl e)
  then show ?thesis using assms(1,2)
    by (auto elim!: portableE simp: stream_method_def stream_arm_def generated_codec_def)
next
  case (Inr r)
  then have "portable_provided rt c r" using assms(3) by simp
  then show ?thesis using assms(1,2) Inr
    by (cases r) (auto elim!: portableE portable_domainE simp: stream_method_def stream_arm_def generated_codec_def)
qed

lemma request_arm_cases:
  "request_arm rt c meth context payload =
     (case decoded_payload rt (oc_decodeRequest c) ''request'' payload of
        Inl e \<Rightarrow> Runtime (failure_of ''protocol_violation'' e)
      | Inr request \<Rightarrow>
          (case meth context request of
             Inl e \<Rightarrow> Runtime (failure_of ''plugin_failure'' e)
           | Inr (ResultOk v) \<Rightarrow>
               (case encoded_json rt (oc_encodeResponse c v) of
                  Inl e \<Rightarrow> Runtime (failure_of ''plugin_failure'' e) | Inr j \<Rightarrow> Success j)
           | Inr (ResultDomain v) \<Rightarrow>
               (case encoded_json rt (oc_encodeError c v) of
                  Inl e \<Rightarrow> Runtime (failure_of ''plugin_failure'' e) | Inr j \<Rightarrow> Domain j)
           | Inr (ResultRuntime f) \<Rightarrow> Runtime f))"
  by (auto simp: request_arm_def split: sum.split invocation_result.split)

section \<open>Client over Provider\<close>

context capability
begin

lemma invoke_loopback:
  assumes "oper \<in> set (request_operations descriptor)" "portable rt request"
    and "\<And>r. tp_request prov oper (call_context context) request = Inr r \<Longrightarrow> portable_result rt (codec rt oper) r"
  shows "\<exists>m. map_of (cd_createClient (bind_dependency rt) (loopback (bind_provider rt prov))) oper = Some (RequestMethod m) \<and>
    m request context = promised_result (tp_request prov oper (call_context context) request)"
proof -
  have "request_method rt oper (codec rt oper) (di_invoke (loopback (bind_provider rt prov))) request context =
      request_method rt oper (codec rt oper) (\<lambda>_ c p. Inr (request_arm rt (codec rt oper) (tp_request prov oper) c p)) request context"
    using assms(1) by (simp add: request_method_def loopback_def invokes split: sum.split)
  then show ?thesis
    using request_method_arm [OF codec assms(2), of "tp_request prov oper" "context" oper] assms(1,3)
    by (simp add: client)
qed

lemma open_loopback:
  assumes "oper \<in> set (stream_operations descriptor)" "portable rt request"
    and "\<And>r. tp_stream prov oper (call_context context) request = Inr r \<Longrightarrow> portable_provided rt (codec rt oper) r"
  shows "\<exists>m. map_of (cd_createClient (bind_dependency rt) (loopback (bind_provider rt prov))) oper = Some (StreamMethod m) \<and>
    m request context = promised_stream (tp_stream prov oper (call_context context) request)"
proof -
  have "oper \<notin> set (request_operations descriptor)" using assms(1) by (simp add: request_operations_def)
  moreover have "stream_method rt oper (codec rt oper) (di_openStream (loopback (bind_provider rt prov))) request context =
      stream_method rt oper (codec rt oper) (\<lambda>_ c p. Inr (stream_arm rt (codec rt oper) (tp_stream prov oper) c p)) request context"
    using assms(1) by (simp add: stream_method_def loopback_def opens split: sum.split)
  ultimately show ?thesis
    using stream_method_arm [OF codec assms(2), of "tp_stream prov oper" "context" oper] assms(1,3)
    by (simp add: client)
qed

end

end
