(* ===== verification/Catalogue_Results.thy ===== *)
theory Catalogue_Results
  imports Capability_Catalogue
begin

text \<open>
  Properties of the generated Capability bindings: a client over a Provider gives what the Provider
  gave, for requests, for stream sessions and for iterables, and the outcome of every dispatch.
\<close>

section \<open>A concrete contract runtime\<close>

text \<open>
  JSON documents as contract values: the encoder prints the values that can be read back and refuses
  the others, the decoder parses.
\<close>

definition document_runtime :: "json contract_runtime" where
  "document_runtime =
     \<lparr>encodePortableJson = (\<lambda>v label. if wire v then Inr (stringify v) else Inl (ErrorObject (label @ '' is not portable''))),
      decodePortableJson = (\<lambda>t. case JSON_parse Fin t of None \<Rightarrow> Inl (ErrorObject ''SyntaxError'') | Some v \<Rightarrow> Inr v),
      decodeDomainError = (\<lambda>t codes. case JSON_parse Fin t of None \<Rightarrow> Inl (ErrorObject ''SyntaxError'') | Some v \<Rightarrow> Inr v),
      json_value = (\<lambda>v. v), round_decimal = Fin\<rparr>"

lemma document_parse: "wire v \<Longrightarrow> JSON_parse Fin (stringify v) = Some v"
  by (rule parse_stringify) (simp_all add: exact_on_integers_def)

lemma document_portable:
  assumes "wire v"
  shows "portable document_runtime v" "portable_domain document_runtime (codecs document_runtime table oper) v"
  unfolding portable_def portable_domain_def codecs_def generated_codec_def
  using assms document_parse [OF assms]
  by (auto intro!: exI [of _ v] simp: document_runtime_def encoded_json_def parse_text_def decoded_payload_def)

lemma catalogue_codec:
  assumes "e \<in> set (capability_catalogue :: ('v, 's) catalogue_entry list)"
  shows "ce_codec e rt oper \<in> range (generated_codec rt)"
  by (rule capability.codec [OF catalogue_capability [OF assms]])

section \<open>Requests\<close>

text \<open>C19. For every generated file, every request operation of its descriptor, and every Provider:
  the client of the dependency binding, called over the Provider binding with a portable request,
  returns exactly what the Provider's method returned for that request, a value, a Domain error or a
  runtime failure, and a plugin failure with the error's text when the method threw.\<close>

theorem binding_roundtrip:
  assumes "e \<in> set (capability_catalogue :: ('v, 's) catalogue_entry list)"
    and "oper \<in> set (request_operations (entry_descriptor e))" "portable rt request"
    and "\<And>r. tp_request prov oper (call_context context) request = Inr r \<Longrightarrow>
      portable_result rt (ce_codec e rt oper) r"
  shows "\<exists>m. map_of (cd_createClient (ce_dependency e rt) (loopback (ce_provider e rt prov))) oper = Some (RequestMethod m) \<and>
    m request context = promised_result (tp_request prov oper (call_context context) request)"
  by (rule capability.invoke_loopback [OF catalogue_capability [OF assms(1)] assms(2-4)])

definition echo_provider :: "(json, string) typed_provider" where
  "echo_provider =
     \<lparr>tp_request = (\<lambda>oper context request. if oper = ''claim'' then Inr (ResultOk (JObj [(''of'', request)])) else Inl (ErrorObject oper)),
      tp_stream = (\<lambda>oper context request. Inr (ProvidedIterable oper))\<rparr>"

definition jobs_entry :: "(json, string) catalogue_entry" where
  "jobs_entry = \<lparr>ce_provider = bindJobsProvider, ce_dependency = bindJobsDependency,
     ce_contract = contract_jobs, ce_codec = codec_jobs\<rparr>"

lemma jobs_entry_catalogued: "jobs_entry \<in> set capability_catalogue"
  by (simp add: jobs_entry_def capability_catalogue_def)

lemma jobs_operations: "set (request_operations (entry_descriptor jobs_entry)) = set (operations (entry_descriptor jobs_entry))"
  "''claim'' \<in> set (operations (entry_descriptor jobs_entry))"
  by (simp_all add: entry_descriptor_def jobs_entry_def catalogue_defs catalogue_simps)

theorem binding_roundtrip_witness:
  "\<exists>m. map_of (cd_createClient (bindJobsDependency document_runtime)
       (loopback (bindJobsProvider document_runtime echo_provider))) ''claim'' = Some (RequestMethod m) \<and>
     m (JStr ''worker'') None = ResultOk (JObj [(''of'', JStr ''worker'')])"
proof -
  have portable: "portable document_runtime (JStr ''worker'')" "portable document_runtime (JObj [(''of'', JStr ''worker'')])"
    by (rule document_portable; simp add: fromEntries_def array_index_def)+
  have "promised_result (tp_request echo_provider ''claim'' (call_context None) (JStr ''worker'')) =
      ResultOk (JObj [(''of'', JStr ''worker'')])"
    by (simp add: echo_provider_def)
  then show ?thesis
    using binding_roundtrip [OF jobs_entry_catalogued, of "''claim''" document_runtime "JStr ''worker''" echo_provider None]
      portable jobs_operations
    by (simp add: jobs_entry_def echo_provider_def)
qed

lemma request_arm_Success:
  "request_arm rt c meth context payload = Success j \<longleftrightarrow>
   (\<exists>request v. decoded_payload rt (oc_decodeRequest c) ''request'' payload = Inr request \<and> meth context request = Inr (ResultOk v) \<and>
      encoded_json rt (oc_encodeResponse c v) = Inr j)"
  unfolding request_arm_cases by (auto split: sum.splits invocation_result.splits)

lemma request_arm_Domain:
  "request_arm rt c meth context payload = Domain j \<longleftrightarrow>
   (\<exists>request v. decoded_payload rt (oc_decodeRequest c) ''request'' payload = Inr request \<and> meth context request = Inr (ResultDomain v) \<and>
      encoded_json rt (oc_encodeError c v) = Inr j)"
  unfolding request_arm_cases by (auto split: sum.splits invocation_result.splits)

text \<open>The errors that count as a failure of the Plugin: the method throws, or its result cannot be encoded.\<close>

definition method_fails :: "'v contract_runtime \<Rightarrow> 'v operation_codec \<Rightarrow> thrown + 'v invocation_result \<Rightarrow> thrown \<Rightarrow> bool" where
  "method_fails rt c res err \<longleftrightarrow>
     res = Inl err \<or>
     (\<exists>v. res = Inr (ResultOk v) \<and> encoded_json rt (oc_encodeResponse c v) = Inl err) \<or>
     (\<exists>v. res = Inr (ResultDomain v) \<and> encoded_json rt (oc_encodeError c v) = Inl err)"

lemma request_arm_Runtime:
  "request_arm rt c meth context payload = Runtime f \<longleftrightarrow>
   (\<exists>err. decoded_payload rt (oc_decodeRequest c) ''request'' payload = Inl err \<and> f = failure_of ''protocol_violation'' err) \<or>
   (\<exists>request. decoded_payload rt (oc_decodeRequest c) ''request'' payload = Inr request \<and>
      (meth context request = Inr (ResultRuntime f) \<or>
       (\<exists>err. method_fails rt c (meth context request) err \<and> f = failure_of ''plugin_failure'' err)))"
  unfolding request_arm_cases method_fails_def by (auto split: sum.splits invocation_result.splits)

text \<open>C22. The outcome of a request to a generated Provider binding, on every branch: a success or a
  Domain error exactly when the payload decodes, the method returned it and it encodes; a runtime
  failure exactly for an operation that is not a request operation of the descriptor, for a payload
  that does not decode (the Provider is then not called), for a runtime failure of the method, and,
  as a plugin failure, when the method throws or its result cannot be encoded. Events are refused. On
  the client side, a request that cannot be encoded is refused without a call, whoever is called,
  and an error of the call is a plugin failure.\<close>

theorem binding_outcomes:
  assumes "e \<in> set (capability_catalogue :: ('v, 's) catalogue_entry list)"
  shows "let ops = set (request_operations (entry_descriptor e)); binding = ce_provider e rt prov in
    (\<forall>oper context payload j. cb_invokeRequest binding oper context payload = Success j \<longleftrightarrow>
       oper \<in> ops \<and> (\<exists>request v. decoded_payload rt (oc_decodeRequest (ce_codec e rt oper)) ''request'' payload = Inr request \<and>
         tp_request prov oper context request = Inr (ResultOk v) \<and> encoded_json rt (oc_encodeResponse (ce_codec e rt oper) v) = Inr j)) \<and>
    (\<forall>oper context payload j. cb_invokeRequest binding oper context payload = Domain j \<longleftrightarrow>
       oper \<in> ops \<and> (\<exists>request v. decoded_payload rt (oc_decodeRequest (ce_codec e rt oper)) ''request'' payload = Inr request \<and>
         tp_request prov oper context request = Inr (ResultDomain v) \<and> encoded_json rt (oc_encodeError (ce_codec e rt oper) v) = Inr j)) \<and>
    (\<forall>oper context payload f. cb_invokeRequest binding oper context payload = Runtime f \<longleftrightarrow>
       (oper \<notin> ops \<and> f = unknown_operation oper) \<or>
       (oper \<in> ops \<and> (\<exists>err. decoded_payload rt (oc_decodeRequest (ce_codec e rt oper)) ''request'' payload = Inl err \<and> f = failure_of ''protocol_violation'' err)) \<or>
       (oper \<in> ops \<and> (\<exists>request. decoded_payload rt (oc_decodeRequest (ce_codec e rt oper)) ''request'' payload = Inr request \<and>
         (tp_request prov oper context request = Inr (ResultRuntime f) \<or>
          (\<exists>err. method_fails rt (ce_codec e rt oper) (tp_request prov oper context request) err \<and> f = failure_of ''plugin_failure'' err))))) \<and>
    (\<forall>oper context payload. cb_publishEvent binding oper context payload = ActionRuntime (unknown_operation oper)) \<and>
    (\<forall>oper invoke m request context err. map_of (cd_createClient (ce_dependency e rt) invoke) oper = Some (RequestMethod m) \<longrightarrow>
       (encoded_json rt (oc_encodeRequest (ce_codec e rt oper) request) = Inl err \<longrightarrow>
          m request context = ResultRuntime (failure_of ''protocol_violation'' err)) \<and>
       (\<forall>payload. encoded_json rt (oc_encodeRequest (ce_codec e rt oper) request) = Inr payload \<and>
          di_invoke invoke oper (call_context context) payload = Inl err \<longrightarrow>
          m request context = ResultRuntime (failure_of ''plugin_failure'' err)))"
proof -
  note entry = catalogue_capability [OF assms]
  show ?thesis
    unfolding Let_def capability.invokes [OF entry] capability.publishes(1) [OF entry] capability.client [OF entry]
    by (auto simp: request_arm_Success request_arm_Domain request_arm_Runtime request_method_def split: if_splits)
qed

theorem binding_outcomes_witness:
  "cb_invokeRequest (bindJobsProvider document_runtime echo_provider) ''renew'' JNull JNull =
     Runtime (failure_of ''plugin_failure'' (ErrorObject ''renew'')) \<and>
   cb_invokeRequest (bindJobsProvider document_runtime echo_provider) ''toString'' JNull JNull =
     Runtime (unknown_operation ''toString'')"
proof -
  have "decoded_payload document_runtime (oc_decodeRequest (codec_jobs document_runtime oper)) ''request'' JNull = Inr JNull" for oper
    using document_parse [of JNull] by (simp add: decoded_payload_def document_runtime_def codec_jobs_def codecs_def generated_codec_def)
  moreover have "tp_request echo_provider ''renew'' JNull JNull = Inl (ErrorObject ''renew'')"
    by (simp add: echo_provider_def)
  moreover have "''renew'' \<in> set (request_operations (entry_descriptor jobs_entry))"
    "''toString'' \<notin> set (request_operations (entry_descriptor jobs_entry))"
    by (simp_all add: entry_descriptor_def jobs_entry_def catalogue_defs catalogue_simps)
  ultimately show ?thesis
    using binding_outcomes [OF jobs_entry_catalogued, of document_runtime echo_provider]
    by (simp add: Let_def method_fails_def jobs_entry_def [symmetric]) (simp add: jobs_entry_def)
qed

section \<open>Stream sessions\<close>

text \<open>The failure a client is given for an error of the Provider's own stream.\<close>

definition plugin_error :: "thrown \<Rightarrow> dependency_error" where
  "plugin_error e = DependencyRuntimeError (failure_of ''plugin_failure'' e)"

lemma session_receive:
  assumes "c \<in> range (generated_codec rt)" "\<And>signal. res = Inr signal \<Longrightarrow> portable_signal rt c signal"
  shows "client_receive c (Inr (provider_receive rt c res)) =
    (case res of Inl e \<Rightarrow> Inl (plugin_error e) | Inr signal \<Rightarrow> Inr signal)"
proof (cases res)
  case (Inl e)
  then show ?thesis by (simp add: client_receive_def provider_receive_def plugin_error_def)
next
  case (Inr signal)
  then have "portable_signal rt c signal" using assms(2) by simp
  then show ?thesis using Inr assms(1)
    by (cases "(rt, c, signal)" rule: portable_signal.cases)
      (auto elim!: portableE portable_domainE simp: client_receive_def provider_receive_def generated_codec_def)
qed

lemma session_send:
  assumes "c \<in> range (generated_codec rt)" "portable rt v"
  shows "client_send rt c (\<lambda>j. Inr (provider_send rt c (SessionStream s) settle j)) v =
    (case settle v of None \<Rightarrow> Inr () | Some e \<Rightarrow> Inl (plugin_error e))"
  using assms
  by (auto elim!: portableE simp: client_send_def provider_send_def plugin_error_def generated_codec_def split: option.split)

lemma session_closeSend:
  "client_closeSend (Inr (provider_closeSend (SessionStream s) res)) =
    (case res of None \<Rightarrow> Inr () | Some e \<Rightarrow> Inl (plugin_error e))"
  by (simp add: client_closeSend_def provider_closeSend_def plugin_error_def split: option.split)

text \<open>C21. For every generated file and every stream operation of its descriptor, opening the stream
  through the client with a portable request gives what the Provider's method provided: its stream,
  its Domain error, its runtime failure, or a plugin failure when it threw. On a session that was
  opened so, the client's \<open>receive\<close>, \<open>send\<close> and \<open>closeSend\<close> give exactly what the operations of the
  Provider's session give for the same value; an error of the session reaches the client as an error
  that carries a plugin failure.\<close>

theorem stream_binding_roundtrip:
  assumes "e \<in> set (capability_catalogue :: ('v, 's) catalogue_entry list)"
    and "oper \<in> set (stream_operations (entry_descriptor e))" "portable rt request"
    and "\<And>r. tp_stream prov oper (call_context context) request = Inr r \<Longrightarrow>
      portable_provided rt (ce_codec e rt oper) r"
  shows "(\<exists>m. map_of (cd_createClient (ce_dependency e rt) (loopback (ce_provider e rt prov))) oper = Some (StreamMethod m) \<and>
      m request context = promised_stream (tp_stream prov oper (call_context context) request)) \<and>
    (\<forall>res. (\<forall>signal. res = Inr signal \<longrightarrow> portable_signal rt (ce_codec e rt oper) signal) \<longrightarrow>
      client_receive (ce_codec e rt oper) (Inr (provider_receive rt (ce_codec e rt oper) res)) =
        (case res of Inl e \<Rightarrow> Inl (plugin_error e) | Inr signal \<Rightarrow> Inr signal)) \<and>
    (\<forall>(s :: 's) settle v. portable rt v \<longrightarrow>
      client_send rt (ce_codec e rt oper) (\<lambda>j. Inr (provider_send rt (ce_codec e rt oper) (SessionStream s) settle j)) v =
        (case settle v of None \<Rightarrow> Inr () | Some e \<Rightarrow> Inl (plugin_error e))) \<and>
    (\<forall>(s :: 's) res. client_closeSend (Inr (provider_closeSend (SessionStream s) res)) =
        (case res of None \<Rightarrow> Inr () | Some e \<Rightarrow> Inl (plugin_error e)))"
proof -
  have "\<exists>m. map_of (cd_createClient (ce_dependency e rt) (loopback (ce_provider e rt prov))) oper = Some (StreamMethod m) \<and>
      m request context = promised_stream (tp_stream prov oper (call_context context) request)"
    by (rule capability.open_loopback [OF catalogue_capability [OF assms(1)] assms(2-4)])
  then show ?thesis using catalogue_codec [OF assms(1), of rt oper] by (simp add: session_receive session_send session_closeSend)
qed

definition websocket_entry :: "(json, string) catalogue_entry" where
  "websocket_entry = \<lparr>ce_provider = bindEndpointProvider_websocket, ce_dependency = bindEndpointDependency_websocket,
     ce_contract = contract_websocket_endpoint, ce_codec = codec_websocket_endpoint\<rparr>"

lemma websocket_entry_catalogued: "websocket_entry \<in> set capability_catalogue"
  by (simp add: websocket_entry_def capability_catalogue_def)

theorem stream_binding_roundtrip_witness:
  "(\<exists>m. map_of (cd_createClient (bindEndpointDependency_websocket document_runtime)
       (loopback (bindEndpointProvider_websocket document_runtime echo_provider))) ''connect_websocket'' = Some (StreamMethod m) \<and>
     m (JStr ''open'') None = StreamReady (IterableStream ''connect_websocket'')) \<and>
   client_receive (codec_websocket_endpoint document_runtime ''connect_websocket'')
     (Inr (provider_receive document_runtime (codec_websocket_endpoint document_runtime ''connect_websocket'') (Inr (SignalEnd (Some (JStr ''rejected'')))))) = Inr (SignalEnd (Some (JStr ''rejected'')))"
proof -
  have "portable document_runtime (JStr ''open'')"
    "portable_domain document_runtime (codec_websocket_endpoint document_runtime ''connect_websocket'') (JStr ''rejected'')"
    unfolding codec_websocket_endpoint_def by (simp_all add: document_portable)
  moreover have "''connect_websocket'' \<in> set (stream_operations (entry_descriptor websocket_entry))"
    by (simp add: entry_descriptor_def websocket_entry_def catalogue_defs catalogue_simps)
  ultimately show ?thesis
    using stream_binding_roundtrip [OF websocket_entry_catalogued, of "''connect_websocket''" document_runtime "JStr ''open''"
        echo_provider None]
    by (simp add: websocket_entry_def echo_provider_def)
qed

section \<open>Iterables\<close>

text \<open>
  The calls a client makes on the stream of a Provider that gave an iterable, run through the client
  adapter, the Provider's session binding and \<open>lowerProviderStream\<close>.
\<close>

datatype 'v stream_call = CallReceive | CallSend 'v | CallCloseSend | CallCancel

datatype 'v call_answer = Signalled "dependency_error + 'v stream_signal" | Acted "dependency_error + unit" | Stopped

fun iterable_call ::
  "'v contract_runtime \<Rightarrow> 'v operation_codec \<Rightarrow> 'v stream_call \<Rightarrow> 'v lowered_iterator \<Rightarrow> 'v call_answer \<times> 'v lowered_iterator" where
  "iterable_call rt codec CallReceive it =
     (Signalled (client_receive codec (Inr (provider_receive rt codec (fst (lowered_receive it))))), snd (lowered_receive it))"
| "iterable_call rt codec (CallSend v) it =
     (Acted (client_send rt codec (\<lambda>j. Inr (provider_send rt codec (IterableStream ()) (\<lambda>_. None) j)) v), it)"
| "iterable_call rt codec CallCloseSend it =
     (Acted (client_closeSend (Inr (provider_closeSend (IterableStream ()) None))), it)"
| "iterable_call rt codec CallCancel it = (Stopped, lowered_cancel it)"

fun iterable_calls ::
  "'v contract_runtime \<Rightarrow> 'v operation_codec \<Rightarrow> 'v stream_call list \<Rightarrow> 'v lowered_iterator \<Rightarrow> 'v call_answer list \<times> 'v lowered_iterator" where
  "iterable_calls rt codec [] it = ([], it)"
| "iterable_calls rt codec (c # cs) it =
     (fst (iterable_call rt codec c it) # fst (iterable_calls rt codec cs (snd (iterable_call rt codec c it))),
      snd (iterable_calls rt codec cs (snd (iterable_call rt codec c it))))"

text \<open>
  The specification: a queue of the items the iterable yields, then its end or the error it throws,
  which nothing but cancellation cuts short.
\<close>

record 'v output_queue =
  oq_items :: "'v list"
  oq_error :: "thrown option"
  oq_cancelled :: bool

fun queue_call :: "'v stream_call \<Rightarrow> 'v output_queue \<Rightarrow> 'v call_answer \<times> 'v output_queue" where
  "queue_call CallReceive q =
     (if oq_cancelled q then (Signalled (Inr (SignalEnd None)), q)
      else case oq_items q of
        v # vs \<Rightarrow> (Signalled (Inr (SignalMessage v)), q\<lparr>oq_items := vs\<rparr>)
      | [] \<Rightarrow>
          (case oq_error q of
             None \<Rightarrow> (Signalled (Inr (SignalEnd None)), q)
           | Some e \<Rightarrow> (Signalled (Inl (plugin_error e)), q\<lparr>oq_error := None\<rparr>)))"
| "queue_call (CallSend v) q =
     (Acted (Inl (DependencyRuntimeError (failure_of ''protocol_violation''
        (ErrorObject ''server-output stream does not accept inbound messages'')))), q)"
| "queue_call CallCloseSend q = (Acted (Inr ()), q)"
| "queue_call CallCancel q = (Stopped, q\<lparr>oq_cancelled := True\<rparr>)"

fun queue_calls :: "'v stream_call list \<Rightarrow> 'v output_queue \<Rightarrow> 'v call_answer list" where
  "queue_calls [] q = []"
| "queue_calls (c # cs) q = fst (queue_call c q) # queue_calls cs (snd (queue_call c q))"

text \<open>What the calls of \<open>next\<close> settle with: the items, then once the error if there is one, then the end.\<close>

definition yields :: "'v list \<Rightarrow> thrown option \<Rightarrow> nat \<Rightarrow> thrown + 'v option" where
  "yields items err n =
     (if n < length items then Inr (Some (items ! n))
      else case err of Some e \<Rightarrow> if n = length items then Inl e else Inr None | None \<Rightarrow> Inr None)"

definition lowered :: "'v list \<Rightarrow> thrown option \<Rightarrow> bool \<Rightarrow> 'v lowered_iterator" where
  "lowered items err has_return =
     \<lparr>li_next = yields items err, li_has_return = has_return, li_calls = 0, li_cancelled = False, li_returns = 0\<rparr>"

definition queue_of :: "'v list \<Rightarrow> thrown option \<Rightarrow> 'v lowered_iterator \<Rightarrow> 'v output_queue" where
  "queue_of items err it =
     \<lparr>oq_items = drop (li_calls it) items, oq_error = (if li_calls it \<le> length items then err else None),
      oq_cancelled = li_cancelled it\<rparr>"

lemma iterable_call_simulates:
  assumes "codec \<in> range (generated_codec rt)" "li_next it = yields items err" "\<And>v. v \<in> set items \<Longrightarrow> portable rt v" "\<And>v. c = CallSend v \<Longrightarrow> portable rt v"
  shows "fst (iterable_call rt codec c it) = fst (queue_call c (queue_of items err it)) \<and>
    queue_of items err (snd (iterable_call rt codec c it)) = snd (queue_call c (queue_of items err it)) \<and>
    li_next (snd (iterable_call rt codec c it)) = yields items err"
proof (cases c)
  case CallReceive
  have received: "client_receive codec (Inr (provider_receive rt codec (Inr (SignalMessage v)))) = Inr (SignalMessage v)"
    if "v \<in> set items" for v
    using session_receive [of codec rt "Inr (SignalMessage v)"] assms(1) assms(3) [OF that] by simp
  have ended: "client_receive codec (Inr (provider_receive rt codec (Inr (SignalEnd None)))) = Inr (SignalEnd None)"
    "client_receive codec (Inr (provider_receive rt codec (Inl e))) = Inl (plugin_error e)" for e
    using session_receive [of codec rt "Inr (SignalEnd None)"] session_receive [of codec rt "Inl e"] assms(1) by simp_all
  consider "li_calls it < length items" | "li_calls it = length items" | "li_calls it > length items" by linarith
  then show ?thesis
    using assms(2) CallReceive
    by cases (auto simp: lowered_receive_def iterator_receive_def queue_of_def yields_def received ended
        Cons_nth_drop_Suc [symmetric] split: option.split)
next
  case (CallSend v)
  then show ?thesis using assms
    by (auto elim!: portableE simp: client_send_def provider_send_def generated_codec_def failure_of_def)
qed (use assms(2) in \<open>auto simp: client_closeSend_def provider_closeSend_def lowered_cancel_def queue_of_def\<close>)

lemma iterable_calls_simulate:
  assumes "codec \<in> range (generated_codec rt)" "li_next it = yields items err" "\<And>v. v \<in> set items \<Longrightarrow> portable rt v"
    "\<And>v. CallSend v \<in> set calls \<Longrightarrow> portable rt v"
  shows "fst (iterable_calls rt codec calls it) = queue_calls calls (queue_of items err it)"
  using assms(2,4)
proof (induction calls arbitrary: it)
  case (Cons c cs)
  have "fst (iterable_call rt codec c it) = fst (queue_call c (queue_of items err it)) \<and>
    queue_of items err (snd (iterable_call rt codec c it)) = snd (queue_call c (queue_of items err it)) \<and>
    li_next (snd (iterable_call rt codec c it)) = yields items err"
    by (rule iterable_call_simulates) (use assms(1,3) Cons.prems in auto)
  then show ?case using Cons by simp
qed simp

lemma iterable_calls_counts:
  "li_calls (snd (iterable_calls rt codec calls it)) = li_calls it +
     (if li_cancelled it then 0 else length (filter ((=) CallReceive) (takeWhile ((\<noteq>) CallCancel) calls))) \<and>
   li_returns (snd (iterable_calls rt codec calls it)) = li_returns it +
     (if li_has_return it then length (filter ((=) CallCancel) calls) else 0)"
proof (induction calls arbitrary: it)
  case (Cons c cs)
  then show ?case by (cases c) (auto simp: lowered_receive_def lowered_cancel_def)
qed simp

text \<open>C20. A Provider that gives an iterable of portable items is a queue to the client: whatever calls
  the client makes in whatever order, \<open>receive\<close> gives the items in order, then the error of the
  iterable once as a plugin failure, then the end; after a cancellation it gives the end; \<open>send\<close> is
  refused as a protocol violation and \<open>closeSend\<close> is accepted, neither with an effect. The iterator is
  asked for one item per \<open>receive\<close> made before the first cancellation and never later, and it is told
  to return once per cancellation.\<close>

theorem iterable_refines_queue:
  assumes "e \<in> set (capability_catalogue :: ('v, 's) catalogue_entry list)" "codec = ce_codec e rt oper"
    and "\<And>v. v \<in> set items \<Longrightarrow> portable rt v" "\<And>v. CallSend v \<in> set calls \<Longrightarrow> portable rt v"
  shows "fst (iterable_calls rt codec calls (lowered items err has_return)) =
      queue_calls calls \<lparr>oq_items = items, oq_error = err, oq_cancelled = False\<rparr> \<and>
    li_calls (snd (iterable_calls rt codec calls (lowered items err has_return))) =
      length (filter ((=) CallReceive) (takeWhile ((\<noteq>) CallCancel) calls)) \<and>
    li_returns (snd (iterable_calls rt codec calls (lowered items err has_return))) =
      (if has_return then length (filter ((=) CallCancel) calls) else 0)"
  using catalogue_codec [OF assms(1), of rt oper] iterable_calls_simulate [of codec rt "lowered items err has_return" items err calls] assms
    iterable_calls_counts [of rt codec calls "lowered items err has_return"]
  by (simp add: lowered_def queue_of_def)

theorem iterable_refines_queue_witness:
  "fst (iterable_calls document_runtime (codec_websocket_endpoint document_runtime ''connect_websocket'') [CallReceive, CallSend (JBool True), CallReceive, CallReceive, CallReceive]
       (lowered [JStr ''a'', JNull] (Some (ErrorObject ''gone'')) True)) =
     [Signalled (Inr (SignalMessage (JStr ''a''))),
      Acted (Inl (DependencyRuntimeError (failure_of ''protocol_violation''
        (ErrorObject ''server-output stream does not accept inbound messages'')))),
      Signalled (Inr (SignalMessage JNull)), Signalled (Inl (plugin_error (ErrorObject ''gone''))),
      Signalled (Inr (SignalEnd None))]"
proof -
  have "portable document_runtime (JStr ''a'')" "portable document_runtime JNull" "portable document_runtime (JBool True)"
    by (rule document_portable(1), simp)+
  then show ?thesis
    using iterable_refines_queue [OF websocket_entry_catalogued, of _ document_runtime "''connect_websocket''" "[JStr ''a'', JNull]"
        "[CallReceive, CallSend (JBool True), CallReceive, CallReceive, CallReceive]" "Some (ErrorObject ''gone'')" True, OF refl]
    by (auto simp: websocket_entry_def)
qed

end
