(* ===== verification/Catalogue_Plugin.thy ===== *)
theory Catalogue_Plugin
  imports Catalogue_Results Authoring_Outcomes
begin

text \<open>
  Plugins made of generated contracts: what \<open>definePlugin\<close> makes of any selection of the catalogue, and
  what the session check of Authoring V2 compares for it.
\<close>

definition catalogue_contracts :: "generated_contract list" where
  "catalogue_contracts = map ce_contract (capability_catalogue :: (json, string) catalogue_entry list)"

definition catalogue_descriptor :: "nat \<Rightarrow> provider_descriptor" where
  "catalogue_descriptor i = contract_descriptor (gc_contract (catalogue_contracts ! i))"

text \<open>The session parameters with other digests in the requirements and the endpoints.\<close>

definition redigest ::
  "(required_declaration \<Rightarrow> string) \<Rightarrow> (provided_endpoint \<Rightarrow> string) \<Rightarrow> initialize_params \<Rightarrow> initialize_params" where
  "redigest f g initialize = initialize
     \<lparr>required_declarations := map (\<lambda>r. r\<lparr>rd_descriptor_digest := f r\<rparr>) (required_declarations initialize),
      provided_endpoints := map (\<lambda>p. p\<lparr>pe_descriptor_digest := g p\<rparr>) (provided_endpoints initialize)\<rparr>"

text \<open>
  The session check without the profile check of the protocol package, which it begins with: what
  \<open>validateDefinition\<close> itself compares.
\<close>

definition own_comparisons :: "authoring_protocol \<Rightarrow> plugin_definition \<Rightarrow> initialize_params \<Rightarrow> thrown + unit" where
  "own_comparisons proto = validateDefinition (proto\<lparr>validateInitializeForRuntimeProfile := \<lambda>_. None\<rparr>)"

lemma validateDefinition_own:
  "validateDefinition proto d initialize =
     (case validateInitializeForRuntimeProfile proto initialize of
        Some e \<Rightarrow> Inl e | None \<Rightarrow> own_comparisons proto d initialize)"
  by (simp add: own_comparisons_def validateDefinition_def split: option.split)

section \<open>The catalogue as contracts\<close>

lemma catalogue_contract_generated:
  assumes "i < length catalogue_contracts"
  shows "valid_descriptor (catalogue_descriptor i)" "descriptor_digest (catalogue_descriptor i) = None"
    "contract_kind (gc_contract (catalogue_contracts ! i)) = ''lenso.capability''"
    "has_bindProvider (gc_contract (catalogue_contracts ! i))"
proof -
  let ?e = "capability_catalogue ! i :: (json, string) catalogue_entry"
  have e: "?e \<in> set capability_catalogue" and c: "catalogue_contracts ! i = ce_contract ?e"
    using assms by (simp_all add: catalogue_contracts_def)
  have "list_all (\<lambda>e. descriptor_digest (entry_descriptor e) = None)
      (capability_catalogue :: (json, string) catalogue_entry list)"
    by (simp add: capability_catalogue_def entry_descriptor_def catalogue_defs generated_descriptor_def)
  then show "descriptor_digest (catalogue_descriptor i) = None"
    using e c by (auto simp: list_all_iff catalogue_descriptor_def entry_descriptor_def)
  note generated = capability.valid [OF catalogue_capability [OF e]]
  show "valid_descriptor (catalogue_descriptor i)"
    using generated(1) c by (simp add: validateDescriptor_Inr catalogue_descriptor_def entry_descriptor_def)
  show "contract_kind (gc_contract (catalogue_contracts ! i)) = ''lenso.capability''"
    "has_bindProvider (gc_contract (catalogue_contracts ! i))"
    using generated(2,3) c by simp_all
qed

lemma catalogue_ids_distinct: "distinct (map (\<lambda>c. capability_id (contract_descriptor (gc_contract c))) catalogue_contracts)"
  by (simp add: catalogue_contracts_def capability_catalogue_def catalogue_defs generated_descriptor_def)

lemma catalogue_selection_distinct:
  assumes "distinct sel" "\<And>i. i \<in> set sel \<Longrightarrow> i < length catalogue_contracts"
  shows "distinct (map (\<lambda>i. capability_id (catalogue_descriptor i)) sel)"
proof -
  have "inj_on (\<lambda>i. map (\<lambda>c. capability_id (contract_descriptor (gc_contract c))) catalogue_contracts ! i) (set sel)"
    by (rule inj_on_nth [OF catalogue_ids_distinct]) (simp add: assms(2))
  then have "inj_on (\<lambda>i. capability_id (catalogue_descriptor i)) (set sel)"
    by (rule inj_on_cong [THEN iffD1, rotated]) (simp add: assms(2) catalogue_descriptor_def)
  then show ?thesis using assms(1) by (simp add: distinct_map)
qed

section \<open>Digests in the session check\<close>

lemma find_map_comp: "find P (map h xs) = map_option h (find (\<lambda>x. P (h x)) xs)"
  by (induction xs) auto

lemma requirement_matches_redigest:
  assumes "\<And>kind ident d cardinality. raw = DependencyDeclaration kind ident d cardinality \<Longrightarrow> descriptor_digest d = None"
  shows "requirement_matches (redigest f g initialize) (name, raw) = requirement_matches initialize (name, raw)"
  using assms
  by (cases raw) (auto simp: requirement_matches_def redigest_def find_map_comp digest_matches_def split: option.split)

lemma endpoint_matches_digest:
  assumes "\<And>d. d \<in> set declared \<Longrightarrow> descriptor_digest d = None"
  shows "endpoint_matches declared (p\<lparr>pe_descriptor_digest := x\<rparr>) = endpoint_matches declared p"
proof (cases "find (\<lambda>d. capability_id d = pe_capability_id p) declared")
  case (Some d)
  then have "d \<in> set declared" by (auto simp: find_Some_iff)
  then show ?thesis using Some assms by (simp add: endpoint_matches_def digest_matches_def)
qed (simp add: endpoint_matches_def)

lemma own_comparisons_redigest:
  assumes "\<And>p. p \<in> set (def_providers d) \<Longrightarrow> descriptor_digest (provider_descriptor_of p) = None"
    and "\<And>name kind ident c cardinality. (name, DependencyDeclaration kind ident c cardinality) \<in> set (def_dependency_list d) \<Longrightarrow>
      descriptor_digest c = None"
  shows "own_comparisons proto d (redigest f g initialize) = own_comparisons proto d initialize"
proof -
  have "find (\<lambda>nr. \<not> requirement_matches (redigest f g initialize) nr) (def_dependency_list d) =
      find (\<lambda>nr. \<not> requirement_matches initialize nr) (def_dependency_list d)"
  proof (rule find_cong [OF refl])
    fix nr
    assume nr: "nr \<in> set (def_dependency_list d)"
    obtain name raw where split: "nr = (name, raw)" by fastforce
    show "(\<not> requirement_matches (redigest f g initialize) nr) = (\<not> requirement_matches initialize nr)"
      unfolding split using requirement_matches_redigest [of raw f g initialize name] assms(2) nr split by blast
  qed
  moreover have "find (\<lambda>p. \<not> endpoint_matches (map provider_descriptor_of (def_providers d)) p)
        (provided_endpoints (redigest f g initialize)) =
      map_option (\<lambda>p. p\<lparr>pe_descriptor_digest := g p\<rparr>)
        (find (\<lambda>p. \<not> endpoint_matches (map provider_descriptor_of (def_providers d)) p) (provided_endpoints initialize))"
  proof -
    have "endpoint_matches (map provider_descriptor_of (def_providers d)) (p\<lparr>pe_descriptor_digest := x\<rparr>) =
        endpoint_matches (map provider_descriptor_of (def_providers d)) p" for p x
      by (rule endpoint_matches_digest) (use assms(1) in auto)
    then show ?thesis by (simp add: redigest_def find_map_comp)
  qed
  moreover have "map rd_requirement_id (required_declarations (redigest f g initialize)) =
      map rd_requirement_id (required_declarations initialize)"
    "in_api_version (redigest f g initialize) = in_api_version initialize"
    "length (provided_endpoints (redigest f g initialize)) = length (provided_endpoints initialize)"
    by (simp_all add: redigest_def comp_def)
  ultimately show ?thesis
    unfolding own_comparisons_def validateDefinition_def Let_def
    by (cases "mapM declared_id (def_dependency_list d)") (simp_all split: option.split)
qed

section \<open>Plugins from the catalogue\<close>

text \<open>A dependency under a name: the contract at a place of the catalogue, its cardinality and identity.\<close>

type_synonym catalogue_choice = "string \<times> nat \<times> string \<times> string option"

fun chosen :: "catalogue_choice \<Rightarrow> string \<times> raw_dependency" where
  "chosen (name, i, cardinality, ident) = (name, declare_dependency (catalogue_contracts ! i) cardinality ident)"

fun valid_choice :: "catalogue_choice \<Rightarrow> bool" where
  "valid_choice (name, i, cardinality, ident) \<longleftrightarrow>
     name \<noteq> [] \<and> i < length catalogue_contracts \<and> cardinality \<in> {''one'', ''optional'', ''many''} \<and> ident \<noteq> Some []"

definition choice_id :: "catalogue_choice \<Rightarrow> string" where
  "choice_id c = (case c of (name, i, cardinality, ident) \<Rightarrow> dependency_id name ident)"

lemma choices_valid:
  assumes "\<forall>c \<in> set choices. valid_choice c"
  shows "\<forall>d \<in> set (map chosen choices). valid_dependency d" "declared_ids (map chosen choices) = map choice_id choices"
proof -
  show "\<forall>d \<in> set (map chosen choices). valid_dependency d"
    using assms catalogue_contract_generated(1)
    by (auto simp: declare_dependency_def catalogue_descriptor_def dependency_id_def split: option.split)
  show "declared_ids (map chosen choices) = map choice_id choices"
    by (induction choices rule: list.induct) (auto simp: declare_dependency_def choice_id_def)
qed

text \<open>C23. A Plugin that provides any selection of different contracts of the catalogue and depends
  on any contracts of it, under names and identities that are distinct and not empty, is accepted by
  \<open>definePlugin\<close>, with the descriptors of the contracts as its providers. The session check of
  Authoring V2 then compares no digest, because the generated descriptors carry none: for session
  parameters with any descriptor digests it throws what the profile check of the protocol package
  throws for them and otherwise answers as for any other digests. The profile check is code of that
  package; it is given the parameters with their digests, and nothing is assumed of it.\<close>

theorem catalogue_plugins:
  assumes "distinct sel" "\<forall>i \<in> set sel. i < length catalogue_contracts"
    and "\<forall>c \<in> set choices. valid_choice c" "distinct (map choice_id choices)"
    and "opts = \<lparr>provides = Some (map (\<lambda>i. gc_contract (catalogue_contracts ! i)) sel), providers = None,
      dependencies = Some (map chosen choices), config = None, configurationSchema = None,
      has_create = c, has_stop = s, maxConcurrentRequests = None\<rparr>"
  shows "\<exists>d. definePlugin opts = Inr d \<and> map provider_descriptor_of (def_providers d) = map catalogue_descriptor sel \<and>
    def_dependencies d = Some (map chosen choices) \<and>
    (\<forall>proto initialize f g.
       validateDefinition proto d (redigest f g initialize) =
         (case validateInitializeForRuntimeProfile proto (redigest f g initialize) of
            Some e \<Rightarrow> Inl e
          | None \<Rightarrow> own_comparisons proto d initialize))"
proof -
  let ?ps = "map (\<lambda>i. ProviderDeclaration (catalogue_descriptor i)) sel"
  let ?d = "\<lparr>def_providers = ?ps, def_dependencies = Some (map chosen choices), def_config = None,
     def_configurationSchema = None, def_create = c, def_stop = s, def_maxConcurrentRequests = 32\<rparr>"
  have "mapM bind_contract (map (\<lambda>i. gc_contract (catalogue_contracts ! i)) sel) = Inr ?ps"
    using assms(2) catalogue_contract_generated(3,4) by (auto simp: bind_contracts_Inr catalogue_descriptor_def)
  moreover have "check_providers [] ?ps = Inr ()"
    using assms(1,2) catalogue_contract_generated(1) catalogue_selection_distinct [of sel]
    by (auto simp: check_providers_Inr comp_def)
  moreover have "check_dependencies [] (map chosen choices) = Inr ()"
    using choices_valid [OF assms(3)] assms(4) by (simp add: check_dependencies_Inr)
  moreover have "max_concurrent None = Inr 32" by (simp add: max_concurrent_Inr)
  ultimately have defined: "definePlugin opts = Inr ?d"
    unfolding assms(5) definePlugin_def by (simp add: check_config_def)
  have "own_comparisons proto ?d (redigest f g initialize) = own_comparisons proto ?d initialize"
    for proto initialize f g
    by (rule own_comparisons_redigest)
      (use assms(2,3) catalogue_contract_generated(2) in
        \<open>auto simp: def_dependency_list_def declare_dependency_def catalogue_descriptor_def\<close>)
  then show ?thesis
    using defined unfolding validateDefinition_own by (simp add: comp_def split: option.split)
qed

text \<open>A session for a Plugin with two contracts and one dependency, under a digest, and a protocol
  package whose profile check refuses empty digests.\<close>

definition catalogue_endpoint :: "string \<Rightarrow> string \<Rightarrow> nat \<Rightarrow> provided_endpoint" where
  "catalogue_endpoint digest name i = \<lparr>pe_endpoint_id = name, pe_capability_id = capability_id (catalogue_descriptor i),
     pe_descriptor_version = descriptor_version (catalogue_descriptor i), pe_descriptor_digest = digest\<rparr>"

definition catalogue_session :: "string \<Rightarrow> initialize_params" where
  "catalogue_session digest = (sample_initialize ''t'')
     \<lparr>required_declarations := [\<lparr>rd_requirement_id = ''jobs'', rd_cardinality = ''one'',
        rd_capability_id = capability_id (catalogue_descriptor 7),
        rd_descriptor_version = descriptor_version (catalogue_descriptor 7), rd_descriptor_digest = digest\<rparr>],
      provided_endpoints := [catalogue_endpoint digest ''a'' 0, catalogue_endpoint digest ''b'' 24]\<rparr>"

definition strict_authoring :: authoring_protocol where
  "strict_authoring = sample_authoring
     \<lparr>validateInitializeForRuntimeProfile := (\<lambda>initialize.
        if list_ex (\<lambda>p. pe_descriptor_digest p = []) (provided_endpoints initialize)
        then Some (ErrorObject ''digest required'') else None)\<rparr>"

lemma catalogue_session_digest: "catalogue_session x = redigest (\<lambda>_. x) (\<lambda>_. x) (catalogue_session y)"
  by (simp add: catalogue_session_def redigest_def catalogue_endpoint_def)

lemma catalogue_session_accepted:
  assumes "map provider_descriptor_of (def_providers d) = map catalogue_descriptor [0, 24]"
    "def_dependencies d = Some [(''jobs'', required_dependency (catalogue_contracts ! 7) None)]"
  shows "own_comparisons strict_authoring d (catalogue_session x) = Inr ()"
proof -
  have places: "length catalogue_contracts = 25" by (simp add: catalogue_contracts_def capability_catalogue_def)
  have "capability_id (catalogue_descriptor 0) \<noteq> capability_id (catalogue_descriptor 24)"
    using catalogue_selection_distinct [of "[0, 24]"] places by fastforce
  moreover have "descriptor_digest (catalogue_descriptor i) = None" if "i \<in> {0, 7, 24}" for i
    using catalogue_contract_generated(2) [of i] that places by auto
  moreover have "length (def_providers d) = 2" using arg_cong [OF assms(1), of length] by simp
  ultimately show ?thesis
    using assms
    by (simp add: own_comparisons_def validateDefinition_def strict_authoring_def sample_authoring_def catalogue_session_def
        sample_initialize_def def_dependency_list_def declared_id_def required_dependency_def declare_dependency_def
        dependency_id_def js_sort_def requirement_matches_def endpoint_matches_def digest_matches_def
        catalogue_endpoint_def catalogue_descriptor_def Let_def)
qed

theorem catalogue_plugins_witness:
  "\<exists>d. definePlugin \<lparr>provides = Some (map (\<lambda>i. gc_contract (catalogue_contracts ! i)) [0, 24]), providers = None,
      dependencies = Some [(''jobs'', required_dependency (catalogue_contracts ! 7) None)], config = None,
      configurationSchema = None, has_create = True, has_stop = False, maxConcurrentRequests = None\<rparr> = Inr d \<and>
    validateDefinition strict_authoring d (catalogue_session ''x'') = Inr () \<and>
    validateDefinition strict_authoring d (catalogue_session ''y'') = Inr () \<and>
    validateDefinition strict_authoring d (catalogue_session []) = Inl (ErrorObject ''digest required'')"
proof -
  have places: "length catalogue_contracts = 25" by (simp add: catalogue_contracts_def capability_catalogue_def)
  let ?choices = "[(''jobs'', 7, ''one'', None)] :: catalogue_choice list"
  have "\<forall>c \<in> set ?choices. valid_choice c" "distinct (map choice_id ?choices)"
    "distinct [0, 24 :: nat]" "\<forall>i \<in> set [0, 24]. i < length catalogue_contracts"
    by (simp_all add: places)
  then obtain d where d: "definePlugin \<lparr>provides = Some (map (\<lambda>i. gc_contract (catalogue_contracts ! i)) [0, 24]),
      providers = None, dependencies = Some (map chosen ?choices), config = None, configurationSchema = None,
      has_create = True, has_stop = False, maxConcurrentRequests = None\<rparr> = Inr d"
    "map provider_descriptor_of (def_providers d) = map catalogue_descriptor [0, 24]"
    "def_dependencies d = Some (map chosen ?choices)"
    "\<And>proto initialize f g. validateDefinition proto d (redigest f g initialize) =
       (case validateInitializeForRuntimeProfile proto (redigest f g initialize) of
          Some e \<Rightarrow> Inl e | None \<Rightarrow> own_comparisons proto d initialize)"
    using catalogue_plugins [of "[0, 24]" ?choices _ True False, OF _ _ _ _ refl] by metis
  have deps: "map chosen ?choices = [(''jobs'', required_dependency (catalogue_contracts ! 7) None)]"
    by (simp add: required_dependency_def)
  have checked: "validateDefinition strict_authoring d (catalogue_session x) =
      (if x = [] then Inl (ErrorObject ''digest required'') else Inr ())" for x
    using d(4) [of strict_authoring "\<lambda>_. x" "\<lambda>_. x" "catalogue_session ''z''"]
      catalogue_session_accepted [OF d(2) d(3) [unfolded deps], of "''z''"]
    by (simp add: catalogue_session_digest [of x "''z''", symmetric])
      (simp add: strict_authoring_def catalogue_session_def catalogue_endpoint_def)
  show ?thesis using checked by (intro exI [of _ d]) (simp add: d(1) [unfolded deps, simplified])
qed

end
