(* ===== verification/Spec2Isabelle.thy ===== *)
theory Spec2Isabelle
  imports Extraction_Build Server_Properties Server_Wire Process_Outcomes Authoring_Outcomes
    Stream_Results Event_Properties Catalogue_Plugin
begin

text \<open>
  Verification of the Bun plugin runtime of the Lenso adapter
  (\<open>src/packages/lenso-bun-plugin/src\<close>), of the generated Capability bindings it works with
  (\<open>src/packages/lenso-bun/src/capabilities\<close>) and of the fixture providers (\<open>src/fixtures/bun\<close>).

  \<^bold>\<open>The program.\<close> A Lenso Plugin is a Bun program that declares what it provides and depends on, and
  is driven by a Host over loopback HTTP. The package has six parts.
  \<^item> Authoring (\<open>authoring.ts\<close>, \<open>definePlugin\<close> and \<open>describePortablePlugin\<close> of \<open>index.ts\<close>):
    the declaration of a Plugin and its portable description.
  \<^item> The JSON-RPC server (\<open>startPlugin\<close> of \<open>index.ts\<close>): handshake, activation, requests with
    deadlines and cancellation, shutdown.
  \<^item> Process V1 (\<open>process-v1.ts\<close>): a control and a data listener, one authenticated handshake, a
    bounded pool of data requests with a queue.
  \<^item> Authoring V2 (\<open>v2.ts\<close>): one authenticated session, construction, invocations, events and
    streams in both directions, calls of user code to the Host, stop.
  \<^item> Build (\<open>build.ts\<close>): validation of build metadata and of the output of a lowering, safe file
    sets, canonical fingerprints.
  \<^item> Extraction (\<open>extract.ts\<close>): the Plugin definition read from the syntax tree of a module, without
    running it; its arguments are what a lowering of the build gets.
  The three servers share the definition of a Plugin, the body readers and the error texts; a
  deployment runs one of them. The package \<open>lenso-bun\<close> adds 25 generated files, one per Capability:
  a typed Provider becomes a binding on JSON values that a server dispatches to, and an invoker on
  JSON values becomes a typed client for user code. Beside the packages stand the fixture providers,
  stand-alone implementations of the wire protocols for chat streams and notification events.

  \<^bold>\<open>The theories and the code.\<close>
  \<^item> \<open>Prelude\<close>: results of code that may throw, insertion-ordered maps and sets, runs of step
    functions, and the interfaces \<open>step_invariant\<close>, \<open>refinement_map\<close>, \<open>id_ledger\<close>,
    \<open>exact_evaluation\<close>.
  \<^item> \<open>Text_Encoding\<close>: UTF-8 decoding as \<open>TextDecoder\<close> does it, UTF-16 order, and the bounded error
    texts \<open>errorMessage\<close> (\<open>index.ts\<close>) and \<open>boundedError\<close> (\<open>process-v1.ts\<close>, \<open>v2.ts\<close>).
  \<^item> \<open>Json\<close>: JSON values, \<open>JSON.stringify\<close>, field access, property order; \<open>Json_Parse\<close>: \<open>JSON.parse\<close>.
  \<^item> \<open>Bounded_Body\<close>: \<open>readBoundedBody\<close> and \<open>readBounded\<close> over streams of chunks.
  \<^item> \<open>Build_Lowering\<close>, \<open>Build_Properties\<close>: all of \<open>build.ts\<close>.
  \<^item> \<open>Static_Extraction\<close>: all of \<open>extract.ts\<close>: syntax trees, symbols, \<open>StaticEvaluator\<close> (\<open>ev_value\<close>,
    \<open>ev_members\<close>, \<open>ev_call\<close>, \<open>ev_constant\<close>, \<open>meaning\<close>, \<open>handler\<close>) and \<open>extractPluginDefinition\<close>.
    \<open>Extraction_Semantics\<close> is the big-step semantics of the static subset and its equivalence with the
    evaluator, \<open>Extraction_Sample\<close> a concrete module, \<open>Extraction_Properties\<close>, \<open>Extraction_Results\<close>
    and \<open>Extraction_Files\<close> hold the properties; \<open>Extraction_Build\<close> relates handler references to
    functions.
  \<^item> \<open>Plugin_Definition\<close>: the authoring helpers, \<open>definePlugin\<close>, \<open>describePortablePlugin\<close>,
    \<open>invokePortablePlugin\<close>, the command line of \<open>serve\<close>.
  \<^item> \<open>Plugin_Server\<close>: \<open>startPlugin\<close>. The record \<open>plugin_server\<close> holds its local variables;
    \<open>server_step\<close> has one event per piece of code between two \<open>await\<close>s. \<open>Server_Properties\<close> and
    \<open>Server_Activation\<close> hold its lemmas, \<open>Server_Wire\<close> connects its frames to their texts.
  \<^item> \<open>Process_V1\<close>: \<open>process-v1.ts\<close>, with \<open>process_server\<close> for the variables of \<open>startProcessV1\<close> and
    \<open>process_step\<close> for its two listeners, timers and settlements. \<open>Process_Sample\<close> is a concrete
    session, \<open>Process_Properties\<close> and \<open>Process_Outcomes\<close> hold the lemmas.
  \<^item> \<open>Authoring_V2\<close>: the pure functions of \<open>v2.ts\<close>; \<open>Authoring_Session\<close>: class
    \<open>BunAuthoringServer\<close>, with \<open>v2_server\<close> for its private fields and \<open>v2_step\<close> for requests,
    settlements of user code, callbacks to the Host and the calls of user code. What a method keeps
    across an \<open>await\<close> is a continuation \<open>v2_cont\<close> under a token. \<open>Authoring_Spec\<close> is the abstract
    specification of a session, \<open>Authoring_Refinement\<close> shows that the server refines it,
    \<open>Authoring_Sample\<close> is a concrete session, \<open>Authoring_Properties\<close> and \<open>Authoring_Outcomes\<close> hold
    the properties.
  \<^item> \<open>Capability_Binding\<close>: what the generated files repeat: the codecs of an operation, the arms of
    \<open>invokeRequest\<close> and \<open>openStream\<close>, the methods of \<open>createClient\<close>, \<open>lowerProviderStream\<close> and the session
    adapters, and the interface \<open>capability\<close> of a file. \<open>Catalogue_Auth\<close>, \<open>Catalogue_Agent\<close> and
    \<open>Catalogue_Services\<close>: the definitions of each file and that it implements the interface.
    \<open>Capability_Catalogue\<close> holds the list of all files and the laws of a client over a Provider,
    \<open>Catalogue_Results\<close> the properties, \<open>Catalogue_Plugin\<close> Plugins made of generated contracts.
  \<^item> \<open>Frame_Transport\<close> and \<open>Fixture_Rpc\<close>: the framed and the JSON-RPC transport of the fixture providers,
    with the interfaces \<open>message_handler\<close>, \<open>message_provider\<close> and \<open>rpc_dispatch\<close>.
  \<^item> \<open>Stream_Provider\<close>: \<open>stream-provider.ts\<close>, with \<open>stream_provider\<close> for its module variables and
    \<open>stream_message\<close>, \<open>stream_rpc\<close> for its two transports; \<open>Stream_Properties\<close>, \<open>Stream_Sample\<close>,
    \<open>Stream_Results\<close> hold its lemmas, a session and its properties. \<open>Event_Provider\<close>:
    \<open>event-provider-core.ts\<close>, with schedules of messages and timers; \<open>Event_Properties\<close> its lemmas.

  \<^bold>\<open>What is shown.\<close>
  \<^item> In every schedule: the JSON-RPC server keeps its limits, retains exactly the identities of the
    latest completed requests, keeps its cancellations and its shutdown; the Process V1 server keeps its pool and queue, admits an identity once,
    attempts one handshake, fails closed; the Authoring V2 server refines its specification, hence
    keeps exact counters, bounds on its work (which exceed two of its limits by the work under way),
    admits an identity once, calls each lifecycle hook once, and runs only an authenticated session
    that matches the definition.
  \<^item> The wire of the JSON-RPC server is transparent: documents are handled as what they print, and
    its frames parse back.
  \<^item> Settlement of user code in each server: which outcome is sent, within which bound, and what
    happens to the identity and the slot.
  \<^item> Exact acceptance of \<open>definePlugin\<close>, \<open>validateDefinition\<close>, \<open>validateProviderIdentity\<close>, the body
    readers, the bootstrap pipe and the extension record.
  \<^item> Build: handlers are used exactly once, generated files are the requested ones and safe, outputs are
    among the allowed providers, package metadata is accepted when it is well formed and survives a
    round trip, the fingerprint ignores the order of its inputs.
  \<^item> Extraction: the evaluator computes a semantics of the static subset whose rules state each check in
    terms of the syntax and the symbols, it refuses cyclic constants, gives one definition whatever the
    interleaving of the evaluations and of the files they visit (or an error), and lists every file it
    read values from. The evaluator is a total function: each reference enters a constant that the
    references around it are not in.
  \<^item> Generated bindings, for all 25 files at once: a client over a Provider gives exactly what the
    Provider gave, for requests, streams and iterables; every outcome of a dispatch is classified; any
    selection of generated contracts is accepted by \<open>definePlugin\<close>.
  \<^item> Fixture providers: the framed transport is transparent, chat streams are FIFO channels within their
    limits and can be drained, accepted notifications are handled once and in order.
  \<^item> Across components, in this theory: an accepted lowering wires each function of an extracted
    declaration once; a Host that answers the published description, with the operations of the
    contracts it names, can activate the Plugin.
  \<^item> Behaviours of the code that its guards or messages do not suggest: overlapping activations and
    initializations, overlapping stream messages, a refused stop that is final, contexts that outlive
    their invocation, lost failure details, an error text over its bound, a constant shared by two arguments
    reported as cyclic, a handler's file that is not listed, handler parameters for an export named
    \<open>__proto__\<close> that are dropped, chat messages lost at the end of a stream, pipelined frames refused,
    descriptor digests of generated contracts that the session check itself does not compare.

  \<^bold>\<open>Parameters.\<close> Code outside the repository is an argument: digests and HMAC, the package
  \<open>@lenso/process-protocol\<close> (records \<open>process_protocol\<close> and \<open>authoring_protocol\<close>), the package
  \<open>@lenso/contract-runtime\<close> (record \<open>contract_runtime\<close>), the binders, validators and clients a server is given, the TypeScript service and the classification of symbols (record
  \<open>evaluator\<close>), clock readings, random bytes and the bound ports. The servers take the parser and the
  numeric conversion of header texts as arguments, so their properties hold for every parser;
  \<open>Json_Parse\<close> is the parser they run, up to the rounding of decimals to Numbers. User code is an
  event that settles with any result or exception. Some properties assume laws of parameters:
  \<open>server_wire_roundtrip\<close> and \<open>framed_transparent\<close>, that rounding is exact on the safe integers,
  \<open>extraction_files_complete\<close>, that the nodes of a syntax tree are in one file, and the properties of a
  generated client over a Provider, that the contract runtime encodes and decodes the values they
  exchange (\<open>portable\<close>, \<open>portable_domain\<close>).

  \<^bold>\<open>Bounds and fuel.\<close> Loops are structural or have a measure. The only fuel is in the printing of a
  JSON number (\<open>Json\<close>): at most 400 scalings by ten, which is more than the decimal exponent of any
  double. Interleavings of the extraction are three functions of the evaluator record: the
  constants held by overlapping evaluations, the argument that fails first, and the turns in which the
  arguments of a call visit files. Counters that the source keeps as numbers or bigints are \<open>int\<close> or \<open>nat\<close>: they count
  requests of one process and stay far below \<open>2 ^ 53\<close>.

  \<^bold>\<open>Not modelled.\<close> The contract types of the generated bindings (they have no code), the request provider of the
  fixtures (it wraps vendored generated codecs in the transports modelled here) and the fixture consumers, the Rust
  crates, and pure input and output (writing the readiness and port lines, binding sockets). A
  binding's synchronous \<open>cancel\<close> is assumed to return, as its type declares.
\<close>

section \<open>From the extraction to the build\<close>

text \<open>C26. 
  A lowering that the build accepts for a provider declaration of an extracted definition wires
  every function of that declaration exactly once: the handler references of its providers are
  pairwise distinct, and correspond one to one to the source spans of the functions that occur
  anywhere in the arguments of the declaration.
\<close>

theorem extracted_functions_lowered_once:
  assumes "extractPluginDefinition project entry = Inr d"
    and "DeclarationArgument pkg exported args sp \<in> set (ex_providers d)"
    and "runLowering lower input allowed = Inr out" "input_arguments input = args"
  shows "distinct (concat (map handler_references (out_providers out))) \<and>
    bij_betw handler_reference (\<Union>a \<in> set args. handler_spans a)
      (set (concat (map handler_references (out_providers out))))"
  using lowered_references [OF assms(3)] extracted_handlers [OF assms(1,2)] assms(4)
  by (auto simp: bij_betw_def handler_reference_inject intro: inj_onI)

definition extracted_input :: lowering_input where
  "extracted_input =
     \<lparr>input_api_version = BUILD_API_VERSION, input_package = sample_package, input_export_name = ''tools'',
      input_arguments =
        [shared_argument, ValueArgument (BArr [Arg shared_argument]) (span_at ''p.ts'' 216 224),
         HandlerArgument ''p.ts:226:232'' (span_at ''p.ts'' 226 232)],
      input_span = span_at ''p.ts'' 200 234\<rparr>"

theorem extracted_functions_lowered_once_witness:
  "concat (map handler_references (out_providers sample_result)) = [''p.ts:226:232''] \<and>
   bij_betw handler_reference {span_at ''p.ts'' 226 232} {''p.ts:226:232''}"
proof -
  have "runLowering (\<lambda>_. output_json sample_result) extracted_input sample_allowed = Inr sample_result"
    by (rule sample_lowering_for)
      (simp_all add: extracted_input_def shared_argument_def collectHandlerReferences_def set_add_def)
  from extracted_functions_lowered_once [OF sample_extracted _ this] show ?thesis
    by (simp add: sample_definition_def extracted_input_def shared_argument_def sample_result_def)
qed

section \<open>From the description to the activation\<close>

lemma described_ids:
  "mapM describe_requirement deps = Inr rs \<Longrightarrow> map requirement_id rs = map requirement_of deps"
  by (induction deps arbitrary: rs)
    (auto simp: result_simps describe_requirement_def requirement_of_def split: sum.splits prod.splits)

lemma described_answered:
  assumes "mapM describe_requirement deps = Inr rs" "\<forall>r \<in> set rs. requirement_cardinality r = ''one''"
    "\<forall>dep \<in> set deps. \<forall>rid b c. dependencyDefinition (fst dep) (snd dep) = Inr (rid, b, c) \<longrightarrow> import_for imports rid b"
  shows "list_all (dependency_answered imports) deps"
  using assms
  by (induction deps arbitrary: rs)
    (auto simp: result_simps describe_requirement_def dependency_answered_def split: sum.splits prod.splits)

text \<open>
  A description names the capability and the version of each requirement, not its operations: these
  are in the contracts that the Plugin and the Host share, here a table by capability and version.
  A Plugin follows the contracts when the descriptors of its dependencies have their operations. A
  Host answers a description when its imports are those of the published requirements: for each
  requirement one with its identity, its capability and version, and the operations of the contract,
  and no others.
\<close>

type_synonym contract_tables = "string \<Rightarrow> string \<Rightarrow> string list \<times> string list \<times> string list"

definition follows_contracts :: "contract_tables \<Rightarrow> plugin_definition \<Rightarrow> bool" where
  "follows_contracts tables d \<longleftrightarrow>
     (\<forall>dep \<in> set (def_dependency_list d). \<forall>rid b c. dependencyDefinition (fst dep) (snd dep) = Inr (rid, b, c) \<longrightarrow>
        tables (capability_id b) (descriptor_version b) = (operations b, stream_operations b, event_operations b))"

definition answers_requirement :: "contract_tables \<Rightarrow> portable_requirement \<Rightarrow> json \<Rightarrow> bool" where
  "answers_requirement tables r i \<longleftrightarrow>
     field i ''requirement_id'' = Some (JStr (requirement_id r)) \<and>
     field i ''capability_id'' = Some (JStr (requirement_capability_id r)) \<and>
     field i ''descriptor_version'' = Some (JStr (requirement_descriptor_version r)) \<and>
     (case tables (requirement_capability_id r) (requirement_descriptor_version r) of (requests, streams, events) \<Rightarrow>
        field i ''operations'' = Some (JArr (map JStr requests)) \<and>
        field i ''stream_operations'' = Some (JArr (map JStr streams)) \<and>
        field i ''event_operations'' = Some (JArr (map JStr events)))"

definition answers_description :: "contract_tables \<Rightarrow> portable_descriptor \<Rightarrow> json list \<Rightarrow> bool" where
  "answers_description tables p imports \<longleftrightarrow>
     (\<forall>r \<in> set (required_capabilities p). \<exists>i \<in> set imports. answers_requirement tables r i) \<and>
     (\<forall>i \<in> set imports. \<exists>r \<in> set (required_capabilities p). answers_requirement tables r i)"

lemma described_requirement:
  "mapM describe_requirement deps = Inr rs \<Longrightarrow> dep \<in> set deps \<Longrightarrow>
   dependencyDefinition (fst dep) (snd dep) = Inr (rid, b, c) \<Longrightarrow>
   \<exists>r \<in> set rs. requirement_id r = rid \<and> requirement_capability_id r = capability_id b \<and>
     requirement_descriptor_version r = descriptor_version b"
  by (induction deps arbitrary: rs) (auto simp: result_simps describe_requirement_def)

lemma answers_same_endpoint:
  assumes "answers_requirement tables r i" "requirement_capability_id r = capability_id b"
    "requirement_descriptor_version r = descriptor_version b"
    "tables (capability_id b) (descriptor_version b) = (operations b, stream_operations b, event_operations b)"
  shows "sameEndpoints [i] [b] = Inr True"
proof -
  have "i \<noteq> JNull" using assms(1) by (auto simp: answers_requirement_def)
  then show ?thesis
    using assms by (simp add: answers_requirement_def sameEndpoints_def same_endpoint_def sameStrings_def and_then_def)
qed

lemma answered_import:
  assumes rs: "mapM describe_requirement (def_dependency_list d) = Inr (required_capabilities p)"
    and unique: "distinct (map requirement_id (required_capabilities p))"
    and contracts: "follows_contracts tables d" "answers_description tables p imports"
    and dep: "dep \<in> set (def_dependency_list d)" "dependencyDefinition (fst dep) (snd dep) = Inr (rid, b, c)"
  shows "import_for imports rid b"
proof -
  obtain r where r: "r \<in> set (required_capabilities p)" "requirement_id r = rid"
      "requirement_capability_id r = capability_id b" "requirement_descriptor_version r = descriptor_version b"
    using described_requirement [OF rs dep] by blast
  have tables: "tables (capability_id b) (descriptor_version b) = (operations b, stream_operations b, event_operations b)"
    using contracts(1) dep by (auto simp: follows_contracts_def)
  have "sameEndpoints [i] [b] = Inr True"
    if i: "i \<in> set imports" "field i ''requirement_id'' = Some (JStr rid)" for i
  proof -
    obtain r' where r': "r' \<in> set (required_capabilities p)" "answers_requirement tables r' i"
      using contracts(2) i(1) by (auto simp: answers_description_def)
    then have "requirement_id r' = requirement_id r"
      using i(2) r(2) by (simp add: answers_requirement_def)
    then have "r' = r" using unique r(1) r'(1) by (simp add: distinct_map inj_on_def)
    then show ?thesis using answers_same_endpoint [OF r'(2)] r(3,4) tables by simp
  qed
  moreover have "\<exists>i \<in> set imports. field i ''requirement_id'' = Some (JStr rid)"
    using contracts(2) r(1,2) by (auto simp: answers_description_def answers_requirement_def)
  ultimately show ?thesis by (simp add: import_for_def)
qed

text \<open>C27. 
  A Host that answers the published description of a Plugin can activate it. The description lists
  requirements of cardinality one with distinct identities; the Plugin's dependencies have the
  operations of the contracts they name; the Host's activation has a local URL and a token, and its
  imports are those of the published requirements, with the operations of the same contracts; and no
  binding's \<open>createClient\<close> throws. Then every dependency is bound, in order, to an import with the
  identity the description gave it.
\<close>

theorem described_requirements_activate:
  assumes "describePortablePlugin d = Inr p" "start_config d user opts = Inr cfg"
    and "user_createClient user = (\<lambda>_. None)"
    and "\<forall>r \<in> set (required_capabilities p). requirement_cardinality r = ''one''"
    and "distinct (map requirement_id (required_capabilities p))"
    and "\<not> imports_invalid activation" "field activation ''imports'' = Some (JArr imports)"
    and "follows_contracts tables d" "answers_description tables p imports"
  shows "\<exists>clients. createDependencyClients cfg activation = Inr clients \<and>
    map fst clients = map fst (def_dependency_list d) \<and>
    map (\<lambda>c. field (snd c) ''requirement_id'') clients =
      map (\<lambda>r. Some (JStr (requirement_id r))) (required_capabilities p)"
proof -
  have rs: "mapM describe_requirement (def_dependency_list d) = Inr (required_capabilities p)"
    using assms(1) by (auto simp: describePortablePlugin_def result_simps)
  have cfg: "sc_dependencies cfg = def_dependency_list d" "sc_createClient cfg = (\<lambda>_. None)"
    using assms(2,3)
    by (cases "concreteProviders (def_providers d)"; auto simp: start_config_def result_simps)+
  have listed: "map snd (imports_of activation) = imports"
    using assms(7) by (simp add: imports_of_def)
  have "list_all (dependency_answered imports) (def_dependency_list d)"
    using answered_import [OF rs assms(5,8,9)] by (intro described_answered [OF rs assms(4)]) blast
  then have "\<exists>clients. bind_clients (\<lambda>_. None) (imports_of activation) [] (def_dependency_list d) = Inr clients \<and>
      map fst clients = map fst (def_dependency_list d) \<and>
      map (\<lambda>c. field (snd c) ''requirement_id'') clients =
        map (\<lambda>dep. Some (JStr (requirement_of dep))) (def_dependency_list d)"
    using described_ids [OF rs] assms(5) listed by (intro bind_clients_complete) simp_all
  moreover have "JNull \<notin> set imports"
    using assms(9) by (auto simp: answers_description_def answers_requirement_def)
  then have "JNull \<notin> snd ` set (imports_of activation)"
    using listed by (metis set_map)
  moreover have "map (\<lambda>dep. Some (JStr (requirement_of dep))) (def_dependency_list d) =
      map (\<lambda>r. Some (JStr (requirement_id r))) (required_capabilities p)"
    using arg_cong [OF described_ids [OF rs], of "map (\<lambda>x. Some (JStr x))"] by (simp add: comp_def)
  ultimately show ?thesis
    using assms(6) cfg by (simp add: createDependencyClients_def)
qed

definition described_definition :: plugin_definition where
  "described_definition =
     \<lparr>def_providers = [ProviderBinding sample_binding],
      def_dependencies = Some [(''db'', LegacyBinding sample_descriptor)], def_config = None,
      def_configurationSchema = None, def_create = False, def_stop = False, def_maxConcurrentRequests = 32\<rparr>"

definition described_start :: "user_functions \<times> start_options" where
  "described_start =
     (\<lparr>user_decodeConfig = None, user_parseConfig = None, user_createClient = (\<lambda>_. None)\<rparr>,
      \<lparr>opt_maxFrameBytes = None, opt_maxRetiredRequestIds = None, opt_expectedEndpoints = None,
       opt_managedLifecycle = Some True\<rparr>)"

theorem described_requirements_activate_witness:
  "\<exists>p cfg clients. describePortablePlugin described_definition = Inr p \<and>
     start_config described_definition (fst described_start) (snd described_start) = Inr cfg \<and>
     createDependencyClients cfg (JObj sample_activation) = Inr clients \<and> map fst clients = [''db''] \<and>
     map (\<lambda>c. field (snd c) ''requirement_id'') clients = [Some (JStr ''db'')]"
proof -
  have deps: "def_dependency_list described_definition = [(''db'', LegacyBinding sample_descriptor)]"
    by (simp add: described_definition_def def_dependency_list_def)
  obtain p where p: "describePortablePlugin described_definition = Inr p"
      "required_capabilities p =
        [\<lparr>requirement_id = ''db'', requirement_capability_id = capability_id sample_descriptor,
          requirement_descriptor_version = descriptor_version sample_descriptor,
          requirement_cardinality = ''one''\<rparr>]"
    by (simp add: describePortablePlugin_def deps concreteProviders_def describe_requirement_def
        dependencyDefinition_def) (simp add: described_definition_def)
  obtain cfg where cfg: "start_config described_definition (fst described_start) (snd described_start) = Inr cfg"
    by (simp add: start_config_def described_start_def described_definition_def concreteProviders_def
        positive_option_def)
  let ?tables = "\<lambda>_ _. (operations sample_descriptor, stream_operations sample_descriptor, event_operations sample_descriptor)"
  have "follows_contracts ?tables described_definition"
    by (simp add: follows_contracts_def deps dependencyDefinition_def)
  moreover have "answers_description ?tables p [sample_import]"
    by (simp add: answers_description_def answers_requirement_def p(2) sample_import_def field_def descriptor_json_def
        sample_descriptor_def)
  moreover have "\<not> imports_invalid (JObj sample_activation)"
    by (simp add: imports_invalid_def sample_activation_def field_def is_text_def text_of_def starts_with_def
        js_length_token)
  ultimately show ?thesis
    using described_requirements_activate [OF p(1) cfg, of "JObj sample_activation" "[sample_import]" ?tables] p cfg
    by (simp add: deps described_start_def sample_activation_def field_def)
qed

end
